(* ===== verification/Js_Prelude.thy ===== *)
theory Js_Prelude
  imports Complex_Main "HOL-Library.Sublist" "HOL-Library.Code_Target_Nat"
begin

section \<open>Prelude: JavaScript strings, digits and generic list facts\<close>

text \<open>
  A JavaScript string is a sequence of UTF-16 code units.  It is modelled as the list of those
  units, so that the characters the sources test for (the ellipsis U+2026, the closing quotes
  U+201D and U+2019, Vietnamese letters) have the length one the code relies on.  String
  literals of the sources are written \<open>js ''...''\<close>.  The theory also holds the character classes,
  \<open>trim\<close>, case conversion, decimal digits, and the list lemmas the components share.
\<close>

type_synonym ustr = "nat list"

named_theorems js_str \<open>evaluation of string operations on literals\<close>
named_theorems js_defs \<open>definitions of the coercions of JavaScript values\<close>
named_theorems step_simps \<open>unfolding of the step functions of the components\<close>
named_theorems says_intros \<open>counting the answers of a program\<close>
named_theorems keeps_intros \<open>invariants of the variables of a component\<close>
named_theorems adds_intros \<open>what a program may add to a log\<close>
named_theorems holds_intros \<open>invariants of the variables and the world\<close>

definition js :: "string \<Rightarrow> ustr" where
  "js s = map of_char s"

lemma js_eq_iff [simp]: "js s = js t \<longleftrightarrow> s = t"
  by (auto simp: js_def inj_on_def intro!: map_injective injI)

lemma js_Nil_iff [simp]: "js s = [] \<longleftrightarrow> s = []" "[] = js s \<longleftrightarrow> s = []"
  by (auto simp: js_def)

lemma js_append: "js s @ js t = js (s @ t)"
  by (simp add: js_def)

lemma length_js [simp]: "length (js s) = length s"
  by (simp add: js_def)

lemma js_Cons: "js (c # s) = of_char c # js s"
  by (simp add: js_def)

declare js_Cons [js_str]

lemma js_Nil [js_str]: "js [] = []"
  by (simp add: js_def)

subsection \<open>Character classes\<close>

text \<open>White space as \<open>trim\<close> and the class \<open>\s\<close> of a regular expression see it.\<close>

definition is_ws :: "nat \<Rightarrow> bool" where
  "is_ws c \<longleftrightarrow> (9 \<le> c \<and> c \<le> 13) \<or> c = 32 \<or> c = 160 \<or> c = 5760 \<or> (8192 \<le> c \<and> c \<le> 8202) \<or>
     c = 8232 \<or> c = 8233 \<or> c = 8239 \<or> c = 8287 \<or> c = 12288 \<or> c = 65279"

definition is_digit :: "nat \<Rightarrow> bool" where
  "is_digit c \<longleftrightarrow> 48 \<le> c \<and> c \<le> 57"

definition is_lower_ascii :: "nat \<Rightarrow> bool" where
  "is_lower_ascii c \<longleftrightarrow> 97 \<le> c \<and> c \<le> 122"

definition is_upper_ascii :: "nat \<Rightarrow> bool" where
  "is_upper_ascii c \<longleftrightarrow> 65 \<le> c \<and> c \<le> 90"

declare is_ws_def [js_str] is_digit_def [js_str] is_lower_ascii_def [js_str] is_upper_ascii_def [js_str]

lemma digit_not_ws [simp]: "is_digit c \<Longrightarrow> \<not> is_ws c"
  by (simp add: is_digit_def is_ws_def)

subsection \<open>trim\<close>

definition trimStart :: "ustr \<Rightarrow> ustr" where
  "trimStart s = dropWhile is_ws s"

definition trimEnd :: "ustr \<Rightarrow> ustr" where
  "trimEnd s = rev (dropWhile is_ws (rev s))"

definition trim :: "ustr \<Rightarrow> ustr" where
  "trim s = trimEnd (trimStart s)"

lemma trim_Nil [simp]: "trim [] = []"
  by (simp add: trim_def trimStart_def trimEnd_def)

lemma dropWhile_ws_idle: "\<forall>c \<in> set s. \<not> is_ws c \<Longrightarrow> dropWhile is_ws s = s"
  by (cases s) auto

lemma trim_no_ws: "\<forall>c \<in> set s. \<not> is_ws c \<Longrightarrow> trim s = s"
  by (simp add: trim_def trimStart_def trimEnd_def dropWhile_ws_idle)

lemma trimEnd_idem: "trimEnd (trimEnd s) = trimEnd s"
  by (simp add: trimEnd_def dropWhile_idem)

lemma hd_trimStart: "trimStart s \<noteq> [] \<Longrightarrow> \<not> is_ws (hd (trimStart s))"
  unfolding trimStart_def by (rule hd_dropWhile)

lemma trimEnd_prefix: "\<exists>t. s = trimEnd s @ t"
proof -
  have "rev s = takeWhile is_ws (rev s) @ dropWhile is_ws (rev s)" by simp
  then have "s = rev (dropWhile is_ws (rev s)) @ rev (takeWhile is_ws (rev s))"
    by (metis rev_append rev_rev_ident)
  then show ?thesis by (auto simp: trimEnd_def)
qed

lemma trim_idem [simp]: "trim (trim s) = trim s"
proof (cases "trim s = []")
  case True
  then show ?thesis by simp
next
  case False
  obtain t where t: "trimStart s = trim s @ t"
    using trimEnd_prefix [of "trimStart s"] by (auto simp: trim_def)
  from False t have ne: "trimStart s \<noteq> []" and "hd (trimStart s) = hd (trim s)" by auto
  with hd_trimStart [OF ne] have "\<not> is_ws (hd (trim s))" by simp
  with False have "trimStart (trim s) = trim s"
    by (cases "trim s") (simp_all add: trimStart_def)
  then show ?thesis by (simp add: trim_def trimEnd_idem)
qed

lemma set_trim: "set (trim s) \<subseteq> set s"
  by (auto simp: trim_def trimStart_def trimEnd_def dest!: set_dropWhileD)

lemma length_trim: "length (trim s) \<le> length s"
  unfolding trim_def trimStart_def trimEnd_def
  by (metis length_dropWhile_le length_rev order_trans)

subsection \<open>Case conversion\<close>

text \<open>
  \<open>toLowerCase\<close> is modelled on ASCII, Latin-1, Latin Extended-A (but the dotted capital I) and the
  Vietnamese letters of Latin Extended-B and Latin Extended Additional; other code units are
  left as they are.
\<close>

definition has_lower :: "nat \<Rightarrow> bool" where
  "has_lower c \<longleftrightarrow>
     (65 \<le> c \<and> c \<le> 90) \<or> (192 \<le> c \<and> c \<le> 222 \<and> c \<noteq> 215) \<or>
     (256 \<le> c \<and> c \<le> 311 \<and> c \<noteq> 304 \<and> even c) \<or> (330 \<le> c \<and> c \<le> 375 \<and> even c) \<or>
     (313 \<le> c \<and> c \<le> 328 \<and> odd c) \<or> c = 376 \<or> (377 \<le> c \<and> c \<le> 382 \<and> odd c) \<or>
     c = 416 \<or> c = 431 \<or>
     (7680 \<le> c \<and> c \<le> 7829 \<and> even c) \<or> (7840 \<le> c \<and> c \<le> 7935 \<and> even c)"

definition lower_char :: "nat \<Rightarrow> nat" where
  "lower_char c =
     (if \<not> has_lower c then c else if c \<le> 222 then c + 32 else if c = 376 then 255 else c + 1)"

definition toLowerCase :: "ustr \<Rightarrow> ustr" where
  "toLowerCase s = map lower_char s"

definition toUpperCase :: "ustr \<Rightarrow> ustr" where
  "toUpperCase s = map (\<lambda>c. if is_lower_ascii c then c - 32 else c) s"

declare lower_char_def [js_str] has_lower_def [js_str] toLowerCase_def [js_str] toUpperCase_def [js_str]

lemma has_lower_lower_char: "\<not> has_lower (lower_char c)"
proof (cases "has_lower c \<and> c \<noteq> 376")
  case False
  then show ?thesis by (auto simp: lower_char_def) (simp add: has_lower_def)
next
  case True
  show ?thesis
  proof (cases "c \<le> 222")
    case le: True
    with True have "(65 \<le> c \<and> c \<le> 90) \<or> (192 \<le> c \<and> c \<le> 222)" by (auto simp: has_lower_def)
    with True le show ?thesis by (auto simp: lower_char_def) (simp_all add: has_lower_def)
  next
    case gt: False
    with True have "lower_char c = c + 1" by (simp add: lower_char_def)
    moreover from True gt have "\<not> has_lower (c + 1)"
      by (auto simp: has_lower_def)
    ultimately show ?thesis by simp
  qed
qed

lemma lower_char_idem [simp]: "lower_char (lower_char c) = lower_char c"
  using has_lower_lower_char [of c] by (simp add: lower_char_def [of "lower_char c"])

lemma toLowerCase_idem [simp]: "toLowerCase (toLowerCase s) = toLowerCase s"
  by (simp add: toLowerCase_def)

lemma has_lower_not_ws: "has_lower c \<Longrightarrow> \<not> is_ws c \<and> \<not> is_ws (lower_char c)"
  by (auto simp: has_lower_def lower_char_def is_ws_def)

lemma lower_char_ws [simp]: "is_ws (lower_char c) \<longleftrightarrow> is_ws c"
  using has_lower_not_ws [of c] by (cases "has_lower c") (auto simp: lower_char_def)

lemma dropWhile_map_lower: "dropWhile is_ws (map lower_char s) = map lower_char (dropWhile is_ws s)"
  by (induction s) auto

lemma trim_toLowerCase: "trim (toLowerCase s) = toLowerCase (trim s)"
  by (simp add: trim_def trimStart_def trimEnd_def toLowerCase_def dropWhile_map_lower rev_map)

subsection \<open>Substrings\<close>

definition slice_from :: "ustr \<Rightarrow> nat \<Rightarrow> ustr" where
  "slice_from s i = drop i s"

definition slice :: "ustr \<Rightarrow> nat \<Rightarrow> nat \<Rightarrow> ustr" where
  "slice s i j = take (j - i) (drop i s)"

definition startsWith :: "ustr \<Rightarrow> ustr \<Rightarrow> bool" where
  "startsWith s p \<longleftrightarrow> take (length p) s = p"

definition endsWith :: "ustr \<Rightarrow> ustr \<Rightarrow> bool" where
  "endsWith s p \<longleftrightarrow> length p \<le> length s \<and> drop (length s - length p) s = p"

fun str_includes :: "ustr \<Rightarrow> ustr \<Rightarrow> bool" where
  "str_includes [] p = (p = [])"
| "str_includes (c # s) p = (startsWith (c # s) p \<or> str_includes s p)"

text \<open>\<open>s.indexOf(c)\<close> for a single code unit, searching from an offset.\<close>

fun index_of :: "nat \<Rightarrow> ustr \<Rightarrow> nat option" where
  "index_of c [] = None"
| "index_of c (x # s) = (if x = c then Some 0 else map_option Suc (index_of c s))"

fun join :: "ustr \<Rightarrow> ustr list \<Rightarrow> ustr" where
  "join sep [] = []"
| "join sep [x] = x"
| "join sep (x # y # xs) = x @ sep @ join sep (y # xs)"

text \<open>\<open>s.split(c)\<close> for a single code unit.\<close>

fun split_on :: "nat \<Rightarrow> ustr \<Rightarrow> ustr list" where
  "split_on c [] = [[]]"
| "split_on c (x # s) =
     (if x = c then [] # split_on c s
      else case split_on c s of [] \<Rightarrow> [[x]] | w # ws \<Rightarrow> (x # w) # ws)"

declare startsWith_def [js_str] slice_def [js_str] slice_from_def [js_str] endsWith_def [js_str]

lemma startsWith_iff_prefix: "startsWith s p \<longleftrightarrow> prefix p s"
  by (metis append_eq_conv_conj prefix_def startsWith_def)

lemma startsWith_refl [simp]: "startsWith s s"
  by (simp add: startsWith_def)

lemma startsWith_Nil [simp]: "startsWith s []"
  by (simp add: startsWith_def)

lemma index_of_Some: "index_of c s = Some i \<Longrightarrow> i < length s \<and> s ! i = c"
  by (induction s arbitrary: i) (auto split: if_splits)

lemma split_on_nonempty [simp]: "split_on c s \<noteq> []"
  by (induction s) (auto split: list.splits)

lemma join_split_on: "join [c] (split_on c s) = s"
proof (induction s)
  case Nil
  then show ?case by simp
next
  case (Cons x s)
  then show ?case
    by (cases "split_on c s" rule: list.exhaust; cases "tl (split_on c s)") auto
qed

subsection \<open>Decimal digits\<close>

fun nat_str :: "nat \<Rightarrow> ustr" where
  "nat_str n = (if n < 10 then [48 + n] else nat_str (n div 10) @ [48 + n mod 10])"

declare nat_str.simps [simp del]

definition digits_val :: "ustr \<Rightarrow> nat" where
  "digits_val s = foldl (\<lambda>a c. 10 * a + (c - 48)) 0 s"

lemma nat_str_digits: "list_all is_digit (nat_str n)"
proof (induction n rule: nat_str.induct)
  case (1 n)
  then show ?case
    by (cases "n < 10") (auto simp: nat_str.simps [of n] is_digit_def [of "48 + _"])
qed

lemma nat_str_nonempty [simp]: "nat_str n \<noteq> []"
  by (subst nat_str.simps) simp

lemma digits_val_nat_str [simp]: "digits_val (nat_str n) = n"
proof (induction n rule: nat_str.induct)
  case (1 n)
  then show ?case
    by (subst nat_str.simps) (auto simp: digits_val_def)
qed

lemma nat_str_inj [simp]: "nat_str m = nat_str n \<longleftrightarrow> m = n"
  by (metis digits_val_nat_str)

lemma trim_nat_str [simp]: "trim (nat_str n) = nat_str n"
  using nat_str_digits [of n] by (intro trim_no_ws) (auto simp: list_all_iff)

definition int_str :: "int \<Rightarrow> ustr" where
  "int_str i = (if i < 0 then 45 # nat_str (nat (- i)) else nat_str (nat i))"

subsection \<open>List facts shared by the components\<close>

lemma find_Some_mem: "find P xs = Some x \<Longrightarrow> x \<in> set xs \<and> P x"
  by (induction xs) (auto split: if_splits)

lemma find_append: "find P (xs @ ys) = (case find P xs of None \<Rightarrow> find P ys | Some x \<Rightarrow> Some x)"
  by (induction xs) auto

lemma find_None_iff_all: "find P xs = None \<longleftrightarrow> (\<forall>x \<in> set xs. \<not> P x)"
  by (induction xs) auto

end
