(* ===== verification/Js_Values.thy ===== *)
theory Js_Values
  imports Js_Prelude
begin

section \<open>JavaScript values and coercions\<close>

text \<open>
  Messages, rows of the database, stored objects and parsed JSON are JavaScript values whose
  shape the code tests at run time with \<open>?.\<close>, \<open>??\<close>, \<open>||\<close>, \<open>String\<close> and \<open>Number\<close>.  They are the
  datatype below; functions, dates and other host objects do not occur in it.  A finite number is
  an exact rational: the rounding of a decimal literal to the nearest double is not modelled.
\<close>

datatype jnum = JFin rat | JPosInf | JNegInf | JNaN

datatype jsval =
    JUndef
  | JNull
  | JBool bool
  | JNum jnum
  | JStr ustr
  | JArr "jsval list"
  | JObj "(ustr \<times> jsval) list"

abbreviation JInt :: "int \<Rightarrow> jsval" where
  "JInt i \<equiv> JNum (JFin (of_int i))"

subsection \<open>Truthiness and the short-circuit operators\<close>

fun truthy :: "jsval \<Rightarrow> bool" where
  "truthy JUndef = False"
| "truthy JNull = False"
| "truthy (JBool b) = b"
| "truthy (JNum JNaN) = False"
| "truthy (JNum (JFin q)) = (q \<noteq> 0)"
| "truthy (JNum _) = True"
| "truthy (JStr s) = (s \<noteq> [])"
| "truthy (JArr _) = True"
| "truthy (JObj _) = True"

fun nullish :: "jsval \<Rightarrow> bool" where
  "nullish JUndef = True"
| "nullish JNull = True"
| "nullish _ = False"

text \<open>\<open>a || b\<close> and \<open>a ?? b\<close>; the operands are values without effects.\<close>

definition js_or :: "jsval \<Rightarrow> jsval \<Rightarrow> jsval" where
  "js_or a b = (if truthy a then a else b)"

definition js_coalesce :: "jsval \<Rightarrow> jsval \<Rightarrow> jsval" where
  "js_coalesce a b = (if nullish a then b else a)"

fun js_ors :: "jsval list \<Rightarrow> jsval" where
  "js_ors [] = JUndef"
| "js_ors [a] = a"
| "js_ors (a # b # r) = (if truthy a then a else js_ors (b # r))"

fun js_coalesces :: "jsval list \<Rightarrow> jsval" where
  "js_coalesces [] = JUndef"
| "js_coalesces [a] = a"
| "js_coalesces (a # b # r) = (if nullish a then js_coalesces (b # r) else a)"

text \<open>\<open>a || b\<close> on strings.\<close>

definition str_or :: "ustr \<Rightarrow> ustr \<Rightarrow> ustr" where
  "str_or a b = (if a \<noteq> [] then a else b)"

lemma str_or_simps [simp]: "str_or [] b = b" "a \<noteq> [] \<Longrightarrow> str_or a b = a"
  by (simp_all add: str_or_def)

subsection \<open>Objects\<close>

text \<open>
  An object is the list of its own properties in insertion order.  Assignment to a property the
  object has keeps its place.
\<close>

type_synonym jobj = "(ustr \<times> jsval) list"

fun obj_set :: "(ustr \<times> 'v) list \<Rightarrow> ustr \<Rightarrow> 'v \<Rightarrow> (ustr \<times> 'v) list" where
  "obj_set [] k v = [(k, v)]"
| "obj_set ((k', v') # o') k v = (if k' = k then (k, v) # o' else (k', v') # obj_set o' k v)"

definition obj_del :: "(ustr \<times> 'v) list \<Rightarrow> ustr \<Rightarrow> (ustr \<times> 'v) list" where
  "obj_del o' k = filter (\<lambda>p. fst p \<noteq> k) o'"

definition obj_keys :: "(ustr \<times> 'v) list \<Rightarrow> ustr list" where
  "obj_keys o' = map fst o'"

text \<open>\<open>{ ...a, ...b }\<close>.\<close>

definition obj_merge :: "(ustr \<times> 'v) list \<Rightarrow> (ustr \<times> 'v) list \<Rightarrow> (ustr \<times> 'v) list" where
  "obj_merge a b = foldl (\<lambda>o' p. obj_set o' (fst p) (snd p)) a b"

lemma map_of_obj_set [simp]: "map_of (obj_set o' k v) = (map_of o')(k \<mapsto> v)"
  by (induction o') auto

lemma map_of_obj_del [simp]: "map_of (obj_del o' k) = (map_of o')(k := None)"
proof
  fix x
  show "map_of (obj_del o' k) x = ((map_of o')(k := None)) x"
    by (induction o') (auto simp: obj_del_def)
qed

lemma obj_keys_simps [simp]:
  "obj_keys [] = []" "obj_keys (p # o') = fst p # obj_keys o'" "obj_keys (a @ b) = obj_keys a @ obj_keys b"
  by (simp_all add: obj_keys_def)

lemma dom_obj_keys: "dom (map_of o') = set (obj_keys o')"
  by (simp add: obj_keys_def dom_map_of_conv_image_fst)

lemma set_keys_obj_set [simp]: "set (obj_keys (obj_set o' k v)) = insert k (set (obj_keys o'))"
  by (induction o' k v rule: obj_set.induct) auto

lemma obj_set_notin: "k \<notin> set (obj_keys o') \<Longrightarrow> obj_set o' k v = o' @ [(k, v)]"
  by (induction o' k v rule: obj_set.induct) auto

lemma distinct_obj_set: "distinct (obj_keys o') \<Longrightarrow> distinct (obj_keys (obj_set o' k v))"
  by (induction o' k v rule: obj_set.induct) auto

lemma distinct_obj_del: "distinct (obj_keys o') \<Longrightarrow> distinct (obj_keys (obj_del o' k))"
  by (simp add: obj_keys_def obj_del_def distinct_map_filter)

lemma length_obj_set: "length (obj_set o' k v) = (if k \<in> set (obj_keys o') then length o' else Suc (length o'))"
  by (induction o' k v rule: obj_set.induct) auto

lemma length_obj_set_le: "length (obj_set o' k v) \<le> Suc (length o')"
  by (simp add: length_obj_set)

subsection \<open>Property access\<close>

text \<open>
  \<open>v?.k\<close>: undefined on \<open>undefined\<close> and \<open>null\<close>, the property of an object otherwise.  The
  property names the sources use this way are not properties of strings, numbers or arrays.
\<close>

definition obj_get :: "(ustr \<times> jsval) list \<Rightarrow> ustr \<Rightarrow> jsval" where
  "obj_get o' k = (case map_of o' k of None \<Rightarrow> JUndef | Some v \<Rightarrow> v)"

fun get :: "jsval \<Rightarrow> ustr \<Rightarrow> jsval" where
  "get (JObj o') k = obj_get o' k"
| "get _ k = JUndef"

definition fld :: "jsval \<Rightarrow> string \<Rightarrow> jsval" where
  "fld v k = get v (js k)"

text \<open>\<open>v?.[i]\<close> for an array.\<close>

fun idx :: "jsval \<Rightarrow> nat \<Rightarrow> jsval" where
  "idx (JArr xs) i = (if i < length xs then xs ! i else JUndef)"
| "idx _ i = JUndef"

fun is_arr :: "jsval \<Rightarrow> bool" where
  "is_arr (JArr _) = True"
| "is_arr _ = False"

text \<open>\<open>typeof v === "object"\<close> for a truthy value.\<close>

fun is_object :: "jsval \<Rightarrow> bool" where
  "is_object (JObj _) = True"
| "is_object (JArr _) = True"
| "is_object _ = False"

text \<open>Own enumerable properties of a value, as a spread \<open>{ ...v }\<close> copies them.\<close>

fun props :: "jsval \<Rightarrow> jobj" where
  "props (JObj o') = o'"
| "props (JArr xs) = zip (map nat_str [0..<length xs]) xs"
| "props (JStr s) = zip (map nat_str [0..<length s]) (map (\<lambda>c. JStr [c]) s)"
| "props _ = []"

lemma obj_get_obj_set [simp]: "obj_get (obj_set o' k v) k' = (if k' = k then v else obj_get o' k')"
  by (simp add: obj_get_def)

lemma get_obj_set: "get (JObj (obj_set o' k v)) k' = (if k' = k then v else get (JObj o') k')"
  by simp

lemma fld_obj_set: "fld (JObj (obj_set o' (js k) v)) k' = (if k' = k then v else fld (JObj o') k')"
  by (simp add: fld_def)

lemma fld_Cons [simp]: "fld (JObj ((js k, v) # o')) k' = (if k' = k then v else fld (JObj o') k')"
  by (simp add: fld_def obj_get_def)

lemma fld_simps [simp]:
  "fld JUndef k = JUndef" "fld JNull k = JUndef" "fld (JBool b) k = JUndef"
  "fld (JNum n) k = JUndef" "fld (JStr s) k = JUndef" "fld (JArr xs) k = JUndef"
  "fld (JObj []) k = JUndef"
  by (simp_all add: fld_def obj_get_def)

subsection \<open>Number to string\<close>

text \<open>
  \<open>Number::toString\<close> of the language: the least number of decimals \<open>p\<close> for which the value times
  \<open>10^p\<close> is an integer gives the digits and the position of the point; the layout follows the
  standard's cases.  A rational without a finite expansion (no parsed number is one) is cut after
  21 decimals.
\<close>

fun dec_places :: "nat \<Rightarrow> rat \<Rightarrow> nat" where
  "dec_places 0 q = 0"
| "dec_places (Suc f) q = (if q = of_int \<lfloor>q\<rfloor> then 0 else Suc (dec_places f (10 * q)))"

definition zeros :: "nat \<Rightarrow> ustr" where
  "zeros n = replicate n 48"

definition strip_zeros :: "ustr \<Rightarrow> ustr" where
  "strip_zeros ds = rev (dropWhile (\<lambda>c. c = 48) (rev ds))"

text \<open>\<open>ds\<close> are the digits without trailing zeros, \<open>n\<close> the position of the point.\<close>

definition layout_digits :: "ustr \<Rightarrow> int \<Rightarrow> ustr" where
  "layout_digits ds n =
     (let k = int (length ds) in
      if k \<le> n \<and> n \<le> 21 then ds @ zeros (nat (n - k))
      else if 0 < n \<and> n \<le> 21 then take (nat n) ds @ [46] @ drop (nat n) ds
      else if -6 < n \<and> n \<le> 0 then [48, 46] @ zeros (nat (- n)) @ ds
      else (let e = n - 1; es = [101] @ (if e < 0 then [45] else [43]) @ nat_str (nat \<bar>e\<bar>) in
            if length ds = 1 then ds @ es else take 1 ds @ [46] @ drop 1 ds @ es))"

definition rat_str :: "rat \<Rightarrow> ustr" where
  "rat_str q =
     (if q = of_int \<lfloor>q\<rfloor> \<and> \<bar>q\<bar> < 10 ^ 21 then int_str \<lfloor>q\<rfloor>
      else (let p = dec_places 21 \<bar>q\<bar>; m = nat \<lfloor>\<bar>q\<bar> * 10 ^ p\<rfloor>; all = nat_str m; ds = strip_zeros all;
                body = layout_digits ds (int (length all) - int p)
            in if q < 0 then 45 # body else body))"

fun jnum_str :: "jnum \<Rightarrow> ustr" where
  "jnum_str (JFin q) = rat_str q"
| "jnum_str JPosInf = js ''Infinity''"
| "jnum_str JNegInf = js ''-Infinity''"
| "jnum_str JNaN = js ''NaN''"

lemma rat_str_of_nat: "n < 10 ^ 21 \<Longrightarrow> rat_str (of_nat n) = nat_str n"
proof -
  assume a: "n < 10 ^ 21"
  have f: "\<lfloor>(of_nat n :: rat)\<rfloor> = int n" by simp
  have "(of_nat n :: rat) < of_nat (10 ^ 21)" using a by (simp only: of_nat_less_iff)
  then have "\<bar>of_nat n :: rat\<bar> < 10 ^ 21" by simp
  with f show ?thesis by (simp add: rat_str_def int_str_def)
qed

subsection \<open>String(v)\<close>

function (sequential) to_str :: "jsval \<Rightarrow> ustr" where
  "to_str JUndef = js ''undefined''"
| "to_str JNull = js ''null''"
| "to_str (JBool b) = (if b then js ''true'' else js ''false'')"
| "to_str (JNum n) = jnum_str n"
| "to_str (JStr s) = s"
| "to_str (JArr xs) = join [44] (map (\<lambda>x. if nullish x then [] else to_str x) xs)"
| "to_str (JObj _) = js ''[object Object]''"
  by pat_completeness auto
termination by (relation "measure size") (auto simp: less_Suc_eq_le size_list_estimation')

text \<open>\<open>String(v || "")\<close> and \<open>String(v ?? "")\<close>.\<close>

definition str_or_empty :: "jsval \<Rightarrow> ustr" where
  "str_or_empty v = to_str (js_or v (JStr []))"

definition str_co_empty :: "jsval \<Rightarrow> ustr" where
  "str_co_empty v = to_str (js_coalesce v (JStr []))"

subsection \<open>Number(v)\<close>

fun span_digits :: "ustr \<Rightarrow> ustr \<times> ustr" where
  "span_digits [] = ([], [])"
| "span_digits (c # s) = (if is_digit c then (case span_digits s of (d, r) \<Rightarrow> (c # d, r)) else ([], c # s))"

text \<open>An unsigned decimal literal: digits, an optional fraction, an optional exponent.\<close>

definition parse_exp :: "ustr \<Rightarrow> int option" where
  "parse_exp s =
     (case s of
        [] \<Rightarrow> Some 0
      | e # r \<Rightarrow>
          if e \<noteq> 101 \<and> e \<noteq> 69 then None
          else (let (neg, r') = (case r of c # t \<Rightarrow> if c = 45 then (True, t) else if c = 43 then (False, t) else (False, r)
                                         | [] \<Rightarrow> (False, []));
                    (d, rest) = span_digits r'
                in if d = [] \<or> rest \<noteq> [] then None
                   else Some (if neg then - int (digits_val d) else int (digits_val d))))"

definition pow10 :: "int \<Rightarrow> rat" where
  "pow10 e = (if 0 \<le> e then 10 ^ nat e else 1 / 10 ^ nat (- e))"

definition parse_decimal :: "ustr \<Rightarrow> rat option" where
  "parse_decimal s =
     (let (ip, r) = span_digits s;
          (fp, r') = (case r of c # t \<Rightarrow> if c = 46 then span_digits t else ([], r) | [] \<Rightarrow> ([], []))
      in if ip = [] \<and> fp = [] then None
         else case parse_exp r' of
                None \<Rightarrow> None
              | Some e \<Rightarrow> Some (of_nat (digits_val (ip @ fp)) * pow10 (e - int (length fp))))"

definition digit_of :: "nat \<Rightarrow> nat option" where
  "digit_of c = (if is_digit c then Some (c - 48)
                 else if 97 \<le> c \<and> c \<le> 102 then Some (c - 87)
                 else if 65 \<le> c \<and> c \<le> 70 then Some (c - 55) else None)"

fun parse_radix :: "nat \<Rightarrow> nat \<Rightarrow> ustr \<Rightarrow> nat option" where
  "parse_radix b a [] = Some a"
| "parse_radix b a (c # s) =
     (case digit_of c of None \<Rightarrow> None | Some d \<Rightarrow> if d < b then parse_radix b (b * a + d) s else None)"

definition opt_num :: "rat option \<Rightarrow> jnum" where
  "opt_num x = (case x of None \<Rightarrow> JNaN | Some q \<Rightarrow> JFin q)"

definition prefixed_radix :: "ustr \<Rightarrow> (nat \<times> ustr) option" where
  "prefixed_radix s =
     (case s of
        z # x # r \<Rightarrow>
          if z \<noteq> 48 \<or> r = [] then None
          else if x = 120 \<or> x = 88 then Some (16, r)
          else if x = 111 \<or> x = 79 then Some (8, r)
          else if x = 98 \<or> x = 66 then Some (2, r) else None
      | _ \<Rightarrow> None)"

definition str_to_num :: "ustr \<Rightarrow> jnum" where
  "str_to_num s0 =
     (let s = trim s0 in
      if s = [] then JFin 0
      else case prefixed_radix s of
        Some (b, r) \<Rightarrow> opt_num (map_option of_nat (parse_radix b 0 r))
      | None \<Rightarrow>
          (let (neg, t) = (if hd s = 45 then (True, tl s) else if hd s = 43 then (False, tl s) else (False, s)) in
           if t = js ''Infinity'' then (if neg then JNegInf else JPosInf)
           else opt_num (map_option (\<lambda>q. if neg then - q else q) (parse_decimal t))))"

fun to_num :: "jsval \<Rightarrow> jnum" where
  "to_num JUndef = JNaN"
| "to_num JNull = JFin 0"
| "to_num (JBool b) = JFin (if b then 1 else 0)"
| "to_num (JNum n) = n"
| "to_num (JStr s) = str_to_num s"
| "to_num (JArr xs) = str_to_num (to_str (JArr xs))"
| "to_num (JObj _) = JNaN"

fun is_finite_num :: "jnum \<Rightarrow> bool" where
  "is_finite_num (JFin _) = True"
| "is_finite_num _ = False"

text \<open>\<open>Number.isFinite(Number(v)) ? Number(v) : null\<close> as an option.\<close>

fun fin_opt :: "jnum \<Rightarrow> rat option" where
  "fin_opt (JFin q) = Some q"
| "fin_opt _ = None"

definition num_opt :: "jsval \<Rightarrow> rat option" where
  "num_opt v = fin_opt (to_num v)"

text \<open>\<open>Number(v) || 0\<close> kept as a finite number (the infinities stay truthy and are handled by the callers).\<close>

definition rat_trunc :: "rat \<Rightarrow> int" where
  "rat_trunc q = (if 0 \<le> q then \<lfloor>q\<rfloor> else \<lceil>q\<rceil>)"

text \<open>\<open>n | 0\<close>: truncation, then two's complement on 32 bits.\<close>

definition wrap32 :: "int \<Rightarrow> int" where
  "wrap32 i = (i + 2 ^ 31) mod 2 ^ 32 - 2 ^ 31"

fun to_int32 :: "jnum \<Rightarrow> int" where
  "to_int32 (JFin q) = wrap32 (rat_trunc q)"
| "to_int32 _ = 0"

text \<open>The relation \<open><\<close> on numbers; every comparison with \<open>NaN\<close> is false.\<close>

fun jlt :: "jnum \<Rightarrow> jnum \<Rightarrow> bool" where
  "jlt JNaN _ = False"
| "jlt _ JNaN = False"
| "jlt (JFin a) (JFin b) = (a < b)"
| "jlt JNegInf b = (b \<noteq> JNegInf)"
| "jlt a JPosInf = (a \<noteq> JPosInf)"
| "jlt _ _ = False"

fun jle :: "jnum \<Rightarrow> jnum \<Rightarrow> bool" where
  "jle JNaN _ = False"
| "jle _ JNaN = False"
| "jle a b = (\<not> jlt b a)"

lemma rat_trunc_of_int [simp]: "rat_trunc (of_int i) = i"
  by (simp add: rat_trunc_def)

lemma wrap32_id: "- (2 ^ 31) \<le> i \<Longrightarrow> i < 2 ^ 31 \<Longrightarrow> wrap32 i = i"
  by (simp add: wrap32_def)

lemma wrap32_range: "- (2 ^ 31) \<le> wrap32 i \<and> wrap32 i < 2 ^ 31"
  by (simp add: wrap32_def)

lemma to_num_JInt [simp]: "to_num (JInt i) = JFin (of_int i)"
  by simp

lemma js_or_simps [simp]:
  "js_or JUndef b = b" "js_or JNull b = b" "truthy a \<Longrightarrow> js_or a b = a" "\<not> truthy a \<Longrightarrow> js_or a b = b"
  by (simp_all add: js_or_def)

lemma js_coalesce_simps [simp]:
  "js_coalesce JUndef b = b" "js_coalesce JNull b = b" "\<not> nullish a \<Longrightarrow> js_coalesce a b = a"
  by (simp_all add: js_coalesce_def)

lemma str_empty_simps [simp]:
  "str_or_empty (JStr s) = s" "str_co_empty (JStr s) = s"
  "str_or_empty JUndef = []" "str_or_empty JNull = []"
  "str_co_empty JUndef = []" "str_co_empty JNull = []"
  by (simp_all add: str_or_empty_def str_co_empty_def js_or_def)

lemma span_digits_all: "\<forall>c \<in> set s. is_digit c \<Longrightarrow> span_digits s = (s, [])"
  by (induction s) auto

lemma digits_val_append: "digits_val (s @ t) = foldl (\<lambda>a c. 10 * a + (c - 48)) (digits_val s) t"
  by (simp add: digits_val_def)

lemma str_to_num_digits:
  assumes "s \<noteq> []" and d: "\<forall>c \<in> set s. is_digit c"
  shows "str_to_num s = JFin (of_nat (digits_val s))"
proof -
  have t: "trim s = s" using d by (intro trim_no_ws) auto
  have np: "prefixed_radix s = None"
  proof (cases s rule: list.exhaust; cases "tl s")
    fix c r x y assume "s = c # r" "tl s = x # y"
    then show ?thesis using d by (auto simp: prefixed_radix_def is_digit_def)
  qed (auto simp: prefixed_radix_def)
  have h: "is_digit (hd s)" using assms by (cases s) auto
  then have ns: "hd s \<noteq> 45" "hd s \<noteq> 43" by (auto simp: is_digit_def)
  have ni: "s \<noteq> js ''Infinity''" using h by (auto simp: js_def is_digit_def)
  have "parse_decimal s = Some (of_nat (digits_val s))"
    using assms by (simp add: parse_decimal_def span_digits_all parse_exp_def pow10_def)
  with assms t np ns ni show ?thesis by (simp add: str_to_num_def opt_num_def)
qed

lemma str_to_num_nat_str [simp]: "str_to_num (nat_str n) = JFin (of_nat n)"
  using nat_str_digits [of n] by (subst str_to_num_digits) (auto simp: list_all_iff)

end
