(* ===== verification/Js_Regex.thy ===== *)
theory Js_Regex
  imports Js_Values
begin

section \<open>Regular expressions with the backtracking semantics of JavaScript\<close>

text \<open>
  The fragment of regular expressions the sources use: classes, greedy repetition of a class,
  sequence, ordered alternative, and the end anchor.  \<open>rems r s\<close> lists, in the order in which a
  backtracking matcher tries them, what remains of \<open>s\<close> after a match of \<open>r\<close> at its beginning;
  the first of them is the match the language reports.  A start anchor is expressed by
  \<open>re_match\<close>, which only tries the beginning; \<open>re_exec\<close> searches the leftmost match.
\<close>

datatype re =
    RCls "nat \<Rightarrow> bool"
  | RStar "nat \<Rightarrow> bool"
  | RSeq re re
  | RAlt re re
  | REps
  | REnd

fun star_rems :: "(nat \<Rightarrow> bool) \<Rightarrow> ustr \<Rightarrow> ustr list" where
  "star_rems P [] = [[]]"
| "star_rems P (c # s) = (if P c then star_rems P s @ [c # s] else [c # s])"

fun rems :: "re \<Rightarrow> ustr \<Rightarrow> ustr list" where
  "rems (RCls P) s = (case s of [] \<Rightarrow> [] | c # t \<Rightarrow> if P c then [t] else [])"
| "rems (RStar P) s = star_rems P s"
| "rems (RSeq a b) s = concat (map (rems b) (rems a s))"
| "rems (RAlt a b) s = rems a s @ rems b s"
| "rems REps s = [s]"
| "rems REnd s = (if s = [] then [[]] else [])"

definition RPlus :: "(nat \<Rightarrow> bool) \<Rightarrow> re" where
  "RPlus P = RSeq (RCls P) (RStar P)"

definition ROpt :: "re \<Rightarrow> re" where
  "ROpt r = RAlt r REps"

definition RChr :: "nat \<Rightarrow> re" where
  "RChr c = RCls (\<lambda>x. x = c)"

text \<open>A literal; with the flag \<open>i\<close>, ASCII letters match in both cases.\<close>

fun RLit :: "ustr \<Rightarrow> re" where
  "RLit [] = REps"
| "RLit (c # s) = RSeq (RChr c) (RLit s)"

fun RLit_i :: "ustr \<Rightarrow> re" where
  "RLit_i [] = REps"
| "RLit_i (c # s) = RSeq (RCls (\<lambda>x. lower_char x = lower_char c)) (RLit_i s)"

text \<open>\<open>P{n}\<close> and \<open>P{n,m}\<close>.\<close>

fun RRep :: "nat \<Rightarrow> (nat \<Rightarrow> bool) \<Rightarrow> re" where
  "RRep 0 P = REps"
| "RRep (Suc n) P = RSeq (RCls P) (RRep n P)"

fun RUpTo :: "nat \<Rightarrow> (nat \<Rightarrow> bool) \<Rightarrow> re" where
  "RUpTo 0 P = REps"
| "RUpTo (Suc n) P = RAlt (RSeq (RCls P) (RUpTo n P)) REps"

definition RRange :: "nat \<Rightarrow> nat \<Rightarrow> (nat \<Rightarrow> bool) \<Rightarrow> re" where
  "RRange n m P = RSeq (RRep n P) (RUpTo (m - n) P)"

subsection \<open>Matching\<close>

definition re_match :: "re \<Rightarrow> ustr \<Rightarrow> ustr option" where
  "re_match r s = (case rems r s of [] \<Rightarrow> None | t # _ \<Rightarrow> Some t)"

text \<open>The leftmost match: the text before it, the match, the text after it.\<close>

fun re_exec :: "re \<Rightarrow> ustr \<Rightarrow> (ustr \<times> ustr \<times> ustr) option" where
  "re_exec r s =
     (case re_match r s of
        Some t \<Rightarrow> Some ([], take (length s - length t) s, t)
      | None \<Rightarrow> (case s of [] \<Rightarrow> None
                | c # s' \<Rightarrow> map_option (\<lambda>(p, m, t). (c # p, m, t)) (re_exec r s')))"

declare re_exec.simps [simp del]

definition re_test :: "re \<Rightarrow> ustr \<Rightarrow> bool" where
  "re_test r s \<longleftrightarrow> re_exec r s \<noteq> None"

definition re_test_at_start :: "re \<Rightarrow> ustr \<Rightarrow> bool" where
  "re_test_at_start r s \<longleftrightarrow> re_match r s \<noteq> None"

text \<open>\<open>/^r$/.test(s)\<close>.\<close>

definition re_full :: "re \<Rightarrow> ustr \<Rightarrow> bool" where
  "re_full r s \<longleftrightarrow> re_match (RSeq r REnd) s \<noteq> None"

text \<open>\<open>s.replace(/r/, t)\<close>, \<open>s.replace(/^r/, t)\<close>, \<open>s.replace(/r$/, t)\<close>.\<close>

definition replace_first :: "re \<Rightarrow> ustr \<Rightarrow> ustr \<Rightarrow> ustr" where
  "replace_first r t s = (case re_exec r s of None \<Rightarrow> s | Some (p, _, q) \<Rightarrow> p @ t @ q)"

definition replace_at_start :: "re \<Rightarrow> ustr \<Rightarrow> ustr \<Rightarrow> ustr" where
  "replace_at_start r t s = (case re_match r s of None \<Rightarrow> s | Some q \<Rightarrow> t @ q)"

definition replace_at_end :: "re \<Rightarrow> ustr \<Rightarrow> ustr \<Rightarrow> ustr" where
  "replace_at_end r t s = replace_first (RSeq r REnd) t s"

lemma star_rems_suffix: "t \<in> set (star_rems P s) \<Longrightarrow> suffix t s"
  by (induction P s rule: star_rems.induct) (auto split: if_splits intro: suffix_ConsI)

lemma rems_suffix: "t \<in> set (rems r s) \<Longrightarrow> suffix t s"
proof (induction r arbitrary: s t)
  case (RCls P)
  then show ?case by (auto split: list.splits if_splits intro: suffix_ConsI)
next
  case (RSeq a b)
  then show ?case by (fastforce intro: suffix_order.trans)
qed (auto simp: star_rems_suffix split: if_splits)

lemma re_match_suffix: "re_match r s = Some t \<Longrightarrow> suffix t s"
  unfolding re_match_def by (rule rems_suffix [of t r]) (auto split: list.splits)

lemma re_match_split: "re_match r s = Some t \<Longrightarrow> take (length s - length t) s @ t = s"
  using re_match_suffix [of r s t] by (auto simp: suffix_def)

lemma re_exec_split: "re_exec r s = Some (p, m, t) \<Longrightarrow> s = p @ m @ t"
proof (induction r s arbitrary: p rule: re_exec.induct)
  case (1 r s)
  from 1(2) show ?case
    using 1(1) re_match_split [of r s]
    by (subst (asm) re_exec.simps) (auto split: option.splits list.splits prod.splits)
qed

lemma re_exec_match: "re_exec r s = Some (p, m, t) \<Longrightarrow> re_match r (m @ t) = Some t"
proof (induction r s arbitrary: p rule: re_exec.induct)
  case (1 r s)
  from 1(2) show ?case
    using 1(1) re_match_split [of r s]
    by (subst (asm) re_exec.simps) (auto split: option.splits list.splits prod.splits)
qed

lemma re_exec_None: "re_exec r s = None \<Longrightarrow> re_match r s = None"
  by (subst (asm) re_exec.simps) (auto split: option.splits)

subsection \<open>The loop \<open>while ((m = re.exec(s)) !== null)\<close>\<close>

text \<open>
  The matches of a global regular expression, each with the text skipped before it, and the text
  after the last match.  In the language the loop does not end on an empty match; the scan stops
  there, and it is used with expressions that only match non-empty text (\<open>sent_re_nonempty\<close>).
\<close>

function (sequential) exec_all :: "re \<Rightarrow> ustr \<Rightarrow> (ustr \<times> ustr) list \<times> ustr" where
  "exec_all r s =
     (case re_exec r s of
        None \<Rightarrow> ([], s)
      | Some (p, m, t) \<Rightarrow>
          if m = [] then ([(p, m)], t)
          else (case exec_all r t of (ms, tail) \<Rightarrow> ((p, m) # ms, tail)))"
  by pat_completeness auto
termination
proof (relation "measure (\<lambda>(r, s). length s)")
  fix r s x p mt m t
  assume "re_exec r s = Some x" "(p, mt) = x" "(m, t) = mt" "m \<noteq> []"
  then show "((r, t), r, s) \<in> measure (\<lambda>(r, s). length s)"
    using re_exec_split [of r s p m t] by (auto simp: length_greater_0_conv)
qed simp

declare exec_all.simps [simp del]

lemma exec_all_split:
  "exec_all r s = (ms, tail) \<Longrightarrow> s = concat (map (\<lambda>(p, m). p @ m) ms) @ tail"
proof (induction r s arbitrary: ms tail rule: exec_all.induct)
  case (1 r s)
  from 1(2) show ?case
    using 1(1) re_exec_split [of r s]
    by (subst (asm) exec_all.simps) (fastforce split: option.splits prod.splits if_splits)
qed

subsection \<open>Replacing every match\<close>

function (sequential) replace_all :: "re \<Rightarrow> (ustr \<Rightarrow> ustr) \<Rightarrow> ustr \<Rightarrow> ustr" where
  "replace_all r f s =
     (case re_exec r s of
        None \<Rightarrow> s
      | Some (p, m, t) \<Rightarrow>
          if m = [] then p @ f m @ (case t of [] \<Rightarrow> [] | c # t' \<Rightarrow> c # replace_all r f t')
          else p @ f m @ replace_all r f t)"
  by pat_completeness auto
termination
proof (relation "measure (\<lambda>(r, f, s). length s)")
  fix r f s x p mt m t c t'
  assume "re_exec r s = Some x" "(p, mt) = x" "(m, t) = mt" "m = []" "t = c # t'"
  then show "((r, f, t'), r, f, s) \<in> measure (\<lambda>(r, f, s). length s)"
    using re_exec_split [of r s p m t] by auto
next
  fix r f s x p mt m t
  assume "re_exec r s = Some x" "(p, mt) = x" "(m, t) = mt" "m \<noteq> []"
  then show "((r, f, t), r, f, s) \<in> measure (\<lambda>(r, f, s). length s)"
    using re_exec_split [of r s p m t] by (auto simp: length_greater_0_conv)
qed simp

declare replace_all.simps [simp del]

subsection \<open>Greedy repetition without backtracking\<close>

lemma rems_Seq_assoc: "rems (RSeq (RSeq a b) c) s = rems (RSeq a (RSeq b c)) s"
proof -
  have "concat (map (rems c) (concat (map (rems b) xs))) = concat (map (rems (RSeq b c)) xs)" for xs
    by (induction xs) auto
  then show ?thesis by simp
qed

text \<open>A repeated class followed by something that cannot begin with it never gives back a character.\<close>

lemma rems_Star_Seq:
  assumes "\<And>c t. P c \<Longrightarrow> rems r (c # t) = []"
  shows "rems (RSeq (RStar P) r) s = rems r (dropWhile P s)"
proof -
  have "concat (map (rems r) (star_rems P s)) = rems r (dropWhile P s)"
    by (induction s) (auto simp: assms)
  then show ?thesis by simp
qed

lemma rems_Plus_Seq:
  assumes "\<And>c t. P c \<Longrightarrow> rems r (c # t) = []"
  shows "rems (RSeq (RPlus P) r) s =
    (case s of [] \<Rightarrow> [] | c # t \<Rightarrow> if P c then rems r (dropWhile P t) else [])"
proof -
  have "concat (map (rems r) (star_rems P t)) = rems r (dropWhile P t)" for t
    using rems_Star_Seq [OF assms, of P t] assms by simp
  then show ?thesis by (auto simp: RPlus_def split: list.splits)
qed

lemma re_full_Plus: "re_full (RPlus P) s \<longleftrightarrow> s \<noteq> [] \<and> list_all P s"
proof -
  have "rems (RSeq (RPlus P) REnd) s =
      (case s of [] \<Rightarrow> [] | c # t \<Rightarrow> if P c then rems REnd (dropWhile P t) else [])"
    by (rule rems_Plus_Seq) simp
  then show ?thesis
    by (auto simp: re_full_def re_match_def list_all_iff dropWhile_eq_Nil_conv split: list.splits if_splits)
qed

end
