(* ===== verification/Sentences.thy ===== *)
theory Sentences
  imports Js_Regex
begin

section \<open>Splitting text into sentences\<close>

text \<open>
  \<open>sw/sentence_splitter.js\<close> and the three copies of \<open>splitSentencesAndTail\<close> (overlay.js, panel.js,
  sidepanel.js).  All of them run one global expression over the text: a stretch without sentence
  enders, the enders, optional closing quotes, and then white space or the end of the text.  The
  expressions differ in their ender and quote classes only, so the expression is a function of the
  two classes.  The lemmas show that the match is the greedy one, that the scan ends, which texts
  are split without loss, and that others lose characters.
\<close>

definition sent_end :: re where
  "sent_end = RAlt (RPlus is_ws) REnd"

definition sent_re :: "(nat \<Rightarrow> bool) \<Rightarrow> (nat \<Rightarrow> bool) \<Rightarrow> re" where
  "sent_re T Q =
     RSeq (RStar (\<lambda>c. \<not> T c)) (RSeq (RPlus T) (RSeq (ROpt (RPlus Q)) sent_end))"

text \<open>The classes \<open>[.!?\<dots>]\<close> and \<open>["\<dots>']\<close> of sentence_splitter.js, overlay.js and panel.js.\<close>

definition ender :: "nat \<Rightarrow> bool" where
  "ender c \<longleftrightarrow> c = 46 \<or> c = 33 \<or> c = 63 \<or> c = 8230"

definition closing_quote :: "nat \<Rightarrow> bool" where
  "closing_quote c \<longleftrightarrow> c = 34 \<or> c = 8221 \<or> c = 8217 \<or> c = 39"

text \<open>The ASCII classes of \<open>SENT_RE\<close> in sidepanel.js.\<close>

definition ender_ascii :: "nat \<Rightarrow> bool" where
  "ender_ascii c \<longleftrightarrow> c = 46 \<or> c = 33 \<or> c = 63"

definition closing_quote_ascii :: "nat \<Rightarrow> bool" where
  "closing_quote_ascii c \<longleftrightarrow> c = 34 \<or> c = 39"

definition sentences_and_tail :: "(nat \<Rightarrow> bool) \<Rightarrow> (nat \<Rightarrow> bool) \<Rightarrow> ustr \<Rightarrow> ustr list \<times> ustr" where
  "sentences_and_tail T Q text =
     (case exec_all (sent_re T Q) text of (ms, tail) \<Rightarrow> (map snd ms, tail))"

text \<open>overlay.js, panel.js, sidepanel.js: \<open>splitSentencesAndTail\<close>.\<close>

definition splitSentencesAndTail :: "ustr \<Rightarrow> ustr list \<times> ustr" where
  "splitSentencesAndTail text = sentences_and_tail ender closing_quote text"

definition panel_splitSentencesAndTail :: "ustr \<Rightarrow> ustr list \<times> ustr" where
  "panel_splitSentencesAndTail text = sentences_and_tail ender closing_quote text"

definition sidepanel_splitSentencesAndTail :: "ustr \<Rightarrow> ustr list \<times> ustr" where
  "sidepanel_splitSentencesAndTail text = sentences_and_tail ender_ascii closing_quote_ascii text"

text \<open>sentence_splitter.js: \<open>splitSentences\<close>.\<close>

definition splitSentences :: "jsval \<Rightarrow> ustr list" where
  "splitSentences text =
     (let s = trim (str_or_empty text) in
      if s = [] then []
      else case exec_all (sent_re ender closing_quote) s of (ms, rest) \<Rightarrow>
        (let out = filter (\<lambda>f. f \<noteq> []) (map (\<lambda>m. trim (snd m)) ms);
             tail = trim rest
         in if tail \<noteq> [] then out @ [tail] else out))"

subsection \<open>The match is the greedy one\<close>

definition ends_sentence :: "(nat \<Rightarrow> bool) \<Rightarrow> ustr \<Rightarrow> bool" where
  "ends_sentence Q r \<longleftrightarrow> (let v = dropWhile Q r in v = [] \<or> is_ws (hd v))"

definition greedy_sentence :: "(nat \<Rightarrow> bool) \<Rightarrow> (nat \<Rightarrow> bool) \<Rightarrow> ustr \<Rightarrow> ustr option" where
  "greedy_sentence T Q s =
     (let t = dropWhile (\<lambda>c. \<not> T c) s; r = dropWhile T t in
      if t = [] \<or> \<not> ends_sentence Q r then None else Some (dropWhile is_ws (dropWhile Q r)))"

text \<open>
  Every run of enders is followed, after closing quotes, by white space or the end of the text;
  a text such as \<open>3.14\<close> is not of this form.
\<close>

fun breaks_ok :: "(nat \<Rightarrow> bool) \<Rightarrow> (nat \<Rightarrow> bool) \<Rightarrow> ustr \<Rightarrow> bool" where
  "breaks_ok T Q [] = True"
| "breaks_ok T Q (c # s) = ((T c \<longrightarrow> ends_sentence Q (dropWhile T s)) \<and> breaks_ok T Q s)"

lemma breaks_ok_append: "breaks_ok T Q (a @ b) \<Longrightarrow> breaks_ok T Q b"
  by (induction a) auto

lemma breaks_ok_dropWhile: "breaks_ok T Q s \<Longrightarrow> breaks_ok T Q (dropWhile P s)"
  by (induction s) auto

fun end_rems :: "ustr \<Rightarrow> ustr list" where
  "end_rems [] = [[]]"
| "end_rems (c # t) = (if is_ws c then star_rems is_ws t else [])"

lemma rems_sent_end [simp]: "rems sent_end v = end_rems v"
  by (cases v) (auto simp: sent_end_def RPlus_def)

lemma star_rems_hd: "\<exists>xs. star_rems P t = dropWhile P t # xs"
  by (induction P t rule: star_rems.induct) auto

lemma first_end_rems:
  "(case end_rems v of [] \<Rightarrow> None | t # _ \<Rightarrow> Some t) =
     (if v = [] \<or> is_ws (hd v) then Some (dropWhile is_ws v) else None)"
proof (cases v)
  case (Cons c t)
  then show ?thesis using star_rems_hd [of is_ws t] by auto
qed simp

locale sentence_classes =
  fixes T Q :: "nat \<Rightarrow> bool"
  assumes T_not_Q: "T c \<Longrightarrow> \<not> Q c"
    and T_not_ws: "T c \<Longrightarrow> \<not> is_ws c"
    and Q_not_ws: "Q c \<Longrightarrow> \<not> is_ws c"
begin

lemma rems_quote: "rems (RSeq (ROpt (RPlus Q)) sent_end) v = end_rems (dropWhile Q v)"
proof -
  have "rems (RSeq (RPlus Q) sent_end) v =
      (case v of [] \<Rightarrow> [] | c # t \<Rightarrow> if Q c then rems sent_end (dropWhile Q t) else [])"
    by (rule rems_Plus_Seq) (simp add: Q_not_ws)
  moreover have "rems (RSeq (ROpt a) e) v = rems (RSeq a e) v @ rems e v" for a e
    by (simp add: ROpt_def)
  ultimately show ?thesis
    by (cases v) (simp_all add: Q_not_ws del: rems.simps(3))
qed

lemma re_match_sent: "re_match (sent_re T Q) s = greedy_sentence T Q s"
proof -
  let ?q = "RSeq (ROpt (RPlus Q)) sent_end" and ?u = "dropWhile (\<lambda>c. \<not> T c) s"
  have q: "rems ?q (c # t) = []" if "T c" for c t
    using that by (simp only: rems_quote) (simp add: T_not_Q T_not_ws)
  have p: "rems (RSeq (RPlus T) ?q) v =
      (case v of [] \<Rightarrow> [] | c # t \<Rightarrow> if T c then rems ?q (dropWhile T t) else [])" for v
    by (rule rems_Plus_Seq) (rule q)
  have "rems (sent_re T Q) s = rems (RSeq (RPlus T) ?q) ?u"
    unfolding sent_re_def by (rule rems_Star_Seq) (simp add: p del: rems.simps)
  then have eq: "rems (sent_re T Q) s = (case ?u of [] \<Rightarrow> []
      | c # t \<Rightarrow> if T c then end_rems (dropWhile Q (dropWhile T t)) else [])"
    by (simp only: p rems_quote)
  show ?thesis
  proof (cases ?u)
    case Nil
    show ?thesis by (simp only: re_match_def eq greedy_sentence_def Nil Let_def) simp
  next
    case (Cons c t)
    then have "T c" by (simp add: dropWhile_eq_Cons_conv)
    with Cons show ?thesis
      by (simp only: re_match_def eq list.case if_True first_end_rems greedy_sentence_def Let_def
          ends_sentence_def dropWhile.simps list.distinct) simp
  qed
qed

lemma greedy_shorter: "greedy_sentence T Q s = Some t \<Longrightarrow> length t < length s"
proof -
  assume a: "greedy_sentence T Q s = Some t"
  let ?u = "dropWhile (\<lambda>c. \<not> T c) s"
  from a have ne: "?u \<noteq> []" and t: "t = dropWhile is_ws (dropWhile Q (dropWhile T ?u))"
    by (auto simp: greedy_sentence_def Let_def split: if_splits)
  from ne have "T (hd ?u)" by (metis (mono_tags) hd_dropWhile)
  with ne have "length (dropWhile T ?u) < length ?u"
    by (cases ?u) (auto intro: le_imp_less_Suc length_dropWhile_le)
  moreover have "length t \<le> length (dropWhile T ?u)"
    unfolding t by (meson length_dropWhile_le order_trans)
  ultimately show ?thesis using length_dropWhile_le [of "\<lambda>c. \<not> T c" s] by linarith
qed

lemma re_exec_nonempty: "re_exec (sent_re T Q) s = Some (p, m, t) \<Longrightarrow> m \<noteq> []"
  using re_exec_match [of "sent_re T Q" s p m t] greedy_shorter [of "m @ t" t]
  by (auto simp: re_match_sent)

lemma greedy_at_break:
  "breaks_ok T Q s \<Longrightarrow> \<exists>c \<in> set s. T c \<Longrightarrow> greedy_sentence T Q s \<noteq> None"
proof -
  assume b: "breaks_ok T Q s" and "\<exists>c \<in> set s. T c"
  then obtain c t where u: "dropWhile (\<lambda>c. \<not> T c) s = c # t"
    by (cases "dropWhile (\<lambda>c. \<not> T c) s") auto
  then have "T c" by (simp add: dropWhile_eq_Cons_conv)
  moreover have "breaks_ok T Q (c # t)"
    using b u breaks_ok_dropWhile [of T Q s "\<lambda>c. \<not> T c"] by simp
  ultimately show ?thesis by (simp add: greedy_sentence_def u)
qed

lemma greedy_has_ender: "greedy_sentence T Q s = Some t \<Longrightarrow> \<exists>c \<in> set s. T c"
  by (auto simp: greedy_sentence_def Let_def dropWhile_eq_Nil_conv split: if_splits)

lemma exec_all_lossless:
  "breaks_ok T Q s \<Longrightarrow> exec_all (sent_re T Q) s = (ms, tail) \<Longrightarrow>
     (\<forall>x \<in> set ms. fst x = []) \<and> (\<forall>c \<in> set tail. \<not> T c)"
proof (induction "sent_re T Q" s arbitrary: ms tail rule: exec_all.induct)
  case (1 s)
  show ?case
  proof (cases "re_exec (sent_re T Q) s")
    case None
    then have "greedy_sentence T Q s = None" by (simp add: re_exec_None flip: re_match_sent)
    with 1(2) have "\<forall>c \<in> set s. \<not> T c" using greedy_at_break by blast
    with None 1(3) show ?thesis by (simp add: exec_all.simps)
  next
    case (Some x)
    obtain p m t where x: "x = (p, m, t)" by (cases x)
    with Some have e: "re_exec (sent_re T Q) s = Some (p, m, t)" by simp
    have ne: "m \<noteq> []" using e by (rule re_exec_nonempty)
    have s: "s = p @ m @ t" using e by (rule re_exec_split)
    have "greedy_sentence T Q (m @ t) = Some t" using re_exec_match [OF e] by (simp add: re_match_sent)
    from greedy_has_ender [OF this] s have "\<exists>c \<in> set s. T c" by auto
    then have "re_match (sent_re T Q) s \<noteq> None" using greedy_at_break 1(2) by (simp add: re_match_sent)
    with e have p: "p = []" by (subst (asm) re_exec.simps) (auto split: option.splits)
    obtain ms' where ms': "exec_all (sent_re T Q) t = (ms', tail)" and ms: "ms = (p, m) # ms'"
      using 1(3) e ne by (subst (asm) exec_all.simps) (auto split: prod.splits)
    have "breaks_ok T Q t" using 1(2) breaks_ok_append [of T Q "p @ m" t] by (simp add: s)
    with 1(1) [OF e refl refl ne _ ms'] p ms show ?thesis by simp
  qed
qed

lemma sentences_lossless:
  assumes "breaks_ok T Q text" and "sentences_and_tail T Q text = (sents, tail)"
  shows "concat sents @ tail = text \<and> (\<forall>c \<in> set tail. \<not> T c)"
proof -
  obtain ms where ms: "exec_all (sent_re T Q) text = (ms, tail)" and sents: "sents = map snd ms"
    using assms(2) by (auto simp: sentences_and_tail_def split: prod.splits)
  have l: "(\<forall>x \<in> set ms. fst x = []) \<and> (\<forall>c \<in> set tail. \<not> T c)"
    using assms(1) ms by (rule exec_all_lossless)
  then have "map (\<lambda>(p, m). p @ m) ms = sents" unfolding sents by (auto split: prod.splits)
  with exec_all_split [OF ms] l show ?thesis by simp
qed

lemma exec_all_nonempty: "exec_all (sent_re T Q) s = (ms, tail) \<Longrightarrow> \<forall>x \<in> set ms. snd x \<noteq> []"
proof (induction "sent_re T Q" s arbitrary: ms tail rule: exec_all.induct)
  case (1 s)
  then show ?case
    using re_exec_nonempty [of s]
    by (subst (asm) (2) exec_all.simps) (fastforce split: option.splits prod.splits if_splits)
qed

text \<open>
  A full stop between other characters, as in \<open>3.14\<close>: no match starts at or before it, so the scan
  skips it, and what precedes it belongs to no sentence.
\<close>

lemma skip_dot:
  assumes "\<forall>x \<in> set a. \<not> T x" and "T d" and "\<not> T c" and "\<not> Q c" and "\<not> is_ws c"
  shows "re_exec (sent_re T Q) (a @ d # c # b) =
    map_option (\<lambda>(p, m, t). (a @ d # p, m, t)) (re_exec (sent_re T Q) (c # b))"
proof -
  have "re_match (sent_re T Q) (d # c # b) = None"
    using assms(2-5) by (simp add: re_match_sent greedy_sentence_def ends_sentence_def Let_def)
  then have dot: "re_exec (sent_re T Q) (d # c # b) = map_option (\<lambda>(p, m, t). (d # p, m, t)) (re_exec (sent_re T Q) (c # b))"
    by (subst re_exec.simps) (auto split: option.split)
  from assms(1) show ?thesis
  proof (induction a)
    case (Cons x a)
    then have "dropWhile (\<lambda>x. \<not> T x) (a @ d # c # b) = d # c # b"
      using assms(2) by (auto simp: dropWhile_append)
    then have "re_match (sent_re T Q) ((x # a) @ d # c # b) = None"
      using Cons.prems assms(2-5) by (simp add: re_match_sent greedy_sentence_def ends_sentence_def Let_def)
    then have "re_exec (sent_re T Q) ((x # a) @ d # c # b) =
        map_option (\<lambda>(p, m, t). (x # p, m, t)) (re_exec (sent_re T Q) (a @ d # c # b))"
      by (subst re_exec.simps) (auto split: option.split)
    with Cons show ?case by (simp add: option.map_comp comp_def case_prod_beta)
  qed (simp add: dot)
qed

lemma sentences_skip_dot:
  assumes "\<forall>x \<in> set a. \<not> T x" and "T d" and "\<not> T c" and "\<not> Q c" and "\<not> is_ws c"
    and "fst (sentences_and_tail T Q (c # b)) \<noteq> []"
  shows "sentences_and_tail T Q (a @ d # c # b) = sentences_and_tail T Q (c # b)"
proof -
  from assms(6) obtain p m t where e: "re_exec (sent_re T Q) (c # b) = Some (p, m, t)"
    by (cases "re_exec (sent_re T Q) (c # b)") (auto simp: sentences_and_tail_def exec_all.simps [of _ "c # b"])
  then have e': "re_exec (sent_re T Q) (a @ d # c # b) = Some (a @ d # p, m, t)" using skip_dot [OF assms(1-5)] by simp
  show ?thesis
    using re_exec_nonempty [OF e] unfolding sentences_and_tail_def
    by (subst (1 2) exec_all.simps) (simp add: e e' split: prod.split)
qed

end

interpretation std: sentence_classes ender closing_quote
  by unfold_locales (auto simp: ender_def closing_quote_def is_ws_def)

interpretation ascii: sentence_classes ender_ascii closing_quote_ascii
  by unfold_locales (auto simp: ender_ascii_def closing_quote_ascii_def is_ws_def)

subsection \<open>Properties\<close>

text \<open>Property C38: \<open>splitSentencesAndTail\<close> (overlay.js) loses nothing when every run of sentence
  enders is followed, after closing quotes, by white space or the end of the text: the sentences
  and the tail concatenate to the text, and the tail holds no sentence ender.\<close>

theorem splitSentencesAndTail_lossless:
  assumes "breaks_ok ender closing_quote text" and "splitSentencesAndTail text = (sents, tail)"
  shows "concat sents @ tail = text \<and> (\<forall>c \<in> set tail. \<not> ender c)"
  using assms std.sentences_lossless by (simp add: splitSentencesAndTail_def)

theorem splitSentencesAndTail_lossless_witness:
  "concat [js ''Hi there. '', js ''Ok? ''] @ js ''and'' = js ''Hi there. Ok? and'' \<and>
   list_all (\<lambda>c. \<not> ender c) (js ''and'')"
proof -
  have b: "breaks_ok ender closing_quote (js ''Hi there. Ok? and'')" by code_simp
  have s: "splitSentencesAndTail (js ''Hi there. Ok? and'') = ([js ''Hi there. '', js ''Ok? ''], js ''and'')"
    by code_simp
  show ?thesis using splitSentencesAndTail_lossless [OF b s] by (simp add: list_all_iff)
qed

text \<open>A full stop inside a word or number makes the splitter of the overlay lose text: what stands
  before it, up to the last sentence, is in none of the sentences and not in the tail, as soon as a
  sentence follows.\<close>

lemma inner_stop_loses_text:
  assumes "\<forall>x \<in> set a. \<not> ender x" and "\<not> ender c" and "\<not> closing_quote c" and "\<not> is_ws c"
    and "fst (splitSentencesAndTail (c # b)) \<noteq> []"
  shows "splitSentencesAndTail (a @ 46 # c # b) = splitSentencesAndTail (c # b)"
  using assms std.sentences_skip_dot [of a 46 c b] by (simp add: splitSentencesAndTail_def ender_def)

end
