(* ===== verification/Text_Windows.thy ===== *)
theory Text_Windows
  imports Js_Regex
begin

section \<open>Bounded windows over a growing transcript\<close>

text \<open>
  The service worker and the overlay keep only the tail of a long transcript: \<open>trimTailForOverlay\<close>
  (service_worker.js) and \<open>tailForLayout\<close> (overlay.js) return the last characters of a text, cut
  forward to a sentence or word boundary.  Both satisfy the contract of the locale
  \<open>tail_window\<close>.  The clipping functions of the chat and history views cut the other end and add
  dots; they satisfy \<open>head_clip\<close>.
\<close>

locale tail_window =
  fixes win :: "ustr \<Rightarrow> int \<Rightarrow> ustr"
  assumes win_suffix: "suffix (win s n) s"
    and win_bound: "0 < n \<Longrightarrow> int (length (win s n)) \<le> n"
    and win_short: "n \<le> 0 \<or> int (length s) \<le> n \<Longrightarrow> win s n = s"
begin

lemma win_idem: "win (win s n) n = win s n"
proof (cases "0 < n")
  case True
  then show ?thesis by (intro win_short) (simp add: win_bound)
next
  case False
  then show ?thesis by (intro win_short) simp
qed

lemma win_length_le: "length (win s n) \<le> length s"
  using win_suffix [of s n] by (rule suffix_length_le)

lemma win_append_suffix: "suffix (win (s @ t) n) (s @ t)"
  by (rule win_suffix)

end

subsection \<open>trimTailForOverlay and tailForLayout\<close>

definition boundary_re :: re where
  "boundary_re = RSeq (RCls (\<lambda>c. c = 46 \<or> c = 33 \<or> c = 63 \<or> c = 8230)) (RPlus is_ws)"

definition OVERLAY_EN_STABLE_MAX_CHARS :: int where
  "OVERLAY_EN_STABLE_MAX_CHARS = 3200"

definition trimTailForOverlay :: "ustr \<Rightarrow> int \<Rightarrow> ustr" where
  "trimTailForOverlay s n =
     (if n \<le> 0 \<or> int (length s) \<le> n then s
      else (let from = length s - nat n; head = slice s from (min (length s) (from + 180)) in
            case re_exec boundary_re head of
              Some (p, m, t) \<Rightarrow> slice_from s (from + (length p + length m))
            | None \<Rightarrow>
                (case index_of 32 (slice_from s from) of
                   Some d \<Rightarrow> if 0 < d \<and> d < 100 then slice_from s (from + d + 1) else slice_from s from
                 | None \<Rightarrow> slice_from s from)))"

definition tailForLayout :: "ustr \<Rightarrow> int \<Rightarrow> ustr" where
  "tailForLayout s n =
     (if n \<le> 0 \<or> int (length s) \<le> n then s
      else (let from = length s - nat n; head = slice s from (min (length s) (from + 180)) in
            case re_exec boundary_re head of
              Some (p, m, t) \<Rightarrow> slice_from s (from + (length p + length m))
            | None \<Rightarrow>
                (case index_of 32 (slice_from s from) of
                   Some d \<Rightarrow> if 0 < d \<and> d < 100 then slice_from s (from + d + 1) else slice_from s from
                 | None \<Rightarrow> slice_from s from)))"

lemma tailForLayout_eq: "tailForLayout = trimTailForOverlay"
  by (simp add: fun_eq_iff tailForLayout_def trimTailForOverlay_def)

text \<open>Every branch drops the first \<open>length s - n\<close> characters and at most 180 more.\<close>

lemma trimTail_drop:
  assumes "0 < n" and "n < int (length s)"
  shows "\<exists>j \<le> 180. trimTailForOverlay s n = drop (length s - nat n + j) s"
proof -
  let ?from = "length s - nat n"
  let ?head = "slice s ?from (min (length s) (?from + 180))"
  show ?thesis
  proof (cases "re_exec boundary_re ?head")
    case None
    then have "trimTailForOverlay s n =
        (case index_of 32 (drop ?from s) of
           Some d \<Rightarrow> if 0 < d \<and> d < 100 then drop (?from + d + 1) s else drop ?from s
         | None \<Rightarrow> drop ?from s)"
      using assms by (auto simp: trimTailForOverlay_def Let_def slice_from_def split: option.split)
    then have "trimTailForOverlay s n = drop (?from + 0) s \<or>
        (\<exists>d < 100. trimTailForOverlay s n = drop (?from + (d + 1)) s)"
      by (auto split: option.splits if_splits)
    then show ?thesis
    proof (elim disjE exE conjE)
      fix d assume "d < (100::nat)" "trimTailForOverlay s n = drop (?from + (d + 1)) s"
      then show ?thesis by (intro exI [of _ "d + 1"]) simp
    qed (intro exI [of _ 0], simp)
  next
    case (Some x)
    obtain p m t where x: "re_exec boundary_re ?head = Some (p, m, t)" using Some by (cases x) auto
    have "length ?head \<le> 180" by (simp add: slice_def)
    then have "length p + length m \<le> 180" by (simp add: re_exec_split [OF x])
    moreover have "trimTailForOverlay s n = drop (?from + (length p + length m)) s"
      using assms x by (simp add: trimTailForOverlay_def Let_def slice_from_def)
    ultimately show ?thesis by blast
  qed
qed

interpretation overlay_trim: tail_window trimTailForOverlay
proof
  fix s n
  show "suffix (trimTailForOverlay s n) s"
    using trimTail_drop [of n s] suffix_drop by (cases "0 < n \<and> n < int (length s)") (auto simp: trimTailForOverlay_def)
  show "int (length (trimTailForOverlay s n)) \<le> n" if "0 < n"
    using trimTail_drop [OF that, of s] that by (cases "n < int (length s)") (auto simp: trimTailForOverlay_def)
  show "trimTailForOverlay s n = s" if "n \<le> 0 \<or> int (length s) \<le> n"
    using that by (auto simp: trimTailForOverlay_def)
qed

interpretation layout_tail: tail_window tailForLayout
  unfolding tailForLayout_eq by (rule overlay_trim.tail_window_axioms)

subsection \<open>Clipped previews\<close>

locale head_clip =
  fixes clip :: "ustr \<Rightarrow> nat \<Rightarrow> ustr" and clean :: "ustr \<Rightarrow> ustr"
  assumes clip_short: "clean s \<noteq> [] \<Longrightarrow> length (clean s) \<le> n \<Longrightarrow> clip s n = clean s"
    and clip_long: "3 \<le> n \<Longrightarrow> n < length (clean s) \<Longrightarrow> clip s n = take (n - 3) (clean s) @ js ''...''"
begin

lemma clip_length: "3 \<le> n \<Longrightarrow> clean s \<noteq> [] \<Longrightarrow> length (clip s n) \<le> n"
  by (cases "length (clean s) \<le> n") (auto simp: clip_short clip_long)

lemma clip_prefix: "3 \<le> n \<Longrightarrow> clean s \<noteq> [] \<Longrightarrow> \<exists>p. prefix p (clean s) \<and> (clip s n = p \<or> clip s n = p @ js ''...'')"
  by (cases "length (clean s) \<le> n")
    (use take_is_prefix [of "n - 3" "clean s"] in \<open>auto simp: clip_short clip_long\<close>)

end

text \<open>\<open>String(s || "").replace(/\s+/g, " ").trim()\<close>.\<close>

definition collapse_ws :: "ustr \<Rightarrow> ustr" where
  "collapse_ws s = trim (replace_all (RPlus is_ws) (\<lambda>_. [32]) s)"

text \<open>chat_repo.js: \<open>clipText\<close>.\<close>

definition clipText :: "ustr \<Rightarrow> nat \<Rightarrow> ustr" where
  "clipText s maxLen =
     (let txt = collapse_ws s in
      if txt = [] then js ''Chat sidepanel''
      else if length txt \<le> maxLen then txt
      else take (maxLen - 3) txt @ js ''...'')"

text \<open>sidepanel.js: \<open>chatClipText\<close>.\<close>

definition chatClipText :: "ustr \<Rightarrow> nat \<Rightarrow> ustr" where
  "chatClipText s maxLen =
     (let txt = collapse_ws s in
      if txt = [] then []
      else if length txt \<le> maxLen then txt
      else take (maxLen - 3) txt @ js ''...'')"

interpretation chat_clip: head_clip clipText collapse_ws
  by unfold_locales (auto simp: clipText_def Let_def)

interpretation side_clip: head_clip chatClipText collapse_ws
  by unfold_locales (auto simp: chatClipText_def Let_def)

end
