(* ===== verification/Pcm_Processor.thy ===== *)
theory Pcm_Processor
  imports Js_Values "HOL-Library.Word"
begin

section \<open>The audio worklet: audio-worklet/pcm-processor.js\<close>

text \<open>
  \<open>PCMProcessor\<close> collects the samples of the first channel in a buffer, cuts the buffer into
  chunks of a fixed size, posts each chunk as 16-bit integers, and posts a level measurement every
  so many chunks.  A sample is a number of the language (a \<open>Float32Array\<close> can hold an infinity or
  \<open>NaN\<close>); the products with 0x8000 and 0x7fff are exact in double precision for every sample.
\<close>

type_synonym sample = jnum

datatype pcm_msg =
    Meter "real option" jnum   \<comment> \<open>rms (\<open>None\<close>: not a finite number), peak\<close>
  | PcmInt16 "16 word list"

record pcm =
  chunkSize :: nat
  buffer :: "sample list"
  meterEveryNChunks :: nat
  chunksSinceMeter :: nat

text \<open>The constructor; an option that is missing or 0 takes its default.\<close>

definition opt_default :: "nat option \<Rightarrow> nat \<Rightarrow> nat" where
  "opt_default x d = (case x of None \<Rightarrow> d | Some v \<Rightarrow> if v = 0 then d else v)"

definition new_pcm :: "nat option \<Rightarrow> nat option \<Rightarrow> pcm" where
  "new_pcm chunk every =
     \<lparr>chunkSize = opt_default chunk 2048, buffer = [],
      meterEveryNChunks = max 1 (opt_default every 8), chunksSinceMeter = 0\<rparr>"

subsection \<open>Conversion of a sample\<close>

fun jclamp1 :: "jnum \<Rightarrow> jnum" where
  "jclamp1 (JFin q) = JFin (max (-1) (min 1 q))"
| "jclamp1 JPosInf = JFin 1"
| "jclamp1 JNegInf = JFin (-1)"
| "jclamp1 JNaN = JNaN"

text \<open>Storing into an \<open>Int16Array\<close>: truncation, then modulo \<open>2^16\<close>; \<open>NaN\<close> is stored as 0.\<close>

definition pcm16 :: "sample \<Rightarrow> 16 word" where
  "pcm16 v =
     (case jclamp1 v of
        JFin s \<Rightarrow> word_of_int (rat_trunc (if s < 0 then s * 32768 else s * 32767))
      | _ \<Rightarrow> 0)"

subsection \<open>The level measurement\<close>

fun jabs :: "jnum \<Rightarrow> jnum" where
  "jabs (JFin q) = JFin \<bar>q\<bar>"
| "jabs JNaN = JNaN"
| "jabs _ = JPosInf"

fun peak_of :: "jnum \<Rightarrow> sample list \<Rightarrow> jnum" where
  "peak_of peak [] = peak"
| "peak_of peak (v # vs) = peak_of (if jlt peak (jabs v) then jabs v else peak) vs"

text \<open>The sum of squares; \<open>None\<close> once a sample is not a finite number.\<close>

fun sum_sq :: "rat option \<Rightarrow> sample list \<Rightarrow> rat option" where
  "sum_sq acc [] = acc"
| "sum_sq acc (v # vs) =
     sum_sq (case (acc, v) of (Some a, JFin q) \<Rightarrow> Some (a + q * q) | _ \<Rightarrow> None) vs"

definition meter_of :: "sample list \<Rightarrow> pcm_msg" where
  "meter_of vs =
     Meter (map_option (\<lambda>a. sqrt (of_rat (a / of_nat (length vs)))) (sum_sq (Some 0) vs))
       (peak_of (JFin 0) vs)"

subsection \<open>Emitting chunks\<close>

text \<open>One pass of the loop of \<open>_emitChunks\<close>.\<close>

definition emit_one :: "pcm \<Rightarrow> pcm \<times> pcm_msg list" where
  "emit_one p =
     (let chunk = take (chunkSize p) (buffer p);
          n = chunksSinceMeter p + 1;
          due = meterEveryNChunks p \<le> n;
          p' = p\<lparr>chunksSinceMeter := if due then 0 else n, buffer := drop (chunkSize p) (buffer p)\<rparr>
      in (p', (if due then [meter_of chunk] else []) @ [PcmInt16 (map pcm16 chunk)]))"

text \<open>
  The loop; the guard \<open>0 < chunkSize p\<close> holds of every processor the constructor makes
  (\<open>new_pcm_positive\<close>); without it the loop of the source would not end.
\<close>

function emitChunks :: "pcm \<Rightarrow> pcm \<times> pcm_msg list" where
  "emitChunks p =
     (if 0 < chunkSize p \<and> chunkSize p \<le> length (buffer p)
      then (case emit_one p of (p', ms) \<Rightarrow> (case emitChunks p' of (p'', ms') \<Rightarrow> (p'', ms @ ms')))
      else (p, []))"
  by pat_completeness auto
termination
  by (relation "measure (\<lambda>p. length (buffer p))") (auto simp: emit_one_def Let_def)

declare emitChunks.simps [simp del]

text \<open>\<open>process(inputs)\<close>: the first channel of the first input, when there is one and it has samples.\<close>

definition pcm_process :: "pcm \<Rightarrow> sample list list list \<Rightarrow> pcm \<times> pcm_msg list" where
  "pcm_process p inputs =
     (case inputs of
        (ch # _) # _ \<Rightarrow> if ch \<noteq> [] then emitChunks (p\<lparr>buffer := buffer p @ ch\<rparr>) else (p, [])
      | _ \<Rightarrow> (p, []))"

fun pcm_run :: "pcm \<Rightarrow> sample list list list list \<Rightarrow> pcm \<times> pcm_msg list" where
  "pcm_run p [] = (p, [])"
| "pcm_run p (i # is) =
     (case pcm_process p i of (p', ms) \<Rightarrow> (case pcm_run p' is of (p'', ms') \<Rightarrow> (p'', ms @ ms')))"

text \<open>What the processor reads of its inputs.\<close>

fun channel_of :: "sample list list list \<Rightarrow> sample list" where
  "channel_of ((ch # _) # _) = ch"
| "channel_of _ = []"

fun pcm_payload :: "pcm_msg \<Rightarrow> 16 word list" where
  "pcm_payload (PcmInt16 ws) = ws"
| "pcm_payload (Meter _ _) = []"

fun is_pcm :: "pcm_msg \<Rightarrow> bool" where
  "is_pcm (PcmInt16 _) = True"
| "is_pcm _ = False"

definition pcm_ok :: "pcm \<Rightarrow> bool" where
  "pcm_ok p \<longleftrightarrow> 0 < chunkSize p \<and> length (buffer p) < chunkSize p \<and>
     0 < meterEveryNChunks p \<and> chunksSinceMeter p < meterEveryNChunks p"

lemma new_pcm_positive: "0 < chunkSize (new_pcm c e)"
  by (auto simp: new_pcm_def opt_default_def split: option.splits)

lemma new_pcm_ok: "pcm_ok (new_pcm c e)"
  by (auto simp: pcm_ok_def new_pcm_def opt_default_def split: option.splits)

subsection \<open>What a run emits\<close>

text \<open>
  The effect of the loop in one statement: the settings stay, the concatenated payloads are the
  converted samples of the buffer up to what is left in it, each payload has the chunk size, and
  less than a chunk is left.
\<close>

definition emits :: "pcm \<Rightarrow> sample list \<Rightarrow> pcm \<times> pcm_msg list \<Rightarrow> bool" where
  "emits p new r \<longleftrightarrow>
     (case r of (p', ms) \<Rightarrow>
        chunkSize p' = chunkSize p \<and> meterEveryNChunks p' = meterEveryNChunks p \<and>
        map pcm16 (buffer p @ new) = concat (map pcm_payload ms) @ map pcm16 (buffer p') \<and>
        (\<forall>m \<in> set ms. is_pcm m \<longrightarrow> length (pcm_payload m) = chunkSize p) \<and>
        (pcm_ok p \<longrightarrow> pcm_ok p') \<and>
        meterEveryNChunks p * length (filter (\<lambda>m. \<not> is_pcm m) ms) + chunksSinceMeter p' =
          chunksSinceMeter p + length (filter is_pcm ms))"

lemma emits_nil: "emits p [] (p, [])"
  by (simp add: emits_def)

lemma payload_meter [simp]: "pcm_payload (meter_of vs) = []" "\<not> is_pcm (meter_of vs)"
  by (simp_all add: meter_of_def)

lemma emitChunks_spec:
  assumes "0 < chunkSize p" and "chunksSinceMeter p < meterEveryNChunks p"
  shows "case emitChunks p of (p', ms) \<Rightarrow>
      chunkSize p' = chunkSize p \<and> meterEveryNChunks p' = meterEveryNChunks p \<and>
      map pcm16 (buffer p) = concat (map pcm_payload ms) @ map pcm16 (buffer p') \<and>
      (\<forall>m \<in> set ms. is_pcm m \<longrightarrow> length (pcm_payload m) = chunkSize p) \<and>
      length (buffer p') < chunkSize p \<and> chunksSinceMeter p' < meterEveryNChunks p \<and>
      meterEveryNChunks p * length (filter (\<lambda>m. \<not> is_pcm m) ms) + chunksSinceMeter p' =
        chunksSinceMeter p + length (filter is_pcm ms)"
  using assms
proof (induction p rule: emitChunks.induct)
  case (1 p)
  show ?case
  proof (cases "chunkSize p \<le> length (buffer p)")
    case False
    then show ?thesis using 1 by (simp add: emitChunks.simps)
  next
    case True
    let ?b = "take (chunkSize p) (buffer p)"
    obtain p1 ms1 where e: "emit_one p = (p1, ms1)" by fastforce
    obtain p2 ms2 where r: "emitChunks p1 = (p2, ms2)" by fastforce
    have p1: "chunkSize p1 = chunkSize p" "meterEveryNChunks p1 = meterEveryNChunks p"
      "buffer p1 = drop (chunkSize p) (buffer p)" "chunksSinceMeter p1 < meterEveryNChunks p1"
      using e 1(2,3) by (auto simp: emit_one_def Let_def split: if_splits)
    have ms1: "concat (map pcm_payload ms1) = map pcm16 ?b"
      "\<forall>m \<in> set ms1. is_pcm m \<longrightarrow> length (pcm_payload m) = chunkSize p"
      "meterEveryNChunks p * length (filter (\<lambda>m. \<not> is_pcm m) ms1) + chunksSinceMeter p1 =
        chunksSinceMeter p + length (filter is_pcm ms1)"
      using e 1(2,3) True by (auto simp: emit_one_def Let_def split: if_splits)
    have b: "map pcm16 (buffer p) = map pcm16 ?b @ map pcm16 (buffer p1)"
      by (simp add: p1 flip: map_append)
    show ?thesis
      using 1(1) [of p1 ms1] 1(2,3) True e p1 ms1 b
      by (simp add: emitChunks.simps [of p] r e distrib_left ball_Un)
  qed
qed

lemma pcm_process_emits: "pcm_ok p \<Longrightarrow> emits p (channel_of i) (pcm_process p i)"
proof -
  assume ok: "pcm_ok p"
  have "emits p ch (emitChunks (p\<lparr>buffer := buffer p @ ch\<rparr>))" for ch
    using emitChunks_spec [of "p\<lparr>buffer := buffer p @ ch\<rparr>"] ok
    by (auto simp: emits_def pcm_ok_def split: prod.splits)
  then show ?thesis using ok
    by (cases i rule: channel_of.cases) (auto simp: pcm_process_def emits_nil)
qed

lemma pcm_run_emits: "pcm_ok p \<Longrightarrow> emits p (concat (map channel_of is)) (pcm_run p is)"
proof (induction "is" arbitrary: p)
  case Nil
  then show ?case by (simp add: emits_nil)
next
  case (Cons i "is")
  obtain p1 ms1 where e: "pcm_process p i = (p1, ms1)" by fastforce
  obtain p2 ms2 where r: "pcm_run p1 is = (p2, ms2)" by fastforce
  have s1: "emits p (channel_of i) (p1, ms1)" using pcm_process_emits [OF Cons.prems, of i] e by simp
  then have "pcm_ok p1" using Cons.prems by (simp add: emits_def)
  from Cons.IH [OF this] r have s2: "emits p1 (concat (map channel_of is)) (p2, ms2)" by simp
  have "map pcm16 (buffer p @ channel_of i @ concat (map channel_of is)) =
      map pcm16 (buffer p @ channel_of i) @ map pcm16 (concat (map channel_of is))" by simp
  also have "\<dots> = concat (map pcm_payload (ms1 @ ms2)) @ map pcm16 (buffer p2)"
    using s1 s2 by (simp add: emits_def)
  finally show ?case
    using s1 s2 by (simp add: emits_def e r distrib_left ball_Un)
qed

subsection \<open>Accuracy of the conversion\<close>

lemma rat_trunc_mono: "a \<le> b \<Longrightarrow> rat_trunc a \<le> rat_trunc b"
  by (auto simp: rat_trunc_def floor_mono ceiling_mono) (meson ceiling_le_zero dual_order.trans linorder_le_cases not_less zero_le_floor)

lemma rat_trunc_bounds: "\<bar>of_int (rat_trunc q) - q\<bar> < 1"
  by (auto simp: rat_trunc_def abs_if) linarith+

definition pcm_scaled :: "rat \<Rightarrow> rat" where
  "pcm_scaled q = (let s = max (-1) (min 1 q) in if s < 0 then s * 32768 else s * 32767)"

lemma pcm_scaled_range: "-32768 \<le> pcm_scaled q \<and> pcm_scaled q \<le> 32767"
  by (auto simp: pcm_scaled_def Let_def max_def min_def)

lemma sint_word16: "-32768 \<le> i \<Longrightarrow> i \<le> 32767 \<Longrightarrow> sint (word_of_int i :: 16 word) = i"
  by (simp add: signed_of_int signed_take_bit_int_eq_self)

lemma sint_pcm16: "sint (pcm16 (JFin q)) = rat_trunc (pcm_scaled q)"
proof -
  have "rat_trunc (-32768) \<le> rat_trunc (pcm_scaled q)" "rat_trunc (pcm_scaled q) \<le> rat_trunc 32767"
    using pcm_scaled_range [of q] by (auto intro: rat_trunc_mono)
  moreover have "rat_trunc (-32768) = -32768" "rat_trunc 32767 = 32767"
    using rat_trunc_of_int [of "-32768"] rat_trunc_of_int [of 32767] by simp_all
  ultimately show ?thesis
    by (simp add: pcm16_def pcm_scaled_def Let_def sint_word16)
qed

subsection \<open>Properties\<close>

text \<open>Property C19: over any sequence of \<open>process\<close> calls on a fresh processor, no sample is lost,
  duplicated or reordered: the posted payloads are whole chunks, and together with what is still
  buffered (less than a chunk) they are the converted samples of the first channel in order.\<close>

theorem pcm_stream_complete:
  assumes "pcm_run (new_pcm chunk every) inputs = (p, ms)"
  shows "map pcm16 (concat (map channel_of inputs)) = concat (map pcm_payload ms) @ map pcm16 (buffer p) \<and>
    (\<forall>m \<in> set ms. is_pcm m \<longrightarrow> length (pcm_payload m) = chunkSize (new_pcm chunk every)) \<and>
    length (buffer p) < chunkSize (new_pcm chunk every)"
proof -
  have b: "buffer (new_pcm chunk every) = []" by (simp add: new_pcm_def)
  have "emits (new_pcm chunk every) (concat (map channel_of inputs)) (p, ms)"
    using pcm_run_emits [OF new_pcm_ok, of chunk every inputs] assms by simp
  with new_pcm_ok [of chunk every] b show ?thesis by (auto simp: emits_def pcm_ok_def)
qed

theorem pcm_stream_complete_witness:
  "map pcm16 (concat (map channel_of [[[[JFin 1, JFin (-1), JFin (1/2)]]]])) =
     concat (map pcm_payload [PcmInt16 [32767, 32768]]) @ map pcm16 [JFin (1/2)] \<and>
   length (pcm_payload (PcmInt16 [32767, 32768])) = 2 \<and> (1::nat) < 2"
proof -
  have r: "pcm_run (new_pcm (Some 2) (Some 9)) [[[[JFin 1, JFin (-1), JFin (1/2)]]]] =
      (\<lparr>chunkSize = 2, buffer = [JFin (1/2)], meterEveryNChunks = 9, chunksSinceMeter = 1\<rparr>,
       [PcmInt16 [32767, 32768]])"
    by (simp add: new_pcm_def opt_default_def pcm_process_def emitChunks.simps emit_one_def Let_def
        pcm16_def rat_trunc_def)
  have c: "chunkSize (new_pcm (Some 2) (Some 9)) = 2" by (simp add: new_pcm_def opt_default_def)
  show ?thesis using pcm_stream_complete [OF r] by (simp add: c)
qed

text \<open>The conversion of a finite sample is monotone, never wraps around, and differs
  from the clamped and scaled sample by less than one step.\<close>

lemma pcm16_accurate:
  "\<bar>of_int (sint (pcm16 (JFin q))) - pcm_scaled q\<bar> < 1 \<and>
   -32768 \<le> sint (pcm16 (JFin q)) \<and> sint (pcm16 (JFin q)) \<le> 32767 \<and>
   sint (pcm16 (JFin (min q r))) \<le> sint (pcm16 (JFin (max q r)))"
proof -
  have "pcm_scaled (min q r) \<le> pcm_scaled (max q r)"
    by (auto simp: pcm_scaled_def Let_def max_def min_def)
  then have "sint (pcm16 (JFin (min q r))) \<le> sint (pcm16 (JFin (max q r)))"
    by (simp add: sint_pcm16 rat_trunc_mono)
  moreover have "-32768 \<le> rat_trunc (pcm_scaled q) \<and> rat_trunc (pcm_scaled q) \<le> 32767"
    using rat_trunc_mono [of "-32768" "pcm_scaled q"] rat_trunc_mono [of "pcm_scaled q" 32767]
      pcm_scaled_range [of q] rat_trunc_of_int [of "-32768"] rat_trunc_of_int [of 32767] by simp
  ultimately show ?thesis using rat_trunc_bounds [of "pcm_scaled q"] by (simp add: sint_pcm16)
qed

text \<open>A level measurement is posted for every \<open>meterEveryNChunks\<close> chunks: the number
  of measurements of a run is the number of its chunks divided by that constant.\<close>

lemma pcm_meter_cadence:
  assumes "pcm_run (new_pcm chunk every) inputs = (p, ms)"
  shows "length (filter (\<lambda>m. \<not> is_pcm m) ms) =
    length (filter is_pcm ms) div meterEveryNChunks (new_pcm chunk every)"
proof -
  let ?n = "meterEveryNChunks (new_pcm chunk every)"
  have b: "chunksSinceMeter (new_pcm chunk every) = 0" by (simp add: new_pcm_def)
  have "emits (new_pcm chunk every) (concat (map channel_of inputs)) (p, ms)"
    using pcm_run_emits [OF new_pcm_ok, of chunk every inputs] assms by simp
  with new_pcm_ok [of chunk every] b
  have "?n * length (filter (\<lambda>m. \<not> is_pcm m) ms) + chunksSinceMeter p = length (filter is_pcm ms)"
    and "chunksSinceMeter p < ?n" by (auto simp: emits_def pcm_ok_def)
  then show ?thesis by (metis add.commute add.right_neutral div_less div_mult_self2 less_nat_zero_code)
qed

end
