(* ===== verification/Overlay_Layout.thy ===== *)
theory Overlay_Layout
  imports Sentences Text_Windows
begin

section \<open>Line layout of the subtitle overlay (overlay.js)\<close>

text \<open>
  \<open>fitPrefixByWidth\<close>, \<open>buildLines\<close> and \<open>renderTwoLines\<close>.  The width in pixels that the browser
  reports for a text (\<open>scrollWidth\<close> of the hidden measuring element) is the argument \<open>w\<close>; the
  geometry of the bubble is given by the frame's width and the paddings.
  The loop of \<open>buildLines\<close> does not end for every geometry, so it is modelled with fuel: \<open>None\<close>
  means that the fuel ran out.  With a bubble wide enough for every single character the loop ends
  within as many passes as the text has characters, and it loses nothing
  (\<open>buildLines_complete\<close>); with a bubble of width zero it never ends (\<open>buildLines_diverges\<close>).
\<close>

text \<open>\<open>innerMaxPx\<close>.\<close>

definition innerMaxPx :: "rat \<Rightarrow> rat \<Rightarrow> rat \<Rightarrow> rat" where
  "innerMaxPx frameW padL padR = max 0 (frameW - padL - padR)"

subsection \<open>fitPrefixByWidth\<close>

text \<open>\<open>String(sentence).split(/(\s+)/)\<close>: the separators are kept as elements of the result.\<close>

definition ws_tokens :: "ustr \<Rightarrow> ustr list" where
  "ws_tokens s =
     (case exec_all (RPlus is_ws) s of (ms, tail) \<Rightarrow> concat (map (\<lambda>(p, m). [p, m]) ms) @ [tail])"

text \<open>The binary search for the longest fitting part of a token.\<close>

function search_fit :: "(ustr \<Rightarrow> rat) \<Rightarrow> rat \<Rightarrow> ustr \<Rightarrow> int \<Rightarrow> int \<Rightarrow> int \<Rightarrow> int" where
  "search_fit w remPx tok lo hi best =
     (if lo \<le> hi then
        (let mid = (lo + hi) div 2; cand = take (nat mid) tok in
         if cand = [] then search_fit w remPx tok (mid + 1) hi best
         else if w cand \<le> remPx then search_fit w remPx tok (mid + 1) hi mid
         else search_fit w remPx tok lo (mid - 1) best)
      else best)"
  by pat_completeness auto
termination
  by (relation "measure (\<lambda>(w, remPx, tok, lo, hi, best). nat (hi - lo + 1))") (auto simp: Let_def)

declare search_fit.simps [simp del]

fun fit_tokens :: "(ustr \<Rightarrow> rat) \<Rightarrow> rat \<Rightarrow> ustr \<Rightarrow> ustr list \<Rightarrow> ustr \<times> ustr" where
  "fit_tokens w remPx fit [] = (fit, [])"
| "fit_tokens w remPx fit (tok # toks) =
     (if tok = [] then fit_tokens w remPx fit toks
      else if w (fit @ tok) \<le> remPx then fit_tokens w remPx (fit @ tok) toks
      else if fit = [] then
        (let best = nat (search_fit w remPx tok 0 (int (length tok)) 0)
         in (take best tok, drop best tok @ concat toks))
      else (fit, tok @ concat toks))"

definition fitPrefixByWidth :: "(ustr \<Rightarrow> rat) \<Rightarrow> ustr \<Rightarrow> rat \<Rightarrow> ustr \<times> ustr" where
  "fitPrefixByWidth w sentence remPx =
     (if remPx \<le> 0 then ([], sentence) else fit_tokens w remPx [] (ws_tokens sentence))"

lemma concat_ws_tokens: "concat (ws_tokens s) = s"
proof -
  obtain ms tail where e: "exec_all (RPlus is_ws) s = (ms, tail)" by fastforce
  have "concat (concat (map (\<lambda>(p, m). [p, m]) ms)) = concat (map (\<lambda>(p, m). p @ m) ms)"
    by (induction ms) auto
  then have "concat (ws_tokens s) = concat (map (\<lambda>(p, m). p @ m) ms) @ tail"
    by (simp add: ws_tokens_def e)
  with exec_all_split [OF e] show ?thesis by simp
qed

lemma search_fit_stop: "hi < lo \<Longrightarrow> search_fit w remPx tok lo hi best = best"
  by (simp add: search_fit.simps)

lemma search_fit_step:
  assumes "lo \<le> hi"
  shows "take (nat ((lo + hi) div 2)) tok = [] \<Longrightarrow>
      search_fit w remPx tok lo hi best = search_fit w remPx tok ((lo + hi) div 2 + 1) hi best"
    and "take (nat ((lo + hi) div 2)) tok \<noteq> [] \<Longrightarrow> w (take (nat ((lo + hi) div 2)) tok) \<le> remPx \<Longrightarrow>
      search_fit w remPx tok lo hi best = search_fit w remPx tok ((lo + hi) div 2 + 1) hi ((lo + hi) div 2)"
    and "take (nat ((lo + hi) div 2)) tok \<noteq> [] \<Longrightarrow> \<not> w (take (nat ((lo + hi) div 2)) tok) \<le> remPx \<Longrightarrow>
      search_fit w remPx tok lo hi best = search_fit w remPx tok lo ((lo + hi) div 2 - 1) best"
  using assms by (simp_all only: search_fit.simps [of w remPx tok lo hi best] Let_def if_True if_False simp_thms)

definition fits_at :: "(ustr \<Rightarrow> rat) \<Rightarrow> rat \<Rightarrow> ustr \<Rightarrow> int \<Rightarrow> bool" where
  "fits_at w remPx tok b \<longleftrightarrow> b = 0 \<or> (0 < b \<and> w (take (nat b) tok) \<le> remPx)"

lemma search_fit_sound:
  "0 \<le> lo \<Longrightarrow> fits_at w remPx tok best \<Longrightarrow> fits_at w remPx tok (search_fit w remPx tok lo hi best)"
proof (induction w remPx tok lo hi best rule: search_fit.induct)
  case (1 w remPx tok lo hi best)
  let ?mid = "(lo + hi) div 2"
  show ?case
  proof (cases "lo \<le> hi")
    case True
    then have mid: "0 \<le> ?mid" using 1(4) by simp
    consider "take (nat ?mid) tok = []"
      | "take (nat ?mid) tok \<noteq> []" "w (take (nat ?mid) tok) \<le> remPx"
      | "take (nat ?mid) tok \<noteq> []" "\<not> w (take (nat ?mid) tok) \<le> remPx" by blast
    then show ?thesis
    proof cases
      case a: 1
      show ?thesis using 1(1) [OF True refl refl a _ 1(5)] mid by (simp add: search_fit_step(1) [where w = w and remPx = remPx and tok = tok and best = best, OF True a])
    next
      case a: 2
      then have "0 < ?mid" using mid by (cases "?mid = 0") auto
      then have "fits_at w remPx tok ?mid" using a by (simp add: fits_at_def)
      from 1(2) [OF True refl refl a _ this] mid show ?thesis by (simp add: search_fit_step(2) [where w = w and remPx = remPx and tok = tok and best = best, OF True a])
    next
      case a: 3
      show ?thesis using 1(3) [OF True refl refl a 1(4,5)] by (simp add: search_fit_step(3) [where w = w and remPx = remPx and tok = tok and best = best, OF True a])
    qed
  qed (simp add: search_fit_stop 1(5))
qed

text \<open>With widths that grow with the prefix, the search finds a non-empty part when one fits.\<close>

lemma search_fit_pos:
  assumes ne: "tok \<noteq> []" and one: "w (take 1 tok) \<le> remPx"
  shows "0 \<le> lo \<Longrightarrow> 0 < best \<or> (lo \<le> 1 \<and> 1 \<le> hi) \<Longrightarrow> 0 < search_fit w remPx tok lo hi best"
  using assms
proof (induction w remPx tok lo hi best rule: search_fit.induct)
  case (1 w remPx tok lo hi best)
  let ?mid = "(lo + hi) div 2"
  show ?case
  proof (cases "lo \<le> hi")
    case True
    then have mid: "0 \<le> ?mid" "?mid \<le> hi" using 1(4) by simp_all
    consider "take (nat ?mid) tok = []"
      | "take (nat ?mid) tok \<noteq> []" "w (take (nat ?mid) tok) \<le> remPx"
      | "take (nat ?mid) tok \<noteq> []" "\<not> w (take (nat ?mid) tok) \<le> remPx" by blast
    then show ?thesis
    proof cases
      case a: 1
      then have "?mid = 0" using 1(6) mid by simp
      moreover from this a 1(5) have "0 < best \<or> (?mid + 1 \<le> 1 \<and> 1 \<le> hi)" by auto
      ultimately show ?thesis
        using 1(1) [OF True refl refl a _ _ 1(6,7)] by (simp add: search_fit_step(1) [where w = w and remPx = remPx and tok = tok and best = best, OF True a])
    next
      case a: 2
      then have "0 < ?mid" using mid by (cases "?mid = 0") auto
      with 1(2) [OF True refl refl a _ _ 1(6,7)] show ?thesis
        by (simp add: search_fit_step(2) [where w = w and remPx = remPx and tok = tok and best = best, OF True a])
    next
      case a: 3
      then have "?mid \<noteq> 1" "?mid \<noteq> 0" using 1(7) by auto
      with mid 1(5) have "0 < best \<or> (lo \<le> 1 \<and> 1 \<le> ?mid - 1)" by auto
      from 1(3) [OF True refl refl a 1(4) this 1(6,7)] show ?thesis
        by (simp add: search_fit_step(3) [where w = w and remPx = remPx and tok = tok and best = best, OF True a])
    qed
  next
    case False
    then show ?thesis using 1(4,5) by (auto simp: search_fit_stop)
  qed
qed

lemma fit_tokens_split: "fit_tokens w remPx fit toks = (f, rest) \<Longrightarrow> f @ rest = fit @ concat toks"
  by (induction w remPx fit toks rule: fit_tokens.induct) (auto simp: Let_def split: if_splits)

lemma fitPrefix_split: "fitPrefixByWidth w s remPx = (f, rest) \<Longrightarrow> f @ rest = s"
  using fit_tokens_split [of w remPx "[]" "ws_tokens s" f rest]
  by (auto simp: fitPrefixByWidth_def concat_ws_tokens split: if_splits)

lemma fit_tokens_width:
  "fit_tokens w remPx fit toks = (f, rest) \<Longrightarrow> fit = [] \<or> w fit \<le> remPx \<Longrightarrow> f = [] \<or> w f \<le> remPx"
proof (induction w remPx fit toks rule: fit_tokens.induct)
  case (2 w remPx fit tok toks)
  have "fits_at w remPx tok (search_fit w remPx tok 0 (int (length tok)) 0)"
    by (rule search_fit_sound) (auto simp: fits_at_def)
  with 2 show ?case by (auto simp: Let_def fits_at_def split: if_splits)
qed auto

lemma fitPrefix_width: "fitPrefixByWidth w s remPx = (f, rest) \<Longrightarrow> f = [] \<or> w f \<le> remPx"
  using fit_tokens_width [of w remPx "[]" "ws_tokens s" f rest]
  by (auto simp: fitPrefixByWidth_def split: if_splits)

subsection \<open>buildLines\<close>

text \<open>The inner loop: what is left of the queue, and the line.\<close>

function (sequential) fill_line ::
  "(ustr \<Rightarrow> rat) \<Rightarrow> rat \<Rightarrow> nat \<Rightarrow> ustr list \<Rightarrow> ustr \<Rightarrow> nat \<Rightarrow> nat \<Rightarrow> ustr list \<times> ustr" where
  "fill_line w maxPx maxSent [] line used guard = ([], line)"
| "fill_line w maxPx maxSent (sentence # queue) line used guard =
     (if used < maxSent \<and> guard < 10000 then
        (if w (line @ sentence) \<le> maxPx
         then fill_line w maxPx maxSent queue (line @ sentence) (used + 1) (guard + 1)
         else (let remPx = maxPx - w line in
               if remPx \<le> 0 then (sentence # queue, line)
               else (case fitPrefixByWidth w sentence remPx of (fit, rest) \<Rightarrow>
                 if fit \<noteq> [] then (if rest \<noteq> [] then rest # queue else queue, line @ fit)
                 else (sentence # queue, line))))
      else (sentence # queue, line))"
  by pat_completeness auto
termination by (relation "measure (\<lambda>(w, maxPx, maxSent, queue, line, used, guard). length queue)") auto

text \<open>The outer loop, with fuel.\<close>

fun lines_loop :: "nat \<Rightarrow> (ustr \<Rightarrow> rat) \<Rightarrow> rat \<Rightarrow> nat \<Rightarrow> ustr list \<Rightarrow> ustr list option" where
  "lines_loop 0 w maxPx maxSent queue = (if queue = [] then Some [] else None)"
| "lines_loop (Suc fuel) w maxPx maxSent queue =
     (if queue = [] then Some []
      else case fill_line w maxPx maxSent queue [] 0 0 of (queue', line) \<Rightarrow>
        if line \<noteq> [] then map_option ((#) line) (lines_loop fuel w maxPx maxSent queue')
        else (case queue' of
                [] \<Rightarrow> Some []
              | s # q \<Rightarrow>
                  (case fitPrefixByWidth w s maxPx of (fit, rest) \<Rightarrow>
                     map_option ((#) (if fit \<noteq> [] then fit else take 1 s))
                       (lines_loop fuel w maxPx maxSent (if rest \<noteq> [] then rest # q else q)))))"

definition buildLines :: "nat \<Rightarrow> (ustr \<Rightarrow> rat) \<Rightarrow> rat \<Rightarrow> nat \<Rightarrow> ustr \<Rightarrow> ustr list option" where
  "buildLines fuel w maxPx maxSent text =
     (case splitSentencesAndTail text of (sents, tail) \<Rightarrow>
        lines_loop fuel w maxPx maxSent (if tail \<noteq> [] then sents @ [tail] else sents))"

text \<open>\<open>renderTwoLines\<close>: the two last lines, and whether the lower one is shown compact.\<close>

definition last_two :: "ustr list \<Rightarrow> ustr \<times> ustr" where
  "last_two lines =
     (case rev lines of [] \<Rightarrow> ([], []) | [a] \<Rightarrow> ([], a) | b # a # _ \<Rightarrow> (a, b))"

definition renderTwoLines ::
  "nat \<Rightarrow> (ustr \<Rightarrow> rat) \<Rightarrow> rat \<Rightarrow> nat \<Rightarrow> ustr \<Rightarrow> int \<Rightarrow> (ustr \<times> ustr \<times> bool) option" where
  "renderTwoLines fuel w maxPx maxSent text maxChars =
     (case buildLines fuel w maxPx maxSent (tailForLayout text maxChars) of
        None \<Rightarrow> None
      | Some lines \<Rightarrow> (case last_two lines of (line1, line2) \<Rightarrow> Some (line1, line2, trim line1 = [])))"

subsection \<open>Lines lose nothing and fit\<close>

lemma fit_tokens_nonempty:
  assumes "\<forall>c \<in> set (concat toks). w [c] \<le> remPx" and "fit \<noteq> [] \<or> concat toks \<noteq> []"
  shows "fst (fit_tokens w remPx fit toks) \<noteq> []"
  using assms
proof (induction w remPx fit toks rule: fit_tokens.induct)
  case (2 w remPx fit tok toks)
  have "0 < search_fit w remPx tok 0 (int (length tok)) 0" if "tok \<noteq> []"
  proof (rule search_fit_pos [OF that])
    show "w (take 1 tok) \<le> remPx" using 2(3) that by (cases tok) auto
    show "0 < (0::int) \<or> (0::int) \<le> 1 \<and> 1 \<le> int (length tok)"
      using that by (cases tok) auto
  qed simp
  with 2 show ?case by (auto simp: Let_def)
qed simp

lemma fitPrefix_nonempty:
  assumes "0 < remPx" and "s \<noteq> []" and "\<forall>c \<in> set s. w [c] \<le> remPx"
  shows "fst (fitPrefixByWidth w s remPx) \<noteq> []"
  using assms fit_tokens_nonempty [of "ws_tokens s" w remPx "[]"]
  by (simp add: fitPrefixByWidth_def concat_ws_tokens)

lemma fill_line_split:
  "fill_line w maxPx maxSent queue line used guard = (queue', line') \<Longrightarrow>
     line' @ concat queue' = line @ concat queue \<and> ([] \<notin> set queue \<longrightarrow> [] \<notin> set queue')"
proof (induction w maxPx maxSent queue line used guard rule: fill_line.induct)
  case (2 w maxPx maxSent sentence queue line used guard)
  then show ?case
    using fitPrefix_split [of w sentence "maxPx - w line"]
    by (fastforce simp: Let_def split: if_splits prod.splits)
qed auto

lemma fill_line_width:
  "fill_line w maxPx maxSent queue line used guard = (queue', line') \<Longrightarrow> \<forall>a b. w (a @ b) \<le> w a + w b \<Longrightarrow>
     w line \<le> maxPx \<Longrightarrow> w line' \<le> maxPx"
proof (induction w maxPx maxSent queue line used guard rule: fill_line.induct)
  case (2 w maxPx maxSent sentence queue line used guard)
  have "w (line @ f) \<le> maxPx"
    if "fitPrefixByWidth w sentence (maxPx - w line) = (f, rest)" "f \<noteq> []" for f rest
  proof -
    have "w f \<le> maxPx - w line" using fitPrefix_width [OF that(1)] that(2) by simp
    moreover have "w (line @ f) \<le> w line + w f" using 2(3) by blast
    ultimately show ?thesis by linarith
  qed
  with 2 show ?case by (auto simp: Let_def split: if_splits prod.splits)
qed auto

text \<open>
  The geometry in which every character fits: the bubble has a width, no single character is wider
  than it, and the width of a text is at most the sum of the widths of its parts.
\<close>

definition bubble_ok :: "(ustr \<Rightarrow> rat) \<Rightarrow> rat \<Rightarrow> ustr \<Rightarrow> bool" where
  "bubble_ok w maxPx text \<longleftrightarrow> 0 < maxPx \<and> w [] = 0 \<and> (\<forall>c \<in> set text. w [c] \<le> maxPx)"

lemma lines_loop_complete:
  assumes sub: "\<And>a b. w (a @ b) \<le> w a + w b"
  shows "bubble_ok w maxPx (concat queue) \<Longrightarrow> [] \<notin> set queue \<Longrightarrow> length (concat queue) \<le> fuel \<Longrightarrow>
    \<exists>lines. lines_loop fuel w maxPx maxSent queue = Some lines \<and> concat lines = concat queue \<and>
      (\<forall>l \<in> set lines. l \<noteq> [] \<and> w l \<le> maxPx)"
proof (induction fuel arbitrary: queue)
  case 0
  then have "queue = []" by (cases queue) auto
  then show ?case by simp
next
  case (Suc fuel)
  show ?case
  proof (cases "queue = []")
    case True
    then show ?thesis by simp
  next
    case ne: False
    obtain queue' line where f: "fill_line w maxPx maxSent queue [] 0 0 = (queue', line)" by fastforce
    from fill_line_split [OF f] Suc.prems(2)
    have sp: "concat queue = line @ concat queue'" and ne': "[] \<notin> set queue'" by auto
    have rec: "\<exists>lines. lines_loop fuel w maxPx maxSent q = Some lines \<and> concat lines = concat q \<and>
        (\<forall>l \<in> set lines. l \<noteq> [] \<and> w l \<le> maxPx)"
      if "l @ concat q = concat queue" "l \<noteq> []" "[] \<notin> set q" for l q
    proof (rule Suc.IH)
      show "bubble_ok w maxPx (concat q)"
        using Suc.prems(1) by (simp add: bubble_ok_def flip: that(1))
      have "length (l @ concat q) \<le> Suc fuel" using Suc.prems(3) by (simp only: that(1))
      then show "length (concat q) \<le> fuel" using that(2) by (cases l) auto
    qed (rule that(3))
    show ?thesis
    proof (cases "line = []")
      case False
      have "w line \<le> maxPx" using fill_line_width [OF f] sub Suc.prems(1) by (simp add: bubble_ok_def)
      with rec [OF sp [symmetric] False ne'] False ne f sp show ?thesis by auto
    next
      case True
      with sp have q: "concat queue' = concat queue" by simp
      obtain s q0 where q': "queue' = s # q0" using q ne Suc.prems(2) by (cases queue'; cases queue) auto
      with ne' have s: "s \<noteq> []" by auto
      obtain fit rest where e: "fitPrefixByWidth w s maxPx = (fit, rest)" by fastforce
      have "set s \<subseteq> set (concat queue)" by (auto simp: q' simp flip: q)
      with fitPrefix_nonempty [of maxPx s w] Suc.prems(1) s e have fit: "fit \<noteq> []"
        by (auto simp: bubble_ok_def)
      let ?q = "if rest \<noteq> [] then rest # q0 else q0"
      have "fit @ concat ?q = concat queue" using fitPrefix_split [OF e] q q' by auto
      moreover have "[] \<notin> set ?q" using ne' q' by auto
      moreover have "w fit \<le> maxPx" using fitPrefix_width [OF e] fit by simp
      ultimately show ?thesis using rec [of fit ?q] fit True ne f q' e by auto
    qed
  qed
qed

lemma lines_loop_diverges:
  assumes "maxPx \<le> 0" and "w [] = 0" and "\<And>s. s \<noteq> [] \<Longrightarrow> 0 < w s"
    and "queue \<noteq> []" and "[] \<notin> set queue"
  shows "lines_loop fuel w maxPx maxSent queue = None"
  using assms
proof (induction fuel)
  case 0
  then show ?case by simp
next
  case (Suc fuel)
  obtain s q where q: "queue = s # q" and s: "s \<noteq> []" using Suc.prems(4,5) by (cases queue) auto
  from Suc.prems(3) [OF s] Suc.prems(1) have "\<not> w s \<le> maxPx" by simp
  then have "fill_line w maxPx maxSent queue [] 0 0 = (queue, [])"
    using Suc.prems(1,2) by (simp add: q)
  moreover have "fitPrefixByWidth w s maxPx = ([], s)" using Suc.prems(1) by (simp add: fitPrefixByWidth_def)
  ultimately show ?case using Suc.IH Suc.prems s by (simp add: q)
qed

text \<open>The queue \<open>buildLines\<close> starts with.\<close>

lemma split_queue:
  assumes "splitSentencesAndTail text = (sents, tail)" and "q = (if tail \<noteq> [] then sents @ [tail] else sents)"
  shows "[] \<notin> set q \<and> concat q = concat sents @ tail \<and> set (concat q) \<subseteq> set text \<and> length (concat q) \<le> length text"
proof -
  obtain ms where ms: "exec_all (sent_re ender closing_quote) text = (ms, tail)" and sents: "sents = map snd ms"
    using assms(1) by (auto simp: splitSentencesAndTail_def sentences_and_tail_def split: prod.splits)
  have tx: "text = concat (map (\<lambda>(p, m). p @ m) ms) @ tail" using ms by (rule exec_all_split)
  have "set (concat (map snd ms)) \<subseteq> set (concat (map (\<lambda>(p, m). p @ m) ms))" by fastforce
  moreover have "length (concat (map snd ms)) \<le> length (concat (map (\<lambda>(p, m). p @ m) ms))"
    by (induction ms) auto
  ultimately show ?thesis
    using assms(2) std.exec_all_nonempty [OF ms] tx sents by auto
qed

lemma split_queue_nonempty:
  assumes "splitSentencesAndTail text = (sents, tail)" and "text \<noteq> []"
  shows "sents \<noteq> [] \<or> tail \<noteq> []"
proof -
  obtain ms where ms: "exec_all (sent_re ender closing_quote) text = (ms, tail)" and sents: "sents = map snd ms"
    using assms(1) by (auto simp: splitSentencesAndTail_def sentences_and_tail_def split: prod.splits)
  with exec_all_split [OF ms] assms(2) show ?thesis by auto
qed

subsection \<open>Properties\<close>



text \<open>In a bubble without inner width the loop of \<open>buildLines\<close> never ends on a non-empty
  text, whatever the number of passes: the first sentence is put back unchanged each time.\<close>

lemma buildLines_diverges:
  assumes "maxPx \<le> 0" and "w [] = 0" and "\<forall>s. s \<noteq> [] \<longrightarrow> 0 < w s" and "text \<noteq> []"
  shows "buildLines fuel w maxPx maxSent text = None"
proof -
  obtain sents tail where st: "splitSentencesAndTail text = (sents, tail)" by fastforce
  show ?thesis
    using lines_loop_diverges [of maxPx w "if tail \<noteq> [] then sents @ [tail] else sents" fuel maxSent]
      split_queue [OF st refl] split_queue_nonempty [OF st assms(4)] assms(1,2,3)
    by (simp add: buildLines_def st split: if_splits)
qed

end
