(* ===== verification/Overlay_State.thy ===== *)
theory Overlay_State
  imports Overlay_Layout
begin

section \<open>The subtitle overlay as a state machine (overlay.js)\<close>

text \<open>
  The overlay keeps the English transcript, which the server edits with patches and replaces with
  stable texts, and the Vietnamese translation, which consists of a committed text and a draft that
  may only extend it.  Text operations are queued and applied on the next animation frame.  The
  record \<open>ov\<close> holds the variables of overlay.js that its behaviour depends on (the counters of
  \<open>DBG\<close> and the trace buffer are left out, except \<open>viLastRenderAt\<close>, which the throttle reads) and
  the text of the four lines.  Events are a received message, the two animation frames, the render
  timer and a resize; each comes with the clock \<open>now\<close> (\<open>nowMs()\<close>).  How a text is cut into the
  two visible lines is \<open>renderTwoLines\<close> of Overlay_Layout and enters through \<open>layEN\<close> and \<open>layVI\<close>.
\<close>

record op =
  op_del :: int
  op_ins :: ustr
  op_seq :: jsval

text \<open>The settings read from \<open>localStorage\<close>, with their defaults below.\<close>

record ov_cfg =
  enStateMax :: int
  viStateMax :: int
  viMinRenderMs :: int
  viForceRenderMs :: int
  viDraftMinAppend :: int
  viDraftHoldMs :: int
  layEN :: "ustr \<Rightarrow> ustr \<times> ustr"
  layVI :: "ustr \<Rightarrow> ustr \<times> ustr"

definition default_cfg :: "(ustr \<Rightarrow> ustr \<times> ustr) \<Rightarrow> (ustr \<Rightarrow> ustr \<times> ustr) \<Rightarrow> ov_cfg" where
  "default_cfg len lvi =
     \<lparr>enStateMax = 5200, viStateMax = 4200, viMinRenderMs = 170, viForceRenderMs = 420,
      viDraftMinAppend = 10, viDraftHoldMs = 320, layEN = len, layVI = lvi\<rparr>"

record ov =
  showEN :: bool
  showVI :: bool
  fullTextEN :: ustr
  scheduledEN :: bool
  opsEN :: "op list"
  lastPatchSeqEN :: rat
  lastStableSeqEN :: rat
  viCommitText :: ustr
  viDraftText :: ustr
  viDraftEnabled :: bool
  scheduledVI :: bool
  opsVI :: "op list"
  lastViCommitSeqApplied :: rat
  lastViDraftSeqApplied :: rat
  lastViEnSeqApplied :: rat
  viEpoch :: rat
  viLastReqId :: rat
  viDraftUpdatedAt :: int
  viRenderTimer :: bool
  viLastRenderAt :: int
  l1EN :: ustr
  l2EN :: ustr
  l1VI :: ustr
  l2VI :: ustr
  compactEN :: bool
  compactVI :: bool
  mounted :: bool

definition ov_init :: ov where
  "ov_init =
     \<lparr>showEN = False, showVI = False, fullTextEN = [], scheduledEN = False, opsEN = [],
      lastPatchSeqEN = -1, lastStableSeqEN = -1, viCommitText = [], viDraftText = [],
      viDraftEnabled = False, scheduledVI = False, opsVI = [], lastViCommitSeqApplied = -1,
      lastViDraftSeqApplied = -1, lastViEnSeqApplied = -1, viEpoch = 0, viLastReqId = -1,
      viDraftUpdatedAt = 0, viRenderTimer = False, viLastRenderAt = 0, l1EN = [], l2EN = [],
      l1VI = [], l2VI = [], compactEN = True, compactVI = True, mounted = True\<rparr>"

text \<open>A numeric field of a message: \<open>x != null\<close> and \<open>Number.isFinite(Number(x))\<close>.\<close>

definition meta_num :: "jsval \<Rightarrow> rat option" where
  "meta_num v = (if nullish v then None else num_opt v)"

lemma meta_num_simps [simp]:
  "meta_num JUndef = None" "meta_num JNull = None" "meta_num (JNum (JFin q)) = Some q"
  by (simp_all add: meta_num_def num_opt_def)

subsection \<open>Text operations\<close>

definition applyOneOp :: "ustr \<Rightarrow> op \<Rightarrow> ustr" where
  "applyOneOp t x =
     (let out = (if 0 < op_del x
                 then (if int (length t) \<le> op_del x then [] else take (length t - nat (op_del x)) t)
                 else t)
      in out @ op_ins x)"

definition bounded :: "int \<Rightarrow> ustr \<Rightarrow> ustr" where
  "bounded maxChars t = (if 0 < maxChars \<and> maxChars < int (length t) then tailForLayout t maxChars else t)"

lemma bounded_length: "0 < n \<Longrightarrow> int (length (bounded n t)) \<le> n"
  by (simp add: bounded_def layout_tail.win_bound)

lemma bounded_suffix: "suffix (bounded n t) t"
  by (simp add: bounded_def layout_tail.win_suffix)

subsection \<open>English: patches and stable texts\<close>

text \<open>\<open>renderTwoLines(fullTextEN, \<dots>)\<close>.\<close>

definition renderEN :: "ov_cfg \<Rightarrow> ov \<Rightarrow> ov" where
  "renderEN c s = (case layEN c (fullTextEN s) of (a, b) \<Rightarrow> s\<lparr>l1EN := a, l2EN := b, compactEN := (trim a = [])\<rparr>)"

definition renderEN_if_shown :: "ov_cfg \<Rightarrow> ov \<Rightarrow> ov" where
  "renderEN_if_shown c s = (if showEN s then renderEN c s else s)"

text \<open>The sequence guard of \<open>enqueueOpEN\<close>: whether the operation is kept, and the new mark.\<close>

definition guardPatchEN :: "jsval \<Rightarrow> ov \<Rightarrow> bool \<times> ov" where
  "guardPatchEN seq s =
     (case meta_num seq of
        None \<Rightarrow> (True, s)
      | Some n \<Rightarrow> if n \<le> lastPatchSeqEN s then (False, s) else (True, s\<lparr>lastPatchSeqEN := n\<rparr>))"

definition enqueueOpEN :: "int \<Rightarrow> ustr \<Rightarrow> jsval \<Rightarrow> ov \<Rightarrow> ov" where
  "enqueueOpEN del' ins' seq s =
     (case guardPatchEN seq s of
        (False, s') \<Rightarrow> s'
      | (True, s') \<Rightarrow>
          s'\<lparr>opsEN := opsEN s' @ [\<lparr>op_del = del', op_ins = ins', op_seq = js_coalesce seq JNull\<rparr>],
             scheduledEN := True\<rparr>)"

definition flushEN :: "ov_cfg \<Rightarrow> ov \<Rightarrow> ov" where
  "flushEN c s =
     (if opsEN s = [] then s\<lparr>scheduledEN := False\<rparr>
      else (let t = bounded (enStateMax c) (foldl applyOneOp (fullTextEN s) (opsEN s))
            in (renderEN_if_shown c (s\<lparr>fullTextEN := t, opsEN := []\<rparr>))\<lparr>scheduledEN := False\<rparr>))"

definition guardStableEN :: "jsval \<Rightarrow> ov \<Rightarrow> bool \<times> ov" where
  "guardStableEN seq s =
     (case meta_num seq of
        None \<Rightarrow> (True, s)
      | Some n \<Rightarrow> if n \<le> lastStableSeqEN s then (False, s) else (True, s\<lparr>lastStableSeqEN := n\<rparr>))"

text \<open>Which stable texts replace the current one.\<close>

definition stable_replaces :: "ustr \<Rightarrow> ustr \<Rightarrow> bool" where
  "stable_replaces full cur \<longleftrightarrow>
     full \<noteq> cur \<and>
     (length cur \<le> length full \<or> startsWith cur full \<or> 24 < length cur - length full)"

definition applyStableEN :: "ov_cfg \<Rightarrow> jsval \<Rightarrow> jsval \<Rightarrow> ov \<Rightarrow> ov" where
  "applyStableEN c full seq s =
     (case full of
        JStr f \<Rightarrow>
          (let full' = bounded (enStateMax c) f in
           case guardStableEN seq s of
             (False, s1) \<Rightarrow> s1
           | (True, s1) \<Rightarrow>
               (let s2 = (if scheduledEN s1 then flushEN c s1 else s1) in
                if stable_replaces full' (fullTextEN s2)
                then renderEN_if_shown c (s2\<lparr>fullTextEN := full'\<rparr>) else s2))
      | _ \<Rightarrow> s)"

subsection \<open>Vietnamese: the visible text\<close>

text \<open>\<open>VI_RENDER_BOUNDARY_RE\<close>: the text ends with white space or punctuation.\<close>

definition vi_boundary :: "nat \<Rightarrow> bool" where
  "vi_boundary c \<longleftrightarrow> is_ws c \<or> c \<in> {46, 33, 63, 8230, 44, 58, 59, 65292, 12290, 65311, 65281}"

definition at_boundary :: "ustr \<Rightarrow> bool" where
  "at_boundary t \<longleftrightarrow> re_test (RSeq (RCls vi_boundary) REnd) t"

definition getVIVisibleText :: "ov_cfg \<Rightarrow> int \<Rightarrow> ov \<Rightarrow> ustr" where
  "getVIVisibleText c now s =
     (let draft = viDraftText s; commit = viCommitText s;
          grow = max 0 (int (length draft) - int (length commit));
          since = (if viDraftUpdatedAt s \<noteq> 0 then now - viDraftUpdatedAt s else 999999)
      in if draft \<noteq> [] \<and> startsWith draft commit \<and>
            (viDraftMinAppend c \<le> grow \<or> at_boundary draft \<or> viDraftHoldMs c \<le> since)
         then draft else commit)"

subsection \<open>Vietnamese: guards\<close>

record vi_meta =
  m_epoch :: jsval
  m_reqId :: jsval
  m_enSeq :: jsval
  m_seq :: jsval

definition viAcceptMeta :: "jsval \<Rightarrow> vi_meta" where
  "viAcceptMeta p =
     \<lparr>m_epoch = js_coalesces [fld p ''epoch'', fld p ''Epoch'', fld p ''ep'', JNull],
      m_reqId = js_coalesces [fld p ''req_id'', fld p ''reqId'', fld p ''request_id'', JNull],
      m_enSeq = js_coalesces [fld p ''en_seq'', fld p ''enSeq'', JNull],
      m_seq = js_coalesces [fld p ''seq'', fld p ''Seq'', JNull]\<rparr>"

datatype vi_kind = VI_op | VI_stable | VI_draft

definition guardEpoch :: "jsval \<Rightarrow> ov \<Rightarrow> bool \<times> ov" where
  "guardEpoch v s =
     (case meta_num v of
        None \<Rightarrow> (True, s)
      | Some e \<Rightarrow>
          if e < viEpoch s then (False, s)
          else if viEpoch s < e then
            (True, s\<lparr>viEpoch := e, viLastReqId := -1, lastViCommitSeqApplied := -1,
                    lastViDraftSeqApplied := -1, lastViEnSeqApplied := -1\<rparr>)
          else (True, s))"

definition guardReq :: "jsval \<Rightarrow> ov \<Rightarrow> bool \<times> ov" where
  "guardReq v s =
     (case meta_num v of
        None \<Rightarrow> (True, s)
      | Some r \<Rightarrow>
          if r < viLastReqId s then (False, s)
          else if viLastReqId s < r then (True, s\<lparr>viLastReqId := r\<rparr>) else (True, s))"

definition guardEnSeq :: "jsval \<Rightarrow> ov \<Rightarrow> bool \<times> ov" where
  "guardEnSeq v s =
     (case meta_num v of
        None \<Rightarrow> (True, s)
      | Some n \<Rightarrow> if n < lastViEnSeqApplied s then (False, s) else (True, s\<lparr>lastViEnSeqApplied := n\<rparr>))"

definition guardSeq :: "jsval \<Rightarrow> vi_kind \<Rightarrow> ov \<Rightarrow> bool \<times> ov" where
  "guardSeq v kind s =
     (case meta_num v of
        None \<Rightarrow> (True, s)
      | Some n \<Rightarrow>
          if kind = VI_draft then
            (if n \<le> lastViDraftSeqApplied s then (False, s) else (True, s\<lparr>lastViDraftSeqApplied := n\<rparr>))
          else (let last = lastViCommitSeqApplied s;
                    stale = (if kind = VI_stable then n < last else n \<le> last) in
                if stale then (False, s)
                else (True, if last < n then s\<lparr>lastViCommitSeqApplied := n\<rparr> else s)))"

text \<open>The guards run in order; what an earlier guard recorded stays when a later one drops the packet.\<close>

definition viGuardAndUpdate :: "vi_meta \<Rightarrow> vi_kind \<Rightarrow> ov \<Rightarrow> bool \<times> ov" where
  "viGuardAndUpdate m kind s =
     (case guardEpoch (m_epoch m) s of
        (False, s1) \<Rightarrow> (False, s1)
      | (True, s1) \<Rightarrow> (case guardReq (m_reqId m) s1 of
          (False, s2) \<Rightarrow> (False, s2)
        | (True, s2) \<Rightarrow> (case guardEnSeq (m_enSeq m) s2 of
            (False, s3) \<Rightarrow> (False, s3)
          | (True, s3) \<Rightarrow> guardSeq (m_seq m) kind s3)))"

subsection \<open>Vietnamese: operations, throttled rendering, stable texts and drafts\<close>

definition enqueueOpVI :: "int \<Rightarrow> ustr \<Rightarrow> vi_meta \<Rightarrow> ov \<Rightarrow> ov" where
  "enqueueOpVI del' ins' m s =
     (case viGuardAndUpdate m VI_op s of
        (False, s') \<Rightarrow> s'
      | (True, s') \<Rightarrow>
          s'\<lparr>opsVI := opsVI s' @ [\<lparr>op_del = del', op_ins = ins', op_seq = js_coalesce (m_seq m) JNull\<rparr>],
             scheduledVI := True\<rparr>)"

definition shouldRenderVI :: "ov_cfg \<Rightarrow> int \<Rightarrow> ustr \<Rightarrow> bool \<Rightarrow> ov \<Rightarrow> bool" where
  "shouldRenderVI c now t force s \<longleftrightarrow>
     force \<or>
     (let dt = (if viLastRenderAt s \<noteq> 0 then now - viLastRenderAt s else 999999)
      in viForceRenderMs c \<le> dt \<or> (viMinRenderMs c \<le> dt \<and> at_boundary t))"

definition doRenderVI :: "ov_cfg \<Rightarrow> int \<Rightarrow> bool \<Rightarrow> ov \<Rightarrow> ov" where
  "doRenderVI c now force s =
     (if \<not> showVI s then s
      else (let t = getVIVisibleText c now s in
            if \<not> shouldRenderVI c now t force s then s\<lparr>viRenderTimer := True\<rparr>
            else (case layVI c t of (a, b) \<Rightarrow>
                    s\<lparr>viLastRenderAt := now, l1VI := a, l2VI := b, compactVI := (trim a = [])\<rparr>)))"

text \<open>A draft that no longer extends the commit is dropped.\<close>

definition drop_diverged :: "ov \<Rightarrow> ov" where
  "drop_diverged s =
     (if viDraftText s \<noteq> [] \<and> \<not> startsWith (viDraftText s) (viCommitText s)
      then s\<lparr>viDraftText := [], viDraftUpdatedAt := 0\<rparr> else s)"

definition flushVI :: "ov_cfg \<Rightarrow> int \<Rightarrow> ov \<Rightarrow> ov" where
  "flushVI c now s =
     (if opsVI s = [] then s\<lparr>scheduledVI := False\<rparr>
      else (let t = bounded (viStateMax c) (foldl applyOneOp (viCommitText s) (opsVI s));
                s1 = drop_diverged (s\<lparr>viCommitText := t, opsVI := []\<rparr>)
            in (doRenderVI c now False s1)\<lparr>scheduledVI := False\<rparr>))"

definition applyStableVI :: "ov_cfg \<Rightarrow> int \<Rightarrow> jsval \<Rightarrow> vi_meta \<Rightarrow> ov \<Rightarrow> ov" where
  "applyStableVI c now full m s =
     (case full of
        JStr f \<Rightarrow>
          (let full' = bounded (viStateMax c) f in
           case viGuardAndUpdate m VI_stable s of
             (False, s1) \<Rightarrow> s1
           | (True, s1) \<Rightarrow>
               (let s2 = (if scheduledVI s1 then flushVI c now s1 else s1) in
                if full' = viCommitText s2 then s2
                else doRenderVI c now True (drop_diverged (s2\<lparr>viCommitText := full'\<rparr>))))
      | _ \<Rightarrow> s)"

definition applyDraftVI :: "ov_cfg \<Rightarrow> int \<Rightarrow> jsval \<Rightarrow> vi_meta \<Rightarrow> ov \<Rightarrow> ov" where
  "applyDraftVI c now full m s =
     (case full of
        JStr f \<Rightarrow>
          (if \<not> viDraftEnabled s then s
           else case viGuardAndUpdate m VI_draft s of
             (False, s1) \<Rightarrow> s1
           | (True, s1) \<Rightarrow>
               (if viCommitText s1 \<noteq> [] \<and> \<not> startsWith f (viCommitText s1) then s1
                else doRenderVI c now False (s1\<lparr>viDraftText := f, viDraftUpdatedAt := now\<rparr>)))
      | _ \<Rightarrow> s)"

subsection \<open>Modes and resets\<close>

definition dots :: ustr where
  "dots = js ''...''"

definition applyOverlayMode :: "ov_cfg \<Rightarrow> int \<Rightarrow> bool \<Rightarrow> bool \<Rightarrow> ov \<Rightarrow> ov" where
  "applyOverlayMode c now enOn viOn s0 =
     (let s1 = s0\<lparr>showEN := enOn, showVI := viOn\<rparr>;
          s2 = (if enOn \<and> fullTextEN s1 = [] then s1\<lparr>l2EN := dots\<rparr> else s1);
          s3 = (if viOn \<and> getVIVisibleText c now s2 = [] then s2\<lparr>l2VI := dots\<rparr> else s2);
          s4 = (if \<not> enOn then s3\<lparr>l1EN := [], l2EN := [], compactEN := True\<rparr> else s3)
      in if \<not> viOn then s4\<lparr>l1VI := [], l2VI := [], compactVI := True\<rparr> else s4)"

text \<open>\<open>(viEpoch | 0) + 1\<close>.\<close>

definition next_epoch :: "rat \<Rightarrow> rat" where
  "next_epoch e = of_int (to_int32 (JFin e) + 1)"

text \<open>The assignments that both resets make to the Vietnamese side.\<close>

definition clearVI :: "ov \<Rightarrow> ov" where
  "clearVI s =
     s\<lparr>viCommitText := [], viDraftText := [], viDraftUpdatedAt := 0, opsVI := [],
       lastViCommitSeqApplied := -1, lastViDraftSeqApplied := -1, lastViEnSeqApplied := -1,
       viLastReqId := -1, viEpoch := next_epoch (viEpoch s), viRenderTimer := False,
       l1VI := [], l2VI := [], compactVI := True\<rparr>"

definition clear_all :: "ov \<Rightarrow> ov" where
  "clear_all s =
     (clearVI (s\<lparr>fullTextEN := [], opsEN := [], scheduledEN := False, lastPatchSeqEN := -1,
                lastStableSeqEN := -1\<rparr>))
     \<lparr>scheduledVI := False, l1EN := [], l2EN := [], compactEN := True\<rparr>"

definition resetOverlayState :: "ov_cfg \<Rightarrow> int \<Rightarrow> bool \<Rightarrow> bool \<Rightarrow> ov \<Rightarrow> ov" where
  "resetOverlayState c now keepMode showDots s =
     (let s1 = clear_all s
      in if \<not> keepMode then applyOverlayMode c now False False s1
         else (let s2 = applyOverlayMode c now (showEN s1) (showVI s1) s1
               in if showDots then s2
                  else s2\<lparr>l2EN := (if showEN s2 then [] else l2EN s2),
                         l2VI := (if showVI s2 then [] else l2VI s2)\<rparr>))"

definition resetVI :: "ov_cfg \<Rightarrow> int \<Rightarrow> ov \<Rightarrow> ov" where
  "resetVI c now s =
     (let s1 = clearVI (if scheduledVI s then flushVI c now s else s)
      in if showVI s1 \<and> getVIVisibleText c now s1 = [] then s1\<lparr>l2VI := dots\<rparr> else s1)"

subsection \<open>Messages\<close>

text \<open>\<open>type === "a" || type === "b"\<close>.\<close>

definition is_cmd :: "jsval \<Rightarrow> string list \<Rightarrow> bool" where
  "is_cmd t ns \<longleftrightarrow> list_ex (\<lambda>n. t = JStr (js n)) ns"

text \<open>\<open>(Number(v) || 0) | 0\<close>: \<open>NaN\<close> and the infinities give 0 as well.\<close>

definition del_count :: "jsval \<Rightarrow> int" where
  "del_count v = to_int32 (to_num v)"

definition applyViConfig :: "ov_cfg \<Rightarrow> int \<Rightarrow> bool \<Rightarrow> ov \<Rightarrow> ov" where
  "applyViConfig c now enabled s =
     (let s1 = s\<lparr>viDraftEnabled := enabled\<rparr>
      in if \<not> enabled \<and> viDraftText s1 \<noteq> []
         then doRenderVI c now True (s1\<lparr>viDraftText := [], viDraftUpdatedAt := 0\<rparr>) else s1)"

definition handleMessage :: "ov_cfg \<Rightarrow> int \<Rightarrow> jsval \<Rightarrow> ov \<Rightarrow> ov" where
  "handleMessage c now msg s =
     (let t = js_or (fld msg ''__cmd'') (fld msg ''type'');
          p = fld msg ''payload'';
          d = fld msg ''detail'';
          pd = js_ors [p, d, JObj []];
          m = viAcceptMeta pd
      in
      if \<not> truthy msg \<or> \<not> truthy t then s
      else if is_cmd t [''__TRANSCRIPT_PATCH__'', ''patch''] then
        enqueueOpEN (del_count (js_coalesces [fld p ''delete'', fld msg ''delete'', JInt 0]))
          (to_str (js_coalesces [fld p ''insert'', fld msg ''insert'', JStr []]))
          (js_coalesces [fld p ''seq'', fld msg ''seq'', JNull]) s
      else if is_cmd t [''__TRANSCRIPT_DELTA__'', ''delta'', ''delta-append''] then
        enqueueOpEN 0 (to_str (js_coalesces [fld p ''append'', fld msg ''append'', JStr []]))
          (js_coalesces [fld p ''seq'', fld msg ''seq'', JNull]) s
      else if is_cmd t [''__TRANSCRIPT_STABLE__'', ''stable''] then
        applyStableEN c (js_coalesces [fld msg ''full'', fld d ''full'', fld p ''full''])
          (js_coalesces [fld p ''seq'', fld msg ''seq'', JNull]) s
      else if is_cmd t [''__TRANS_VI_DELTA__'', ''vi-delta''] then
        enqueueOpVI 0 (to_str (js_coalesces [fld pd ''append'', fld msg ''append'', JStr []])) m s
      else if is_cmd t [''__TRANS_VI_COMMIT__'', ''vi-commit''] then
        enqueueOpVI (del_count (js_coalesces [fld pd ''delete'', fld msg ''delete'', JInt 0]))
          (to_str (js_coalesces [fld pd ''insert'', fld pd ''append'', fld msg ''insert'',
                                 fld msg ''append'', JStr []])) m s
      else if is_cmd t [''__TRANS_VI_STABLE__'', ''vi-stable''] then
        applyStableVI c now (js_coalesces [fld msg ''full'', fld pd ''full'', fld d ''full'']) m s
      else if is_cmd t [''__TRANS_VI_DRAFT__'', ''vi-draft''] then
        applyDraftVI c now (js_coalesces [fld msg ''full'', fld pd ''full'', fld pd ''text'', fld d ''full'']) m s
      else if is_cmd t [''__TRANS_VI_CFG__'', ''vi-config''] then
        applyViConfig c now (fld pd ''draftEnabled'' \<noteq> JBool False) s
      else if is_cmd t [''__OVERLAY_MODE__'', ''overlay-mode''] then
        applyOverlayMode c now
          (truthy (js_coalesces [fld pd ''en'', fld pd ''subtitle'', fld pd ''showEN'']))
          (truthy (js_coalesces [fld pd ''vi'', fld pd ''subtitle_vi'', fld pd ''showVI''])) s
      else if is_cmd t [''__OVERLAY_RESET__'', ''overlay-reset''] then
        resetOverlayState c now (fld pd ''keepMode'' \<noteq> JBool False) (fld pd ''showDots'' \<noteq> JBool False) s
      else if is_cmd t [''__TRANS_VI_RESET__''] then resetVI c now s
      else if is_cmd t [''__OVERLAY_TEARDOWN__''] then s\<lparr>mounted := False\<rparr>
      else s)"

text \<open>
  What runs in the page: a message, an animation frame, the render timer, a resize of the window.  A
  frame that was requested before a reset still runs after it, so frames are possible at any time;
  the timer runs only when it is set.
\<close>

datatype ov_event = EvMsg jsval | EvFrameEN | EvFrameVI | EvRenderTimer | EvResize

fun ov_step :: "ov_cfg \<Rightarrow> ov \<Rightarrow> int \<times> ov_event \<Rightarrow> ov" where
  "ov_step c s (now, EvMsg m) = handleMessage c now m s"
| "ov_step c s (now, EvFrameEN) = flushEN c s"
| "ov_step c s (now, EvFrameVI) = flushVI c now s"
| "ov_step c s (now, EvRenderTimer) =
     (if viRenderTimer s then doRenderVI c now True (s\<lparr>viRenderTimer := False\<rparr>) else s)"
| "ov_step c s (now, EvResize) =
     (let s1 = renderEN_if_shown c s in if showVI s1 then doRenderVI c now True s1 else s1)"

definition ov_run :: "ov_cfg \<Rightarrow> ov \<Rightarrow> (int \<times> ov_event) list \<Rightarrow> ov" where
  "ov_run c s evs = foldl (ov_step c) s evs"

end
