(* ===== verification/Overlay_Contract.thy ===== *)
theory Overlay_Contract
  imports Overlay_State
begin

section \<open>What the overlay promises\<close>

text \<open>
  The contract of the guards that drop stale packets (locale \<open>seq_guard\<close>), the invariant that every
  event of the overlay keeps, and the properties of the transcripts: operations are applied at most
  once and in order, a newer stable text settles the English line, drafts never break the committed
  translation, and a reset clears both lines.
\<close>

subsection \<open>Sequence guards\<close>

text \<open>The entries of a list that exceed every number before them and the mark the guard starts with.\<close>

primrec records :: "rat \<Rightarrow> (rat \<times> 'a) list \<Rightarrow> (rat \<times> 'a) list" where
  "records m [] = []"
| "records m (x # xs) = (if m < fst x then x # records (fst x) xs else records m xs)"

lemma records_above: "x \<in> set (records m xs) \<Longrightarrow> m < fst x"
  by (induction xs arbitrary: m) (auto split: if_splits, fastforce)

lemma records_strict: "sorted_wrt (<) (map fst (records m xs))"
  by (induction xs arbitrary: m) (auto dest: records_above)

lemma records_sorted: "sorted_wrt (<) (map fst xs) \<Longrightarrow> (\<forall>x \<in> set xs. m < fst x) \<Longrightarrow> records m xs = xs"
  by (induction xs arbitrary: m) auto

lemma records_none: "\<forall>x \<in> set xs. fst x \<le> m \<Longrightarrow> records m xs = []"
  by (induction xs) (auto simp: not_less [symmetric])

text \<open>The mark after a list of numbers.\<close>

primrec last_mark :: "rat \<Rightarrow> (rat \<times> 'a) list \<Rightarrow> rat" where
  "last_mark m [] = m"
| "last_mark m (x # xs) = last_mark (max m (fst x)) xs"

lemma records_append: "records m (xs @ ys) = records m xs @ records (last_mark m xs) ys"
  by (induction xs arbitrary: m) (auto simp: max_def)

lemma last_mark_ge: "m \<le> last_mark m xs"
  by (induction xs arbitrary: m) (simp, metis last_mark.simps(2) max.bounded_iff)

lemma last_mark_member: "x \<in> set xs \<Longrightarrow> fst x \<le> last_mark m xs"
proof (induction xs arbitrary: m)
  case (Cons a xs)
  then show ?case
    using last_mark_ge [of "max m (fst a)" xs] by auto
qed simp

lemma records_replay: "records m (xs @ xs) = records m xs"
  by (simp add: records_append records_none last_mark_member)

locale seq_guard =
  fixes num :: "jsval \<Rightarrow> rat option" and mark :: "'s \<Rightarrow> rat" and guard :: "jsval \<Rightarrow> 's \<Rightarrow> bool \<times> 's"
  assumes unnumbered: "num v = None \<Longrightarrow> guard v s = (True, s)"
    and stale: "num v = Some n \<Longrightarrow> n \<le> mark s \<Longrightarrow> guard v s = (False, s)"
    and fresh: "num v = Some n \<Longrightarrow> mark s < n \<Longrightarrow> fst (guard v s) \<and> mark (snd (guard v s)) = n"
begin

lemma mark_mono: "mark s \<le> mark (snd (guard v s))"
  by (cases "num v"; cases "the (num v) \<le> mark s") (auto simp: unnumbered stale dest!: fresh [of _ _ s])

lemma accepts_iff: "num v = Some n \<Longrightarrow> fst (guard v s) \<longleftrightarrow> mark s < n"
  using stale [of v n s] fresh [of v n s] by (cases "n \<le> mark s") auto

lemma no_repeat: "num v = Some n \<Longrightarrow> \<not> fst (guard v (snd (guard v s)))"
  using stale [of v n s] fresh [of v n s] by (cases "n \<le> mark s") (auto simp: accepts_iff)

text \<open>
  A handler that feeds a queue behind the guard queues the records of what it receives, as long as
  it is in a state \<open>P\<close> in which it works.
\<close>

lemma queue_records:
  assumes start: "P s" and stays: "\<And>x s. P s \<Longrightarrow> P (h s x)"
    and acc: "\<And>x s. P s \<Longrightarrow> mark s < fst x \<Longrightarrow> q (h s x) = q s @ [snd x] \<and> mark (h s x) = fst x"
    and rej: "\<And>x s. P s \<Longrightarrow> fst x \<le> mark s \<Longrightarrow> h s x = s"
  shows "q (foldl h s xs) = q s @ map snd (records (mark s) xs) \<and> mark (foldl h s xs) = last_mark (mark s) xs \<and>
    P (foldl h s xs)"
  using start
proof (induction xs arbitrary: s)
  case (Cons x xs)
  from Cons.IH [OF stays [OF Cons.prems, of x]] Cons.prems show ?case
    by (cases "fst x \<le> mark s") (simp_all add: acc rej max_def not_le)
qed simp

end

interpretation patchEN: seq_guard meta_num lastPatchSeqEN guardPatchEN
  by unfold_locales (auto simp: guardPatchEN_def)

interpretation stableEN: seq_guard meta_num lastStableSeqEN guardStableEN
  by unfold_locales (auto simp: guardStableEN_def)

interpretation commitVI: seq_guard meta_num lastViCommitSeqApplied "\<lambda>v. guardSeq v VI_op"
  by unfold_locales (auto simp: guardSeq_def)

interpretation draftVI: seq_guard meta_num lastViDraftSeqApplied "\<lambda>v. guardSeq v VI_draft"
  by unfold_locales (auto simp: guardSeq_def)

subsection \<open>The invariant\<close>

text \<open>
  The texts stay within the configured sizes (a size of 0 or less switches a bound off), a draft
  exists only while drafts are enabled, and it extends the committed text.
\<close>

definition draft_ok :: "ov \<Rightarrow> bool" where
  "draft_ok s \<longleftrightarrow>
     viDraftText s = [] \<or> (viDraftEnabled s \<and> startsWith (viDraftText s) (viCommitText s))"

definition text_ok :: "int \<Rightarrow> ustr \<Rightarrow> bool" where
  "text_ok n t \<longleftrightarrow> n \<le> 0 \<or> int (length t) \<le> n"

definition ov_inv :: "ov_cfg \<Rightarrow> ov \<Rightarrow> bool" where
  "ov_inv c s \<longleftrightarrow> text_ok (enStateMax c) (fullTextEN s) \<and> text_ok (viStateMax c) (viCommitText s) \<and> draft_ok s"

lemma text_ok_bounded [simp]: "text_ok n (bounded n t)"
  using bounded_length [of n t] by (cases "0 < n") (auto simp: text_ok_def)

lemma text_ok_Nil [simp]: "text_ok n []"
  by (auto simp: text_ok_def)

text \<open>What an operation leaves alone: the texts, the draft and the draft switch.\<close>

definition same_texts :: "ov \<Rightarrow> ov \<Rightarrow> bool" where
  "same_texts s s' \<longleftrightarrow>
     fullTextEN s' = fullTextEN s \<and> viCommitText s' = viCommitText s \<and> viDraftText s' = viDraftText s \<and>
     viDraftEnabled s' = viDraftEnabled s"

lemma same_texts_refl [simp]: "same_texts s s"
  by (simp add: same_texts_def)

lemma same_texts_inv: "same_texts s s' \<Longrightarrow> ov_inv c s' = ov_inv c s"
  by (simp add: same_texts_def ov_inv_def draft_ok_def)

lemma same_texts_trans: "same_texts s s' \<Longrightarrow> same_texts s' s'' \<Longrightarrow> same_texts s s''"
  by (simp add: same_texts_def)

lemma same_renderEN [simp]: "same_texts s (renderEN_if_shown c s)"
  by (simp add: same_texts_def renderEN_if_shown_def renderEN_def split: prod.split)

lemma same_renderVI [simp]: "same_texts s (doRenderVI c now force s)"
  by (simp add: same_texts_def doRenderVI_def Let_def split: prod.split)

lemma guard_steps_same:
  "same_texts s (snd (guardEpoch v s))" "same_texts s (snd (guardReq v s))"
  "same_texts s (snd (guardEnSeq v s))" "same_texts s (snd (guardSeq v k s))"
  by (simp_all add: same_texts_def guardEpoch_def guardReq_def guardEnSeq_def guardSeq_def Let_def
      split: option.split)

lemma same_viGuard [simp]: "same_texts s (snd (viGuardAndUpdate m k s))"
proof -
  obtain a s1 where 1: "guardEpoch (m_epoch m) s = (a, s1)" by fastforce
  obtain b s2 where 2: "guardReq (m_reqId m) s1 = (b, s2)" by fastforce
  obtain d s3 where 3: "guardEnSeq (m_enSeq m) s2 = (d, s3)" by fastforce
  have "same_texts s s1" "same_texts s1 s2" "same_texts s2 s3" "same_texts s3 (snd (guardSeq (m_seq m) k s3))"
    using guard_steps_same(1) [of s "m_epoch m"] guard_steps_same(2) [of s1 "m_reqId m"]
      guard_steps_same(3) [of s2 "m_enSeq m"] guard_steps_same(4) [of s3 "m_seq m" k] 1 2 3 by simp_all
  then show ?thesis
    using 1 2 3 by (auto simp: viGuardAndUpdate_def split: bool.split intro: same_texts_trans)
qed

lemma inv_renderEN [simp]: "ov_inv c (renderEN_if_shown c s) = ov_inv c s"
  by (rule same_texts_inv) simp

lemma inv_renderVI [simp]: "ov_inv c (doRenderVI c now force s) = ov_inv c s"
  by (rule same_texts_inv) simp

lemma inv_guard: "viGuardAndUpdate m k s = (b, s') \<Longrightarrow> ov_inv c s' = ov_inv c s"
  using same_viGuard [of s m k] by (intro same_texts_inv) simp

lemma inv_sched [simp]:
  "ov_inv c (s\<lparr>scheduledEN := b\<rparr>) = ov_inv c s" "ov_inv c (s\<lparr>scheduledVI := b\<rparr>) = ov_inv c s"
  "ov_inv c (s\<lparr>viRenderTimer := b\<rparr>) = ov_inv c s" "ov_inv c (s\<lparr>mounted := b\<rparr>) = ov_inv c s"
  by (simp_all add: ov_inv_def draft_ok_def)

lemma inv_drop_diverged:
  "text_ok (enStateMax c) (fullTextEN s) \<Longrightarrow> text_ok (viStateMax c) (viCommitText s) \<Longrightarrow>
   (viDraftText s \<noteq> [] \<longrightarrow> viDraftEnabled s) \<Longrightarrow> ov_inv c (drop_diverged s)"
  by (auto simp: ov_inv_def draft_ok_def drop_diverged_def)

lemma inv_enqueueOpEN: "ov_inv c s \<Longrightarrow> ov_inv c (enqueueOpEN n t v s)"
  by (auto simp: enqueueOpEN_def guardPatchEN_def ov_inv_def draft_ok_def split: option.split)

lemma inv_flushEN: "ov_inv c s \<Longrightarrow> ov_inv c (flushEN c s)"
  by (simp add: flushEN_def Let_def) (simp add: ov_inv_def draft_ok_def)

lemma inv_applyStableEN: "ov_inv c s \<Longrightarrow> ov_inv c (applyStableEN c full v s)"
proof (cases full)
  case (JStr f)
  assume i: "ov_inv c s"
  obtain b s1 where g: "guardStableEN v s = (b, s1)" by fastforce
  with i have i1: "ov_inv c s1"
    by (auto simp: guardStableEN_def ov_inv_def draft_ok_def split: option.splits if_splits)
  define s2 where "s2 = (if scheduledEN s1 then flushEN c s1 else s1)"
  have i2: "ov_inv c s2" using i1 by (simp add: s2_def inv_flushEN)
  then have i3: "ov_inv c (s2\<lparr>fullTextEN := bounded (enStateMax c) f\<rparr>)" by (simp add: ov_inv_def draft_ok_def)
  show ?thesis
  proof (cases b)
    case True
    have "applyStableEN c full v s =
        (if stable_replaces (bounded (enStateMax c) f) (fullTextEN s2)
         then renderEN_if_shown c (s2\<lparr>fullTextEN := bounded (enStateMax c) f\<rparr>) else s2)"
      using True by (simp only: applyStableEN_def JStr jsval.case g prod.case bool.case Let_def s2_def)
    with i2 i3 show ?thesis by (simp split: if_split)
  qed (use i1 in \<open>simp add: applyStableEN_def JStr g Let_def\<close>)
qed (simp_all add: applyStableEN_def)

lemma inv_enqueueOpVI: "ov_inv c s \<Longrightarrow> ov_inv c (enqueueOpVI n t m s)"
  using inv_guard [of m VI_op s _ _ c]
  by (auto simp: enqueueOpVI_def split: prod.split bool.split) (simp add: ov_inv_def draft_ok_def)

lemma inv_flushVI: "ov_inv c s \<Longrightarrow> ov_inv c (flushVI c now s)"
  by (simp add: flushVI_def Let_def, intro impI inv_drop_diverged) (auto simp: ov_inv_def draft_ok_def)

lemma inv_applyStableVI: "ov_inv c s \<Longrightarrow> ov_inv c (applyStableVI c now full m s)"
proof (cases full)
  case (JStr f)
  assume i: "ov_inv c s"
  obtain b s1 where g: "viGuardAndUpdate m VI_stable s = (b, s1)" by fastforce
  with i have i1: "ov_inv c s1" by (simp add: inv_guard)
  define s2 where "s2 = (if scheduledVI s1 then flushVI c now s1 else s1)"
  have i2: "ov_inv c s2" using i1 by (simp add: s2_def inv_flushVI)
  then have i3: "ov_inv c (drop_diverged (s2\<lparr>viCommitText := bounded (viStateMax c) f\<rparr>))"
    by (intro inv_drop_diverged) (auto simp: ov_inv_def draft_ok_def)
  show ?thesis
  proof (cases b)
    case True
    have "applyStableVI c now full m s =
        (if bounded (viStateMax c) f = viCommitText s2 then s2
         else doRenderVI c now True (drop_diverged (s2\<lparr>viCommitText := bounded (viStateMax c) f\<rparr>)))"
      using True by (simp only: applyStableVI_def JStr jsval.case g prod.case bool.case Let_def s2_def)
    with i2 i3 show ?thesis by (simp split: if_split)
  qed (use i1 in \<open>simp add: applyStableVI_def JStr g Let_def\<close>)
qed (simp_all add: applyStableVI_def)

lemma inv_applyDraftVI: "ov_inv c s \<Longrightarrow> ov_inv c (applyDraftVI c now full m s)"
proof (cases full)
  case (JStr f)
  assume i: "ov_inv c s"
  obtain b s1 where g: "viGuardAndUpdate m VI_draft s = (b, s1)" by fastforce
  with i have i1: "ov_inv c s1" by (simp add: inv_guard)
  have "viDraftEnabled s1 = viDraftEnabled s"
    using same_viGuard [of s m VI_draft] g by (simp add: same_texts_def)
  with i i1 g show ?thesis
    by (auto simp: applyDraftVI_def JStr ov_inv_def draft_ok_def split: bool.split
        intro!: inv_renderVI [unfolded ov_inv_def draft_ok_def, THEN iffD2])
qed (simp_all add: applyDraftVI_def)

lemma inv_mode: "ov_inv c (applyOverlayMode c now a b s) = ov_inv c s"
  by (rule same_texts_inv) (simp add: same_texts_def applyOverlayMode_def Let_def)

lemma inv_clearVI: "ov_inv c s \<Longrightarrow> ov_inv c (clearVI s)"
  by (simp add: clearVI_def ov_inv_def draft_ok_def)

lemma inv_lines [simp]:
  "ov_inv c (s\<lparr>l1EN := a\<rparr>) = ov_inv c s" "ov_inv c (s\<lparr>l2EN := a\<rparr>) = ov_inv c s"
  "ov_inv c (s\<lparr>l2VI := a\<rparr>) = ov_inv c s" "ov_inv c (s\<lparr>compactEN := b\<rparr>) = ov_inv c s"
  by (simp_all add: ov_inv_def draft_ok_def)

lemma inv_reset: "ov_inv c s \<Longrightarrow> ov_inv c (resetOverlayState c now k d s)"
  by (simp add: resetOverlayState_def Let_def inv_mode)
    (simp add: clear_all_def clearVI_def ov_inv_def draft_ok_def)

lemma inv_resetVI: "ov_inv c s \<Longrightarrow> ov_inv c (resetVI c now s)"
  by (simp add: resetVI_def Let_def inv_clearVI inv_flushVI)

lemma inv_config: "ov_inv c s \<Longrightarrow> ov_inv c (applyViConfig c now b s)"
  by (simp add: applyViConfig_def Let_def) (auto simp: ov_inv_def draft_ok_def)

lemma inv_if: "ov_inv c a \<Longrightarrow> ov_inv c b \<Longrightarrow> ov_inv c (if P then a else b)"
  by simp

lemma inv_mounted: "ov_inv c s \<Longrightarrow> ov_inv c (s\<lparr>mounted := b\<rparr>)"
  by simp

lemmas inv_handlers =
  inv_enqueueOpEN inv_applyStableEN inv_enqueueOpVI inv_applyStableVI inv_applyDraftVI inv_mode [THEN iffD2]
  inv_reset inv_resetVI inv_config inv_mounted

lemma inv_handleMessage: "ov_inv c s \<Longrightarrow> ov_inv c (handleMessage c now msg s)"
  unfolding handleMessage_def Let_def by (intro inv_if inv_handlers)

lemma inv_step: "ov_inv c s \<Longrightarrow> ov_inv c (ov_step c s e)"
  by (induction c s e rule: ov_step.induct) (simp_all add: inv_handleMessage inv_flushEN inv_flushVI Let_def)

lemma inv_init: "ov_inv c ov_init"
  by (simp add: ov_inv_def ov_init_def draft_ok_def)

lemma inv_run: "ov_inv c s \<Longrightarrow> ov_inv c (ov_run c s evs)"
  unfolding ov_run_def by (induction evs arbitrary: s) (simp_all add: inv_step)

subsection \<open>Facts about single handlers\<close>

lemma visible_extends_commit: "startsWith (getVIVisibleText c now s) (viCommitText s)"
  by (simp add: getVIVisibleText_def Let_def)

text \<open>A patch message as the translator sends it.\<close>

definition patch_msg :: "int \<Rightarrow> int \<Rightarrow> ustr \<Rightarrow> jsval" where
  "patch_msg n del' ins' =
     JObj [(js ''type'', JStr (js ''patch'')), (js ''seq'', JInt n), (js ''delete'', JInt del'),
           (js ''insert'', JStr ins')]"

definition patch_op :: "int \<Rightarrow> int \<Rightarrow> ustr \<Rightarrow> op" where
  "patch_op n del' ins' = \<lparr>op_del = wrap32 del', op_ins = ins', op_seq = JInt n\<rparr>"

lemma handle_patch:
  "handleMessage c now (patch_msg n d t) s = enqueueOpEN (wrap32 d) t (JInt n) s"
  by (simp add: handleMessage_def patch_msg_def Let_def is_cmd_def del_count_def)

lemma enqueueOpEN_stale: "of_int n \<le> lastPatchSeqEN s \<Longrightarrow> enqueueOpEN d t (JInt n) s = s"
  by (simp add: enqueueOpEN_def patchEN.stale [of _ "of_int n"])

lemma enqueueOpEN_fresh:
  "lastPatchSeqEN s < of_int n \<Longrightarrow>
   enqueueOpEN d t (JInt n) s =
     s\<lparr>lastPatchSeqEN := of_int n, opsEN := opsEN s @ [\<lparr>op_del = d, op_ins = t, op_seq = JInt n\<rparr>],
       scheduledEN := True\<rparr>"
  by (simp add: enqueueOpEN_def guardPatchEN_def)

definition numbered :: "(int \<times> int \<times> ustr) list \<Rightarrow> (rat \<times> op) list" where
  "numbered xs = map (\<lambda>(n, d, t). (of_int n, patch_op n d t)) xs"

lemma handle_patches:
  fixes c now
  defines "h \<equiv> \<lambda>s (n, d, t). handleMessage c now (patch_msg n d t) s"
  shows "opsEN (foldl h s xs) = opsEN s @ map snd (records (lastPatchSeqEN s) (numbered xs)) \<and>
    fullTextEN (foldl h s xs) = fullTextEN s"
proof -
  define h' where "h' = (\<lambda>(s :: ov) (x :: rat \<times> op). if lastPatchSeqEN s < fst x
    then s\<lparr>lastPatchSeqEN := fst x, opsEN := opsEN s @ [snd x], scheduledEN := True\<rparr> else s)"
  have "foldl h s xs = foldl h' s (numbered xs)"
    by (induction xs arbitrary: s)
      (auto simp: h_def h'_def numbered_def handle_patch patch_op_def enqueueOpEN_fresh enqueueOpEN_stale not_less)
  moreover have "opsEN (foldl h' s (numbered xs)) = opsEN s @ map snd (records (lastPatchSeqEN s) (numbered xs)) \<and>
      lastPatchSeqEN (foldl h' s (numbered xs)) = last_mark (lastPatchSeqEN s) (numbered xs) \<and>
      fullTextEN (foldl h' s (numbered xs)) = fullTextEN s"
    by (rule patchEN.queue_records [where P = "\<lambda>s'. fullTextEN s' = fullTextEN s"]) (auto simp: h'_def)
  ultimately show ?thesis by simp
qed

lemma flushEN_text:
  "opsEN s \<noteq> [] \<Longrightarrow> fullTextEN (flushEN c s) = bounded (enStateMax c) (foldl applyOneOp (fullTextEN s) (opsEN s))"
  using same_renderEN [of _ c] by (simp add: flushEN_def Let_def same_texts_def)

lemma applyStableEN_fresh:
  fixes c
  assumes "lastStableSeqEN s < of_int n"
  defines "s2 \<equiv> (if scheduledEN s then flushEN c (s\<lparr>lastStableSeqEN := of_int n\<rparr>) else s\<lparr>lastStableSeqEN := of_int n\<rparr>)"
  shows "fullTextEN (applyStableEN c (JStr full) (JInt n) s) =
    (if stable_replaces (bounded (enStateMax c) full) (fullTextEN s2) then bounded (enStateMax c) full
     else fullTextEN s2)"
  using assms(1) same_renderEN [of _ c]
  by (simp add: applyStableEN_def guardStableEN_def Let_def same_texts_def flip: s2_def)

text \<open>The parts of the state a reset keeps.\<close>

definition kept :: "ov \<Rightarrow> bool \<times> bool \<times> rat \<times> bool \<times> int \<times> bool" where
  "kept s = (showEN s, showVI s, viEpoch s, viDraftEnabled s, viLastRenderAt s, mounted s)"

definition cleared :: "ov \<Rightarrow> bool" where
  "cleared s \<longleftrightarrow>
     fullTextEN s = [] \<and> opsEN s = [] \<and> viCommitText s = [] \<and> viDraftText s = [] \<and> opsVI s = [] \<and>
     lastPatchSeqEN s = -1 \<and> lastStableSeqEN s = -1 \<and> lastViCommitSeqApplied s = -1 \<and>
     lastViDraftSeqApplied s = -1 \<and> lastViEnSeqApplied s = -1 \<and> viLastReqId s = -1 \<and>
     \<not> scheduledEN s \<and> \<not> scheduledVI s \<and> \<not> viRenderTimer s \<and> set (l1EN s @ l1VI s) = {} \<and>
     l2EN s \<in> {[], dots} \<and> l2VI s \<in> {[], dots}"

lemma guardEpoch_old: "meta_num v = Some e \<Longrightarrow> e < viEpoch s \<Longrightarrow> guardEpoch v s = (False, s)"
  by (simp add: guardEpoch_def)

lemma viGuard_old: "meta_num (m_epoch m) = Some e \<Longrightarrow> e < viEpoch s \<Longrightarrow> viGuardAndUpdate m k s = (False, s)"
  by (simp add: viGuardAndUpdate_def guardEpoch_old)

lemma vi_handlers_old:
  assumes "meta_num (m_epoch m) = Some e" "e < viEpoch s"
  shows "enqueueOpVI d t m s = s" "applyStableVI c now full m s = s" "applyDraftVI c now full m s = s"
  using viGuard_old [OF assms]
  by (simp_all add: enqueueOpVI_def applyStableVI_def applyDraftVI_def split: jsval.split)

lemma clear_all_fields [simp]:
  "fullTextEN (clear_all s) = []" "opsEN (clear_all s) = []" "viCommitText (clear_all s) = []"
  "viDraftText (clear_all s) = []" "opsVI (clear_all s) = []" "lastPatchSeqEN (clear_all s) = -1"
  "lastStableSeqEN (clear_all s) = -1" "lastViCommitSeqApplied (clear_all s) = -1"
  "lastViDraftSeqApplied (clear_all s) = -1" "lastViEnSeqApplied (clear_all s) = -1"
  "viLastReqId (clear_all s) = -1" "\<not> scheduledEN (clear_all s)" "\<not> scheduledVI (clear_all s)"
  "\<not> viRenderTimer (clear_all s)" "l1EN (clear_all s) = []" "l2EN (clear_all s) = []"
  "l1VI (clear_all s) = []" "l2VI (clear_all s) = []" "viEpoch (clear_all s) = next_epoch (viEpoch s)"
  "showEN (clear_all s) = showEN s" "showVI (clear_all s) = showVI s"
  by (simp_all add: clear_all_def clearVI_def)

lemma clear_all_kept: "kept s = kept s' \<Longrightarrow> clear_all s = clear_all s'"
  by (rule ov.equality) (simp_all add: kept_def clear_all_def clearVI_def)

lemma resetOverlayState_epoch: "viEpoch (resetOverlayState c now k d s) = next_epoch (viEpoch s)"
  by (simp add: resetOverlayState_def applyOverlayMode_def Let_def)

lemma resetOverlayState_fields [simp]:
  "viCommitText (resetOverlayState c now k d s) = []" "\<not> scheduledVI (resetOverlayState c now k d s)"
  "lastViCommitSeqApplied (resetOverlayState c now k d s) = -1" "viLastReqId (resetOverlayState c now k d s) = -1"
  "lastViEnSeqApplied (resetOverlayState c now k d s) = -1"
  by (simp_all add: resetOverlayState_def applyOverlayMode_def Let_def)

lemma visible_blank: "viDraftText s = [] \<Longrightarrow> viCommitText s = [] \<Longrightarrow> getVIVisibleText c now s = []"
  by (simp add: getVIVisibleText_def Let_def)

lemma reset_cleared: "cleared (resetOverlayState c now k d s)"
  by (simp add: cleared_def resetOverlayState_def applyOverlayMode_def Let_def visible_blank)

lemma next_epoch_int: "0 \<le> e \<Longrightarrow> e < 2 ^ 31 \<Longrightarrow> next_epoch (of_int e) = of_int e + 1"
  by (simp add: next_epoch_def wrap32_id)

subsection \<open>Properties\<close>

text \<open>Property C9: after any sequence of events the English text and the committed translation are within
  their configured sizes, a draft exists only with drafts enabled and extends the commit, and the
  text shown always extends the committed translation.\<close>

theorem overlay_invariant:
  "text_ok (enStateMax c) (fullTextEN (ov_run c ov_init evs)) \<and>
   text_ok (viStateMax c) (viCommitText (ov_run c ov_init evs)) \<and>
   draft_ok (ov_run c ov_init evs) \<and>
   startsWith (getVIVisibleText c now (ov_run c ov_init evs)) (viCommitText (ov_run c ov_init evs))"
  using inv_run [OF inv_init, of c evs] visible_extends_commit by (simp add: ov_inv_def)

text \<open>Property C10: of a sequence of numbered patches, with duplicates and late ones, exactly those that exceed
  every number before them are applied, once and in order, when the next frame runs.\<close>

theorem patches_once_in_order:
  assumes "opsEN s = []" and "records (lastPatchSeqEN s) (numbered xs) \<noteq> []"
  shows "fullTextEN (flushEN c (foldl (\<lambda>s (n, d, t). handleMessage c now (patch_msg n d t) s) s xs)) =
    bounded (enStateMax c)
      (foldl applyOneOp (fullTextEN s) (map snd (records (lastPatchSeqEN s) (numbered xs))))"
  using handle_patches [of c now s xs] assms by (subst flushEN_text) simp_all

theorem patches_once_in_order_witness:
  "fullTextEN (flushEN (default_cfg (\<lambda>t. ([], t)) (\<lambda>t. ([], t)))
     (foldl (\<lambda>s (n, d, t). handleMessage (default_cfg (\<lambda>t. ([], t)) (\<lambda>t. ([], t))) 0 (patch_msg n d t) s) ov_init
       [(0, 0, js ''Hallo''), (0, 0, js ''Hallo''), (1, 4, js ''ello'')])) = js ''Hello''"
  by (subst patches_once_in_order)
    (simp_all add: ov_init_def numbered_def patch_op_def wrap32_def applyOneOp_def bounded_def default_cfg_def js_str)

text \<open>A stable text with a new number becomes the English text, except when it is up to 24
  characters shorter than the current text and no prefix of it; a stable text with an old number
  changes nothing.\<close>

lemma stable_settles:
  assumes "s' = applyStableEN c (JStr full) (JInt n) s"
  shows "(of_int n \<le> lastStableSeqEN s \<longrightarrow> s' = s) \<and>
    (lastStableSeqEN s < of_int n \<longrightarrow>
       fullTextEN s' = bounded (enStateMax c) full \<or>
       (length (bounded (enStateMax c) full) < length (fullTextEN s') \<and>
        length (fullTextEN s') \<le> length (bounded (enStateMax c) full) + 24 \<and>
        \<not> startsWith (fullTextEN s') (bounded (enStateMax c) full)))"
proof (intro conjI impI)
  assume "of_int n \<le> lastStableSeqEN s"
  then show "s' = s" by (simp add: assms applyStableEN_def stableEN.stale [of _ "of_int n"])
next
  assume n: "lastStableSeqEN s < of_int n"
  show "fullTextEN s' = bounded (enStateMax c) full \<or>
       (length (bounded (enStateMax c) full) < length (fullTextEN s') \<and>
        length (fullTextEN s') \<le> length (bounded (enStateMax c) full) + 24 \<and>
        \<not> startsWith (fullTextEN s') (bounded (enStateMax c) full))"
    unfolding assms applyStableEN_fresh [OF n]
    by (auto simp: stable_replaces_def)
qed

lemma stable_then_same: "a = b \<and> P \<and> Q \<and> f = a \<and> R \<Longrightarrow> f = b"
  by simp

text \<open>A reset forgets the session: the result depends only on the mode, the epoch, the draft
  switch and the last render time, both transcripts, queues and guards are back to their start, and
  a translation packet that carries the old epoch or an earlier one changes nothing afterwards.\<close>

lemma reset_forgets_session:
  assumes "kept s = kept s'" and "viEpoch s = of_int e" and "0 \<le> e" and "e < 2 ^ 31"
    and "meta_num (m_epoch m) = Some q" and "q \<le> of_int e"
  shows "resetOverlayState c now k d s = resetOverlayState c now k d s' \<and>
    cleared (resetOverlayState c now k d s) \<and>
    enqueueOpVI n t m (resetOverlayState c now k d s) = resetOverlayState c now k d s \<and>
    applyStableVI c now' full m (resetOverlayState c now k d s) = resetOverlayState c now k d s \<and>
    applyDraftVI c now' full m (resetOverlayState c now k d s) = resetOverlayState c now k d s"
proof -
  have "q < viEpoch (resetOverlayState c now k d s)"
    using assms by (simp add: resetOverlayState_epoch next_epoch_int)
  note old = vi_handlers_old [OF assms(5) this]
  have "resetOverlayState c now k d s = resetOverlayState c now k d s'"
    using clear_all_kept [OF assms(1)] by (simp only: resetOverlayState_def)
  with old reset_cleared show ?thesis by blast
qed

text \<open>A stable translation that carries no epoch is accepted right after a reset, so a late
  packet of the previous session becomes the committed text of the new one.\<close>

lemma reset_admits_unnumbered_packet:
  assumes "meta_num (m_epoch m) = None" and "meta_num (m_reqId m) = Some r" and "0 \<le> r"
    and "meta_num (m_enSeq m) = Some es" and "0 \<le> es" and "meta_num (m_seq m) = Some n" and "0 \<le> n"
  shows "viCommitText (applyStableVI c now' (JStr full) m (resetOverlayState c now k d s)) =
    bounded (viStateMax c) full"
proof -
  define s0 where "s0 = resetOverlayState c now k d s"
  have s0: "viCommitText s0 = []" "\<not> scheduledVI s0" "lastViCommitSeqApplied s0 = -1" "viLastReqId s0 = -1"
      "lastViEnSeqApplied s0 = -1"
    by (simp_all add: s0_def)
  obtain s1 where g: "viGuardAndUpdate m VI_stable s0 = (True, s1)" and "scheduledVI s1 = scheduledVI s0"
    using assms s0(3-5) by (simp add: viGuardAndUpdate_def guardEpoch_def guardReq_def guardEnSeq_def guardSeq_def)
  moreover have "viCommitText s1 = []" using same_viGuard [of s0 m VI_stable] g s0(1) by (simp add: same_texts_def)
  ultimately have "viCommitText (applyStableVI c now' (JStr full) m s0) = bounded (viStateMax c) full"
    using s0(2) same_renderVI [of _ c now' True]
    by (simp add: applyStableVI_def g Let_def same_texts_def) (simp add: drop_diverged_def)
  then show ?thesis by (simp add: s0_def)
qed

end
