(* ===== verification/Js_Bytes.thy ===== *)
theory Js_Bytes
  imports Js_Regex
begin

section \<open>Bytes and their texts\<close>

text \<open>
  The functions of the browser that turn bytes into text and back: \<open>atob\<close> and \<open>btoa\<close> (base64), the
  \<open>TextEncoder\<close> (UTF-8), \<open>encodeURIComponent\<close>, and hexadecimal digits.  A byte is a number below 256.
  The main fact is that base64 without padding, as the sources write salts and hashes and as a token
  holds its payload, is read back to the same bytes.
\<close>

definition bytes :: "nat list \<Rightarrow> bool" where
  "bytes bs \<longleftrightarrow> list_all (\<lambda>b. b < 256) bs"

lemma bytes_simps [simp]: "bytes []" "bytes (b # bs) \<longleftrightarrow> b < 256 \<and> bytes bs" "bytes (as @ bs) \<longleftrightarrow> bytes as \<and> bytes bs"
  by (simp_all add: bytes_def)

subsection \<open>Base64\<close>

text \<open>\<open>atob\<close>: white space is ignored, padding may be missing; the result is a list of bytes.\<close>

definition b64_val :: "nat \<Rightarrow> nat option" where
  "b64_val c =
     (if is_upper_ascii c then Some (c - 65) else if is_lower_ascii c then Some (c - 71)
      else if is_digit c then Some (c + 4) else if c = 43 then Some 62 else if c = 47 then Some 63 else None)"

fun b64_bytes :: "nat list \<Rightarrow> nat list" where
  "b64_bytes (a # b # c # d # r) =
     (4 * a + b div 16) # (16 * (b mod 16) + c div 4) # (64 * (c mod 4) + d) # b64_bytes r"
| "b64_bytes [a, b, c] = [4 * a + b div 16, 16 * (b mod 16) + c div 4]"
| "b64_bytes [a, b] = [4 * a + b div 16]"
| "b64_bytes _ = []"

definition atob :: "ustr \<Rightarrow> ustr option" where
  "atob s0 =
     (let s1 = filter (\<lambda>c. c \<notin> {9, 10, 12, 13, 32}) s0;
          s2 = (if length s1 mod 4 = 0
                then (if endsWith s1 (js ''=='') then take (length s1 - 2) s1
                      else if endsWith s1 (js ''='') then take (length s1 - 1) s1 else s1)
                else s1)
      in if length s2 mod 4 = 1 \<or> list_ex (\<lambda>c. b64_val c = None) s2 then None
         else Some (b64_bytes (map (\<lambda>c. the (b64_val c)) s2)))"

text \<open>\<open>parts[1].replace(/-/g, "+").replace(/_/g, "/")\<close>.\<close>

definition b64_of_url :: "ustr \<Rightarrow> ustr" where
  "b64_of_url s = map (\<lambda>c. if c = 45 then 43 else if c = 95 then 47 else c) s"

text \<open>The encoder: the six-bit values of the bytes, their characters, and the padding.\<close>

definition b64_char :: "nat \<Rightarrow> nat" where
  "b64_char v =
     (if v < 26 then v + 65 else if v < 52 then v + 71 else if v < 62 then v - 4 else if v = 62 then 43 else 47)"

fun b64_vals :: "nat list \<Rightarrow> nat list" where
  "b64_vals (a # b # c # r) =
     a div 4 # (16 * (a mod 4) + b div 16) # (4 * (b mod 16) + c div 64) # c mod 64 # b64_vals r"
| "b64_vals [a, b] = [a div 4, 16 * (a mod 4) + b div 16, 4 * (b mod 16)]"
| "b64_vals [a] = [a div 4, 16 * (a mod 4)]"
| "b64_vals [] = []"

definition b64_pad :: "nat \<Rightarrow> ustr" where
  "b64_pad n = replicate ((4 - n mod 4) mod 4) 61"

text \<open>\<open>btoa\<close> on a string of bytes.\<close>

definition btoa :: "nat list \<Rightarrow> ustr" where
  "btoa bs = map b64_char (b64_vals bs) @ b64_pad (length (b64_vals bs))"

lemma b64_vals_range: "bytes bs \<Longrightarrow> \<forall>v \<in> set (b64_vals bs). v < 64"
  by (induction bs rule: b64_vals.induct) auto

lemma b64_vals_length: "length (b64_vals bs) mod 4 \<noteq> 1"
  by (induction bs rule: b64_vals.induct) auto

lemma sixteen: "(16 * m + q) div 16 = m" "(16 * m + q) mod 16 = q" if "q < 16" for m q :: nat
  using that by (simp_all add: div_mult_self4)

lemma four: "(4 * m + q) div 4 = m" "(4 * m + q) mod 4 = q" if "q < 4" for m q :: nat
  using that by (simp_all add: div_mult_self4)

lemma b64_bytes_vals: "bytes bs \<Longrightarrow> b64_bytes (b64_vals bs) = bs"
proof (induction bs rule: b64_vals.induct)
  case (1 a b c r)
  then have "b div 16 < 16" "c div 64 < 4" by auto
  with 1 show ?case by (simp add: sixteen four)
next
  case (2 a b)
  then have "b div 16 < 16" by auto
  then show ?case by (simp add: sixteen)
qed auto

lemma b64_val_char [simp]: "v < 64 \<Longrightarrow> b64_val (b64_char v) = Some v"
  by (auto simp: b64_val_def b64_char_def is_upper_ascii_def is_lower_ascii_def is_digit_def)

lemma b64_char_plain: "v < 64 \<Longrightarrow> b64_char v \<notin> {9, 10, 12, 13, 32, 61, 36, 45, 95}"
  by (auto simp: b64_char_def)

lemma b64_vals_read:
  "\<forall>v \<in> set vs. v < 64 \<Longrightarrow> map (\<lambda>c. the (b64_val c)) (map b64_char vs) = vs"
  by (induction vs) auto

lemma b64_text_plain: "\<forall>v \<in> set vs. v < 64 \<Longrightarrow> c \<in> set (map b64_char vs) \<Longrightarrow> c \<notin> {9, 10, 12, 13, 32, 61, 36, 45, 95}"
  using b64_char_plain by auto

definition unpad :: "ustr \<Rightarrow> ustr" where
  "unpad s =
     (if length s mod 4 = 0
      then (if endsWith s (js ''=='') then take (length s - 2) s
            else if endsWith s (js ''='') then take (length s - 1) s else s)
      else s)"

lemma no_pad_end:
  assumes "61 \<notin> set cs"
  shows "\<not> endsWith cs (js ''='')" and "\<not> endsWith cs (js ''=='')" and "\<not> endsWith (cs @ [61]) (js ''=='')"
proof -
  have d: "drop n cs \<noteq> 61 # r" for n r
  proof
    assume "drop n cs = 61 # r"
    then have "61 \<in> set (drop n cs)" by simp
    with assms show False by (blast dest: in_set_dropD)
  qed
  then show "\<not> endsWith cs (js ''='')" and "\<not> endsWith cs (js ''=='')" by (simp_all add: endsWith_def js_str)
  show "\<not> endsWith (cs @ [61]) (js ''=='')"
    using d [of "length cs - 1" "[]"] by (auto simp: endsWith_def js_str)
qed

lemma unpad_padded:
  assumes no: "61 \<notin> set cs" and l: "length cs mod 4 \<noteq> 1"
  shows "unpad (cs @ b64_pad (length cs)) = cs"
proof -
  consider "length cs mod 4 = 0" | "length cs mod 4 = 2" | "length cs mod 4 = 3" using l by linarith
  then show ?thesis
  proof cases
    case 1
    then show ?thesis using no_pad_end [OF no] by (simp add: unpad_def b64_pad_def)
  next
    case 2
    then have p: "b64_pad (length cs) = [61, 61]" by (simp add: b64_pad_def numeral_2_eq_2)
    have "(length cs + 2) mod 4 = 0" using 2 by (simp add: mod_Suc)
    with p show ?thesis by (simp add: unpad_def endsWith_def js_str)
  next
    case 3
    have p: "b64_pad (length cs) = [61]" using 3 by (simp add: b64_pad_def)
    moreover have "(length cs + 1) mod 4 = 0" using 3 by (simp add: mod_Suc)
    moreover have "endsWith (cs @ [61]) (js ''='')" by (simp add: endsWith_def js_str)
    ultimately show ?thesis using p no_pad_end(3) [OF no] by (simp add: unpad_def)
  qed
qed

lemma atob_eq:
  "atob s0 = (let s = unpad (filter (\<lambda>c. c \<notin> {9, 10, 12, 13, 32}) s0) in
     if length s mod 4 = 1 \<or> list_ex (\<lambda>c. b64_val c = None) s then None
     else Some (b64_bytes (map (\<lambda>c. the (b64_val c)) s)))"
  by (simp only: atob_def unpad_def Let_def)

lemma atob_padded:
  assumes vs: "\<forall>v \<in> set vs. v < 64" and l: "length vs mod 4 \<noteq> 1"
  shows "atob (map b64_char vs @ b64_pad (length vs)) = Some (b64_bytes vs)"
proof -
  define cs where "cs = map b64_char vs"
  note plain = b64_text_plain [OF vs, folded cs_def]
  have n: "length cs = length vs" by (simp add: cs_def)
  have ws: "filter (\<lambda>c. c \<notin> {9, 10, 12, 13, 32}) (cs @ b64_pad (length cs)) = cs @ b64_pad (length cs)"
    using plain by (intro filter_True) (auto simp: b64_pad_def)
  have "61 \<notin> set cs" using plain by auto
  then have u: "unpad (cs @ b64_pad (length cs)) = cs" using l n by (intro unpad_padded) simp_all
  have val: "\<not> list_ex (\<lambda>c. b64_val c = None) cs" using vs by (auto simp: cs_def list_ex_iff)
  from l [folded n] val have "atob (cs @ b64_pad (length cs)) = Some (b64_bytes (map (\<lambda>c. the (b64_val c)) cs))"
    by (simp only: atob_eq ws u Let_def if_False simp_thms)
  with b64_vals_read [OF vs] n show ?thesis by (simp add: cs_def)
qed

text \<open>What the sources call \<open>base64url\<close>: \<open>btoa\<close> with two other characters and no padding.\<close>

definition url_of_b64 :: "ustr \<Rightarrow> ustr" where
  "url_of_b64 s = map (\<lambda>c. if c = 43 then 45 else if c = 47 then 95 else c) s"

definition strip_pad :: "ustr \<Rightarrow> ustr" where
  "strip_pad s = rev (dropWhile (\<lambda>c. c = 61) (rev s))"

lemma b64_of_url_of: "\<forall>v \<in> set vs. v < 64 \<Longrightarrow> b64_of_url (url_of_b64 (map b64_char vs)) = map b64_char vs"
  using b64_char_plain by (fastforce simp: b64_of_url_def url_of_b64_def)

lemma strip_pad_btoa: "bytes bs \<Longrightarrow> strip_pad (url_of_b64 (btoa bs)) = url_of_b64 (map b64_char (b64_vals bs))"
proof -
  assume "bytes bs"
  then have no: "\<forall>c \<in> set (url_of_b64 (map b64_char (b64_vals bs))). c \<noteq> 61"
    using b64_vals_range b64_char_plain by (fastforce simp: url_of_b64_def)
  have "url_of_b64 (btoa bs) = url_of_b64 (map b64_char (b64_vals bs)) @ b64_pad (length (b64_vals bs))"
    by (simp add: btoa_def url_of_b64_def b64_pad_def)
  moreover have "dropWhile (\<lambda>c. c = 61) (b64_pad n @ s) = dropWhile (\<lambda>c. c = 61) s" for n s
    by (induction "(4 - n mod 4) mod 4") (auto simp: b64_pad_def dropWhile_append)
  moreover have "rev (b64_pad n) = b64_pad n" for n by (simp add: b64_pad_def)
  moreover have "dropWhile (\<lambda>c. c = 61) (rev (url_of_b64 (map b64_char (b64_vals bs)))) = rev (url_of_b64 (map b64_char (b64_vals bs)))"
    using no hd_in_set by (subst dropWhile_eq_self_iff) fastforce
  ultimately show ?thesis by (simp add: strip_pad_def)
qed

lemma unpadded_read:
  assumes "bytes bs" and "s = strip_pad (url_of_b64 (btoa bs))"
  shows "atob (b64_of_url s @ b64_pad (length (b64_of_url s))) = Some bs"
proof -
  have "b64_of_url s = map b64_char (b64_vals bs)"
    using assms b64_of_url_of b64_vals_range by (simp add: strip_pad_btoa)
  with atob_padded [OF b64_vals_range b64_vals_length] assms(1) show ?thesis by (simp add: b64_bytes_vals)
qed

lemma url_of_b64_plain:
  assumes "bytes bs"
  shows "36 \<notin> set (strip_pad (url_of_b64 (btoa bs)))"
proof -
  have "b64_char v \<noteq> 36" if "v \<in> set (b64_vals bs)" for v
    using b64_vals_range [OF assms] b64_char_plain [of v] that by simp
  then show ?thesis unfolding strip_pad_btoa [OF assms] by (auto simp: url_of_b64_def)
qed

subsection \<open>UTF-8\<close>

text \<open>
  The code points of a string of UTF-16 units; a lone surrogate stands for itself, which
  \<open>TextEncoder\<close> replaces by U+FFFD and \<open>encodeURIComponent\<close> refuses.
\<close>

definition lead :: "nat \<Rightarrow> bool" where
  "lead c \<longleftrightarrow> 55296 \<le> c \<and> c \<le> 56319"

definition trail :: "nat \<Rightarrow> bool" where
  "trail c \<longleftrightarrow> 56320 \<le> c \<and> c \<le> 57343"

fun code_points :: "ustr \<Rightarrow> nat list" where
  "code_points (c # d # s) =
     (if lead c \<and> trail d then (65536 + (c - 55296) * 1024 + (d - 56320)) # code_points s
      else c # code_points (d # s))"
| "code_points s = s"

definition utf8 :: "nat \<Rightarrow> nat list" where
  "utf8 c =
     (if c < 128 then [c]
      else if c < 2048 then [192 + c div 64, 128 + c mod 64]
      else if c < 65536 then [224 + c div 4096, 128 + c div 64 mod 64, 128 + c mod 64]
      else [240 + c div 262144, 128 + c div 4096 mod 64, 128 + c div 64 mod 64, 128 + c mod 64])"

definition text_encode :: "ustr \<Rightarrow> nat list" where
  "text_encode s = concat (map (\<lambda>c. utf8 (if lead c \<or> trail c then 65533 else c)) (code_points s))"

definition hex_digit :: "nat \<Rightarrow> nat" where
  "hex_digit v = (if v < 10 then v + 48 else v + 87)"

text \<open>\<open>b.toString(16).padStart(2, "0")\<close> of a byte.\<close>

definition hex_byte :: "nat \<Rightarrow> ustr" where
  "hex_byte b = [hex_digit (b div 16), hex_digit (b mod 16)]"

definition uri_plain :: "nat \<Rightarrow> bool" where
  "uri_plain c \<longleftrightarrow> is_upper_ascii c \<or> is_lower_ascii c \<or> is_digit c \<or> c \<in> {45, 95, 46, 33, 126, 42, 39, 40, 41}"

definition encodeURIComponent :: "ustr \<Rightarrow> ustr option" where
  "encodeURIComponent s =
     (let cs = code_points s in
      if list_ex (\<lambda>c. lead c \<or> trail c) cs then None
      else Some (concat (map (\<lambda>c. if uri_plain c then [c]
                                   else concat (map (\<lambda>b. 37 # toUpperCase (hex_byte b)) (utf8 c))) cs)))"

lemma code_points_plain: "list_all uri_plain s \<Longrightarrow> code_points s = s"
  by (induction s rule: code_points.induct)
    (auto simp: uri_plain_def lead_def is_upper_ascii_def is_lower_ascii_def is_digit_def)

lemma encode_plain: "list_all uri_plain s \<Longrightarrow> encodeURIComponent s = Some s"
proof -
  assume a: "list_all uri_plain s"
  have "\<not> list_ex (\<lambda>c. lead c \<or> trail c) s"
    using a by (auto simp: list_ex_iff list_all_iff uri_plain_def lead_def trail_def is_upper_ascii_def is_lower_ascii_def is_digit_def)
  moreover have "concat (map (\<lambda>c. if uri_plain c then [c] else f c) s) = s" for f
    using a by (induction s) auto
  ultimately show ?thesis using a by (simp add: encodeURIComponent_def code_points_plain)
qed

end
