(* ===== verification/World.thy ===== *)
theory World
  imports Js_Bytes "HOL-Library.State_Monad"
begin

section \<open>The world the background code acts on\<close>

text \<open>
  The modules of the service worker send HTTP requests, read and write \<open>chrome.storage.local\<close>, read
  the clock and send messages.  Their code is a program of the state monad over \<open>world\<close>: the requests
  sent so far, the stored object, the messages sent so far and the number of clock readings.  What
  answers is the environment \<open>env\<close>: a server that may answer every request in any way, also
  depending on the requests before it, a clock, the date and URL parsers of the browser, \<open>JSON.parse\<close>,
  \<open>JSON.stringify\<close>, and the receivers of messages.  A program that can throw returns a sum, \<open>Inl\<close> the error.
\<close>

datatype verb = GET | POST | PATCH | DELETE

text \<open>
  A request: the address up to the query, the query as pairs (the sources build it with
  \<open>URLSearchParams\<close> or \<open>encodeURIComponent\<close>, whose encoding the server undoes), headers, body.
\<close>

record req =
  rq_verb :: verb
  rq_url :: ustr
  rq_query :: "(ustr \<times> ustr) list"
  rq_headers :: "(ustr \<times> ustr) list"
  rq_body :: "jsval option"

text \<open>\<open>rs_text\<close> is \<open>None\<close> when reading the body fails.\<close>

record resp =
  rs_status :: int
  rs_text :: "ustr option"

text \<open>An \<open>Error\<close>: its message and the properties \<open>status\<close> and \<open>detail\<close> some of them get.\<close>

record err =
  e_msg :: ustr
  e_status :: "int option"
  e_detail :: "ustr option"

definition Err :: "ustr \<Rightarrow> err" where
  "Err m = \<lparr>e_msg = m, e_status = None, e_detail = None\<rparr>"

lemma Err_simps [simp]: "e_msg (Err m) = m" "e_status (Err m) = None" "e_detail (Err m) = None"
  by (simp_all add: Err_def)

text \<open>
  The parts of a parsed URL the sources read and write; \<open>e_url\<close> parses a text, \<open>e_urlstr\<close> is \<open>toString\<close>, and
  \<open>e_setparam\<close> is \<open>toString\<close> after \<open>searchParams.set\<close>.
\<close>

record url =
  u_origin :: ustr
  u_protocol :: ustr
  u_hostname :: ustr
  u_port :: ustr
  u_pathname :: ustr
  u_search :: ustr
  u_hash :: ustr

text \<open>Messages that leave the service worker: to a tab, to the extension, as a response, and calls of the browser.\<close>

datatype out =
    ToTab jsval jsval
  | ToRuntime jsval
  | Reply jsval
  | Browser string jsval
  | Ws string jsval

record world =
  w_reqs :: "req list"
  w_store :: jobj
  w_out :: "out list"
  w_ticks :: nat

record env =
  e_fetch :: "req list \<Rightarrow> req \<Rightarrow> ustr + resp"
  e_now :: "nat \<Rightarrow> rat"
  e_iso :: "rat \<Rightarrow> ustr"
  e_dateparse :: "ustr \<Rightarrow> rat option"
  e_url :: "ustr \<Rightarrow> url option"
  e_urlstr :: "url \<Rightarrow> ustr"
  e_setparam :: "url \<Rightarrow> ustr \<Rightarrow> ustr \<Rightarrow> ustr"
  e_json :: "ustr \<Rightarrow> jsval option"
  e_stringify :: "jsval \<Rightarrow> ustr"
  e_deliver :: "out list \<Rightarrow> out \<Rightarrow> ustr + jsval"

type_synonym 'a prog = "(world, 'a) state"
type_synonym 'a throwing = "(world, err + 'a) state"

abbreviation ret :: "'a \<Rightarrow> 'a prog" where
  "ret \<equiv> State_Monad.return"

abbreviation throw :: "err \<Rightarrow> ('s, err + 'a) state" where
  "throw e \<equiv> State_Monad.return (Inl e)"

abbreviation ok :: "'a \<Rightarrow> ('s, err + 'a) state" where
  "ok a \<equiv> State_Monad.return (Inr a)"

text \<open>Sequencing of programs that can throw, and \<open>try \<dots> catch\<close>.\<close>

definition andThen :: "('s, err + 'a) state \<Rightarrow> ('a \<Rightarrow> ('s, err + 'b) state) \<Rightarrow> ('s, err + 'b) state" where
  "andThen m f = do { r \<leftarrow> m; case r of Inl e \<Rightarrow> throw e | Inr a \<Rightarrow> f a }"

definition try_catch :: "('s, err + 'a) state \<Rightarrow> (err \<Rightarrow> ('s, err + 'a) state) \<Rightarrow> ('s, err + 'a) state" where
  "try_catch m h = do { r \<leftarrow> m; case r of Inl e \<Rightarrow> h e | Inr a \<Rightarrow> ok a }"

lemma run_andThen:
  "run_state (andThen m f) w =
     (case run_state m w of (Inl e, w') \<Rightarrow> (Inl e, w') | (Inr a, w') \<Rightarrow> run_state (f a) w')"
  by (simp add: andThen_def split: prod.split sum.split)

lemma run_try:
  "run_state (try_catch m h) w =
     (case run_state m w of (Inl e, w') \<Rightarrow> run_state (h e) w' | (Inr a, w') \<Rightarrow> (Inr a, w'))"
  by (simp add: try_catch_def split: prod.split sum.split)

lemma run_if: "run_state (if b then m else n) w = (if b then run_state m w else run_state n w)"
  by simp

lemmas runs = run_andThen run_try run_state_bind run_state_return

subsection \<open>The clock, storage, requests, messages\<close>

definition Date_now :: "env \<Rightarrow> rat prog" where
  "Date_now e = State (\<lambda>w. (e_now e (w_ticks w), w\<lparr>w_ticks := Suc (w_ticks w)\<rparr>))"

definition now_iso :: "env \<Rightarrow> ustr prog" where
  "now_iso e = do { t \<leftarrow> Date_now e; ret (e_iso e t) }"

definition store_get :: "string \<Rightarrow> jsval prog" where
  "store_get k = State (\<lambda>w. (obj_get (w_store w) (js k), w))"

definition store_set :: "string \<Rightarrow> jsval \<Rightarrow> unit prog" where
  "store_set k v = State (\<lambda>w. ((), w\<lparr>w_store := obj_set (w_store w) (js k) v\<rparr>))"

definition fetch :: "env \<Rightarrow> req \<Rightarrow> resp throwing" where
  "fetch e r = State (\<lambda>w.
     (case e_fetch e (w_reqs w) r of Inl m \<Rightarrow> Inl (Err m) | Inr a \<Rightarrow> Inr a, w\<lparr>w_reqs := w_reqs w @ [r]\<rparr>))"

text \<open>Sending a message gives what its receiver answers, \<open>Inl\<close> when there is none.\<close>

definition emit :: "env \<Rightarrow> out \<Rightarrow> jsval throwing" where
  "emit e x = State (\<lambda>w.
     (case e_deliver e (w_out w) x of Inl m \<Rightarrow> Inl (Err m) | Inr a \<Rightarrow> Inr a, w\<lparr>w_out := w_out w @ [x]\<rparr>))"

definition reply :: "jsval \<Rightarrow> unit prog" where
  "reply v = State (\<lambda>w. ((), w\<lparr>w_out := w_out w @ [Reply v]\<rparr>))"

text \<open>\<open>r.ok\<close>, \<open>await r.text()\<close> with an empty text on failure, \<open>await r.json()\<close>.\<close>

definition rs_ok :: "resp \<Rightarrow> bool" where
  "rs_ok r \<longleftrightarrow> 200 \<le> rs_status r \<and> rs_status r \<le> 299"

definition text_or_empty :: "resp \<Rightarrow> ustr" where
  "text_or_empty r = (case rs_text r of None \<Rightarrow> [] | Some t \<Rightarrow> t)"

definition resp_json :: "env \<Rightarrow> resp \<Rightarrow> jsval option" where
  "resp_json e r = (case rs_text r of None \<Rightarrow> None | Some t \<Rightarrow> e_json e t)"

lemma run_prims [simp]:
  "run_state (Date_now e) w = (e_now e (w_ticks w), w\<lparr>w_ticks := Suc (w_ticks w)\<rparr>)"
  "run_state (now_iso e) w = (e_iso e (e_now e (w_ticks w)), w\<lparr>w_ticks := Suc (w_ticks w)\<rparr>)"
  "run_state (store_get k) w = (obj_get (w_store w) (js k), w)"
  "run_state (store_set k v) w = ((), w\<lparr>w_store := obj_set (w_store w) (js k) v\<rparr>)"
  "run_state (reply v) w = ((), w\<lparr>w_out := w_out w @ [Reply v]\<rparr>)"
  by (simp_all add: Date_now_def now_iso_def store_get_def store_set_def reply_def)

lemma run_fetch:
  "run_state (fetch e r) w =
     (case e_fetch e (w_reqs w) r of Inl m \<Rightarrow> Inl (Err m) | Inr a \<Rightarrow> Inr a, w\<lparr>w_reqs := w_reqs w @ [r]\<rparr>)"
  by (simp add: fetch_def)

lemma run_emit:
  "run_state (emit e x) w =
     (case e_deliver e (w_out w) x of Inl m \<Rightarrow> Inl (Err m) | Inr a \<Rightarrow> Inr a, w\<lparr>w_out := w_out w @ [x]\<rparr>)"
  by (simp add: emit_def)

subsection \<open>Results of a program\<close>

text \<open>
  \<open>pred_state Q m\<close> of the library says that every result of \<open>m\<close> satisfies \<open>Q\<close>.  The rules below take
  it through the combinators; a program that throws satisfies \<open>returns Q\<close> when its values do.
\<close>

definition returns :: "('a \<Rightarrow> bool) \<Rightarrow> 'a throwing \<Rightarrow> bool" where
  "returns Q m \<longleftrightarrow> (\<forall>w a w'. run_state m w = (Inr a, w') \<longrightarrow> Q a)"

lemma returnsI: "(\<And>w a w'. run_state m w = (Inr a, w') \<Longrightarrow> Q a) \<Longrightarrow> returns Q m"
  by (auto simp: returns_def)

lemma returnsD: "returns Q m \<Longrightarrow> run_state m w = (Inr a, w') \<Longrightarrow> Q a"
  by (auto simp: returns_def)

lemma returns_ok [intro]: "Q a \<Longrightarrow> returns Q (ok a)"
  by (auto simp: returns_def)

lemma returns_throw [simp, intro]: "returns Q (throw x)"
  by (auto simp: returns_def)

lemma returns_andThen:
  assumes "\<And>a. returns Q (f a)"
  shows "returns Q (andThen m f)"
  by (rule returnsI) (auto simp: run_andThen split: prod.splits sum.splits dest: returnsD [OF assms])

lemma returns_bind:
  assumes "\<And>a. returns Q (f a)"
  shows "returns Q (State_Monad.bind m f)"
  by (rule returnsI) (auto split: prod.splits dest: returnsD [OF assms])

lemma returns_try:
  assumes "returns Q m" "\<And>e. returns Q (h e)"
  shows "returns Q (try_catch m h)"
  by (rule returnsI) (auto simp: run_try split: prod.splits sum.splits dest: returnsD [OF assms(1)] returnsD [OF assms(2)])

lemma returns_if [intro]: "(b \<Longrightarrow> returns Q m) \<Longrightarrow> (\<not> b \<Longrightarrow> returns Q n) \<Longrightarrow> returns Q (if b then m else n)"
  by simp

subsection \<open>Requests of a program\<close>

text \<open>\<open>sends P m\<close>: \<open>m\<close> only adds requests that satisfy \<open>P\<close>, whatever the server answers.\<close>

definition sends :: "(req \<Rightarrow> bool) \<Rightarrow> 'a prog \<Rightarrow> bool" where
  "sends P m \<longleftrightarrow> (\<forall>w. \<exists>new. w_reqs (snd (run_state m w)) = w_reqs w @ new \<and> list_all P new)"

lemma sendsI: "(\<And>w. \<exists>new. w_reqs (snd (run_state m w)) = w_reqs w @ new \<and> list_all P new) \<Longrightarrow> sends P m"
  by (simp add: sends_def)

lemma sends_run:
  assumes "sends P m" and "run_state m w = (a, w')"
  obtains new where "w_reqs w' = w_reqs w @ new" and "list_all P new"
  using assms unfolding sends_def by (metis snd_conv)

lemma sends_bind:
  assumes "sends P m" and "\<And>a. sends P (f a)"
  shows "sends P (State_Monad.bind m f)"
proof (rule sendsI)
  fix w
  obtain a w1 where 1: "run_state m w = (a, w1)" by fastforce
  obtain n1 where n1: "w_reqs w1 = w_reqs w @ n1" "list_all P n1" using assms(1) 1 by (rule sends_run)
  obtain b w2 where 2: "run_state (f a) w1 = (b, w2)" by fastforce
  obtain n2 where "w_reqs w2 = w_reqs w1 @ n2" "list_all P n2" using assms(2) 2 by (rule sends_run)
  with n1 1 2 show "\<exists>new. w_reqs (snd (run_state (State_Monad.bind m f) w)) = w_reqs w @ new \<and> list_all P new"
    by (intro exI [of _ "n1 @ n2"]) simp
qed

lemma sends_ret [simp, intro]: "sends P (ret a)"
  by (auto simp: sends_def)

lemma sends_prims [simp, intro]:
  "sends P (Date_now e)" "sends P (now_iso e)" "sends P (store_get k)" "sends P (store_set k v)" "sends P (reply v)"
  "sends P (emit e x)"
  by (auto simp: sends_def run_emit)

lemma sends_fetch: "P r \<Longrightarrow> sends P (fetch e r)"
  by (auto simp: sends_def run_fetch)

lemma sends_if [intro]: "(b \<Longrightarrow> sends P m) \<Longrightarrow> (\<not> b \<Longrightarrow> sends P n) \<Longrightarrow> sends P (if b then m else n)"
  by simp

lemma sends_andThen: "sends P m \<Longrightarrow> (\<And>a. sends P (f a)) \<Longrightarrow> sends P (andThen m f)"
  unfolding andThen_def by (rule sends_bind) (auto split: sum.split)

lemma sends_try: "sends P m \<Longrightarrow> (\<And>e. sends P (h e)) \<Longrightarrow> sends P (try_catch m h)"
  unfolding try_catch_def by (rule sends_bind) (auto split: sum.split)

lemma sends_weaken: "sends P m \<Longrightarrow> (\<And>r. P r \<Longrightarrow> Q r) \<Longrightarrow> sends Q m"
  unfolding sends_def by (meson list.pred_mono_strong)

lemmas sends_rules = sends_bind sends_andThen sends_try sends_fetch sends_ret sends_prims

text \<open>The addresses of the database.\<close>

definition SUPABASE_URL :: ustr where
  "SUPABASE_URL = js ''https://izziphjuznnzhcdbbptw.supabase.co''"

definition SUPABASE_KEY :: ustr where
  "SUPABASE_KEY = js ''sb_publishable_YNUg4THwvvBurGGn59s8Kg_OSkVpVfh''"

definition rest_url :: "string \<Rightarrow> ustr" where
  "rest_url table = SUPABASE_URL @ js ''/rest/v1/'' @ js table"

lemma SUPABASE_KEY_nonempty [simp]: "SUPABASE_KEY \<noteq> []"
  by (simp add: SUPABASE_KEY_def)

text \<open>An environment for examples: a given server, no clock, no parsers but the given \<open>JSON.parse\<close>.\<close>

definition example_env :: "(req list \<Rightarrow> req \<Rightarrow> ustr + resp) \<Rightarrow> (ustr \<Rightarrow> jsval option) \<Rightarrow> env" where
  "example_env srv parse =
     \<lparr>e_fetch = srv, e_now = (\<lambda>n. of_nat n), e_iso = (\<lambda>t. js ''2025-01-01T00:00:00.000Z''), e_dateparse = (\<lambda>s. None),
      e_url = (\<lambda>s. None), e_urlstr = (\<lambda>u. []), e_setparam = (\<lambda>u k v. []), e_json = parse, e_stringify = (\<lambda>v. []), e_deliver = (\<lambda>h x. Inr JUndef)\<rparr>"

definition blank_world :: world where
  "blank_world = \<lparr>w_reqs = [], w_store = [], w_out = [], w_ticks = 0\<rparr>"

end
