(* ===== verification/Identity.thy ===== *)
theory Identity
  imports World
begin

section \<open>Identifiers, e-mail addresses and profiles\<close>

text \<open>
  A row of the table \<open>users\<close> has a decimal id; Supabase accounts have a UUID.  Every module of the
  service worker has its own normalizer for them, and the profile of a signed-in user may carry
  either under several names.  The decimal normalizers satisfy the contract \<open>id_normalizer\<close>, which is
  what the filters \<open>user_id=eq.\<dots>\<close> of the requests rely on.
\<close>

subsection \<open>history_repo.js\<close>

definition toInt :: "jsval \<Rightarrow> int \<Rightarrow> int" where
  "toInt v fallback = (case num_opt v of None \<Rightarrow> fallback | Some q \<Rightarrow> rat_trunc q)"

definition isNumericId :: "jsval \<Rightarrow> bool" where
  "isNumericId v \<longleftrightarrow> re_full (RPlus is_digit) (trim (str_or_empty v))"

text \<open>Hexadecimal digits, and \<open>/[0-9a-f]{8}-[0-9a-f]{4}-[1-5][0-9a-f]{3}-[89ab][0-9a-f]{3}-[0-9a-f]{12}/\<close>.\<close>

definition is_hex :: "nat \<Rightarrow> bool" where
  "is_hex c \<longleftrightarrow> is_digit c \<or> (97 \<le> c \<and> c \<le> 102)"

definition uuid_re :: "(nat \<Rightarrow> nat) \<Rightarrow> re" where
  "uuid_re f =
     RSeq (RRep 8 (\<lambda>c. is_hex (f c))) (RSeq (RChr 45) (RSeq (RRep 4 (\<lambda>c. is_hex (f c))) (RSeq (RChr 45)
       (RSeq (RCls (\<lambda>c. 49 \<le> c \<and> c \<le> 53)) (RSeq (RRep 3 (\<lambda>c. is_hex (f c))) (RSeq (RChr 45)
         (RSeq (RCls (\<lambda>c. f c \<in> {56, 57, 97, 98})) (RSeq (RRep 3 (\<lambda>c. is_hex (f c))) (RSeq (RChr 45)
           (RRep 12 (\<lambda>c. is_hex (f c))))))))))))"

text \<open>The flag \<open>i\<close> compares letters without case.\<close>

definition isUuid :: "jsval \<Rightarrow> bool" where
  "isUuid v \<longleftrightarrow> re_full (uuid_re lower_char) (trim (str_or_empty v))"

definition normalizeEmail :: "jsval \<Rightarrow> ustr" where
  "normalizeEmail v = toLowerCase (trim (str_or_empty v))"

definition parseNumericId :: "jsval \<Rightarrow> ustr" where
  "parseNumericId v = (let s = trim (str_co_empty v) in if isNumericId (JStr s) then s else [])"

definition parseDbId :: "jsval \<Rightarrow> ustr" where
  "parseDbId v =
     (let s = trim (str_co_empty v) in
      if s = [] then [] else if isNumericId (JStr s) then s else [])"

definition userIdCandidateFromProfile :: "jsval \<Rightarrow> ustr" where
  "userIdCandidateFromProfile p =
     (let direct = [fld p ''user_id'', fld p ''userId'', fld p ''db_user_id'', fld p ''dbUserId'',
                    fld p ''users_id'', fld p ''usersId'']
      in case find (\<lambda>n. n \<noteq> []) (map parseDbId direct) of
           Some n \<Rightarrow> n
         | None \<Rightarrow>
             (let provider = toLowerCase (trim (to_str (js_ors [fld p ''provider'', fld p ''auth_provider'', JStr []])))
              in if provider = [] \<or> provider = js ''email'' \<or> provider = js ''local''
                 then parseDbId (fld p ''id'') else []))"

definition auth_uid_fields :: "jsval \<Rightarrow> jsval list" where
  "auth_uid_fields p =
     [fld p ''auth_uid'', fld p ''authUid'', fld p ''supabase_uid'', fld p ''supabaseUid'',
      fld p ''owner_uid'', fld p ''ownerUid'']"

definition authUidCandidateFromProfile :: "jsval \<Rightarrow> ustr" where
  "authUidCandidateFromProfile p =
     (case find isUuid (auth_uid_fields p) of
        Some v \<Rightarrow> toLowerCase (trim (to_str v))
      | None \<Rightarrow> if isUuid (fld p ''id'') then toLowerCase (trim (to_str (fld p ''id''))) else [])"

subsection \<open>chat_repo.js and transcript_persist.js\<close>

definition normalizeBigintId :: "jsval \<Rightarrow> ustr option" where
  "normalizeBigintId v =
     (let s = trim (str_co_empty v) in
      if s = [] then None else if re_full (RPlus is_digit) s then Some s else None)"

definition normalizeTextRef :: "jsval \<Rightarrow> ustr option" where
  "normalizeTextRef v = (let s = trim (str_co_empty v) in if s = [] then None else Some s)"

definition normalizeUuid :: "jsval \<Rightarrow> ustr" where
  "normalizeUuid v =
     (let s = toLowerCase (trim (str_or_empty v)) in
      if s = [] then [] else if re_full (uuid_re id) s then s else [])"

definition normalizeDbId :: "jsval \<Rightarrow> ustr" where
  "normalizeDbId v =
     (let s = trim (str_co_empty v) in if s = [] then [] else if re_full (RPlus is_digit) s then s else [])"

subsection \<open>service_worker.js\<close>

definition isUuidLike :: "jsval \<Rightarrow> bool" where
  "isUuidLike v \<longleftrightarrow> re_full (uuid_re lower_char) (trim (str_or_empty v))"

definition pickAuthUidFromProfile :: "jsval \<Rightarrow> ustr" where
  "pickAuthUidFromProfile p =
     (case find isUuidLike (auth_uid_fields p @ [fld p ''id'']) of
        Some v \<Rightarrow> toLowerCase (trim (to_str v))
      | None \<Rightarrow> [])"

definition parseNumericUserId :: "jsval \<Rightarrow> ustr" where
  "parseNumericUserId v = (let s = trim (str_co_empty v) in if re_full (RPlus is_digit) s then s else [])"

definition numericUserIdFromProfile :: "jsval \<Rightarrow> ustr" where
  "numericUserIdFromProfile p =
     (let cands = [fld p ''user_id'', fld p ''userId'', fld p ''db_user_id'', fld p ''dbUserId'',
                   fld p ''users_id'', fld p ''usersId'']
      in case find (\<lambda>n. n \<noteq> []) (map parseNumericUserId cands) of
           Some n \<Rightarrow> n
         | None \<Rightarrow>
             (let provider = toLowerCase (trim (to_str (js_ors [fld p ''provider'', fld p ''auth_provider'', JStr []])))
              in if provider = [] \<or> provider = js ''email'' \<or> provider = js ''local''
                 then parseNumericUserId (fld p ''id'') else []))"

subsection \<open>The contract of the decimal normalizers\<close>

definition decimal :: "ustr \<Rightarrow> bool" where
  "decimal s \<longleftrightarrow> s \<noteq> [] \<and> list_all is_digit s"

lemma decimal_trim [simp]: "decimal s \<Longrightarrow> trim s = s"
  by (rule trim_no_ws) (auto simp: decimal_def list_all_iff)

lemma decimal_nat_str [simp]: "decimal (nat_str n)"
  by (simp add: decimal_def nat_str_digits)

lemma re_full_decimal [simp]: "re_full (RPlus is_digit) s \<longleftrightarrow> decimal s"
  by (simp add: re_full_Plus decimal_def)

lemma isNumericId_JStr [simp]: "isNumericId (JStr s) \<longleftrightarrow> decimal (trim s)"
  by (simp add: isNumericId_def)

lemma decimal_not_Nil [simp]: "\<not> decimal []"
  by (simp add: decimal_def)

locale id_normalizer =
  fixes norm :: "jsval \<Rightarrow> ustr"
  assumes norm_valid: "decimal (trim (str_co_empty v)) \<Longrightarrow> norm v = trim (str_co_empty v)"
    and norm_invalid: "\<not> decimal (trim (str_co_empty v)) \<Longrightarrow> norm v = []"
begin

lemma norm_shape: "norm v = [] \<or> decimal (norm v)"
  by (cases "decimal (trim (str_co_empty v))") (simp_all add: norm_valid norm_invalid)

lemma norm_decimal: "norm v \<noteq> [] \<Longrightarrow> decimal (norm v)"
  using norm_shape by blast

lemma norm_text [simp]: "decimal s \<Longrightarrow> norm (JStr s) = s"
  by (simp add: norm_valid)

lemma norm_empty [simp]: "norm (JStr []) = []"
  by (simp add: norm_invalid)

lemma norm_idem [simp]: "norm (JStr (norm v)) = norm v"
  using norm_shape [of v] by (auto simp: norm_invalid)

lemma norm_eq: "norm v = (if decimal (trim (str_co_empty v)) then trim (str_co_empty v) else [])"
  by (simp add: norm_valid norm_invalid)

end

interpretation historyDb: id_normalizer parseDbId
  by unfold_locales (auto simp: parseDbId_def Let_def)

interpretation historyNum: id_normalizer parseNumericId
  by unfold_locales (auto simp: parseNumericId_def Let_def)

interpretation persistDb: id_normalizer normalizeDbId
  by unfold_locales (auto simp: normalizeDbId_def Let_def)

interpretation workerId: id_normalizer parseNumericUserId
  by unfold_locales (auto simp: parseNumericUserId_def Let_def)

interpretation chatId: id_normalizer "\<lambda>v. case normalizeBigintId v of None \<Rightarrow> [] | Some s \<Rightarrow> s"
  by unfold_locales (auto simp: normalizeBigintId_def Let_def)

text \<open>All modules accept the same ids, so an id resolved by one is used unchanged by the others.\<close>

lemma normalizers_agree:
  "parseDbId = normalizeDbId" "parseNumericUserId = normalizeDbId" "parseNumericId = normalizeDbId"
  by (rule ext, simp add: historyDb.norm_eq persistDb.norm_eq workerId.norm_eq historyNum.norm_eq)+

lemma normalizeBigintId_eq:
  "normalizeBigintId v = (if normalizeDbId v = [] then None else Some (normalizeDbId v))"
  by (auto simp: normalizeBigintId_def persistDb.norm_eq Let_def)

lemma first_id_shape:
  assumes "\<forall>x \<in> set xs. x = [] \<or> decimal x" and "y = [] \<or> decimal y"
  shows "(case find (\<lambda>n. n \<noteq> []) xs of Some n \<Rightarrow> n | None \<Rightarrow> y) = [] \<or>
    decimal (case find (\<lambda>n. n \<noteq> []) xs of Some n \<Rightarrow> n | None \<Rightarrow> y)"
  using assms by (auto split: option.split dest: find_Some_mem)

lemma userIdCandidate_shape: "userIdCandidateFromProfile p = [] \<or> decimal (userIdCandidateFromProfile p)"
  unfolding userIdCandidateFromProfile_def Let_def
  by (rule first_id_shape) (simp_all only: list.map set_simps ball_simps historyDb.norm_shape simp_thms split: if_split)

lemma numericUserId_eq: "numericUserIdFromProfile p = userIdCandidateFromProfile p"
  by (simp only: numericUserIdFromProfile_def userIdCandidateFromProfile_def normalizers_agree)

lemma numericUserId_shape: "numericUserIdFromProfile p = [] \<or> decimal (numericUserIdFromProfile p)"
  using userIdCandidate_shape by (simp only: numericUserId_eq)

lemma isUuidLike_eq: "isUuidLike = isUuid"
  by (rule ext) (simp add: isUuidLike_def isUuid_def)

lemma pickAuthUid_eq: "pickAuthUidFromProfile p = authUidCandidateFromProfile p"
  by (simp add: pickAuthUidFromProfile_def authUidCandidateFromProfile_def isUuidLike_eq find_append
      split: option.split)

lemma normalizeEmail_idem [simp]: "normalizeEmail (JStr (normalizeEmail v)) = normalizeEmail v"
  by (simp add: normalizeEmail_def trim_toLowerCase)

end
