(* ===== verification/History_Repo.thy ===== *)
theory History_Repo
  imports Identity "HOL-Library.Product_Lexorder"
begin

section \<open>Transcript history (sw/history_repo.js)\<close>

text \<open>
  The module resolves a profile to the id of a row of \<open>users\<close> and reads or deletes transcript
  sessions of that user.  Every function is a program over the world; \<open>null\<close> results are \<open>None\<close>.
  A session row is a record with the fields of \<open>normalizeSessionRow\<close>.
\<close>

subsection \<open>Requests\<close>

definition authHeaders :: "ustr \<Rightarrow> (ustr \<times> ustr) list" where
  "authHeaders authToken =
     [(js ''apikey'', SUPABASE_KEY), (js ''Authorization'', js ''Bearer '' @ str_or (trim authToken) SUPABASE_KEY),
      (js ''content-type'', js ''application/json'')]"

definition get_req :: "string \<Rightarrow> (ustr \<times> ustr) list \<Rightarrow> ustr \<Rightarrow> req" where
  "get_req table query token =
     \<lparr>rq_verb = GET, rq_url = rest_url table, rq_query = query, rq_headers = authHeaders token, rq_body = None\<rparr>"

text \<open>\<open>JSON.parse\<close> of a text, \<open>null\<close> when the text is empty or not JSON.\<close>

definition json_or_null :: "env \<Rightarrow> ustr \<Rightarrow> jsval" where
  "json_or_null e txt = (if txt = [] then JNull else case e_json e txt of None \<Rightarrow> JNull | Some v \<Rightarrow> v)"

definition error_detail :: "env \<Rightarrow> int \<Rightarrow> ustr \<Rightarrow> ustr" where
  "error_detail e status txt =
     (let json = json_or_null e txt in
      to_str (js_ors [if truthy json then js_ors [fld json ''message'', fld json ''error'', fld json ''hint''] else json,
                      JStr txt, JStr (js ''HTTP '' @ int_str status)]))"

definition error_text :: "env \<Rightarrow> int \<Rightarrow> ustr \<Rightarrow> ustr" where
  "error_text e status txt = js ''SUPABASE_'' @ int_str status @ js '': '' @ error_detail e status txt"

definition fetchJson :: "env \<Rightarrow> req \<Rightarrow> jsval throwing" where
  "fetchJson e rq =
     andThen (fetch e rq) (\<lambda>r.
       let txt = text_or_empty r in
       if \<not> rs_ok r then throw (Err (error_text e (rs_status r) txt)) else ok (json_or_null e txt))"

definition buildSupabaseError :: "env \<Rightarrow> int \<Rightarrow> ustr \<Rightarrow> err" where
  "buildSupabaseError e status txt =
     \<lparr>e_msg = error_text e status txt, e_status = Some status, e_detail = Some (error_detail e status txt)\<rparr>"

definition delete_req :: "string \<Rightarrow> (ustr \<times> ustr) list \<Rightarrow> ustr \<Rightarrow> req" where
  "delete_req table query token =
     \<lparr>rq_verb = DELETE, rq_url = rest_url table, rq_query = query,
      rq_headers = obj_set (authHeaders token) (js ''Prefer'') (js ''return=minimal''), rq_body = None\<rparr>"

definition delete_once :: "env \<Rightarrow> string \<Rightarrow> (ustr \<times> ustr) list \<Rightarrow> ustr \<Rightarrow> bool throwing" where
  "delete_once e table query withToken =
     andThen (fetch e (delete_req table query withToken)) (\<lambda>r.
       if rs_ok r then ok True else throw (buildSupabaseError e (rs_status r) (text_or_empty r)))"

definition fetchDelete :: "env \<Rightarrow> string \<Rightarrow> (ustr \<times> ustr) list \<Rightarrow> ustr \<Rightarrow> bool throwing" where
  "fetchDelete e table query authToken =
     (let token = trim authToken in
      try_catch (delete_once e table query token)
        (\<lambda>x. if token = [] then throw x else delete_once e table query []))"

definition fetchJsonWithAuthFallback :: "env \<Rightarrow> string \<Rightarrow> (ustr \<times> ustr) list \<Rightarrow> ustr \<Rightarrow> jsval throwing" where
  "fetchJsonWithAuthFallback e table query authToken =
     (let token = trim authToken in
      try_catch (fetchJson e (get_req table query token))
        (\<lambda>x. if token = [] then throw x else fetchJson e (get_req table query [])))"

definition USER_ID_INVALID :: err where
  "USER_ID_INVALID = Err (js ''USER_ID_INVALID'')"

definition normalizeUserIdOrThrow :: "jsval \<Rightarrow> ustr throwing" where
  "normalizeUserIdOrThrow userId = (let uid = parseDbId userId in if uid = [] then throw USER_ID_INVALID else ok uid)"

subsection \<open>From a profile to the id of its row in users\<close>

text \<open>\<open>new Set(xs)\<close> in insertion order.\<close>

fun uniq :: "'a list \<Rightarrow> 'a list" where
  "uniq [] = []"
| "uniq (x # xs) = x # filter (\<lambda>y. y \<noteq> x) (uniq xs)"

text \<open>The id in the first row of an answer: \<open>Array.isArray(rows) && parseDbId(rows?.[0]?.k)\<close>.\<close>

definition row_id :: "string \<Rightarrow> jsval \<Rightarrow> ustr" where
  "row_id k rows = (if is_arr rows then parseDbId (fld (idx rows 0) k) else [])"

definition eqf :: "ustr \<Rightarrow> ustr" where
  "eqf s = js ''eq.'' @ s"

definition users_query :: "ustr \<Rightarrow> ustr \<Rightarrow> (ustr \<times> ustr) list" where
  "users_query op' em =
     [(js ''select'', js ''id''), (js ''email'', op' @ js ''.'' @ em), (js ''limit'', js ''1'')]"

fun selectUsers_loop :: "env \<Rightarrow> ustr \<Rightarrow> (ustr \<times> ustr) list \<Rightarrow> ustr prog" where
  "selectUsers_loop e token [] = ret []"
| "selectUsers_loop e token ((em, op') # qs) =
     do {
       r \<leftarrow> fetchJson e (get_req ''users'' (users_query op' em) token);
       case r of
         Inl x \<Rightarrow> selectUsers_loop e token qs
       | Inr rows \<Rightarrow> if row_id ''id'' rows \<noteq> [] then ret (row_id ''id'' rows) else selectUsers_loop e token qs
     }"

definition email_ops :: "jsval \<Rightarrow> (ustr \<times> ustr) list" where
  "email_ops email =
     (let emLower = normalizeEmail email; emRaw = trim (str_or_empty email);
          cands = uniq (filter (\<lambda>s. s \<noteq> []) [emLower, emRaw])
      in concat (map (\<lambda>em. [(em, js ''eq''), (em, js ''ilike'')]) cands))"

definition selectUsersIdByEmail :: "env \<Rightarrow> jsval \<Rightarrow> ustr \<Rightarrow> ustr prog" where
  "selectUsersIdByEmail e email token = selectUsers_loop e token (email_ops email)"

text \<open>A lookup whose errors are ignored: \<open>try { \<dots> if (\<dots>) return rid } catch {} return ""\<close>.\<close>

definition lookup_id :: "env \<Rightarrow> string \<Rightarrow> req \<Rightarrow> ustr prog" where
  "lookup_id e k rq =
     do { r \<leftarrow> fetchJson e rq; case r of Inl x \<Rightarrow> ret [] | Inr rows \<Rightarrow> ret (row_id k rows) }"

definition selectUsersIdByAuthUid :: "env \<Rightarrow> ustr \<Rightarrow> ustr \<Rightarrow> ustr prog" where
  "selectUsersIdByAuthUid e authUid token =
     (let au = toLowerCase (trim authUid) in
      if \<not> isUuid (JStr au) then ret []
      else lookup_id e ''id'' (get_req ''users''
             [(js ''select'', js ''id''), (js ''auth_uid'', eqf au), (js ''limit'', js ''1'')] token))"

definition insertUsersRowByEmail :: "env \<Rightarrow> jsval \<Rightarrow> ustr \<Rightarrow> ustr prog" where
  "insertUsersRowByEmail e email token =
     (let em = normalizeEmail email in
      if em = [] then ret []
      else do {
        created \<leftarrow> now_iso e;
        lastLogin \<leftarrow> now_iso e;
        rid \<leftarrow> lookup_id e ''id''
          \<lparr>rq_verb = POST, rq_url = rest_url ''users'', rq_query = [],
           rq_headers = obj_set (authHeaders token) (js ''Prefer'') (js ''return=representation''),
           rq_body = Some (JObj
             [(js ''email'', JStr em), (js ''phone'', JNull), (js ''password_hash'', JStr (js ''oauth'')),
              (js ''auth_provider'', JStr (js ''oauth'')), (js ''status'', JStr (js ''active'')),
              (js ''created_at'', JStr created), (js ''last_login_at'', JStr lastLogin)])\<rparr>;
        if rid \<noteq> [] then ret rid else selectUsersIdByEmail e (JStr em) token
      })"

definition own_rows_query :: "(ustr \<times> ustr) list" where
  "own_rows_query =
     [(js ''select'', js ''user_id''), (js ''user_id'', js ''not.is.null''),
      (js ''order'', js ''started_at.desc,id.desc''), (js ''limit'', js ''1'')]"

definition selectUserIdFromOwnChatSessions :: "env \<Rightarrow> ustr \<Rightarrow> ustr \<Rightarrow> ustr prog" where
  "selectUserIdFromOwnChatSessions e authToken ownerUid =
     (let token = trim authToken; owner = toLowerCase (trim ownerUid) in
      if token = [] then ret []
      else lookup_id e ''user_id'' (get_req ''chat_sessions''
             (if isUuid (JStr owner) then obj_set own_rows_query (js ''owner_uid'') (eqf owner) else own_rows_query)
             token))"

definition selectUserIdFromOwnTranscriptSessions :: "env \<Rightarrow> ustr \<Rightarrow> ustr prog" where
  "selectUserIdFromOwnTranscriptSessions e authToken =
     (let token = trim authToken in
      if token = [] then ret []
      else lookup_id e ''user_id'' (get_req ''transcript_sessions'' own_rows_query token))"

text \<open>\<open>const x = await f(); if (x) return x; \<dots>\<close>.\<close>

definition first_of :: "ustr prog \<Rightarrow> ustr throwing \<Rightarrow> ustr throwing" where
  "first_of f rest = do { x \<leftarrow> f; if x \<noteq> [] then ok x else rest }"

definition resolve_without_email :: "env \<Rightarrow> jsval \<Rightarrow> ustr \<Rightarrow> ustr throwing" where
  "resolve_without_email e profile authToken =
     (let directId = userIdCandidateFromProfile profile; authUid = authUidCandidateFromProfile profile in
      if directId \<noteq> [] then ok directId
      else first_of (selectUsersIdByAuthUid e authUid authToken)
          (first_of (selectUserIdFromOwnChatSessions e authToken authUid)
          (first_of (selectUserIdFromOwnTranscriptSessions e authToken)
          (throw USER_ID_INVALID))))"

definition resolveUsersTableUserId :: "env \<Rightarrow> jsval \<Rightarrow> ustr \<Rightarrow> ustr throwing" where
  "resolveUsersTableUserId e profile authToken0 =
     (let authToken = trim authToken0; email = normalizeEmail (fld profile ''email'') in
      if email = [] then resolve_without_email e profile authToken
      else first_of (selectUsersIdByEmail e (JStr email) authToken)
          (first_of (insertUsersRowByEmail e (JStr email) authToken)
          (first_of (selectUsersIdByEmail e (JStr email) [])
          (first_of (insertUsersRowByEmail e (JStr email) [])
          (resolve_without_email e profile authToken)))))"

subsection \<open>Session rows\<close>

record session_row =
  sr_id :: int
  sr_user_id :: "ustr option"
  sr_tab_url :: ustr
  sr_tab_domain :: ustr
  sr_started_at :: jsval
  sr_ended_at :: jsval
  sr_status :: ustr
  sr_latest_text_en :: ustr
  sr_last_seq :: "rat option"
  sr_last_updated_at :: jsval

definition normalizeSessionRow :: "jsval \<Rightarrow> session_row option" where
  "normalizeSessionRow row =
     (let n = toInt (fld row ''id'') 0 in
      if n = 0 then None
      else Some
        \<lparr>sr_id = n,
         sr_user_id = (let u = parseDbId (fld row ''user_id'') in if u = [] then None else Some u),
         sr_tab_url = str_or_empty (fld row ''tab_url''), sr_tab_domain = str_or_empty (fld row ''tab_domain''),
         sr_started_at = js_or (fld row ''started_at'') JNull, sr_ended_at = js_or (fld row ''ended_at'') JNull,
         sr_status = str_or_empty (fld row ''status''), sr_latest_text_en = str_or_empty (fld row ''latest_text_en''),
         sr_last_seq = num_opt (fld row ''last_seq''), sr_last_updated_at = js_or (fld row ''last_updated_at'') JNull\<rparr>)"

definition row_time :: "env \<Rightarrow> session_row \<Rightarrow> rat" where
  "row_time e r =
     (case e_dateparse e (to_str (js_ors [sr_started_at r, sr_last_updated_at r, JStr []])) of
        None \<Rightarrow> 0 | Some t \<Rightarrow> t)"

text \<open>The sort is stable; the comparator orders by time, then by id, both descending.\<close>

definition sortSessionsDesc :: "env \<Rightarrow> session_row list \<Rightarrow> session_row list" where
  "sortSessionsDesc e rows = sort_key (\<lambda>r. (- row_time e r, - sr_id r)) rows"

subsection \<open>List, detail, delete\<close>

text \<open>\<open>String(n)\<close> and \<open>`${n}`\<close> of an integer.\<close>

definition num_str :: "int \<Rightarrow> ustr" where
  "num_str i = rat_str (of_int i)"

definition list_query :: "ustr \<Rightarrow> int \<Rightarrow> int \<Rightarrow> (ustr \<times> ustr) list" where
  "list_query uid lim' off =
     [(js ''select'', js ''*''), (js ''user_id'', eqf uid), (js ''order'', js ''started_at.desc,id.desc''),
      (js ''limit'', num_str lim'), (js ''offset'', num_str off)]"

fun arr_items :: "jsval \<Rightarrow> jsval list" where
  "arr_items (JArr xs) = xs"
| "arr_items _ = []"

text \<open>Rows with a transcript, in the order of the answer.\<close>

definition shown_rows :: "jsval \<Rightarrow> session_row list" where
  "shown_rows rows = filter (\<lambda>n. trim (sr_latest_text_en n) \<noteq> []) (List.map_filter normalizeSessionRow (arr_items rows))"

definition listTranscriptSessionsForUser ::
  "env \<Rightarrow> jsval \<Rightarrow> jsval \<Rightarrow> jsval \<Rightarrow> ustr \<Rightarrow> session_row list throwing" where
  "listTranscriptSessionsForUser e userId limit offset authToken =
     andThen (normalizeUserIdOrThrow userId) (\<lambda>uid.
       let lim' = max 1 (min 500 (toInt limit 200)); off = max 0 (toInt offset 0) in
       andThen (fetchJsonWithAuthFallback e ''transcript_sessions'' (list_query uid lim' off) authToken) (\<lambda>rows.
         if \<not> is_arr rows then ok [] else ok (sortSessionsDesc e (shown_rows rows))))"

definition session_query :: "string \<Rightarrow> int \<Rightarrow> ustr \<Rightarrow> (ustr \<times> ustr) list" where
  "session_query sel sid uid =
     [(js ''select'', js sel), (js ''id'', eqf (num_str sid)), (js ''user_id'', eqf uid), (js ''limit'', js ''1'')]"

definition chunk0_query :: "int \<Rightarrow> (ustr \<times> ustr) list" where
  "chunk0_query sid =
     [(js ''select'', js ''seq,text_en,is_stable''), (js ''tr_session_id'', eqf (num_str sid)),
      (js ''seq'', js ''eq.0''), (js ''limit'', js ''1'')]"

definition chunkLatest_query :: "int \<Rightarrow> (ustr \<times> ustr) list" where
  "chunkLatest_query sid =
     [(js ''select'', js ''seq,text_en,is_stable''), (js ''tr_session_id'', eqf (num_str sid)),
      (js ''order'', js ''seq.desc''), (js ''limit'', js ''1'')]"

text \<open>\<open>Array.isArray(rows) && rows[0] && typeof rows[0].text_en === "string"\<close>, and the text.\<close>

definition chunk_text :: "jsval \<Rightarrow> ustr option" where
  "chunk_text rows = (if is_arr rows then (case fld (idx rows 0) ''text_en'' of JStr s \<Rightarrow> Some s | _ \<Rightarrow> None) else None)"

definition chunk_or_latest :: "env \<Rightarrow> int \<Rightarrow> ustr \<Rightarrow> ustr \<Rightarrow> ustr throwing" where
  "chunk_or_latest e sid authToken fullText =
     andThen (fetchJsonWithAuthFallback e ''transcript_chunks'' (chunk0_query sid) authToken) (\<lambda>rows0.
       case chunk_text rows0 of
         Some t \<Rightarrow> ok (str_or t fullText)
       | None \<Rightarrow>
           andThen (fetchJsonWithAuthFallback e ''transcript_chunks'' (chunkLatest_query sid) authToken) (\<lambda>rowsL.
             case chunk_text rowsL of Some t \<Rightarrow> ok (str_or t fullText) | None \<Rightarrow> ok fullText))"

definition INVALID_SESSION_ID :: err where
  "INVALID_SESSION_ID = Err (js ''INVALID_SESSION_ID'')"

definition getTranscriptSessionDetailForUser ::
  "env \<Rightarrow> jsval \<Rightarrow> jsval \<Rightarrow> ustr \<Rightarrow> (session_row \<times> ustr) option throwing" where
  "getTranscriptSessionDetailForUser e userId sessionId authToken0 =
     andThen (normalizeUserIdOrThrow userId) (\<lambda>uid.
       let authToken = trim authToken0; sid = toInt sessionId 0 in
       if sid = 0 then throw INVALID_SESSION_ID
       else andThen (fetchJsonWithAuthFallback e ''transcript_sessions'' (session_query ''*'' sid uid) authToken) (\<lambda>rows.
         if \<not> is_arr rows \<or> \<not> truthy (idx rows 0) then ok None
         else case normalizeSessionRow (idx rows 0) of
           None \<Rightarrow> ok None
         | Some session \<Rightarrow>
             andThen (try_catch (chunk_or_latest e sid authToken (sr_latest_text_en session))
                        (\<lambda>x. ok (sr_latest_text_en session)))
               (\<lambda>fullText. ok (Some (session, fullText)))))"

record delete_result =
  dr_deleted :: bool
  dr_notFound :: bool
  dr_sessionId :: int

definition own_session_query :: "int \<Rightarrow> ustr \<Rightarrow> (ustr \<times> ustr) list" where
  "own_session_query sid uid = [(js ''id'', eqf (num_str sid)), (js ''user_id'', eqf uid)]"

definition chunks_query :: "int \<Rightarrow> (ustr \<times> ustr) list" where
  "chunks_query sid = [(js ''tr_session_id'', eqf (num_str sid))]"

definition likelyFkConflict :: "err \<Rightarrow> bool" where
  "likelyFkConflict x \<longleftrightarrow>
     (let detail = toLowerCase (case e_detail x of Some d \<Rightarrow> str_or d (e_msg x) | None \<Rightarrow> e_msg x) in
      e_status x = Some 409 \<or> str_includes detail (js ''foreign key'') \<or>
      str_includes detail (js ''violates'') \<or> str_includes detail (js ''constraint''))"

definition delete_session :: "env \<Rightarrow> int \<Rightarrow> ustr \<Rightarrow> ustr \<Rightarrow> bool throwing" where
  "delete_session e sid uid authToken =
     try_catch (fetchDelete e ''transcript_sessions'' (own_session_query sid uid) authToken)
       (\<lambda>x. if \<not> likelyFkConflict x then throw x
            else andThen (fetchDelete e ''transcript_chunks'' (chunks_query sid) authToken)
                   (\<lambda>_. fetchDelete e ''transcript_sessions'' (own_session_query sid uid) authToken))"

definition deleteTranscriptSessionForUser :: "env \<Rightarrow> jsval \<Rightarrow> jsval \<Rightarrow> ustr \<Rightarrow> delete_result throwing" where
  "deleteTranscriptSessionForUser e userId sessionId authToken0 =
     andThen (normalizeUserIdOrThrow userId) (\<lambda>uid.
       let authToken = trim authToken0; sid = toInt sessionId 0 in
       if sid = 0 then throw INVALID_SESSION_ID
       else andThen (fetchJsonWithAuthFallback e ''transcript_sessions'' (session_query ''id'' sid uid) authToken) (\<lambda>rows.
         if \<not> is_arr rows \<or> \<not> truthy (idx rows 0)
         then ok \<lparr>dr_deleted = False, dr_notFound = True, dr_sessionId = sid\<rparr>
         else andThen (delete_session e sid uid authToken)
                (\<lambda>_. ok \<lparr>dr_deleted = True, dr_notFound = False, dr_sessionId = sid\<rparr>)))"

end
