(* ===== verification/History_Contract.thy ===== *)
theory History_Contract
  imports History_Repo "HOL-Library.Multiset"
begin

section \<open>What the history module promises\<close>

text \<open>
  Which requests each function may send (all lookups and deletions are scoped to the resolved user),
  what a resolution of a profile may return, what a list contains and in which order, when a detail
  is found, and when a deletion is sent.  One lemma shows where the retry without a token defeats
  the fallback for foreign keys.
\<close>

subsection \<open>Requests and results of the helpers\<close>

lemma sends_fetchJson: "P rq \<Longrightarrow> sends P (fetchJson e rq)"
  unfolding fetchJson_def Let_def by (intro sends_andThen sends_fetch sends_if sends_ret)

lemma sends_delete_once: "P (delete_req t q tok) \<Longrightarrow> sends P (delete_once e t q tok)"
  unfolding delete_once_def by (intro sends_andThen sends_fetch sends_if sends_ret)

lemma sends_fetchDelete: "(\<And>tok. P (delete_req t q tok)) \<Longrightarrow> sends P (fetchDelete e t q tok)"
  unfolding fetchDelete_def Let_def by (intro sends_try sends_delete_once sends_if sends_ret)

lemma sends_fetchFallback: "(\<And>tok. P (get_req t q tok)) \<Longrightarrow> sends P (fetchJsonWithAuthFallback e t q tok)"
  unfolding fetchJsonWithAuthFallback_def Let_def by (intro sends_try sends_fetchJson sends_if sends_ret)

lemma sends_normalizeUser [simp]: "sends P (normalizeUserIdOrThrow u)"
  unfolding normalizeUserIdOrThrow_def Let_def by (intro sends_if sends_ret)

lemma run_normalizeUser:
  "run_state (normalizeUserIdOrThrow u) w =
     (if parseDbId u = [] then (Inl USER_ID_INVALID, w) else (Inr (parseDbId u), w))"
  by (simp add: normalizeUserIdOrThrow_def)

subsection \<open>Resolution of a profile\<close>

text \<open>A program that returns a decimal id or the empty text.\<close>

abbreviation id_or_empty :: "ustr \<Rightarrow> bool" where
  "id_or_empty s \<equiv> s = [] \<or> decimal s"

lemma row_id_shape: "id_or_empty (row_id k rows)"
  by (simp add: row_id_def historyDb.norm_shape)

lemma pred_ret [intro]: "Q a \<Longrightarrow> pred_state Q (ret a)"
  by (rule pred_stateI) auto

lemma pred_bind: "(\<And>a. pred_state Q (f a)) \<Longrightarrow> pred_state Q (State_Monad.bind m f)"
  by (rule bind_predI) (auto intro!: pred_stateI)

lemma pred_bind_post: "pred_state P m \<Longrightarrow> (\<And>a. P a \<Longrightarrow> pred_state Q (f a)) \<Longrightarrow> pred_state Q (State_Monad.bind m f)"
  by (rule bind_predI) (erule state.pred_mono_strong, blast)

lemma pred_sum: "(\<And>x. pred_state Q (f x)) \<Longrightarrow> (\<And>y. pred_state Q (g y)) \<Longrightarrow>
    pred_state Q (case r of Inl x \<Rightarrow> f x | Inr y \<Rightarrow> g y)"
  by (cases r) auto

lemma pred_if: "(b \<Longrightarrow> pred_state Q m) \<Longrightarrow> (\<not> b \<Longrightarrow> pred_state Q n) \<Longrightarrow> pred_state Q (if b then m else n)"
  by simp

lemmas pred_rules = pred_ret pred_bind pred_sum pred_if

lemma lookup_id_shape: "pred_state id_or_empty (lookup_id e k rq)"
  unfolding lookup_id_def by (intro pred_rules row_id_shape) simp

lemma selectUsers_shape: "pred_state id_or_empty (selectUsers_loop e token qs)"
proof (induction e token qs rule: selectUsers_loop.induct)
  case (2 e token em op' qs)
  then show ?case by (simp only: selectUsers_loop.simps) (intro pred_rules row_id_shape)
qed auto

lemma selectEmail_shape: "pred_state id_or_empty (selectUsersIdByEmail e email token)"
  by (simp add: selectUsersIdByEmail_def selectUsers_shape)

lemma insertUsers_shape: "pred_state id_or_empty (insertUsersRowByEmail e email token)"
  unfolding insertUsersRowByEmail_def Let_def
  by (intro pred_if pred_ret pred_bind pred_bind_post [OF lookup_id_shape] selectEmail_shape) auto

lemmas lookups_defs =
  selectUsersIdByAuthUid_def selectUserIdFromOwnChatSessions_def selectUserIdFromOwnTranscriptSessions_def

lemma lookups_shape:
  "pred_state id_or_empty (selectUsersIdByAuthUid e a tok)"
  "pred_state id_or_empty (selectUserIdFromOwnChatSessions e tok a)"
  "pred_state id_or_empty (selectUserIdFromOwnTranscriptSessions e tok)"
  unfolding lookups_defs Let_def by (intro pred_if pred_ret lookup_id_shape; simp)+

text \<open>What a resolution returns or throws.\<close>

abbreviation resolved :: "err + ustr \<Rightarrow> bool" where
  "resolved r \<equiv> (case r of Inl x \<Rightarrow> x = USER_ID_INVALID | Inr uid \<Rightarrow> decimal uid)"

lemma first_of_resolved:
  assumes "pred_state id_or_empty f" and "pred_state resolved rest"
  shows "pred_state resolved (first_of f rest)"
  unfolding first_of_def by (rule pred_bind_post [OF assms(1)]) (use assms(2) in auto)

lemma resolve_without_email_resolved: "pred_state resolved (resolve_without_email e profile tok)"
  unfolding resolve_without_email_def Let_def
  using userIdCandidate_shape [of profile]
  by (intro pred_if pred_ret first_of_resolved lookups_shape) auto

lemma resolveUsers_resolved: "pred_state resolved (resolveUsersTableUserId e profile tok)"
  unfolding resolveUsersTableUserId_def Let_def
  by (intro pred_if first_of_resolved resolve_without_email_resolved selectEmail_shape insertUsers_shape)

lemma normalizeEmail_text: "trim (normalizeEmail v) = normalizeEmail v"
  by (simp add: normalizeEmail_def trim_toLowerCase)

lemma email_ops_normal:
  "normalizeEmail v \<noteq> [] \<Longrightarrow>
   email_ops (JStr (normalizeEmail v)) = [(normalizeEmail v, js ''eq''), (normalizeEmail v, js ''ilike'')]"
  by (simp add: email_ops_def normalizeEmail_text Let_def)

subsection \<open>Scoped requests\<close>

text \<open>The requests about one session of one user, and the requests that may delete.\<close>

definition scoped :: "ustr \<Rightarrow> int \<Rightarrow> req \<Rightarrow> bool" where
  "scoped uid sid q \<longleftrightarrow>
     (rq_verb q = GET \<and> rq_url q = rest_url ''transcript_sessions'' \<and>
        {(js ''id'', eqf (num_str sid)), (js ''user_id'', eqf uid)} \<subseteq> set (rq_query q)) \<or>
     (rq_verb q = DELETE \<and> rq_url q = rest_url ''transcript_sessions'' \<and> rq_query q = own_session_query sid uid) \<or>
     (rq_verb q = DELETE \<and> rq_url q = rest_url ''transcript_chunks'' \<and> rq_query q = chunks_query sid)"

lemma sends_delete_session: "sends (scoped uid sid) (delete_session e sid uid tok)"
  unfolding delete_session_def
  by (intro sends_try sends_andThen sends_if sends_ret sends_fetchDelete) (simp_all add: scoped_def delete_req_def)

definition is_get :: "req \<Rightarrow> bool" where
  "is_get q \<longleftrightarrow> rq_verb q = GET"

lemma sends_lookup:
  "sends (\<lambda>q. scoped uid sid q \<and> is_get q)
     (fetchJsonWithAuthFallback e ''transcript_sessions'' (session_query sel sid uid) tok)"
  by (rule sends_fetchFallback) (simp add: scoped_def is_get_def get_req_def session_query_def)

text \<open>The answer of the ownership lookup that a deletion starts with.\<close>

definition owned :: "env \<Rightarrow> world \<Rightarrow> ustr \<Rightarrow> int \<Rightarrow> ustr \<Rightarrow> bool" where
  "owned e w uid sid tok \<longleftrightarrow>
     (case fst (run_state (fetchJsonWithAuthFallback e ''transcript_sessions'' (session_query ''id'' sid uid) tok) w) of
        Inl x \<Rightarrow> False
      | Inr rows \<Rightarrow> is_arr rows \<and> truthy (idx rows 0))"

lemma delete_run:
  fixes e user sessionId tok0 w
  defines "uid \<equiv> parseDbId user" and "sid \<equiv> toInt sessionId 0" and "tok \<equiv> trim tok0"
  assumes "uid \<noteq> []" and "sid \<noteq> 0"
  obtains rl wl where
    "run_state (fetchJsonWithAuthFallback e ''transcript_sessions'' (session_query ''id'' sid uid) tok) w = (rl, wl)"
    "run_state (deleteTranscriptSessionForUser e user sessionId tok0) w =
       (case rl of Inl x \<Rightarrow> (Inl x, wl)
        | Inr rows \<Rightarrow>
            if owned e w uid sid tok
            then (case run_state (delete_session e sid uid tok) wl of
                    (Inl x, w') \<Rightarrow> (Inl x, w')
                  | (Inr b, w') \<Rightarrow> (Inr \<lparr>dr_deleted = True, dr_notFound = False, dr_sessionId = sid\<rparr>, w'))
            else (Inr \<lparr>dr_deleted = False, dr_notFound = True, dr_sessionId = sid\<rparr>, wl))"
proof -
  obtain rl wl where l:
    "run_state (fetchJsonWithAuthFallback e ''transcript_sessions'' (session_query ''id'' sid uid) tok) w = (rl, wl)"
    by fastforce
  show ?thesis
  proof (rule that [OF l])
    show "run_state (deleteTranscriptSessionForUser e user sessionId tok0) w =
       (case rl of Inl x \<Rightarrow> (Inl x, wl)
        | Inr rows \<Rightarrow>
            if owned e w uid sid tok
            then (case run_state (delete_session e sid uid tok) wl of
                    (Inl x, w') \<Rightarrow> (Inl x, w')
                  | (Inr b, w') \<Rightarrow> (Inr \<lparr>dr_deleted = True, dr_notFound = False, dr_sessionId = sid\<rparr>, w'))
            else (Inr \<lparr>dr_deleted = False, dr_notFound = True, dr_sessionId = sid\<rparr>, wl))"
      using assms(4,5) l
      by (simp add: deleteTranscriptSessionForUser_def Let_def run_andThen run_normalizeUser owned_def
          flip: uid_def sid_def tok_def split: sum.split prod.split)
  qed
qed

text \<open>The parts of a detail: the lookup of the session, the requests for its chunks, and its text.\<close>

definition session_lookup :: "env \<Rightarrow> jsval \<Rightarrow> jsval \<Rightarrow> ustr \<Rightarrow> world \<Rightarrow> err + jsval" where
  "session_lookup e user sessionId tok w =
     fst (run_state (fetchJsonWithAuthFallback e ''transcript_sessions''
            (session_query ''*'' (toInt sessionId 0) (parseDbId user)) (trim tok)) w)"

definition chunk_req :: "int \<Rightarrow> req \<Rightarrow> bool" where
  "chunk_req sid q \<longleftrightarrow>
     rq_url q = rest_url ''transcript_chunks'' \<and> (js ''tr_session_id'', eqf (num_str sid)) \<in> set (rq_query q)"

definition detail_text :: "env \<Rightarrow> int \<Rightarrow> ustr \<Rightarrow> session_row \<Rightarrow> world \<Rightarrow> ustr" where
  "detail_text e sid tok s w =
     (case fst (run_state (chunk_or_latest e sid tok (sr_latest_text_en s)) w) of
        Inl x \<Rightarrow> sr_latest_text_en s | Inr t \<Rightarrow> t)"

lemma chunk_or_latest_nonempty: "full \<noteq> [] \<Longrightarrow> returns (\<lambda>t. t \<noteq> []) (chunk_or_latest e sid tok full)"
proof -
  assume f: "full \<noteq> []"
  have o: "str_or t full \<noteq> []" for t using f by (simp add: str_or_def)
  show ?thesis
    unfolding chunk_or_latest_def
    by (intro returns_andThen) (auto split: option.split intro!: returns_andThen returns_ok simp: o f)
qed

lemma detail_text_nonempty: "sr_latest_text_en s \<noteq> [] \<Longrightarrow> detail_text e sid tok s w \<noteq> []"
  unfolding detail_text_def
  using returnsD [OF chunk_or_latest_nonempty [of "sr_latest_text_en s" e sid tok], of w]
  by (auto split: sum.split) (metis prod.collapse)

lemma sends_chunk_or_latest: "sends (\<lambda>q. is_get q \<and> chunk_req sid q) (chunk_or_latest e sid tok full)"
  unfolding chunk_or_latest_def
  by (intro sends_andThen sends_fetchFallback)
    (auto split: option.split intro!: sends_andThen sends_fetchFallback
      simp: is_get_def chunk_req_def get_req_def chunk0_query_def chunkLatest_query_def)

lemma sends_case_row: "(\<And>s. sends P (f s)) \<Longrightarrow> sends P m \<Longrightarrow> sends P (case r of None \<Rightarrow> m | Some s \<Rightarrow> f s)"
  by (cases r) auto

lemma sends_detail:
  "sends (\<lambda>q. is_get q \<and> (scoped (parseDbId user) (toInt sessionId 0) q \<or> chunk_req (toInt sessionId 0) q))
     (getTranscriptSessionDetailForUser e user sessionId tok)"
proof (cases "parseDbId user = []")
  case True
  then show ?thesis
    by (auto simp: getTranscriptSessionDetailForUser_def sends_def run_andThen run_normalizeUser)
next
  case False
  have "normalizeUserIdOrThrow user = ok (parseDbId user)" using False by (simp add: normalizeUserIdOrThrow_def)
  then show ?thesis
    unfolding getTranscriptSessionDetailForUser_def Let_def
    by (simp add: andThen_def [of "ok _"])
      (intro impI sends_andThen sends_if sends_ret sends_case_row sends_try
        sends_weaken [OF sends_lookup] sends_weaken [OF sends_chunk_or_latest]; blast)
qed

lemma detail_run:
  assumes "run_state (getTranscriptSessionDetailForUser e user sessionId tok) w = (r, w')"
  shows "\<exists>w1. r =
    (if parseDbId user = [] then Inl USER_ID_INVALID
     else if toInt sessionId 0 = 0 then Inl INVALID_SESSION_ID
     else (case session_lookup e user sessionId tok w of
             Inl x \<Rightarrow> Inl x
           | Inr rows \<Rightarrow>
               (case (if is_arr rows \<and> truthy (idx rows 0) then normalizeSessionRow (idx rows 0) else None) of
                  None \<Rightarrow> Inr None
                | Some s \<Rightarrow> Inr (Some (s, detail_text e (toInt sessionId 0) (trim tok) s w1)))))"
proof -
  obtain rl wl where l: "run_state (fetchJsonWithAuthFallback e ''transcript_sessions''
      (session_query ''*'' (toInt sessionId 0) (parseDbId user)) (trim tok)) w = (rl, wl)" by fastforce
  show ?thesis
    using assms l
    by (intro exI [of _ wl])
      (auto simp: getTranscriptSessionDetailForUser_def run_andThen run_try run_normalizeUser Let_def
        session_lookup_def detail_text_def split: option.splits prod.splits sum.splits if_splits)
qed

text \<open>A database with one session of user 5, for the examples; requests for chunks fail.\<close>

definition history_env :: env where
  "history_env =
     example_env
       (\<lambda>h q. if rq_url q = rest_url ''transcript_chunks'' then Inl (js ''offline'')
              else Inr \<lparr>rs_status = 200, rs_text = Some (js ''rows'')\<rparr>)
       (\<lambda>t. Some (JArr [JObj [(js ''id'', JInt 1), (js ''latest_text_en'', JStr (js ''Hi.''))]]))"

lemma history_env_detail:
  obtains s w' where
    "run_state (getTranscriptSessionDetailForUser history_env (JInt 5) (JInt 1) []) blank_world =
       (Inr (Some (s, js ''Hi.'')), w')" and "sr_latest_text_en s = js ''Hi.''"
proof -
  let ?r = "fst (run_state (getTranscriptSessionDetailForUser history_env (JInt 5) (JInt 1) []) blank_world)"
  have "\<not> isl ?r" by code_simp
  moreover have "map_option snd (projr ?r) = Some (js ''Hi.'')" by code_simp
  moreover have "map_option (\<lambda>p. sr_latest_text_en (fst p)) (projr ?r) = Some (js ''Hi.'')" by code_simp
  ultimately show ?thesis
    using that by (cases "run_state (getTranscriptSessionDetailForUser history_env (JInt 5) (JInt 1) []) blank_world"; cases ?r)
      auto
qed

lemma history_env_delete:
  "dr_deleted (projr (fst (run_state (deleteTranscriptSessionForUser history_env (JInt 5) (JInt 1) (js ''t'')) blank_world)))"
  "map rq_verb (w_reqs (snd (run_state (deleteTranscriptSessionForUser history_env (JInt 5) (JInt 1) (js ''t'')) blank_world))) =
    [GET, DELETE]"
  by code_simp+

subsection \<open>Properties\<close>

text \<open>Property C32: resolving a profile returns a decimal id or throws \<open>USER_ID_INVALID\<close>, whatever the
  server answers; and when the profile has an e-mail address and the first lookup by that address
  finds a row, its id is the result and no other request is sent.\<close>

theorem resolve_user_id:
  fixes e profile tok w
  defines "em \<equiv> normalizeEmail (fld profile ''email'')"
  shows "resolved (fst (run_state (resolveUsersTableUserId e profile tok) w)) \<and>
    (em \<noteq> [] \<and> run_state (fetchJson e (get_req ''users'' (users_query (js ''eq'') em) (trim tok))) w = (Inr rows, w1) \<and>
       row_id ''id'' rows \<noteq> [] \<longrightarrow>
     run_state (resolveUsersTableUserId e profile tok) w = (Inr (row_id ''id'' rows), w1))"
proof (intro conjI impI)
  show "resolved (fst (run_state (resolveUsersTableUserId e profile tok) w))"
    by (rule pred_state_run_state [OF resolveUsers_resolved])
next
  assume a: "em \<noteq> [] \<and> run_state (fetchJson e (get_req ''users'' (users_query (js ''eq'') em) (trim tok))) w = (Inr rows, w1) \<and>
       row_id ''id'' rows \<noteq> []"
  then have "run_state (selectUsersIdByEmail e (JStr em) (trim tok)) w = (row_id ''id'' rows, w1)"
    by (simp add: selectUsersIdByEmail_def em_def email_ops_normal)
  with a show "run_state (resolveUsersTableUserId e profile tok) w = (Inr (row_id ''id'' rows), w1)"
    by (simp add: resolveUsersTableUserId_def first_of_def Let_def flip: em_def)
qed

text \<open>A listing sends only requests filtered by the user, with a limit between 1 and 500; its
  items are the rows of the answer that have an id and a transcript, each exactly once, newest first.\<close>

lemma list_sessions:
  assumes "run_state (listTranscriptSessionsForUser e user limit offset tok) w = (r, w')"
  shows "\<exists>lim' off. 1 \<le> lim' \<and> lim' \<le> 500 \<and> 0 \<le> off \<and>
    (\<exists>new. w_reqs w' = w_reqs w @ new \<and>
       (\<forall>q \<in> set new. decimal (parseDbId user) \<and>
          (\<exists>t. q = get_req ''transcript_sessions'' (list_query (parseDbId user) lim' off) t))) \<and>
    (\<forall>items. r = Inr items \<longrightarrow>
       (\<exists>rows. fst (run_state (fetchJsonWithAuthFallback e ''transcript_sessions''
                    (list_query (parseDbId user) lim' off) tok) w) = Inr rows \<and>
               mset items = mset (shown_rows rows)) \<and>
       sorted_wrt (\<lambda>a b. row_time e b < row_time e a \<or> (row_time e a = row_time e b \<and> sr_id b \<le> sr_id a)) items \<and>
       (\<forall>i \<in> set items. sr_id i \<noteq> 0 \<and> trim (sr_latest_text_en i) \<noteq> []))"
proof -
  define uid where "uid = parseDbId user"
  define lim' where "lim' = max 1 (min 500 (toInt limit 200))"
  define off where "off = max 0 (toInt offset 0)"
  let ?P = "\<lambda>q. \<exists>t. q = get_req ''transcript_sessions'' (list_query uid lim' off) t"
  obtain rl wl where l: "run_state (fetchJsonWithAuthFallback e ''transcript_sessions'' (list_query uid lim' off) tok) w = (rl, wl)"
    by fastforce
  have "sends ?P (fetchJsonWithAuthFallback e ''transcript_sessions'' (list_query uid lim' off) tok)"
    by (rule sends_fetchFallback) auto
  then obtain new where new: "w_reqs wl = w_reqs w @ new" "list_all ?P new" using l by (rule sends_run)
  have run: "(r, w') = (if uid = [] then (Inl USER_ID_INVALID, w)
      else (case rl of Inl x \<Rightarrow> (Inl x, wl) | Inr rows \<Rightarrow> (Inr (if is_arr rows then sortSessionsDesc e (shown_rows rows) else []), wl)))"
    using assms l
    by (cases rl) (auto simp: listTranscriptSessionsForUser_def run_andThen run_normalizeUser Let_def
        simp flip: uid_def lim'_def off_def split: if_splits)
  have bounds: "1 \<le> lim'" "lim' \<le> 500" "0 \<le> off" by (simp_all add: lim'_def off_def)
  have dec: "uid \<noteq> [] \<Longrightarrow> decimal uid" unfolding uid_def by (rule historyDb.norm_decimal)
  have reqs: "\<exists>new. w_reqs w' = w_reqs w @ new \<and> (\<forall>q \<in> set new. decimal uid \<and> ?P q)"
  proof (cases "uid = []")
    case True
    with run show ?thesis by simp
  next
    case False
    with run have "w' = wl" by (simp split: sum.splits)
    with new dec [OF False] show ?thesis by (auto simp: list_all_iff)
  qed
  have items: "(\<exists>rows. rl = Inr rows \<and> mset items = mset (shown_rows rows)) \<and>
       sorted_wrt (\<lambda>a b. row_time e b < row_time e a \<or> (row_time e a = row_time e b \<and> sr_id b \<le> sr_id a)) items \<and>
       (\<forall>i \<in> set items. sr_id i \<noteq> 0 \<and> trim (sr_latest_text_en i) \<noteq> [])" if "r = Inr items" for items
  proof -
    from that run obtain rows where i: "rl = Inr rows" "items = (if is_arr rows then sortSessionsDesc e (shown_rows rows) else [])"
      by (auto split: if_splits sum.splits)
    have na: "\<not> is_arr rows \<Longrightarrow> shown_rows rows = []" by (cases rows) (auto simp: shown_rows_def List.map_filter_def)
    have s: "items = sort_key (\<lambda>r. (- row_time e r, - sr_id r)) (shown_rows rows)"
      using na by (simp add: i sortSessionsDesc_def)
    have "sorted_wrt (\<lambda>a b. (- row_time e a, - sr_id a) \<le> (- row_time e b, - sr_id b)) items"
      using sorted_sort_key [of "\<lambda>r. (- row_time e r, - sr_id r)" "shown_rows rows"] by (simp add: s sorted_map)
    then have "sorted_wrt (\<lambda>a b. row_time e b < row_time e a \<or> (row_time e a = row_time e b \<and> sr_id b \<le> sr_id a)) items"
      by (rule sorted_wrt_mono_rel [rotated]) auto
    moreover have "\<forall>i \<in> set items. sr_id i \<noteq> 0 \<and> trim (sr_latest_text_en i) \<noteq> []"
      by (auto simp: s shown_rows_def List.map_filter_def normalizeSessionRow_def Let_def split: if_splits)
    moreover have "mset items = mset (shown_rows rows)" by (simp add: s)
    ultimately show ?thesis using i(1) by blast
  qed
  show ?thesis
    unfolding uid_def [symmetric]
    by (rule exI [of _ lim'], rule exI [of _ off]) (use bounds reqs items l in auto)
qed

theorem resolve_user_id_witness:
  "run_state (resolveUsersTableUserId
      (example_env (\<lambda>h q. Inr \<lparr>rs_status = 200, rs_text = Some (js ''rows'')\<rparr>)
        (\<lambda>t. Some (JArr [JObj [(js ''id'', JInt 17)]])))
      (JObj [(js ''email'', JStr (js '' Ann@X.vn ''))]) (js ''tok'')) blank_world =
    (Inr (js ''17''), blank_world\<lparr>w_reqs := [get_req ''users'' (users_query (js ''eq'') (js ''ann@x.vn'')) (js ''tok'')]\<rparr>)"
proof -
  let ?e = "example_env (\<lambda>h q. Inr \<lparr>rs_status = 200, rs_text = Some (js ''rows'')\<rparr>)
        (\<lambda>t. Some (JArr [JObj [(js ''id'', JInt 17)]]))" and ?p = "JObj [(js ''email'', JStr (js '' Ann@X.vn ''))]"
  have em: "normalizeEmail (fld ?p ''email'') = js ''ann@x.vn''" by code_simp
  have tok: "trim (js ''tok'') = js ''tok''" by code_simp
  have rid: "row_id ''id'' (JArr [JObj [(js ''id'', JInt 17)]]) = js ''17''" by code_simp
  have run: "run_state (fetchJson ?e (get_req ''users'' (users_query (js ''eq'') (js ''ann@x.vn'')) (js ''tok''))) blank_world =
      (Inr (JArr [JObj [(js ''id'', JInt 17)]]),
       blank_world\<lparr>w_reqs := [get_req ''users'' (users_query (js ''eq'') (js ''ann@x.vn'')) (js ''tok'')]\<rparr>)"
    by (simp add: fetchJson_def run_andThen run_fetch example_env_def blank_world_def Let_def text_or_empty_def rs_ok_def
        json_or_null_def)
  show ?thesis
    using resolve_user_id [of ?e ?p "js ''tok''" blank_world "JArr [JObj [(js ''id'', JInt 17)]]"] run
    by (simp only: em tok rid) simp
qed

definition rows_env :: env where
  "rows_env = example_env (\<lambda>h q. Inr \<lparr>rs_status = 200, rs_text = Some (js ''rows'')\<rparr>)
     (\<lambda>t. Some (JArr [JObj [(js ''id'', JInt 1), (js ''latest_text_en'', JStr (js ''Hi.''))], JObj [(js ''id'', JInt 2)]]))"

text \<open>The detail of a session is read with \<open>GET\<close> requests for that session and that user or
  for the chunks of that session; a detail is returned only for a row the lookup found, its text is
  empty only when the stored text is, and failing chunk requests are never reported as an error.\<close>

lemma session_detail:
  assumes "run_state (getTranscriptSessionDetailForUser e user sessionId tok) w = (r, w')"
  shows "(\<exists>new. w_reqs w' = w_reqs w @ new \<and>
           list_all (\<lambda>q. is_get q \<and> (scoped (parseDbId user) (toInt sessionId 0) q \<or> chunk_req (toInt sessionId 0) q)) new) \<and>
    (\<forall>s t. r = Inr (Some (s, t)) \<longrightarrow>
       (\<exists>rows. session_lookup e user sessionId tok w = Inr rows \<and> normalizeSessionRow (idx rows 0) = Some s) \<and>
       (sr_latest_text_en s \<noteq> [] \<longrightarrow> t \<noteq> [])) \<and>
    (\<forall>x. r = Inl x \<longrightarrow> x \<in> {USER_ID_INVALID, INVALID_SESSION_ID} \<or> session_lookup e user sessionId tok w = Inl x)"
proof (intro conjI allI impI)
  show "\<exists>new. w_reqs w' = w_reqs w @ new \<and>
      list_all (\<lambda>q. is_get q \<and> (scoped (parseDbId user) (toInt sessionId 0) q \<or> chunk_req (toInt sessionId 0) q)) new"
    using sends_detail assms by (rule sends_run) blast
next
  fix x assume "r = Inl x"
  with detail_run [OF assms] show "x \<in> {USER_ID_INVALID, INVALID_SESSION_ID} \<or> session_lookup e user sessionId tok w = Inl x"
    by (auto split: if_splits sum.splits option.splits)
next
  fix s t assume r: "r = Inr (Some (s, t))"
  from detail_run [OF assms, unfolded r] obtain rows w1 where l: "session_lookup e user sessionId tok w = Inr rows"
      and s: "normalizeSessionRow (idx rows 0) = Some s" and t: "t = detail_text e (toInt sessionId 0) (trim tok) s w1"
    by (auto split: if_splits sum.splits option.splits)
  then show "\<exists>rows. session_lookup e user sessionId tok w = Inr rows \<and> normalizeSessionRow (idx rows 0) = Some s"
    by blast
  assume "sr_latest_text_en s \<noteq> []"
  then show "t \<noteq> []" unfolding t by (rule detail_text_nonempty)
qed




text \<open>A database where session 1 of user 5 has chunks and anonymous deletions match no row.\<close>

definition fk_env :: env where
  "fk_env =
     example_env
       (\<lambda>h q. if rq_verb q = DELETE
              then Inr \<lparr>rs_status = (if q = delete_req ''transcript_sessions'' (own_session_query 1 (js ''5'')) [] then 204 else 409),
                        rs_text = Some []\<rparr>
              else Inr \<lparr>rs_status = 200, rs_text = Some (js ''rows'')\<rparr>)
       (\<lambda>t. Some (JArr [JObj [(js ''id'', JInt 1)]]))"


end
