(* ===== verification/Chat_Repo.thy ===== *)
theory Chat_Repo
  imports History_Repo Text_Windows
begin

section \<open>Chat sessions and messages (sw/chat_repo.js)\<close>

text \<open>
  The module stores the conversation of the side panel.  Its options are JavaScript objects, as
  the service worker passes them; results are the ids of the rows the database returned.
\<close>

definition chat_authHeaders :: "(ustr \<times> ustr) list \<Rightarrow> jsval \<Rightarrow> (ustr \<times> ustr) list" where
  "chat_authHeaders extra authToken =
     obj_merge
       [(js ''apikey'', SUPABASE_KEY),
        (js ''Authorization'', js ''Bearer '' @ str_or (trim (str_or_empty authToken)) SUPABASE_KEY),
        (js ''content-type'', js ''application/json'')] extra"

definition toIsoOrNow :: "env \<Rightarrow> jsval \<Rightarrow> ustr prog" where
  "toIsoOrNow e v =
     (case e_dateparse e (str_or_empty v) of Some t \<Rightarrow> ret (e_iso e t) | None \<Rightarrow> now_iso e)"

definition toNumOrNull :: "jsval \<Rightarrow> jsval" where
  "toNumOrNull v = (case num_opt v of Some q \<Rightarrow> JNum (JFin q) | None \<Rightarrow> JNull)"

definition chat_fetchJson :: "env \<Rightarrow> req \<Rightarrow> jsval throwing" where
  "chat_fetchJson e rq =
     andThen (fetch e rq) (\<lambda>r.
       let txt = text_or_empty r; json = json_or_null e txt in
       if rs_ok r then ok json
       else throw (Err (js ''SUPABASE_'' @ int_str (rs_status r) @ js '': '' @ error_detail e (rs_status r) txt)))"

definition opt_str :: "ustr option \<Rightarrow> jsval" where
  "opt_str x = (case x of None \<Rightarrow> JNull | Some s \<Rightarrow> JStr s)"

text \<open>The first row of an answer, if the answer is an array.\<close>

definition first_row :: "jsval \<Rightarrow> jsval" where
  "first_row rows = (if is_arr rows then idx rows 0 else JNull)"

definition chat_lookup_req :: "ustr \<Rightarrow> ustr option \<Rightarrow> ustr \<Rightarrow> jsval \<Rightarrow> req" where
  "chat_lookup_req sid uid owner authToken =
     (let p = [(js ''select'', js ''id,user_id,title,owner_uid''), (js ''id'', eqf sid), (js ''limit'', js ''1'')]
      in \<lparr>rq_verb = GET, rq_url = rest_url ''chat_sessions'',
          rq_query = (case uid of
                        Some u \<Rightarrow> obj_set p (js ''user_id'') (eqf u)
                      | None \<Rightarrow> obj_set p (js ''owner_uid'') (eqf owner)),
          rq_headers = chat_authHeaders [] authToken, rq_body = None\<rparr>)"

definition getChatSessionForUser :: "env \<Rightarrow> jsval \<Rightarrow> jsval \<Rightarrow> jsval \<Rightarrow> jsval \<Rightarrow> jsval option throwing" where
  "getChatSessionForUser e userId chatSessionId ownerUid authToken =
     (let owner = normalizeUuid ownerUid in
      case normalizeBigintId chatSessionId of
        None \<Rightarrow> ok None
      | Some sid \<Rightarrow>
          (if normalizeBigintId userId = None \<and> owner = [] then ok None
           else
             andThen (chat_fetchJson e (chat_lookup_req sid (normalizeBigintId userId) owner authToken))
               (\<lambda>rows. if truthy (first_row rows) then ok (Some (first_row rows)) else ok None)))"

definition post_req :: "string \<Rightarrow> jsval \<Rightarrow> jsval \<Rightarrow> req" where
  "post_req table authToken body =
     \<lparr>rq_verb = POST, rq_url = rest_url table, rq_query = [],
      rq_headers = chat_authHeaders [(js ''Prefer'', js ''return=representation'')] authToken, rq_body = Some body\<rparr>"

text \<open>\<open>normalizeUuid(opts.ownerUid || opts.owner_uid || "")\<close>.\<close>

definition owner_of :: "jsval \<Rightarrow> ustr" where
  "owner_of opts = normalizeUuid (js_ors [fld opts ''ownerUid'', fld opts ''owner_uid'', JStr []])"

definition session_body :: "ustr \<Rightarrow> ustr \<Rightarrow> jsval \<Rightarrow> jsval" where
  "session_body uid started opts =
     (let body =
        [(js ''user_id'', JStr uid), (js ''started_at'', JStr started), (js ''ended_at'', JNull),
         (js ''title'', JStr (clipText (str_or_empty (fld opts ''titleHint'')) 160)),
         (js ''source'', JStr (to_str (js_or (fld opts ''source'') (JStr (js ''sidepanel''))))),
         (js ''model'', JStr (str_or_empty (fld opts ''model''))),
         (js ''language'', JStr (str_or_empty (fld opts ''language'')))];
        ownerUid = owner_of opts
      in JObj (if ownerUid \<noteq> [] then obj_set body (js ''owner_uid'') (JStr ownerUid) else body))"

definition createChatSessionForUser :: "env \<Rightarrow> jsval \<Rightarrow> jsval \<Rightarrow> ustr throwing" where
  "createChatSessionForUser e userId opts =
     (case normalizeBigintId userId of
        None \<Rightarrow> throw USER_ID_INVALID
      | Some uid \<Rightarrow> do {
          started \<leftarrow> toIsoOrNow e (fld opts ''startedAt'');
          andThen (chat_fetchJson e
              (post_req ''chat_sessions'' (js_or (fld opts ''authToken'') (JStr [])) (session_body uid started opts)))
            (\<lambda>rows. case normalizeBigintId (fld (first_row rows) ''id'') of
                None \<Rightarrow> throw (Err (js ''CHAT_SESSION_CREATE_FAILED''))
              | Some sid \<Rightarrow> ok sid)
        })"

text \<open>\<open>ensureChatSessionForUser\<close> gives the id (\<open>null\<close> when the row found has none) and whether it was created.\<close>

definition ensureChatSessionForUser :: "env \<Rightarrow> jsval \<Rightarrow> jsval \<Rightarrow> (ustr option \<times> bool) throwing" where
  "ensureChatSessionForUser e userId opts =
     (case normalizeBigintId userId of
        None \<Rightarrow> throw USER_ID_INVALID
      | Some uid \<Rightarrow>
          (let ownerUid = owner_of opts;
               create = andThen (createChatSessionForUser e (JStr uid)
                                   (JObj (obj_set (props opts) (js ''ownerUid'') (JStr ownerUid))))
                          (\<lambda>sid. ok (Some sid, True))
           in case normalizeBigintId (fld opts ''chatSessionId'') of
                None \<Rightarrow> create
              | Some sid \<Rightarrow>
                  andThen (getChatSessionForUser e (JStr uid) (JStr sid) (JStr ownerUid) (js_or (fld opts ''authToken'') (JStr [])))
                    (\<lambda>found. case found of
                        Some row \<Rightarrow> ok (normalizeBigintId (fld row ''id''), False)
                      | None \<Rightarrow> create)))"

definition chat_role :: "jsval \<Rightarrow> ustr" where
  "chat_role v =
     (let roleRaw = toLowerCase (trim (str_or_empty v)) in
      if roleRaw = js ''assistant'' \<or> roleRaw = js ''system'' then roleRaw else js ''user'')"

definition insertChatMessage :: "env \<Rightarrow> jsval \<Rightarrow> jsval \<Rightarrow> ustr throwing" where
  "insertChatMessage e chatSessionId opts =
     (case normalizeBigintId chatSessionId of
        None \<Rightarrow> throw (Err (js ''CHAT_SESSION_ID_INVALID''))
      | Some sid \<Rightarrow>
          (let content = trim (str_or_empty (fld opts ''content'')) in
           if content = [] then throw (Err (js ''EMPTY_MESSAGE_CONTENT''))
           else do {
             created \<leftarrow> toIsoOrNow e (fld opts ''createdAt'');
             let body =
               [(js ''chat_session_id'', JStr sid),
                (js ''parent_msg_id'', opt_str (normalizeTextRef (fld opts ''parentMsgId''))),
                (js ''role'', JStr (chat_role (fld opts ''role''))), (js ''content'', JStr content),
                (js ''tokens_in'', toNumOrNull (fld opts ''tokensIn'')), (js ''tokens_out'', toNumOrNull (fld opts ''tokensOut'')),
                (js ''latency_ms'', toNumOrNull (fld opts ''latencyMs'')), (js ''created_at'', JStr created)];
             andThen (chat_fetchJson e (post_req ''chat_messages'' (js_or (fld opts ''authToken'') (JStr [])) (JObj body)))
               (\<lambda>rows. case normalizeBigintId (fld (first_row rows) ''id'') of
                   None \<Rightarrow> throw (Err (js ''CHAT_MESSAGE_INSERT_FAILED''))
                 | Some mid \<Rightarrow> ok mid)
           }))"

definition touchChatSession :: "env \<Rightarrow> jsval \<Rightarrow> jsval \<Rightarrow> jsval \<Rightarrow> bool throwing" where
  "touchChatSession e chatSessionId patch authToken =
     (case normalizeBigintId chatSessionId of
        None \<Rightarrow> ok False
      | Some sid \<Rightarrow> do {
          ended \<leftarrow> (if fld patch ''endedAt'' \<noteq> JUndef
                   then do { t \<leftarrow> toIsoOrNow e (fld patch ''endedAt''); ret [(js ''ended_at'', JStr t)] } else ret []);
          let body = ended @ (if fld patch ''title'' \<noteq> JUndef
                              then [(js ''title'', JStr (clipText (str_or_empty (fld patch ''title'')) 160))] else []);
          if body = [] then ok False
          else andThen (chat_fetchJson e
                 \<lparr>rq_verb = PATCH, rq_url = rest_url ''chat_sessions'', rq_query = [(js ''id'', eqf sid)],
                  rq_headers = chat_authHeaders [(js ''Prefer'', js ''return=minimal'')] authToken, rq_body = Some (JObj body)\<rparr>)
               (\<lambda>_. ok True)
        })"

subsection \<open>Facts\<close>

lemma chat_fetchJson_eq: "chat_fetchJson = fetchJson"
  by (intro ext) (auto simp: chat_fetchJson_def fetchJson_def Let_def error_text_def intro!: arg_cong2 [where f = andThen])

lemma normalizeBigintId_Some: "normalizeBigintId v = Some s \<Longrightarrow> decimal s"
  by (auto simp: normalizeBigintId_def Let_def split: if_splits)

lemma normalizeBigintId_JStr [simp]: "decimal s \<Longrightarrow> normalizeBigintId (JStr s) = Some s"
  by (auto simp: normalizeBigintId_def Let_def)

lemma run_toIso: "\<exists>t k. run_state (toIsoOrNow e v) w = (t, w\<lparr>w_ticks := k\<rparr>)"
  by (auto simp: toIsoOrNow_def split: option.split) (metis world.surjective world.update_convs(4))

definition verb_count :: "verb \<Rightarrow> req list \<Rightarrow> nat" where
  "verb_count v qs = length (filter (\<lambda>q. rq_verb q = v) qs)"

lemma verb_count_simps [simp]:
  "verb_count v [] = 0" "verb_count v (q # qs) = (if rq_verb q = v then Suc (verb_count v qs) else verb_count v qs)"
  "verb_count v (qs @ rs) = verb_count v qs + verb_count v rs"
  by (simp_all add: verb_count_def)

lemma fetchJson_one: "w_reqs (snd (run_state (fetchJson e rq) w)) = w_reqs w @ [rq]"
  by (simp add: fetchJson_def run_andThen run_fetch Let_def split: sum.split)

lemma toIso_reqs: "w_reqs (snd (run_state (toIsoOrNow e v) w)) = w_reqs w"
  by (simp add: toIsoOrNow_def split: option.split)

text \<open>What a request for a new chat session carries.\<close>

definition session_post :: "ustr \<Rightarrow> req \<Rightarrow> bool" where
  "session_post uid q \<longleftrightarrow>
     rq_verb q = POST \<and> rq_url q = rest_url ''chat_sessions'' \<and>
     (\<exists>b. rq_body q = Some b \<and> fld b ''user_id'' = JStr uid)"

lemma create_posts:
  assumes "normalizeBigintId userId = Some uid" and "run_state (createChatSessionForUser e userId opts) w = (r, w')"
  shows "(\<exists>q. w_reqs w' = w_reqs w @ [q] \<and> session_post uid q) \<and> (\<forall>sid. r = Inr sid \<longrightarrow> decimal sid)"
proof -
  obtain t w1 where 1: "run_state (toIsoOrNow e (fld opts ''startedAt'')) w = (t, w1)" by fastforce
  define q where "q = post_req ''chat_sessions'' (js_or (fld opts ''authToken'') (JStr [])) (session_body uid t opts)"
  obtain a w2 where 2: "run_state (fetchJson e q) w1 = (a, w2)" by fastforce
  have "w_reqs w1 = w_reqs w" using toIso_reqs [of e "fld opts ''startedAt''" w] 1 by simp
  moreover have "w_reqs w2 = w_reqs w1 @ [q]" using fetchJson_one [of e q w1] 2 by simp
  moreover have "(r, w') = (case a of Inl x \<Rightarrow> (Inl x, w2)
      | Inr rows \<Rightarrow> ((case normalizeBigintId (fld (first_row rows) ''id'') of
            None \<Rightarrow> Inl (Err (js ''CHAT_SESSION_CREATE_FAILED'')) | Some sid \<Rightarrow> Inr sid), w2))"
    using assms 1 2 unfolding q_def
    by (cases a) (auto simp: createChatSessionForUser_def run_andThen chat_fetchJson_eq split: option.splits)
  moreover have "session_post uid q"
    by (simp add: session_post_def q_def post_req_def session_body_def Let_def)
  ultimately show ?thesis by (auto split: sum.splits option.splits dest: normalizeBigintId_Some)
qed

lemma getChat_reqs:
  assumes "run_state (getChatSessionForUser e (JStr uid) (JStr sid) o' tok) w = (r, w')" and "decimal uid" and "decimal sid"
  shows "\<exists>q. w_reqs w' = w_reqs w @ [q] \<and> rq_verb q = GET \<and> (js ''user_id'', eqf uid) \<in> set (rq_query q) \<and>
    (js ''id'', eqf sid) \<in> set (rq_query q)"
proof -
  define q where "q = chat_lookup_req sid (Some uid) (normalizeUuid o') tok"
  obtain a w1 where 1: "run_state (fetchJson e q) w = (a, w1)" by fastforce
  have "w' = w1"
    using assms 1 unfolding q_def
    by (cases a) (auto simp: getChatSessionForUser_def chat_fetchJson_eq run_andThen split: if_splits)
  then show ?thesis using fetchJson_one [of e q w] 1 by (auto simp: q_def chat_lookup_req_def)
qed

subsection \<open>Properties\<close>

text \<open>Property C21: \<open>ensureChatSessionForUser\<close> sends at most one lookup and one creation.  When it reports an
  existing session it created none; when it reports a new one it sent exactly one creation, for this
  user, and the id is decimal; a failing lookup is an error and never creates a second session.\<close>

theorem ensure_chat_session:
  assumes "run_state (ensureChatSessionForUser e userId opts) w = (r, w')"
  shows "\<exists>new. w_reqs w' = w_reqs w @ new \<and> verb_count GET new \<le> 1 \<and> verb_count POST new \<le> 1 \<and>
    (\<forall>q \<in> set new. rq_verb q = POST \<longrightarrow> (\<exists>uid. normalizeBigintId userId = Some uid \<and> session_post uid q)) \<and>
    (\<forall>sid created. r = Inr (sid, created) \<longrightarrow>
       verb_count POST new = (if created then 1 else 0) \<and> (\<forall>i. sid = Some i \<longrightarrow> decimal i))"
proof (cases "normalizeBigintId userId")
  case None
  with assms show ?thesis by (auto simp: ensureChatSessionForUser_def)
next
  case (Some uid)
  then have du: "decimal uid" by (rule normalizeBigintId_Some)
  define owner where "owner = owner_of opts"
  define mk where "mk = createChatSessionForUser e (JStr uid) (JObj (obj_set (props opts) (js ''ownerUid'') (JStr owner)))"
  have made: "\<exists>q. w_reqs w2 = w_reqs w1 @ [q] \<and> session_post uid q" "\<forall>sid. a = Inr sid \<longrightarrow> decimal sid"
    if "run_state mk w1 = (a, w2)" for w1 a w2
    using create_posts [OF _ that [unfolded mk_def]] du by simp_all
  have created: "\<exists>q. w_reqs w2 = w_reqs w1 @ [q] \<and> session_post uid q \<and>
      (\<forall>sid c. a = Inr (sid, c) \<longrightarrow> c \<and> (\<forall>i. sid = Some i \<longrightarrow> decimal i))"
    if "run_state (andThen mk (\<lambda>sid. ok (Some sid, True))) w1 = (a, w2)" for w1 a w2
  proof -
    obtain b w3 where "run_state mk w1 = (b, w3)" by fastforce
    with that made [OF this] show ?thesis by (cases b) (auto simp: run_andThen)
  qed
  show ?thesis
  proof (cases "normalizeBigintId (fld opts ''chatSessionId'')")
    case None
    with Some assms have "run_state (andThen mk (\<lambda>sid. ok (Some sid, True))) w = (r, w')"
      by (simp add: ensureChatSessionForUser_def mk_def owner_def Let_def)
    from created [OF this] obtain q where q: "w_reqs w' = w_reqs w @ [q]" "session_post uid q"
      "\<forall>sid c. r = Inr (sid, c) \<longrightarrow> c \<and> (\<forall>i. sid = Some i \<longrightarrow> decimal i)" by blast
    with Some show ?thesis by (intro exI [of _ "[q]"]) (auto simp: session_post_def)
  next
    case sid: (Some sid)
    then have ds: "decimal sid" by (rule normalizeBigintId_Some)
    obtain f w1 where g: "run_state (getChatSessionForUser e (JStr uid) (JStr sid) (JStr owner)
        (js_or (fld opts ''authToken'') (JStr []))) w = (f, w1)" by fastforce
    obtain q1 where q1: "w_reqs w1 = w_reqs w @ [q1]" "rq_verb q1 = GET" using getChat_reqs [OF g du ds] by blast
    have run: "(r, w') = (case f of Inl x \<Rightarrow> (Inl x, w1)
        | Inr None \<Rightarrow> run_state (andThen mk (\<lambda>sid. ok (Some sid, True))) w1
        | Inr (Some row) \<Rightarrow> (Inr (normalizeBigintId (fld row ''id''), False), w1))"
      using assms Some sid g
      by (simp add: ensureChatSessionForUser_def mk_def owner_def Let_def run_andThen split: sum.splits option.splits)
    show ?thesis
    proof (cases "f = Inr None")
      case True
      with run have "run_state (andThen mk (\<lambda>sid. ok (Some sid, True))) w1 = (r, w')" by simp
      from created [OF this] obtain q where q: "w_reqs w' = w_reqs w1 @ [q]" "session_post uid q"
        "\<forall>sid c. r = Inr (sid, c) \<longrightarrow> c \<and> (\<forall>i. sid = Some i \<longrightarrow> decimal i)" by blast
      with Some q1 show ?thesis by (intro exI [of _ "[q1, q]"]) (auto simp: session_post_def)
    next
      case False
      with run q1 show ?thesis
        by (intro exI [of _ "[q1]"]) (auto split: sum.splits option.splits dest: normalizeBigintId_Some)
    qed
  qed
qed

text \<open>A database that answers every request with one row, for the examples.\<close>

definition chat_env :: env where
  "chat_env =
     example_env (\<lambda>h q. Inr \<lparr>rs_status = 201, rs_text = Some (js ''rows'')\<rparr>) (\<lambda>t. Some (JArr [JObj [(js ''id'', JInt 31)]]))"

theorem ensure_chat_session_witness:
  "\<exists>new. w_reqs (snd (run_state (ensureChatSessionForUser chat_env (JInt 5) (JObj [(js ''chatSessionId'', JStr (js ''x''))])) blank_world)) = new \<and>
     verb_count POST new = 1 \<and> verb_count GET new \<le> 1 \<and>
     list_all (session_post (js ''5'')) (filter (\<lambda>q. rq_verb q = POST) new)"
proof -
  let ?run = "run_state (ensureChatSessionForUser chat_env (JInt 5) (JObj [(js ''chatSessionId'', JStr (js ''x''))])) blank_world"
  have a: "\<not> isl (fst ?run)" by code_simp
  have b: "projr (fst ?run) = (Some (js ''31''), True)" by code_simp
  from a b have r: "fst ?run = Inr (Some (js ''31''), True)" by (cases "fst ?run") simp_all
  have w: "w_reqs blank_world = []" by (simp add: blank_world_def)
  have n: "normalizeBigintId (JNum (JFin 5)) = Some (js ''5'')" by code_simp
  from ensure_chat_session [OF surjective_pairing, of chat_env "JInt 5" "JObj [(js ''chatSessionId'', JStr (js ''x''))]" blank_world,
      unfolded w r] show ?thesis by (auto simp: list_all_iff n)
qed

lemma chat_role_cases: "chat_role v \<in> {js ''assistant'', js ''system'', js ''user''}"
  by (auto simp: chat_role_def Let_def)

text \<open>What a request for a new message carries.\<close>

definition message_post :: "ustr \<Rightarrow> jsval \<Rightarrow> req \<Rightarrow> bool" where
  "message_post sid content q \<longleftrightarrow>
     rq_verb q = POST \<and> rq_url q = rest_url ''chat_messages'' \<and>
     (\<exists>b. rq_body q = Some b \<and> fld b ''chat_session_id'' = JStr sid \<and>
        fld b ''content'' = JStr (trim (str_or_empty content)) \<and>
        fld b ''role'' \<in> {JStr (js ''assistant''), JStr (js ''system''), JStr (js ''user'')})"

text \<open>A message is stored with exactly one request, under a decimal session id, with one of the
  three roles and the trimmed text; a blank text or an invalid session id is an error and sends nothing.\<close>

lemma insert_chat_message:
  assumes "run_state (insertChatMessage e chatSessionId opts) w = (r, w')"
  shows "(case normalizeBigintId chatSessionId of
      None \<Rightarrow> w' = w \<and> isl r
    | Some sid \<Rightarrow>
        if trim (str_or_empty (fld opts ''content'')) = [] then w' = w \<and> isl r
        else (\<exists>q. w_reqs w' = w_reqs w @ [q] \<and> message_post sid (fld opts ''content'') q) \<and> (\<forall>m. r = Inr m \<longrightarrow> decimal m))"
proof (cases "normalizeBigintId chatSessionId")
  case None
  with assms show ?thesis by (auto simp: insertChatMessage_def)
next
  case (Some sid)
  show ?thesis
  proof (cases "trim (str_or_empty (fld opts ''content'')) = []")
    case True
    with Some assms show ?thesis by (auto simp: insertChatMessage_def Let_def)
  next
    case False
    obtain t w1 where 1: "run_state (toIsoOrNow e (fld opts ''createdAt'')) w = (t, w1)" by fastforce
    define q where "q = post_req ''chat_messages'' (js_or (fld opts ''authToken'') (JStr []))
      (JObj [(js ''chat_session_id'', JStr sid),
                (js ''parent_msg_id'', opt_str (normalizeTextRef (fld opts ''parentMsgId''))),
                (js ''role'', JStr (chat_role (fld opts ''role''))),
                (js ''content'', JStr (trim (str_or_empty (fld opts ''content'')))),
                (js ''tokens_in'', toNumOrNull (fld opts ''tokensIn'')), (js ''tokens_out'', toNumOrNull (fld opts ''tokensOut'')),
                (js ''latency_ms'', toNumOrNull (fld opts ''latencyMs'')), (js ''created_at'', JStr t)])"
    obtain a w2 where 2: "run_state (fetchJson e q) w1 = (a, w2)" by fastforce
    have "w_reqs w1 = w_reqs w" using toIso_reqs [of e "fld opts ''createdAt''" w] 1 by simp
    moreover have "w_reqs w2 = w_reqs w1 @ [q]" using fetchJson_one [of e q w1] 2 by simp
    moreover have "message_post sid (fld opts ''content'') q"
      using chat_role_cases [of "fld opts ''role''"] by (simp add: message_post_def q_def post_req_def)
    moreover have "(r, w') = (case a of Inl x \<Rightarrow> (Inl x, w2)
      | Inr rows \<Rightarrow> ((case normalizeBigintId (fld (first_row rows) ''id'') of
            None \<Rightarrow> Inl (Err (js ''CHAT_MESSAGE_INSERT_FAILED'')) | Some sid \<Rightarrow> Inr sid), w2))"
      using assms 1 2 Some False unfolding q_def
      by (cases a) (auto simp: insertChatMessage_def run_andThen chat_fetchJson_eq Let_def split: option.splits)
    ultimately show ?thesis using Some False by (auto split: sum.splits option.splits dest: normalizeBigintId_Some)
  qed
qed

end
