(* ===== verification/Transcript_Persist.thy ===== *)
theory Transcript_Persist
  imports Chat_Repo
begin

section \<open>Persistence of the running transcript (sw/transcript_persist.js)\<close>

text \<open>
  A persister lives as long as one capture.  \<open>handleStable\<close> records the newest stable text and appends
  a task to the promise chain \<open>persistChain\<close>; tasks run one after the other, create the session in the
  database on first use, and write the whole text as chunk 0.  \<open>stop\<close> first marks the persister
  stopped, waits for the chain, and then writes the final text.  The chain is the list \<open>p_queue\<close>; a
  task is atomic in the model, which loses nothing: while a task waits for the network only
  \<open>handleStable\<close>, \<open>start\<close> and the first half of \<open>stop\<close> can run, and the task reads none of what they
  assign after its first test.  The random \<open>state.sessionId\<close> is never read and is left out.
\<close>

record persist_opts =
  o_userId :: jsval
  o_userEmail :: ustr
  o_authToken :: ustr
  o_tabUrl :: ustr
  o_sttServer :: ustr
  o_translatorServer :: ustr
  o_langSrc :: ustr
  o_langTgt :: ustr

record persist =
  p_trSessionId :: "ustr option"
  p_fullLatest :: ustr
  p_fullSeq :: jsval
  p_lastHash :: ustr
  p_startedAt :: rat
  p_stopped :: bool
  p_queue :: "(ustr \<times> jsval) list"

definition createTranscriptPersist :: "env \<Rightarrow> persist prog" where
  "createTranscriptPersist e = do {
     t \<leftarrow> Date_now e;
     ret \<lparr>p_trSessionId = None, p_fullLatest = [], p_fullSeq = JNull, p_lastHash = [], p_startedAt = t,
          p_stopped = False, p_queue = []\<rparr> }"

subsection \<open>Requests\<close>

definition persist_headers :: "ustr \<Rightarrow> (ustr \<times> ustr) list \<Rightarrow> (ustr \<times> ustr) list" where
  "persist_headers authToken extra =
     obj_merge
       [(js ''apikey'', SUPABASE_KEY), (js ''Authorization'', js ''Bearer '' @ str_or (trim authToken) SUPABASE_KEY),
        (js ''content-type'', js ''application/json''), (js ''Prefer'', js ''return=representation'')] extra"

definition persist_req ::
  "persist_opts \<Rightarrow> verb \<Rightarrow> string \<Rightarrow> (ustr \<times> ustr) list \<Rightarrow> (ustr \<times> ustr) list \<Rightarrow> jsval option \<Rightarrow> req" where
  "persist_req o' v table query extra body =
     \<lparr>rq_verb = v, rq_url = rest_url table, rq_query = query,
      rq_headers = persist_headers (o_authToken o') extra, rq_body = body\<rparr>"

definition domainFromUrl :: "env \<Rightarrow> ustr \<Rightarrow> ustr" where
  "domainFromUrl e u = (case e_url e u of None \<Rightarrow> [] | Some p \<Rightarrow> u_hostname p)"

definition numOrNull :: "jsval \<Rightarrow> jsval" where
  "numOrNull v = (case num_opt v of Some q \<Rightarrow> JNum (JFin q) | None \<Rightarrow> JNull)"

text \<open>\<open>s || null\<close>.\<close>

definition str_or_null :: "ustr \<Rightarrow> jsval" where
  "str_or_null s = (if s = [] then JNull else JStr s)"

subsection \<open>The user and the session\<close>

definition users_select_req :: "persist_opts \<Rightarrow> req" where
  "users_select_req o' =
     persist_req o' GET ''users''
       [(js ''email'', eqf (o_userEmail o')), (js ''select'', js ''id''), (js ''limit'', js ''1'')] [] None"

definition select_user :: "env \<Rightarrow> persist_opts \<Rightarrow> ustr prog" where
  "select_user e o' = do {
     r \<leftarrow> fetch e (users_select_req o');
     ret (case r of
            Inl x \<Rightarrow> []
          | Inr a \<Rightarrow> if rs_ok a then (case resp_json e a of None \<Rightarrow> [] | Some j \<Rightarrow>
                                      (if is_arr j then normalizeDbId (fld (idx j 0) ''id'') else [])) else []) }"

definition insert_user :: "env \<Rightarrow> persist_opts \<Rightarrow> ustr prog" where
  "insert_user e o' = do {
     created \<leftarrow> now_iso e;
     lastLogin \<leftarrow> now_iso e;
     r \<leftarrow> fetch e (persist_req o' POST ''users'' [] [] (Some (JObj
            [(js ''email'', JStr (o_userEmail o')), (js ''phone'', JNull), (js ''auth_provider'', JStr (js ''ext'')),
             (js ''status'', JStr (js ''active'')), (js ''created_at'', JStr created), (js ''last_login_at'', JStr lastLogin)])));
     ret (case r of
            Inl x \<Rightarrow> []
          | Inr a \<Rightarrow> if rs_ok a then (case resp_json e a of None \<Rightarrow> [] | Some j \<Rightarrow>
                                      (if is_arr j then normalizeDbId (fld (idx j 0) ''id'') else [])) else []) }"

definition fetchUserId :: "env \<Rightarrow> persist_opts \<Rightarrow> ustr option prog" where
  "fetchUserId e o' =
     (let direct = normalizeDbId (o_userId o') in
      if direct \<noteq> [] then ret (Some direct)
      else if o_userEmail o' = [] then ret None
      else do {
        byEmail \<leftarrow> select_user e o';
        if byEmail \<noteq> [] then ret (Some byEmail)
        else do {
          made \<leftarrow> insert_user e o';
          ret (if made \<noteq> [] then Some made else None) } })"

definition session_create_req :: "env \<Rightarrow> persist_opts \<Rightarrow> ustr \<Rightarrow> persist \<Rightarrow> req" where
  "session_create_req e o' uid s =
     persist_req o' POST ''transcript_sessions'' [] [] (Some (JObj
       [(js ''user_id'', JStr uid), (js ''tab_url'', str_or_null (o_tabUrl o')),
        (js ''tab_domain'', str_or_null (domainFromUrl e (o_tabUrl o'))),
        (js ''stt_server'', str_or_null (o_sttServer o')), (js ''translator_server'', str_or_null (o_translatorServer o')),
        (js ''lang_src'', str_or_null (o_langSrc o')), (js ''lang_tgt'', str_or_null (o_langTgt o')),
        (js ''started_at'', JStr (e_iso e (p_startedAt s))), (js ''status'', JStr (js ''running''))]))"

text \<open>The id in the answer to the creation of a session, empty when there is none.\<close>

definition created_id :: "env \<Rightarrow> err + resp \<Rightarrow> ustr" where
  "created_id e r =
     (case r of
        Inl x \<Rightarrow> []
      | Inr a \<Rightarrow>
          if \<not> rs_ok a then []
          else (let j = (case resp_json e a of None \<Rightarrow> JArr [] | Some j \<Rightarrow> j);
                    sid = (if is_arr j \<and> truthy (fld (idx j 0) ''id'') then fld (idx j 0) ''id'' else JNull)
                in normalizeDbId sid))"

definition startSession :: "env \<Rightarrow> persist_opts \<Rightarrow> persist \<Rightarrow> (bool \<times> persist) prog" where
  "startSession e o' s =
     (if p_stopped s then ret (False, s)
      else if p_trSessionId s \<noteq> None then ret (True, s)
      else do {
        u \<leftarrow> fetchUserId e o';
        case u of
          None \<Rightarrow> ret (False, s\<lparr>p_stopped := True\<rparr>)
        | Some uid \<Rightarrow> do {
            r \<leftarrow> fetch e (session_create_req e o' uid s);
            (let sid = created_id e r in
             if sid = [] then ret (False, s\<lparr>p_stopped := True\<rparr>)
             else ret (True, s\<lparr>p_trSessionId := Some sid\<rparr>)) } })"

subsection \<open>Writing the text\<close>

definition latest_req :: "persist_opts \<Rightarrow> ustr \<Rightarrow> ustr \<Rightarrow> jsval \<Rightarrow> ustr \<Rightarrow> req" where
  "latest_req o' sid fullText seq now =
     persist_req o' PATCH ''transcript_sessions'' [(js ''id'', eqf sid)] [] (Some (JObj
       [(js ''latest_text_en'', JStr fullText), (js ''last_seq'', numOrNull seq), (js ''last_updated_at'', JStr now)]))"

definition updateLatest :: "env \<Rightarrow> persist_opts \<Rightarrow> persist \<Rightarrow> ustr \<Rightarrow> jsval \<Rightarrow> unit prog" where
  "updateLatest e o' s fullText seq =
     (case p_trSessionId s of
        None \<Rightarrow> ret ()
      | Some sid \<Rightarrow> do {
          now \<leftarrow> now_iso e;
          r \<leftarrow> fetch e (latest_req o' sid fullText seq now);
          ret () })"

definition snapshot_req :: "persist_opts \<Rightarrow> ustr \<Rightarrow> ustr \<Rightarrow> req" where
  "snapshot_req o' sid fullText =
     persist_req o' POST ''transcript_chunks'' [(js ''on_conflict'', js ''tr_session_id,seq'')]
       [(js ''Prefer'', js ''resolution=merge-duplicates,return=minimal'')] (Some (JObj
       [(js ''tr_session_id'', JStr sid), (js ''seq'', JInt 0), (js ''text_en'', JStr fullText), (js ''is_stable'', JBool True)]))"

definition insertFullSnapshot :: "env \<Rightarrow> persist_opts \<Rightarrow> persist \<Rightarrow> ustr \<Rightarrow> unit prog" where
  "insertFullSnapshot e o' s fullText =
     (case p_trSessionId s of
        None \<Rightarrow> ret ()
      | Some sid \<Rightarrow>
          if fullText = [] then ret ()
          else do { r \<leftarrow> fetch e (snapshot_req o' sid fullText); ret () })"

subsection \<open>The operations\<close>

definition handleStable :: "jsval \<Rightarrow> jsval \<Rightarrow> persist \<Rightarrow> persist" where
  "handleStable fullText seq s =
     (if p_stopped s then s
      else
        (let txt = str_or_empty fullText;
             seqNum = js_coalesce seq (p_fullSeq s);
             hash = str_or_empty seqNum @ js ''|'' @ txt
         in if hash = p_lastHash s then s
            else (let s1 = s\<lparr>p_fullLatest := txt, p_fullSeq := seqNum, p_lastHash := hash\<rparr>
                  in if trim txt = [] then s1 else s1\<lparr>p_queue := p_queue s1 @ [(txt, seqNum)]\<rparr>)))"

definition persist_task :: "env \<Rightarrow> persist_opts \<Rightarrow> ustr \<times> jsval \<Rightarrow> persist \<Rightarrow> persist prog" where
  "persist_task e o' task s =
     (case task of (txt, seqNum) \<Rightarrow>
        if p_stopped s then ret s
        else do {
          p \<leftarrow> startSession e o' s;
          (case p of (okay, s1) \<Rightarrow>
             if \<not> okay \<or> p_trSessionId s1 = None then ret s1
             else do {
               insertFullSnapshot e o' s1 txt;
               updateLatest e o' s1 txt seqNum;
               ret s1 }) })"

text \<open>The next task of the chain, if there is one.\<close>

definition run_next :: "env \<Rightarrow> persist_opts \<Rightarrow> persist \<Rightarrow> persist prog" where
  "run_next e o' s =
     (case p_queue s of [] \<Rightarrow> ret s | t # q \<Rightarrow> persist_task e o' t (s\<lparr>p_queue := q\<rparr>))"

text \<open>\<open>stop\<close> up to its first \<open>await\<close>: the final text, and the state marked stopped.\<close>

definition final_text :: "jsval \<Rightarrow> persist \<Rightarrow> ustr" where
  "final_text finalText s = to_str (js_ors [finalText, JStr (p_fullLatest s), JStr []])"

definition stop_begin :: "jsval \<Rightarrow> persist \<Rightarrow> ustr \<times> persist" where
  "stop_begin finalText s =
     (final_text finalText s, s\<lparr>p_stopped := True\<rparr>)"

definition stopped_req :: "persist_opts \<Rightarrow> ustr \<Rightarrow> ustr \<Rightarrow> req" where
  "stopped_req o' sid now =
     persist_req o' PATCH ''transcript_sessions'' [(js ''id'', eqf sid)] [] (Some (JObj
       [(js ''status'', JStr (js ''stopped'')), (js ''ended_at'', JStr now)]))"

text \<open>The rest of \<open>stop\<close>, once the chain is empty.\<close>

definition stop_end :: "env \<Rightarrow> persist_opts \<Rightarrow> ustr \<Rightarrow> persist \<Rightarrow> unit prog" where
  "stop_end e o' finalText s =
     (case p_trSessionId s of
        None \<Rightarrow> ret ()
      | Some sid \<Rightarrow> do {
          (if trim finalText \<noteq> []
           then do { insertFullSnapshot e o' s finalText; updateLatest e o' s finalText (p_fullSeq s) } else ret ());
          now \<leftarrow> now_iso e;
          r \<leftarrow> fetch e (stopped_req o' sid now);
          ret () })"

definition persist_start :: "env \<Rightarrow> persist \<Rightarrow> persist prog" where
  "persist_start e s = do { t \<leftarrow> Date_now e; ret (s\<lparr>p_stopped := False, p_startedAt := t\<rparr>) }"

fun drain :: "env \<Rightarrow> persist_opts \<Rightarrow> nat \<Rightarrow> persist \<Rightarrow> persist prog" where
  "drain e o' 0 s = ret s"
| "drain e o' (Suc n) s = do { s' \<leftarrow> run_next e o' s; drain e o' n s' }"

text \<open>\<open>await persistChain\<close>: every queued task runs.\<close>

definition persist_stop :: "env \<Rightarrow> persist_opts \<Rightarrow> jsval \<Rightarrow> persist \<Rightarrow> persist prog" where
  "persist_stop e o' finalText s =
     (case stop_begin finalText s of (final, s1) \<Rightarrow> do {
        s2 \<leftarrow> drain e o' (length (p_queue s1)) s1;
        stop_end e o' final s2;
        ret s2 })"

text \<open>What can happen to a persister: a stable text, the next task of the chain, a stop, a new start.\<close>

datatype persist_event = PStable jsval jsval | PTask | PStop jsval | PStart

fun persist_step :: "env \<Rightarrow> persist_opts \<Rightarrow> persist_event \<Rightarrow> persist \<Rightarrow> persist prog" where
  "persist_step e o' (PStable full seq) s = ret (handleStable full seq s)"
| "persist_step e o' PTask s = run_next e o' s"
| "persist_step e o' (PStop final) s = persist_stop e o' final s"
| "persist_step e o' PStart s = persist_start e s"

fun persist_run :: "env \<Rightarrow> persist_opts \<Rightarrow> persist_event list \<Rightarrow> persist \<Rightarrow> persist prog" where
  "persist_run e o' [] s = ret s"
| "persist_run e o' (x # xs) s = do { s' \<leftarrow> persist_step e o' x s; persist_run e o' xs s' }"

end
