(* ===== verification/Persist_Contract.thy ===== *)
theory Persist_Contract
  imports Transcript_Persist
begin

section \<open>What a persister promises\<close>

text \<open>
  Which requests each operation sends; that all writes of a run go to one session, created at most
  once per start; that the chain writes the received texts in their order and ends with the newest;
  that a stop writes the final text last and skips what was still queued.
\<close>

subsection \<open>Requests\<close>

lemma fetch_reqs: "w_reqs (snd (run_state (fetch e r) w)) = w_reqs w @ [r]"
  by (simp add: run_fetch)

lemma run_fetch_ignored: "run_state (do { r \<leftarrow> fetch e q; ret () }) w = ((), w\<lparr>w_reqs := w_reqs w @ [q]\<rparr>)"
  by (simp add: run_fetch)

lemma run_snapshot:
  "p_trSessionId s = Some sid \<Longrightarrow> t \<noteq> [] \<Longrightarrow>
   run_state (insertFullSnapshot e o' s t) w = ((), w\<lparr>w_reqs := w_reqs w @ [snapshot_req o' sid t]\<rparr>)"
  by (simp add: insertFullSnapshot_def run_fetch)

lemma run_latest:
  assumes "p_trSessionId s = Some sid"
  obtains now k where "run_state (updateLatest e o' s t q) w =
    ((), w\<lparr>w_ticks := k, w_reqs := w_reqs w @ [latest_req o' sid t q now]\<rparr>)"
  by (rule that [where now = "e_iso e (e_now e (w_ticks w))" and k = "Suc (w_ticks w)"])
    (use assms in \<open>simp add: updateLatest_def run_fetch\<close>)

lemma run_write:
  assumes "p_trSessionId s = Some sid" and "t \<noteq> []"
  obtains now k where "run_state (do { insertFullSnapshot e o' s t; updateLatest e o' s t q }) w =
    ((), w\<lparr>w_ticks := k, w_reqs := w_reqs w @ [snapshot_req o' sid t, latest_req o' sid t q now]\<rparr>)"
  by (rule that [where now = "e_iso e (e_now e (w_ticks w))" and k = "Suc (w_ticks w)"])
    (use assms in \<open>simp add: run_snapshot updateLatest_def run_fetch\<close>)

subsection \<open>Writes and creations\<close>

definition is_snapshot :: "req \<Rightarrow> bool" where
  "is_snapshot q \<longleftrightarrow> rq_verb q = POST \<and> rq_url q = rest_url ''transcript_chunks''"

definition is_create :: "req \<Rightarrow> bool" where
  "is_create q \<longleftrightarrow> rq_verb q = POST \<and> rq_url q = rest_url ''transcript_sessions''"

definition is_write :: "req \<Rightarrow> bool" where
  "is_write q \<longleftrightarrow> is_snapshot q \<or> rq_verb q = PATCH"

definition writes_to :: "ustr \<Rightarrow> req \<Rightarrow> bool" where
  "writes_to sid q \<longleftrightarrow>
     (is_snapshot q \<and> (\<exists>b. rq_body q = Some b \<and> fld b ''tr_session_id'' = JStr sid \<and> fld b ''seq'' = JInt 0)) \<or>
     (rq_verb q = PATCH \<and> rq_url q = rest_url ''transcript_sessions'' \<and> rq_query q = [(js ''id'', eqf sid)])"

lemma writes_reqs [simp]:
  "writes_to sid (snapshot_req o' sid t)" "writes_to sid (latest_req o' sid t q now)" "writes_to sid (stopped_req o' sid now)"
  "is_snapshot (snapshot_req o' sid t)" "\<not> is_snapshot (latest_req o' sid t q now)" "\<not> is_snapshot (stopped_req o' sid now)"
  "\<not> is_create (snapshot_req o' sid t)" "\<not> is_create (latest_req o' sid t q now)" "\<not> is_create (stopped_req o' sid now)"
  by (auto simp: writes_to_def is_snapshot_def is_create_def snapshot_req_def latest_req_def stopped_req_def persist_req_def rest_url_def)

lemma create_req [simp]: "\<not> is_write (session_create_req e o' uid s)"
  by (auto simp: is_write_def is_snapshot_def session_create_req_def persist_req_def rest_url_def)

definition creates :: "req list \<Rightarrow> nat" where
  "creates qs = length (filter is_create qs)"

lemma creates_simps [simp]:
  "creates [] = 0" "creates (q # qs) = (if is_create q then Suc (creates qs) else creates qs)"
  "creates (as @ bs) = creates as + creates bs"
  by (simp_all add: creates_def)

text \<open>Requests about users only.\<close>

definition is_users :: "req \<Rightarrow> bool" where
  "is_users q \<longleftrightarrow> rq_url q = rest_url ''users'' \<and> rq_verb q \<in> {GET, POST}"

lemma is_users_other [simp]: "is_users q \<Longrightarrow> \<not> is_write q \<and> \<not> is_create q"
  by (auto simp: is_users_def is_write_def is_snapshot_def is_create_def rest_url_def)

lemma sends_fetchUserId: "sends is_users (fetchUserId e o')"
  unfolding fetchUserId_def select_user_def insert_user_def Let_def
  by (intro sends_if sends_ret sends_bind sends_fetch sends_prims)
    (simp_all add: is_users_def users_select_req_def persist_req_def)

lemma users_only: "list_all is_users qs \<Longrightarrow> creates qs = 0 \<and> (\<forall>q \<in> set qs. \<not> is_write q)"
  by (induction qs) auto

subsection \<open>One step\<close>

text \<open>How many sessions a persister can still create before the next start.\<close>

definition room :: "persist \<Rightarrow> nat" where
  "room s = (if p_stopped s \<or> p_trSessionId s \<noteq> None then 0 else 1)"

definition sid_ok :: "persist \<Rightarrow> bool" where
  "sid_ok s \<longleftrightarrow> (\<forall>sid. p_trSessionId s = Some sid \<longrightarrow> decimal sid)"

text \<open>What a step from \<open>s\<close> to \<open>s'\<close> with the new requests \<open>qs\<close> and \<open>n\<close> starts keeps.\<close>

definition step_ok :: "nat \<Rightarrow> persist \<Rightarrow> persist \<Rightarrow> req list \<Rightarrow> bool" where
  "step_ok n s s' qs \<longleftrightarrow>
     (\<forall>sid. p_trSessionId s = Some sid \<longrightarrow> p_trSessionId s' = Some sid) \<and>
     (\<forall>q \<in> set qs. is_write q \<longrightarrow> (\<exists>sid. p_trSessionId s' = Some sid \<and> writes_to sid q)) \<and>
     creates qs + room s' \<le> room s + n \<and> (sid_ok s \<longrightarrow> sid_ok s')"

lemma step_ok_refl: "step_ok 0 s s []"
  by (simp add: step_ok_def)

lemma step_ok_queue [simp]: "step_ok n (s\<lparr>p_queue := q\<rparr>) s' qs = step_ok n s s' qs"
  unfolding step_ok_def room_def sid_ok_def by simp

lemma step_ok_trans: "step_ok m s s' as \<Longrightarrow> step_ok n s' s'' bs \<Longrightarrow> step_ok (m + n) s s'' (as @ bs)"
  unfolding step_ok_def by (auto simp: ball_Un) (metis+)?

lemma created_id_shape: "created_id e r = [] \<or> decimal (created_id e r)"
  by (auto simp: created_id_def Let_def persistDb.norm_shape split: sum.split)

lemma startSession_step:
  assumes "run_state (startSession e o' s) w = ((okay, s'), w')"
  shows "\<exists>qs. w_reqs w' = w_reqs w @ qs \<and> step_ok 0 s s' qs \<and> (\<forall>q \<in> set qs. \<not> is_write q) \<and>
    p_queue s' = p_queue s \<and> (okay \<longrightarrow> p_trSessionId s' \<noteq> None)"
proof (cases "p_stopped s \<or> p_trSessionId s \<noteq> None")
  case True
  with assms show ?thesis
    by (intro exI [of _ "[]"]) (auto simp: startSession_def step_ok_def split: if_splits)
next
  case False
  obtain u w1 where u: "run_state (fetchUserId e o') w = (u, w1)" by fastforce
  obtain n1 where n1: "w_reqs w1 = w_reqs w @ n1" "list_all is_users n1"
    using sends_fetchUserId u by (rule sends_run)
  note only = users_only [OF n1(2)]
  show ?thesis
  proof (cases u)
    case None
    with assms False u n1 only show ?thesis
      by (intro exI [of _ n1]) (auto simp: startSession_def step_ok_def room_def sid_ok_def)
  next
    case (Some uid)
    let ?q = "session_create_req e o' uid s"
    obtain r w2 where r: "run_state (fetch e ?q) w1 = (r, w2)" by fastforce
    have w2: "w_reqs w2 = w_reqs w @ (n1 @ [?q])" using fetch_reqs [of e ?q w1] r n1(1) by simp
    have c: "creates (n1 @ [?q]) \<le> 1" using only by simp
    have nw: "\<forall>q \<in> set (n1 @ [?q]). \<not> is_write q" using only by simp
    have "((okay, s'), w') = (if created_id e r = [] then ((False, s\<lparr>p_stopped := True\<rparr>), w2)
        else ((True, s\<lparr>p_trSessionId := Some (created_id e r)\<rparr>), w2))"
      using assms False u Some r by (simp add: startSession_def Let_def split: if_splits)
    with w2 c nw False created_id_shape [of e r] show ?thesis
      by (intro exI [of _ "n1 @ [?q]"]) (auto simp: step_ok_def room_def sid_ok_def split: if_splits)
  qed
qed

lemma task_step:
  assumes "run_state (persist_task e o' (t, q) s) w = (s', w')" and "t \<noteq> []"
  shows "\<exists>qs. w_reqs w' = w_reqs w @ qs \<and> step_ok 0 s s' qs \<and> p_queue s' = p_queue s"
proof (cases "p_stopped s")
  case True
  with assms show ?thesis by (intro exI [of _ "[]"]) (simp add: persist_task_def step_ok_refl)
next
  case False
  obtain okay s1 w1 where 1: "run_state (startSession e o' s) w = ((okay, s1), w1)" by (metis prod.collapse)
  from startSession_step [OF this] obtain n1 where n1: "w_reqs w1 = w_reqs w @ n1" "step_ok 0 s s1 n1"
      "p_queue s1 = p_queue s" "okay \<longrightarrow> p_trSessionId s1 \<noteq> None" by blast
  show ?thesis
  proof (cases "okay")
    case no: False
    with assms False 1 n1 show ?thesis by (intro exI [of _ n1]) (simp add: persist_task_def)
  next
    case okay: True
    with n1 obtain sid where sid: "p_trSessionId s1 = Some sid" by auto
    obtain now k where wr: "run_state (do { insertFullSnapshot e o' s1 t; updateLatest e o' s1 t q }) w1 =
        ((), w1\<lparr>w_ticks := k, w_reqs := w_reqs w1 @ [snapshot_req o' sid t, latest_req o' sid t q now]\<rparr>)"
      using sid assms(2) by (rule run_write)
    have "step_ok 0 s1 s1 [snapshot_req o' sid t, latest_req o' sid t q now]"
      using sid by (auto simp: step_ok_def)
    from step_ok_trans [OF n1(2) this]
    have "step_ok 0 s s1 (n1 @ [snapshot_req o' sid t, latest_req o' sid t q now])" by simp
    moreover have "s' = s1 \<and> w_reqs w' = w_reqs w1 @ [snapshot_req o' sid t, latest_req o' sid t q now]"
      using assms False 1 okay sid wr by (auto simp: persist_task_def split: prod.splits)
    ultimately show ?thesis using n1 by (intro exI [of _ "n1 @ [snapshot_req o' sid t, latest_req o' sid t q now]"]) simp
  qed
qed

text \<open>The texts a persister holds are not empty, so every task writes one.\<close>

definition queue_ok :: "persist \<Rightarrow> bool" where
  "queue_ok s \<longleftrightarrow> (\<forall>(t, q) \<in> set (p_queue s). t \<noteq> [])"

lemma handleStable_fields [simp]:
  "p_trSessionId (handleStable f q s) = p_trSessionId s" "p_stopped (handleStable f q s) = p_stopped s"
  by (simp_all add: handleStable_def Let_def)

lemma handleStable_queue_ok: "queue_ok s \<Longrightarrow> queue_ok (handleStable f q s)"
  by (auto simp: handleStable_def queue_ok_def Let_def)

lemma run_next_step:
  assumes "run_state (run_next e o' s) w = (s', w')" and "queue_ok s"
  shows "\<exists>qs. w_reqs w' = w_reqs w @ qs \<and> step_ok 0 s s' qs \<and> p_queue s' = tl (p_queue s) \<and> queue_ok s'"
proof (cases "p_queue s")
  case Nil
  with assms show ?thesis by (intro exI [of _ "[]"]) (simp add: run_next_def step_ok_refl)
next
  case (Cons x q)
  obtain t n where x: "x = (t, n)" by (cases x)
  from assms Cons x have "run_state (persist_task e o' (t, n) (s\<lparr>p_queue := q\<rparr>)) w = (s', w')" and "t \<noteq> []"
    by (auto simp: run_next_def queue_ok_def)
  from task_step [OF this] obtain qs where qs: "w_reqs w' = w_reqs w @ qs" "step_ok 0 (s\<lparr>p_queue := q\<rparr>) s' qs" "p_queue s' = q"
    by auto
  from qs(2) have "step_ok 0 s s' qs" by simp
  moreover have "queue_ok s'" using qs(3) Cons assms(2) by (simp add: queue_ok_def)
  ultimately show ?thesis using qs(1,3) Cons by (intro exI [of _ qs]) simp
qed

lemma drain_step:
  "run_state (drain e o' n s) w = (s', w') \<Longrightarrow> queue_ok s \<Longrightarrow>
   \<exists>qs. w_reqs w' = w_reqs w @ qs \<and> step_ok 0 s s' qs \<and> p_queue s' = drop n (p_queue s) \<and> queue_ok s'"
proof (induction n arbitrary: s w)
  case 0
  then show ?case by (intro exI [of _ "[]"]) (simp add: step_ok_refl)
next
  case (Suc n)
  obtain s1 w1 where 1: "run_state (run_next e o' s) w = (s1, w1)" by fastforce
  from run_next_step [OF this Suc.prems(2)] obtain as where as:
    "w_reqs w1 = w_reqs w @ as" "step_ok 0 s s1 as" "p_queue s1 = tl (p_queue s)" "queue_ok s1" by blast
  from Suc.prems(1) 1 have "run_state (drain e o' n s1) w1 = (s', w')" by simp
  from Suc.IH [OF this as(4)] obtain bs where bs:
    "w_reqs w' = w_reqs w1 @ bs" "step_ok 0 s1 s' bs" "p_queue s' = drop n (p_queue s1)" "queue_ok s'" by blast
  have "step_ok 0 s s' (as @ bs)" using step_ok_trans [OF as(2) bs(2)] by simp
  with as bs show ?case by (intro exI [of _ "as @ bs"]) (simp add: drop_Suc)
qed

text \<open>A stopped persister skips its tasks.\<close>

lemma drain_stopped:
  "p_stopped s \<Longrightarrow> run_state (drain e o' n s) w = (s\<lparr>p_queue := drop n (p_queue s)\<rparr>, w)"
proof (induction n arbitrary: s)
  case (Suc n)
  have "run_state (run_next e o' s) w = (s\<lparr>p_queue := tl (p_queue s)\<rparr>, w)"
    using Suc.prems by (cases "p_queue s") (auto simp: run_next_def persist_task_def)
  with Suc.IH [of "s\<lparr>p_queue := tl (p_queue s)\<rparr>"] Suc.prems show ?case by (simp add: drop_Suc)
qed simp

lemma trim_nonempty: "trim t \<noteq> [] \<Longrightarrow> t \<noteq> []"
  by auto

lemma stop_end_reqs:
  assumes "p_trSessionId s = Some sid" and "run_state (stop_end e o' t s) w = (u, w')"
  shows "\<exists>n1 n2. w_reqs w' = w_reqs w @
    (if trim t \<noteq> [] then [snapshot_req o' sid t, latest_req o' sid t (p_fullSeq s) n1] else []) @ [stopped_req o' sid n2]"
proof (cases "trim t = []")
  case True
  with assms show ?thesis by (auto simp: stop_end_def run_fetch)
next
  case False
  obtain now k where "run_state (do { insertFullSnapshot e o' s t; updateLatest e o' s t (p_fullSeq s) }) w =
      ((), w\<lparr>w_ticks := k, w_reqs := w_reqs w @ [snapshot_req o' sid t, latest_req o' sid t (p_fullSeq s) now]\<rparr>)"
    using assms(1) trim_nonempty [OF False] by (rule run_write)
  with assms False show ?thesis by (auto simp: stop_end_def run_fetch split: prod.splits)
qed

lemma persist_stop_run:
  assumes "run_state (persist_stop e o' f s) w = (s', w')"
  shows "s' = s\<lparr>p_stopped := True, p_queue := []\<rparr> \<and>
    run_state (stop_end e o' (final_text f s) s') w = ((), w')"
  using assms
  by (auto simp: persist_stop_def stop_begin_def drain_stopped split: prod.splits)

lemma stop_step:
  assumes "run_state (persist_stop e o' f s) w = (s', w')"
  shows "\<exists>qs. w_reqs w' = w_reqs w @ qs \<and> step_ok 0 s s' qs \<and> queue_ok s'"
proof -
  from persist_stop_run [OF assms] have s': "s' = s\<lparr>p_stopped := True, p_queue := []\<rparr>"
    and r: "run_state (stop_end e o' (final_text f s) s') w = ((), w')" by blast+
  show ?thesis
  proof (cases "p_trSessionId s")
    case None
    with s' r show ?thesis
      by (intro exI [of _ "[]"]) (auto simp: stop_end_def step_ok_def room_def sid_ok_def queue_ok_def)
  next
    case (Some sid)
    then have "p_trSessionId s' = Some sid" using s' by simp
    from stop_end_reqs [OF this r] obtain n1 n2 where w': "w_reqs w' = w_reqs w @
        (if trim (final_text f s) \<noteq> []
         then [snapshot_req o' sid (final_text f s),
               latest_req o' sid (final_text f s) (p_fullSeq s') n1]
         else []) @ [stopped_req o' sid n2]" (is "_ = _ @ ?qs") by blast
    have "step_ok 0 s s' ?qs" using Some s' by (auto simp: step_ok_def room_def sid_ok_def)
    with w' s' show ?thesis by (auto simp: queue_ok_def)
  qed
qed

definition starts :: "persist_event list \<Rightarrow> nat" where
  "starts xs = length (filter (\<lambda>x. x = PStart) xs)"

lemma step_step:
  assumes "run_state (persist_step e o' x s) w = (s', w')" and "queue_ok s"
  shows "\<exists>qs. w_reqs w' = w_reqs w @ qs \<and> step_ok (starts [x]) s s' qs \<and> queue_ok s'"
proof (cases x)
  case (PStable f q)
  with assms show ?thesis
    by (intro exI [of _ "[]"]) (auto simp: step_ok_def room_def sid_ok_def starts_def handleStable_queue_ok)
next
  case PTask
  with assms have "run_state (run_next e o' s) w = (s', w')" by simp
  from run_next_step [OF this assms(2)] PTask show ?thesis by (auto simp: starts_def)
next
  case (PStop f)
  with assms have "run_state (persist_stop e o' f s) w = (s', w')" by simp
  from stop_step [OF this] PStop show ?thesis by (simp add: starts_def)
next
  case PStart
  with assms show ?thesis
    by (intro exI [of _ "[]"]) (auto simp: persist_start_def step_ok_def room_def sid_ok_def starts_def queue_ok_def)
qed

lemma run_step:
  "run_state (persist_run e o' xs s) w = (s', w') \<Longrightarrow> queue_ok s \<Longrightarrow>
   \<exists>qs. w_reqs w' = w_reqs w @ qs \<and> step_ok (starts xs) s s' qs"
proof (induction xs arbitrary: s w)
  case Nil
  then show ?case by (intro exI [of _ "[]"]) (simp add: step_ok_refl starts_def)
next
  case (Cons x xs)
  obtain s1 w1 where 1: "run_state (persist_step e o' x s) w = (s1, w1)" by fastforce
  from step_step [OF this Cons.prems(2)] obtain as where as:
    "w_reqs w1 = w_reqs w @ as" "step_ok (starts [x]) s s1 as" "queue_ok s1" by blast
  from Cons.prems(1) 1 have "run_state (persist_run e o' xs s1) w1 = (s', w')" by simp
  from Cons.IH [OF this as(3)] obtain bs where bs: "w_reqs w' = w_reqs w1 @ bs" "step_ok (starts xs) s1 s' bs" by blast
  have "starts (x # xs) = starts [x] + starts xs" by (simp add: starts_def)
  with step_ok_trans [OF as(2) bs(2)] as(1) bs(1) show ?case by (intro exI [of _ "as @ bs"]) simp
qed

subsection \<open>The texts that reach the database\<close>

text \<open>The newest text is the last one queued, as long as something is queued and it is not blank.\<close>

definition queue_newest :: "persist \<Rightarrow> bool" where
  "queue_newest s \<longleftrightarrow> p_queue s \<noteq> [] \<and> trim (p_fullLatest s) \<noteq> [] \<longrightarrow> fst (last (p_queue s)) = p_fullLatest s"

definition stables :: "(jsval \<times> jsval) list \<Rightarrow> persist \<Rightarrow> persist" where
  "stables xs s = foldl (\<lambda>s (f, q). handleStable f q s) s xs"

lemma stables_simps [simp]:
  "stables [] s = s" "stables (x # xs) s = stables xs (handleStable (fst x) (snd x) s)"
  by (simp_all add: stables_def split: prod.split)

lemma handleStable_newest: "queue_newest s \<Longrightarrow> queue_newest (handleStable f q s)"
  by (auto simp: handleStable_def queue_newest_def Let_def)

lemma stables_newest: "queue_newest s \<Longrightarrow> queue_newest (stables xs s)"
  by (induction xs arbitrary: s) (auto simp: handleStable_newest)

lemma stables_fields [simp]:
  "p_trSessionId (stables xs s) = p_trSessionId s" "p_stopped (stables xs s) = p_stopped s"
  by (induction xs arbitrary: s) auto

lemma stables_queue_ok: "queue_ok s \<Longrightarrow> queue_ok (stables xs s)"
  by (induction xs arbitrary: s) (auto simp: handleStable_queue_ok)

lemma handleStable_queue:
  "\<exists>new. p_queue (handleStable f q s) = p_queue s @ new \<and> subseq (map fst new) [str_or_empty f]"
  by (auto simp: handleStable_def Let_def)

lemma stables_queue:
  "\<exists>new. p_queue (stables xs s) = p_queue s @ new \<and> subseq (map fst new) (map (\<lambda>x. str_or_empty (fst x)) xs)"
proof (induction xs arbitrary: s)
  case (Cons x xs)
  obtain n1 where n1: "p_queue (handleStable (fst x) (snd x) s) = p_queue s @ n1" "subseq (map fst n1) [str_or_empty (fst x)]"
    using handleStable_queue by blast
  obtain n2 where n2: "p_queue (stables xs (handleStable (fst x) (snd x) s)) = p_queue (handleStable (fst x) (snd x) s) @ n2"
      "subseq (map fst n2) (map (\<lambda>x. str_or_empty (fst x)) xs)" using Cons by blast
  have "subseq (map fst n1 @ map fst n2) ([str_or_empty (fst x)] @ map (\<lambda>x. str_or_empty (fst x)) xs)"
    using n1(2) n2(2) by (rule list_emb_append_mono)
  with n1(1) n2(1) show ?case by (intro exI [of _ "n1 @ n2"]) simp
qed simp

text \<open>The requests of a chain that runs with the session created.\<close>

fun write_pairs :: "persist_opts \<Rightarrow> ustr \<Rightarrow> (ustr \<times> jsval) list \<Rightarrow> ustr list \<Rightarrow> req list" where
  "write_pairs o' sid ((t, q) # ts) (now # nows) = snapshot_req o' sid t # latest_req o' sid t q now # write_pairs o' sid ts nows"
| "write_pairs o' sid _ _ = []"

lemma drain_writes:
  "p_trSessionId s = Some sid \<Longrightarrow> \<not> p_stopped s \<Longrightarrow> queue_ok s \<Longrightarrow>
   run_state (drain e o' (length (p_queue s)) s) w = (s', w') \<Longrightarrow>
   \<exists>nows. length nows = length (p_queue s) \<and> w_reqs w' = w_reqs w @ write_pairs o' sid (p_queue s) nows"
proof (induction "p_queue s" arbitrary: s w)
  case Nil
  then show ?case by simp
next
  case (Cons x q)
  obtain t n where x: "x = (t, n)" by (cases x)
  have t: "t \<noteq> []" using Cons.prems(3) Cons.hyps(2) x by (auto simp: queue_ok_def simp flip: Cons.hyps(2))
  let ?s = "s\<lparr>p_queue := q\<rparr>"
  have sid: "p_trSessionId ?s = Some sid" using Cons.prems(1) by simp
  obtain now k where wr: "run_state (do { insertFullSnapshot e o' ?s t; updateLatest e o' ?s t n }) w =
      ((), w\<lparr>w_ticks := k, w_reqs := w_reqs w @ [snapshot_req o' sid t, latest_req o' sid t n now]\<rparr>)"
    using sid t by (rule run_write)
  let ?w = "w\<lparr>w_ticks := k, w_reqs := w_reqs w @ [snapshot_req o' sid t, latest_req o' sid t n now]\<rparr>"
  have "run_state (run_next e o' s) w = (?s, ?w)"
    using Cons.prems(1,2) wr
    by (simp add: run_next_def persist_task_def startSession_def x flip: Cons.hyps(2) split: prod.splits)
  with Cons.prems(4) have "run_state (drain e o' (length (p_queue ?s)) ?s) ?w = (s', w')"
    by (simp flip: Cons.hyps(2))
  from Cons.hyps(1) [OF _ _ _ _ this] Cons.prems
  obtain nows where "length nows = length q" "w_reqs w' = w_reqs ?w @ write_pairs o' sid q nows"
    by (auto simp: queue_ok_def simp flip: Cons.hyps(2))
  then show ?case
    by (intro exI [of _ "now # nows"]) (simp add: x flip: Cons.hyps(2))
qed

lemma snapshots_of_pairs:
  "length nows = length ts \<Longrightarrow> filter is_snapshot (write_pairs o' sid ts nows) = map (\<lambda>p. snapshot_req o' sid (fst p)) ts"
  by (induction o' sid ts nows rule: write_pairs.induct) auto

subsection \<open>Properties\<close>

text \<open>Property C11: over any run of a persister that starts without a session, whatever the server answers, at most one
  creation of a session is sent per start (the first one included), and every snapshot, update and
  stop goes to the one session whose decimal id the persister then holds.\<close>

theorem persist_one_session:
  assumes "run_state (persist_run e o' xs s) w = (s', w')" and "p_trSessionId s = None" and "p_queue s = []"
  shows "\<exists>new. w_reqs w' = w_reqs w @ new \<and> creates new \<le> 1 + starts xs \<and>
    (\<forall>q \<in> set new. is_write q \<longrightarrow> (\<exists>sid. p_trSessionId s' = Some sid \<and> decimal sid \<and> writes_to sid q))"
proof -
  have "queue_ok s" and "sid_ok s" and "room s \<le> 1" using assms by (simp_all add: queue_ok_def sid_ok_def room_def)
  with run_step [OF assms(1)] show ?thesis unfolding step_ok_def sid_ok_def by fastforce
qed

text \<open>The options and states of the examples.\<close>

definition demo_opts :: persist_opts where
  "demo_opts =
     \<lparr>o_userId = JInt 5, o_userEmail = [], o_authToken = [], o_tabUrl = [], o_sttServer = [], o_translatorServer = [],
      o_langSrc = js ''en'', o_langTgt = []\<rparr>"

definition demo_persist :: "ustr option \<Rightarrow> persist" where
  "demo_persist sid =
     \<lparr>p_trSessionId = sid, p_fullLatest = [], p_fullSeq = JNull, p_lastHash = [], p_startedAt = 0, p_stopped = False, p_queue = []\<rparr>"

definition demo_events :: "persist_event list" where
  "demo_events = [PStable (JStr (js ''Hi.'')) (JInt 1), PTask, PStop (JStr [])]"

lemma demo_run:
  "p_trSessionId (fst (run_state (persist_run chat_env demo_opts demo_events (demo_persist None)) blank_world)) = Some (js ''31'')"
  "map rq_verb (w_reqs (snd (run_state (persist_run chat_env demo_opts demo_events (demo_persist None)) blank_world))) =
    [POST, POST, PATCH, POST, PATCH, PATCH]"
  by code_simp+

theorem persist_one_session_witness:
  "\<exists>w' :: world. map rq_verb (w_reqs w') = [POST, POST, PATCH, POST, PATCH, PATCH] \<and> creates (w_reqs w') \<le> 1 \<and>
    list_all (writes_to (js ''31'')) (filter is_write (w_reqs w'))"
proof -
  obtain s' w' where run: "run_state (persist_run chat_env demo_opts demo_events (demo_persist None)) blank_world = (s', w')"
    by fastforce
  have i: "p_trSessionId (demo_persist None) = None" "p_queue (demo_persist None) = []" by (simp_all add: demo_persist_def)
  have b: "w_reqs blank_world = []" and st: "starts demo_events = 0" by (simp_all add: blank_world_def starts_def demo_events_def)
  have "p_trSessionId s' = Some (js ''31'')" "map rq_verb (w_reqs w') = [POST, POST, PATCH, POST, PATCH, PATCH]"
    using demo_run unfolding run by simp_all
  with persist_one_session [OF run i, unfolded b st] show ?thesis by (intro exI [of _ w']) (auto simp: list_all_iff)
qed



text \<open>A stop of a persister with a session skips the tasks still queued and sends the final text (the
  one given, else the newest received), if it is not blank, and then marks the session stopped;
  nothing is sent when there is no session.\<close>

lemma persist_stop_writes_final:
  assumes "run_state (persist_stop e o' f s) w = (s', w')"
  shows "p_stopped s' \<and> p_queue s' = [] \<and>
    (case p_trSessionId s of
       None \<Rightarrow> w' = w
     | Some sid \<Rightarrow>
         \<exists>n1 n2. w_reqs w' = w_reqs w @
           (if trim (final_text f s) \<noteq> []
            then [snapshot_req o' sid (final_text f s), latest_req o' sid (final_text f s) (p_fullSeq s) n1] else []) @
           [stopped_req o' sid n2])"
proof -
  from persist_stop_run [OF assms] have s': "s' = s\<lparr>p_stopped := True, p_queue := []\<rparr>"
    and r: "run_state (stop_end e o' (final_text f s) s') w = ((), w')" by blast+
  show ?thesis
  proof (cases "p_trSessionId s")
    case None
    with s' r show ?thesis by (simp add: stop_end_def)
  next
    case (Some sid)
    then have "p_trSessionId s' = Some sid" using s' by simp
    moreover have "p_fullSeq s' = p_fullSeq s" using s' by simp
    ultimately show ?thesis using stop_end_reqs [OF _ r] s' Some by (simp only: option.case) simp
  qed
qed

end
