(* ===== verification/Actions.thy ===== *)
theory Actions
  imports World
begin

section \<open>Programs over the variables of a component\<close>

text \<open>
  The service worker and the offscreen document keep variables of their own beside the world.  An
  action reads and writes both.  The theory holds the four primitives, and predicates on
  actions with one rule per combinator, collected in \<open>says_intros\<close>, \<open>keeps_intros\<close>, \<open>adds_intros\<close> and
  \<open>holds_intros\<close>: how many answers an action sends whatever the environment does, which properties of
  the variables it keeps, what it may add to a log, and which properties of the variables and the
  world it keeps; and what an action does to the variables.
\<close>

type_synonym ('s, 'a) action = "('s \<times> world, 'a) state"

definition onw :: "'a prog \<Rightarrow> ('s, 'a) action" where
  "onw m = State (\<lambda>(s, w). case run_state m w of (a, w') \<Rightarrow> (a, s, w'))"

definition gets :: "('s \<Rightarrow> 'a) \<Rightarrow> ('s, 'a) action" where
  "gets f = State (\<lambda>(s, w). (f s, s, w))"

definition mods :: "('s \<Rightarrow> 's) \<Rightarrow> ('s, unit) action" where
  "mods f = State (\<lambda>(s, w). ((), f s, w))"

abbreviation skip :: "('s, unit) action" where
  "skip \<equiv> State_Monad.return ()"

definition whenA :: "bool \<Rightarrow> ('s, unit) action \<Rightarrow> ('s, unit) action" where
  "whenA b m = (if b then m else skip)"

lemma run_onw [simp]: "run_state (onw m) (s, w) = (case run_state m w of (a, w') \<Rightarrow> (a, s, w'))"
  by (simp add: onw_def)

lemma run_gets [simp]: "run_state (gets f) (s, w) = (f s, s, w)"
  by (simp add: gets_def)

lemma run_mods [simp]: "run_state (mods f) (s, w) = ((), f s, w)"
  by (simp add: mods_def)

lemma run_whenA [simp]: "run_state (whenA b m) x = (if b then run_state m x else ((), x))"
  by (simp add: whenA_def)

lemma act_runs: obtains s' w' where "run_state (m :: ('s, unit) action) x = ((), s', w')"
  by (metis prod_cases3 unit.exhaust)

subsection \<open>Counting answers\<close>

fun is_reply :: "out \<Rightarrow> bool" where
  "is_reply (Reply v) = True"
| "is_reply _ = False"

definition answers :: "out list \<Rightarrow> nat" where
  "answers xs = length (filter is_reply xs)"

lemma answers_simps [simp]:
  "answers [] = 0" "answers (x # xs) = (if is_reply x then Suc (answers xs) else answers xs)"
  "answers (xs @ ys) = answers xs + answers ys"
  by (simp_all add: answers_def)

text \<open>\<open>says out Q m\<close>: the outputs of \<open>m\<close> are added at the end, and \<open>Q\<close> holds of the result and the number of answers.\<close>

definition says :: "('s \<Rightarrow> out list) \<Rightarrow> ('a \<Rightarrow> nat \<Rightarrow> bool) \<Rightarrow> ('s, 'a) state \<Rightarrow> bool" where
  "says out' Q m \<longleftrightarrow>
     (\<forall>x. \<exists>new. out' (snd (run_state m x)) = out' x @ new \<and> Q (fst (run_state m x)) (answers new))"

definition none :: "'a \<Rightarrow> nat \<Rightarrow> bool" where
  "none a n \<longleftrightarrow> n = 0"

definition one :: "'a \<Rightarrow> nat \<Rightarrow> bool" where
  "one a n \<longleftrightarrow> n = 1"

text \<open>An answer exactly when the program returns, so that the handler of its error can give it.\<close>

fun returned :: "err + 'a \<Rightarrow> nat \<Rightarrow> bool" where
  "returned (Inr a) n \<longleftrightarrow> n = 1"
| "returned (Inl x) n \<longleftrightarrow> n = 0"

lemma counts [simp, intro]: "none a 0" "one a (Suc 0)"
  by (simp_all add: none_def one_def)

lemma says_run:
  assumes "says out' Q m" and "run_state m x = (a, x')"
  obtains new where "out' x' = out' x @ new" and "Q a (answers new)"
  using assms unfolding says_def by (metis fst_conv snd_conv)

lemma saysI: "(\<And>x. \<exists>new. out' (snd (run_state m x)) = out' x @ new \<and> Q (fst (run_state m x)) (answers new)) \<Longrightarrow> says out' Q m"
  by (simp add: says_def)

lemma says_seq:
  assumes "says out' P m" and "\<And>a i. P a i \<Longrightarrow> says out' (\<lambda>b j. Q b (i + j)) (f a)"
  shows "says out' Q (State_Monad.bind m f)"
proof (rule saysI)
  fix x
  obtain a x1 where 1: "run_state m x = (a, x1)" by fastforce
  obtain n1 where n1: "out' x1 = out' x @ n1" "P a (answers n1)" using assms(1) 1 by (rule says_run)
  obtain b x2 where 2: "run_state (f a) x1 = (b, x2)" by fastforce
  obtain n2 where "out' x2 = out' x1 @ n2" "Q b (answers n1 + answers n2)" using assms(2) [OF n1(2)] 2 by (rule says_run)
  with n1 1 2 show "\<exists>new. out' (snd (run_state (State_Monad.bind m f) x)) = out' x @ new \<and>
      Q (fst (run_state (State_Monad.bind m f) x)) (answers new)"
    by (intro exI [of _ "n1 @ n2"]) simp
qed

lemma says_bind [says_intros]:
  "says out' none m \<Longrightarrow> (\<And>a. says out' Q (f a)) \<Longrightarrow> says out' Q (State_Monad.bind m f)"
  by (rule says_seq [where P = none]) (auto simp: none_def)

lemma says_ret: "Q a 0 \<Longrightarrow> says out' Q (State_Monad.return a)"
  by (simp add: says_def)

lemma says_none_ret [says_intros]: "says out' none (State_Monad.return a)"
  by (simp add: says_ret)

text \<open>An answer as the last step but one.\<close>

lemma says_then_ret: "says out' one m \<Longrightarrow> Q b (Suc 0) \<Longrightarrow> says out' Q (State_Monad.bind m (\<lambda>_. State_Monad.return b))"
  by (erule says_seq) (auto simp: one_def intro: says_ret)

lemma says_one_bind: "says out' one m \<Longrightarrow> (\<And>a. says out' none (f a)) \<Longrightarrow> says out' one (State_Monad.bind m f)"
  by (erule says_seq) (simp add: one_def none_def [abs_def])

lemma says_andThen:
  "says out' none m \<Longrightarrow> (\<And>x. Q (Inl x) 0) \<Longrightarrow> (\<And>a. says out' Q (f a)) \<Longrightarrow> says out' Q (andThen m f)"
  unfolding andThen_def by (rule says_bind) (auto intro: says_ret split: sum.split)

lemma says_none_andThen [says_intros]:
  "says out' none m \<Longrightarrow> (\<And>a. says out' none (f a)) \<Longrightarrow> says out' none (andThen m f)"
  by (rule says_andThen) auto

lemma says_returned_andThen [says_intros]:
  "says out' none m \<Longrightarrow> (\<And>a. says out' returned (f a)) \<Longrightarrow> says out' returned (andThen m f)"
  by (rule says_andThen) auto

lemma says_none_try [says_intros]:
  "says out' none m \<Longrightarrow> (\<And>x. says out' none (h x)) \<Longrightarrow> says out' none (try_catch m h)"
  unfolding try_catch_def by (rule says_bind) (auto intro: says_ret split: sum.split)

lemma says_if [says_intros]:
  "(b \<Longrightarrow> says out' Q m) \<Longrightarrow> (\<not> b \<Longrightarrow> says out' Q n) \<Longrightarrow> says out' Q (if b then m else n)"
  by simp

lemma says_option [says_intros]:
  "(x = None \<Longrightarrow> says out' Q m) \<Longrightarrow> (\<And>a. x = Some a \<Longrightarrow> says out' Q (f a)) \<Longrightarrow>
   says out' Q (case x of None \<Rightarrow> m | Some a \<Rightarrow> f a)"
  by (simp split: option.split)

lemma says_sum [says_intros]:
  "(\<And>e. x = Inl e \<Longrightarrow> says out' Q (g e)) \<Longrightarrow> (\<And>a. x = Inr a \<Longrightarrow> says out' Q (f a)) \<Longrightarrow>
   says out' Q (case x of Inl e \<Rightarrow> g e | Inr a \<Rightarrow> f a)"
  by (simp split: sum.split)

lemma says_prod [says_intros]: "(\<And>a b. x = (a, b) \<Longrightarrow> says out' Q (f a b)) \<Longrightarrow> says out' Q (case x of (a, b) \<Rightarrow> f a b)"
  by (simp split: prod.split)

lemma says_list [says_intros]:
  "(x = [] \<Longrightarrow> says out' Q m) \<Longrightarrow> (\<And>a as. x = a # as \<Longrightarrow> says out' Q (f a as)) \<Longrightarrow>
   says out' Q (case x of [] \<Rightarrow> m | a # as \<Rightarrow> f a as)"
  by (simp split: list.split)

lemma says_prims [says_intros]:
  "says w_out none (Date_now e)" "says w_out none (now_iso e)" "says w_out none (store_get k)"
  "says w_out none (store_set k v)" "says w_out none (fetch e r)" "says w_out one (reply v)"
  by (simp_all add: says_def run_fetch)

lemma says_emit [says_intros]: "\<not> is_reply x \<Longrightarrow> says w_out none (emit e x)"
  by (simp add: says_def run_emit)

text \<open>Programs over the variables of the worker.\<close>

abbreviation act_out :: "'s \<times> world \<Rightarrow> out list" where
  "act_out x \<equiv> w_out (snd x)"

lemma says_onw [says_intros]: "says w_out Q m \<Longrightarrow> says act_out Q (onw m)"
  unfolding says_def by (auto split: prod.split) (metis fst_conv snd_conv)

lemma says_acts [says_intros]: "says act_out none (gets f)" "says act_out none (mods g)"
  by (auto simp: says_def)

lemma says_whenA [says_intros]: "says act_out none m \<Longrightarrow> says act_out none (whenA b m)"
  unfolding whenA_def by (intro says_if says_none_ret)

lemmas answer_intros = says_then_ret says_ret

subsection \<open>Invariants\<close>

definition keeps :: "('s \<Rightarrow> bool) \<Rightarrow> ('s, 'a) action \<Rightarrow> bool" where
  "keeps I m \<longleftrightarrow> (\<forall>s w. I s \<longrightarrow> I (fst (snd (run_state m (s, w)))))"

lemma keeps_run: "keeps I m \<Longrightarrow> run_state m (s, w) = (a, s', w') \<Longrightarrow> I s \<Longrightarrow> I s'"
  unfolding keeps_def by (metis fst_conv snd_conv)

lemma keepsI: "(\<And>s w a s' w'. run_state m (s, w) = (a, s', w') \<Longrightarrow> I s \<Longrightarrow> I s') \<Longrightarrow> keeps I m"
  unfolding keeps_def by (metis prod.collapse)

lemma keeps_bind [keeps_intros]:
  assumes "keeps I m" and "\<And>a. keeps I (f a)"
  shows "keeps I (State_Monad.bind m f)"
proof (rule keepsI)
  fix s w b s' w' assume run: "run_state (State_Monad.bind m f) (s, w) = (b, s', w')" and "I s"
  obtain a s1 w1 where 1: "run_state m (s, w) = (a, s1, w1)" by (metis prod_cases3)
  have "I s1" using assms(1) 1 \<open>I s\<close> by (rule keeps_run)
  with run 1 show "I s'" by (auto intro: keeps_run [OF assms(2)])
qed

lemma keeps_ret [keeps_intros]: "keeps I (State_Monad.return a)"
  by (simp add: keeps_def)

lemma keeps_acts [keeps_intros]: "keeps I (gets f)" "keeps I (onw m)"
  by (simp_all add: keeps_def split: prod.split)

lemma keeps_mods: "(\<And>s. I s \<Longrightarrow> I (g s)) \<Longrightarrow> keeps I (mods g)"
  by (simp add: keeps_def)

lemma keeps_andThen [keeps_intros]: "keeps I m \<Longrightarrow> (\<And>a. keeps I (f a)) \<Longrightarrow> keeps I (andThen m f)"
  unfolding andThen_def by (rule keeps_bind) (auto intro: keeps_ret split: sum.split)

lemma keeps_if [keeps_intros]: "(b \<Longrightarrow> keeps I m) \<Longrightarrow> (\<not> b \<Longrightarrow> keeps I n) \<Longrightarrow> keeps I (if b then m else n)"
  by simp

lemma keeps_whenA [keeps_intros]: "(b \<Longrightarrow> keeps I m) \<Longrightarrow> keeps I (whenA b m)"
  unfolding whenA_def by (intro keeps_if keeps_ret)

lemma keeps_option [keeps_intros]:
  "keeps I m \<Longrightarrow> (\<And>a. keeps I (f a)) \<Longrightarrow> keeps I (case x of None \<Rightarrow> m | Some a \<Rightarrow> f a)"
  by (simp split: option.split)

lemma keeps_sum [keeps_intros]:
  "(\<And>e. keeps I (g e)) \<Longrightarrow> (\<And>a. keeps I (f a)) \<Longrightarrow> keeps I (case x of Inl e \<Rightarrow> g e | Inr a \<Rightarrow> f a)"
  by (simp split: sum.split)

lemma keeps_prod [keeps_intros]: "(\<And>a b. keeps I (f a b)) \<Longrightarrow> keeps I (case x of (a, b) \<Rightarrow> f a b)"
  by (simp split: prod.split)

lemma keeps_guarded:
  assumes "\<And>s. I s \<Longrightarrow> b s \<Longrightarrow> I (g s)" and "\<And>u. keeps I (k u)"
  shows "keeps I (do { x \<leftarrow> gets b; whenA x (do { u \<leftarrow> mods g; k u }) })"
proof (rule keepsI)
  fix s w a s' w'
  assume run: "run_state (do { x \<leftarrow> gets b; whenA x (do { u \<leftarrow> mods g; k u }) }) (s, w) = (a, s', w')" and "I s"
  show "I s'"
  proof (cases "b s")
    case True
    with run have "run_state (k ()) (g s, w) = (a, s', w')" by simp
    then show ?thesis using assms(1) [OF \<open>I s\<close> True] by (rule keeps_run [OF assms(2)])
  qed (use run \<open>I s\<close> in simp)
qed

subsection \<open>What a program does to the variables\<close>

text \<open>\<open>effect m f\<close>: \<open>m\<close> changes the variables by \<open>f\<close>, whatever the environment does.\<close>

definition effect :: "('s, 'a) action \<Rightarrow> ('s \<Rightarrow> 's) \<Rightarrow> bool" where
  "effect m f \<longleftrightarrow> (\<forall>s w. fst (snd (run_state m (s, w))) = f s)"

lemma effectI: "(\<And>s w a s' w'. run_state m (s, w) = (a, s', w') \<Longrightarrow> s' = f s) \<Longrightarrow> effect m f"
  unfolding effect_def by (metis prod.collapse)

lemma effect_run: "effect m f \<Longrightarrow> run_state m (s, w) = (a, s', w') \<Longrightarrow> s' = f s"
  unfolding effect_def by (metis fst_conv snd_conv)

lemma effect_onw: "effect (onw m) (\<lambda>s. s)"
  by (simp add: effect_def split: prod.split)

lemma effect_ret: "effect (State_Monad.return a) (\<lambda>s. s)"
  by (simp add: effect_def)

lemma effect_mods: "effect (mods f) f"
  by (simp add: effect_def)

lemma effect_bind:
  assumes "effect m f" and "\<And>a. effect (k a) g"
  shows "effect (State_Monad.bind m k) (\<lambda>s. g (f s))"
proof (rule effectI)
  fix s w b s' w' assume run: "run_state (State_Monad.bind m k) (s, w) = (b, s', w')"
  obtain a s1 w1 where 1: "run_state m (s, w) = (a, s1, w1)" by (metis prod_cases3)
  from 1 run have "run_state (k a) (s1, w1) = (b, s', w')" by simp
  with effect_run [OF assms(1) 1] effect_run [OF assms(2)] show "s' = g (f s)" by simp
qed

lemma effect_gets:
  assumes "\<And>a. effect (k a) (h a)"
  shows "effect (State_Monad.bind (gets f) k) (\<lambda>s. h (f s) s)"
  using assms by (simp add: effect_def)

lemma effect_whenA: "effect m f \<Longrightarrow> effect (whenA b m) (\<lambda>s. if b then f s else s)"
  by (simp add: effect_def)

text \<open>A variable whose value is known.\<close>

lemma keeps_known: "(\<And>s. I s \<Longrightarrow> f s = c) \<Longrightarrow> keeps I (k c) \<Longrightarrow> keeps I (State_Monad.bind (gets f) k)"
  by (simp add: keeps_def)

lemma keeps_list [keeps_intros]:
  "keeps I m \<Longrightarrow> (\<And>a as. keeps I (f a as)) \<Longrightarrow> keeps I (case x of [] \<Rightarrow> m | a # as \<Rightarrow> f a as)"
  by (simp split: list.split)

text \<open>\<open>leads P m Q\<close>: from variables with \<open>P\<close> to variables with \<open>Q\<close>.\<close>

definition leads :: "('s \<Rightarrow> bool) \<Rightarrow> ('s, 'a) action \<Rightarrow> ('s \<Rightarrow> bool) \<Rightarrow> bool" where
  "leads P m Q \<longleftrightarrow> (\<forall>s w. P s \<longrightarrow> Q (fst (snd (run_state m (s, w)))))"

lemma leads_run: "leads P m Q \<Longrightarrow> run_state m (s, w) = (a, s', w') \<Longrightarrow> P s \<Longrightarrow> Q s'"
  unfolding leads_def by (metis fst_conv snd_conv)

lemma leadsI: "(\<And>s w a s' w'. run_state m (s, w) = (a, s', w') \<Longrightarrow> P s \<Longrightarrow> Q s') \<Longrightarrow> leads P m Q"
  unfolding leads_def by (metis prod.collapse)

lemma leads_keeps: "keeps I m \<Longrightarrow> leads I m I"
  by (simp add: leads_def keeps_def)

lemma leads_bind:
  assumes "leads P m Q" and "\<And>a. leads Q (f a) R"
  shows "leads P (State_Monad.bind m f) R"
proof (rule leadsI)
  fix s w b s' w' assume run: "run_state (State_Monad.bind m f) (s, w) = (b, s', w')" and "P s"
  obtain a s1 w1 where 1: "run_state m (s, w) = (a, s1, w1)" by (metis prod_cases3)
  have "Q s1" using assms(1) 1 \<open>P s\<close> by (rule leads_run)
  with run 1 show "R s'" by (auto intro: leads_run [OF assms(2)])
qed

lemma leads_first: "keeps P m \<Longrightarrow> (\<And>a. leads P (f a) R) \<Longrightarrow> leads P (State_Monad.bind m f) R"
  by (rule leads_bind [OF leads_keeps])

lemma leads_mods: "(\<And>s. P s \<Longrightarrow> Q (f s)) \<Longrightarrow> leads P (mods f) Q"
  by (simp add: leads_def)

lemma leads_known: "(\<And>s. P s \<Longrightarrow> f s = c) \<Longrightarrow> leads P (k c) R \<Longrightarrow> leads P (State_Monad.bind (gets f) k) R"
  by (simp add: leads_def)

lemma leads_gets: "(\<And>a. leads (\<lambda>s. P s \<and> f s = a) (k a) R) \<Longrightarrow> leads P (State_Monad.bind (gets f) k) R"
  by (simp add: leads_def)

lemma leads_if: "(b \<Longrightarrow> leads P m R) \<Longrightarrow> (\<not> b \<Longrightarrow> leads P n R) \<Longrightarrow> leads P (if b then m else n) R"
  by simp

lemma leads_whenA: "(b \<Longrightarrow> leads P m R) \<Longrightarrow> (\<And>s. \<not> b \<Longrightarrow> P s \<Longrightarrow> R s) \<Longrightarrow> leads P (whenA b m) R"
  by (simp add: leads_def whenA_def)

lemma leads_weaken: "leads P m Q \<Longrightarrow> (\<And>s. P' s \<Longrightarrow> P s) \<Longrightarrow> (\<And>s. Q s \<Longrightarrow> Q' s) \<Longrightarrow> leads P' m Q'"
  by (simp add: leads_def)

lemma leads_cases: "leads P m R \<Longrightarrow> leads Q m R \<Longrightarrow> leads (\<lambda>s. P s \<or> Q s) m R"
  by (auto simp: leads_def)

subsection \<open>What a program adds to a log\<close>

text \<open>\<open>adds trace P m\<close>: \<open>m\<close> only appends to the log, and what it appends satisfies \<open>P\<close>.\<close>

definition adds :: "('s \<Rightarrow> 'x list) \<Rightarrow> ('x \<Rightarrow> bool) \<Rightarrow> ('s, 'a) state \<Rightarrow> bool" where
  "adds trace P m \<longleftrightarrow> (\<forall>x. \<exists>new. trace (snd (run_state m x)) = trace x @ new \<and> list_all P new)"

lemma addsI: "(\<And>x. \<exists>new. trace (snd (run_state m x)) = trace x @ new \<and> list_all P new) \<Longrightarrow> adds trace P m"
  by (simp add: adds_def)

lemma adds_run:
  assumes "adds trace P m" and "run_state m x = (a, x')"
  obtains new where "trace x' = trace x @ new" and "list_all P new"
  using assms unfolding adds_def by (metis snd_conv)

lemma adds_bind [adds_intros]:
  assumes "adds trace P m" and "\<And>a. adds trace P (f a)"
  shows "adds trace P (State_Monad.bind m f)"
proof (rule addsI)
  fix x
  obtain a x1 where 1: "run_state m x = (a, x1)" by fastforce
  obtain n1 where n1: "trace x1 = trace x @ n1" "list_all P n1" using assms(1) 1 by (rule adds_run)
  obtain b x2 where 2: "run_state (f a) x1 = (b, x2)" by fastforce
  obtain n2 where "trace x2 = trace x1 @ n2" "list_all P n2" using assms(2) 2 by (rule adds_run)
  with n1 1 2 show "\<exists>new. trace (snd (run_state (State_Monad.bind m f) x)) = trace x @ new \<and> list_all P new"
    by (intro exI [of _ "n1 @ n2"]) simp
qed

lemma adds_ret [adds_intros]: "adds trace P (State_Monad.return a)"
  by (simp add: adds_def)

lemma adds_andThen [adds_intros]: "adds trace P m \<Longrightarrow> (\<And>a. adds trace P (f a)) \<Longrightarrow> adds trace P (andThen m f)"
  unfolding andThen_def by (rule adds_bind) (auto intro: adds_ret split: sum.split)

lemma adds_if [adds_intros]: "(b \<Longrightarrow> adds trace P m) \<Longrightarrow> (\<not> b \<Longrightarrow> adds trace P n) \<Longrightarrow> adds trace P (if b then m else n)"
  by simp

lemma adds_option [adds_intros]:
  "(x = None \<Longrightarrow> adds trace P m) \<Longrightarrow> (\<And>a. x = Some a \<Longrightarrow> adds trace P (f a)) \<Longrightarrow>
   adds trace P (case x of None \<Rightarrow> m | Some a \<Rightarrow> f a)"
  by (simp split: option.split)

lemma adds_sum [adds_intros]:
  "(\<And>e. x = Inl e \<Longrightarrow> adds trace P (g e)) \<Longrightarrow> (\<And>a. x = Inr a \<Longrightarrow> adds trace P (f a)) \<Longrightarrow>
   adds trace P (case x of Inl e \<Rightarrow> g e | Inr a \<Rightarrow> f a)"
  by (simp split: sum.split)

lemma adds_prims [adds_intros]:
  "adds w_out P (Date_now e)" "adds w_out P (now_iso e)" "adds w_out P (store_get k)" "adds w_out P (store_set k v)"
  "adds w_out P (fetch e r)" "adds w_reqs Q (Date_now e)" "adds w_reqs Q (now_iso e)" "adds w_reqs Q (emit e x)"
  by (simp_all add: adds_def run_fetch run_emit)

lemma adds_emit: "P x \<Longrightarrow> adds w_out P (emit e x)"
  by (simp add: adds_def run_emit)

lemma adds_fetch: "Q r \<Longrightarrow> adds w_reqs Q (fetch e r)"
  by (simp add: adds_def run_fetch)

subsection \<open>Invariants of the variables and the world\<close>

definition holds :: "('x \<Rightarrow> bool) \<Rightarrow> ('x, 'a) state \<Rightarrow> bool" where
  "holds J m \<longleftrightarrow> (\<forall>x. J x \<longrightarrow> J (snd (run_state m x)))"

lemma holds_run: "holds J m \<Longrightarrow> run_state m x = (a, x') \<Longrightarrow> J x \<Longrightarrow> J x'"
  unfolding holds_def by (metis snd_conv)

lemma holdsI: "(\<And>x a x'. run_state m x = (a, x') \<Longrightarrow> J x \<Longrightarrow> J x') \<Longrightarrow> holds J m"
  unfolding holds_def by (metis prod.collapse)

lemma holds_bind [holds_intros]:
  assumes "holds J m" and "\<And>a. holds J (f a)"
  shows "holds J (State_Monad.bind m f)"
proof (rule holdsI)
  fix x b x' assume run: "run_state (State_Monad.bind m f) x = (b, x')" and "J x"
  obtain a x1 where 1: "run_state m x = (a, x1)" by fastforce
  have "J x1" using assms(1) 1 \<open>J x\<close> by (rule holds_run)
  with run 1 show "J x'" by (auto intro: holds_run [OF assms(2)])
qed

lemma holds_ret [holds_intros]: "holds J (State_Monad.return a)"
  by (simp add: holds_def)

lemma holds_gets [holds_intros]: "holds J (gets f)"
  by (simp add: holds_def)

lemma holds_mods: "(\<And>s w. J (s, w) \<Longrightarrow> J (f s, w)) \<Longrightarrow> holds J (mods f)"
  by (simp add: holds_def)

lemma holds_andThen [holds_intros]: "holds J m \<Longrightarrow> (\<And>a. holds J (f a)) \<Longrightarrow> holds J (andThen m f)"
  unfolding andThen_def by (rule holds_bind) (auto intro: holds_ret split: sum.split)

lemma holds_if [holds_intros]: "(b \<Longrightarrow> holds J m) \<Longrightarrow> (\<not> b \<Longrightarrow> holds J n) \<Longrightarrow> holds J (if b then m else n)"
  by simp

lemma holds_whenA [holds_intros]: "(b \<Longrightarrow> holds J m) \<Longrightarrow> holds J (whenA b m)"
  unfolding whenA_def by (intro holds_if holds_ret)

lemma holds_option [holds_intros]:
  "holds J m \<Longrightarrow> (\<And>a. holds J (f a)) \<Longrightarrow> holds J (case x of None \<Rightarrow> m | Some a \<Rightarrow> f a)"
  by (simp split: option.split)

lemma holds_sum [holds_intros]:
  "(\<And>e. holds J (g e)) \<Longrightarrow> (\<And>a. holds J (f a)) \<Longrightarrow> holds J (case x of Inl e \<Rightarrow> g e | Inr a \<Rightarrow> f a)"
  by (simp split: sum.split)

lemma holds_list [holds_intros]:
  "holds J m \<Longrightarrow> (\<And>a as. holds J (f a as)) \<Longrightarrow> holds J (case x of [] \<Rightarrow> m | a # as \<Rightarrow> f a as)"
  by (simp split: list.split)

text \<open>From a property of the variables and the world to another.\<close>

definition yields :: "('x \<Rightarrow> bool) \<Rightarrow> ('x, 'a) state \<Rightarrow> ('x \<Rightarrow> bool) \<Rightarrow> bool" where
  "yields P m Q \<longleftrightarrow> (\<forall>x. P x \<longrightarrow> Q (snd (run_state m x)))"

lemma yields_run: "yields P m Q \<Longrightarrow> run_state m x = (a, x') \<Longrightarrow> P x \<Longrightarrow> Q x'"
  unfolding yields_def by (metis snd_conv)

lemma yieldsI: "(\<And>x a x'. run_state m x = (a, x') \<Longrightarrow> P x \<Longrightarrow> Q x') \<Longrightarrow> yields P m Q"
  unfolding yields_def by (metis prod.collapse)

lemma yields_holds: "holds P m \<Longrightarrow> yields P m P"
  by (simp add: yields_def holds_def)

lemma holds_yields: "yields P m P \<Longrightarrow> holds P m"
  by (simp add: yields_def holds_def)

lemma yields_bind:
  assumes "yields P m Q" and "\<And>a. yields Q (f a) R"
  shows "yields P (State_Monad.bind m f) R"
proof (rule yieldsI)
  fix x b x' assume run: "run_state (State_Monad.bind m f) x = (b, x')" and "P x"
  obtain a x1 where 1: "run_state m x = (a, x1)" by fastforce
  have "Q x1" using assms(1) 1 \<open>P x\<close> by (rule yields_run)
  with run 1 show "R x'" by (auto intro: yields_run [OF assms(2)])
qed

lemma yields_first: "holds P m \<Longrightarrow> (\<And>a. yields P (f a) R) \<Longrightarrow> yields P (State_Monad.bind m f) R"
  by (rule yields_bind [OF yields_holds])

lemma yields_mods: "(\<And>s w. P (s, w) \<Longrightarrow> Q (f s, w)) \<Longrightarrow> yields P (mods f) Q"
  by (simp add: yields_def)

lemma yields_gets: "(\<And>a. yields (\<lambda>x. P x \<and> f (fst x) = a) (k a) R) \<Longrightarrow> yields P (State_Monad.bind (gets f) k) R"
  by (simp add: yields_def)

lemma yields_whenA: "(b \<Longrightarrow> yields P m R) \<Longrightarrow> (\<And>x. \<not> b \<Longrightarrow> P x \<Longrightarrow> R x) \<Longrightarrow> yields P (whenA b m) R"
  by (simp add: yields_def whenA_def)

lemma yields_weaken: "yields P m Q \<Longrightarrow> (\<And>x. P' x \<Longrightarrow> P x) \<Longrightarrow> (\<And>x. Q x \<Longrightarrow> Q' x) \<Longrightarrow> yields P' m Q'"
  by (simp add: yields_def)

end
