(* ===== verification/Sw_Identity.thy ===== *)
theory Sw_Identity
  imports History_Contract "HOL-Library.Sublist"
begin

section \<open>User ids in the service worker (service_worker.js)\<close>

text \<open>
  The worker keeps a cache from e-mail addresses to ids of \<open>users\<close> in the storage of the extension,
  writes a resolved id back into the stored session, and resolves a profile from the profile itself,
  the cache, and the database, in this order.  The cache is an object whose keys are addresses; in
  the model it is an association list in insertion order.
\<close>

type_synonym email_map = "(ustr \<times> ustr \<times> rat) list"

definition entry_val :: "ustr \<times> rat \<Rightarrow> jsval" where
  "entry_val x = JObj [(js ''user_id'', JStr (fst x)), (js ''updated_at'', JNum (JFin (snd x)))]"

definition map_val :: "email_map \<Rightarrow> jsval" where
  "map_val m = JObj (map (\<lambda>(k, x). (k, entry_val x)) m)"

subsection \<open>The cache\<close>

text \<open>\<open>Number(v?.updated_at || v?.updatedAt || Date.now())\<close>, replaced by the clock when it is not finite.\<close>

definition entry_time :: "env \<Rightarrow> jsval \<Rightarrow> rat prog" where
  "entry_time e v = do {
     updatedAt \<leftarrow> (if truthy (fld v ''updated_at'') then ret (to_num (fld v ''updated_at''))
                  else if truthy (fld v ''updatedAt'') then ret (to_num (fld v ''updatedAt''))
                  else do { t \<leftarrow> Date_now e; ret (JFin t) });
     case fin_opt updatedAt of Some q \<Rightarrow> ret q | None \<Rightarrow> Date_now e }"

fun sanitize_loop :: "env \<Rightarrow> (ustr \<times> jsval) list \<Rightarrow> email_map \<Rightarrow> email_map prog" where
  "sanitize_loop e [] acc = ret acc"
| "sanitize_loop e ((k, v) # kvs) acc =
     (let email = normalizeEmail (JStr k);
          rowUid = parseNumericUserId (js_coalesces [fld v ''user_id'', fld v ''id'', v])
      in if email = [] \<or> rowUid = [] then sanitize_loop e kvs acc
         else do { t \<leftarrow> entry_time e v; sanitize_loop e kvs (obj_set acc email (rowUid, t)) })"

definition sanitizeEmailUserIdMap :: "env \<Rightarrow> jsval \<Rightarrow> email_map prog" where
  "sanitizeEmailUserIdMap e raw = (if \<not> is_object raw then ret [] else sanitize_loop e (props raw) [])"

definition getEmailUserIdMap :: "env \<Rightarrow> email_map prog" where
  "getEmailUserIdMap e = do { raw \<leftarrow> store_get ''vtEmailUserIdMapV1''; sanitizeEmailUserIdMap e raw }"

definition findCachedUserIdByEmail :: "env \<Rightarrow> jsval \<Rightarrow> ustr prog" where
  "findCachedUserIdByEmail e email =
     (let em = normalizeEmail email in
      if em = [] then ret []
      else do {
        m \<leftarrow> getEmailUserIdMap e;
        ret (case map_of m em of None \<Rightarrow> [] | Some x \<Rightarrow> parseNumericUserId (JStr (fst x))) })"

definition MAX_KEYS :: nat where
  "MAX_KEYS = 300"

text \<open>The newest \<open>MAX_KEYS\<close> entries, newest first.\<close>

definition prune_map :: "email_map \<Rightarrow> email_map" where
  "prune_map m = take MAX_KEYS (sort_key (\<lambda>(k, u, t). - t) m)"

definition cacheEmailUserId :: "env \<Rightarrow> jsval \<Rightarrow> jsval \<Rightarrow> unit prog" where
  "cacheEmailUserId e email userId =
     (let em = normalizeEmail email; uid = parseNumericUserId userId in
      if em = [] \<or> uid = [] then ret ()
      else do {
        m \<leftarrow> getEmailUserIdMap e;
        t \<leftarrow> Date_now e;
        (let m' = obj_set m em (uid, t) in
         if MAX_KEYS < length m' then store_set ''vtEmailUserIdMapV1'' (map_val (prune_map m'))
         else store_set ''vtEmailUserIdMapV1'' (map_val m')) })"

subsection \<open>The stored session\<close>

text \<open>\<open>patchProfile\<close> gives the profile and whether it changed.\<close>

definition patchProfile :: "ustr \<Rightarrow> jsval \<Rightarrow> jsval \<times> bool" where
  "patchProfile uid p =
     (if \<not> is_object p then (p, False)
      else if parseNumericUserId (fld p ''user_id'') = uid \<and> parseNumericUserId (fld p ''db_user_id'') = uid then (p, False)
      else (JObj (obj_set (obj_set (props p) (js ''user_id'') (JStr uid)) (js ''db_user_id'') (JStr uid)), True))"

text \<open>Both places of a session that can hold a profile.\<close>

definition patch_session :: "ustr \<Rightarrow> jsval \<Rightarrow> jsval \<times> bool" where
  "patch_session uid raw =
     (let n0 = props raw;
          (n1, c1) = (if truthy (obj_get n0 (js ''profile''))
                      then (case patchProfile uid (obj_get n0 (js ''profile'')) of (p, c) \<Rightarrow> (obj_set n0 (js ''profile'') p, c))
                      else (n0, False));
          cs = obj_get n1 (js ''currentSession'');
          (n2, c2) = (if truthy (fld cs ''profile'')
                      then (case patchProfile uid (fld cs ''profile'') of (p, c) \<Rightarrow>
                              (obj_set n1 (js ''currentSession'') (JObj (obj_set (props cs) (js ''profile'') p)), c))
                      else (n1, False))
      in (JObj n2, c1 \<or> c2))"

definition patchStoredSessionUserId :: "jsval \<Rightarrow> unit prog" where
  "patchStoredSessionUserId userId =
     (let uid = parseNumericUserId userId in
      if uid = [] then ret ()
      else do {
        raw \<leftarrow> store_get ''vtAuth'';
        (if \<not> is_object raw then ret ()
         else (case patch_session uid raw of (next', changed) \<Rightarrow>
                 if changed then store_set ''vtAuth'' next' else ret ())) })"

subsection \<open>Resolution\<close>

text \<open>Caching a resolved id by address, when there is one, and in the session.\<close>

definition remember :: "env \<Rightarrow> ustr \<Rightarrow> ustr \<Rightarrow> unit prog" where
  "remember e email uid = do {
     (if email \<noteq> [] then cacheEmailUserId e (JStr email) (JStr uid) else ret ());
     patchStoredSessionUserId (JStr uid) }"

definition resolveUsersTableUserIdSafe :: "env \<Rightarrow> jsval \<Rightarrow> ustr \<Rightarrow> ustr throwing" where
  "resolveUsersTableUserIdSafe e profile authToken =
     (let email = normalizeEmail (fld profile ''email''); direct = numericUserIdFromProfile profile in
      if direct \<noteq> [] then do { remember e email direct; ok direct }
      else do {
        cached \<leftarrow> (if email \<noteq> [] then findCachedUserIdByEmail e (JStr email) else ret []);
        if cached \<noteq> [] then do { patchStoredSessionUserId (JStr cached); ok cached }
        else do {
          r \<leftarrow> resolveUsersTableUserId e profile authToken;
          (let n = (case r of Inl x \<Rightarrow> [] | Inr uid \<Rightarrow> parseNumericUserId (JStr uid)) in
           if n \<noteq> [] then do { remember e email n; ok n }
           else (let fallback = numericUserIdFromProfile profile in
                 if fallback \<noteq> [] then do { remember e email fallback; ok fallback }
                 else throw USER_ID_INVALID)) } })"

text \<open>The profile of a session, with the provider the session names.\<close>

definition normalizeAuthProfile :: "jsval \<Rightarrow> jsval" where
  "normalizeAuthProfile authSess =
     (let src = (if is_object (fld authSess ''profile'') then fld authSess ''profile'' else JObj []);
          raw = fld authSess ''raw'';
          provider = toLowerCase (trim (to_str (js_ors [fld src ''provider'', fld raw ''provider'',
            fld (fld raw ''currentSession'') ''provider'', fld src ''auth_provider'', JStr []])))
      in if provider = [] then JObj (props src)
         else if toLowerCase (trim (str_or_empty (fld src ''provider''))) = provider then JObj (props src)
         else JObj (obj_set (props src) (js ''provider'') (JStr provider)))"

definition buildUserIdDebug :: "jsval \<Rightarrow> ustr \<Rightarrow> jsval" where
  "buildUserIdDebug profile authToken =
     JObj [(js ''email'', JStr (toLowerCase (trim (str_or_empty (fld profile ''email''))))),
           (js ''provider'', JStr (toLowerCase (trim (str_or_empty (fld profile ''provider''))))),
           (js ''id'', JStr (str_or_empty (fld profile ''id''))),
           (js ''user_id'', JStr (str_or_empty (fld profile ''user_id''))),
           (js ''db_user_id'', JStr (str_or_empty (fld profile ''db_user_id''))),
           (js ''has_auth_token'', JBool (trim authToken \<noteq> []))]"

end
