(* ===== verification/Sw_Identity_Contract.thy ===== *)
theory Sw_Identity_Contract
  imports Sw_Identity
begin

section \<open>What the identity functions of the worker promise\<close>

text \<open>
  The cache is a map with a bound: what was stored last is found again, at most \<open>MAX_KEYS\<close> entries
  are kept, and below the bound nothing is lost.  Patching a session is idempotent and leaves the
  rest of it alone.  A resolution returns a decimal id, and asks no server when the profile has one.
\<close>

subsection \<open>The cache\<close>

text \<open>Caches as \<open>sanitizeEmailUserIdMap\<close> returns them.\<close>

definition emap_ok :: "email_map \<Rightarrow> bool" where
  "emap_ok m \<longleftrightarrow> distinct (obj_keys m) \<and> (\<forall>(k, u, t) \<in> set m. k \<noteq> [] \<and> normalizeEmail (JStr k) = k \<and> decimal u)"

lemma set_obj_set: "x \<in> set (obj_set m k v) \<Longrightarrow> x = (k, v) \<or> x \<in> set m"
  by (induction m k v rule: obj_set.induct) (auto split: if_splits)

lemma emap_ok_set:
  "emap_ok m \<Longrightarrow> normalizeEmail v \<noteq> [] \<Longrightarrow> decimal u \<Longrightarrow> emap_ok (obj_set m (normalizeEmail v) (u, t))"
  unfolding emap_ok_def by (auto simp: distinct_obj_set dest!: set_obj_set)

lemma entry_time_store: "w_store (snd (run_state (entry_time e v) w)) = w_store w"
  by (auto simp: entry_time_def split: option.split prod.split)

lemma entry_time_reqs: "sends P (entry_time e v)"
  unfolding entry_time_def by (intro sends_bind sends_if sends_ret sends_prims) (auto split: option.split)

lemma sanitize_loop_ok: "emap_ok acc \<Longrightarrow> run_state (sanitize_loop e kvs acc) w = (m, w') \<Longrightarrow> emap_ok m \<and> w_store w' = w_store w"
proof (induction e kvs acc arbitrary: w rule: sanitize_loop.induct)
  case (2 e k v kvs acc)
  let ?uid = "parseNumericUserId (js_coalesces [fld v ''user_id'', fld v ''id'', v])"
  show ?case
  proof (cases "normalizeEmail (JStr k) = [] \<or> ?uid = []")
    case True
    with 2 show ?thesis by (simp add: Let_def)
  next
    case False
    obtain t w1 where t: "run_state (entry_time e v) w = (t, w1)" by fastforce
    then have "w_store w1 = w_store w" using entry_time_store [of e v w] by simp
    moreover have "emap_ok (obj_set acc (normalizeEmail (JStr k)) (?uid, t))"
      using False 2(3) by (intro emap_ok_set workerId.norm_decimal) simp_all
    moreover have "run_state (sanitize_loop e kvs (obj_set acc (normalizeEmail (JStr k)) (?uid, t))) w1 = (m, w')"
      using 2(4) False t by (simp add: Let_def)
    ultimately show ?thesis using 2(2) [OF refl refl False, of t w1] by metis
  qed
qed simp

lemma fld_entry_val [simp]: "fld (entry_val (u, t)) ''user_id'' = JStr u"
  by (simp add: entry_val_def)

text \<open>Reading back a stored cache gives its ids in the same order.\<close>

definition ids :: "email_map \<Rightarrow> (ustr \<times> ustr) list" where
  "ids m = map (\<lambda>(k, u, t). (k, u)) m"

lemma ids_simps [simp]: "ids [] = []" "ids (x # m) = (fst x, fst (snd x)) # ids m" "ids (a @ b) = ids a @ ids b"
  by (simp_all add: ids_def split: prod.split)

lemma map_of_ids: "map_of (ids m) k = map_option fst (map_of m k)"
  by (induction m) auto

lemma sanitize_stored:
  "emap_ok (acc @ m) \<Longrightarrow> run_state (sanitize_loop e (map (\<lambda>(k, x). (k, entry_val x)) m) acc) w = (r, w') \<Longrightarrow> ids r = ids acc @ ids m"
proof (induction m arbitrary: acc w)
  case (Cons x m)
  obtain k u t where x: "x = (k, u, t)" by (cases x)
  from Cons.prems(1) have k: "k \<noteq> []" "normalizeEmail (JStr k) = k" "decimal u" "k \<notin> set (obj_keys acc)"
    by (auto simp: emap_ok_def x)
  have u: "u \<noteq> []" using k(3) by auto
  obtain t' w1 where t': "run_state (entry_time e (entry_val (u, t))) w = (t', w1)" by fastforce
  have "run_state (sanitize_loop e (map (\<lambda>(k, x). (k, entry_val x)) m) (acc @ [(k, u, t')])) w1 = (r, w')"
    using Cons.prems(2) t' k u by (simp add: x Let_def obj_set_notin)
  moreover have "emap_ok ((acc @ [(k, u, t')]) @ m)"
    using Cons.prems(1) by (auto simp: emap_ok_def x)
  ultimately show ?case using Cons.IH [of "acc @ [(k, u, t')]" w1] by (simp add: x)
qed simp

lemma getMap_ok:
  assumes "run_state (getEmailUserIdMap e) w = (m, w')"
  shows "emap_ok m \<and> w_store w' = w_store w"
  using assms sanitize_loop_ok [of "[]" e "props (obj_get (w_store w) (js ''vtEmailUserIdMapV1''))" w m w']
  by (auto simp: getEmailUserIdMap_def sanitizeEmailUserIdMap_def emap_ok_def split: if_splits)

lemma getMap_stored:
  assumes "run_state (getEmailUserIdMap e) w = (r, w')" and "obj_get (w_store w) (js ''vtEmailUserIdMapV1'') = map_val m" and "emap_ok m"
  shows "ids r = ids m"
  using assms sanitize_stored [of "[]" m e w r w']
  by (simp add: getEmailUserIdMap_def sanitizeEmailUserIdMap_def map_val_def)

lemma find_stored:
  assumes "obj_get (w_store w) (js ''vtEmailUserIdMapV1'') = map_val m" and "emap_ok m"
    and "map_of m (normalizeEmail email) = Some (u, t)"
  shows "fst (run_state (findCachedUserIdByEmail e email) w) = u"
proof -
  obtain r w' where r: "run_state (getEmailUserIdMap e) w = (r, w')" by fastforce
  have "map_of (ids r) (normalizeEmail email) = Some u"
    using getMap_stored [OF r assms(1,2)] assms(3) by (simp add: map_of_ids)
  then obtain t' where t': "map_of r (normalizeEmail email) = Some (u, t')" by (auto simp: map_of_ids)
  have mem: "(normalizeEmail email, u, t) \<in> set m" using assms(3) by (rule map_of_SomeD)
  with assms(2) have "decimal u" "normalizeEmail email \<noteq> []" by (auto simp: emap_ok_def)
  with r t' show ?thesis by (simp add: findCachedUserIdByEmail_def)
qed

text \<open>Pruning keeps an entry that is newer than all others.\<close>

lemma hd_sort_key:
  assumes "x \<in> set xs" and "\<forall>y \<in> set xs. y \<noteq> x \<longrightarrow> f x < f y"
  shows "hd (sort_key f xs) = (x :: 'a) \<and> sort_key (f :: 'a \<Rightarrow> 'b::linorder) xs \<noteq> []"
proof -
  obtain y ys where s: "sort_key f xs = y # ys" using assms(1) by (metis list.exhaust set_empty2 set_sort empty_iff)
  have "sorted (map f (y # ys))" using sorted_sort_key [of f xs] unfolding s .
  then have "\<forall>z \<in> set (y # ys). f y \<le> f z" by auto
  then have "f y \<le> f x" using assms(1) s by (metis set_sort)
  moreover have "y \<in> set xs" using s by (metis list.set_intros(1) set_sort)
  ultimately have "y = x" using assms(2) by force
  with s show ?thesis by simp
qed

lemma prune_ok: "emap_ok m \<Longrightarrow> emap_ok (prune_map m)"
proof -
  assume m: "emap_ok m"
  define s where "s = sort_key (\<lambda>(k, u, t). - t) m"
  have "mset (obj_keys s) = mset (obj_keys m)" by (simp add: obj_keys_def s_def mset_map [symmetric] del: mset_map) (simp add: mset_map)
  then have "distinct (obj_keys s)" using m by (metis emap_ok_def mset_eq_imp_distinct_iff)
  then have "distinct (obj_keys (take MAX_KEYS s))" by (simp add: obj_keys_def take_map [symmetric])
  moreover have "set (take MAX_KEYS s) \<subseteq> set m" using set_take_subset [of MAX_KEYS s] by (simp add: s_def)
  ultimately show ?thesis using m unfolding prune_map_def s_def [symmetric] emap_ok_def by blast
qed

lemma prune_keeps:
  assumes "emap_ok m" and "(k, u, t) \<in> set m" and "\<forall>(k', u', t') \<in> set m. k' \<noteq> k \<longrightarrow> t' < t"
  shows "map_of (prune_map m) k = Some (u, t)"
proof -
  have d: "distinct (map fst m)" using assms(1) by (simp add: emap_ok_def obj_keys_def)
  have "\<forall>y \<in> set m. y \<noteq> (k, u, t) \<longrightarrow> (case (k, u, t) of (k, u, t) \<Rightarrow> - t) < (case y of (k, u, t) \<Rightarrow> - t)"
  proof (intro ballI impI)
    fix y assume y: "y \<in> set m" "y \<noteq> (k, u, t)"
    then have "fst y \<noteq> k" using d assms(2) by (metis eq_key_imp_eq_value fst_conv prod.collapse)
    then show "(case (k, u, t) of (k, u, t) \<Rightarrow> - t) < (case y of (k, u, t) \<Rightarrow> - t)" using assms(3) y(1) by (cases y) auto
  qed
  from hd_sort_key [OF assms(2) this]
  have "(k, u, t) \<in> set (prune_map m)" by (cases "sort_key (\<lambda>(k, u, t). - t) m") (auto simp: prune_map_def MAX_KEYS_def)
  moreover have "distinct (map fst (prune_map m))" using prune_ok [OF assms(1)] by (simp add: emap_ok_def obj_keys_def)
  ultimately show ?thesis by simp
qed

lemma cache_run:
  assumes "normalizeEmail email \<noteq> []" and "parseNumericUserId userId \<noteq> []" and "run_state (getEmailUserIdMap e) w = (m, w1)"
  defines "m' \<equiv> obj_set m (normalizeEmail email) (parseNumericUserId userId, e_now e (w_ticks w1))"
  shows "run_state (cacheEmailUserId e email userId) w =
    ((), w1\<lparr>w_ticks := Suc (w_ticks w1),
            w_store := obj_set (w_store w1) (js ''vtEmailUserIdMapV1'')
              (map_val (if MAX_KEYS < length m' then prune_map m' else m'))\<rparr>)"
  using assms(1-3) by (simp add: cacheEmailUserId_def m'_def Let_def)

subsection \<open>The session\<close>

lemma obj_set_same: "obj_set (obj_set o' k v) k v = obj_set o' k v"
  by (induction o' k v rule: obj_set.induct) auto

lemma patchProfile_keeps:
  assumes "decimal uid"
  shows "truthy (fst (patchProfile uid p)) = truthy p"
    and "patchProfile uid (fst (patchProfile uid p)) = (fst (patchProfile uid p), False)"
  using assms by (cases p; auto simp: patchProfile_def fld_def)+

lemma patchProfile_id:
  "decimal uid \<Longrightarrow> is_object (fst (patchProfile uid p)) \<Longrightarrow> parseNumericUserId (fld (fst (patchProfile uid p)) ''user_id'') = uid"
  by (auto simp: patchProfile_def fld_def split: if_splits)

lemma obj_set_get: "obj_get o' k = v \<Longrightarrow> v \<noteq> JUndef \<Longrightarrow> obj_set o' k v = o'"
  by (induction o' k v rule: obj_set.induct) (auto simp: obj_get_def split: option.splits if_splits)

subsection \<open>Resolution\<close>

lemma sends_sanitize: "sends P (sanitize_loop e kvs acc)"
proof (induction e kvs acc rule: sanitize_loop.induct)
  case (2 e k v kvs acc)
  then show ?case by (simp only: sanitize_loop.simps Let_def) (intro sends_if sends_bind entry_time_reqs; blast)
qed simp

lemma sends_getMap: "sends P (getEmailUserIdMap e)"
  unfolding getEmailUserIdMap_def sanitizeEmailUserIdMap_def
  by (intro sends_bind sends_prims sends_if sends_ret sends_sanitize)

lemma sends_cache: "sends P (cacheEmailUserId e email uid)"
  unfolding cacheEmailUserId_def Let_def by (intro sends_bind sends_prims sends_if sends_ret sends_getMap)

lemma sends_find: "sends P (findCachedUserIdByEmail e email)"
  unfolding findCachedUserIdByEmail_def Let_def by (intro sends_bind sends_if sends_ret sends_getMap)

lemma sends_patch: "sends P (patchStoredSessionUserId uid)"
  unfolding patchStoredSessionUserId_def Let_def
  by (intro sends_bind sends_prims sends_if sends_ret) (auto split: prod.split)

lemma sends_remember: "sends P (remember e email uid)"
  unfolding remember_def by (intro sends_bind sends_if sends_ret sends_cache sends_patch)

lemma sends_none: "sends (\<lambda>q. False) m \<Longrightarrow> run_state m w = (a, w') \<Longrightarrow> w_reqs w' = w_reqs w"
  by (erule sends_run) (auto simp: list_all_iff split: list.splits dest: hd_in_set)

lemma find_shape: "pred_state id_or_empty (findCachedUserIdByEmail e email)"
  unfolding findCachedUserIdByEmail_def Let_def
  by (intro pred_if pred_ret pred_bind) (auto split: option.split simp: workerId.norm_shape)

lemma resolveSafe_resolved: "pred_state resolved (resolveUsersTableUserIdSafe e profile tok)"
proof -
  have d: "id_or_empty (numericUserIdFromProfile profile)" by (rule numericUserId_shape)
  have f: "pred_state id_or_empty (if em \<noteq> [] then findCachedUserIdByEmail e (JStr em) else ret [])" for em
    by (intro pred_if find_shape pred_ret) simp
  show ?thesis
    unfolding resolveUsersTableUserIdSafe_def Let_def
    using d by (intro pred_if pred_bind_post [OF f] pred_bind pred_ret)
      (auto split: sum.splits dest: workerId.norm_decimal)
qed

text \<open>An environment and an id for the examples.\<close>

definition offline_env :: env where
  "offline_env = example_env (\<lambda>h q. Inl (js ''offline'')) (\<lambda>t. None)"

lemma decimal_8: "decimal (js ''8'')"
  by code_simp

subsection \<open>Properties\<close>

text \<open>An id stored for an address is found again for it, if the clock is ahead of the stored times; the
  stored cache never has more than \<open>MAX_KEYS\<close> entries, and below that bound every other entry is kept.\<close>

lemma cache_roundtrip:
  assumes "normalizeEmail email \<noteq> []" and "parseNumericUserId userId \<noteq> []"
    and "run_state (getEmailUserIdMap e) w = (m, w1)" and "\<forall>(k, u, t) \<in> set m. t < e_now e (w_ticks w1)"
    and "run_state (cacheEmailUserId e email userId) w = (x, w')"
  shows "fst (run_state (findCachedUserIdByEmail e email) w') = parseNumericUserId userId \<and>
    (\<exists>m'. obj_get (w_store w') (js ''vtEmailUserIdMapV1'') = map_val m' \<and> length m' \<le> MAX_KEYS \<and>
       (length m < MAX_KEYS \<longrightarrow> (\<forall>k. k \<noteq> normalizeEmail email \<longrightarrow> map_of m' k = map_of m k)))"
proof -
  define uid where "uid = parseNumericUserId userId"
  define now where "now = e_now e (w_ticks w1)"
  define m1 where "m1 = obj_set m (normalizeEmail email) (uid, now)"
  define m' where "m' = (if MAX_KEYS < length m1 then prune_map m1 else m1)"
  have duid: "decimal uid" using assms(2) unfolding uid_def by (rule workerId.norm_decimal)
  have ok1: "emap_ok m1" using getMap_ok [OF assms(3)] duid assms(1) unfolding m1_def by (intro emap_ok_set) auto
  have ok': "emap_ok m'" using ok1 prune_ok by (simp add: m'_def)
  have store: "obj_get (w_store w') (js ''vtEmailUserIdMapV1'') = map_val m'"
    using assms(5) cache_run [OF assms(1-3)] by (auto simp: m'_def m1_def uid_def now_def)
  have dist: "distinct (obj_keys m1)" using ok1 by (simp add: emap_ok_def)
  have here: "map_of m1 (normalizeEmail email) = Some (uid, now)" by (simp add: m1_def)
  have older: "\<forall>(k', u', t') \<in> set m1. k' \<noteq> normalizeEmail email \<longrightarrow> t' < now"
    using assms(4) by (auto simp: m1_def now_def dest!: set_obj_set)
  have "map_of m' (normalizeEmail email) = Some (uid, now)"
    using prune_keeps [OF ok1 map_of_SomeD [OF here] older] here by (simp add: m'_def)
  from find_stored [OF store ok' this] have "fst (run_state (findCachedUserIdByEmail e email) w') = uid" .
  moreover have "length m' \<le> MAX_KEYS" by (simp add: m'_def prune_map_def)
  moreover have "length m < MAX_KEYS \<Longrightarrow> map_of m' k = map_of m k" if "k \<noteq> normalizeEmail email" for k
    using length_obj_set_le [of m "normalizeEmail email" "(uid, now)"] that by (simp add: m'_def m1_def)
  ultimately show ?thesis using store unfolding uid_def by blast
qed

text \<open>Patching a stored session with an id makes every profile in it carry the id in both fields,
  changes no other field of the session, and a second patch finds nothing to change.\<close>

lemma patch_session_stable:
  assumes "decimal uid" and "patch_session uid (JObj o') = (next', changed)"
  shows "patch_session uid next' = (next', False) \<and>
    (is_object (fld next' ''profile'') \<longrightarrow> parseNumericUserId (fld (fld next' ''profile'') ''user_id'') = uid) \<and>
    (\<forall>k. k \<noteq> js ''profile'' \<and> k \<noteq> js ''currentSession'' \<longrightarrow> get next' k = obj_get o' k)"
proof -
  let ?P = "js ''profile''" and ?C = "js ''currentSession''"
  define p0 where "p0 = obj_get o' ?P"
  define p1 where "p1 = fst (patchProfile uid p0)"
  define n1 where "n1 = (if truthy p0 then obj_set o' ?P p1 else o')"
  define cs where "cs = obj_get o' ?C"
  define p2 where "p2 = fst (patchProfile uid (fld cs ''profile''))"
  define cs' where "cs' = JObj (obj_set (props cs) ?P p2)"
  define n2 where "n2 = (if truthy (fld cs ''profile'') then obj_set n1 ?C cs' else n1)"
  have PC: "?P \<noteq> ?C" by simp
  have cs1: "obj_get n1 ?C = cs" using PC by (simp add: n1_def cs_def)
  have next': "next' = JObj n2"
    using assms(2) unfolding patch_session_def n2_def cs'_def p2_def
    by (auto simp: n1_def p1_def p0_def cs1 [symmetric] Let_def split: prod.splits if_splits)
  have t1: "truthy p1 = truthy p0" and u1: "patchProfile uid p1 = (p1, False)"
    using patchProfile_keeps [OF assms(1)] by (simp_all add: p1_def)
  have t2: "truthy p2 = truthy (fld cs ''profile'')" and u2: "patchProfile uid p2 = (p2, False)"
    using patchProfile_keeps [OF assms(1)] by (simp_all add: p2_def)
  have g1: "obj_get n2 ?P = (if truthy p0 then p1 else p0)" using PC by (simp add: n2_def n1_def p0_def)
  have s1: "truthy p0 \<Longrightarrow> obj_set n2 ?P p1 = n2" using g1 t1 by (intro obj_set_get) auto
  have g2: "obj_get n2 ?C = (if truthy (fld cs ''profile'') then cs' else cs)" by (simp add: n2_def cs1)
  have f2: "fld cs' ''profile'' = p2" by (simp add: cs'_def fld_def)
  have s2: "truthy (fld cs ''profile'') \<Longrightarrow> JObj (obj_set (props cs') ?P p2) = cs'" by (simp add: cs'_def obj_set_same)
  have s3: "truthy (fld cs ''profile'') \<Longrightarrow> obj_set n2 ?C cs' = n2" using g2 by (intro obj_set_get) (auto simp: cs'_def)
  have again: "patch_session uid next' = (next', False)"
  proof (cases "truthy p0")
    case True
    then show ?thesis using g1 g2 f2 t2 u1 u2 t1 s1 s2 s3 by (simp add: patch_session_def next' Let_def split: if_split)
  next
    case False
    then show ?thesis using g1 g2 f2 t2 u2 s2 s3 by (simp add: patch_session_def next' Let_def split: if_split)
  qed
  have "fld next' ''profile'' = (if truthy p0 then p1 else p0)" using g1 by (simp add: next' fld_def)
  moreover have "is_object p0 \<Longrightarrow> truthy p0" by (cases p0) auto
  moreover have "is_object p1 \<Longrightarrow> parseNumericUserId (fld p1 ''user_id'') = uid"
    using patchProfile_id [OF assms(1), of p0] by (simp add: p1_def)
  ultimately have "is_object (fld next' ''profile'') \<longrightarrow> parseNumericUserId (fld (fld next' ''profile'') ''user_id'') = uid"
    by (auto split: if_splits)
  moreover have "get next' k = obj_get o' k" if "k \<noteq> ?P \<and> k \<noteq> ?C" for k
    using that by (simp add: next' n2_def n1_def)
  ultimately show ?thesis using again by blast
qed

text \<open>A resolution in the worker returns a decimal id or throws \<open>USER_ID_INVALID\<close>, whatever the
  server and the storage hold; a profile that carries an id is resolved to it without any request.\<close>

lemma resolve_safe:
  assumes "run_state (resolveUsersTableUserIdSafe e profile tok) w = (r, w')"
  shows "resolved r \<and>
    (numericUserIdFromProfile profile \<noteq> [] \<longrightarrow> r = Inr (numericUserIdFromProfile profile) \<and> w_reqs w' = w_reqs w)"
proof (intro conjI impI)
  show "resolved r" using pred_stateD [OF resolveSafe_resolved assms] .
next
  assume d: "numericUserIdFromProfile profile \<noteq> []"
  obtain x w1 where 1: "run_state (remember e (normalizeEmail (fld profile ''email'')) (numericUserIdFromProfile profile)) w = (x, w1)"
    by (meson surj_pair)
  with assms d show "r = Inr (numericUserIdFromProfile profile)" by (simp add: resolveUsersTableUserIdSafe_def Let_def)
  from assms d 1 have "w' = w1" by (simp add: resolveUsersTableUserIdSafe_def Let_def)
  then show "w_reqs w' = w_reqs w" using sends_none [OF sends_remember 1] by simp
qed

end
