(* ===== verification/Sw_Auth.thy ===== *)
theory Sw_Auth
  imports Sw_Identity_Contract
begin

section \<open>URLs, tokens and the sign-in gate of the service worker\<close>

text \<open>
  How the worker derives the addresses of its servers, reads tokens without verifying them,
  refreshes an access token, asks for a ticket, and refuses requests of a user who is not signed in.
\<close>

subsection \<open>URLs\<close>

definition isForbiddenTabUrl :: "ustr \<Rightarrow> bool" where
  "isForbiddenTabUrl url \<longleftrightarrow>
     startsWith url (js ''chrome://'') \<or> startsWith url (js ''chrome-extension://'') \<or>
     startsWith url (js ''chrome-untrusted://'') \<or> startsWith url (js ''devtools://'') \<or>
     re_test_at_start (RSeq (RLit_i (js ''http'')) (RSeq (ROpt (RLit_i (js ''s'')))
       (RLit_i (js ''://chrome.google.com/webstore/'')))) url"

definition isLocalHost :: "ustr \<Rightarrow> bool" where
  "isLocalHost h \<longleftrightarrow> h = js ''localhost'' \<or> h = js ''127.0.0.1''"

text \<open>\<open>s.replace(/\/+$/, "")\<close>.\<close>

definition strip_slashes :: "ustr \<Rightarrow> ustr" where
  "strip_slashes s = replace_at_end (RPlus (\<lambda>c. c = 47)) [] s"

definition normalizePath :: "ustr \<Rightarrow> ustr" where
  "normalizePath p0 =
     (let p1 = strip_slashes p0;
          p2 = replace_at_end (RLit_i (js ''/openapi.json'')) [] p1;
          p3 = replace_at_end (RLit_i (js ''/docs'')) [] p2;
          p4 = replace_at_end (RLit_i (js ''/redoc'')) [] p3
      in strip_slashes p4)"

definition parseOne :: "env \<Rightarrow> ustr \<Rightarrow> ustr" where
  "parseOne e candidate =
     (case e_url e candidate of
        None \<Rightarrow> []
      | Some u \<Rightarrow>
          if u_protocol u \<noteq> js ''http:'' \<and> u_protocol u \<noteq> js ''https:'' then []
          else strip_slashes (u_origin u @ normalizePath (u_pathname u)))"

text \<open>\<open>/^[a-z][a-z0-9+.-]*:\/\//i\<close>.\<close>

definition has_scheme :: "ustr \<Rightarrow> bool" where
  "has_scheme s \<longleftrightarrow>
     re_test_at_start (RSeq (RCls (\<lambda>c. is_lower_ascii c \<or> is_upper_ascii c))
       (RSeq (RStar (\<lambda>c. is_lower_ascii c \<or> is_upper_ascii c \<or> is_digit c \<or> c \<in> {43, 46, 45})) (RLit (js ''://'')))) s"

definition normalizeHttpApiBase :: "env \<Rightarrow> jsval \<Rightarrow> ustr" where
  "normalizeHttpApiBase e raw =
     (let input = trim (str_or_empty raw) in
      if input = [] then []
      else if parseOne e input \<noteq> [] then parseOne e input
      else if \<not> has_scheme input \<and> parseOne e (js ''https://'' @ input) \<noteq> [] then parseOne e (js ''https://'' @ input)
      else strip_slashes input)"

definition deriveApiBaseFromServer :: "env \<Rightarrow> ustr \<Rightarrow> ustr" where
  "deriveApiBaseFromServer e serverUrl =
     (case e_url e serverUrl of
        None \<Rightarrow> []
      | Some u \<Rightarrow>
          (let origin = u_origin u in
           if startsWith origin (js ''wss://'') then replace_first (RLit (js ''wss://'')) (js ''https://'') origin
           else if startsWith origin (js ''ws://'') then replace_first (RLit (js ''ws://'')) (js ''http://'') origin
           else origin))"

definition stt_path :: "ustr \<Rightarrow> bool" where
  "stt_path p \<longleftrightarrow> re_test_at_start (RSeq (RLit_i (js ''/stt'')) (RAlt (RChr 47) REnd)) p"

definition to_tr_path :: "ustr \<Rightarrow> ustr" where
  "to_tr_path p = replace_at_start (RLit_i (js ''/stt'')) (js ''/tr'') p"

definition deriveTranslatorUrlFromServer :: "env \<Rightarrow> ustr \<Rightarrow> ustr" where
  "deriveTranslatorUrlFromServer e serverUrl =
     (case e_url e serverUrl of
        None \<Rightarrow> []
      | Some u \<Rightarrow>
          (let p = str_or (u_pathname u) (js ''/'') in
           if isLocalHost (u_hostname u) \<and> u_port u = js ''8765''
           then e_urlstr e (u\<lparr>u_port := js ''8766'', u_pathname := (if stt_path p then to_tr_path p else u_pathname u),
                             u_search := [], u_hash := []\<rparr>)
           else e_urlstr e (u\<lparr>u_pathname := (if stt_path p then to_tr_path p
                                            else if p = js ''/'' then js ''/tr'' else u_pathname u),
                             u_search := [], u_hash := []\<rparr>)))"

text \<open>\<open>(v || "").trim()\<close>: a truthy value that is not a string has no \<open>trim\<close>.\<close>

definition type_error :: err where
  "type_error = Err (js ''TypeError'')"

definition trim_or_throw :: "jsval \<Rightarrow> ustr throwing" where
  "trim_or_throw v = (if \<not> truthy v then ok [] else case v of JStr s \<Rightarrow> ok (trim s) | _
     \<Rightarrow> throw type_error)"

text \<open>The address and where it comes from.\<close>

definition resolveTranslatorUrl :: "env \<Rightarrow> ustr \<Rightarrow> ustr \<Rightarrow> (ustr \<times> string) throwing" where
  "resolveTranslatorUrl e serverUrl currentServer = do {
     v \<leftarrow> store_get ''sttTranslatorWs'';
     andThen (trim_or_throw v) (\<lambda>stored.
       if stored \<noteq> [] then ok (stored, ''stored'')
       else (let derived = deriveTranslatorUrlFromServer e (str_or serverUrl currentServer) in
             if derived \<noteq> [] then ok (derived, ''derived'') else ok ([], ''none''))) }"

subsection \<open>Tokens\<close>

definition decodeJwtPayloadNoVerify :: "env \<Rightarrow> jsval \<Rightarrow> jsval" where
  "decodeJwtPayloadNoVerify e token =
     (let parts = split_on 46 (str_or_empty token) in
      if length parts < 2 then JNull
      else (let b64 = b64_of_url (parts ! 1); pad = replicate ((4 - length b64 mod 4) mod 4) 61 in
            case atob (b64 @ pad) of
              None \<Rightarrow> JNull
            | Some json \<Rightarrow> (case e_json e json of
                None \<Rightarrow> JNull
              | Some obj \<Rightarrow> if is_object obj then obj else JNull)))"

definition token_candidates :: "jsval \<Rightarrow> ustr list" where
  "token_candidates sess =
     filter (\<lambda>s. s \<noteq> []) (map (\<lambda>x. trim (str_or_empty x))
       [fld (fld sess ''tokens'') ''access_token'', fld (fld sess ''tokens'') ''accessToken'',
        fld (fld (fld sess ''raw'') ''tokens'') ''access_token'', fld (fld (fld sess ''raw'') ''tokens'') ''accessToken'',
        fld (fld (fld (fld sess ''raw'') ''currentSession'') ''tokens'') ''access_token'',
        fld (fld (fld (fld sess ''raw'') ''currentSession'') ''tokens'') ''accessToken''])"

definition is_supabase_token :: "env \<Rightarrow> ustr \<Rightarrow> bool" where
  "is_supabase_token e tk \<longleftrightarrow>
     (let payload = decodeJwtPayloadNoVerify e (JStr tk) in
      str_includes (toLowerCase (str_or_empty (fld payload ''iss''))) (js ''supabase.co/auth/v1'') \<or>
      fld payload ''aud'' = JStr (js ''authenticated''))"

definition pickSupabaseAccessToken :: "env \<Rightarrow> jsval \<Rightarrow> ustr" where
  "pickSupabaseAccessToken e authSess =
     (case find (is_supabase_token e) (token_candidates authSess) of None \<Rightarrow> [] | Some tk \<Rightarrow> tk)"

fun thousand_times :: "jnum \<Rightarrow> jnum" where
  "thousand_times (JFin q) = JFin (1000 * q)"
| "thousand_times n = n"

definition safeJwtExpMs :: "env \<Rightarrow> jsval \<Rightarrow> jnum option" where
  "safeJwtExpMs e token =
     (let parts = split_on 46 (to_str token) in
      if length parts < 2 then None
      else case atob (b64_of_url (parts ! 1)) of
             None \<Rightarrow> None
           | Some txt \<Rightarrow> (case e_json e txt of
               None \<Rightarrow> None
             | Some json \<Rightarrow> (case fld json ''exp'' of JNum n \<Rightarrow> Some (thousand_times n) | _ \<Rightarrow> None)))"

definition getAccessToken :: "ustr \<Rightarrow> (jsval \<times> jsval \<times> string) prog" where
  "getAccessToken overrideToken =
     (if overrideToken \<noteq> [] then ret (JStr overrideToken, JUndef, ''override'')
      else do {
        api \<leftarrow> store_get ''sttApiToken'';
        vt \<leftarrow> store_get ''vtAuth'';
        (if truthy api then ret (api, JUndef, ''manual'')
         else (let t = fld vt ''tokens''; ct = fld (fld vt ''currentSession'') ''tokens'';
                   accessToken = js_ors [fld t ''access_token'', fld t ''accessToken'', fld ct ''access_token'', fld ct ''accessToken'', JStr []];
                   refreshToken = js_ors [fld t ''refresh_token'', fld t ''refreshToken'', fld ct ''refresh_token'', fld ct ''refreshToken'', JStr []]
               in ret (accessToken, refreshToken, if truthy accessToken then ''vtAuth'' else ''none''))) })"

definition json_headers :: "(ustr \<times> ustr) list" where
  "json_headers = [(js ''content-type'', js ''application/json'')]"

text \<open>\<open>await r.json().catch(() => ({}))\<close>.\<close>

definition json_or_obj :: "env \<Rightarrow> resp \<Rightarrow> jsval" where
  "json_or_obj e r = (case resp_json e r of None \<Rightarrow> JObj [] | Some j \<Rightarrow> j)"

definition maybeRefreshAccessToken :: "env \<Rightarrow> ustr \<Rightarrow> jsval \<Rightarrow> jsval \<Rightarrow> jsval prog" where
  "maybeRefreshAccessToken e apiBase accessToken refreshToken =
     (if apiBase = [] \<or> \<not> truthy accessToken \<or> \<not> truthy refreshToken then ret accessToken
      else case safeJwtExpMs e accessToken of
        None \<Rightarrow> ret accessToken
      | Some expMs \<Rightarrow>
          if \<not> truthy (JNum expMs) then ret accessToken
          else do {
            now \<leftarrow> Date_now e;
            (let late = (case expMs of JFin q \<Rightarrow> 60000 < q - now | JPosInf \<Rightarrow> True | _ \<Rightarrow> False);
                 base = normalizeHttpApiBase e (JStr apiBase)
             in if late \<or> base = [] then ret accessToken
                else do {
                  r \<leftarrow> fetch e \<lparr>rq_verb = POST, rq_url = base @ js ''/auth/refresh'', rq_query = [], rq_headers = json_headers,
                               rq_body = Some (JObj [(js ''refresh_token'', refreshToken)])\<rparr>;
                  ret (case r of
                         Inl x \<Rightarrow> accessToken
                       | Inr a \<Rightarrow>
                           (let j = json_or_obj e a; new = js_or (fld j ''access_token'') (fld j ''accessToken'')
                            in if rs_ok a \<and> truthy new then new else accessToken)) }) })"

definition requestWsTicket :: "env \<Rightarrow> ustr \<Rightarrow> jsval \<Rightarrow> ustr \<Rightarrow> jsval throwing" where
  "requestWsTicket e apiBase accessToken server =
     (let base = normalizeHttpApiBase e (JStr apiBase) in
      if base = [] then throw (Err (js ''API_BASE_INVALID''))
      else andThen (fetch e \<lparr>rq_verb = POST, rq_url = base @ js ''/stt/ws-ticket'', rq_query = [],
               rq_headers = json_headers @ [(js ''authorization'', js ''Bearer '' @ to_str accessToken)],
               rq_body = Some (JObj [(js ''server'', JStr server)])\<rparr>)
        (\<lambda>r. let j = json_or_obj e r in
          if \<not> rs_ok r
          then throw (Err (to_str (js_ors [fld j ''error'', fld j ''message'', JStr (js ''TICKET_FAILED_'' @ int_str (rs_status r))])))
          else if nullish j then throw type_error
          else (let wsUrl = js_ors [fld j ''ws_url'', fld j ''wsUrl'', fld j ''wss_url'', fld j ''wssUrl'', JStr []];
                    ticket = js_ors [fld j ''ticket'', fld j ''ws_ticket'', JStr []]
                in if truthy wsUrl then ok wsUrl
                   else if truthy ticket
                   then (case e_url e server of
                           None \<Rightarrow> throw type_error
                         | Some u \<Rightarrow> ok (JStr (e_setparam e u (js ''ticket'') (to_str ticket))))
                   else throw (Err (js ''TICKET_RESPONSE_INVALID'')))))"

subsection \<open>The sign-in gate\<close>

definition getVtAuthSession :: "jsval prog" where
  "getVtAuthSession = do {
     v \<leftarrow> store_get ''vtAuth'';
     (let raw = js_or v JNull; cs = fld raw ''currentSession'' in
      ret (JObj [(js ''raw'', raw), (js ''profile'', js_ors [fld raw ''profile'', fld cs ''profile'', JNull]),
                 (js ''tokens'', js_ors [fld raw ''tokens'', fld cs ''tokens'', JNull])])) }"

definition isAuthedSession :: "jsval \<Rightarrow> bool" where
  "isAuthedSession sess \<longleftrightarrow>
     (let p = fld sess ''profile'' in
      truthy p \<and> (truthy (fld p ''email'') \<or> truthy (fld p ''id'') \<or> truthy (fld p ''name'')))"

definition SYSTEM_BUSY_TEXT :: ustr where
  "SYSTEM_BUSY_TEXT = [72, 7879, 32, 116, 104, 7889, 110, 103, 32, 273, 97, 110, 103, 32, 98, 7853, 110, 44, 32,
     118, 117, 105, 32, 108, 242, 110, 103, 32, 116, 104, 7917, 32, 108, 7841, 105, 32, 115, 97, 117, 46]"

definition AUTH_REQUIRED_TEXT :: ustr where
  "AUTH_REQUIRED_TEXT = [55357, 56594, 32, 86, 117, 105, 32, 108, 242, 110, 103, 32, 273, 259, 110, 103, 32,
     110, 104, 7853, 112, 32, 273, 7875, 32, 115, 7917, 32, 100, 7909, 110, 103, 32, 116, 237, 110, 104, 32, 110,
     259, 110, 103, 32, 110, 224, 121, 46]"

definition cmd_msg :: "string \<Rightarrow> (ustr \<times> jsval) list \<Rightarrow> jsval" where
  "cmd_msg c fs = JObj ((js ''__cmd'', JStr (js c)) # fs)"

definition safeSendTab :: "env \<Rightarrow> jsval \<Rightarrow> jsval \<Rightarrow> bool prog" where
  "safeSendTab e tabId msg =
     (if \<not> truthy tabId then ret False
      else do { r \<leftarrow> emit e (ToTab tabId msg); ret (case r of Inl x \<Rightarrow> False | Inr v \<Rightarrow> True) })"

definition notifyPanel :: "env \<Rightarrow> jsval \<Rightarrow> jsval \<Rightarrow> unit prog" where
  "notifyPanel e tabId payload' =
     (if \<not> truthy tabId then ret ()
      else do { r \<leftarrow> safeSendTab e tabId (cmd_msg ''__PANEL_NOTIFY__'' [(js ''payload'', payload')]); ret () })"

definition notice :: "string \<Rightarrow> ustr \<Rightarrow> jsval" where
  "notice level t = JObj [(js ''level'', JStr (js level)), (js ''text'', JStr t)]"

definition markNeedAuth :: "env \<Rightarrow> string \<Rightarrow> unit prog" where
  "markNeedAuth e action = do {
     t \<leftarrow> Date_now e;
     store_set ''vtNeedAuth'' (JObj [(js ''at'', JNum (JFin t)), (js ''action'', JStr (js action))]) }"

definition broadcastAuthRequired :: "env \<Rightarrow> string \<Rightarrow> unit prog" where
  "broadcastAuthRequired e action = do {
     r \<leftarrow> emit e (ToRuntime (cmd_msg ''__AUTH_REQUIRED__'' [(js ''payload'', JObj [(js ''action'', JStr (js action))])]));
     ret () }"

definition auth_required_reply :: jsval where
  "auth_required_reply =
     JObj [(js ''ok'', JBool False), (js ''code'', JStr (js ''AUTH_REQUIRED'')), (js ''error'', JStr AUTH_REQUIRED_TEXT)]"

definition notifyAuthRequired :: "env \<Rightarrow> string \<Rightarrow> jsval \<Rightarrow> unit prog" where
  "notifyAuthRequired e action tabId = do {
     markNeedAuth e action;
     broadcastAuthRequired e action;
     (if truthy tabId then notifyPanel e tabId (notice ''error'' AUTH_REQUIRED_TEXT) else ret ());
     reply auth_required_reply }"

definition requireAuthOrFail :: "env \<Rightarrow> string \<Rightarrow> jsval \<Rightarrow> jsval option prog" where
  "requireAuthOrFail e action tabId = do {
     sess \<leftarrow> getVtAuthSession;
     (if isAuthedSession sess then ret (Some sess)
      else do { notifyAuthRequired e action tabId; ret None }) }"

definition buildSystemBusyResponse :: jsval where
  "buildSystemBusyResponse =
     JObj [(js ''ok'', JBool False), (js ''code'', JStr (js ''SYSTEM_BUSY'')), (js ''error'', JStr SYSTEM_BUSY_TEXT)]"

definition notifySystemBusy :: "env \<Rightarrow> jsval \<Rightarrow> unit prog" where
  "notifySystemBusy e tabId = (if \<not> truthy tabId then ret () else notifyPanel e tabId (notice ''error'' SYSTEM_BUSY_TEXT))"

end
