(* ===== verification/Sw_Translator.thy ===== *)
theory Sw_Translator
  imports Actions Sw_Auth Persist_Contract Overlay_Contract
begin

section \<open>The state of the service worker and its translator socket\<close>

text \<open>
  The record \<open>sw\<close> holds the variables of service_worker.js (the debug counters are left out).  A
  handler is a program over it and the world.  Handlers run to completion; the one place where the
  code lets other handlers in and the order matters, the \<open>await\<close> at the start of
  \<open>connectTranslator\<close>, is modelled by a count of suspended calls that an event of its own resumes.
  A socket is its \<open>readyState\<close>: the current one, if any, is open or not, and only the current
  one has handlers, because \<open>disconnectTranslator\<close> removes those of the previous one.
\<close>

record cur =
  c_tabId :: jsval
  c_server :: jsval
  c_finalWsUrl :: jsval
  c_startedAt :: jsval
  c_panelOpen :: bool
  c_starting :: bool

record modes =
  m_en :: bool
  m_vi :: bool
  m_voice :: bool
  m_record :: bool

record stable_en =
  se_full :: ustr
  se_seq :: jnum
  se_t_ms :: jnum

record sw =
  s_current :: "cur option"
  s_modes :: modes
  s_wantVI :: bool
  s_persist :: "(persist_opts \<times> persist) option"
  s_lastEn :: stable_en
  s_ws :: bool
  s_wsOpen :: bool
  s_url :: ustr
  s_backoff :: int
  s_timer :: bool
  s_hardReset :: bool
  s_lastSent :: rat
  s_lastRx :: rat
  s_notifyAt :: rat
  s_notifyText :: ustr
  s_connecting :: nat

definition no_stable :: stable_en where
  "no_stable = \<lparr>se_full = [], se_seq = JFin 0, se_t_ms = JFin 0\<rparr>"

definition sw_init :: sw where
  "sw_init =
     \<lparr>s_current = None, s_modes = \<lparr>m_en = False, m_vi = False, m_voice = False, m_record = False\<rparr>, s_wantVI = False,
      s_persist = None, s_lastEn = no_stable, s_ws = False, s_wsOpen = False, s_url = js ''ws://127.0.0.1:8766'',
      s_backoff = 500, s_timer = False, s_hardReset = False, s_lastSent = -1, s_lastRx = -1, s_notifyAt = 0,
      s_notifyText = [], s_connecting = 0\<rparr>"

type_synonym 'a act = "(sw, 'a) action"
type_synonym 'a act_throwing = "(sw, err + 'a) action"

text \<open>\<open>current?.tabId\<close>, \<open>current?.startedAt || current?.starting\<close>.\<close>

definition cur_tab :: "sw \<Rightarrow> jsval" where
  "cur_tab s = (case s_current s of None \<Rightarrow> JUndef | Some c \<Rightarrow> c_tabId c)"

definition running :: "sw \<Rightarrow> bool" where
  "running s = (case s_current s of None \<Rightarrow> False | Some c \<Rightarrow> truthy (c_startedAt c) \<or> c_starting c)"

definition active :: "sw \<Rightarrow> bool" where
  "active s = (case s_current s of None \<Rightarrow> False | Some c \<Rightarrow> truthy (c_startedAt c))"

definition starting :: "sw \<Rightarrow> bool" where
  "starting s = (case s_current s of None \<Rightarrow> False | Some c \<Rightarrow> c_starting c)"

subsection \<open>Connecting and disconnecting\<close>

definition shouldTranslateNow :: "sw \<Rightarrow> bool" where
  "shouldTranslateNow s \<longleftrightarrow> s_wantVI s \<and> truthy (cur_tab s) \<and> running s"

definition disconnectTranslator :: "env \<Rightarrow> bool \<Rightarrow> unit act" where
  "disconnectTranslator e hard = do {
     mods (\<lambda>s. s\<lparr>s_timer := False\<rparr>);
     ws \<leftarrow> gets s_ws;
     whenA ws (do { r \<leftarrow> onw (emit e (Ws ''close'' JNull)); skip });
     mods (\<lambda>s. s\<lparr>s_ws := False, s_wsOpen := False\<rparr>);
     whenA hard (mods (\<lambda>s. s\<lparr>s_backoff := 500, s_lastSent := -1, s_lastRx := -1, s_notifyAt := 0, s_notifyText := [],
                            s_lastEn := no_stable\<rparr>)) }"

definition scheduleTranslatorReconnect :: "unit act" where
  "scheduleTranslatorReconnect = do {
     go \<leftarrow> gets shouldTranslateNow;
     whenA go (mods (\<lambda>s. s\<lparr>s_timer := True, s_backoff := min 5000 (2 * s_backoff s)\<rparr>)) }"

definition transSend :: "env \<Rightarrow> jsval \<Rightarrow> bool act" where
  "transSend e obj = do {
     open' \<leftarrow> gets (\<lambda>s. s_ws s \<and> s_wsOpen s);
     (if \<not> open' then State_Monad.return False
      else do { r \<leftarrow> onw (emit e (Ws ''send'' obj)); State_Monad.return (case r of Inl x \<Rightarrow> False | Inr v \<Rightarrow> True) }) }"

text \<open>\<open>Number(v || 0)\<close>.\<close>

definition num_or_zero :: "jsval \<Rightarrow> jnum" where
  "num_or_zero v = to_num (js_or v (JInt 0))"

definition baseline_msg :: "stable_en \<Rightarrow> jsval" where
  "baseline_msg b =
     JObj [(js ''type'', JStr (js ''baseline'')), (js ''full'', JStr (se_full b)), (js ''seq'', JNum (num_or_zero (JNum (se_seq b)))),
           (js ''t_ms'', JNum (num_or_zero (JNum (se_t_ms b))))]"

definition transSendBaselineIfAny :: "env \<Rightarrow> unit act" where
  "transSendBaselineIfAny e = do {
     b \<leftarrow> gets s_lastEn;
     whenA (se_full b \<noteq> []) (do { r \<leftarrow> transSend e (baseline_msg b); skip }) }"

definition transSendReset :: "env \<Rightarrow> unit act" where
  "transSendReset e = do { r \<leftarrow> transSend e (JObj [(js ''type'', JStr (js ''reset''))]); skip }"

text \<open>The call up to its first \<open>await\<close>, and the rest.\<close>

definition connect_begin :: "unit act" where
  "connect_begin = do {
     go \<leftarrow> gets shouldTranslateNow;
     whenA go (mods (\<lambda>s. s\<lparr>s_connecting := Suc (s_connecting s)\<rparr>)) }"

definition cur_server :: "sw \<Rightarrow> ustr" where
  "cur_server s = (case s_current s of None \<Rightarrow> [] | Some c \<Rightarrow> str_or_empty (c_server c))"

definition connect_resume :: "env \<Rightarrow> unit act" where
  "connect_resume e = do {
     n \<leftarrow> gets s_connecting;
     whenA (0 < n) (do {
       mods (\<lambda>s. s\<lparr>s_connecting := n - 1\<rparr>);
       srv \<leftarrow> gets cur_server;
       res \<leftarrow> onw (resolveTranslatorUrl e srv srv);
       (case res of
          Inl x \<Rightarrow> skip
        | Inr (url, source) \<Rightarrow> do {
            whenA (url \<noteq> []) (mods (\<lambda>s. s\<lparr>s_url := url\<rparr>));
            disconnectTranslator e False;
            target \<leftarrow> gets s_url;
            r \<leftarrow> onw (emit e (Ws ''open'' (JStr target)));
            (case r of
               Inl x \<Rightarrow> scheduleTranslatorReconnect
             | Inr v \<Rightarrow> mods (\<lambda>s. s\<lparr>s_ws := True, s_wsOpen := False\<rparr>)) }) }) }"

definition maybeUpdateTranslator :: "env \<Rightarrow> bool \<Rightarrow> unit act" where
  "maybeUpdateTranslator e forceStop = do {
     go \<leftarrow> gets shouldTranslateNow;
     (if forceStop \<or> \<not> go then disconnectTranslator e True
      else do { ws \<leftarrow> gets s_ws; whenA (\<not> ws) connect_begin }) }"

subsection \<open>Feeding stable texts\<close>

text \<open>The number that the guard compares: \<open>Number(seq ?? 0)\<close>, if it is finite and positive.\<close>

definition feed_num :: "jsval \<Rightarrow> rat option" where
  "feed_num seq = (case num_opt (js_coalesce seq (JInt 0)) of Some q \<Rightarrow> if 0 < q then Some q else None | None \<Rightarrow> None)"

definition guardFeed :: "jsval \<Rightarrow> sw \<Rightarrow> bool \<times> sw" where
  "guardFeed seq s =
     (case feed_num seq of
        None \<Rightarrow> (True, s)
      | Some q \<Rightarrow> if q \<le> s_lastSent s then (False, s) else (True, s\<lparr>s_lastSent := q\<rparr>))"

definition stable_msg :: "ustr \<Rightarrow> jsval \<Rightarrow> jsval \<Rightarrow> jsval" where
  "stable_msg full seq t_ms =
     JObj [(js ''type'', JStr (js ''stable'')), (js ''full'', JStr full),
           (js ''seq'', js_or (JNum (to_num (js_coalesce seq (JInt 0)))) (JInt 0)), (js ''t_ms'', JNum (num_or_zero t_ms))]"

definition feedTranslatorStable :: "env \<Rightarrow> ustr \<Rightarrow> jsval \<Rightarrow> jsval \<Rightarrow> unit act" where
  "feedTranslatorStable e full seq t_ms = do {
     go \<leftarrow> gets (\<lambda>s. shouldTranslateNow s \<and> s_ws s \<and> s_wsOpen s);
     whenA go (do {
       keep \<leftarrow> gets (\<lambda>s. fst (guardFeed seq s));
       mods (\<lambda>s. snd (guardFeed seq s));
       whenA keep (do { r \<leftarrow> transSend e (stable_msg full seq t_ms); skip }) }) }"

subsection \<open>Events of the socket\<close>

definition to_tab :: "env \<Rightarrow> jsval \<Rightarrow> unit act" where
  "to_tab e msg = do { tab \<leftarrow> gets cur_tab; r \<leftarrow> onw (safeSendTab e tab msg); skip }"

definition ws_onopen :: "env \<Rightarrow> unit act" where
  "ws_onopen e = do {
     ws \<leftarrow> gets s_ws;
     whenA ws (do {
       mods (\<lambda>s. s\<lparr>s_wsOpen := True, s_backoff := 500, s_lastRx := -1\<rparr>);
       tab \<leftarrow> gets cur_tab;
       whenA (\<not> nullish tab) (to_tab e (cmd_msg ''__TRANS_VI_RESET__'' []));
       hr \<leftarrow> gets s_hardReset;
       (if hr then do {
          transSendReset e;
          transSendBaselineIfAny e;
          mods (\<lambda>s. s\<lparr>s_hardReset := False\<rparr>) }
        else transSendBaselineIfAny e) }) }"

definition ws_onclose :: "unit act" where
  "ws_onclose = do {
     ws \<leftarrow> gets s_ws;
     whenA ws (do { mods (\<lambda>s. s\<lparr>s_wsOpen := False\<rparr>); scheduleTranslatorReconnect }) }"

definition reconnect_timer :: "unit act" where
  "reconnect_timer = do {
     t \<leftarrow> gets s_timer;
     whenA t (do { mods (\<lambda>s. s\<lparr>s_timer := False\<rparr>); connect_begin }) }"

text \<open>The positive sequence number of a translation, if it has one.\<close>

definition vi_num :: "jsval \<Rightarrow> rat option" where
  "vi_num obj = feed_num (fld obj ''seq'')"

definition payload_msg :: "string \<Rightarrow> jsval \<Rightarrow> jsval" where
  "payload_msg c p = cmd_msg c [(js ''payload'', p)]"

definition TRANSLATOR_DOWN_TEXT :: ustr where
  "TRANSLATOR_DOWN_TEXT = [80, 104, 105, 234, 110, 32, 100, 7883, 99, 104, 32, 116, 7841, 109, 32, 116, 104,
     7901, 105, 32, 107, 104, 244, 110, 103, 32, 107, 104, 7843, 32, 100, 7909, 110, 103, 58, 32]"

definition ws_hello :: "env \<Rightarrow> jsval \<Rightarrow> unit act" where
  "ws_hello e obj =
     (let d = js_or (fld obj ''detail'') (JObj []) in
      to_tab e (payload_msg ''__TRANS_VI_CFG__''
        (JObj [(js ''draftEnabled'', JBool (truthy (fld d ''vi_draft_enabled''))),
               (js ''sentenceLag'', numOrNull (fld d ''sentence_lag''))])))"

definition ws_error :: "env \<Rightarrow> jsval \<Rightarrow> unit act" where
  "ws_error e obj = do {
     (let t = to_str (js_ors [fld obj ''error'', fld obj ''message'', fld obj ''detail'', JStr (js ''Translator error'')]) in do {
       now \<leftarrow> onw (Date_now e);
       due \<leftarrow> gets (\<lambda>s. t \<noteq> s_notifyText s \<or> 8000 \<le> now - s_notifyAt s);
       whenA due (do {
         mods (\<lambda>s. s\<lparr>s_notifyAt := now, s_notifyText := t\<rparr>);
         tab \<leftarrow> gets cur_tab;
         onw (notifyPanel e tab (notice ''info'' (TRANSLATOR_DOWN_TEXT @ t))) }) }) }"

definition ws_onmessage :: "env \<Rightarrow> jsval \<Rightarrow> unit act" where
  "ws_onmessage e data = do {
     ws \<leftarrow> gets s_ws;
     tab \<leftarrow> gets cur_tab;
     (case (data, ws) of
        (JStr txt, True) \<Rightarrow>
          (case e_json e txt of
             None \<Rightarrow> skip
           | Some obj \<Rightarrow>
               (let typ = toLowerCase (str_or_empty (fld obj ''type'')) in
                if \<not> truthy obj \<or> \<not> truthy (fld obj ''type'') \<or> \<not> truthy tab then skip
                else if typ = js ''hello'' then ws_hello e obj
                else if typ = js ''vi-commit'' then do {
                  mods (\<lambda>s. case vi_num obj of Some q \<Rightarrow> s\<lparr>s_lastRx := max (s_lastRx s) q\<rparr> | None \<Rightarrow> s);
                  to_tab e (payload_msg ''__TRANS_VI_COMMIT__'' obj) }
                else if typ = js ''vi-draft'' then to_tab e (payload_msg ''__TRANS_VI_DRAFT__'' obj)
                else if typ = js ''vi-delta'' then do {
                  dup \<leftarrow> gets (\<lambda>s. case vi_num obj of Some q \<Rightarrow> q \<le> s_lastRx s | None \<Rightarrow> False);
                  whenA (\<not> dup) (to_tab e (payload_msg ''__TRANS_VI_DELTA__'' obj)) }
                else if typ = js ''vi-stable'' then to_tab e (payload_msg ''__TRANS_VI_STABLE__'' obj)
                else if typ = js ''error'' then ws_error e obj
                else skip))
      | _ \<Rightarrow> skip) }"

end
