(* ===== verification/Sw_Capture.thy ===== *)
theory Sw_Capture
  imports Sw_Translator
begin

section \<open>Capture, overlay and panel of the service worker\<close>

text \<open>
  Starting and stopping a capture, injecting the overlay and the panel into a page, and the events of
  the browser that end a capture.  A call of the browser is an output \<open>Browser\<close> whose receiver, a
  function of the environment, answers or rejects.
\<close>

definition browser :: "env \<Rightarrow> string \<Rightarrow> jsval \<Rightarrow> jsval act_throwing" where
  "browser e name arg = onw (emit e (Browser name arg))"

text \<open>\<open>try { await f() } catch {}\<close>.\<close>

definition ignoring :: "'a act_throwing \<Rightarrow> unit act" where
  "ignoring m = do { r \<leftarrow> m; skip }"

subsection \<open>The capture state\<close>

definition new_cur :: "jsval \<Rightarrow> jsval \<Rightarrow> bool \<Rightarrow> cur" where
  "new_cur tabId server open' =
     \<lparr>c_tabId = tabId, c_server = server, c_finalWsUrl = server, c_startedAt = JNull, c_panelOpen = open', c_starting = False\<rparr>"

text \<open>\<open>current = current || {\<dots>}\<close>.\<close>

definition cur_or :: "cur \<Rightarrow> sw \<Rightarrow> cur" where
  "cur_or c s = (case s_current s of None \<Rightarrow> c | Some c' \<Rightarrow> c')"

definition setCurrentStarting :: "jsval \<Rightarrow> jsval \<Rightarrow> sw \<Rightarrow> sw" where
  "setCurrentStarting tabId serverUrl s =
     s\<lparr>s_current := Some ((cur_or (new_cur tabId serverUrl True) s)
         \<lparr>c_tabId := tabId, c_server := serverUrl, c_finalWsUrl := serverUrl, c_starting := True, c_startedAt := JNull\<rparr>)\<rparr>"

definition setCurrentRunning :: "env \<Rightarrow> unit act" where
  "setCurrentRunning e = do {
     c \<leftarrow> gets s_current;
     (case c of
        None \<Rightarrow> skip
      | Some c \<Rightarrow> do {
          mods (\<lambda>s. s\<lparr>s_current := Some (c\<lparr>c_starting := False\<rparr>)\<rparr>);
          whenA (\<not> truthy (c_startedAt c)) (do {
            t \<leftarrow> onw (Date_now e);
            mods (\<lambda>s. s\<lparr>s_current := Some (c\<lparr>c_starting := False, c_startedAt := JNum (JFin t)\<rparr>)\<rparr>) }) }) }"

definition setCurrentStopped :: "sw \<Rightarrow> sw" where
  "setCurrentStopped s =
     s\<lparr>s_current := map_option (\<lambda>c. c\<lparr>c_starting := False, c_startedAt := JNull\<rparr>) (s_current s)\<rparr>"

definition modes_val :: "modes \<Rightarrow> jsval" where
  "modes_val m =
     JObj [(js ''en'', JBool (m_en m)), (js ''vi'', JBool (m_vi m)), (js ''voice'', JBool (m_voice m)),
           (js ''record'', JBool (m_record m))]"

definition trySendOverlayMode :: "env \<Rightarrow> jsval \<Rightarrow> unit act" where
  "trySendOverlayMode e tabId = do {
     m \<leftarrow> gets s_modes;
     whenA (truthy tabId) (do { r \<leftarrow> onw (safeSendTab e tabId (payload_msg ''__OVERLAY_MODE__'' (modes_val m))); skip }) }"

subsection \<open>Offscreen document, overlay, panel\<close>

definition ensureOffscreen :: "env \<Rightarrow> unit act_throwing" where
  "ensureOffscreen e =
     andThen (browser e ''offscreen.hasDocument'' JUndef) (\<lambda>exists.
       if truthy exists then ok () else andThen (browser e ''offscreen.createDocument'' (JStr (js ''offscreen.html''))) (\<lambda>v. ok ()))"

definition INJECT_FAILED_TEXT :: ustr where
  "INJECT_FAILED_TEXT = [75, 104, 244, 110, 103, 32, 105, 110, 106, 101, 99, 116, 32, 273, 432, 7907, 99, 32, 111, 118, 101, 114, 108, 97, 121, 58, 32]"

definition injectOverlay :: "env \<Rightarrow> jsval \<Rightarrow> unit act_throwing" where
  "injectOverlay e tabId =
     (if \<not> truthy tabId then throw (Err (js ''Missing tabId''))
      else do {
        ignoring (browser e ''insertCSS overlay.css'' tabId);
        r \<leftarrow> browser e ''executeScript overlay.js'' tabId;
        (case r of
           Inl x \<Rightarrow> throw (Err (INJECT_FAILED_TEXT @ e_msg x))
         | Inr v \<Rightarrow> do {
             sent \<leftarrow> onw (safeSendTab e tabId (cmd_msg ''__OVERLAY_RESET__'' []));
             trySendOverlayMode e tabId;
             ok () }) })"

definition removeOverlay :: "env \<Rightarrow> jsval \<Rightarrow> unit act" where
  "removeOverlay e tabId =
     whenA (truthy tabId) (do {
       r \<leftarrow> onw (safeSendTab e tabId (cmd_msg ''__OVERLAY_TEARDOWN__'' []));
       ignoring (browser e ''removeCSS overlay.css'' tabId) })"

definition injectPanel :: "env \<Rightarrow> jsval \<Rightarrow> unit act" where
  "injectPanel e tabId =
     whenA (truthy tabId) (do {
       ignoring (browser e ''insertCSS panel.css'' tabId);
       ignoring (browser e ''executeScript panel.js'' tabId);
       r \<leftarrow> onw (safeSendTab e tabId (cmd_msg ''__PANEL_MOUNT__'' []));
       skip })"

definition removePanel :: "env \<Rightarrow> jsval \<Rightarrow> unit act" where
  "removePanel e tabId =
     whenA (truthy tabId) (do {
       r \<leftarrow> onw (safeSendTab e tabId (cmd_msg ''__PANEL_TEARDOWN__'' []));
       ignoring (browser e ''removeCSS panel.css'' tabId) })"

subsection \<open>Stopping\<close>

text \<open>Stopping the persister, if there is one; \<open>stop\<close> never rejects.\<close>

definition stop_persist :: "env \<Rightarrow> unit act" where
  "stop_persist e = do {
     p \<leftarrow> gets s_persist;
     (case p of
        None \<Rightarrow> skip
      | Some (o', ps) \<Rightarrow> do {
          full \<leftarrow> gets (\<lambda>s. se_full (s_lastEn s));
          ps' \<leftarrow> onw (persist_stop e o' (JStr full) ps);
          mods (\<lambda>s. s\<lparr>s_persist := Some (o', ps')\<rparr>) }) }"

definition drop_persist :: "env \<Rightarrow> unit act" where
  "drop_persist e = do { stop_persist e; mods (\<lambda>s. s\<lparr>s_persist := None\<rparr>) }"

definition stopCapture :: "env \<Rightarrow> unit act" where
  "stopCapture e = do {
     tabId \<leftarrow> gets (\<lambda>s. js_or (cur_tab s) JNull);
     mods setCurrentStopped;
     ignoring (onw (emit e (ToRuntime (cmd_msg ''__OFFSCREEN_STOP__'' []))));
     whenA (\<not> nullish tabId) (do {
       r \<leftarrow> onw (safeSendTab e tabId (payload_msg ''__OVERLAY_RESET__''
              (JObj [(js ''keepMode'', JBool False), (js ''showDots'', JBool False)])));
       removeOverlay e tabId });
     maybeUpdateTranslator e True;
     drop_persist e }"

definition resetRuntimeAfterFailure :: "env \<Rightarrow> unit act" where
  "resetRuntimeAfterFailure e = do { stopCapture e; mods setCurrentStopped; maybeUpdateTranslator e True }"

text \<open>\<open>handleBackendFailure({ sendResponse, tabId, reset })\<close>; the error is only logged.\<close>

definition handleBackendFailure :: "env \<Rightarrow> jsval \<Rightarrow> bool \<Rightarrow> unit act" where
  "handleBackendFailure e tabId reset = do {
     whenA reset (resetRuntimeAfterFailure e);
     onw (notifySystemBusy e tabId);
     onw (reply buildSystemBusyResponse) }"

subsection \<open>Starting\<close>

definition FORBIDDEN_TAB_ERROR :: err where
  "FORBIDDEN_TAB_ERROR = Err [75, 104, 244, 110, 103, 32, 116, 104, 7875, 32, 99, 97, 112, 116, 117, 114, 101, 32, 226, 109, 32, 116, 104,
     97, 110, 104, 32, 116, 7915, 32, 116, 97, 98, 32, 104, 7879, 32, 116, 104, 7889, 110, 103, 32, 40, 99, 104,
     114, 111, 109, 101, 58, 47, 47, 44, 32, 67, 104, 114, 111, 109, 101, 32, 87, 101, 98, 32, 83, 116, 111, 114,
     101, 44, 32, 116, 114, 97, 110, 103, 32, 99, 224, 105, 32, 273, 7863, 116, 44, 32, 100, 101, 118, 116, 111,
     111, 108, 115, 46, 46, 46, 41, 46, 32, 72, 227, 121, 32, 109, 7903, 32, 118, 105, 100, 101, 111, 47, 97, 117,
     100, 105, 111, 32, 116, 114, 234, 110, 32, 119, 101, 98, 115, 105, 116, 101, 32, 98, 236, 110, 104, 32, 116,
     104, 432, 7901, 110, 103, 32, 40, 121, 111, 117, 116, 117, 98, 101, 46, 99, 111, 109, 44, 32, 118, 46, 118,
     46, 41, 46]"

definition CHOOSE_TAB_TEXT :: ustr where
  "CHOOSE_TAB_TEXT = [272, 97, 110, 103, 32, 100, 249, 110, 103, 32, 99, 104, 7871, 32, 273, 7897, 32, 99, 104, 7885, 110, 32, 116,
     97, 98, 32, 40, 83, 104, 97, 114, 101, 32, 97, 117, 100, 105, 111, 41, 46, 32, 72, 227, 121, 32, 99, 104,
     7885, 110, 32, 273, 250, 110, 103, 32, 84, 65, 66, 32, 273, 97, 110, 103, 32, 109, 7903, 32, 111, 118, 101,
     114, 108, 97, 121, 46]"

definition offscreen_start :: "jsval \<Rightarrow> jsval \<Rightarrow> jsval \<Rightarrow> bool \<Rightarrow> jsval \<Rightarrow> jsval" where
  "offscreen_start streamId wsUrl auth strictWs recording =
     payload_msg ''__OFFSCREEN_START__''
       (JObj ((if truthy streamId then [(js ''streamId'', streamId)] else []) @
        [(js ''server'', wsUrl), (js ''auth'', auth),
         (js ''captureSource'', JStr (if truthy streamId then js ''tab'' else js ''display'')),
         (js ''strictWs'', JBool strictWs), (js ''recording'', recording)]))"

text \<open>
  A message to the offscreen document; a rejection counts as an answer with its error, which the two
  callers convert with \<open>e.message\<close> and \<open>String(e)\<close>.
\<close>

definition ask_offscreen :: "env \<Rightarrow> ustr \<Rightarrow> jsval \<Rightarrow> jsval act" where
  "ask_offscreen e prefix' msg = do {
     r \<leftarrow> onw (emit e (ToRuntime msg));
     State_Monad.return (case r of Inl x \<Rightarrow> JObj [(js ''ok'', JBool False), (js ''error'', JStr (prefix' @ e_msg x))] | Inr v \<Rightarrow> v) }"

definition displayMedia_start :: "env \<Rightarrow> jsval \<Rightarrow> jsval \<Rightarrow> jsval \<Rightarrow> bool \<Rightarrow> jsval \<Rightarrow> unit act_throwing" where
  "displayMedia_start e tabId wsUrl auth strictWs recording = do {
     onw (notifyPanel e tabId (notice ''info'' CHOOSE_TAB_TEXT));
     resp2 \<leftarrow> ask_offscreen e (js ''Error: '') (offscreen_start JNull wsUrl auth strictWs recording);
     (if \<not> truthy (fld resp2 ''ok'')
      then throw (Err (to_str (js_or (fld resp2 ''error'') (JStr (js ''OFFSCREEN_START_FAILED'')))))
      else do { maybeUpdateTranslator e False; ok () }) }"

definition startCaptureOnTab :: "env \<Rightarrow> jsval \<Rightarrow> jsval \<Rightarrow> jsval \<Rightarrow> bool \<Rightarrow> jsval \<Rightarrow> unit act_throwing" where
  "startCaptureOnTab e tabId wsUrl auth strictWs recording =
     (if \<not> truthy wsUrl then throw (Err (js ''Missing server''))
      else andThen (ensureOffscreen e) (\<lambda>_.
        andThen (browser e ''tabs.get'' tabId) (\<lambda>tab.
          if isForbiddenTabUrl (str_or_empty (fld tab ''url'')) then throw FORBIDDEN_TAB_ERROR
          else do {
            mods (setCurrentStarting tabId wsUrl);
            sid \<leftarrow> browser e ''tabCapture.getMediaStreamId'' tabId;
            (let streamId = (case sid of Inl x \<Rightarrow> JNull | Inr v \<Rightarrow> js_or v JNull) in
             if truthy streamId
             then do {
               resp \<leftarrow> ask_offscreen e [] (offscreen_start streamId wsUrl auth strictWs recording);
               (if truthy (fld resp ''ok'') then do { maybeUpdateTranslator e False; ok () }
                else displayMedia_start e tabId wsUrl auth strictWs recording) }
             else displayMedia_start e tabId wsUrl auth strictWs recording) })))"

subsection \<open>The panel in the page\<close>

definition DEFAULT_SERVER :: ustr where
  "DEFAULT_SERVER = js ''wss://api.example.com/stt''"

definition openPanel :: "env \<Rightarrow> jsval \<Rightarrow> unit act_throwing" where
  "openPanel e tabId = do {
     injectPanel e tabId;
     r \<leftarrow> injectOverlay e tabId;
     (case r of Inl x \<Rightarrow> onw (notifyPanel e tabId (notice ''error'' (e_msg x))) | Inr u \<Rightarrow> skip);
     mods (\<lambda>s. s\<lparr>s_current := Some ((cur_or (new_cur tabId JNull True) s)\<lparr>c_tabId := tabId, c_panelOpen := True\<rparr>)\<rparr>);
     v \<leftarrow> onw (store_get ''sttServerWs'');
     andThen (onw (trim_or_throw (js_or v (JStr DEFAULT_SERVER)))) (\<lambda>server. do {
       act \<leftarrow> gets active;
       st \<leftarrow> gets starting;
       andThen (browser e ''tabs.get'' tabId) (\<lambda>tab. do {
         sent \<leftarrow> onw (safeSendTab e tabId (payload_msg ''__PANEL_OPENED__''
              (JObj [(js ''server'', JStr server), (js ''active'', JBool act), (js ''starting'', JBool st),
                     (js ''url'', js_or (fld tab ''url'') (JStr []))])));
         trySendOverlayMode e tabId;
         ok () }) }) }"

definition closePanel :: "env \<Rightarrow> jsval \<Rightarrow> unit act" where
  "closePanel e tabId = do {
     removePanel e tabId;
     removeOverlay e tabId;
     mods (\<lambda>s. s\<lparr>s_current := map_option (\<lambda>c. if c_tabId c = tabId then c\<lparr>c_panelOpen := False\<rparr> else c) (s_current s)\<rparr>) }"

subsection \<open>Events of the browser\<close>

text \<open>A click on the icon: the tab becomes the current one.\<close>

definition action_clicked :: "jsval \<Rightarrow> sw \<Rightarrow> sw" where
  "action_clicked tab s =
     (if \<not> truthy tab \<or> nullish (fld tab ''id'') \<or> nullish (fld tab ''windowId'') then s
      else s\<lparr>s_current := Some ((cur_or (new_cur (fld tab ''id'') JNull False) s)\<lparr>c_tabId := fld tab ''id''\<rparr>)\<rparr>)"

definition has_profile :: "jsval \<Rightarrow> bool" where
  "has_profile v \<longleftrightarrow> truthy (js_or (fld v ''profile'') (fld (fld v ''currentSession'') ''profile''))"

definition LOGGED_OUT_TEXT :: ustr where
  "LOGGED_OUT_TEXT = [66, 7841, 110, 32, 273, 227, 32, 273, 259, 110, 103, 32, 120, 117, 7845, 116, 46, 32, 67, 97, 112, 116, 117,
     114, 101, 32, 273, 227, 32, 100, 7915, 110, 103, 46]"

definition storage_changed :: "env \<Rightarrow> ustr \<Rightarrow> jsval \<Rightarrow> unit act" where
  "storage_changed e areaName changes =
     (let ch = fld changes ''vtAuth'' in
      if areaName \<noteq> js ''local'' \<or> \<not> truthy ch then skip
      else if has_profile (fld ch ''oldValue'') \<and> \<not> has_profile (fld ch ''newValue'')
      then do {
        run \<leftarrow> gets running;
        whenA run (do {
          stopCapture e;
          tab \<leftarrow> gets cur_tab;
          onw (notifyPanel e tab (notice ''error'' LOGGED_OUT_TEXT)) }) }
      else skip)"

definition tab_removed :: "env \<Rightarrow> jsval \<Rightarrow> unit act" where
  "tab_removed e tabId = do {
     tab \<leftarrow> gets cur_tab;
     whenA (tab = tabId) (do {
       stopCapture e;
       disconnectTranslator e True;
       mods (\<lambda>s. s\<lparr>s_current := None\<rparr>) }) }"

end
