(* ===== verification/Sw_Bus.thy ===== *)
theory Sw_Bus
  imports Sw_Capture
begin

section \<open>The message bus of the service worker\<close>

text \<open>
  One definition per command of \<open>chrome.runtime.onMessage\<close>, composed by \<open>dispatch\<close> in the order of
  the code.  An answer through \<open>sendResponse\<close> is the output \<open>Reply\<close>.  An error that no handler catches
  ends in \<open>handleBackendFailure\<close>, as in the \<open>catch\<close> of the bus.
\<close>

definition answer :: "(ustr \<times> jsval) list \<Rightarrow> unit act" where
  "answer fs = onw (reply (JObj fs))"

definition refuse :: "string \<Rightarrow> unit act" where
  "refuse msg = answer [(js ''ok'', JBool False), (js ''error'', JStr (js msg))]"

subsection \<open>Status of the offscreen document\<close>

definition RECORD_ERROR_TEXT :: "ustr \<Rightarrow> ustr \<Rightarrow> ustr" where
  "RECORD_ERROR_TEXT stage msg = [71, 104, 105, 32, 118, 105, 100, 101, 111, 32, 108, 7895, 105, 32, 40] @ stage @ js ''): '' @ msg"

definition offscreen_status :: "env \<Rightarrow> jsval \<Rightarrow> unit act" where
  "offscreen_status e msg =
     (let p = js_or (fld msg ''payload'') (JObj []); s = js_or (fld p ''state'') (JStr (js ''unknown'')) in do {
       (if s = JStr (js ''running'') then setCurrentRunning e
        else if s = JStr (js ''stopped'') then mods setCurrentStopped
        else if s = JStr (js ''server-busy'') \<or> s = JStr (js ''server-error'') \<or> s = JStr (js ''error'') then do {
          resetRuntimeAfterFailure e;
          tab \<leftarrow> gets cur_tab;
          onw (notifySystemBusy e tab) }
        else if s = JStr (js ''recording-error'') then do {
          tab \<leftarrow> gets cur_tab;
          onw (notifyPanel e tab (JObj [(js ''level'', JStr (js ''info'')),
            (js ''text'', JStr (RECORD_ERROR_TEXT (to_str (js_or (fld p ''stage'') (JStr (js ''unknown''))))
                                (to_str (js_or (fld p ''error'') (JStr (js ''unknown'')))))),
            (js ''detail'', p)])) }
        else skip);
       to_tab e msg })"

subsection \<open>Transcripts\<close>

definition buildOverlayStableRelayMsg :: "jsval \<Rightarrow> ustr \<Rightarrow> jsval" where
  "buildOverlayStableRelayMsg msg fullText =
     (let trimmed = JStr (trimTailForOverlay fullText OVERLAY_EN_STABLE_MAX_CHARS);
          with_full = (\<lambda>v. JObj (obj_set (props v) (js ''full'') trimmed));
          out0 = obj_set (props msg) (js ''full'') trimmed;
          out1 = (if is_object (fld msg ''payload'') then obj_set out0 (js ''payload'') (with_full (fld msg ''payload'')) else out0);
          out2 = (if is_object (fld msg ''detail'') then obj_set out1 (js ''detail'') (with_full (fld msg ''detail'')) else out1)
      in JObj out2)"

definition stable_full_of :: "jsval \<Rightarrow> ustr" where
  "stable_full_of msg =
     (let p = js_ors [fld msg ''payload'', fld msg ''detail'', JObj []] in
      to_str (js_coalesces [fld p ''full'', fld msg ''full'', fld p ''text'', fld msg ''text'',
        fld (fld p ''detail'') ''full'', fld (fld p ''detail'') ''text'', JStr []]))"

definition stable_seq_of :: "jsval \<Rightarrow> jsval" where
  "stable_seq_of msg =
     (let p = js_ors [fld msg ''payload'', fld msg ''detail'', JObj []] in
      js_coalesces [fld p ''seq'', fld msg ''seq'', fld p ''stable_seq'', JNull])"

definition stable_tms_of :: "jsval \<Rightarrow> jsval" where
  "stable_tms_of msg =
     (let p = js_ors [fld msg ''payload'', fld msg ''detail'', JObj []] in
      js_coalesces [fld p ''t_ms'', fld msg ''t_ms'', JNull])"

definition persist_stable :: "ustr \<Rightarrow> jsval \<Rightarrow> sw \<Rightarrow> sw" where
  "persist_stable full seq s =
     s\<lparr>s_persist := map_option (\<lambda>(o', p). (o', handleStable (JStr full) seq p)) (s_persist s)\<rparr>"

definition transcript_relay :: "env \<Rightarrow> jsval \<Rightarrow> unit act" where
  "transcript_relay e msg = do {
     go \<leftarrow> gets (\<lambda>s. truthy (cur_tab s) \<and> running s);
     whenA go
       (if fld msg ''__cmd'' = JStr (js ''__TRANSCRIPT_STABLE__'')
        then (let full = stable_full_of msg; seq = stable_seq_of msg; tms = stable_tms_of msg in do {
          to_tab e (buildOverlayStableRelayMsg msg full);
          mods (\<lambda>s. s\<lparr>s_lastEn := \<lparr>se_full = full, se_seq = num_or_zero seq, se_t_ms = num_or_zero tms\<rparr>\<rparr>);
          feedTranslatorStable e full seq tms;
          mods (persist_stable full seq) })
        else to_tab e msg) }"

subsection \<open>The panel\<close>

text \<open>The active tab, \<open>null\<close> when there is none.\<close>

definition getActiveTab :: "env \<Rightarrow> jsval act_throwing" where
  "getActiveTab e = andThen (browser e ''tabs.query active'' JUndef) (\<lambda>t. ok (js_or t JNull))"

definition panel_toggle :: "env \<Rightarrow> unit act_throwing" where
  "panel_toggle e =
     andThen (getActiveTab e) (\<lambda>tab.
       let tid = fld tab ''id'' in
       if \<not> truthy tid then do { answer [(js ''ok'', JBool False)]; ok () }
       else do {
         c \<leftarrow> gets s_current;
         andThen
           (if (case c of None \<Rightarrow> True | Some c \<Rightarrow> c_tabId c \<noteq> tid \<or> \<not> c_panelOpen c) then openPanel e tid
            else do { closePanel e tid; ok () })
           (\<lambda>_. do {
             c' \<leftarrow> gets s_current;
             answer [(js ''ok'', JBool True), (js ''open'', JBool (case c' of None \<Rightarrow> False | Some c \<Rightarrow> c_panelOpen c))];
             ok () }) })"

text \<open>What \<open>__PANEL_START__\<close> decides before it captures: the address and the way to authenticate.\<close>

record ws_plan =
  wp_url :: jsval
  wp_auth :: jsval
  wp_mode :: string
  wp_strict :: bool

definition plan_ws :: "env \<Rightarrow> ustr \<Rightarrow> ustr \<Rightarrow> ws_plan throwing" where
  "plan_ws e server overrideToken =
     (case e_url e server of
        None \<Rightarrow> throw (Err (js ''Server URL invalid''))
      | Some u \<Rightarrow>
          (let isLocalDev = isLocalHost (u_hostname u); isWss = (u_protocol u = js ''wss:'');
               localWs = isLocalDev \<and> u_protocol u = js ''ws:''
           in if \<not> (isWss \<or> localWs) then throw (Err ([83, 101, 114, 118, 101, 114, 32, 112, 104, 7843, 105, 32, 108, 224, 32, 119, 115, 115, 58, 47, 47, 32, 40,
     104, 111, 7863, 99, 32, 119, 115, 58, 47, 47, 108, 111, 99, 97, 108, 104, 111, 115, 116, 32, 99, 104, 111, 32,
     100, 101, 118, 41]))
              else do {
                tok \<leftarrow> getAccessToken overrideToken;
                (case tok of (access0, refresh0, source) \<Rightarrow> do {
                   v \<leftarrow> store_get ''sttApiBase'';
                   andThen (trim_or_throw (js_or v (JStr (deriveApiBaseFromServer e server)))) (\<lambda>apiBaseRaw. do {
                     (let apiBase = normalizeHttpApiBase e (JStr apiBaseRaw) in do {
                       access \<leftarrow> (if apiBase \<noteq> [] \<and> truthy access0 \<and> truthy refresh0
                                 then maybeRefreshAccessToken e apiBase access0 refresh0 else ret access0);
                       (if isWss \<and> truthy access \<and> apiBase \<noteq> []
                        then do {
                          t \<leftarrow> requestWsTicket e apiBase access server;
                          (case t of
                             Inr url \<Rightarrow> ok \<lparr>wp_url = url, wp_auth = JNull, wp_mode = ''ticket'', wp_strict = \<not> localWs\<rparr>
                           | Inl x \<Rightarrow>
                               ok \<lparr>wp_url = JStr server,
                                   wp_auth = JObj [(js ''sendFirst'', JBool True), (js ''token'', access)],
                                   wp_mode = ''auth-message'', wp_strict = \<not> localWs\<rparr>) }
                        else ok \<lparr>wp_url = JStr server, wp_auth = JNull, wp_mode = ''direct'', wp_strict = \<not> localWs\<rparr>) }) }) }) }))"

text \<open>The persister of the new capture, and the user it belongs to.\<close>

definition open_persist :: "env \<Rightarrow> jsval \<Rightarrow> jsval \<Rightarrow> ustr \<Rightarrow> ustr act_throwing" where
  "open_persist e authSess tab server = do {
     stop_persist e;
     srv \<leftarrow> gets cur_server;
     andThen (onw (resolveTranslatorUrl e server srv)) (\<lambda>tr. do {
       (let profile = normalizeAuthProfile authSess; supa = pickSupabaseAccessToken e authSess in do {
         r \<leftarrow> onw (resolveUsersTableUserIdSafe e profile supa);
         (let userId = (case r of Inl x \<Rightarrow> [] | Inr u \<Rightarrow> u) in do {
           p0 \<leftarrow> onw (createTranscriptPersist e);
           vi \<leftarrow> gets s_wantVI;
           p1 \<leftarrow> onw (persist_start e p0);
           mods (\<lambda>s. s\<lparr>s_persist := Some
             (\<lparr>o_userId = JStr userId, o_userEmail = trim (str_or_empty (fld profile ''email'')), o_authToken = supa,
               o_tabUrl = str_or_empty (fld tab ''url''), o_sttServer = server, o_translatorServer = fst tr,
               o_langSrc = js ''en'', o_langTgt = (if vi then js ''vi'' else [])\<rparr>, p1)\<rparr>);
           ok userId }) }) }) }"

definition RECORD_OFF_TEXT :: ustr where
  "RECORD_OFF_TEXT = [75, 104, 244, 110, 103, 32, 116, 104, 7875, 32, 98, 7853, 116, 32, 71, 104, 105, 32, 118, 236, 32, 99, 104,
     432, 97, 32, 120, 225, 99, 32, 273, 7883, 110, 104, 32, 273, 432, 7907, 99, 32, 117, 115, 101, 114, 32, 105,
     100, 32, 104, 7907, 112, 32, 108, 7879, 46]"

definition recording_opts :: "ustr \<Rightarrow> ustr \<Rightarrow> ustr option \<Rightarrow> jsval \<Rightarrow> ustr \<Rightarrow> bool \<Rightarrow> jsval" where
  "recording_opts userId supa trSessionId tab server enabled =
     (if \<not> enabled then JObj [(js ''enabled'', JBool False)]
      else JObj [(js ''enabled'', JBool True), (js ''userId'', JStr userId), (js ''authToken'', JStr supa),
                 (js ''trSessionId'', JStr (case trSessionId of None \<Rightarrow> [] | Some t \<Rightarrow> t)),
                 (js ''tabUrl'', js_or (fld tab ''url'') (JStr [])), (js ''sttServer'', JStr server)])"

definition session_id :: "sw \<Rightarrow> ustr option" where
  "session_id s = (case s_persist s of None \<Rightarrow> None | Some (o', p) \<Rightarrow> p_trSessionId p)"

definition start_capture :: "env \<Rightarrow> jsval \<Rightarrow> jsval \<Rightarrow> ustr \<Rightarrow> ustr \<Rightarrow> unit act_throwing" where
  "start_capture e authSess tab server overrideToken =
     (let tid = fld tab ''id'' in
      andThen (injectOverlay e tid) (\<lambda>_.
      andThen (onw (plan_ws e server overrideToken)) (\<lambda>plan.
      andThen (open_persist e authSess tab server) (\<lambda>userId. do {
        tr \<leftarrow> gets session_id;
        rec \<leftarrow> gets (\<lambda>s. m_record (s_modes s));
        (let enabled = (rec \<and> userId \<noteq> []) in do {
          whenA (rec \<and> \<not> enabled) (onw (notifyPanel e tid (notice ''info'' RECORD_OFF_TEXT)));
          andThen (startCaptureOnTab e tid (wp_url plan) (wp_auth plan) (wp_strict plan)
                     (recording_opts userId (pickSupabaseAccessToken e authSess) tr tab server enabled)) (\<lambda>_. do {
            mods (\<lambda>s. s\<lparr>s_current := map_option (\<lambda>c. c\<lparr>c_server := JStr server, c_finalWsUrl := wp_url plan\<rparr>) (s_current s)\<rparr>);
            trySendOverlayMode e tid;
            answer [(js ''ok'', JBool True), (js ''mode'', JStr (js (wp_mode plan))), (js ''ws'', wp_url plan)];
            ok () }) }) }))))"

definition panel_start :: "env \<Rightarrow> jsval \<Rightarrow> unit act_throwing" where
  "panel_start e msg =
     andThen (onw (trim_or_throw (fld (fld msg ''payload'') ''server''))) (\<lambda>serverInput.
     andThen (onw (trim_or_throw (fld (fld msg ''payload'') ''token''))) (\<lambda>overrideToken. do {
       st0 \<leftarrow> onw (store_get ''sttServerWs'');
       andThen (onw (trim_or_throw (js_ors [JStr serverInput, st0, JStr DEFAULT_SERVER]))) (\<lambda>server.
         if server = [] then do { refuse ''Missing server''; ok () }
         else do {
           onw (store_set ''sttServerWs'' (JStr server));
           whenA (overrideToken \<noteq> []) (onw (store_set ''sttApiToken'' (JStr overrideToken)));
           andThen (getActiveTab e) (\<lambda>tab.
             if \<not> truthy (fld tab ''id'') then do { refuse ''No active tab''; ok () }
             else do {
               sess \<leftarrow> onw (requireAuthOrFail e ''start'' (fld tab ''id''));
               (case sess of
                  None \<Rightarrow> ok ()
                | Some authSess \<Rightarrow> do {
                    other \<leftarrow> gets (\<lambda>s. active s \<and> cur_tab s \<noteq> fld tab ''id'');
                    whenA other (stopCapture e);
                    r \<leftarrow> start_capture e authSess tab server overrideToken;
                    (case r of
                       Inr u \<Rightarrow> ok ()
                     | Inl x \<Rightarrow> do {
                         drop_persist e;
                         handleBackendFailure e (fld tab ''id'') True;
                         ok () }) }) }) }) }))"

definition panel_stop :: "env \<Rightarrow> unit act" where
  "panel_stop e = do { stopCapture e; answer [(js ''ok'', JBool True)] }"

definition overlay_ping :: "env \<Rightarrow> jsval \<Rightarrow> unit act" where
  "overlay_ping e sender = do {
     tab \<leftarrow> gets cur_tab;
     (let tabId = js_ors [fld (fld sender ''tab'') ''id'', tab, JNull] in
      whenA (\<not> nullish tabId) (trySendOverlayMode e tabId));
     act \<leftarrow> gets active;
     st \<leftarrow> gets starting;
     m \<leftarrow> gets s_modes;
     answer [(js ''ok'', JBool True), (js ''active'', JBool act), (js ''starting'', JBool st), (js ''tabId'', js_or tab JNull),
             (js ''modes'', modes_val m)] }"

definition chat_snapshot :: "unit act" where
  "chat_snapshot = do {
     tab \<leftarrow> gets cur_tab;
     act \<leftarrow> gets active;
     st \<leftarrow> gets starting;
     b \<leftarrow> gets s_lastEn;
     answer [(js ''ok'', JBool True), (js ''active'', JBool act), (js ''starting'', JBool st), (js ''tabId'', js_or tab JNull),
             (js ''full'', JStr (se_full b)), (js ''seq'', JNum (num_or_zero (JNum (se_seq b)))),
             (js ''t_ms'', JNum (num_or_zero (JNum (se_t_ms b))))] }"

definition normalizeModes :: "jsval \<Rightarrow> modes" where
  "normalizeModes raw =
     (let m = js_or raw (JObj []) in
      \<lparr>m_en = truthy (js_coalesces [fld m ''en'', fld m ''subtitle'', fld m ''caption'', fld m ''phude'']),
       m_vi = truthy (js_coalesces [fld m ''vi'', fld m ''subtitle_vi'', fld m ''translate'', fld m ''dichphude'']),
       m_voice = truthy (js_coalesces [fld m ''voice'', fld m ''tts'', fld m ''giongnoi'']),
       m_record = truthy (js_coalesces [fld m ''record'', fld m ''rec'', fld m ''recording'', fld m ''ghi''])\<rparr>)"

definition transcript_modes :: "env \<Rightarrow> jsval \<Rightarrow> unit act" where
  "transcript_modes e msg =
     (let modes' = normalizeModes (fld msg ''payload'') in do {
       prev \<leftarrow> gets s_wantVI;
       mods (\<lambda>s. s\<lparr>s_modes := modes', s_wantVI := m_vi modes'\<rparr>);
       to_tab e (payload_msg ''__OVERLAY_MODE__'' (modes_val modes'));
       whenA (\<not> prev \<and> m_vi modes') (do {
         to_tab e (cmd_msg ''__TRANS_VI_RESET__'' []);
         mods (\<lambda>s. s\<lparr>s_hardReset := True\<rparr>);
         maybeUpdateTranslator e False });
       whenA (prev \<and> \<not> m_vi modes') (maybeUpdateTranslator e True);
       answer [(js ''ok'', JBool True), (js ''modes'', modes_val modes')] })"

subsection \<open>History and chat\<close>

definition row_val :: "session_row \<Rightarrow> jsval" where
  "row_val r =
     JObj [(js ''id'', JInt (sr_id r)), (js ''user_id'', opt_str (sr_user_id r)), (js ''tab_url'', JStr (sr_tab_url r)),
           (js ''tab_domain'', JStr (sr_tab_domain r)), (js ''started_at'', sr_started_at r), (js ''ended_at'', sr_ended_at r),
           (js ''status'', JStr (sr_status r)), (js ''latest_text_en'', JStr (sr_latest_text_en r)),
           (js ''last_seq'', (case sr_last_seq r of None \<Rightarrow> JNull | Some q \<Rightarrow> JNum (JFin q))),
           (js ''last_updated_at'', sr_last_updated_at r)]"

text \<open>The \<open>catch\<close> of the history and chat commands: the reply to an error.\<close>

definition db_failure :: "env \<Rightarrow> jsval \<Rightarrow> jsval \<Rightarrow> err \<Rightarrow> unit act" where
  "db_failure e tabId authSess x =
     (if str_includes (e_msg x) (js ''USER_ID_INVALID'')
      then answer [(js ''ok'', JBool False), (js ''code'', JStr (js ''USER_ID_INVALID'')), (js ''error'', JStr (js ''USER_ID_INVALID'')),
                   (js ''debug'', buildUserIdDebug (normalizeAuthProfile authSess) (pickSupabaseAccessToken e authSess))]
      else do { onw (notifySystemBusy e tabId); onw (reply buildSystemBusyResponse) })"

text \<open>
  A command that needs a signed-in user: the gate, the body, and the reply to an error of the body.
  A body gives its reply, as a value.
\<close>

definition gated :: "env \<Rightarrow> string \<Rightarrow> (jsval \<Rightarrow> jsval throwing) \<Rightarrow> unit act" where
  "gated e action body = do {
     tab \<leftarrow> gets cur_tab;
     (let tabId = js_or tab JNull in do {
       sess \<leftarrow> onw (requireAuthOrFail e action tabId);
       (case sess of
          None \<Rightarrow> skip
        | Some authSess \<Rightarrow> do {
            r \<leftarrow> onw (body authSess);
            (case r of Inl x \<Rightarrow> db_failure e tabId authSess x | Inr v \<Rightarrow> onw (reply v)) }) }) }"

definition session_user :: "env \<Rightarrow> jsval \<Rightarrow> ustr throwing" where
  "session_user e authSess =
     resolveUsersTableUserIdSafe e (normalizeAuthProfile authSess) (pickSupabaseAccessToken e authSess)"

definition history_list :: "env \<Rightarrow> jsval \<Rightarrow> jsval \<Rightarrow> jsval throwing" where
  "history_list e msg authSess =
     (let p = fld msg ''payload'';
          lim' = (case num_opt (fld p ''limit'') of None \<Rightarrow> 200 | Some q \<Rightarrow> max 1 (min 500 (rat_trunc q)));
          off = (case num_opt (fld p ''offset'') of None \<Rightarrow> 0 | Some q \<Rightarrow> max 0 (rat_trunc q))
      in andThen (session_user e authSess) (\<lambda>userId.
         andThen (listTranscriptSessionsForUser e (JStr userId) (JInt lim') (JInt off) (pickSupabaseAccessToken e authSess))
           (\<lambda>items. ok (JObj [(js ''ok'', JBool True), (js ''items'', JArr (map row_val items)), (js ''userId'', JStr userId)]))))"

definition bad_session :: jsval where
  "bad_session = JObj [(js ''ok'', JBool False), (js ''error'', JStr (js ''INVALID_SESSION_ID''))]"

definition not_found :: "(ustr \<times> jsval) list \<Rightarrow> jsval" where
  "not_found extra = JObj ([(js ''ok'', JBool False), (js ''code'', JStr (js ''NOT_FOUND'')), (js ''error'', JStr (js ''NOT_FOUND''))] @ extra)"

text \<open>\<open>Number(msg.payload?.sessionId || 0)\<close>, if it is finite and positive.\<close>

definition session_arg :: "jsval \<Rightarrow> rat option" where
  "session_arg msg =
     (case fin_opt (num_or_zero (fld (fld msg ''payload'') ''sessionId'')) of
        Some q \<Rightarrow> if q \<le> 0 then None else Some q | None \<Rightarrow> None)"

definition history_detail :: "env \<Rightarrow> jsval \<Rightarrow> jsval \<Rightarrow> jsval throwing" where
  "history_detail e msg authSess =
     (case session_arg msg of
        None \<Rightarrow> ok bad_session
      | Some sid \<Rightarrow>
          andThen (session_user e authSess) (\<lambda>userId.
          andThen (getTranscriptSessionDetailForUser e (JStr userId) (JNum (JFin sid)) (pickSupabaseAccessToken e authSess))
            (\<lambda>detail. case detail of
                None \<Rightarrow> ok (not_found [])
              | Some (session, fullText) \<Rightarrow>
                  ok (JObj [(js ''ok'', JBool True), (js ''item'', row_val session), (js ''fullText'', JStr fullText),
                            (js ''userId'', JStr userId)]))))"

definition history_delete :: "env \<Rightarrow> jsval \<Rightarrow> jsval \<Rightarrow> jsval throwing" where
  "history_delete e msg authSess =
     (case session_arg msg of
        None \<Rightarrow> ok bad_session
      | Some sid \<Rightarrow>
          andThen (session_user e authSess) (\<lambda>userId.
          andThen (deleteTranscriptSessionForUser e (JStr userId) (JNum (JFin sid)) (pickSupabaseAccessToken e authSess))
            (\<lambda>d. if \<not> dr_deleted d then ok (not_found [(js ''sessionId'', JNum (JFin sid))])
                 else ok (JObj [(js ''ok'', JBool True), (js ''deleted'', JBool True),
                                (js ''sessionId'', js_or (JInt (dr_sessionId d)) (JNum (JFin sid))), (js ''userId'', JStr userId)]))))"

definition chat_save :: "env \<Rightarrow> jsval \<Rightarrow> jsval \<Rightarrow> jsval throwing" where
  "chat_save e msg authSess =
     (let payload' = js_or (fld msg ''payload'') (JObj []);
          profile = normalizeAuthProfile authSess;
          supa = JStr (pickSupabaseAccessToken e authSess);
          role = toLowerCase (trim (str_or_empty (fld payload' ''role'')));
          content = trim (str_or_empty (fld payload' ''content''));
          when = (\<lambda>v. if truthy v then ret v else do { t \<leftarrow> now_iso e; ret (JStr t) })
      in andThen (session_user e authSess) (\<lambda>userId.
         if content = [] then ok (JObj [(js ''ok'', JBool False), (js ''error'', JStr (js ''EMPTY_MESSAGE_CONTENT''))])
         else do {
           startedAt \<leftarrow> when (js_or (fld payload' ''startedAt'') (fld payload' ''createdAt''));
           andThen (ensureChatSessionForUser e (JStr userId) (JObj
              [(js ''chatSessionId'', js_coalesce (fld payload' ''chatSessionId'') JNull),
               (js ''titleHint'', js_or (fld payload' ''titleHint'') (JStr content)),
               (js ''source'', js_or (fld payload' ''source'') (JStr (js ''sidepanel''))),
               (js ''model'', js_or (fld payload' ''model'') (JStr [])), (js ''language'', js_or (fld payload' ''language'') (JStr [])),
               (js ''startedAt'', startedAt), (js ''ownerUid'', JStr (pickAuthUidFromProfile profile)), (js ''authToken'', supa)]))
             (\<lambda>(sid, created). do {
               createdAt \<leftarrow> when (fld payload' ''createdAt'');
               andThen (insertChatMessage e (opt_str sid) (JObj
                  [(js ''parentMsgId'', js_coalesce (fld payload' ''parentMsgId'') JNull), (js ''role'', JStr role),
                   (js ''content'', JStr content), (js ''createdAt'', createdAt),
                   (js ''tokensIn'', js_coalesce (fld payload' ''tokensIn'') JNull),
                   (js ''tokensOut'', js_coalesce (fld payload' ''tokensOut'') JNull),
                   (js ''latencyMs'', js_coalesce (fld payload' ''latencyMs'') JNull), (js ''authToken'', supa)]))
                 (\<lambda>mid. do {
                   touched \<leftarrow> (if role = js ''assistant''
                     then do {
                       endedAt \<leftarrow> when (fld payload' ''createdAt'');
                       touchChatSession e (opt_str sid) (JObj [(js ''endedAt'', endedAt)]) supa }
                     else ok False);
                   ok (JObj [(js ''ok'', JBool True), (js ''userId'', JStr userId), (js ''chatSessionId'', opt_str sid),
                             (js ''messageId'', JStr mid), (js ''createdSession'', JBool created)]) }) }) }))"

text \<open>The proxy of the chatbot; its errors are answered without touching the capture.\<close>

definition chat_rest :: "env \<Rightarrow> jsval \<Rightarrow> unit act" where
  "chat_rest e msg = do {
     tab \<leftarrow> gets cur_tab;
     (let tabId = js_or tab JNull in do {
       sess \<leftarrow> onw (requireAuthOrFail e ''chat'' tabId);
       (case sess of
          None \<Rightarrow> skip
        | Some authSess \<Rightarrow>
            (let p = js_or (fld msg ''payload'') (JObj []); body = fld p ''body'';
                 base = normalizeHttpApiBase e (js_or (fld p ''apiBase'') (JStr []));
                 uid = js_ors [fld body ''user_id'', fld (fld authSess ''profile'') ''email'', fld (fld authSess ''profile'') ''id'',
                               JStr (js ''chrome_ext'')]
             in if base = [] then refuse ''CHAT_API_BASE_INVALID''
                else do {
                  r \<leftarrow> onw (fetch e \<lparr>rq_verb = POST, rq_url = base @ js ''/v1/rest-retrieve/'', rq_query = [],
                    rq_headers = json_headers @ [(js ''x-user-id'', to_str uid)], rq_body = Some (js_or body (JObj []))\<rparr>);
                  (case r of
                     Inl x \<Rightarrow> handleBackendFailure e tabId False
                   | Inr a \<Rightarrow>
                       (let j = json_or_obj e a in
                        answer [(js ''ok'', JBool (rs_ok a)),
                                (js ''text'', js_ors [fld j ''text'', fld j ''answer'', fld j ''output'', JStr (e_stringify e j)]),
                                (js ''raw'', j), (js ''status'', JInt (rs_status a))])) })) }) }"

subsection \<open>The bus\<close>

definition dispatch :: "env \<Rightarrow> jsval \<Rightarrow> jsval \<Rightarrow> unit act_throwing" where
  "dispatch e msg sender =
     (let cmd = fld msg ''__cmd''; is = (\<lambda>c. cmd = JStr (js c)); run = (\<lambda>m. do { r \<leftarrow> m; ok r }) in
      if \<not> truthy msg \<or> \<not> truthy cmd then ok ()
      else if is ''__OFFSCREEN_STATUS__'' then run (offscreen_status e msg)
      else if is ''__TRANSCRIPT_DELTA__'' \<or> is ''__TRANSCRIPT_STABLE__'' \<or> is ''__TRANSCRIPT_PATCH__''
      then run (transcript_relay e msg)
      else if is ''__PANEL_TOGGLE__'' then panel_toggle e
      else if is ''__PANEL_START__'' then panel_start e msg
      else if is ''__PANEL_STOP__'' then run (panel_stop e)
      else if is ''__OVERLAY_PING__'' then run (overlay_ping e sender)
      else if is ''__CHAT_REALTIME_SNAPSHOT__'' then run chat_snapshot
      else if is ''__TRANSCRIPT_MODES__'' then run (transcript_modes e msg)
      else if is ''__HISTORY_LIST__'' then run (gated e ''history_list'' (history_list e msg))
      else if is ''__HISTORY_DETAIL__'' then run (gated e ''history_detail'' (history_detail e msg))
      else if is ''__HISTORY_DELETE__'' then run (gated e ''history_delete'' (history_delete e msg))
      else if is ''__CHAT_DB_SAVE__'' then run (gated e ''chat_save'' (chat_save e msg))
      else if is ''__CHAT_REST__'' then run (chat_rest e msg)
      else ok ())"

definition on_message :: "env \<Rightarrow> jsval \<Rightarrow> jsval \<Rightarrow> unit act" where
  "on_message e msg sender = do {
     r \<leftarrow> dispatch e msg sender;
     (case r of
        Inr u \<Rightarrow> skip
      | Inl x \<Rightarrow> do {
          tab \<leftarrow> gets cur_tab;
          handleBackendFailure e (js_ors [tab, fld (fld sender ''tab'') ''id'', JNull]) True }) }"

text \<open>What can happen to the worker.\<close>

datatype sw_event =
    Message jsval jsval
  | StorageChanged ustr jsval
  | TabRemoved jsval
  | ActionClicked jsval
  | ConnectResume
  | WsOpen
  | WsMessage jsval
  | WsClose
  | ReconnectTimer
  | PersistTask

definition persist_next :: "env \<Rightarrow> unit act" where
  "persist_next e = do {
     p \<leftarrow> gets s_persist;
     (case p of
        None \<Rightarrow> skip
      | Some (o', ps) \<Rightarrow> do { ps' \<leftarrow> onw (run_next e o' ps); mods (\<lambda>s. s\<lparr>s_persist := Some (o', ps')\<rparr>) }) }"

fun sw_step :: "env \<Rightarrow> sw_event \<Rightarrow> unit act" where
  "sw_step e (Message msg sender) = on_message e msg sender"
| "sw_step e (StorageChanged area changes) = storage_changed e area changes"
| "sw_step e (TabRemoved tabId) = tab_removed e tabId"
| "sw_step e (ActionClicked tab) = mods (action_clicked tab)"
| "sw_step e ConnectResume = connect_resume e"
| "sw_step e WsOpen = ws_onopen e"
| "sw_step e (WsMessage data) = ws_onmessage e data"
| "sw_step e WsClose = ws_onclose"
| "sw_step e ReconnectTimer = reconnect_timer"
| "sw_step e PersistTask = persist_next e"

fun sw_run :: "env \<Rightarrow> sw_event list \<Rightarrow> unit act" where
  "sw_run e [] = skip"
| "sw_run e (x # xs) = do { sw_step e x; sw_run e xs }"

end
