(* ===== verification/Sw_Answers.thy ===== *)
theory Sw_Answers
  imports Sw_Bus
begin

section \<open>Every request is answered once\<close>

text \<open>
  The programs of the repositories and of the capture give no answer through \<open>sendResponse\<close>; the
  handlers of the bus give one on every path, errors included.
\<close>

subsection \<open>Programs that give no answer\<close>

lemma says_trim_or_throw [says_intros]: "says w_out none (trim_or_throw v)"
  unfolding trim_or_throw_def by (auto intro: says_none_ret split: jsval.split)

lemma says_fetches [says_intros]:
  "says w_out none (fetchJson e rq)" "says w_out none (delete_once e table query tok)"
  unfolding fetchJson_def delete_once_def Let_def by (intro says_intros)+

lemma says_fallbacks [says_intros]:
  "says w_out none (fetchDelete e table query tok)" "says w_out none (fetchJsonWithAuthFallback e table query tok)"
  unfolding fetchDelete_def fetchJsonWithAuthFallback_def Let_def by (intro says_intros)+

lemma says_toIso [says_intros]: "says w_out none (toIsoOrNow e v)"
  unfolding toIsoOrNow_def by (intro says_intros)

lemma says_lookup [says_intros]: "says w_out none (lookup_id e k rq)"
  unfolding lookup_id_def by (intro says_intros)

lemma says_selectUsers_loop [says_intros]: "says w_out none (selectUsers_loop e tok xs)"
  by (induction e tok xs rule: selectUsers_loop.induct) (simp_all, (intro says_intros | assumption)+)

lemma says_lookups [says_intros]:
  "says w_out none (selectUsersIdByEmail e email tok)" "says w_out none (selectUsersIdByAuthUid e au tok)"
  "says w_out none (selectUserIdFromOwnChatSessions e tok au)" "says w_out none (selectUserIdFromOwnTranscriptSessions e tok)"
  unfolding selectUsersIdByEmail_def selectUsersIdByAuthUid_def selectUserIdFromOwnChatSessions_def
    selectUserIdFromOwnTranscriptSessions_def Let_def
  by (intro says_intros)+

lemma says_insertUsers [says_intros]: "says w_out none (insertUsersRowByEmail e email tok)"
  unfolding insertUsersRowByEmail_def Let_def by (intro says_intros)

lemma says_first_of [says_intros]: "says w_out none f \<Longrightarrow> says w_out none g \<Longrightarrow> says w_out none (first_of f g)"
  unfolding first_of_def by (intro says_intros)

lemma says_resolve [says_intros]: "says w_out none (resolveUsersTableUserId e profile tok)"
  unfolding resolveUsersTableUserId_def resolve_without_email_def Let_def by (intro says_intros)

lemma says_userId [says_intros]: "says w_out none (normalizeUserIdOrThrow v)"
  unfolding normalizeUserIdOrThrow_def Let_def by (intro says_intros)

lemma says_history [says_intros]:
  "says w_out none (listTranscriptSessionsForUser e userId l off tok)"
  "says w_out none (getTranscriptSessionDetailForUser e userId sid tok)"
  "says w_out none (deleteTranscriptSessionForUser e userId sid tok)"
  unfolding listTranscriptSessionsForUser_def getTranscriptSessionDetailForUser_def deleteTranscriptSessionForUser_def
    chunk_or_latest_def delete_session_def Let_def
  by (intro says_intros)+

lemma says_chat [says_intros]:
  "says w_out none (getChatSessionForUser e u c own tok)" "says w_out none (createChatSessionForUser e u opts)"
  "says w_out none (insertChatMessage e c opts)" "says w_out none (touchChatSession e c opts tok)"
  unfolding getChatSessionForUser_def createChatSessionForUser_def insertChatMessage_def touchChatSession_def
    chat_fetchJson_eq Let_def
  by (intro says_intros)+

lemma says_ensureChat [says_intros]: "says w_out none (ensureChatSessionForUser e u opts)"
  unfolding ensureChatSessionForUser_def Let_def by (intro says_intros)

lemma says_email_map [says_intros]: "says w_out none (getEmailUserIdMap e)"
proof -
  have "says w_out none (sanitize_loop e kvs acc)" for kvs acc
    by (induction e kvs acc rule: sanitize_loop.induct)
      (simp_all add: Let_def entry_time_def, (intro says_intros impI conjI | simp)+)
  then show ?thesis
    unfolding getEmailUserIdMap_def sanitizeEmailUserIdMap_def by (intro says_intros) simp_all
qed

lemma says_cache [says_intros]:
  "says w_out none (findCachedUserIdByEmail e v)" "says w_out none (cacheEmailUserId e v u)"
  "says w_out none (patchStoredSessionUserId u)"
  unfolding findCachedUserIdByEmail_def cacheEmailUserId_def patchStoredSessionUserId_def Let_def
  by (intro says_intros)+

lemma says_remember [says_intros]: "says w_out none (remember e email uid)"
  unfolding remember_def by (intro says_intros)

lemma says_resolveSafe [says_intros]: "says w_out none (resolveUsersTableUserIdSafe e profile tok)"
  unfolding resolveUsersTableUserIdSafe_def Let_def by (intro says_intros)

lemma says_persist_writes [says_intros]:
  "says w_out none (insertFullSnapshot e o' s t)" "says w_out none (updateLatest e o' s t q)"
  "says w_out none (startSession e o' s)" "says w_out none (persist_start e s)" "says w_out none (createTranscriptPersist e)"
  unfolding insertFullSnapshot_def updateLatest_def startSession_def fetchUserId_def select_user_def insert_user_def
    persist_start_def createTranscriptPersist_def Let_def
  by (intro says_intros)+

lemma says_run_next [says_intros]: "says w_out none (run_next e o' s)"
  unfolding run_next_def persist_task_def by (intro says_intros)

lemma says_persist_stop [says_intros]: "says w_out none (persist_stop e o' t s)"
proof -
  have "says w_out none (drain e o' n s)" for n s
    by (induction e o' n s rule: drain.induct) (simp_all add: says_intros)
  then show ?thesis
    unfolding persist_stop_def stop_end_def by (intro says_intros) simp_all
qed

lemma says_auth [says_intros]:
  "says w_out none (resolveTranslatorUrl e a b)" "says w_out none (getAccessToken o')"
  "says w_out none (maybeRefreshAccessToken e base acc r)" "says w_out none (requestWsTicket e base acc server)"
  "says w_out none getVtAuthSession"
  unfolding resolveTranslatorUrl_def getAccessToken_def maybeRefreshAccessToken_def requestWsTicket_def getVtAuthSession_def Let_def
  by (intro says_intros)+

lemma says_plan [says_intros]: "says w_out none (plan_ws e server tok)"
  unfolding plan_ws_def Let_def by (intro says_intros)

lemma says_notices [says_intros]:
  "says w_out none (safeSendTab e tab msg)" "says w_out none (notifyPanel e tab p)"
  "says w_out none (markNeedAuth e a)" "says w_out none (broadcastAuthRequired e a)" "says w_out none (notifySystemBusy e tab)"
  unfolding safeSendTab_def notifyPanel_def markNeedAuth_def broadcastAuthRequired_def notifySystemBusy_def
  by (intro says_intros, simp?)+

lemma says_browser [says_intros]: "says act_out none (browser e name arg)"
  unfolding browser_def by (intro says_intros) simp

lemma says_ignoring [says_intros]: "says act_out none m \<Longrightarrow> says act_out none (ignoring m)"
  unfolding ignoring_def by (intro says_intros)

lemma says_translator [says_intros]:
  "says act_out none (disconnectTranslator e b)" "says act_out none connect_begin"
  "says act_out none scheduleTranslatorReconnect" "says act_out none (transSend e v)"
  unfolding disconnectTranslator_def connect_begin_def scheduleTranslatorReconnect_def transSend_def
  by (intro says_intros, simp?)+

lemma says_update [says_intros]:
  "says act_out none (maybeUpdateTranslator e b)" "says act_out none (feedTranslatorStable e t q m)"
  "says act_out none (to_tab e msg)"
  unfolding maybeUpdateTranslator_def feedTranslatorStable_def to_tab_def by (intro says_intros)+

lemma says_overlay [says_intros]:
  "says act_out none (trySendOverlayMode e tab)" "says act_out none (removePanel e tab)" "says act_out none (injectPanel e tab)"
  "says act_out none (removeOverlay e tab)"
  unfolding trySendOverlayMode_def removePanel_def injectPanel_def removeOverlay_def by (intro says_intros)+

lemma says_injectOverlay [says_intros]: "says act_out none (injectOverlay e tab)"
  unfolding injectOverlay_def by (intro says_intros)

lemma says_stop [says_intros]: "says act_out none (stop_persist e)" "says act_out none (drop_persist e)"
  unfolding drop_persist_def stop_persist_def by (intro says_intros)+

lemma says_stopCapture [says_intros]: "says act_out none (stopCapture e)"
  unfolding stopCapture_def by (intro says_intros) simp

lemma says_reset [says_intros]: "says act_out none (resetRuntimeAfterFailure e)"
  unfolding resetRuntimeAfterFailure_def by (intro says_intros)

lemma says_start [says_intros]: "says act_out none (startCaptureOnTab e tab url auth strict rec')"
  unfolding startCaptureOnTab_def ensureOffscreen_def displayMedia_start_def ask_offscreen_def Let_def
  by (intro says_intros) (simp_all add: offscreen_start_def)

lemma says_openPanel [says_intros]: "says act_out none (openPanel e tab)" "says act_out none (closePanel e tab)"
  unfolding openPanel_def closePanel_def by (intro says_intros)+

lemma says_open_persist [says_intros]: "says act_out none (open_persist e authSess tab server)"
  unfolding open_persist_def Let_def by (intro says_intros)

lemma says_getActiveTab [says_intros]: "says act_out none (getActiveTab e)"
  unfolding getActiveTab_def by (intro says_intros)

lemma says_setCurrentRunning [says_intros]: "says act_out none (setCurrentRunning e)"
  unfolding setCurrentRunning_def by (intro says_intros)

subsection \<open>Handlers\<close>

text \<open>The sign-in gate answers when it refuses.\<close>

fun refused :: "'a option \<Rightarrow> nat \<Rightarrow> bool" where
  "refused None n \<longleftrightarrow> n = 1"
| "refused (Some a) n \<longleftrightarrow> n = 0"

lemma says_answer [says_intros]: "says act_out one (answer fs)" "says act_out one (refuse m)"
  unfolding answer_def refuse_def by (intro says_intros)+

lemma says_backend_failure [says_intros]: "says act_out one (handleBackendFailure e tab reset)"
  unfolding handleBackendFailure_def by (intro says_intros)

lemma says_db_failure [says_intros]: "says act_out one (db_failure e tab sess x)"
  unfolding db_failure_def by (intro says_intros)

lemma says_requireAuth: "says w_out refused (requireAuthOrFail e action tab)"
  unfolding requireAuthOrFail_def notifyAuthRequired_def
  by (rule says_bind [OF says_auth(5)], rule says_if, simp add: says_ret, rule says_then_ret)
    (intro says_intros, simp_all)

lemma says_gate:
  assumes "\<And>authSess. says act_out one (f authSess)"
  shows "says act_out one
    (do { sess \<leftarrow> onw (requireAuthOrFail e action tab); (case sess of None \<Rightarrow> skip | Some authSess \<Rightarrow> f authSess) })"
proof (rule says_seq [OF says_onw [OF says_requireAuth]])
  fix r :: "jsval option" and i assume "refused r i"
  moreover have "says act_out (\<lambda>b j. j = Suc 0) (f a)" for a using assms [of a] by (simp add: one_def [abs_def])
  ultimately show "says act_out (\<lambda>b j. one b (i + j)) (case r of None \<Rightarrow> skip | Some authSess \<Rightarrow> f authSess)"
    by (cases r) (auto intro: says_ret simp: one_def)
qed

lemma says_gated: "(\<And>a. says w_out none (body a)) \<Longrightarrow> says act_out one (gated e action body)"
  unfolding gated_def Let_def by (intro says_bind [OF says_acts(1)] says_gate) (intro says_intros)

lemma says_bodies:
  "says w_out none (history_list e msg sess)" "says w_out none (history_detail e msg sess)"
  "says w_out none (history_delete e msg sess)" "says w_out none (chat_save e msg sess)"
  unfolding history_list_def history_detail_def history_delete_def chat_save_def session_user_def Let_def
  by (intro says_intros)+

lemma says_chat_rest: "says act_out one (chat_rest e msg)"
  unfolding chat_rest_def Let_def by (intro says_bind [OF says_acts(1)] says_gate) (intro says_intros)

lemma says_simple_handlers:
  "says act_out one (panel_stop e)" "says act_out one (overlay_ping e sender)" "says act_out one chat_snapshot"
  "says act_out one (transcript_modes e msg)"
  unfolding panel_stop_def overlay_ping_def chat_snapshot_def transcript_modes_def Let_def by (intro says_intros)+

lemma says_relays:
  "says act_out none (transcript_relay e msg)" "says act_out none (offscreen_status e msg)"
  unfolding transcript_relay_def offscreen_status_def Let_def by (intro says_intros)+

lemma says_answer_ok: "says act_out returned (do { answer fs; ok () })" "says act_out returned (do { refuse m; ok () })"
  by (rule says_then_ret, intro says_intros, simp)+

lemma says_toggle: "says act_out returned (panel_toggle e)"
  unfolding panel_toggle_def Let_def by (intro says_intros says_answer_ok)

lemma says_start_capture: "says act_out returned (start_capture e sess tab server tok)"
  unfolding start_capture_def Let_def by (intro says_intros says_answer_ok)

lemma says_panel_start: "says act_out returned (panel_start e msg)"
proof -
  have gate: "says act_out returned (do {
      sess \<leftarrow> onw (requireAuthOrFail e action tab);
      (case sess of None \<Rightarrow> ok () | Some authSess \<Rightarrow> f authSess) })"
    if "\<And>a. says act_out returned (f a)" for f :: "jsval \<Rightarrow> (sw \<times> world, err + unit) state" and action tab
    by (rule says_seq [OF says_onw [OF says_requireAuth]]) (auto intro: says_ret that split: option.split)
  have failed: "says act_out returned (do {
      r \<leftarrow> start_capture e sess tab server tok;
      (case r of Inr u \<Rightarrow> ok () | Inl x \<Rightarrow> do { drop_persist e; handleBackendFailure e (fld tab ''id'') True; ok () }) })"
    for sess tab server tok
  proof (rule says_seq [OF says_start_capture])
    fix r :: "err + unit" and i assume "returned r i"
    then show "says act_out (\<lambda>b j. returned b (i + j))
      (case r of Inr u \<Rightarrow> ok () | Inl x \<Rightarrow> do { drop_persist e; handleBackendFailure e (fld tab ''id'') True; ok () })"
      by (cases r) (auto intro!: says_ret says_bind [OF says_stop(2)] says_then_ret [OF says_backend_failure])
  qed
  show ?thesis
    unfolding panel_start_def Let_def by (intro says_intros says_answer_ok gate failed)
qed

lemma says_run_one: "says act_out one m \<Longrightarrow> says act_out returned (do { r \<leftarrow> m; ok r })"
  by (erule says_seq) (auto simp: one_def intro: says_ret)

fun quiet :: "err + 'a \<Rightarrow> nat \<Rightarrow> bool" where
  "quiet (Inr a) n \<longleftrightarrow> n = 0"
| "quiet (Inl x) n \<longleftrightarrow> False"

lemma says_run_quiet: "says act_out none m \<Longrightarrow> says act_out quiet (do { r \<leftarrow> m; ok r })"
  by (erule says_seq) (auto simp: none_def intro: says_ret)

text \<open>The commands that ask for an answer.\<close>

definition requests :: "string list" where
  "requests =
     [''__PANEL_TOGGLE__'', ''__PANEL_START__'', ''__PANEL_STOP__'', ''__OVERLAY_PING__'', ''__CHAT_REALTIME_SNAPSHOT__'',
      ''__TRANSCRIPT_MODES__'', ''__HISTORY_LIST__'', ''__HISTORY_DETAIL__'', ''__HISTORY_DELETE__'', ''__CHAT_DB_SAVE__'',
      ''__CHAT_REST__'']"

definition is_request :: "jsval \<Rightarrow> bool" where
  "is_request msg \<longleftrightarrow> fld msg ''__cmd'' \<in> set (map (\<lambda>c. JStr (js c)) requests)"

text \<open>The \<open>catch\<close> of the bus answers what the handler did not.\<close>

lemma says_caught:
  fixes body :: "unit act_throwing"
  assumes "says act_out returned body"
  shows "says act_out one (do { r \<leftarrow> body;
    (case r of Inr u \<Rightarrow> skip | Inl x \<Rightarrow> do { tab \<leftarrow> gets cur_tab; handleBackendFailure e (f tab) True }) })"
proof (rule says_seq [OF assms])
  fix r :: "err + unit" and i assume "returned r i"
  then show "says act_out (\<lambda>b j. one b (i + j))
      (case r of Inr u \<Rightarrow> skip | Inl x \<Rightarrow> do { tab \<leftarrow> gets cur_tab; handleBackendFailure e (f tab) True })"
    by (cases r) (auto intro!: says_ret says_bind [OF says_acts(1)] says_backend_failure)
qed

lemma truthy_cmd: "fld msg ''__cmd'' = JStr (js c) \<Longrightarrow> c \<noteq> [] \<Longrightarrow> truthy msg \<and> truthy (fld msg ''__cmd'')"
  by (cases msg) (auto simp: fld_def)

lemma says_dispatch: "says act_out (if is_request msg then returned else quiet) (dispatch e msg sender)"
proof (cases "is_request msg")
  case True
  then have t: "truthy msg" "truthy (fld msg ''__cmd'')" by (auto simp: is_request_def requests_def dest: truthy_cmd)
  from True have c: "fld msg ''__cmd'' \<noteq> JStr (js ''__OFFSCREEN_STATUS__'')" "fld msg ''__cmd'' \<noteq> JStr (js ''__TRANSCRIPT_DELTA__'')"
    "fld msg ''__cmd'' \<noteq> JStr (js ''__TRANSCRIPT_STABLE__'')" "fld msg ''__cmd'' \<noteq> JStr (js ''__TRANSCRIPT_PATCH__'')"
    by (auto simp: is_request_def requests_def)
  have "says act_out returned (dispatch e msg sender)"
    unfolding dispatch_def Let_def using t c True
    by (simp only: not_True_eq_False simp_thms if_False)
      (intro says_if says_run_one says_toggle says_panel_start says_simple_handlers says_gated says_bodies says_chat_rest,
        simp add: is_request_def requests_def)
  with True show ?thesis by simp
next
  case False
  then have c: "fld msg ''__cmd'' \<noteq> JStr (js x)" if "x \<in> set requests" for x
    using that by (auto simp: is_request_def)
  note n = c [unfolded requests_def, simplified]
  have "says act_out quiet (dispatch e msg sender)"
    unfolding dispatch_def Let_def
    by (intro says_if says_run_quiet says_relays) (simp_all add: n says_ret)
  with False show ?thesis by simp
qed

end
