(* ===== verification/Sw_Contract.thy ===== *)
theory Sw_Contract
  imports Sw_Answers
begin

section \<open>What the service worker promises\<close>

text \<open>
  The invariant of the worker's variables over the reachable states, what a stop leaves behind on
  each of its paths, the order of the texts fed to the translator, the sign-in gate, the choice of
  the connection, and the texts relayed to the overlay.
\<close>

subsection \<open>The variables of the worker\<close>

text \<open>
  A socket that is open is the current one, the pause before a reconnection stays between half a
  second and five seconds, the switch for translation is the one of the modes, the marks of the
  sequence guards never fall below their start, and a capture that starts is not running yet.
\<close>

definition cur_ok :: "cur \<Rightarrow> bool" where
  "cur_ok c \<longleftrightarrow> \<not> (c_starting c \<and> truthy (c_startedAt c))"

definition sw_inv :: "sw \<Rightarrow> bool" where
  "sw_inv s \<longleftrightarrow>
     (s_wsOpen s \<longrightarrow> s_ws s) \<and> 500 \<le> s_backoff s \<and> s_backoff s \<le> 5000 \<and> s_wantVI s = m_vi (s_modes s) \<and>
     -1 \<le> s_lastSent s \<and> -1 \<le> s_lastRx s \<and> pred_option cur_ok (s_current s)"

inductive reachable :: "env \<Rightarrow> sw \<times> world \<Rightarrow> bool" for e where
  start: "reachable e (sw_init, w)"
| step: "reachable e x \<Longrightarrow> run_state (sw_step e ev) x = ((), y) \<Longrightarrow> reachable e y"

inductive_cases reachableE: "reachable e y"

lemma sw_inv_init: "sw_inv sw_init"
  by (simp add: sw_inv_def sw_init_def)

lemma cur_ok_simps [simp]:
  "cur_ok (c\<lparr>c_starting := False\<rparr>)" "cur_ok (c\<lparr>c_starting := False, c_startedAt := v\<rparr>)"
  "cur_ok (c\<lparr>c_tabId := t, c_server := v, c_finalWsUrl := v', c_starting := True, c_startedAt := JNull\<rparr>)"
  "cur_ok (c\<lparr>c_tabId := t, c_panelOpen := b\<rparr>) = cur_ok c" "cur_ok (c\<lparr>c_tabId := t\<rparr>) = cur_ok c"
  "cur_ok (c\<lparr>c_server := v, c_finalWsUrl := v'\<rparr>) = cur_ok c" "cur_ok (c\<lparr>c_panelOpen := b\<rparr>) = cur_ok c"
  "cur_ok (new_cur t v b)"
  by (simp_all add: cur_ok_def new_cur_def)

lemma cur_or_ok: "sw_inv s \<Longrightarrow> cur_ok (cur_or (new_cur t v b) s)"
  by (auto simp: sw_inv_def cur_or_def split: option.splits)

lemma keeps_inv_mods:
  "keeps sw_inv (mods (\<lambda>s. s\<lparr>s_timer := b\<rparr>))" "keeps sw_inv (mods (\<lambda>s. s\<lparr>s_hardReset := b\<rparr>))"
  "keeps sw_inv (mods (\<lambda>s. s\<lparr>s_connecting := n\<rparr>))" "keeps sw_inv (mods (\<lambda>s. s\<lparr>s_connecting := Suc (s_connecting s)\<rparr>))"
  "keeps sw_inv (mods (\<lambda>s. s\<lparr>s_url := u\<rparr>))" "keeps sw_inv (mods (\<lambda>s. s\<lparr>s_persist := p\<rparr>))"
  "keeps sw_inv (mods (\<lambda>s. s\<lparr>s_lastEn := x\<rparr>))" "keeps sw_inv (mods (\<lambda>s. s\<lparr>s_ws := b, s_wsOpen := False\<rparr>))"
  "keeps sw_inv (mods (\<lambda>s. s\<lparr>s_wsOpen := False\<rparr>))" "keeps sw_inv (mods (\<lambda>s. s\<lparr>s_notifyAt := t, s_notifyText := m\<rparr>))"
  "keeps sw_inv (mods (persist_stable f q))"
  by (rule keeps_mods, simp add: sw_inv_def persist_stable_def)+

lemma keeps_inv_mods2:
  "keeps sw_inv (mods (\<lambda>s. s\<lparr>s_backoff := 500, s_lastSent := -1, s_lastRx := -1, s_notifyAt := 0, s_notifyText := [],
                            s_lastEn := no_stable\<rparr>))"
  "keeps sw_inv (mods (\<lambda>s. s\<lparr>s_timer := True, s_backoff := min 5000 (2 * s_backoff s)\<rparr>))"
  "keeps sw_inv (mods (\<lambda>s. snd (guardFeed q s)))"
  "keeps sw_inv (mods (\<lambda>s. s\<lparr>s_modes := m, s_wantVI := m_vi m\<rparr>))"
  "keeps sw_inv (mods (\<lambda>s. case vi_num v of Some q \<Rightarrow> s\<lparr>s_lastRx := max (s_lastRx s) q\<rparr> | None \<Rightarrow> s))"
  by (rule keeps_mods,
      auto simp: sw_inv_def guardFeed_def feed_num_def split: option.splits if_splits)+

lemma keeps_inv_cur:
  "keeps sw_inv (mods (setCurrentStarting t u))" "keeps sw_inv (mods setCurrentStopped)"
  "keeps sw_inv (mods (\<lambda>s. s\<lparr>s_current := Some (c\<lparr>c_starting := False\<rparr>)\<rparr>))"
  "keeps sw_inv (mods (\<lambda>s. s\<lparr>s_current := Some (c\<lparr>c_starting := False, c_startedAt := v\<rparr>)\<rparr>))"
  "keeps sw_inv (mods (\<lambda>s. s\<lparr>s_current := None\<rparr>))"
  "keeps sw_inv (mods (\<lambda>s. s\<lparr>s_current := Some ((cur_or (new_cur t v True) s)\<lparr>c_tabId := t, c_panelOpen := True\<rparr>)\<rparr>))"
  "keeps sw_inv (mods (\<lambda>s. s\<lparr>s_current := map_option (\<lambda>c. c\<lparr>c_server := x, c_finalWsUrl := y\<rparr>) (s_current s)\<rparr>))"
  "keeps sw_inv (mods (\<lambda>s. s\<lparr>s_current := map_option (\<lambda>c. if c_tabId c = t then c\<lparr>c_panelOpen := False\<rparr> else c) (s_current s)\<rparr>))"
  "keeps sw_inv (mods (action_clicked tab))"
  by (rule keeps_mods, frule cur_or_ok,
      auto simp: sw_inv_def setCurrentStarting_def setCurrentStopped_def action_clicked_def option.pred_map comp_def
        cur_or_ok elim!: option.pred_mono_strong)+

lemmas keeps_mods_intros = keeps_inv_mods keeps_inv_mods2 keeps_inv_cur

lemma keeps_basic:
  "keeps I (browser e name arg)" "keeps I (answer fs)" "keeps I (refuse m)" "keeps I (to_tab e msg)" "keeps I (transSend e v)"
  "keeps I (trySendOverlayMode e tab)" "keeps I (removeOverlay e tab)" "keeps I (injectPanel e tab)" "keeps I (removePanel e tab)"
  "keeps I (ask_offscreen e pre msg)" "keeps I (gated e action body)" "keeps I (db_failure e tab sess x)" "keeps I (chat_rest e msg)"
  "keeps I (overlay_ping e sender)" "keeps I chat_snapshot"
  unfolding browser_def answer_def refuse_def to_tab_def transSend_def trySendOverlayMode_def removeOverlay_def injectPanel_def
    removePanel_def ask_offscreen_def gated_def db_failure_def chat_rest_def overlay_ping_def chat_snapshot_def ignoring_def
    handleBackendFailure_def Let_def
  by (intro keeps_intros | elim FalseE)+

lemma keeps_inv_translator:
  "keeps sw_inv (disconnectTranslator e b)" "keeps sw_inv connect_begin" "keeps sw_inv scheduleTranslatorReconnect"
  "keeps sw_inv (connect_resume e)" "keeps sw_inv (maybeUpdateTranslator e b)" "keeps sw_inv (feedTranslatorStable e t q m)"
  "keeps sw_inv ws_onclose" "keeps sw_inv reconnect_timer" "keeps sw_inv (ws_onmessage e data)"
  unfolding disconnectTranslator_def connect_begin_def scheduleTranslatorReconnect_def connect_resume_def maybeUpdateTranslator_def
    feedTranslatorStable_def ws_onclose_def reconnect_timer_def
  by (intro keeps_intros keeps_mods_intros keeps_basic)+
    (auto simp: ws_onmessage_def ws_hello_def ws_error_def Let_def split: jsval.split bool.split option.split
      intro!: keeps_intros keeps_mods_intros keeps_basic)

lemma keeps_inv_opened: "keeps sw_inv (ws_onopen e)"
  unfolding ws_onopen_def
  by (rule keeps_guarded, simp add: sw_inv_def)
    (intro keeps_intros keeps_mods_intros keeps_basic, auto simp: transSendReset_def transSendBaselineIfAny_def
      intro!: keeps_intros keeps_basic)

lemma keeps_inv_stop:
  "keeps sw_inv (drop_persist e)" "keeps sw_inv (stopCapture e)" "keeps sw_inv (resetRuntimeAfterFailure e)"
  "keeps sw_inv (handleBackendFailure e tab b)" "keeps sw_inv (stop_persist e)"
  unfolding handleBackendFailure_def resetRuntimeAfterFailure_def stopCapture_def drop_persist_def stop_persist_def ignoring_def
  by (intro keeps_intros keeps_mods_intros keeps_basic keeps_inv_translator)+

lemma keeps_inv_start: "keeps sw_inv (startCaptureOnTab e tab url auth strict r)"
  unfolding startCaptureOnTab_def ensureOffscreen_def displayMedia_start_def Let_def
  by (intro keeps_intros keeps_mods_intros keeps_basic keeps_inv_translator)

lemma keeps_injectOverlay: "keeps I (injectOverlay e tab)"
  unfolding injectOverlay_def ignoring_def by (intro keeps_intros keeps_basic)

lemma keeps_inv_panel:
  "keeps sw_inv (openPanel e tab)" "keeps sw_inv (closePanel e tab)" "keeps sw_inv (open_persist e sess tb server)"
  unfolding openPanel_def closePanel_def open_persist_def Let_def
  by (intro keeps_intros keeps_mods_intros keeps_basic keeps_injectOverlay keeps_inv_stop)+

lemma keeps_inv_handlers:
  "keeps sw_inv (offscreen_status e msg)" "keeps sw_inv (transcript_relay e msg)" "keeps sw_inv (panel_toggle e)"
  "keeps sw_inv (panel_stop e)" "keeps sw_inv (transcript_modes e msg)"
  unfolding offscreen_status_def transcript_relay_def panel_toggle_def panel_stop_def transcript_modes_def getActiveTab_def
    setCurrentRunning_def Let_def
  by (intro keeps_intros keeps_mods_intros keeps_basic keeps_inv_translator keeps_inv_stop keeps_inv_panel)+

lemma keeps_inv_panel_start: "keeps sw_inv (panel_start e msg)"
  unfolding panel_start_def start_capture_def getActiveTab_def Let_def
  by (intro keeps_intros keeps_mods_intros keeps_basic keeps_inv_translator keeps_inv_stop keeps_inv_panel keeps_inv_start
      keeps_injectOverlay)

lemma keeps_inv_message: "keeps sw_inv (on_message e msg sender)"
  unfolding on_message_def dispatch_def Let_def
  by (intro keeps_intros keeps_basic keeps_inv_handlers keeps_inv_panel_start keeps_inv_stop)

lemma keeps_inv_step: "keeps sw_inv (sw_step e ev)"
  by (cases ev)
    (auto simp: storage_changed_def tab_removed_def persist_next_def Let_def
      intro!: keeps_inv_message keeps_intros keeps_inv_stop keeps_inv_translator keeps_inv_opened keeps_mods_intros)

lemma reachable_inv: "reachable e x \<Longrightarrow> sw_inv (fst x)"
proof (induction rule: reachable.induct)
  case (step x ev y)
  then show ?case by (metis keeps_inv_step keeps_run prod.collapse)
qed (simp add: sw_inv_init)

lemma reachable_run: "reachable e x \<Longrightarrow> run_state (sw_run e evs) x = (u, y) \<Longrightarrow> reachable e y"
proof (induction e evs arbitrary: x rule: sw_run.induct)
  case (2 e ev evs)
  obtain z where z: "run_state (sw_step e ev) x = ((), z)" by (metis (full_types) surj_pair unit.exhaust)
  from z have "reachable e z" using 2(2) by (auto intro: reachable.step)
  moreover have "run_state (sw_run e evs) z = (u, y)" using 2(3) z by simp
  ultimately show ?case by (rule 2(1))
qed simp

subsection \<open>What a stop leaves behind\<close>

lemma effect_ignoring: "effect m f \<Longrightarrow> effect (ignoring m) f"
  unfolding ignoring_def by (drule effect_bind [OF _ effect_ret]) simp

text \<open>The variables after a stop.\<close>

definition disconnected :: "sw \<Rightarrow> sw" where
  "disconnected s =
     s\<lparr>s_timer := False, s_ws := False, s_wsOpen := False, s_backoff := 500, s_lastSent := -1, s_lastRx := -1,
       s_notifyAt := 0, s_notifyText := [], s_lastEn := no_stable\<rparr>"

definition stopped :: "sw \<Rightarrow> sw" where
  "stopped s = (disconnected (setCurrentStopped s))\<lparr>s_persist := None\<rparr>"

lemma effect_disconnect: "effect (disconnectTranslator e True) disconnected"
  by (rule effectI) (auto simp: disconnectTranslator_def disconnected_def split: prod.splits if_splits)

lemma effect_update_stop: "effect (maybeUpdateTranslator e True) disconnected"
  using effect_disconnect [of e] by (simp add: maybeUpdateTranslator_def effect_def)

lemma effect_drop_persist: "effect (drop_persist e) (\<lambda>s. s\<lparr>s_persist := None\<rparr>)"
  by (rule effectI) (auto simp: drop_persist_def stop_persist_def split: prod.splits option.splits)

lemma effect_removeOverlay: "effect (removeOverlay e tab) (\<lambda>s. s)"
  by (rule effectI) (auto simp: removeOverlay_def ignoring_def browser_def split: prod.splits if_splits)

lemma stopCapture_run:
  assumes "run_state (stopCapture e) (s, w) = (u, s', w')"
  shows "s' = stopped s"
proof -
  have "effect (stopCapture e) (\<lambda>s. (disconnected (setCurrentStopped s))\<lparr>s_persist := None\<rparr>)"
  proof -
    have tab: "effect (whenA b (do { r \<leftarrow> onw (safeSendTab e tab m); removeOverlay e tab })) (\<lambda>s. s)" for b tab m
      by (rule effectI, cases b) (auto split: prod.splits dest: effect_run [OF effect_removeOverlay])
    show ?thesis
      unfolding stopCapture_def
      by (rule effect_gets, rule effect_bind [OF effect_mods], rule effect_bind [OF effect_ignoring [OF effect_onw]],
          rule effect_bind [OF tab], rule effect_bind [OF effect_update_stop effect_drop_persist])
  qed
  from effect_run [OF this assms] show ?thesis by (simp add: stopped_def)
qed

text \<open>No capture, no socket, no persister, no cached text.\<close>

definition idle :: "sw \<Rightarrow> bool" where
  "idle s \<longleftrightarrow> \<not> running s \<and> \<not> s_ws s \<and> \<not> s_wsOpen s \<and> s_persist s = None \<and> s_lastEn s = no_stable"

lemma idle_simps [simp]:
  "idle (stopped s)" "idle s \<Longrightarrow> idle (setCurrentStopped s)" "idle s \<Longrightarrow> idle (disconnected s)"
  "idle s \<Longrightarrow> idle (s\<lparr>s_current := None\<rparr>)"
  by (auto simp: idle_def stopped_def disconnected_def setCurrentStopped_def running_def split: option.splits)

lemma idle_not_running: "idle s \<Longrightarrow> \<not> running s"
  by (simp add: idle_def)

definition is_transcript :: "jsval \<Rightarrow> bool" where
  "is_transcript msg \<longleftrightarrow>
     fld msg ''__cmd'' \<in> {JStr (js ''__TRANSCRIPT_DELTA__''), JStr (js ''__TRANSCRIPT_STABLE__''), JStr (js ''__TRANSCRIPT_PATCH__'')}"

lemma transcript_ignored:
  assumes "\<not> running s" and "is_transcript msg"
  shows "run_state (on_message e msg sender) (s, w) = ((), s, w)"
  using assms by (auto simp: is_transcript_def on_message_def dispatch_def Let_def transcript_relay_def)

lemma effect_reset: "effect (resetRuntimeAfterFailure e) (\<lambda>s. disconnected (setCurrentStopped (stopped s)))"
  unfolding resetRuntimeAfterFailure_def
  by (intro effect_bind effect_mods effect_update_stop) (auto intro: effectI stopCapture_run)

text \<open>The events that end a capture.\<close>

fun ends_capture :: "sw \<Rightarrow> sw_event \<Rightarrow> bool" where
  "ends_capture s (Message msg sender) \<longleftrightarrow>
     fld msg ''__cmd'' = JStr (js ''__PANEL_STOP__'') \<or>
     fld msg ''__cmd'' = JStr (js ''__OFFSCREEN_STATUS__'') \<and>
       fld (fld msg ''payload'') ''state'' \<in> {JStr (js ''server-busy''), JStr (js ''server-error''), JStr (js ''error'')}"
| "ends_capture s (StorageChanged area changes) \<longleftrightarrow>
     area = js ''local'' \<and> truthy (fld changes ''vtAuth'') \<and> running s \<and>
     has_profile (fld (fld changes ''vtAuth'') ''oldValue'') \<and> \<not> has_profile (fld (fld changes ''vtAuth'') ''newValue'')"
| "ends_capture s (TabRemoved t) \<longleftrightarrow> cur_tab s = t"
| "ends_capture s _ \<longleftrightarrow> False"

lemma idle_status:
  assumes "fld (fld msg ''payload'') ''state'' \<in> {JStr (js ''server-busy''), JStr (js ''server-error''), JStr (js ''error'')}"
    and "run_state (offscreen_status e msg) (s, w) = (u, s', w')"
  shows "idle s'"
proof -
  obtain s1 w1 where 1: "run_state (resetRuntimeAfterFailure e) (s, w) = ((), s1, w1)" by (rule act_runs)
  from effect_run [OF effect_reset 1] have "idle s1" by simp
  moreover have "truthy (fld msg ''payload'')" using assms(1) by (cases "fld msg ''payload''") (auto simp: fld_def)
  then have "s' = s1"
    using assms 1 by (auto simp: offscreen_status_def to_tab_def js_or_def split: prod.splits if_splits)
  ultimately show ?thesis by simp
qed

lemma idle_stop: "run_state (stopCapture e) (s, w) = (u, s', w') \<Longrightarrow> idle s'"
  by (drule stopCapture_run) simp

lemma capture_ended:
  assumes "ends_capture s ev" and "run_state (sw_step e ev) (s, w) = (u, s', w')"
  shows "idle s'"
proof (cases ev)
  case (Message msg sender)
  obtain s1 w1 where 1: "run_state (stopCapture e) (s, w) = ((), s1, w1)" by (rule act_runs)
  from assms(1) consider "fld msg ''__cmd'' = JStr (js ''__PANEL_STOP__'')"
    | "fld msg ''__cmd'' = JStr (js ''__OFFSCREEN_STATUS__'')"
      "fld (fld msg ''payload'') ''state'' \<in> {JStr (js ''server-busy''), JStr (js ''server-error''), JStr (js ''error'')}"
    unfolding Message by auto
  then show ?thesis
  proof cases
    case 1
    with truthy_cmd [OF 1] assms(2) \<open>run_state (stopCapture e) (s, w) = ((), s1, w1)\<close> idle_stop [of e s w] show ?thesis
      by (auto simp: Message on_message_def dispatch_def Let_def panel_stop_def answer_def)
  next
    case 2
    obtain s2 w2 where r: "run_state (offscreen_status e msg) (s, w) = ((), s2, w2)" by (rule act_runs)
    from idle_status [OF 2(2) r] r truthy_cmd [OF 2(1)] 2(1) assms(2) show ?thesis
      by (auto simp: Message on_message_def dispatch_def Let_def)
  qed
next
  case (StorageChanged area changes)
  obtain s1 w1 where 1: "run_state (stopCapture e) (s, w) = ((), s1, w1)" by (rule act_runs)
  with assms idle_stop [OF 1] show ?thesis
    by (auto simp: StorageChanged storage_changed_def Let_def split: prod.splits)
next
  case (TabRemoved t)
  obtain s1 w1 where 1: "run_state (stopCapture e) (s, w) = ((), s1, w1)" by (rule act_runs)
  obtain s2 w2 where 2: "run_state (disconnectTranslator e True) (s1, w1) = ((), s2, w2)" by (rule act_runs)
  from effect_run [OF effect_disconnect 2] idle_stop [OF 1] have "idle s2" by simp
  with assms 1 2 show ?thesis by (auto simp: TabRemoved tab_removed_def)
qed (use assms in auto)

subsection \<open>The guard of the translator's feed\<close>

interpretation feed: seq_guard feed_num s_lastSent guardFeed
  by unfold_locales (auto simp: guardFeed_def)

text \<open>The same guard next to the world, where the texts it lets through are outputs.\<close>

interpretation feedw: seq_guard feed_num "\<lambda>x. s_lastSent (fst x)"
    "\<lambda>v x. (fst (guardFeed v (fst x)), (snd (guardFeed v (fst x)), snd x :: world))"
  by unfold_locales (simp_all add: feed.unnumbered feed.stale feed.fresh)

definition can_feed :: "sw \<Rightarrow> bool" where
  "can_feed s \<longleftrightarrow> shouldTranslateNow s \<and> s_ws s \<and> s_wsOpen s"

definition stable_out :: "ustr \<Rightarrow> int \<Rightarrow> int \<Rightarrow> out" where
  "stable_out full n t = Ws ''send'' (stable_msg full (JInt n) (JInt t))"

lemma feed_num_int: "0 < n \<Longrightarrow> feed_num (JInt n) = Some (of_int n)"
  by (simp add: feed_num_def num_opt_def)

lemma can_feed_lastSent [simp]: "can_feed (s\<lparr>s_lastSent := q\<rparr>) = can_feed s"
  by (simp add: can_feed_def shouldTranslateNow_def running_def cur_tab_def)

lemma feed_step:
  assumes "can_feed s" and "0 < n"
  shows "run_state (feedTranslatorStable e full (JInt n) (JInt t)) (s, w) =
    ((), (if s_lastSent s < of_int n
          then (s\<lparr>s_lastSent := of_int n\<rparr>, w\<lparr>w_out := w_out w @ [stable_out full n t]\<rparr>) else (s, w)))"
proof -
  have "s_ws s" "s_wsOpen s" "shouldTranslateNow s" using assms(1) by (simp_all add: can_feed_def)
  then show ?thesis
    using assms(2) by (auto simp: feedTranslatorStable_def guardFeed_def feed_num_int transSend_def run_emit stable_out_def)
qed

definition feed_all :: "env \<Rightarrow> (int \<times> int \<times> ustr) list \<Rightarrow> sw \<times> world \<Rightarrow> sw \<times> world" where
  "feed_all e xs x = foldl (\<lambda>x (n, t, full). snd (run_state (feedTranslatorStable e full (JInt n) (JInt t)) x)) x xs"

definition feed_outs :: "(int \<times> int \<times> ustr) list \<Rightarrow> (rat \<times> out) list" where
  "feed_outs xs = map (\<lambda>(n, t, full). (of_int n, stable_out full n t)) xs"

lemma feed_all_run:
  assumes "can_feed s" and "\<forall>(n, t, full) \<in> set xs. 0 < n"
  shows "w_out (snd (feed_all e xs (s, w))) = w_out w @ map snd (records (s_lastSent s) (feed_outs xs)) \<and>
    can_feed (fst (feed_all e xs (s, w)))"
proof -
  define h where "h = (\<lambda>(x :: sw \<times> world) (p :: rat \<times> out). if s_lastSent (fst x) < fst p
    then ((fst x)\<lparr>s_lastSent := fst p\<rparr>, (snd x)\<lparr>w_out := w_out (snd x) @ [snd p]\<rparr>) else x)"
  have "feed_all e xs x = foldl h x (feed_outs xs)" if "can_feed (fst x)" for x
    using that assms(2) unfolding feed_all_def
  proof (induction xs arbitrary: x)
    case (Cons p xs)
    obtain n t full where p: "p = (n, t, full)" by (cases p)
    from Cons.prems have "snd (run_state (feedTranslatorStable e full (JInt n) (JInt t)) x) = h x (of_int n, stable_out full n t)"
      by (cases x) (simp add: feed_step p h_def)
    moreover have "can_feed (fst (h x (of_int n, stable_out full n t)))" using Cons.prems(1) by (simp add: h_def)
    ultimately show ?case using Cons.IH Cons.prems(2) by (simp add: p feed_outs_def)
  qed (simp add: feed_outs_def)
  moreover have "w_out (snd (foldl h (s, w) (feed_outs xs))) =
      w_out (snd (s, w)) @ map snd (records (s_lastSent (fst (s, w))) (feed_outs xs)) \<and>
    s_lastSent (fst (foldl h (s, w) (feed_outs xs))) = last_mark (s_lastSent (fst (s, w))) (feed_outs xs) \<and>
    can_feed (fst (foldl h (s, w) (feed_outs xs)))"
    by (rule feedw.queue_records [where P = "\<lambda>x. can_feed (fst x)" and q = "\<lambda>x. w_out (snd x)"]) (auto simp: h_def assms(1))
  ultimately show ?thesis using assms(1) by simp
qed

subsection \<open>The sign-in gate\<close>

definition stored_session :: "world \<Rightarrow> jsval" where
  "stored_session w = fst (run_state getVtAuthSession w)"

lemma run_session: "run_state getVtAuthSession w = (stored_session w, w)"
  by (simp add: stored_session_def getVtAuthSession_def Let_def)

definition gated_commands :: "string list" where
  "gated_commands = [''__HISTORY_LIST__'', ''__HISTORY_DETAIL__'', ''__HISTORY_DELETE__'', ''__CHAT_DB_SAVE__'', ''__CHAT_REST__'']"

lemma notify_run:
  "\<exists>new. run_state (notifyPanel e tab p) w = ((), w\<lparr>w_out := w_out w @ new\<rparr>) \<and> answers new = 0"
  by (auto simp: notifyPanel_def safeSendTab_def run_emit intro: exI [of _ "[]"])

lemma gate_closed:
  assumes "\<not> isAuthedSession (stored_session w)"
  shows "\<exists>w'. run_state (requireAuthOrFail e action tab) w = (None, w') \<and> w_reqs w' = w_reqs w \<and>
    (\<exists>v. w_store w' = obj_set (w_store w) (js ''vtNeedAuth'') v) \<and>
    (\<exists>new. w_out w' = w_out w @ new @ [Reply auth_required_reply] \<and> answers new = 0)"
proof -
  define w1 where "w1 = snd (run_state (do { markNeedAuth e action; broadcastAuthRequired e action }) w)"
  have 1: "run_state (do { markNeedAuth e action; broadcastAuthRequired e action }) w = ((), w1)"
    unfolding w1_def by (simp add: prod_eq_iff)
  then have w1: "w_reqs w1 = w_reqs w" "\<exists>v. w_store w1 = obj_set (w_store w) (js ''vtNeedAuth'') v"
    "\<exists>new. w_out w1 = w_out w @ new \<and> answers new = 0"
    by (auto simp: markNeedAuth_def broadcastAuthRequired_def run_emit)
  obtain w2 new where 2: "run_state (if truthy tab then notifyPanel e tab (notice ''error'' AUTH_REQUIRED_TEXT) else ret ()) w1 = ((), w2)"
    and w2: "w2 = w1\<lparr>w_out := w_out w1 @ new\<rparr>" "answers new = 0"
  proof (cases "truthy tab")
    case True
    with notify_run [of e tab "notice ''error'' AUTH_REQUIRED_TEXT" w1] that show ?thesis by auto
  next
    case False
    have "w1 = w1\<lparr>w_out := w_out w1 @ []\<rparr>" by simp
    with False that [of w1 "[]"] show ?thesis by (simp add: answers_def)
  qed
  have "run_state (requireAuthOrFail e action tab) w = (None, w2\<lparr>w_out := w_out w2 @ [Reply auth_required_reply]\<rparr>)"
    using assms 1 2 by (auto simp: requireAuthOrFail_def notifyAuthRequired_def run_session split: prod.splits)
  moreover obtain n1 where "w_out w1 = w_out w @ n1" "answers n1 = 0" using w1(3) by blast
  ultimately show ?thesis using w1(1,2) w2 by (auto intro!: exI [of _ "n1 @ new"])
qed

lemma gated_closed:
  assumes "\<not> isAuthedSession (stored_session w)" and "fld msg ''__cmd'' \<in> set (map (\<lambda>c. JStr (js c)) gated_commands)"
  obtains action tab w' where "run_state (requireAuthOrFail e action tab) w = (None, w')"
    and "run_state (on_message e msg sender) (s, w) = ((), s, w')"
proof -
  have refused: "\<exists>w'. run_state (requireAuthOrFail e action tab) w = (None, w')" for action tab
    using gate_closed [OF assms(1)] by blast
  have t: "truthy msg" "truthy (fld msg ''__cmd'')" using assms(2) by (auto simp: gated_commands_def dest: truthy_cmd)
  let ?t = "js_or (cur_tab s) JNull"
  from assms(2) consider
      "fld msg ''__cmd'' = JStr (js ''__HISTORY_LIST__'')" | "fld msg ''__cmd'' = JStr (js ''__HISTORY_DETAIL__'')"
    | "fld msg ''__cmd'' = JStr (js ''__HISTORY_DELETE__'')" | "fld msg ''__cmd'' = JStr (js ''__CHAT_DB_SAVE__'')"
    | "fld msg ''__cmd'' = JStr (js ''__CHAT_REST__'')"
    by (auto simp: gated_commands_def)
  then show ?thesis
  proof cases
    case 1
    with t refused [of "''history_list''" ?t] show ?thesis
      by (auto simp: on_message_def dispatch_def Let_def gated_def intro: that [of "''history_list''" ?t])
  next
    case 2
    with t refused [of "''history_detail''" ?t] show ?thesis
      by (auto simp: on_message_def dispatch_def Let_def gated_def intro: that [of "''history_detail''" ?t])
  next
    case 3
    with t refused [of "''history_delete''" ?t] show ?thesis
      by (auto simp: on_message_def dispatch_def Let_def gated_def intro: that [of "''history_delete''" ?t])
  next
    case 4
    with t refused [of "''chat_save''" ?t] show ?thesis
      by (auto simp: on_message_def dispatch_def Let_def gated_def intro: that [of "''chat_save''" ?t])
  next
    case 5
    with t refused [of "''chat''" ?t] show ?thesis
      by (auto simp: on_message_def dispatch_def Let_def chat_rest_def intro: that [of "''chat''" ?t])
  qed
qed

subsection \<open>The connection of a capture\<close>

lemma plan_shape:
  assumes "run_state (plan_ws e server tok) w = (Inr plan, w')"
  shows "\<exists>u. e_url e server = Some u \<and>
    (u_protocol u = js ''wss:'' \<or> isLocalHost (u_hostname u) \<and> u_protocol u = js ''ws:'') \<and>
    (wp_auth plan \<noteq> JNull \<longrightarrow> u_protocol u = js ''wss:'' \<and> wp_url plan = JStr server \<and> wp_strict plan)"
proof -
  from assms obtain u where u: "e_url e server = Some u" by (auto simp: plan_ws_def split: option.splits)
  from assms u have p: "u_protocol u = js ''wss:'' \<or> isLocalHost (u_hostname u) \<and> u_protocol u = js ''ws:''"
    by (auto simp: plan_ws_def Let_def split: if_splits)
  with assms u have "wp_auth plan \<noteq> JNull \<longrightarrow> u_protocol u = js ''wss:'' \<and> wp_url plan = JStr server \<and> wp_strict plan"
    by (auto simp: plan_ws_def Let_def run_andThen split: prod.splits sum.splits if_splits)
  with u p show ?thesis by blast
qed

subsection \<open>Properties\<close>

definition demo_cur :: cur where
  "demo_cur = \<lparr>c_tabId = JInt 7, c_server = JStr (js ''ws://localhost:8765/stt''), c_finalWsUrl = JNull, c_startedAt = JInt 1,
     c_panelOpen = True, c_starting = False\<rparr>"

definition demo_running :: sw where
  "demo_running = sw_init\<lparr>s_current := Some demo_cur, s_modes := \<lparr>m_en = True, m_vi = True, m_voice = False, m_record = False\<rparr>,
     s_wantVI := True, s_ws := True, s_wsOpen := True\<rparr>"

definition stop_msg :: jsval where
  "stop_msg = cmd_msg ''__PANEL_STOP__'' []"

text \<open>Property C7: in every state the worker can reach, an open socket is the current one, the pause before
  the next reconnection is between 500 ms and 5 s, the translation switch is the one of the modes, the
  marks of both sequence guards are at least -1, and no capture is starting and running at once.\<close>

theorem worker_invariant:
  assumes "reachable e (s, w)"
  shows "(s_wsOpen s \<longrightarrow> s_ws s) \<and> 500 \<le> s_backoff s \<and> s_backoff s \<le> 5000 \<and> s_wantVI s = m_vi (s_modes s) \<and>
    -1 \<le> s_lastSent s \<and> -1 \<le> s_lastRx s \<and> \<not> (active s \<and> starting s)"
  using reachable_inv [OF assms]
  by (auto simp: sw_inv_def cur_ok_def active_def starting_def split: option.splits)

theorem worker_invariant_witness:
  "\<exists>s w. reachable offline_env (s, w) \<and> cur_tab s = JInt 7 \<and> s_backoff s \<le> 5000"
proof -
  obtain s w where run: "run_state (sw_run offline_env [ActionClicked (JObj [(js ''id'', JInt 7), (js ''windowId'', JInt 1)])])
      (sw_init, blank_world) = ((), s, w)" by (rule act_runs)
  have r: "reachable offline_env (s, w)" using reachable.start run by (rule reachable_run)
  have "cur_tab s = JInt 7" using run by (auto simp: action_clicked_def cur_tab_def)
  with r worker_invariant [OF r] show ?thesis by blast
qed



text \<open>Property C22: while the translator is connected, the stable texts sent to it are exactly those whose
  positive number exceeds all numbers sent before, each once, in order; repeated and late ones are dropped.\<close>

theorem feed_in_order:
  assumes "shouldTranslateNow s" and "s_ws s" and "s_wsOpen s" and "\<forall>(n, t, full) \<in> set xs. 0 < n"
  shows "w_out (snd (feed_all e xs (s, w))) = w_out w @ map snd (records (s_lastSent s) (feed_outs xs)) \<and>
    sorted_wrt (<) (map fst (records (s_lastSent s) (feed_outs xs)))"
  using feed_all_run [of s xs e w] assms by (simp add: can_feed_def records_strict)

theorem feed_in_order_witness:
  "w_out (snd (feed_all offline_env [(1, 10, js ''a''), (3, 30, js ''c''), (2, 20, js ''b''), (3, 31, js ''c'')] (demo_running, blank_world))) =
     [stable_out (js ''a'') 1 10, stable_out (js ''c'') 3 30]"
proof -
  have "shouldTranslateNow demo_running" "s_ws demo_running" "s_wsOpen demo_running"
    by (simp_all add: demo_running_def demo_cur_def shouldTranslateNow_def cur_tab_def running_def)
  from feed_in_order [OF this, of "[(1, 10, js ''a''), (3, 30, js ''c''), (2, 20, js ''b''), (3, 31, js ''c'')]" offline_env blank_world]
  show ?thesis by (simp add: feed_outs_def demo_running_def sw_init_def blank_world_def)
qed

text \<open>Property C2: a history or chat command without a signed-in session reads and sends nothing of the
  databases: no request leaves the worker, its variables stay as they are, of the storage only the
  note that a sign-in is needed changes, and the one answer says so.\<close>

theorem auth_gate:
  assumes "fld msg ''__cmd'' \<in> set (map (\<lambda>c. JStr (js c)) gated_commands)" and "\<not> isAuthedSession (stored_session w)"
    and "run_state (on_message e msg sender) (s, w) = (u, s', w')"
  shows "s' = s \<and> w_reqs w' = w_reqs w \<and> (\<exists>v. w_store w' = obj_set (w_store w) (js ''vtNeedAuth'') v) \<and>
    (\<exists>new. w_out w' = w_out w @ new @ [Reply auth_required_reply] \<and> answers new = 0)"
proof -
  obtain action tab w1 where 1: "run_state (requireAuthOrFail e action tab) w = (None, w1)"
      "run_state (on_message e msg sender) (s, w) = ((), s, w1)"
    using gated_closed [OF assms(2,1)] by metis
  with assms(3) have "s' = s" "w' = w1" by simp_all
  with gate_closed [OF assms(2), of e action tab] 1(1) show ?thesis by auto
qed

theorem auth_gate_witness:
  "w_reqs (snd (snd (run_state (on_message offline_env (cmd_msg ''__HISTORY_DELETE__'' [(js ''payload'', JObj [(js ''sessionId'', JInt 5)])]) JNull)
     (sw_init, blank_world)))) = w_reqs blank_world"
proof -
  let ?m = "cmd_msg ''__HISTORY_DELETE__'' [(js ''payload'', JObj [(js ''sessionId'', JInt 5)])]"
  obtain s' w' where run: "run_state (on_message offline_env ?m JNull) (sw_init, blank_world) = ((), s', w')"
    by (rule act_runs)
  have c: "fld ?m ''__cmd'' = JStr (js ''__HISTORY_DELETE__'')" by (simp add: cmd_msg_def)
  have m: "fld ?m ''__cmd'' \<in> set (map (\<lambda>c. JStr (js c)) gated_commands)" unfolding c by (simp add: gated_commands_def)
  have a: "\<not> isAuthedSession (stored_session blank_world)" by code_simp
  have "w_reqs w' = w_reqs blank_world" using auth_gate [OF m a run] by blast
  then show ?thesis by (simp only: run snd_conv)
qed


definition local_env :: env where
  "local_env = offline_env\<lparr>e_url := (\<lambda>s. Some \<lparr>u_origin = js ''ws://localhost:8765'', u_protocol = js ''ws:'', u_hostname = js ''localhost'',
     u_port = js ''8765'', u_pathname = js ''/stt'', u_search = [], u_hash = []\<rparr>)\<rparr>"


text \<open>A connection that was suspended in \<open>connectTranslator\<close> when the capture was stopped opens
  its socket all the same: the check of \<open>shouldTranslateNow\<close> is not repeated after the \<open>await\<close>.\<close>

lemma connect_survives_stop:
  assumes "0 < s_connecting s" and "run_state (stopCapture e) (s, w) = (u, s1, w1)"
    and "fst (run_state (resolveTranslatorUrl e (cur_server s1) (cur_server s1)) w1) = Inr target"
    and "\<forall>h v. \<exists>a. e_deliver e h (Ws ''open'' v) = Inr a"
    and "run_state (connect_resume e) (s1, w1) = (u', s2, w2)"
  shows "s_ws s2 \<and> \<not> shouldTranslateNow s2"
proof -
  have s1: "s1 = stopped s" using assms(2) by (rule stopCapture_run)
  then have n: "0 < s_connecting s1" and ws: "\<not> s_ws s1" and nr: "\<not> running s1"
    using assms(1) idle_simps(1) [of s] by (auto simp: idle_def) (simp add: stopped_def disconnected_def setCurrentStopped_def)
  obtain url source where t: "target = (url, source)" by (cases target)
  obtain w3 where r: "run_state (resolveTranslatorUrl e (cur_server s1) (cur_server s1)) w1 = (Inr (url, source), w3)"
    using assms(3) t by (metis prod.collapse)
  have srv: "cur_server (s1\<lparr>s_connecting := k\<rparr>) = cur_server s1" for k by (simp add: cur_server_def)
  obtain a where a: "e_deliver e (w_out w3) (Ws ''open'' (JStr (if url \<noteq> [] then url else s_url s1))) = Inr a" using assms(4) by blast
  have "running (s1\<lparr>s_connecting := k, s_url := u1, s_timer := b, s_ws := b', s_wsOpen := b''\<rparr>) = running s1"
    "running (s1\<lparr>s_connecting := k, s_timer := b, s_ws := b', s_wsOpen := b''\<rparr>) = running s1" for k u1 b b' b''
    by (simp_all add: running_def)
  then show ?thesis
    using assms(5) n ws nr r a
    by (auto simp: connect_resume_def srv disconnectTranslator_def run_emit shouldTranslateNow_def split: if_splits)
qed

end
