(* ===== verification/Offscreen_Recorder.thy ===== *)
theory Offscreen_Recorder
  imports Actions Identity
begin

section \<open>offscreen.js: storing a recorded video\<close>

text \<open>
  The part of the offscreen document that talks to the storage and to the table
  \<open>video_recordings\<close>: ids, dates, request headers, the digest, the upload over the candidate
  buckets, the insertion that drops the columns the table does not have, and
  \<open>persistRecordedBlob\<close>.  A blob is its bytes and its type.  A configuration is the object the
  service worker sends with the start message.  Property names on the prototype of an object
  (\<open>constructor\<close> and the like) are not column names of the database.
\<close>

record blob =
  b_bytes :: "nat list"
  b_type :: ustr

definition b_size :: "blob \<Rightarrow> nat" where
  "b_size b = length (b_bytes b)"

definition STORAGE_BUCKET_CANDIDATES :: "ustr list" where
  "STORAGE_BUCKET_CANDIDATES =
     [js ''video-recordings'', js ''video_recordings'', js ''recordings'', js ''videos'', js ''vtranser-recordings'']"

text \<open>\<open>sendStatus\<close>: a message to the extension, stamped with the time; failures are swallowed.\<close>

definition sendStatus :: "env \<Rightarrow> jobj \<Rightarrow> unit prog" where
  "sendStatus e fs = do {
     t \<leftarrow> Date_now e;
     r \<leftarrow> emit e (ToRuntime (JObj [(js ''__cmd'', JStr (js ''__OFFSCREEN_STATUS__'')),
            (js ''payload'', JObj (obj_merge [(js ''ts'', JNum (JFin t))] fs))]));
     ret () }"

subsection \<open>Ids, dates, headers\<close>

definition offscreen_parseDbId :: "jsval \<Rightarrow> ustr" where
  "offscreen_parseDbId v = (let s = trim (str_co_empty v) in if re_full (RPlus is_digit) s then s else [])"

interpretation offscreenId: id_normalizer offscreen_parseDbId
  by unfold_locales (auto simp: offscreen_parseDbId_def Let_def)

text \<open>\<open>new Date(n).toISOString()\<close> throws for what is not the time of a date.\<close>

definition RANGE_ERROR :: err where
  "RANGE_ERROR = Err (js ''Invalid time value'')"

fun iso_of :: "env \<Rightarrow> jnum \<Rightarrow> ustr option" where
  "iso_of e (JFin q) = (if \<bar>q\<bar> \<le> 8640000000000000 then Some (e_iso e q) else None)"
| "iso_of e _ = None"

definition toIso :: "env \<Rightarrow> jsval \<Rightarrow> ustr prog" where
  "toIso e v = (case e_dateparse e (str_or_empty v) of Some t \<Rightarrow> ret (e_iso e t) | None \<Rightarrow> now_iso e)"

text \<open>\<open>Number(v || Date.now())\<close>.\<close>

definition num_or_now :: "env \<Rightarrow> jsval \<Rightarrow> jnum prog" where
  "num_or_now e v = (if truthy v then ret (to_num v) else do { t \<leftarrow> Date_now e; ret (JFin t) })"

definition offscreen_supaHeaders :: "jsval \<Rightarrow> (ustr \<times> ustr) list \<Rightarrow> (ustr \<times> ustr) list" where
  "offscreen_supaHeaders authToken extra =
     (let bearer = str_or (trim (str_or_empty authToken)) SUPABASE_KEY in
      obj_merge [(js ''apikey'', SUPABASE_KEY), (js ''Authorization'', js ''Bearer '' @ bearer)] extra)"

text \<open>The numbers of an array, as \<open>Array.from(new Uint8Array(\<dots>))\<close> gives them.\<close>

fun nats_of :: "jsval \<Rightarrow> nat list" where
  "nats_of (JArr xs) = map (\<lambda>x. case x of JNum (JFin q) \<Rightarrow> nat \<lfloor>q\<rfloor> | _ \<Rightarrow> 0) xs"
| "nats_of _ = []"

definition bytes_val :: "nat list \<Rightarrow> jsval" where
  "bytes_val bs = JArr (map (\<lambda>b. JInt (int b)) bs)"

definition sha256Hex :: "env \<Rightarrow> blob \<Rightarrow> ustr prog" where
  "sha256Hex e b = do {
     r \<leftarrow> emit e (Browser ''crypto.subtle.digest'' (bytes_val (b_bytes b)));
     ret (case r of Inl x \<Rightarrow> [] | Inr d \<Rightarrow> concat (map hex_byte (nats_of d))) }"

fun all_some :: "'a option list \<Rightarrow> 'a list option" where
  "all_some [] = Some []"
| "all_some (None # xs) = None"
| "all_some (Some x # xs) = map_option (\<lambda>ys. x # ys) (all_some xs)"

definition encodeStoragePath :: "ustr \<Rightarrow> ustr option" where
  "encodeStoragePath path = map_option (join [47]) (all_some (map encodeURIComponent (split_on 47 path)))"

subsection \<open>The upload\<close>

definition storage_path :: "ustr \<Rightarrow> ustr \<Rightarrow> ustr \<Rightarrow> ustr \<Rightarrow> ustr" where
  "storage_path uid trSessionId ts type =
     js ''users/'' @ uid @ js ''/transcript/'' @ trSessionId @ js ''/'' @
     map (\<lambda>c. if c = 58 \<or> c = 46 then 45 else c) ts @ js ''.'' @
     (if str_includes type (js ''mp4'') then js ''mp4'' else js ''webm'')"

definition upload_req :: "jsval \<Rightarrow> blob \<Rightarrow> ustr \<Rightarrow> ustr \<Rightarrow> req" where
  "upload_req cfg b bucket encodedPath =
     \<lparr>rq_verb = POST, rq_url = SUPABASE_URL @ js ''/storage/v1/object/'' @ bucket @ js ''/'' @ encodedPath, rq_query = [],
      rq_headers = offscreen_supaHeaders (js_or (fld cfg ''authToken'') (JStr []))
        [(js ''content-type'', str_or (b_type b) (js ''video/webm'')), (js ''x-upsert'', js ''true'')],
      rq_body = Some (bytes_val (b_bytes b))\<rparr>"

text \<open>The result is the error text or the address of the file.\<close>

fun try_buckets :: "env \<Rightarrow> jsval \<Rightarrow> blob \<Rightarrow> ustr \<Rightarrow> ustr \<Rightarrow> ustr list \<Rightarrow> (ustr + ustr) throwing" where
  "try_buckets e cfg b path enc [] = ok (Inl (js ''STORAGE_UPLOAD_FAILED''))"
| "try_buckets e cfg b path enc (bucket # buckets) =
     (case encodeURIComponent bucket of
        None \<Rightarrow> throw (Err (js ''URI malformed''))
      | Some eb \<Rightarrow> do {
          r \<leftarrow> fetch e (upload_req cfg b eb enc);
          (case r of
             Inl x \<Rightarrow> try_buckets e cfg b path enc buckets
           | Inr a \<Rightarrow> if rs_ok a then ok (Inr (js ''supabase://'' @ bucket @ js ''/'' @ path))
                     else try_buckets e cfg b path enc buckets) })"

definition uploadBlobToStorage :: "env \<Rightarrow> blob option \<Rightarrow> jsval \<Rightarrow> (ustr + ustr) throwing" where
  "uploadBlobToStorage e blob cfg =
     (let uid = offscreen_parseDbId (fld cfg ''userId'') in
      case blob of
        None \<Rightarrow> ok (Inl (js ''NO_VIDEO_BLOB''))
      | Some b \<Rightarrow>
          if uid = [] \<or> b_size b = 0 then ok (Inl (js ''NO_VIDEO_BLOB''))
          else (let trSessionId = str_or (offscreen_parseDbId (fld cfg ''trSessionId'')) (js ''na'') in do {
            n \<leftarrow> num_or_now e (fld cfg ''startedAt'');
            (case iso_of e n of
               None \<Rightarrow> throw RANGE_ERROR
             | Some ts \<Rightarrow>
                 (let path = storage_path uid trSessionId ts (b_type b) in
                  case encodeStoragePath path of
                    None \<Rightarrow> throw (Err (js ''URI malformed''))
                  | Some enc \<Rightarrow> try_buckets e cfg b path enc STORAGE_BUCKET_CANDIDATES)) }))"

subsection \<open>The row\<close>

text \<open>\<open>/Could not find the '([^']+)' column/i\<close> and its group.\<close>

definition missing_re :: re where
  "missing_re = RSeq (RLit_i (js ''Could not find the '' @ [39])) (RSeq (RPlus (\<lambda>c. c \<noteq> 39)) (RLit_i (39 # js '' column'')))"

definition missing_column :: "ustr \<Rightarrow> ustr option" where
  "missing_column txt =
     (case re_exec missing_re txt of
        None \<Rightarrow> None
      | Some (_, m, _) \<Rightarrow> Some (take (length m - 28) (drop 20 m)))"

definition recording_req :: "jsval \<Rightarrow> jobj \<Rightarrow> req" where
  "recording_req cfg body =
     \<lparr>rq_verb = POST, rq_url = rest_url ''video_recordings'', rq_query = [],
      rq_headers = offscreen_supaHeaders (js_or (fld cfg ''authToken'') (JStr []))
        [(js ''content-type'', js ''application/json''), (js ''Prefer'', js ''return=representation'')],
      rq_body = Some (JObj body)\<rparr>"

text \<open>\<open>String(e?.message || e)\<close> of an error.\<close>

definition err_text :: "err \<Rightarrow> ustr" where
  "err_text x = str_or (e_msg x) (js ''Error'')"

definition inserted_row :: "env \<Rightarrow> resp \<Rightarrow> jsval" where
  "inserted_row e r =
     (case resp_json e r of
        None \<Rightarrow> JNull
      | Some j \<Rightarrow> if is_arr j then js_or (idx j 0) JNull else JNull)"

fun insert_try :: "env \<Rightarrow> jsval \<Rightarrow> nat \<Rightarrow> jobj \<Rightarrow> (ustr + jsval) prog" where
  "insert_try e cfg 0 body = ret (Inl (js ''VIDEO_RECORDINGS_INSERT_RETRY_EXCEEDED''))"
| "insert_try e cfg (Suc i) body = do {
     r \<leftarrow> fetch e (recording_req cfg body);
     (case r of
        Inl x \<Rightarrow> ret (Inl (js ''VIDEO_RECORDINGS_INSERT_FETCH: '' @ err_text x))
      | Inr a \<Rightarrow>
          if rs_ok a then ret (Inr (inserted_row e a))
          else (let txt = text_or_empty a;
                    failed = ret (Inl (js ''VIDEO_RECORDINGS_INSERT_'' @ int_str (rs_status a) @ js '': '' @ str_or txt (js ''failed'')))
                in case missing_column txt of
                     None \<Rightarrow> failed
                   | Some c \<Rightarrow> if obj_get body c \<noteq> JUndef then insert_try e cfg i (obj_del body c) else failed)) }"

definition insertVideoRecordingFlexible :: "env \<Rightarrow> jsval \<Rightarrow> jsval \<Rightarrow> (ustr + jsval) prog" where
  "insertVideoRecordingFlexible e row cfg = insert_try e cfg 10 (props (js_or row (JObj [])))"

subsection \<open>persistRecordedBlob\<close>

fun jneg :: "jnum \<Rightarrow> jnum" where
  "jneg (JFin q) = JFin (- q)"
| "jneg JPosInf = JNegInf"
| "jneg JNegInf = JPosInf"
| "jneg JNaN = JNaN"

fun jadd :: "jnum \<Rightarrow> jnum \<Rightarrow> jnum" where
  "jadd JNaN _ = JNaN"
| "jadd _ JNaN = JNaN"
| "jadd (JFin a) (JFin b) = JFin (a + b)"
| "jadd JPosInf JNegInf = JNaN"
| "jadd JNegInf JPosInf = JNaN"
| "jadd (JFin a) b = b"
| "jadd a _ = a"

text \<open>\<open>Math.max(0, b - a)\<close>.\<close>

definition elapsed :: "jnum \<Rightarrow> jnum \<Rightarrow> jnum" where
  "elapsed b a = (case jadd b (jneg a) of JFin q \<Rightarrow> JFin (max 0 q) | JNegInf \<Rightarrow> JFin 0 | n \<Rightarrow> n)"

definition fk_error :: "ustr \<Rightarrow> bool" where
  "fk_error txt \<longleftrightarrow> re_test (RAlt (RLit (js ''23503'')) (RLit_i (js ''foreign key''))) txt"

definition THIRTY_DAYS :: rat where
  "THIRTY_DAYS = 30 * 24 * 60 * 60 * 1000"

definition base_row :: "ustr \<Rightarrow> ustr \<Rightarrow> ustr \<Rightarrow> ustr \<Rightarrow> jnum \<Rightarrow> ustr \<Rightarrow> blob \<Rightarrow> ustr \<Rightarrow> bool \<Rightarrow> ustr \<Rightarrow> jobj" where
  "base_row uid trSessionId started ended durationMs fileUrl b checksum uploadOk retention =
     [(js ''user_id'', JStr uid), (js ''tr_session_id'', js_or (JStr trSessionId) JNull), (js ''chat_session_id'', JNull),
      (js ''started_at'', JStr started), (js ''ended_at'', JStr ended), (js ''duration_ms'', JNum durationMs),
      (js ''file_url'', JStr fileUrl), (js ''size_bytes'', JStr (nat_str (b_size b))),
      (js ''mime_type'', JStr (str_or (b_type b) (js ''video/webm''))), (js ''checksum'', js_or (JStr checksum) JNull),
      (js ''storage_class'', JStr (js ''hot'')), (js ''encryption_key_id'', JNull),
      (js ''status'', JStr (if uploadOk then js ''ready'' else js ''processing'')),
      (js ''constent_flag'', JStr (js ''true'')), (js ''consent_flag'', JStr (js ''true'')),
      (js ''purpose'', JStr (js ''feature'')), (js ''retention_until'', JStr retention),
      (js ''preview_url'', JNull), (js ''caption_file_url'', JNull)]"

definition no_session :: "jobj \<Rightarrow> jobj" where
  "no_session row = obj_set (obj_set row (js ''tr_session_id'') JNull) (js ''chat_session_id'') JNull"

definition no_user :: "jobj \<Rightarrow> jobj" where
  "no_user row = obj_set (obj_set (obj_set row (js ''user_id'') JNull) (js ''tr_session_id'') JNull) (js ''chat_session_id'') JNull"

text \<open>The insertion and its two fallbacks on a foreign key error.\<close>

definition fk_retry :: "env \<Rightarrow> jsval \<Rightarrow> jobj \<Rightarrow> ustr + jsval \<Rightarrow> (ustr + jsval) prog" where
  "fk_retry e cfg row out' =
     (case out' of
        Inl txt \<Rightarrow> if fk_error txt then insertVideoRecordingFlexible e (JObj row) cfg else ret out'
      | Inr r \<Rightarrow> ret out')"

definition insert_with_fallbacks :: "env \<Rightarrow> jsval \<Rightarrow> jobj \<Rightarrow> (ustr + jsval) prog" where
  "insert_with_fallbacks e cfg row = do {
     out1 \<leftarrow> insertVideoRecordingFlexible e (JObj row) cfg;
     out2 \<leftarrow> fk_retry e cfg (no_session row) out1;
     fk_retry e cfg (no_user row) out2 }"

definition persistRecordedBlob :: "env \<Rightarrow> blob option \<Rightarrow> jsval \<Rightarrow> (ustr + jsval) throwing" where
  "persistRecordedBlob e blob cfg =
     (let uid = offscreen_parseDbId (fld cfg ''userId'') in
      if uid = [] then ok (Inl (js ''USER_ID_INVALID''))
      else case blob of
        None \<Rightarrow> ok (Inl (js ''EMPTY_VIDEO_BLOB''))
      | Some b \<Rightarrow>
          if b_size b = 0 then ok (Inl (js ''EMPTY_VIDEO_BLOB''))
          else do {
            startedAt \<leftarrow> num_or_now e (fld cfg ''startedAt'');
            endedAt \<leftarrow> num_or_now e (fld cfg ''endedAt'');
            andThen (uploadBlobToStorage e (Some b) cfg) (\<lambda>upload. do {
              fileUrl \<leftarrow> (case upload of
                Inr uri \<Rightarrow> ret uri
              | Inl x \<Rightarrow> do { t \<leftarrow> Date_now e; ret (js ''recording://upload-failed/'' @ rat_str t) });
              checksum \<leftarrow> sha256Hex e b;
              started \<leftarrow> toIso e (JNum startedAt);
              ended \<leftarrow> toIso e (JNum endedAt);
              t \<leftarrow> Date_now e;
              retention \<leftarrow> toIso e (JNum (JFin (t + THIRTY_DAYS)));
              out' \<leftarrow> insert_with_fallbacks e cfg
                (base_row uid (offscreen_parseDbId (fld cfg ''trSessionId'')) started ended (elapsed endedAt startedAt)
                   fileUrl b checksum (case upload of Inr _ \<Rightarrow> True | Inl _ \<Rightarrow> False) retention);
              ok (case out' of
                    Inl txt \<Rightarrow> (case upload of
                        Inl up \<Rightarrow> Inl (str_or txt (js ''SAVE_FAILED'') @ js '' | '' @ up)
                      | Inr _ \<Rightarrow> Inl txt)
                  | Inr r \<Rightarrow> Inr r) }) })"

end
