(* ===== verification/Offscreen_Stream.thy ===== *)
theory Offscreen_Stream
  imports Offscreen_Recorder Pcm_Processor
begin

section \<open>offscreen.js: the variables and the socket\<close>

text \<open>
  The variables of offscreen.js and what touches its socket: the handshake, the back pressure, the
  worklet's messages, the server's messages and the handlers of the socket.  Only the current socket
  has handlers, because \<open>closeWs\<close> removes those of the previous one.  The promise of \<open>openWs\<close> that a
  start waits for is \<open>o_waiting\<close>; when it settles, its result joins \<open>o_settled\<close>, where the start picks it
  up.  A call of the browser or of the socket is an output whose receiver, a function of the
  environment, answers or throws; \<open>Ws ''pcm''\<close> sends samples and \<open>Ws ''send''\<close> a JSON text.
  \<open>stopAll\<close> waits for the recorder and for the audio context, so a stop is a job with a phase.
\<close>

text \<open>What the caller of \<open>stopAll\<close> does when it returns.\<close>

datatype after = Nobody | Start_with jsval | Answer_stop | Fail_start err | Answer_busy

text \<open>
  Where a stop waits: for the recorder to stop, after the recording was stored (result, size,
  duration), for the audio context to close, or for its caller to go on.
\<close>

datatype phase = Wait_recorder | Stored "ustr + jsval" nat jnum | Wait_context | Finished

record stop_job =
  j_reason :: ustr
  j_phase :: phase
  j_after :: after

record off =
  o_ctx :: bool
  o_media :: bool
  o_graph :: bool
  o_handler :: bool
  o_firstSent :: bool
  o_ws :: bool
  o_wsOpen :: bool
  o_ready :: bool
  o_strict :: bool
  o_auth :: jsval
  o_hsMs :: jsval
  o_lastMeterLogAt :: rat
  o_lastAudioAt :: rat
  o_bytesSent :: nat
  o_chunksSent :: nat
  o_bytesDropped :: nat
  o_chunksDropped :: nat
  o_back :: bool
  o_buffered :: jnum
  o_lastBackLogAt :: rat
  o_hs :: bool
  o_hsTimer :: "jnum option"
  o_hsOk :: bool
  o_connectTimer :: "jnum option"
  o_waiting :: bool
  o_settled :: "err option list"
  o_recorder :: bool
  o_recActive :: bool
  o_recordCfg :: jsval
  o_recordStream :: bool
  o_recChunks :: "nat list list"
  o_recMime :: ustr
  o_recStartedAt :: rat
  o_jobs :: "stop_job list"

definition off_init :: off where
  "off_init =
     \<lparr>o_ctx = False, o_media = False, o_graph = False, o_handler = False, o_firstSent = False, o_ws = False,
      o_wsOpen = False, o_ready = False, o_strict = True, o_auth = JNull, o_hsMs = JUndef, o_lastMeterLogAt = 0,
      o_lastAudioAt = 0, o_bytesSent = 0, o_chunksSent = 0, o_bytesDropped = 0, o_chunksDropped = 0, o_back = False,
      o_buffered = JFin 0, o_lastBackLogAt = 0, o_hs = False, o_hsTimer = None, o_hsOk = False, o_connectTimer = None,
      o_waiting = False, o_settled = [], o_recorder = False, o_recActive = False, o_recordCfg = JNull,
      o_recordStream = False, o_recChunks = [], o_recMime = [], o_recStartedAt = 0, o_jobs = []\<rparr>"

type_synonym 'a oact = "(off, 'a) action"

definition WS_BUFFER_HIGH_WATERMARK :: rat where
  "WS_BUFFER_HIGH_WATERMARK = 256 * 1024"

definition WS_BUFFER_RESUME_WATERMARK :: rat where
  "WS_BUFFER_RESUME_WATERMARK = 64 * 1024"

definition status :: "env \<Rightarrow> jobj \<Rightarrow> unit oact" where
  "status e fs = onw (sendStatus e fs)"

text \<open>A call whose result is not used, and whose exception the code swallows.\<close>

definition calls :: "env \<Rightarrow> out \<Rightarrow> unit oact" where
  "calls e x = do { r \<leftarrow> onw (emit e x); skip }"

subsection \<open>The handshake\<close>

text \<open>The promise of \<open>openWs\<close> settles once: \<open>None\<close> when it is resolved, an error when it is rejected.\<close>

definition settle :: "err option \<Rightarrow> off \<Rightarrow> off" where
  "settle r s = (if o_waiting s then s\<lparr>o_waiting := False, o_settled := o_settled s @ [r]\<rparr> else s)"

definition clearHandshake :: "off \<Rightarrow> off" where
  "clearHandshake s = s\<lparr>o_hsTimer := None, o_hs := False\<rparr>"

definition beginHandshake :: "jnum \<Rightarrow> off \<Rightarrow> off" where
  "beginHandshake timeoutMs s = (clearHandshake s)\<lparr>o_hsOk := False, o_hs := True, o_hsTimer := Some timeoutMs\<rparr>"

definition resolveHandshakeIfAny :: "off \<Rightarrow> off" where
  "resolveHandshakeIfAny s =
     (if o_hsOk s then s
      else (let s1 = s\<lparr>o_hsOk := True\<rparr> in clearHandshake (if o_hs s1 then settle None s1 else s1)))"

definition rejectHandshakeIfAny :: "err \<Rightarrow> off \<Rightarrow> off" where
  "rejectHandshakeIfAny x s =
     (if o_hsOk s then s else clearHandshake (if o_hs s then settle (Some x) s else s))"

definition clearConnectTimer :: "off \<Rightarrow> off" where
  "clearConnectTimer s = s\<lparr>o_connectTimer := None\<rparr>"

subsection \<open>Back pressure\<close>

definition host_value :: "env \<Rightarrow> string \<Rightarrow> jsval oact" where
  "host_value e name = do { r \<leftarrow> onw (emit e (Browser name JUndef)); State_Monad.return (case r of Inl x \<Rightarrow> JUndef | Inr v \<Rightarrow> v) }"

text \<open>\<open>ws && ws.readyState === WebSocket.OPEN\<close>.\<close>

definition socket_open :: "env \<Rightarrow> bool oact" where
  "socket_open e = do {
     w \<leftarrow> gets o_ws;
     (if w then do { v \<leftarrow> host_value e ''ws.readyState''; State_Monad.return (v = JInt 1) }
      else State_Monad.return False) }"

definition bufferedAmount :: "env \<Rightarrow> jnum oact" where
  "bufferedAmount e = do { v \<leftarrow> host_value e ''ws.bufferedAmount''; State_Monad.return (to_num (js_or v (JInt 0))) }"

definition can_stream :: "env \<Rightarrow> bool oact" where
  "can_stream e = do {
     s \<leftarrow> gets (\<lambda>s. o_wsOpen s \<and> o_ready s);
     (if s then socket_open e else State_Monad.return False) }"

definition pressure_fields :: "string \<Rightarrow> off \<Rightarrow> jobj" where
  "pressure_fields st s =
     [(js ''state'', JStr (js st)), (js ''bufferedAmount'', JNum (o_buffered s)),
      (js ''chunksDropped'', JInt (int (o_chunksDropped s))), (js ''bytesDropped'', JInt (int (o_bytesDropped s)))]"

text \<open>The two watermarks: the flag after a look at the amount buffered.\<close>

definition pressed :: "jnum \<Rightarrow> off \<Rightarrow> off" where
  "pressed b s = s\<lparr>o_buffered := b, o_back := o_back s \<or> jle (JFin WS_BUFFER_HIGH_WATERMARK) b\<rparr>"

definition shouldDropPcmByBackpressure :: "env \<Rightarrow> bool oact" where
  "shouldDropPcmByBackpressure e = do {
     can \<leftarrow> can_stream e;
     (if \<not> can then State_Monad.return False
      else do {
        b \<leftarrow> bufferedAmount e;
        mods (pressed b);
        s \<leftarrow> gets id;
        (if o_back s \<and> jlt (JFin WS_BUFFER_RESUME_WATERMARK) (o_buffered s) then do {
           now \<leftarrow> onw (Date_now e);
           whenA (900 \<le> now - o_lastBackLogAt s) (do {
             mods (\<lambda>s. s\<lparr>o_lastBackLogAt := now\<rparr>);
             status e (pressure_fields ''audio-backpressure'' s) });
           State_Monad.return True }
         else do {
           whenA (o_back s \<and> jle (o_buffered s) (JFin WS_BUFFER_RESUME_WATERMARK)) (do {
             mods (\<lambda>s. s\<lparr>o_back := False\<rparr>);
             status e (pressure_fields ''audio-backpressure-clear'' s) });
           State_Monad.return False }) }) }"

subsection \<open>Messages of the worklet\<close>

definition meter_num :: "jnum \<Rightarrow> jsval" where
  "meter_num n = JNum (to_num (js_or (JNum n) (JInt 0)))"

definition on_meter :: "env \<Rightarrow> jnum \<Rightarrow> jnum \<Rightarrow> unit oact" where
  "on_meter e rms peak = do {
     now \<leftarrow> onw (Date_now e);
     mods (\<lambda>s. s\<lparr>o_lastAudioAt := now\<rparr>);
     op \<leftarrow> socket_open e;
     whenA op (do { b \<leftarrow> bufferedAmount e; mods (\<lambda>s. s\<lparr>o_buffered := b\<rparr>) });
     s \<leftarrow> gets id;
     whenA (1000 < now - o_lastMeterLogAt s) (do {
       mods (\<lambda>s. s\<lparr>o_lastMeterLogAt := now\<rparr>);
       status e [(js ''state'', JStr (js ''meter'')), (js ''rms'', meter_num rms), (js ''peak'', meter_num peak),
         (js ''wsOpen'', JBool (o_wsOpen s)), (js ''wsReadyToStream'', JBool (o_ready s)),
         (js ''bytesSent'', JInt (int (o_bytesSent s))), (js ''chunksSent'', JInt (int (o_chunksSent s))),
         (js ''bytesDropped'', JInt (int (o_bytesDropped s))), (js ''chunksDropped'', JInt (int (o_chunksDropped s))),
         (js ''wsBufferedAmount'', JNum (o_buffered s)), (js ''wsBackpressureActive'', JBool (o_back s))] }) }"

definition pcm_val :: "16 word list \<Rightarrow> jsval" where
  "pcm_val buf = JArr (map (\<lambda>x. JInt (sint x)) buf)"

definition count_sent :: "nat \<Rightarrow> off \<Rightarrow> off" where
  "count_sent n s = s\<lparr>o_chunksSent := Suc (o_chunksSent s), o_bytesSent := o_bytesSent s + n\<rparr>"

definition count_dropped :: "nat \<Rightarrow> off \<Rightarrow> off" where
  "count_dropped n s = s\<lparr>o_chunksDropped := Suc (o_chunksDropped s), o_bytesDropped := o_bytesDropped s + n\<rparr>"

text \<open>A chunk of \<open>n\<close> samples has \<open>2 n\<close> bytes.\<close>

definition on_pcm :: "env \<Rightarrow> 16 word list \<Rightarrow> unit oact" where
  "on_pcm e buf = do {
     can \<leftarrow> can_stream e;
     whenA can (do {
       dropIt \<leftarrow> shouldDropPcmByBackpressure e;
       (if dropIt then mods (count_dropped (2 * length buf))
        else do {
          r \<leftarrow> onw (emit e (Ws ''pcm'' (pcm_val buf)));
          (case r of
             Inl x \<Rightarrow> skip
           | Inr v \<Rightarrow> do {
               mods (count_sent (2 * length buf));
               b \<leftarrow> bufferedAmount e;
               mods (\<lambda>s. s\<lparr>o_buffered := b\<rparr>);
               first \<leftarrow> gets o_firstSent;
               whenA (\<not> first) (do {
                 mods (\<lambda>s. s\<lparr>o_firstSent := True\<rparr>);
                 mods resolveHandshakeIfAny }) }) }) }) }"

text \<open>
  A message as it arrives: the level the worklet measured is a double, the real number it stands for
  rounded by \<open>dbl\<close>.
\<close>

datatype port_msg = Port_meter jnum jnum | Port_pcm "16 word list"

fun port_of :: "(real \<Rightarrow> rat) \<Rightarrow> pcm_msg \<Rightarrow> port_msg" where
  "port_of dbl (Meter rms peak) = Port_meter (opt_num (map_option dbl rms)) peak"
| "port_of dbl (PcmInt16 buf) = Port_pcm buf"

definition on_worklet :: "env \<Rightarrow> port_msg \<Rightarrow> unit oact" where
  "on_worklet e msg = do {
     h \<leftarrow> gets o_handler;
     whenA h (case msg of Port_meter rms peak \<Rightarrow> on_meter e rms peak | Port_pcm buf \<Rightarrow> on_pcm e buf) }"

subsection \<open>Closing the socket\<close>

definition safeSendText :: "env \<Rightarrow> jsval \<Rightarrow> bool oact" where
  "safeSendText e obj = do { r \<leftarrow> onw (emit e (Ws ''send'' obj)); State_Monad.return (case r of Inl x \<Rightarrow> False | Inr v \<Rightarrow> True) }"

definition closed :: "off \<Rightarrow> off" where
  "closed s =
     (clearConnectTimer (clearHandshake (s\<lparr>o_ws := False\<rparr>)))\<lparr>o_buffered := JFin 0, o_back := False\<rparr>"

definition closeWs :: "env \<Rightarrow> bool \<Rightarrow> unit oact" where
  "closeWs e sendStop = do {
     wsOpen \<leftarrow> gets o_wsOpen;
     op \<leftarrow> (if wsOpen then socket_open e else State_Monad.return False);
     whenA (op \<and> sendStop) (do { r \<leftarrow> safeSendText e (JObj [(js ''event'', JStr (js ''stop''))]); skip });
     mods (\<lambda>s. s\<lparr>o_wsOpen := False, o_ready := False\<rparr>);
     w \<leftarrow> gets o_ws;
     whenA w (calls e (Ws ''close'' JUndef));
     mods closed }"

end
