(* ===== verification/Offscreen_Session.thy ===== *)
theory Offscreen_Session
  imports Offscreen_Stream
begin

section \<open>offscreen.js: starting and stopping a capture\<close>

text \<open>
  The video recorder, \<open>stopAll\<close>, the messages of the server, the handlers of the socket, \<open>start\<close> and the
  messages of the extension.  An event runs to completion.  \<open>stopAll\<close> comes back in jobs: it waits for
  the recorder, for the requests that store the recording, and for the audio context, and other
  events may come in between.  Getting the media stream and building the audio graph is one event.
\<close>

subsection \<open>The recorder\<close>

text \<open>A stream: the labels of its audio tracks and the number of its video tracks.\<close>

record media =
  md_audio :: "jsval list"
  md_video :: nat

definition mime_candidates :: "ustr list" where
  "mime_candidates =
     [js ''video/webm;codecs=vp9,opus'', js ''video/webm;codecs=vp8,opus'', js ''video/webm;codecs=h264,opus'', js ''video/webm'']"

fun first_supported :: "env \<Rightarrow> ustr list \<Rightarrow> ustr prog" where
  "first_supported e [] = ret []"
| "first_supported e (mt # mts) = do {
     r \<leftarrow> emit e (Browser ''MediaRecorder.isTypeSupported'' (JStr mt));
     (case r of
        Inl x \<Rightarrow> first_supported e mts
      | Inr v \<Rightarrow> if truthy v then ret mt else first_supported e mts) }"

definition has_recorder :: "env \<Rightarrow> bool prog" where
  "has_recorder e = do { r \<leftarrow> emit e (Browser ''MediaRecorder'' JUndef); ret (case r of Inl x \<Rightarrow> False | Inr v \<Rightarrow> True) }"

definition pickRecorderMimeType :: "env \<Rightarrow> ustr prog" where
  "pickRecorderMimeType e = do { has \<leftarrow> has_recorder e; (if has then first_supported e mime_candidates else ret []) }"

definition clearVideoRecorderState :: "off \<Rightarrow> off" where
  "clearVideoRecorderState s =
     s\<lparr>o_recorder := False, o_recordStream := False, o_recChunks := [], o_recMime := [], o_recStartedAt := 0,
       o_recordCfg := JNull\<rparr>"

definition record_cfg :: "jsval \<Rightarrow> rat \<Rightarrow> jsval" where
  "record_cfg cfg now =
     JObj (obj_set (obj_set (obj_set (props cfg) (js ''userId'') (JStr (offscreen_parseDbId (fld cfg ''userId''))))
       (js ''trSessionId'') (JStr (offscreen_parseDbId (fld cfg ''trSessionId'')))) (js ''startedAt'') (JNum (JFin now)))"

definition startVideoRecorderIfNeeded :: "env \<Rightarrow> media \<Rightarrow> jsval \<Rightarrow> (off, err + unit) action" where
  "startVideoRecorderIfNeeded e stream cfg =
     (if \<not> truthy cfg \<or> \<not> truthy (fld cfg ''enabled'') then ok ()
      else do {
        has \<leftarrow> onw (has_recorder e);
        (if \<not> has then throw (Err (js ''MEDIA_RECORDER_UNSUPPORTED''))
         else if md_video stream = 0 then throw (Err (js ''NO_VIDEO_TRACK''))
         else do {
           mimeType \<leftarrow> onw (pickRecorderMimeType e);
           andThen (onw (emit e (Browser ''new MediaRecorder'' (JStr mimeType)))) (\<lambda>rec. do {
             now \<leftarrow> onw (Date_now e);
             mods (\<lambda>s. s\<lparr>o_recChunks := [],
               o_recMime := str_or_empty (js_ors [fld rec ''mimeType'', JStr mimeType, JStr (js ''video/webm'')]),
               o_recStartedAt := now, o_recordCfg := record_cfg cfg now, o_recordStream := True, o_recorder := True,
               o_recActive := False\<rparr>);
             andThen (onw (emit e (Browser ''recorder.start'' (JInt 1000)))) (\<lambda>u. do {
               mods (\<lambda>s. s\<lparr>o_recActive := True\<rparr>);
               s \<leftarrow> gets id;
               status e [(js ''state'', JStr (js ''recording-started'')), (js ''mimeType'', JStr (o_recMime s))];
               ok () }) }) }) })"

definition on_recorder_data :: "nat list \<Rightarrow> off \<Rightarrow> off" where
  "on_recorder_data d s = (if o_recorder s \<and> d \<noteq> [] then s\<lparr>o_recChunks := o_recChunks s @ [d]\<rparr> else s)"

definition on_recorder_error :: "env \<Rightarrow> jsval \<Rightarrow> unit oact" where
  "on_recorder_error e ev = do {
     r \<leftarrow> gets o_recorder;
     whenA r (status e [(js ''state'', JStr (js ''recording-error'')), (js ''stage'', JStr (js ''runtime'')),
       (js ''error'', JStr (to_str (js_or (fld (fld ev ''error'') ''message'') (JStr (js ''RECORDER_ERROR'')))))]) }"

subsection \<open>Stopping\<close>

definition push_job :: "ustr \<Rightarrow> after \<Rightarrow> phase \<Rightarrow> unit oact" where
  "push_job reason aft ph = mods (\<lambda>s. s\<lparr>o_jobs := o_jobs s @ [\<lparr>j_reason = reason, j_phase = ph, j_after = aft\<rparr>]\<rparr>)"

text \<open>The \<open>finally\<close> block of \<open>stopVideoRecorderAndPersist\<close>.\<close>

definition recorder_finally :: "env \<Rightarrow> unit oact" where
  "recorder_finally e = do {
     rs \<leftarrow> gets o_recordStream;
     whenA rs (calls e (Browser ''recordStream.stop'' JUndef));
     mods clearVideoRecorderState }"

text \<open>The end of \<open>stopAll\<close>, once the audio context is closed.\<close>

definition stop_reset :: "off \<Rightarrow> off" where
  "stop_reset s =
     s\<lparr>o_ctx := False, o_wsOpen := False, o_ready := False, o_bytesSent := 0, o_chunksSent := 0, o_bytesDropped := 0,
       o_chunksDropped := 0, o_buffered := JFin 0, o_back := False, o_lastBackLogAt := 0, o_lastAudioAt := 0,
       o_hsOk := False\<rparr>"

definition stop_finish :: "env \<Rightarrow> ustr \<Rightarrow> after \<Rightarrow> unit oact" where
  "stop_finish e reason aft = do {
     mods stop_reset;
     status e [(js ''state'', JStr (js ''stopped'')), (js ''reason'', JStr reason)];
     push_job reason aft Finished }"

text \<open>\<open>stopAll\<close> once the recorder is done.\<close>

definition stop_tail :: "env \<Rightarrow> ustr \<Rightarrow> after \<Rightarrow> unit oact" where
  "stop_tail e reason aft = do {
     mods (\<lambda>s. s\<lparr>o_graph := False\<rparr>);
     m \<leftarrow> gets o_media;
     whenA m (calls e (Browser ''mediaStream.stop'' JUndef));
     mods (\<lambda>s. s\<lparr>o_media := False\<rparr>);
     c \<leftarrow> gets o_ctx;
     (if c then do { calls e (Browser ''audioCtx.close'' JUndef); push_job reason aft Wait_context }
      else stop_finish e reason aft) }"

definition recording_error :: "env \<Rightarrow> string \<Rightarrow> ustr \<Rightarrow> ustr \<Rightarrow> unit oact" where
  "recording_error e stage error reason =
     status e [(js ''state'', JStr (js ''recording-error'')), (js ''stage'', JStr (js stage)),
       (js ''error'', JStr error), (js ''reason'', JStr reason)]"

text \<open>\<open>Number(recordCfg?.startedAt || recorderStartedAt || Date.now())\<close>.\<close>

definition recorded_since :: "env \<Rightarrow> off \<Rightarrow> jnum prog" where
  "recorded_since e s =
     num_or_now e (js_or (fld (o_recordCfg s) ''startedAt'') (JNum (JFin (o_recStartedAt s))))"

text \<open>The recorder has stopped: its chunks become a blob, which is stored.\<close>

definition store_recording :: "env \<Rightarrow> ustr \<Rightarrow> after \<Rightarrow> unit oact" where
  "store_recording e reason aft = do {
     s \<leftarrow> gets id;
     startedAt \<leftarrow> onw (recorded_since e s);
     endedAt \<leftarrow> onw (Date_now e);
     (let b = \<lparr>b_bytes = concat (o_recChunks s), b_type = str_or (o_recMime s) (js ''video/webm'')\<rparr> in
      if o_recChunks s = [] \<or> b_size b = 0 then do {
        recording_error e ''finalize'' (js ''EMPTY_VIDEO_BLOB'') reason;
        recorder_finally e;
        stop_tail e reason aft }
      else do {
        r \<leftarrow> onw (persistRecordedBlob e (Some b)
               (JObj (obj_set (obj_set (props (o_recordCfg s)) (js ''startedAt'') (JNum startedAt)) (js ''endedAt'') (JNum (JFin endedAt)))));
        push_job reason aft
          (Stored (case r of Inl x \<Rightarrow> Inl (js ''PERSIST_THROW: '' @ err_text x) | Inr out' \<Rightarrow> out') (b_size b)
                  (elapsed (JFin endedAt) startedAt)) }) }"

definition stored :: "env \<Rightarrow> ustr \<Rightarrow> after \<Rightarrow> ustr + jsval \<Rightarrow> nat \<Rightarrow> jnum \<Rightarrow> unit oact" where
  "stored e reason aft out' size' duration = do {
     cfg \<leftarrow> gets o_recordCfg;
     (case out' of
        Inl txt \<Rightarrow> recording_error e ''persist'' (str_or txt (js ''SAVE_FAILED'')) reason
      | Inr row \<Rightarrow> status e [(js ''state'', JStr (js ''recording-saved'')), (js ''reason'', JStr reason),
          (js ''size_bytes'', JInt (int size')), (js ''duration_ms'', JNum duration),
          (js ''tr_session_id'', js_or (JStr (offscreen_parseDbId (fld cfg ''trSessionId''))) JNull)]);
     recorder_finally e;
     stop_tail e reason aft }"

definition stopVideoRecorder :: "env \<Rightarrow> ustr \<Rightarrow> after \<Rightarrow> unit oact" where
  "stopVideoRecorder e reason aft = do {
     s \<leftarrow> gets id;
     (if \<not> o_recorder s \<and> \<not> truthy (o_recordCfg s) then stop_tail e reason aft
      else if o_recorder s \<and> o_recActive s then do {
        calls e (Browser ''recorder.requestData'' JUndef);
        calls e (Browser ''recorder.stop'' JUndef);
        mods (\<lambda>s. s\<lparr>o_recActive := False\<rparr>);
        push_job reason aft Wait_recorder }
      else store_recording e reason aft) }"

definition stopAll :: "env \<Rightarrow> ustr \<Rightarrow> after \<Rightarrow> unit oact" where
  "stopAll e reason aft = do {
     status e [(js ''state'', JStr (js ''stopping'')), (js ''reason'', JStr reason)];
     closeWs e True;
     mods (\<lambda>s. s\<lparr>o_handler := o_handler s \<and> \<not> o_graph s\<rparr>);
     stopVideoRecorder e reason aft }"

subsection \<open>Messages of the server\<close>

definition guessKind :: "jsval \<Rightarrow> ustr" where
  "guessKind obj =
     toLowerCase (str_or_empty (js_coalesces
       [fld obj ''type'', fld obj ''event'', fld obj ''kind'', fld obj ''op'', fld obj ''action'', JStr []]))"

definition busy_re :: re where
  "busy_re = RAlt (RLit_i [98, 7853, 110]) (RLit_i (js ''busy''))"

definition relay :: "env \<Rightarrow> string \<Rightarrow> jsval \<Rightarrow> unit oact" where
  "relay e cmd obj = calls e (ToRuntime (JObj [(js ''__cmd'', JStr (js cmd)), (js ''payload'', obj)]))"

definition server_error :: "env \<Rightarrow> jsval \<Rightarrow> unit oact" where
  "server_error e obj =
     (let code = toUpperCase (str_or_empty (js_or (fld obj ''code'') (fld obj ''err_code'')));
          msg = to_str (js_ors [fld obj ''error'', fld obj ''message'', fld obj ''detail'', JStr (js ''SERVER_ERROR'')])
      in if code = js ''BUSY'' \<or> re_test busy_re msg then do {
           status e [(js ''state'', JStr (js ''server-busy'')), (js ''code'', js_or (fld obj ''code'') (JStr (js ''BUSY''))),
             (js ''error'', JStr msg)];
           mods (rejectHandshakeIfAny (Err (js ''BUSY'')));
           stopAll e (js ''busy'') Nobody }
         else do {
           status e [(js ''state'', JStr (js ''server-error'')), (js ''code'', js_or (fld obj ''code'') (JStr [])),
             (js ''error'', JStr msg)];
           mods (rejectHandshakeIfAny (Err msg));
           strict \<leftarrow> gets o_strict;
           whenA strict (stopAll e (js ''server-error'') Nobody) })"

definition detail_of :: "jsval \<Rightarrow> jsval" where
  "detail_of obj = js_ors [fld obj ''detail'', fld obj ''data'', JObj []]"

text \<open>The relay of a transcript message, by its kind.\<close>

definition transcript_cmd :: "ustr \<Rightarrow> string option" where
  "transcript_cmd kind =
     (if kind = js ''delta'' then Some ''__TRANSCRIPT_DELTA__''
      else if kind = js ''stable'' then Some ''__TRANSCRIPT_STABLE__''
      else if kind = js ''patch'' then Some ''__TRANSCRIPT_PATCH__'' else None)"

definition handleServerTextMessage :: "env \<Rightarrow> ustr \<Rightarrow> unit oact" where
  "handleServerTextMessage e text =
     (let obj = (case e_json e text of None \<Rightarrow> JNull | Some v \<Rightarrow> v); kind = guessKind obj in
      if \<not> is_object obj then mods resolveHandshakeIfAny
      else if kind = js ''error'' then server_error e obj
      else do {
        (if kind = js ''hello'' then
           status e [(js ''state'', JStr (js ''server-hello'')), (js ''detail'', detail_of obj)]
         else if kind = js ''status'' then
           status e [(js ''state'', JStr (js ''server-status'')), (js ''detail'', detail_of obj),
             (js ''stage'', js_or (fld obj ''stage'') (JStr []))]
         else case transcript_cmd kind of Some cmd \<Rightarrow> relay e cmd obj | None \<Rightarrow> skip);
        mods resolveHandshakeIfAny })"

text \<open>A message whose text is empty or cannot be read is dropped.\<close>

definition ws_text :: "env \<Rightarrow> ustr option \<Rightarrow> unit oact" where
  "ws_text e txt = (case txt of None \<Rightarrow> skip | Some t \<Rightarrow> whenA (t \<noteq> []) (handleServerTextMessage e t))"

subsection \<open>The socket\<close>

text \<open>\<open>Math.max(1000, Number(x) || d)\<close>.\<close>

definition timer_ms :: "jsval \<Rightarrow> rat \<Rightarrow> jnum" where
  "timer_ms x d =
     (case to_num (js_or (JNum (to_num x)) (JNum (JFin d))) of
        JFin q \<Rightarrow> JFin (max 1000 q) | JNegInf \<Rightarrow> JFin 1000 | n \<Rightarrow> n)"

definition openWs :: "env \<Rightarrow> jsval \<Rightarrow> jsval \<Rightarrow> jsval \<Rightarrow> jsval \<Rightarrow> unit oact" where
  "openWs e serverUrl auth connectMs hsMs = do {
     closeWs e False;
     mods (\<lambda>s. s\<lparr>o_hsOk := False, o_waiting := True\<rparr>);
     status e [(js ''state'', JStr (js ''ws-connecting'')), (js ''server'', serverUrl)];
     r \<leftarrow> onw (emit e (Ws ''new'' serverUrl));
     (case r of
        Inl x \<Rightarrow> mods (\<lambda>s. settle (Some x) (rejectHandshakeIfAny x s))
      | Inr v \<Rightarrow> mods (\<lambda>s. s\<lparr>o_ws := True, o_auth := auth, o_hsMs := hsMs, o_connectTimer := Some (timer_ms connectMs 10000)\<rparr>)) }"

definition sends_auth :: "jsval \<Rightarrow> bool" where
  "sends_auth auth \<longleftrightarrow> truthy auth \<and> truthy (fld auth ''sendFirst'') \<and> truthy (fld auth ''token'')"

definition start_event :: jsval where
  "start_event = JObj [(js ''event'', JStr (js ''start'')), (js ''sample_rate'', JInt 48000), (js ''dtype'', JStr (js ''i16''))]"

definition on_open :: "env \<Rightarrow> unit oact" where
  "on_open e = do {
     w \<leftarrow> gets o_ws;
     whenA w (do {
       mods clearConnectTimer;
       mods (\<lambda>s. s\<lparr>o_wsOpen := True, o_ready := False\<rparr>);
       status e [(js ''state'', JStr (js ''ws-open''))];
       mods (\<lambda>s. beginHandshake (timer_ms (o_hsMs s) 8000) s);
       auth \<leftarrow> gets o_auth;
       whenA (sends_auth auth) (do {
         okay \<leftarrow> safeSendText e (JObj [(js ''type'', JStr (js ''auth'')), (js ''scheme'', JStr (js ''bearer'')),
           (js ''token'', fld auth ''token'')]);
         status e [(js ''state'', JStr (if okay then js ''ws-auth-sent'' else js ''ws-auth-send-failed''))] });
       r \<leftarrow> safeSendText e start_event;
       mods (\<lambda>s. s\<lparr>o_ready := True\<rparr>) }) }"

definition BUSY_TEXT :: ustr where
  "BUSY_TEXT = [72, 7879, 32, 116, 104, 7889, 110, 103, 32, 98, 7853, 110]"

definition on_close :: "env \<Rightarrow> jsval \<Rightarrow> jsval \<Rightarrow> unit oact" where
  "on_close e code reason0 = do {
     w \<leftarrow> gets o_ws;
     whenA w (let reason = js_or reason0 (JStr []) in do {
       mods clearConnectTimer;
       mods (\<lambda>s. s\<lparr>o_wsOpen := False, o_ready := False\<rparr>);
       status e [(js ''state'', JStr (js ''ws-close'')), (js ''code'', code), (js ''reason'', reason)];
       (if code = JInt 1013 \<or> re_test busy_re (to_str reason) then do {
          status e [(js ''state'', JStr (js ''server-busy'')), (js ''code'', code), (js ''reason'', reason),
            (js ''error'', JStr BUSY_TEXT)];
          mods (rejectHandshakeIfAny (Err (js ''BUSY'')));
          stopAll e (js ''busy'') Nobody }
        else do {
          mods (rejectHandshakeIfAny (Err (js ''WS_CLOSED_'' @ to_str (js_or code (JInt 0)))));
          strict \<leftarrow> gets o_strict;
          whenA strict (stopAll e (js ''ws-close'') Nobody) }) }) }"

definition on_error :: "env \<Rightarrow> unit oact" where
  "on_error e = do {
     w \<leftarrow> gets o_ws;
     whenA w (do {
       mods clearConnectTimer;
       mods (\<lambda>s. s\<lparr>o_wsOpen := False, o_ready := False\<rparr>);
       status e [(js ''state'', JStr (js ''ws-error''))];
       mods (\<lambda>s. settle (Some (Err (js ''WS_CONNECT_FAILED''))) (rejectHandshakeIfAny (Err (js ''WS_CONNECT_FAILED'')) s)) }) }"

text \<open>The two timers; each fires once.\<close>

definition connect_timeout :: "env \<Rightarrow> unit oact" where
  "connect_timeout e = do {
     t \<leftarrow> gets o_connectTimer;
     whenA (t \<noteq> None) (do {
       mods (\<lambda>s. s\<lparr>o_connectTimer := None\<rparr>);
       status e [(js ''state'', JStr (js ''ws-error'')), (js ''error'', JStr (js ''WS_CONNECT_TIMEOUT''))];
       calls e (Ws ''close'' JUndef);
       mods (settle (Some (Err (js ''WS_CONNECT_TIMEOUT'')))) }) }"

definition handshake_timeout :: "off \<Rightarrow> off" where
  "handshake_timeout s =
     (if o_hsTimer s = None then s
      else settle (Some (Err (js ''WS_HANDSHAKE_TIMEOUT''))) (s\<lparr>o_hsTimer := None\<rparr>))"

subsection \<open>start\<close>

definition stop_video :: "env \<Rightarrow> bool \<Rightarrow> media \<Rightarrow> media prog" where
  "stop_video e keepVideo m =
     (if keepVideo then ret m
      else do { r \<leftarrow> emit e (Browser ''stopVideoTracks'' JUndef); ret (m\<lparr>md_video := 0\<rparr>) })"

definition media_of :: "jsval \<Rightarrow> media" where
  "media_of v =
     \<lparr>md_audio = (case fld v ''audio'' of JArr xs \<Rightarrow> xs | _ \<Rightarrow> []),
      md_video = (case to_num (fld v ''video'') of JFin q \<Rightarrow> nat \<lfloor>q\<rfloor> | _ \<Rightarrow> 0)\<rparr>"

definition getTabCaptureStream :: "env \<Rightarrow> jsval \<Rightarrow> bool \<Rightarrow> media throwing" where
  "getTabCaptureStream e streamId keepVideo =
     andThen (emit e (Browser ''getUserMedia'' (JObj [(js ''streamId'', streamId), (js ''video'', JBool keepVideo)])))
       (\<lambda>v. do { m \<leftarrow> stop_video e keepVideo (media_of v); ok m })"

definition PICKER_NOTE :: ustr where
  "PICKER_NOTE = js ''Ch'' @ [7885] @ js ''n TAB v'' @ [224] @ js '' b'' @ [7853] @ js ''t '' @ [39] @ js ''Share audio'' @ [39, 46]"

definition NO_AUDIO_PICKED :: ustr where
  "NO_AUDIO_PICKED =
     js ''NO_AUDIO_TRACK_FROM_PICKER (H'' @ [227] @ js ''y ch'' @ [7885] @ js ''n TAB v'' @ [224] @ js '' tick '' @ [39] @
     js ''Share audio'' @ [39] @ js '')''"

definition getDisplayMediaStream :: "env \<Rightarrow> bool \<Rightarrow> media throwing" where
  "getDisplayMediaStream e keepVideo = do {
     sendStatus e [(js ''state'', JStr (js ''picker'')), (js ''stage'', JStr (js ''getDisplayMedia'')), (js ''note'', JStr PICKER_NOTE)];
     andThen (emit e (Browser ''getDisplayMedia'' JUndef)) (\<lambda>v.
       (if md_audio (media_of v) = [] then do {
          r \<leftarrow> emit e (Browser ''stopTracks'' JUndef);
          throw (Err NO_AUDIO_PICKED) }
        else do { m \<leftarrow> stop_video e keepVideo (media_of v); ok m })) }"

definition get_media :: "env \<Rightarrow> jsval \<Rightarrow> bool \<Rightarrow> media throwing" where
  "get_media e payload keepVideo =
     (if fld payload ''captureSource'' = JStr (js ''display'') then getDisplayMediaStream e keepVideo
      else if \<not> truthy (fld payload ''streamId'') then throw (Err (js ''Missing streamId''))
      else getTabCaptureStream e (fld payload ''streamId'') keepVideo)"

definition rec_cfg :: "jsval \<Rightarrow> jsval" where
  "rec_cfg payload =
     (let r = fld payload ''recording'' in if is_object r then r else JObj [(js ''enabled'', JBool False)])"

definition start_error :: "env \<Rightarrow> string \<Rightarrow> ustr \<Rightarrow> unit oact" where
  "start_error e stage txt =
     status e [(js ''state'', JStr (js ''error'')), (js ''stage'', JStr (js stage)), (js ''error'', JStr txt)]"

text \<open>The audio graph; the worklet's handler is attached before the socket is opened.\<close>

definition audio_graph :: "env \<Rightarrow> (off, err + unit) action" where
  "audio_graph e =
     andThen (onw (emit e (Browser ''new AudioContext'' (JInt 48000)))) (\<lambda>ctx. do {
       mods (\<lambda>s. s\<lparr>o_ctx := True\<rparr>);
       andThen (onw (emit e (Browser ''audioCtx.resume'' JUndef))) (\<lambda>u.
       andThen (onw (emit e (Browser ''audioWorklet.addModule'' (JStr (js ''audio-worklet/pcm-processor.js''))))) (\<lambda>u.
       andThen (onw (emit e (Browser ''connect nodes'' JUndef))) (\<lambda>u. do {
         mods (\<lambda>s. s\<lparr>o_graph := True\<rparr>);
         status e [(js ''state'', JStr (js ''audio-graph-ok'')), (js ''sampleRate'', fld ctx ''sampleRate'')];
         mods (\<lambda>s. s\<lparr>o_handler := True, o_firstSent := False\<rparr>);
         ok () }))) })"

text \<open>\<open>start\<close> after its \<open>stopAll("restart")\<close>, up to the promise of \<open>openWs\<close>.\<close>

definition start_media :: "env \<Rightarrow> jsval \<Rightarrow> (off, err + unit) action" where
  "start_media e payload =
     (let cfg = rec_cfg payload; want = truthy (fld cfg ''enabled'') in do {
        strict \<leftarrow> gets o_strict;
        status e [(js ''state'', JStr (js ''starting'')), (js ''captureSource'', fld payload ''captureSource''),
          (js ''strictWs'', JBool strict), (js ''wantRecordVideo'', JBool want)];
        m \<leftarrow> onw (get_media e payload want);
        (case m of
           Inl x \<Rightarrow> do { start_error e ''getMedia'' (err_text x); throw x }
         | Inr stream \<Rightarrow> do {
             mods (\<lambda>s. s\<lparr>o_media := True\<rparr>);
             status e [(js ''state'', JStr (js ''media-ok'')), (js ''audioTracks'', JInt (int (length (md_audio stream)))),
               (js ''audioLabel'', js_or (idx (JArr (md_audio stream)) 0) (JStr []))];
             (if md_audio stream = [] then do {
                start_error e ''no-audio'' (js ''NO_AUDIO_TRACK'');
                throw (Err (js ''NO_AUDIO_TRACK'')) }
              else
                andThen
                  (if want then do {
                     r \<leftarrow> startVideoRecorderIfNeeded e stream cfg;
                     (case r of
                        Inl x \<Rightarrow> do {
                          status e [(js ''state'', JStr (js ''recording-error'')), (js ''stage'', JStr (js ''init'')),
                            (js ''error'', JStr (err_text x))];
                          throw x }
                      | Inr u \<Rightarrow> ok ()) }
                   else ok ())
                  (\<lambda>u. andThen (audio_graph e) (\<lambda>u. do {
                     openWs e (fld payload ''server'') (js_or (fld payload ''auth'') JNull)
                       (js_coalesce (fld payload ''connectTimeoutMs'') (JInt 10000))
                       (js_coalesce (fld payload ''handshakeTimeoutMs'') (JInt 8000));
                     ok () }))) }) })"

subsection \<open>Messages and events\<close>

definition OFF_BUSY_TEXT :: ustr where
  "OFF_BUSY_TEXT = [72, 7879, 32, 116, 104, 7889, 110, 103, 32, 273, 97, 110, 103, 32, 98, 7853, 110, 44, 32,
     118, 117, 105, 32, 108, 242, 110, 103, 32, 116, 104, 7917, 32, 108, 7841, 105, 32, 115, 97, 117, 46]"

definition answer_ok :: "unit oact" where
  "answer_ok = onw (reply (JObj [(js ''ok'', JBool True)]))"

definition answer_busy :: "unit oact" where
  "answer_busy = onw (reply (JObj [(js ''ok'', JBool False), (js ''code'', JStr (js ''SYSTEM_BUSY'')), (js ''error'', JStr OFF_BUSY_TEXT)]))"

text \<open>What comes after \<open>stopAll\<close>; a start that throws stops again and answers.\<close>

definition run_after :: "env \<Rightarrow> after \<Rightarrow> unit oact" where
  "run_after e aft =
     (case aft of
        Nobody \<Rightarrow> skip
      | Answer_stop \<Rightarrow> answer_ok
      | Answer_busy \<Rightarrow> answer_busy
      | Fail_start x \<Rightarrow> stopAll e (js ''start-error'') Answer_busy
      | Start_with payload \<Rightarrow> do {
          r \<leftarrow> start_media e payload;
          (case r of Inl x \<Rightarrow> stopAll e (js ''start-error'') Answer_busy | Inr u \<Rightarrow> skip) })"

text \<open>The promise of \<open>openWs\<close> has settled and the start goes on.\<close>

definition start_resume :: "env \<Rightarrow> unit oact" where
  "start_resume e = do {
     l \<leftarrow> gets o_settled;
     (case l of
        [] \<Rightarrow> skip
      | r # rest \<Rightarrow> do {
          mods (\<lambda>s. s\<lparr>o_settled := rest\<rparr>);
          (case r of
             None \<Rightarrow> do {
               strict \<leftarrow> gets o_strict;
               status e [(js ''state'', JStr (js ''running'')), (js ''strictWs'', JBool strict)];
               answer_ok }
           | Some x \<Rightarrow> do {
               start_error e ''ws'' (err_text x);
               stopAll e (js ''ws-fail'') (Fail_start x) }) }) }"

definition off_start :: "env \<Rightarrow> jsval \<Rightarrow> unit oact" where
  "off_start e payload =
     (if \<not> truthy (fld payload ''server'') then stopAll e (js ''start-error'') Answer_busy
      else do {
        mods (\<lambda>s. s\<lparr>o_strict := truthy (fld payload ''strictWs'')\<rparr>);
        stopAll e (js ''restart'') (Start_with payload) })"

definition monitor_gain :: "env \<Rightarrow> jsval \<Rightarrow> unit oact" where
  "monitor_gain e payload =
     (let v = to_num (js_coalesce (fld payload ''gain'') (JInt 0));
          g = (if is_finite_num v then v else JFin 0) in do {
        gr \<leftarrow> gets o_graph;
        whenA gr (calls e (Browser ''monitorGain'' (JNum g)));
        status e [(js ''state'', JStr (js ''monitor'')), (js ''gain'', JNum g)];
        answer_ok })"

definition off_message :: "env \<Rightarrow> jsval \<Rightarrow> unit oact" where
  "off_message e msg =
     (let cmd = fld msg ''__cmd''; payload = fld msg ''payload'' in
      if \<not> truthy msg \<or> \<not> truthy cmd then skip
      else if cmd = JStr (js ''__OFFSCREEN_START__'') then off_start e (js_or payload (JObj []))
      else if cmd = JStr (js ''__OFFSCREEN_STOP__'') then stopAll e (js ''stop'') Answer_stop
      else if cmd = JStr (js ''__OFFSCREEN_MONITOR_GAIN__'') then monitor_gain e payload
      else skip)"

definition unhandled :: "env \<Rightarrow> ustr \<Rightarrow> string \<Rightarrow> unit oact" where
  "unhandled e txt reason = do {
     status e [(js ''state'', JStr (js ''server-error'')), (js ''error'', JStr txt)];
     stopAll e (js reason) Nobody }"

definition run_job :: "env \<Rightarrow> stop_job \<Rightarrow> unit oact" where
  "run_job e j =
     (case j_phase j of
        Wait_recorder \<Rightarrow> store_recording e (j_reason j) (j_after j)
      | Stored out' size' duration \<Rightarrow> stored e (j_reason j) (j_after j) out' size' duration
      | Wait_context \<Rightarrow> stop_finish e (j_reason j) (j_after j)
      | Finished \<Rightarrow> run_after e (j_after j))"

definition advance :: "env \<Rightarrow> nat \<Rightarrow> unit oact" where
  "advance e i = do {
     l \<leftarrow> gets o_jobs;
     whenA (i < length l) (do {
       mods (\<lambda>s. s\<lparr>o_jobs := take i l @ drop (Suc i) l\<rparr>);
       run_job e (l ! i) }) }"

datatype off_event =
    Off_message jsval
  | Ws_opened
  | Ws_closed jsval jsval
  | Ws_failed
  | Ws_text "ustr option"
  | Connect_timer
  | Handshake_timer
  | Worklet port_msg
  | Recorder_data "nat list"
  | Recorder_failed jsval
  | Recorder_ended
  | Sharing_ended
  | Advance nat
  | Start_resumes
  | Rejection
  | Script_error jsval

fun off_step :: "env \<Rightarrow> off_event \<Rightarrow> unit oact" where
  "off_step e (Off_message msg) = off_message e msg"
| "off_step e Ws_opened = on_open e"
| "off_step e (Ws_closed code reason) = on_close e code reason"
| "off_step e Ws_failed = on_error e"
| "off_step e (Ws_text txt) = ws_text e txt"
| "off_step e Connect_timer = connect_timeout e"
| "off_step e Handshake_timer = mods handshake_timeout"
| "off_step e (Worklet msg) = on_worklet e msg"
| "off_step e (Recorder_data d) = mods (on_recorder_data d)"
| "off_step e (Recorder_failed ev) = on_recorder_error e ev"
| "off_step e Recorder_ended = mods (\<lambda>s. s\<lparr>o_recActive := False\<rparr>)"
| "off_step e Sharing_ended = do {
     status e [(js ''state'', JStr (js ''ended'')), (js ''reason'', JStr (js ''user-stopped-sharing''))];
     stopAll e (js ''track-ended'') Nobody }"
| "off_step e (Advance i) = advance e i"
| "off_step e Start_resumes = start_resume e"
| "off_step e Rejection = unhandled e (js ''UNHANDLED_REJECTION'') ''unhandledrejection''"
| "off_step e (Script_error ev) =
     unhandled e (to_str (js_or (fld ev ''message'') (JStr (js ''OFFSCREEN_ERROR'')))) ''error''"

fun off_run :: "env \<Rightarrow> off_event list \<Rightarrow> unit oact" where
  "off_run e [] = skip"
| "off_run e (ev # evs) = do { off_step e ev; off_run e evs }"

end
