(* ===== verification/Offscreen_Storage.thy ===== *)
theory Offscreen_Storage
  imports Offscreen_Session
begin

section \<open>What storing a recording sends\<close>

text \<open>
  The requests of \<open>persistRecordedBlob\<close>: how many, for whom, with which columns, and which dates the
  stored row gets.
\<close>

subsection \<open>The insertion\<close>

definition without :: "ustr list \<Rightarrow> jobj \<Rightarrow> jobj" where
  "without cols row = filter (\<lambda>p. fst p \<notin> set cols) row"

lemma obj_del_without: "obj_del (without cols row) c = without (c # cols) row"
  by (auto simp: obj_del_def without_def intro: filter_cong)

lemma without_Nil: "without [] row = row"
  by (simp add: without_def)

text \<open>A request that inserts the row, or the row without some of its columns.\<close>

definition inserts :: "jobj \<Rightarrow> req \<Rightarrow> bool" where
  "inserts row q \<longleftrightarrow> rq_verb q = POST \<and> rq_url q = rest_url ''video_recordings'' \<and>
     (\<exists>cols. rq_body q = Some (JObj (without cols row)))"

definition accepted :: "env \<Rightarrow> req list \<Rightarrow> req list \<Rightarrow> bool" where
  "accepted e old new \<longleftrightarrow> new \<noteq> [] \<and> (\<exists>a. e_fetch e (old @ butlast new) (last new) = Inr a \<and> rs_ok a)"

lemma insert_try_run:
  assumes "run_state (insert_try e cfg n (without cols row)) w = (out', w')"
  shows "\<exists>new. w_reqs w' = w_reqs w @ new \<and> length new \<le> n \<and> (0 < n \<longrightarrow> new \<noteq> []) \<and> list_all (inserts row) new \<and>
    (\<forall>r. out' = Inr r \<longrightarrow> accepted e (w_reqs w) new)"
  using assms
proof (induction n arbitrary: cols w)
  case (Suc n)
  define q where "q = recording_req cfg (without cols row)"
  have q: "inserts row q" by (auto simp: q_def inserts_def recording_req_def)
  obtain a w1 where f: "run_state (fetch e q) w = (a, w1)" by fastforce
  then have w1: "w_reqs w1 = w_reqs w @ [q]" and a: "a = (case e_fetch e (w_reqs w) q of Inl m \<Rightarrow> Inl (Err m) | Inr b \<Rightarrow> Inr b)"
    by (auto simp: run_fetch)
  consider x where "a = Inl x" | b where "a = Inr b" "rs_ok b"
    | b c where "a = Inr b" "\<not> rs_ok b" "missing_column (text_or_empty b) = Some c" "obj_get (without cols row) c \<noteq> JUndef"
    | b where "a = Inr b" "\<not> rs_ok b" "\<forall>c. missing_column (text_or_empty b) = Some c \<longrightarrow> obj_get (without cols row) c = JUndef"
    by (cases a) (metis not_None_eq)+
  then show ?case
  proof cases
    case 3
    then have "run_state (insert_try e cfg n (without (c # cols) row)) w1 = (out', w')"
      using Suc.prems f by (simp add: q_def [symmetric] Let_def obj_del_without)
    from Suc.IH [OF this] obtain new where new: "w_reqs w' = w_reqs w1 @ new" "length new \<le> n" "list_all (inserts row) new"
        "\<forall>r. out' = Inr r \<longrightarrow> accepted e (w_reqs w1) new" by blast
    with w1 q show ?thesis by (intro exI [of _ "q # new"]) (auto simp: accepted_def)
  qed (use Suc.prems f w1 a q in \<open>auto simp: q_def [symmetric] Let_def accepted_def intro!: exI [of _ "[q]"]
         split: option.splits sum.splits\<close>)
qed auto

text \<open>The insertion sends between one and ten requests, each of them the row without some of its
  columns and never with another value or column, and it reports a stored row only when the server
  accepted the last of them.\<close>

lemma recording_insert:
  "case run_state (insertVideoRecordingFlexible e (JObj row) cfg) w of (out', w') \<Rightarrow>
     \<exists>new. w_reqs w' = w_reqs w @ new \<and> 1 \<le> length new \<and> length new \<le> 10 \<and> list_all (inserts row) new \<and>
       (case out' of Inl txt \<Rightarrow> True | Inr r \<Rightarrow> accepted e (w_reqs w) new)"
proof -
  obtain out' w' where run: "run_state (insertVideoRecordingFlexible e (JObj row) cfg) w = (out', w')" by fastforce
  have "run_state (insert_try e cfg 10 (without [] row)) w = (out', w')"
    using run by (simp add: insertVideoRecordingFlexible_def without_Nil js_or_def)
  from insert_try_run [OF this] obtain new where "w_reqs w' = w_reqs w @ new" "length new \<le> 10" "new \<noteq> []"
      "list_all (inserts row) new" "\<forall>r. out' = Inr r \<longrightarrow> accepted e (w_reqs w) new" by auto
  then show ?thesis
    unfolding run by (auto simp: Suc_le_eq split: sum.split intro!: exI [of _ new])
qed

subsection \<open>For whom a recording is stored\<close>

text \<open>A request is an upload below the folder of the user, or inserts a row whose user is the user or empty.\<close>

definition uploads_for :: "ustr \<Rightarrow> req \<Rightarrow> bool" where
  "uploads_for uid q \<longleftrightarrow> rq_verb q = POST \<and> (\<exists>bucket \<in> set STORAGE_BUCKET_CANDIDATES. \<exists>rest.
     rq_url q = SUPABASE_URL @ js ''/storage/v1/object/'' @ bucket @ js ''/users/'' @ uid @ js ''/transcript/'' @ rest)"

definition inserts_for :: "ustr \<Rightarrow> req \<Rightarrow> bool" where
  "inserts_for uid q \<longleftrightarrow> rq_verb q = POST \<and> rq_url q = rest_url ''video_recordings'' \<and>
     (\<exists>row. rq_body q = Some (JObj row) \<and> obj_get row (js ''user_id'') \<in> {JStr uid, JNull, JUndef})"

lemma obj_get_without: "obj_get (without cols row) k \<in> {obj_get row k, JUndef}"
proof -
  have "map_of (without cols row) k = (if k \<in> set cols then None else map_of row k)"
    by (induction row) (auto simp: without_def)
  then show ?thesis by (auto simp: obj_get_def split: option.splits)
qed

lemma adds_inserted:
  assumes "\<And>q. inserts row q \<Longrightarrow> P q"
  shows "adds w_reqs P (insertVideoRecordingFlexible e (JObj row) cfg)"
proof (rule addsI)
  fix w
  obtain out' w' where run: "run_state (insert_try e cfg 10 (without [] row)) w = (out', w')" by fastforce
  from insert_try_run [OF this] obtain new where new: "w_reqs w' = w_reqs w @ new" "list_all (inserts row) new" by blast
  with run assms show "\<exists>new. w_reqs (snd (run_state (insertVideoRecordingFlexible e (JObj row) cfg) w)) = w_reqs w @ new \<and>
      list_all P new"
    by (auto simp: insertVideoRecordingFlexible_def without_Nil js_or_def intro!: exI [of _ new] elim: list.pred_mono_strong)
qed

lemma adds_insert:
  assumes "obj_get row (js ''user_id'') \<in> {JStr uid, JNull}"
  shows "adds w_reqs (inserts_for uid) (insertVideoRecordingFlexible e (JObj row) cfg)"
  using assms obj_get_without [of _ row "js ''user_id''"]
  by (intro adds_inserted) (unfold inserts_def inserts_for_def, metis insert_iff singletonD)

lemma user_of_rows:
  "obj_get (base_row uid tr st en d f b c ok' ret') (js ''user_id'') = JStr uid"
  "obj_get (no_session row) (js ''user_id'') = obj_get row (js ''user_id'')"
  "obj_get (no_user row) (js ''user_id'') = JNull"
  by (simp_all add: base_row_def no_session_def no_user_def) (simp add: obj_get_def)

lemma adds_fallbacks:
  assumes "obj_get row (js ''user_id'') = JStr uid"
  shows "adds w_reqs (inserts_for uid) (insert_with_fallbacks e cfg row)"
  unfolding insert_with_fallbacks_def fk_retry_def
  by (intro adds_intros adds_insert) (simp_all add: assms user_of_rows)

lemma split_on_notin: "c \<notin> set w \<Longrightarrow> split_on c (w @ c # s) = w # split_on c s"
  by (induction w) auto

lemma uri_plain_decimal: "decimal s \<Longrightarrow> list_all uri_plain s \<and> 47 \<notin> set s"
  by (auto simp: decimal_def list_all_iff uri_plain_def is_digit_def)

lemma encodeStoragePath_step:
  assumes "list_all uri_plain w" and "47 \<notin> set w" and "encodeStoragePath (w @ 47 # s) = Some r"
  shows "\<exists>r'. encodeStoragePath s = Some r' \<and> r = w @ 47 # r'"
proof -
  obtain x xs where x: "split_on 47 s = x # xs" by (metis list.exhaust split_on_nonempty)
  from assms(3) obtain ys where ys: "all_some (map encodeURIComponent (x # xs)) = Some ys" and r: "r = join [47] (w # ys)"
    using x assms(1,2) by (auto simp: encodeStoragePath_def split_on_notin encode_plain)
  have "ys \<noteq> []" using ys by (cases "encodeURIComponent x") auto
  then show ?thesis using x ys r by (cases ys) (auto simp: encodeStoragePath_def)
qed

lemma encoded_folder:
  assumes "decimal uid" and "encodeStoragePath (storage_path uid tr ts type) = Some enc"
  shows "\<exists>rest. enc = js ''users/'' @ uid @ js ''/transcript/'' @ rest"
proof -
  have u: "list_all uri_plain (js ''users'')" "47 \<notin> set (js ''users'')" "list_all uri_plain (js ''transcript'')" "47 \<notin> set (js ''transcript'')"
    by (simp_all add: js_str uri_plain_def)
  have p: "storage_path uid tr ts type = js ''users'' @ 47 # uid @ 47 # js ''transcript'' @ 47 # rest" 
    if "rest = tr @ js ''/'' @ map (\<lambda>c. if c = 58 \<or> c = 46 then 45 else c) ts @ js ''.'' @
      (if str_includes type (js ''mp4'') then js ''mp4'' else js ''webm'')" for rest
    by (simp add: storage_path_def that js_str)
  from encodeStoragePath_step [OF u(1,2) assms(2) [unfolded p [OF refl]]] obtain r1 where
    r1: "encodeStoragePath (uid @ 47 # js ''transcript'' @ 47 # tr @ js ''/'' @ map (\<lambda>c. if c = 58 \<or> c = 46 then 45 else c) ts @ js ''.'' @
      (if str_includes type (js ''mp4'') then js ''mp4'' else js ''webm'')) = Some r1" "enc = js ''users'' @ 47 # r1" by blast
  from encodeStoragePath_step [OF _ _ r1(1)] uri_plain_decimal [OF assms(1)] obtain r2 where
    r2: "encodeStoragePath (js ''transcript'' @ 47 # tr @ js ''/'' @ map (\<lambda>c. if c = 58 \<or> c = 46 then 45 else c) ts @ js ''.'' @
      (if str_includes type (js ''mp4'') then js ''mp4'' else js ''webm'')) = Some r2" "r1 = uid @ 47 # r2" by blast
  from encodeStoragePath_step [OF u(3,4) r2(1)] obtain r3 where "r2 = js ''transcript'' @ 47 # r3" by blast
  with r1 r2 show ?thesis by (simp add: js_str)
qed

lemma bucket_plain: "bucket \<in> set STORAGE_BUCKET_CANDIDATES \<Longrightarrow> encodeURIComponent bucket = Some bucket"
  by (rule encode_plain) (auto simp: STORAGE_BUCKET_CANDIDATES_def js_str uri_plain_def)

lemma adds_buckets:
  assumes "set buckets \<subseteq> set STORAGE_BUCKET_CANDIDATES" and "enc = js ''users/'' @ uid @ js ''/transcript/'' @ rest"
  shows "adds w_reqs (uploads_for uid) (try_buckets e cfg b path enc buckets)"
  using assms
proof (induction buckets)
  case (Cons bucket buckets)
  then have b: "bucket \<in> set STORAGE_BUCKET_CANDIDATES" by simp
  then have "uploads_for uid (upload_req cfg b bucket enc)"
    using Cons.prems(2) by (auto simp: uploads_for_def upload_req_def js_str intro!: bexI [of _ bucket])
  then show ?case using Cons b
    by (simp add: bucket_plain) (intro adds_intros adds_fetch; simp)
qed (simp add: adds_ret)

lemma adds_upload: "adds w_reqs (uploads_for (offscreen_parseDbId (fld cfg ''userId''))) (uploadBlobToStorage e blob cfg)"
proof -
  have "adds w_reqs (uploads_for uid) (try_buckets e cfg b path enc STORAGE_BUCKET_CANDIDATES)"
    if "uid = offscreen_parseDbId (fld cfg ''userId'')" "uid \<noteq> []" "path = storage_path uid tr ts type"
      "encodeStoragePath path = Some enc" for uid b path enc tr ts type
  proof -
    have "decimal uid" using that offscreenId.norm_decimal by simp
    from encoded_folder [OF this] that(3,4) obtain rest where "enc = js ''users/'' @ uid @ js ''/transcript/'' @ rest" by blast
    then show ?thesis by (rule adds_buckets [OF order.refl])
  qed
  then show ?thesis
    unfolding uploadBlobToStorage_def Let_def num_or_now_def
    by (intro adds_intros) auto
qed

text \<open>Property C16: whatever the servers answer, a recording is uploaded only below the folder of the user of the
  configuration, and a row of it names that user or, after two foreign key errors, nobody; without a
  decimal user id nothing is sent.\<close>

theorem recording_owner:
  "case run_state (persistRecordedBlob e blob cfg) w of (r, w') \<Rightarrow>
     let uid = offscreen_parseDbId (fld cfg ''userId'') in
     if decimal uid then \<exists>new. w_reqs w' = w_reqs w @ new \<and> list_all (\<lambda>q. uploads_for uid q \<or> inserts_for uid q) new
     else r = Inr (Inl (js ''USER_ID_INVALID'')) \<and> w' = w"
proof -
  define uid where "uid = offscreen_parseDbId (fld cfg ''userId'')"
  have up: "adds w_reqs (\<lambda>q. uploads_for uid q \<or> inserts_for uid q) (uploadBlobToStorage e b cfg)" for b
    using adds_upload unfolding uid_def adds_def by (fastforce elim: list.pred_mono_strong)
  have ins: "adds w_reqs (\<lambda>q. uploads_for uid q \<or> inserts_for uid q)
      (insert_with_fallbacks e cfg (base_row uid tr st en d f b c ok' ret'))" for tr st en d f b c ok' ret'
    using adds_fallbacks [OF user_of_rows(1)] unfolding adds_def by (fastforce elim: list.pred_mono_strong)
  have "adds w_reqs (\<lambda>q. uploads_for uid q \<or> inserts_for uid q) (persistRecordedBlob e blob cfg)"
    unfolding persistRecordedBlob_def Let_def num_or_now_def sha256Hex_def toIso_def uid_def [symmetric]
    by (intro adds_intros up ins)
  note logged = this
  have "uid = [] \<or> decimal uid" unfolding uid_def by (rule offscreenId.norm_shape)
  then show ?thesis
  proof
    assume "uid = []"
    then show ?thesis by (simp add: persistRecordedBlob_def uid_def Let_def)
  next
    assume "decimal uid"
    then show ?thesis using logged by (auto simp: adds_def uid_def Let_def split: prod.split dest: spec [of _ w])
  qed
qed

subsection \<open>The dates of a recording\<close>

text \<open>
  \<open>toIso\<close> is given numbers, and parses their decimal texts as dates.  A browser refuses the text of a
  time in milliseconds, so that \<open>toIso\<close> takes the clock instead.
\<close>

definition refuses_times :: "env \<Rightarrow> bool" where
  "refuses_times e \<longleftrightarrow> (\<forall>t. 100000000000 \<le> t \<longrightarrow> e_dateparse e (rat_str t) = None)"

text \<open>The dates of a row are readings of the clock number \<open>lo\<close> to \<open>hi\<close>, or its columns were dropped.\<close>

definition read_at :: "env \<Rightarrow> nat \<Rightarrow> nat \<Rightarrow> jsval \<Rightarrow> bool" where
  "read_at e lo hi v \<longleftrightarrow> v = JUndef \<or> (\<exists>i. lo \<le> i \<and> i < hi \<and> v = JStr (e_iso e (e_now e i)))"

definition dated :: "env \<Rightarrow> nat \<Rightarrow> nat \<Rightarrow> req \<Rightarrow> bool" where
  "dated e lo hi q \<longleftrightarrow> (\<exists>row. rq_body q = Some (JObj row) \<and> read_at e lo hi (obj_get row (js ''started_at'')) \<and>
     read_at e lo hi (obj_get row (js ''ended_at'')) \<and> read_at e lo hi (obj_get row (js ''retention_until'')))"

definition dates_in :: "env \<Rightarrow> nat \<Rightarrow> nat \<Rightarrow> jobj \<Rightarrow> bool" where
  "dates_in e lo hi row \<longleftrightarrow> read_at e lo hi (obj_get row (js ''started_at'')) \<and>
     read_at e lo hi (obj_get row (js ''ended_at'')) \<and> read_at e lo hi (obj_get row (js ''retention_until''))"

lemma dates_in_simps [simp]:
  "dates_in e lo hi (no_session row) = dates_in e lo hi row" "dates_in e lo hi (no_user row) = dates_in e lo hi row"
  by (simp_all add: dates_in_def no_session_def no_user_def)

lemma read_at_without: "read_at e lo hi (obj_get row k) \<Longrightarrow> read_at e lo hi (obj_get (without cols row) k)"
  using obj_get_without [of cols row k] by (auto simp: read_at_def)

lemma inserts_dated: "dates_in e lo hi row \<Longrightarrow> inserts row q \<Longrightarrow> dated e lo hi q"
  by (auto simp: dates_in_def inserts_def dated_def intro: read_at_without)

lemma adds_dated: "dates_in e lo hi row \<Longrightarrow> adds w_reqs (dated e lo hi) (insert_with_fallbacks e' cfg row)"
  unfolding insert_with_fallbacks_def fk_retry_def
  by (intro adds_intros adds_inserted) (auto intro: inserts_dated [of _ _ _ row] inserts_dated [of _ _ _ "no_session row"]
      inserts_dated [of _ _ _ "no_user row"])

text \<open>The clock never goes back.\<close>

abbreviation later :: "nat \<Rightarrow> world \<Rightarrow> bool" where
  "later n w \<equiv> n \<le> w_ticks w"

lemma later_prims: "holds (later n) (Date_now e)" "holds (later n) (now_iso e)" "holds (later n) (fetch e q)" "holds (later n) (emit e x)"
  by (auto simp: holds_def run_fetch run_emit)

lemma later_buckets: "holds (later n) (try_buckets e cfg b path enc buckets)"
  by (induction buckets) (auto intro!: holds_intros later_prims)

lemma later_insert: "holds (later n) (insertVideoRecordingFlexible e row cfg)"
proof -
  have "holds (later n) (insert_try e cfg k body)" for k body
    by (induction k arbitrary: body) (auto simp: Let_def intro!: holds_intros later_prims split: option.split)
  then show ?thesis by (simp add: insertVideoRecordingFlexible_def)
qed

lemma later_parts:
  "holds (later n) (uploadBlobToStorage e blob cfg)" "holds (later n) (sha256Hex e b)"
  "holds (later n) (insert_with_fallbacks e cfg row)" "holds (later n) (num_or_now e v)"
  unfolding uploadBlobToStorage_def Let_def num_or_now_def sha256Hex_def insert_with_fallbacks_def fk_retry_def
  by (intro holds_intros later_prims later_buckets later_insert)+

lemma toIso_refused:
  assumes "refuses_times e" and "100000000000 \<le> t"
  shows "run_state (toIso e (JNum (JFin t))) w = (e_iso e (e_now e (w_ticks w)), w\<lparr>w_ticks := Suc (w_ticks w)\<rparr>)"
proof -
  have "str_or_empty (JNum (JFin t)) = rat_str t" using assms(2) by (simp add: str_or_empty_def js_or_def)
  then show ?thesis using assms by (simp add: toIso_def refuses_times_def)
qed

text \<open>A browser that does not read the decimal text of a time as a date stores the moment of
  storing in all three date columns of a recording: its start, its end and the end of its retention,
  which should lie thirty days ahead.\<close>

lemma recording_dates_lost:
  assumes "refuses_times e" and "\<forall>n. 100000000000 \<le> e_now e n" and "100000000000 \<le> t0" and "100000000000 \<le> t1"
    and "fld cfg ''startedAt'' = JNum (JFin t0)" and "fld cfg ''endedAt'' = JNum (JFin t1)"
    and "decimal (offscreen_parseDbId (fld cfg ''userId''))" and "b_size b \<noteq> 0"
    and "run_state (persistRecordedBlob e (Some b) cfg) w = (Inr r, w')"
  shows "\<exists>ups ins. w_reqs w' = w_reqs w @ ups @ ins \<and> list_all (uploads_for (offscreen_parseDbId (fld cfg ''userId''))) ups \<and>
    list_all (dated e (w_ticks w) (w_ticks w')) ins"
proof -
  define uid where "uid = offscreen_parseDbId (fld cfg ''userId'')"
  have uid: "uid \<noteq> []" using assms(7) by (auto simp: uid_def)
  have t: "t0 \<noteq> 0" "t1 \<noteq> 0" using assms(3,4) by auto
  obtain u w1 where up: "run_state (uploadBlobToStorage e (Some b) cfg) w = (u, w1)" by fastforce
  have "u = Inl x \<Longrightarrow> False" for x
    using assms(5,6,8,9) up uid t by (simp add: persistRecordedBlob_def Let_def uid_def num_or_now_def run_andThen)
  then obtain upload where u: "u = Inr upload" by (cases u) blast+
  define url where "url = (case upload of Inr uri \<Rightarrow> ret uri
      | Inl x \<Rightarrow> do { t \<leftarrow> Date_now e; ret (js ''recording://upload-failed/'' @ rat_str t) })"
  obtain f w2 where f: "run_state url w1 = (f, w2)" by fastforce
  obtain c w3 where c: "run_state (sha256Hex e b) w2 = (c, w3)" by fastforce
  define n where "n = w_ticks w3"
  define row where "row = base_row uid (offscreen_parseDbId (fld cfg ''trSessionId'')) (e_iso e (e_now e n)) (e_iso e (e_now e (n + 1)))
      (elapsed (JFin t1) (JFin t0)) f b c (case upload of Inr _ \<Rightarrow> True | Inl _ \<Rightarrow> False) (e_iso e (e_now e (n + 3)))"
  define w4 where "w4 = w3\<lparr>w_ticks := n + 4\<rparr>"
  have far: "100000000000 \<le> e_now e k + THIRTY_DAYS" for k
    using assms(2) [rule_format, of k] by (simp add: THIRTY_DAYS_def)
  obtain out' where ins: "run_state (insert_with_fallbacks e cfg row) w4 = (out', w')"
    using assms(5,6,8,9) up uid t u f c far assms(1,3,4)
    by (auto simp: persistRecordedBlob_def Let_def uid_def [symmetric] num_or_now_def run_andThen url_def [symmetric]
        toIso_refused n_def [symmetric] row_def w4_def numeral_eq_Suc split: prod.splits)
  have w2: "w_reqs w2 = w_reqs w1" "w_ticks w1 \<le> w_ticks w2" and w3: "w_reqs w3 = w_reqs w2" "w_ticks w3 = w_ticks w2"
    using f c by (auto simp: url_def sha256Hex_def run_emit split: sum.splits)
  have "w_ticks w \<le> w_ticks w1" and hi: "n + 4 \<le> w_ticks w'"
    using holds_run [OF later_parts(1) up, of "w_ticks w"] holds_run [OF later_parts(3) ins, of "n + 4"] by (simp_all add: w4_def)
  with w2(2) w3(2) have lo: "w_ticks w \<le> n" by (simp add: n_def)
  have "read_at e (w_ticks w) (w_ticks w') (JStr (e_iso e (e_now e k)))" if "n \<le> k" "k < n + 4" for k
    using lo hi that by (auto simp: read_at_def intro!: exI [of _ k])
  then have "dates_in e (w_ticks w) (w_ticks w') row"
    by (simp add: dates_in_def row_def base_row_def obj_get_def)
  from adds_run [OF adds_dated [OF this] ins] obtain new where
    "w_reqs w' = w_reqs w4 @ new" "list_all (dated e (w_ticks w) (w_ticks w')) new" by blast
  moreover obtain ups where "w_reqs w1 = w_reqs w @ ups" "list_all (uploads_for uid) ups"
    using adds_run [OF adds_upload up] unfolding uid_def by blast
  ultimately show ?thesis using w2(1) w3(1) by (auto simp: uid_def w4_def)
qed

text \<open>A server that accepts everything, a clock in milliseconds, and a recording of three bytes.\<close>

definition storing_env :: env where
  "storing_env =
     (example_env (\<lambda>h q. Inr \<lparr>rs_status = 201, rs_text = None\<rparr>) (\<lambda>s. None))\<lparr>e_now := \<lambda>n. 1700000000000 + of_nat n\<rparr>"

definition stored_cfg :: jsval where
  "stored_cfg = JObj [(js ''userId'', JStr (js ''7'')), (js ''startedAt'', JInt 1700000000000), (js ''endedAt'', JInt 1700000005000)]"

definition demo_blob :: blob where
  "demo_blob = \<lparr>b_bytes = [1, 2, 3], b_type = js ''video/webm''\<rparr>"

lemma demo_stored:
  "fst (run_state (persistRecordedBlob storing_env (Some demo_blob) stored_cfg) blank_world) = Inr (Inr JNull)"
  by code_simp

end
