(* ===== verification/Offscreen_Contract.thy ===== *)
theory Offscreen_Contract
  imports Offscreen_Storage
begin

section \<open>What the offscreen document promises\<close>

text \<open>
  A start that waits for its socket is settled by one of its timers as long as nobody stops it; a
  stop in that phase leaves it waiting for ever.  Samples go out only after the start message of their
  connection, in their order and, without back pressure, all of them.
\<close>

subsection \<open>A stop while a start waits\<close>

fun starts_nothing :: "after \<Rightarrow> bool" where
  "starts_nothing (Start_with p) = False"
| "starts_nothing _ = True"

definition no_start :: "off \<Rightarrow> bool" where
  "no_start s \<longleftrightarrow> list_all (\<lambda>j. starts_nothing (j_after j)) (o_jobs s)"

text \<open>A start waits, and no restart is on its way.\<close>

definition pending :: "off \<Rightarrow> bool" where
  "pending s \<longleftrightarrow> o_waiting s \<and> o_settled s = [] \<and> no_start s"

text \<open>Nothing is left that could settle the start that waits.\<close>

definition stranded :: "off \<Rightarrow> bool" where
  "stranded s \<longleftrightarrow> pending s \<and> \<not> o_ws s \<and> \<not> o_hs s \<and> o_hsTimer s = None \<and> o_connectTimer s = None"

definition is_start :: "off_event \<Rightarrow> bool" where
  "is_start ev \<longleftrightarrow> (\<exists>msg. ev = Off_message msg \<and> fld msg ''__cmd'' = JStr (js ''__OFFSCREEN_START__''))"

lemma keeps_calls: "keeps I (status e fs)" "keeps I (calls e x)" "keeps I (host_value e n)" "keeps I (socket_open e)"
  "keeps I (bufferedAmount e)" "keeps I (can_stream e)" "keeps I (safeSendText e v)" "keeps I (recording_error e st err r)"
  "keeps I answer_ok" "keeps I answer_busy" "keeps I (relay e c v)" "keeps I (start_error e st t)"
  unfolding status_def calls_def host_value_def socket_open_def bufferedAmount_def can_stream_def safeSendText_def
    recording_error_def answer_ok_def answer_busy_def relay_def start_error_def
  by (intro keeps_intros)+

text \<open>
  A property of the variables that concern the waiting start, kept by a handshake that succeeds: then
  the messages of the worklet keep it.
\<close>

definition same_wait :: "off \<Rightarrow> off \<Rightarrow> bool" where
  "same_wait s s' \<longleftrightarrow> o_waiting s' = o_waiting s \<and> o_settled s' = o_settled s \<and> o_ws s' = o_ws s \<and> o_hs s' = o_hs s \<and>
     o_hsTimer s' = o_hsTimer s \<and> o_connectTimer s' = o_connectTimer s \<and> o_jobs s' = o_jobs s"

locale handshake_invariant =
  fixes I :: "off \<Rightarrow> bool"
  assumes same: "I s \<Longrightarrow> same_wait s s' \<Longrightarrow> o_wsOpen s' = o_wsOpen s \<Longrightarrow> o_hsOk s' = o_hsOk s \<Longrightarrow> I s'"
    and resolves: "I s \<Longrightarrow> I (resolveHandshakeIfAny s)"
begin

lemma keeps_same:
  assumes "\<And>s. same_wait s (f s) \<and> o_wsOpen (f s) = o_wsOpen s \<and> o_hsOk (f s) = o_hsOk s"
  shows "keeps I (mods f)"
  by (rule keeps_mods, erule same) (simp_all add: assms)

lemma keeps_resolve: "keeps I (mods resolveHandshakeIfAny)"
  by (rule keeps_mods) (rule resolves)

lemma keeps_shouldDrop: "keeps I (shouldDropPcmByBackpressure e)"
  unfolding shouldDropPcmByBackpressure_def
  by (intro keeps_intros keeps_calls keeps_same) (simp_all add: pressed_def same_wait_def)

lemma keeps_worklet: "keeps I (on_worklet e msg)"
  unfolding on_worklet_def on_meter_def on_pcm_def
  by (cases msg; simp only: port_msg.case)
    (intro keeps_intros keeps_calls keeps_shouldDrop keeps_resolve keeps_same; simp add: count_sent_def count_dropped_def same_wait_def)+

lemma keeps_data: "keeps I (mods (on_recorder_data d))"
  by (rule keeps_same) (simp add: on_recorder_data_def same_wait_def)

lemma keeps_monitor: "keeps I (monitor_gain e p)"
  unfolding monitor_gain_def Let_def by (intro keeps_intros keeps_calls)

lemma keeps_recorder_error: "keeps I (on_recorder_error e ev)"
  unfolding on_recorder_error_def by (intro keeps_intros keeps_calls)

end

text \<open>One that does not depend on the state of the socket, and that a closed socket and a stop keep as well.\<close>

locale calm_invariant =
  fixes I :: "off \<Rightarrow> bool"
  assumes frame: "I s \<Longrightarrow> same_wait s s' \<Longrightarrow> I s'"
    and resolved: "I s \<Longrightarrow> I (resolveHandshakeIfAny s)"
    and closes: "I s \<Longrightarrow> I (closed s)"
    and rejects: "I s \<Longrightarrow> I (rejectHandshakeIfAny x s)"
    and times_out: "I s \<Longrightarrow> I (handshake_timeout s)"
    and jobs: "I s \<Longrightarrow> starts_nothing (j_after j) \<Longrightarrow> I (s\<lparr>o_jobs := o_jobs s @ [j]\<rparr>)"

sublocale calm_invariant \<subseteq> handshake_invariant
  by unfold_locales (auto intro: frame resolved)

context calm_invariant
begin

lemma keeps_frame: "(\<And>s. same_wait s (f s)) \<Longrightarrow> keeps I (mods f)"
  by (rule keeps_mods) (erule frame)

lemma keeps_closeWs: "keeps I (closeWs e b)"
proof -
  have c: "keeps I (mods closed)" by (rule keeps_mods) (rule closes)
  show ?thesis unfolding closeWs_def by (intro c keeps_intros keeps_calls keeps_frame) (simp_all add: same_wait_def)
qed

lemma keeps_push: "starts_nothing aft \<Longrightarrow> keeps I (push_job r aft ph)"
  unfolding push_job_def by (rule keeps_mods) (simp add: jobs)

lemma keeps_stop_finish: "starts_nothing aft \<Longrightarrow> keeps I (stop_finish e r aft)"
  unfolding stop_finish_def by (intro keeps_intros keeps_calls keeps_push keeps_frame) (simp_all add: stop_reset_def same_wait_def)

lemma keeps_stop_tail: "starts_nothing aft \<Longrightarrow> keeps I (stop_tail e r aft)"
  unfolding stop_tail_def by (intro keeps_intros keeps_calls keeps_push keeps_stop_finish keeps_frame) (simp_all add: same_wait_def)

lemma keeps_finally: "keeps I (recorder_finally e)"
  unfolding recorder_finally_def by (intro keeps_intros keeps_calls keeps_frame) (simp add: clearVideoRecorderState_def same_wait_def)

lemma keeps_store: "starts_nothing aft \<Longrightarrow> keeps I (store_recording e r aft)"
  unfolding store_recording_def Let_def by (intro keeps_intros keeps_calls keeps_push keeps_stop_tail keeps_finally)

lemma keeps_stored: "starts_nothing aft \<Longrightarrow> keeps I (stored e r aft out' n d)"
  unfolding stored_def by (intro keeps_intros keeps_calls keeps_stop_tail keeps_finally)

lemma keeps_stopVideo: "starts_nothing aft \<Longrightarrow> keeps I (stopVideoRecorder e r aft)"
  unfolding stopVideoRecorder_def
  by (intro keeps_intros keeps_calls keeps_push keeps_stop_tail keeps_store keeps_frame) (simp_all add: same_wait_def)

lemma keeps_stopAll: "starts_nothing aft \<Longrightarrow> keeps I (stopAll e r aft)"
  unfolding stopAll_def by (intro keeps_intros keeps_calls keeps_closeWs keeps_stopVideo keeps_frame) (simp_all add: same_wait_def)

lemma keeps_text: "keeps I (ws_text e txt)"
  unfolding ws_text_def handleServerTextMessage_def server_error_def Let_def
  by (intro keeps_intros keeps_calls keeps_stopAll keeps_mods resolves rejects) simp_all

lemma keeps_unhandled: "keeps I (unhandled e t r)"
  unfolding unhandled_def by (intro keeps_intros keeps_calls keeps_stopAll) simp

lemma keeps_after: "starts_nothing aft \<Longrightarrow> keeps I (run_after e aft)"
  by (cases aft) (simp_all add: run_after_def keeps_intros keeps_calls keeps_stopAll)

end

text \<open>One that also holds when the jobs of the stops go on, because none of them starts a capture.\<close>

locale idle_invariant = calm_invariant +
  assumes takes: "I s \<Longrightarrow> I (s\<lparr>o_jobs := take i (o_jobs s) @ drop (Suc i) (o_jobs s)\<rparr>)"
    and no_starts: "I s \<Longrightarrow> no_start s"
begin

lemma keeps_advance: "keeps I (advance e i)"
proof (rule keepsI)
  fix s w a s' w' assume run: "run_state (advance e i) (s, w) = (a, s', w')" and "I s"
  show "I s'"
  proof (cases "i < length (o_jobs s)")
    case True
    define j where "j = o_jobs s ! i"
    have j: "starts_nothing (j_after j)" using no_starts [OF \<open>I s\<close>] True by (simp add: no_start_def list_all_length j_def)
    have "keeps I (run_job e j)"
      unfolding run_job_def using j by (cases "j_phase j") (simp_all add: keeps_store keeps_stored keeps_stop_finish keeps_after)
    moreover have "run_state (run_job e j) (s\<lparr>o_jobs := take i (o_jobs s) @ drop (Suc i) (o_jobs s)\<rparr>, w) = (a, s', w')"
      using run True by (simp add: advance_def j_def)
    ultimately show ?thesis using takes [OF \<open>I s\<close>] by (rule keeps_run)
  qed (use run \<open>I s\<close> in \<open>simp add: advance_def\<close>)
qed

end

definition settled_once :: "err option list \<Rightarrow> off \<Rightarrow> bool" where
  "settled_once l s \<longleftrightarrow> \<not> o_waiting s \<and> (\<exists>r. o_settled s = l @ [r])"

lemmas handshake_defs = resolveHandshakeIfAny_def rejectHandshakeIfAny_def handshake_timeout_def settle_def clearHandshake_def
  closed_def clearConnectTimer_def same_wait_def

interpretation stranded: idle_invariant stranded
  by unfold_locales
    (auto simp: stranded_def pending_def no_start_def handshake_defs Let_def dest: in_set_takeD in_set_dropD simp: list_all_iff)

interpretation settling: calm_invariant "settled_once l"
  by unfold_locales (auto simp: settled_once_def handshake_defs Let_def)

lemma stranded_step:
  assumes "\<not> is_start ev"
  shows "keeps stranded (off_step e ev)"
proof (cases ev)
  case (Off_message msg)
  with assms show ?thesis
    by (auto simp: is_start_def off_message_def Let_def intro!: keeps_intros stranded.keeps_stopAll stranded.keeps_monitor)
next
  case Ws_opened
  have "keeps stranded (on_open e)" unfolding on_open_def
    by (rule keeps_known [where c = False]) (simp_all add: stranded_def whenA_def keeps_ret)
  with Ws_opened show ?thesis by simp
next
  case (Ws_closed code reason)
  have "keeps stranded (on_close e code reason)" unfolding on_close_def
    by (rule keeps_known [where c = False]) (simp_all add: stranded_def whenA_def keeps_ret)
  with Ws_closed show ?thesis by simp
next
  case Ws_failed
  have "keeps stranded (on_error e)" unfolding on_error_def
    by (rule keeps_known [where c = False]) (simp_all add: stranded_def whenA_def keeps_ret)
  with Ws_failed show ?thesis by simp
next
  case Connect_timer
  have "keeps stranded (connect_timeout e)" unfolding connect_timeout_def
    by (rule keeps_known [where c = None]) (simp_all add: stranded_def whenA_def keeps_ret)
  with Connect_timer show ?thesis by simp
next
  case Start_resumes
  have "keeps stranded (start_resume e)" unfolding start_resume_def
    by (rule keeps_known [where c = "[]"]) (simp_all add: stranded_def pending_def keeps_ret)
  with Start_resumes show ?thesis by simp
next
  case (Recorder_data d)
  then show ?thesis by (simp add: stranded.keeps_data)
next
  case (Recorder_failed ev)
  then show ?thesis by (simp add: stranded.keeps_recorder_error)
next
  case Handshake_timer
  then show ?thesis by (auto intro: keeps_mods stranded.times_out)
qed (auto intro!: keeps_intros keeps_calls stranded.keeps_text stranded.keeps_worklet stranded.keeps_advance stranded.keeps_unhandled
      stranded.keeps_stopAll stranded.keeps_frame simp: same_wait_def)

lemma stranded_run: "list_all (\<lambda>ev. \<not> is_start ev) evs \<Longrightarrow> keeps stranded (off_run e evs)"
  by (induction evs) (auto intro!: keeps_intros stranded_step)

text \<open>What closes the socket strands the start.\<close>

lemma keeps_pending_frame:
  assumes "\<And>s. o_waiting (f s) = o_waiting s \<and> o_settled (f s) = o_settled s \<and> o_jobs (f s) = o_jobs s"
  shows "keeps pending (mods f)"
  using assms by (auto simp: keeps_def pending_def no_start_def)

lemma closeWs_strands: "leads pending (closeWs e b) stranded"
proof -
  have "leads pending (mods closed) stranded"
    by (rule leads_mods) (simp add: pending_def stranded_def no_start_def handshake_defs)
  then show ?thesis unfolding closeWs_def
    by (intro leads_first keeps_intros keeps_calls keeps_pending_frame) simp_all
qed

lemma stopAll_strands: "starts_nothing aft \<Longrightarrow> leads pending (stopAll e r aft) stranded"
  unfolding stopAll_def
  by (intro leads_first [OF keeps_calls(1)] leads_bind [OF closeWs_strands]
      leads_keeps [OF keeps_bind [OF stranded.keeps_frame stranded.keeps_stopVideo]]) (simp_all add: same_wait_def)

text \<open>A stop that reaches the document while a start waits for its socket leaves that start waiting for
  ever: no timer, message, socket event or later stop settles it, so its sender never gets an answer.\<close>

lemma stop_strands_start:
  assumes "o_waiting s" and "o_settled s = []" and "no_start s"
    and "fld stop ''__cmd'' = JStr (js ''__OFFSCREEN_STOP__'')" and "list_all (\<lambda>ev. \<not> is_start ev) evs"
    and "run_state (off_run e (Off_message stop # evs)) (s, w) = (u, s', w')"
  shows "o_waiting s' \<and> o_settled s' = [] \<and> \<not> o_ws s' \<and> o_hsTimer s' = None \<and> o_connectTimer s' = None"
proof -
  have "truthy stop" using assms(4) by (cases stop) simp_all
  then have "off_message e stop = stopAll e (js ''stop'') Answer_stop"
    using assms(4) by (simp add: off_message_def Let_def)
  then have "leads pending (off_run e (Off_message stop # evs)) stranded"
    using leads_bind [OF stopAll_strands [of Answer_stop] leads_keeps [OF stranded_run [OF assms(5)]]] by simp
  moreover have "pending s" using assms(1-3) by (simp add: pending_def)
  ultimately have "stranded s'" using assms(6) by (metis leads_run)
  then show ?thesis by (simp add: stranded_def pending_def)
qed

subsection \<open>A start that nobody stops\<close>

text \<open>
  The start waits: before the socket opens the connect timer runs, after it the handshake timer, and
  the handshake can still end.
\<close>

definition waits :: "err option list \<Rightarrow> off \<Rightarrow> bool" where
  "waits l s \<longleftrightarrow> o_waiting s \<and> o_settled s = l \<and> o_ws s \<and>
     (if o_wsOpen s then o_hs s \<and> o_hsTimer s \<noteq> None \<and> \<not> o_hsOk s \<and> o_connectTimer s = None
      else o_connectTimer s \<noteq> None \<and> \<not> o_hs s \<and> o_hsTimer s = None)"

definition in_time :: "err option list \<Rightarrow> off \<Rightarrow> bool" where
  "in_time l s \<longleftrightarrow> waits l s \<or> settled_once l s"

text \<open>
  Events without a stop or another start; the socket closes only once it is open (a connection that
  fails first reports an error), and the server speaks only over an open socket.
\<close>

fun calm :: "off \<Rightarrow> off_event \<Rightarrow> bool" where
  "calm s (Off_message msg) = (fld msg ''__cmd'' = JStr (js ''__OFFSCREEN_MONITOR_GAIN__''))"
| "calm s (Ws_closed code reason) = o_wsOpen s"
| "calm s (Ws_text txt) = o_wsOpen s"
| "calm s Sharing_ended = False"
| "calm s Rejection = False"
| "calm s (Script_error ev) = False"
| "calm s (Advance i) = False"
| "calm s Start_resumes = False"
| "calm s _ = True"

fun calm_run :: "env \<Rightarrow> off_event list \<Rightarrow> off \<times> world \<Rightarrow> bool" where
  "calm_run e [] x \<longleftrightarrow> True"
| "calm_run e (ev # evs) x \<longleftrightarrow> calm (fst x) ev \<and> calm_run e evs (snd (run_state (off_step e ev) x))"

interpretation timely: handshake_invariant "in_time l"
  by unfold_locales (auto simp: in_time_def waits_def settled_once_def handshake_defs Let_def)

lemma on_open_run:
  assumes "run_state (on_open e) (s, w) = (u, s', w')"
  shows "s' = (if o_ws s then (beginHandshake (timer_ms (o_hsMs s) 8000) (clearConnectTimer (s\<lparr>o_wsOpen := True, o_ready := False\<rparr>)))\<lparr>o_ready := True\<rparr>
              else s)"
  using assms
  by (auto simp: on_open_def status_def safeSendText_def clearConnectTimer_def beginHandshake_def clearHandshake_def
      split: prod.splits if_splits)

lemma on_error_run:
  assumes "run_state (on_error e) (s, w) = (u, s', w')"
  shows "s' = (if o_ws s then settle (Some (Err (js ''WS_CONNECT_FAILED''))) (rejectHandshakeIfAny (Err (js ''WS_CONNECT_FAILED''))
                ((clearConnectTimer s)\<lparr>o_wsOpen := False, o_ready := False\<rparr>)) else s)"
  using assms by (auto simp: on_error_def status_def clearConnectTimer_def split: prod.splits if_splits)

lemma connect_timeout_run:
  assumes "run_state (connect_timeout e) (s, w) = (u, s', w')"
  shows "s' = (if o_connectTimer s = None then s else settle (Some (Err (js ''WS_CONNECT_TIMEOUT''))) (s\<lparr>o_connectTimer := None\<rparr>))"
  using assms by (auto simp: connect_timeout_def status_def calls_def split: prod.splits if_splits)

text \<open>A start that waits over an open socket is settled by whatever ends the handshake.\<close>

definition shaking :: "err option list \<Rightarrow> off \<Rightarrow> bool" where
  "shaking l s \<longleftrightarrow> o_waiting s \<and> o_settled s = l \<and> o_ws s \<and> o_hs s \<and> \<not> o_hsOk s"

lemma shaking_ends:
  "leads (shaking l) (mods resolveHandshakeIfAny) (settled_once l)" "leads (shaking l) (mods (rejectHandshakeIfAny x)) (settled_once l)"
  by (auto simp: leads_def shaking_def settled_once_def handshake_defs Let_def)

lemma shaking_mods:
  "keeps (shaking l) (mods clearConnectTimer)" "keeps (shaking l) (mods (\<lambda>s. s\<lparr>o_wsOpen := False, o_ready := False\<rparr>))"
  by (auto simp: keeps_def shaking_def clearConnectTimer_def)

lemma settles_then_stops:
  "leads (shaking l) (do { mods (rejectHandshakeIfAny x); stopAll e r Nobody }) (settled_once l)"
  "leads (shaking l) (do { mods (rejectHandshakeIfAny x); strict \<leftarrow> gets o_strict; whenA strict (stopAll e r Nobody) }) (settled_once l)"
  by (intro leads_bind [OF shaking_ends(2)] leads_keeps keeps_intros settling.keeps_stopAll; simp)+

lemma shaking_close: "leads (shaking l) (on_close e code reason) (settled_once l)"
  unfolding on_close_def Let_def
  by (rule leads_known [where c = True], simp add: shaking_def, rule leads_whenA)
    (intro settles_then_stops leads_first shaking_mods keeps_calls leads_if | simp)+

lemma shaking_text: "leads (shaking l) (handleServerTextMessage e t) (settled_once l)"
  unfolding handleServerTextMessage_def server_error_def Let_def
  by (intro settles_then_stops leads_if shaking_ends leads_first keeps_calls keeps_intros)

lemma waits_shaking: "waits l s \<Longrightarrow> o_wsOpen s \<Longrightarrow> shaking l s"
  by (simp add: waits_def shaking_def)

lemma keeps_settled:
  assumes "\<And>s. \<not> o_waiting s \<Longrightarrow> \<not> o_waiting (f s) \<and> o_settled (f s) = o_settled s"
  shows "keeps (settled_once l) (mods f)"
  using assms by (auto simp: keeps_def settled_once_def)

lemma settled_handlers:
  "keeps (settled_once l) (on_open e)" "keeps (settled_once l) (on_error e)" "keeps (settled_once l) (connect_timeout e)"
  "keeps (settled_once l) (on_close e code reason)"
  unfolding on_open_def on_error_def connect_timeout_def on_close_def Let_def
  by (intro keeps_intros keeps_calls settling.keeps_stopAll keeps_settled; simp add: handshake_defs beginHandshake_def)+

lemma settled_timeout: "keeps (settled_once l) (mods handshake_timeout)"
  by (rule keeps_mods) (rule settling.times_out)

lemma settled_step: "calm s0 ev \<Longrightarrow> keeps (settled_once l) (off_step e ev)"
  by (cases ev)
    (auto simp: off_message_def Let_def intro!: settled_timeout keeps_intros settled_handlers settling.keeps_text settling.keeps_worklet settling.keeps_data settling.keeps_monitor
        settling.keeps_recorder_error keeps_settled)

lemma waits_step:
  assumes "waits l s" and "calm s ev" and "run_state (off_step e ev) (s, w) = (u, s', w')"
  shows "in_time l s'"
proof -
  have i: "in_time l s" using assms(1) by (simp add: in_time_def)
  have rec: "keeps (in_time l) (mods (\<lambda>s. s\<lparr>o_recActive := False\<rparr>))"
    by (rule timely.keeps_same) (simp add: same_wait_def)
  consider (message) msg where "ev = Off_message msg" | (opened) "ev = Ws_opened" | (closing) code reason where "ev = Ws_closed code reason"
    | (failing) "ev = Ws_failed" | (speaks) t where "ev = Ws_text t" | (con) "ev = Connect_timer" | (hs) "ev = Handshake_timer"
    | (keep) "keeps (in_time l) (off_step e ev)"
    using assms(2) by (cases ev)
      (auto intro: rec timely.keeps_worklet timely.keeps_data timely.keeps_recorder_error)
  then show ?thesis
  proof cases
    case message
    then have "keeps (in_time l) (off_step e ev)" using assms(2)
      by (auto simp: off_message_def Let_def intro!: keeps_intros timely.keeps_monitor)
    then show ?thesis using assms(3) i by (rule keeps_run)
  next
    case opened
    then show ?thesis using assms(1) on_open_run [of e s w u s' w'] assms(3)
      by (auto simp: in_time_def waits_def beginHandshake_def clearHandshake_def clearConnectTimer_def split: if_splits)
  next
    case closing
    then have "shaking l s" using assms(1,2) waits_shaking by simp
    then show ?thesis using leads_run [OF shaking_close] assms(3) closing by (simp add: in_time_def)
  next
    case failing
    then show ?thesis using assms(1) on_error_run [of e s w u s' w'] assms(3)
      by (auto simp: in_time_def waits_def settled_once_def handshake_defs split: if_splits)
  next
    case speaks
    then have "shaking l s" using assms(1,2) waits_shaking by simp
    then show ?thesis using leads_run [OF shaking_text] assms(3) speaks i
      by (auto simp: ws_text_def in_time_def whenA_def split: option.splits if_splits)
  next
    case con
    then show ?thesis using assms(1) connect_timeout_run [of e s w u s' w'] assms(3)
      by (auto simp: in_time_def waits_def settled_once_def handshake_defs split: if_splits)
  next
    case hs
    then show ?thesis using assms(1,3) by (auto simp: in_time_def waits_def settled_once_def handshake_defs split: if_splits)
  next
    case keep
    then show ?thesis using assms(3) i by (rule keeps_run)
  qed
qed

lemma calm_keeps_time:
  assumes "in_time l (fst x)" and "calm_run e evs x" and "run_state (off_run e evs) x = (u, y)"
  shows "in_time l (fst y)"
  using assms
proof (induction evs arbitrary: x)
  case (Cons ev evs)
  obtain s w where x: "x = (s, w)" by fastforce
  obtain s1 w1 where r: "run_state (off_step e ev) (s, w) = ((), s1, w1)" by (rule act_runs)
  have c: "calm s ev" using Cons.prems(2) x by simp
  have "in_time l s1" using Cons.prems(1) x waits_step [OF _ c r] keeps_run [OF settled_step [OF c] r] by (auto simp: in_time_def)
  then show ?case using Cons.IH [of "(s1, w1)"] Cons.prems r x by simp
qed simp

lemma closeWs_leaves: "leads (\<lambda>s. o_settled s = l) (closeWs e b) (\<lambda>s. o_settled s = l \<and> \<not> o_wsOpen s \<and> \<not> o_hs s \<and> o_hsTimer s = None)"
proof -
  define P where "P = (\<lambda>s :: off. o_settled s = l \<and> \<not> o_wsOpen s)"
  have 1: "leads (\<lambda>s. o_settled s = l) (mods (\<lambda>s. s\<lparr>o_wsOpen := False, o_ready := False\<rparr>)) P"
    by (rule leads_mods) (simp add: P_def)
  have 2: "leads P (mods closed) (\<lambda>s. o_settled s = l \<and> \<not> o_wsOpen s \<and> \<not> o_hs s \<and> o_hsTimer s = None)"
    by (rule leads_mods) (simp add: P_def handshake_defs)
  show ?thesis unfolding closeWs_def
    by (intro leads_bind [OF 1] 2 leads_first keeps_intros keeps_calls)
qed

lemma openWs_in_time: "leads (\<lambda>s. o_settled s = l) (openWs e url auth c h) (in_time l)"
proof (rule leadsI)
  fix s w u s' w' assume run: "run_state (openWs e url auth c h) (s, w) = (u, s', w')" and l: "o_settled s = l"
  obtain s1 w1 where 1: "run_state (closeWs e False) (s, w) = ((), s1, w1)" by (rule act_runs)
  have "o_settled s1 = l \<and> \<not> o_wsOpen s1 \<and> \<not> o_hs s1 \<and> o_hsTimer s1 = None" using closeWs_leaves 1 l by (rule leads_run)
  with run 1 show "in_time l s'"
    by (auto simp: openWs_def status_def in_time_def waits_def settled_once_def handshake_defs split: prod.splits sum.splits)
qed

lemma timers_settle: "leads (in_time l) (off_run e [Connect_timer, Handshake_timer]) (settled_once l)"
proof (rule leadsI)
  fix s w u s' w' assume run: "run_state (off_run e [Connect_timer, Handshake_timer]) (s, w) = (u, s', w')" and t: "in_time l s"
  obtain s1 w1 where 1: "run_state (connect_timeout e) (s, w) = ((), s1, w1)" by (rule act_runs)
  show "settled_once l s'"
    using run t 1 connect_timeout_run [OF 1]
    by (auto simp: in_time_def waits_def settled_once_def handshake_defs split: if_splits)
qed

lemma off_run_append: "off_run e (xs @ ys) = do { off_run e xs; off_run e ys }"
  by (induction xs) simp_all

text \<open>Property C18: a start that opens a socket is settled exactly once, at the latest when both timers have fired,
  whatever the server, the worklet and the recorder do meanwhile, as long as nobody stops the capture:
  it does not hang.\<close>

theorem start_settles:
  assumes "run_state (openWs e url auth c h) (s, w) = (u, s1, w1)" and "calm_run e evs (s1, w1)"
    and "run_state (off_run e (evs @ [Connect_timer, Handshake_timer])) (s1, w1) = (v, s', w')"
  shows "\<not> o_waiting s' \<and> (\<exists>r. o_settled s' = o_settled s @ [r])"
proof -
  have 1: "in_time (o_settled s) s1" using openWs_in_time assms(1) refl by (rule leads_run)
  obtain s2 w2 where 2: "run_state (off_run e evs) (s1, w1) = ((), s2, w2)" by (rule act_runs)
  have "in_time (o_settled s) s2" using calm_keeps_time [OF _ assms(2) 2] 1 by simp
  moreover have "run_state (off_run e [Connect_timer, Handshake_timer]) (s2, w2) = (v, s', w')"
    using assms(3) 2 by (simp only: off_run_append run_state_bind split)
  ultimately have "settled_once (o_settled s) s'" using timers_settle by (metis leads_run)
  then show ?thesis by (simp add: settled_once_def)
qed

text \<open>A browser that grants everything, and a start message.\<close>

fun host_answer :: "out list \<Rightarrow> out \<Rightarrow> ustr + jsval" where
  "host_answer h (Browser name v) =
     (if name = ''getUserMedia'' then Inr (JObj [(js ''audio'', JArr [JStr (js ''tab'')]), (js ''video'', JInt 0)])
      else if name = ''ws.readyState'' then Inr (JInt 1)
      else if name = ''ws.bufferedAmount'' then Inr (JInt 0)
      else Inr JUndef)"
| "host_answer h x = Inr JUndef"

definition host_env :: env where
  "host_env = (example_env (\<lambda>h q. Inl (js ''offline'')) (\<lambda>s. None))\<lparr>e_deliver := host_answer\<rparr>"

definition start_msg :: jsval where
  "start_msg = JObj [(js ''__cmd'', JStr (js ''__OFFSCREEN_START__'')),
     (js ''payload'', JObj [(js ''server'', JStr (js ''wss://s'')), (js ''streamId'', JStr (js ''id'')), (js ''strictWs'', JBool True)])]"

definition stop_msg :: jsval where
  "stop_msg = JObj [(js ''__cmd'', JStr (js ''__OFFSCREEN_STOP__''))]"

definition starting_off :: "off \<times> world" where
  "starting_off = snd (run_state (off_run host_env [Off_message start_msg, Advance 0]) (off_init, blank_world))"

lemma starting_waits:
  "o_waiting (fst starting_off) \<and> o_settled (fst starting_off) = [] \<and> o_jobs (fst starting_off) = [] \<and> o_ws (fst starting_off)"
  by code_simp

definition opened_off :: "off \<times> world" where
  "opened_off = snd (run_state (openWs host_env (JStr (js ''wss://s'')) JNull (JInt 10000) (JInt 8000)) (off_init, blank_world))"

definition first_events :: "off_event list" where
  "first_events = [Ws_opened, Recorder_data [1], Worklet (Port_pcm [1, 2])]"

lemma first_calm: "calm_run host_env first_events opened_off"
  by code_simp

theorem start_settles_witness:
  "\<exists>r. o_settled (fst (snd (run_state (off_run host_env (first_events @ [Connect_timer, Handshake_timer])) opened_off))) = [r]"
proof -
  obtain s1 w1 where open': "run_state (openWs host_env (JStr (js ''wss://s'')) JNull (JInt 10000) (JInt 8000)) (off_init, blank_world) =
      ((), s1, w1)" by (rule act_runs)
  then have o: "opened_off = (s1, w1)" by (simp add: opened_off_def)
  obtain s' w' where run: "run_state (off_run host_env (first_events @ [Connect_timer, Handshake_timer])) (s1, w1) = ((), s', w')"
    by (rule act_runs)
  from start_settles [OF open' first_calm [unfolded o] run] show ?thesis unfolding o run by (simp add: off_init_def)
qed

end
