(* ===== verification/Offscreen_Audio.thy ===== *)
theory Offscreen_Audio
  imports Offscreen_Contract
begin

section \<open>The samples on the socket\<close>

text \<open>
  What the offscreen document sends of the worklet's samples: nothing before the start message of the
  connection, the chunks in their order, all of them when the socket keeps up, and a chunk is dropped
  exactly when the hysteresis of the two watermarks says so.
\<close>

subsection \<open>Samples follow the start message\<close>

text \<open>
  Reading the log of outputs: whether the start message was sent on the socket that is open now;
  \<open>None\<close> as soon as samples were sent without it.
\<close>

fun scan1 :: "bool \<Rightarrow> out \<Rightarrow> bool option" where
  "scan1 r (Ws k v) =
     (if k = ''new'' \<or> k = ''close'' then Some False
      else if k = ''send'' \<and> v = start_event then Some True
      else if k = ''pcm'' \<and> \<not> r then None else Some r)"
| "scan1 r x = Some r"

fun scan :: "bool \<Rightarrow> out list \<Rightarrow> bool option" where
  "scan r [] = Some r"
| "scan r (x # xs) = (case scan1 r x of None \<Rightarrow> None | Some r' \<Rightarrow> scan r' xs)"

lemma scan_append: "scan r (xs @ ys) = (case scan r xs of None \<Rightarrow> None | Some r' \<Rightarrow> scan r' ys)"
  by (induction r xs rule: scan.induct) (auto split: option.split)

text \<open>Outputs that neither send samples nor change the socket.\<close>

fun passes :: "out \<Rightarrow> bool" where
  "passes (Ws k v) = (k = ''send'')"
| "passes _ = True"

lemma scan1_passes: "passes x \<Longrightarrow> \<exists>r'. scan1 r x = Some r' \<and> (r \<longrightarrow> r')"
  by (cases x) auto

lemma scan_passes: "list_all passes xs \<Longrightarrow> \<exists>r'. scan r xs = Some r' \<and> (r \<longrightarrow> r')"
proof (induction xs arbitrary: r)
  case (Cons x xs)
  obtain r1 where "scan1 r x = Some r1" "r \<longrightarrow> r1" using scan1_passes [of x r] Cons.prems by auto
  then show ?case using Cons.IH [of r1] Cons.prems by auto
qed simp

definition scanned :: "bool \<Rightarrow> world \<Rightarrow> bool" where
  "scanned b w \<longleftrightarrow> (\<exists>r. scan False (w_out w) = Some r \<and> (b \<longrightarrow> r))"

definition sound :: "off \<times> world \<Rightarrow> bool" where
  "sound x \<longleftrightarrow> scanned (o_ready (fst x)) (snd x) \<and> (o_ready (fst x) \<longrightarrow> o_wsOpen (fst x)) \<and>
     (o_connectTimer (fst x) \<noteq> None \<longrightarrow> \<not> o_wsOpen (fst x))"

lemma scanned_passes: "scanned b w \<Longrightarrow> w_out w' = w_out w @ new \<Longrightarrow> list_all passes new \<Longrightarrow> scanned b w'"
proof -
  assume "scanned b w" and w': "w_out w' = w_out w @ new" and "list_all passes new"
  then obtain r where r: "scan False (w_out w) = Some r" "b \<longrightarrow> r" by (auto simp: scanned_def)
  obtain r' where "scan r new = Some r'" "r \<longrightarrow> r'" using scan_passes [OF \<open>list_all passes new\<close>] by blast
  with r w' show "scanned b w'" by (auto simp: scanned_def scan_append)
qed

lemma scanned_step:
  "scanned b w \<Longrightarrow> scanned False (w\<lparr>w_out := w_out w @ [Ws ''close'' v]\<rparr>)"
  "scanned b w \<Longrightarrow> scanned False (w\<lparr>w_out := w_out w @ [Ws ''new'' v]\<rparr>)"
  "scanned b w \<Longrightarrow> scanned True (w\<lparr>w_out := w_out w @ [Ws ''send'' start_event]\<rparr>)"
  "scanned True w \<Longrightarrow> scanned True (w\<lparr>w_out := w_out w @ [Ws ''pcm'' v]\<rparr>)"
  by (auto simp: scanned_def scan_append)

text \<open>The programs that only pass.\<close>

lemma passes_status: "adds w_out passes (sendStatus e fs)"
  unfolding sendStatus_def by (intro adds_intros adds_emit) simp_all

lemma passes_reply: "adds w_out passes (reply v)"
  by (simp add: adds_def)

lemma passes_emit: "passes x \<Longrightarrow> adds w_out passes (emit e x)"
  by (rule adds_emit)

lemma passes_store:
  "adds w_out P (num_or_now e v)" "adds w_out P (toIso e v)" "adds w_out P (try_buckets e cfg b path enc bs)"
  "adds w_out P (insertVideoRecordingFlexible e row cfg)"
proof -
  have "adds w_out P (insert_try e cfg n body)" for n body
    by (induction n arbitrary: body) (auto simp: Let_def intro!: adds_intros split: option.split)
  then show "adds w_out P (insertVideoRecordingFlexible e row cfg)" by (simp add: insertVideoRecordingFlexible_def)
  show "adds w_out P (try_buckets e cfg b path enc bs)"
    by (induction bs) (auto intro!: adds_intros split: option.split)
qed (auto simp: num_or_now_def toIso_def intro!: adds_intros split: option.split)

lemma passes_persist: "adds w_out passes (persistRecordedBlob e blob cfg)"
  unfolding persistRecordedBlob_def uploadBlobToStorage_def sha256Hex_def insert_with_fallbacks_def fk_retry_def Let_def
  by (intro adds_intros passes_store passes_emit) simp_all

lemma passes_media:
  "adds w_out passes (get_media e p v)" "adds w_out passes (pickRecorderMimeType e)" "adds w_out passes (has_recorder e)"
proof -
  have "adds w_out passes (first_supported e ms)" for ms
    by (induction ms) (auto intro!: adds_intros passes_emit split: sum.split)
  then show "adds w_out passes (pickRecorderMimeType e)" "adds w_out passes (has_recorder e)"
    unfolding pickRecorderMimeType_def has_recorder_def by (intro adds_intros passes_emit; simp)+
  show "adds w_out passes (get_media e p v)"
    unfolding get_media_def getDisplayMediaStream_def getTabCaptureStream_def stop_video_def
    by (intro adds_intros passes_emit passes_status) simp_all
qed

text \<open>Properties of the log and of the flags of the socket, which all programs that only pass keep.\<close>

definition same_socket :: "off \<Rightarrow> off \<Rightarrow> bool" where
  "same_socket s s' \<longleftrightarrow> o_ready s' = o_ready s \<and> o_wsOpen s' = o_wsOpen s \<and> o_connectTimer s' = o_connectTimer s"

lemma same_socket_simps [simp]:
  "same_socket s (settle r s)" "same_socket s (clearHandshake s)" "same_socket s (resolveHandshakeIfAny s)"
  "same_socket s (rejectHandshakeIfAny x s)" "same_socket s (handshake_timeout s)" "same_socket s (beginHandshake ms s)"
  "same_socket s (clearVideoRecorderState s)" "same_socket s (on_recorder_data d s)" "same_socket s (pressed b s)"
  "same_socket s (s\<lparr>o_recActive := b'\<rparr>)" "same_socket s (count_sent n s)" "same_socket s (count_dropped n s)"
  by (simp_all add: same_socket_def handshake_defs beginHandshake_def clearVideoRecorderState_def on_recorder_data_def pressed_def
      count_sent_def count_dropped_def Let_def)

locale socket_log =
  fixes J :: "off \<times> world \<Rightarrow> bool"
  assumes pass: "J (s, w) \<Longrightarrow> w_out w' = w_out w @ new \<Longrightarrow> list_all passes new \<Longrightarrow> J (s, w')"
    and socket: "J (s, w) \<Longrightarrow> same_socket s s' \<Longrightarrow> J (s', w)"
begin

lemma holds_onw: "adds w_out passes m \<Longrightarrow> holds J (onw m)"
  by (rule holdsI) (auto split: prod.splits elim!: adds_run intro: pass)

lemma holds_calls:
  "holds J (status e fs)" "holds J (host_value e n)" "holds J (socket_open e)" "holds J (bufferedAmount e)" "holds J (can_stream e)"
  "holds J (safeSendText e v)" "holds J (recording_error e st err r)" "holds J answer_ok" "holds J answer_busy"
  "holds J (relay e c v)" "holds J (start_error e st t)" "holds J (calls e (Browser n v))"
  unfolding status_def calls_def host_value_def socket_open_def bufferedAmount_def can_stream_def safeSendText_def
    recording_error_def answer_ok_def answer_busy_def relay_def start_error_def
  by (intro holds_intros holds_onw passes_emit passes_status passes_reply; simp)+

lemma holds_socket: "(\<And>s. same_socket s (f s)) \<Longrightarrow> holds J (mods f)"
  by (rule holds_mods) (erule socket)

lemma holds_push: "holds J (push_job r aft ph)"
  unfolding push_job_def by (rule holds_socket) (simp add: same_socket_def)

lemma holds_finally: "holds J (recorder_finally e)"
  unfolding recorder_finally_def by (intro holds_intros holds_calls holds_socket) simp

lemma holds_shouldDrop: "holds J (shouldDropPcmByBackpressure e)"
  unfolding shouldDropPcmByBackpressure_def
  by (intro holds_intros holds_calls holds_onw adds_intros holds_socket) (simp_all add: same_socket_def pressed_def)

lemma holds_meter: "holds J (on_meter e rms peak)"
  unfolding on_meter_def by (intro holds_intros holds_calls holds_onw adds_intros holds_socket) (simp_all add: same_socket_def)

lemma holds_recorder_error: "holds J (on_recorder_error e ev)"
  unfolding on_recorder_error_def by (intro holds_intros holds_calls)

lemma holds_monitor: "holds J (monitor_gain e p)"
  unfolding monitor_gain_def Let_def by (intro holds_intros holds_calls)

lemma holds_start_recorder: "holds J (startVideoRecorderIfNeeded e m cfg)"
  unfolding startVideoRecorderIfNeeded_def
  by (intro holds_intros holds_calls holds_onw adds_intros passes_media passes_emit holds_socket) (simp_all add: same_socket_def)

lemma holds_graph: "holds J (audio_graph e)"
  unfolding audio_graph_def
  by (intro holds_intros holds_calls holds_onw passes_emit holds_socket) (simp_all add: same_socket_def)

end

interpretation sound: socket_log sound
  by unfold_locales (auto simp: sound_def same_socket_def intro: scanned_passes)

text \<open>The socket is open and the start message is out.\<close>

definition flowing :: "off \<times> world \<Rightarrow> bool" where
  "flowing x \<longleftrightarrow> sound x \<and> o_ready (fst x)"

interpretation flowing: socket_log flowing
  by unfold_locales (auto simp: flowing_def sound_def same_socket_def intro: scanned_passes)

text \<open>The socket is closed, or about to be.\<close>

definition shut :: "off \<times> world \<Rightarrow> bool" where
  "shut x \<longleftrightarrow> sound x \<and> \<not> o_ready (fst x) \<and> \<not> o_wsOpen (fst x)"

interpretation shut: socket_log shut
  by unfold_locales (auto simp: shut_def sound_def same_socket_def intro: scanned_passes)

lemma shut_sound: "shut x \<Longrightarrow> sound x"
  by (simp add: shut_def)

lemma closeWs_shuts: "yields sound (closeWs e b) shut"
proof -
  have 1: "yields sound (mods (\<lambda>s. s\<lparr>o_wsOpen := False, o_ready := False\<rparr>)) shut"
    by (rule yields_mods) (auto simp: shut_def sound_def scanned_def)
  have 2: "holds shut (calls e (Ws ''close'' JUndef))"
    by (rule holdsI) (auto simp: calls_def run_emit shut_def sound_def intro: scanned_step split: prod.splits)
  have 3: "yields shut (mods closed) shut"
    by (rule yields_mods) (auto simp: shut_def sound_def closed_def clearConnectTimer_def clearHandshake_def)
  show ?thesis
    unfolding closeWs_def
    by (rule yields_first, intro holds_intros, rule yields_first, intro holds_intros sound.holds_calls,
        rule yields_first, intro holds_intros sound.holds_calls, rule yields_bind [OF 1], rule yields_first, intro holds_intros,
        rule yields_first, intro holds_intros 2, rule 3)
qed

lemma holds_closeWs: "holds sound (closeWs e b)"
  by (rule holds_yields, rule yields_weaken [OF closeWs_shuts]) (simp_all add: shut_sound)

lemma holds_stop_finish: "holds sound (stop_finish e r aft)"
proof -
  have "holds sound (mods stop_reset)"
    by (rule holds_mods) (auto simp: sound_def stop_reset_def scanned_def)
  then show ?thesis unfolding stop_finish_def by (intro holds_intros sound.holds_calls sound.holds_push)
qed

lemma holds_stop_tail: "holds sound (stop_tail e r aft)"
  unfolding stop_tail_def
  by (intro holds_intros sound.holds_calls sound.holds_push holds_stop_finish sound.holds_socket) (simp_all add: same_socket_def)

lemma holds_store: "holds sound (store_recording e r aft)" "holds sound (stored e r aft out' n d)"
  unfolding store_recording_def stored_def recorded_since_def Let_def
  by (intro holds_intros sound.holds_calls sound.holds_push holds_stop_tail sound.holds_finally sound.holds_onw adds_intros
      passes_store passes_persist; simp)+

lemma holds_stopAll: "holds sound (stopAll e r aft)"
  unfolding stopAll_def stopVideoRecorder_def
  by (intro holds_intros sound.holds_calls sound.holds_push holds_stop_tail holds_store holds_closeWs sound.holds_socket)
    (simp_all add: same_socket_def)

lemma holds_pcm: "holds sound (on_pcm e buf)"
proof (rule holdsI)
  fix x u x' assume run: "run_state (on_pcm e buf) x = (u, x')" and J: "sound x"
  obtain s w where x: "x = (s, w)" by fastforce
  obtain can s1 w1 where 1: "run_state (can_stream e) (s, w) = (can, s1, w1)" by (metis prod_cases3)
  have s1: "sound (s1, w1)" using sound.holds_calls(5) 1 J x by (metis holds_run)
  have can: "can \<Longrightarrow> o_ready s1"
    using 1 by (auto simp: can_stream_def socket_open_def host_value_def run_emit split: if_splits)
  have send: "holds flowing (onw (emit e (Ws ''pcm'' (pcm_val buf))))"
    by (rule holdsI) (auto simp: run_emit flowing_def sound_def intro: scanned_step)
  have "holds flowing (do {
      dropIt \<leftarrow> shouldDropPcmByBackpressure e;
      (if dropIt then mods (count_dropped (2 * length buf))
       else do {
         r \<leftarrow> onw (emit e (Ws ''pcm'' (pcm_val buf)));
         (case r of
            Inl x \<Rightarrow> skip
          | Inr v \<Rightarrow> do {
              mods (count_sent (2 * length buf));
              b \<leftarrow> bufferedAmount e;
              mods (\<lambda>s. s\<lparr>o_buffered := b\<rparr>);
              first \<leftarrow> gets o_firstSent;
              whenA (\<not> first) (do {
                mods (\<lambda>s. s\<lparr>o_firstSent := True\<rparr>);
                mods resolveHandshakeIfAny }) }) }) })" (is "holds flowing ?m")
    by (intro holds_intros flowing.holds_shouldDrop send flowing.holds_calls flowing.holds_socket) (simp | simp add: same_socket_def)+
  moreover have "run_state (whenA can ?m) (s1, w1) = (u, x')" using run 1 x by (simp add: on_pcm_def)
  ultimately show "sound x'"
    using s1 can by (cases can) (auto simp: flowing_def dest: holds_run)
qed

lemma holds_worklet: "holds sound (on_worklet e msg)"
  unfolding on_worklet_def
  by (cases msg) (auto intro!: holds_intros sound.holds_meter holds_pcm)

lemma holds_text: "holds sound (ws_text e txt)"
  unfolding ws_text_def handleServerTextMessage_def server_error_def Let_def
  by (intro holds_intros sound.holds_calls sound.holds_socket holds_stopAll) simp_all

lemma holds_sound_mods:
  "holds sound (mods clearConnectTimer)" "holds sound (mods (\<lambda>s. s\<lparr>o_wsOpen := False, o_ready := False\<rparr>))"
  "holds sound (mods (\<lambda>s. s\<lparr>o_connectTimer := None\<rparr>))"
  by (rule holds_mods, auto simp: sound_def clearConnectTimer_def scanned_def)+

lemma holds_close: "holds sound (on_close e code reason)"
  unfolding on_close_def Let_def
  by (intro holds_intros sound.holds_calls holds_sound_mods sound.holds_socket holds_stopAll) simp_all

lemma holds_error: "holds sound (on_error e)"
  unfolding on_error_def
  by (intro holds_intros sound.holds_calls holds_sound_mods sound.holds_socket) (simp add: same_socket_def handshake_defs)

lemma holds_openWs: "holds sound (openWs e url auth c h)"
proof -
  have new: "holds shut (onw (emit e (Ws ''new'' url)))"
    by (rule holdsI) (auto simp: run_emit shut_def sound_def intro: scanned_step)
  have timer: "holds shut (mods (\<lambda>s. s\<lparr>o_ws := True, o_auth := auth, o_hsMs := h, o_connectTimer := Some t\<rparr>))" for t
    by (rule holds_mods) (auto simp: shut_def sound_def)
  have "yields sound (openWs e url auth c h) shut"
    unfolding openWs_def
    by (rule yields_bind [OF closeWs_shuts], rule yields_holds,
        intro holds_intros new timer shut.holds_calls shut.holds_socket)
      (simp_all add: same_socket_def handshake_defs)
  then show ?thesis using holds_yields yields_weaken shut_sound by blast
qed

text \<open>The socket has just opened: the start message is on its way.\<close>

definition opened :: "off \<times> world \<Rightarrow> bool" where
  "opened x \<longleftrightarrow> sound x \<and> o_wsOpen (fst x) \<and> \<not> o_ready (fst x) \<and> o_connectTimer (fst x) = None"

interpretation opened: socket_log opened
  by unfold_locales (auto simp: opened_def sound_def same_socket_def intro: scanned_passes)

lemma holds_open: "holds sound (on_open e)"
proof -
  define C where "C = (\<lambda>x. sound x \<and> o_connectTimer (fst x) = None)"
  have 1: "yields sound (mods clearConnectTimer) C"
    by (rule yields_mods) (auto simp: C_def sound_def clearConnectTimer_def)
  have 2: "yields C (mods (\<lambda>s. s\<lparr>o_wsOpen := True, o_ready := False\<rparr>)) opened"
    by (rule yields_mods) (auto simp: C_def opened_def sound_def scanned_def)
  have 3: "yields opened (safeSendText e start_event) (\<lambda>x. opened x \<and> scanned True (snd x))"
    by (rule yieldsI) (auto simp: safeSendText_def run_emit opened_def sound_def scanned_def scan_append)
  have 4: "yields (\<lambda>x. opened x \<and> scanned True (snd x)) (mods (\<lambda>s. s\<lparr>o_ready := True\<rparr>)) sound"
    by (rule yields_mods) (auto simp: opened_def sound_def)
  have "yields sound (do {
       mods clearConnectTimer;
       mods (\<lambda>s. s\<lparr>o_wsOpen := True, o_ready := False\<rparr>);
       status e [(js ''state'', JStr (js ''ws-open''))];
       mods (\<lambda>s. beginHandshake (timer_ms (o_hsMs s) 8000) s);
       auth \<leftarrow> gets o_auth;
       whenA (sends_auth auth) (do {
         okay \<leftarrow> safeSendText e (JObj [(js ''type'', JStr (js ''auth'')), (js ''scheme'', JStr (js ''bearer'')),
           (js ''token'', fld auth ''token'')]);
         status e [(js ''state'', JStr (if okay then js ''ws-auth-sent'' else js ''ws-auth-send-failed''))] });
       r \<leftarrow> safeSendText e start_event;
       mods (\<lambda>s. s\<lparr>o_ready := True\<rparr>) }) sound"
    by (rule yields_bind [OF 1], rule yields_bind [OF 2], rule yields_first, rule opened.holds_calls, rule yields_first,
        rule opened.holds_socket, simp, rule yields_first, rule holds_gets, rule yields_first,
        intro holds_intros opened.holds_calls, rule yields_bind [OF 3], rule 4)
  then show ?thesis unfolding on_open_def by (intro holds_intros holds_yields)
qed

text \<open>The socket has not opened yet, or is closed.\<close>

definition unready :: "off \<times> world \<Rightarrow> bool" where
  "unready x \<longleftrightarrow> sound x \<and> \<not> o_ready (fst x)"

interpretation unready: socket_log unready
  by unfold_locales (auto simp: unready_def sound_def same_socket_def intro: scanned_passes)

lemma holds_connect_timeout: "holds sound (connect_timeout e)"
proof -
  have 1: "holds unready (mods (\<lambda>s. s\<lparr>o_connectTimer := None\<rparr>))"
    by (rule holds_mods) (auto simp: unready_def sound_def)
  have 2: "holds unready (calls e (Ws ''close'' JUndef))"
    by (rule holdsI) (auto simp: calls_def run_emit unready_def sound_def intro: scanned_step split: prod.splits)
  have "holds unready (do {
       mods (\<lambda>s. s\<lparr>o_connectTimer := None\<rparr>);
       status e [(js ''state'', JStr (js ''ws-error'')), (js ''error'', JStr (js ''WS_CONNECT_TIMEOUT''))];
       calls e (Ws ''close'' JUndef);
       mods (settle (Some (Err (js ''WS_CONNECT_TIMEOUT'')))) })"
    by (intro holds_intros 1 2 unready.holds_calls unready.holds_socket) simp
  note body = yields_holds [OF this]
  show ?thesis
    unfolding connect_timeout_def
    by (intro holds_yields yields_gets yields_whenA, rule yields_weaken [OF body]) (auto simp: unready_def sound_def)
qed

lemma holds_start_media: "holds sound (start_media e p)"
  unfolding start_media_def Let_def
  by (intro holds_intros sound.holds_calls sound.holds_onw passes_media sound.holds_start_recorder sound.holds_graph holds_openWs
      sound.holds_socket) (simp_all add: same_socket_def)

lemma holds_after: "holds sound (run_after e aft)"
  unfolding run_after_def
  by (cases aft) (auto intro!: holds_intros sound.holds_calls holds_stopAll holds_start_media)

lemma holds_jobs: "holds sound (advance e i)"
  unfolding advance_def run_job_def
  by (intro holds_intros sound.holds_socket)
    (auto simp: same_socket_def intro!: holds_store holds_stop_finish holds_after split: phase.split)

lemma holds_resume: "holds sound (start_resume e)"
  unfolding start_resume_def
  by (intro holds_intros sound.holds_socket sound.holds_calls holds_stopAll) (simp add: same_socket_def)

lemma holds_message: "holds sound (off_message e msg)"
  unfolding off_message_def off_start_def Let_def
  by (intro holds_intros holds_stopAll sound.holds_socket sound.holds_monitor) (simp add: same_socket_def)

lemma holds_step: "holds sound (off_step e ev)"
  by (cases ev)
    (auto simp: unhandled_def intro!: holds_message holds_open holds_close holds_error holds_text
      holds_connect_timeout holds_worklet sound.holds_recorder_error holds_jobs holds_resume holds_intros sound.holds_calls
      holds_stopAll sound.holds_socket)

lemma holds_off_run: "holds sound (off_run e evs)"
  by (induction evs) (auto intro!: holds_intros holds_step)


subsection \<open>Back pressure and the order of the chunks\<close>

text \<open>The reference: a switch with two thresholds, from whether chunks are dropped now and the amount buffered.\<close>

definition hysteresis :: "bool \<Rightarrow> rat \<Rightarrow> bool" where
  "hysteresis dropping b = (if dropping then WS_BUFFER_RESUME_WATERMARK < b else WS_BUFFER_HIGH_WATERMARK \<le> b)"

fun sent :: "out list \<Rightarrow> jsval list" where
  "sent [] = []"
| "sent (Ws k v # xs) = (if k = ''pcm'' then v # sent xs else sent xs)"
| "sent (_ # xs) = sent xs"

lemma sent_append [simp]: "sent (xs @ ys) = sent xs @ sent ys"
  by (induction xs rule: sent.induct) simp_all

lemma sent_passes: "list_all passes xs \<Longrightarrow> sent xs = []"
  by (induction xs rule: sent.induct) simp_all

lemma sent_adds: "adds w_out passes m \<Longrightarrow> run_state m w = (a, w') \<Longrightarrow> sent (w_out w') = sent (w_out w)"
  by (erule (1) adds_run) (simp add: sent_passes)

text \<open>A socket whose buffer holds \<open>b\<close> bytes whenever the document looks, and that takes everything.\<close>

definition socket_holds :: "env \<Rightarrow> rat \<Rightarrow> bool" where
  "socket_holds e b \<longleftrightarrow> 0 \<le> b \<and>
     (\<forall>h. e_deliver e h (Browser ''ws.readyState'' JUndef) = Inr (JInt 1) \<and>
        e_deliver e h (Browser ''ws.bufferedAmount'' JUndef) = Inr (JNum (JFin b)) \<and>
        (\<forall>v. \<exists>r. e_deliver e h (Ws ''pcm'' v) = Inr r))"

definition streaming :: "off \<Rightarrow> bool" where
  "streaming s \<longleftrightarrow> o_handler s \<and> o_ws s \<and> o_wsOpen s \<and> o_ready s"

lemma streaming_same: "streaming s \<Longrightarrow> o_handler s' = o_handler s \<Longrightarrow> o_ws s' = o_ws s \<Longrightarrow> o_wsOpen s' = o_wsOpen s \<Longrightarrow>
    o_ready s' = o_ready s \<Longrightarrow> streaming s'"
  by (simp add: streaming_def)

lemma asks:
  assumes "socket_holds e b" and "streaming s"
  shows "\<exists>w'. run_state (can_stream e) (s, w) = (True, s, w') \<and> sent (w_out w') = sent (w_out w)"
    "\<exists>w'. run_state (bufferedAmount e) (s, w) = (JFin b, s, w') \<and> sent (w_out w') = sent (w_out w)"
    "\<exists>w'. run_state (socket_open e) (s, w) = (True, s, w') \<and> sent (w_out w') = sent (w_out w)"
  using assms
  by (simp_all add: can_stream_def socket_open_def host_value_def bufferedAmount_def run_emit socket_holds_def streaming_def js_or_def)

lemma status_run: "run_state (status e fs) (s, w) = (u, s', w') \<Longrightarrow> s' = s \<and> sent (w_out w') = sent (w_out w)"
  using sent_adds [OF passes_status] by (auto simp: status_def split: prod.splits)

definition same_counts :: "off \<Rightarrow> off \<Rightarrow> bool" where
  "same_counts s s' \<longleftrightarrow> o_chunksSent s' = o_chunksSent s \<and> o_bytesSent s' = o_bytesSent s \<and>
     o_chunksDropped s' = o_chunksDropped s \<and> o_bytesDropped s' = o_bytesDropped s"

lemma should_drop_run:
  assumes h: "socket_holds e b" and st: "streaming s"
    and run: "run_state (shouldDropPcmByBackpressure e) (s, w) = (d, s1, w1)"
  shows "d = hysteresis (o_back s) b \<and> o_back s1 = d \<and> same_counts s s1 \<and> streaming s1 \<and> sent (w_out w1) = sent (w_out w)"
proof -
  obtain wa where a: "run_state (can_stream e) (s, w) = (True, s, wa)" "sent (w_out wa) = sent (w_out w)"
    using asks(1) [OF h st] by blast
  obtain wb where b: "run_state (bufferedAmount e) (s, wa) = (JFin b, s, wb)" "sent (w_out wb) = sent (w_out w)"
    using asks(2) [OF h st] a(2) by metis
  define p where "p = pressed (JFin b) s"
  have p: "o_buffered p = JFin b" "o_back p \<longleftrightarrow> o_back s \<or> WS_BUFFER_HIGH_WATERMARK \<le> b" "same_counts s p" "streaming p"
    using st by (auto simp: p_def pressed_def same_counts_def streaming_def not_less)
  have marks: "WS_BUFFER_RESUME_WATERMARK < WS_BUFFER_HIGH_WATERMARK"
    by (simp add: WS_BUFFER_RESUME_WATERMARK_def WS_BUFFER_HIGH_WATERMARK_def)
  show ?thesis
    using run a b p marks
    by (auto simp: shouldDropPcmByBackpressure_def p_def [symmetric] hysteresis_def same_counts_def streaming_def not_less not_le
        split: if_splits prod.splits dest!: status_run)
qed

definition chunk_outcome :: "rat \<Rightarrow> 16 word list \<Rightarrow> off \<Rightarrow> off \<Rightarrow> jsval list \<Rightarrow> bool" where
  "chunk_outcome b buf s s' out' \<longleftrightarrow>
     (if hysteresis (o_back s) b
      then out' = [] \<and> o_chunksSent s' = o_chunksSent s \<and> o_bytesSent s' = o_bytesSent s \<and>
        o_chunksDropped s' = Suc (o_chunksDropped s) \<and> o_bytesDropped s' = o_bytesDropped s + 2 * length buf
      else out' = [pcm_val buf] \<and> o_chunksSent s' = Suc (o_chunksSent s) \<and>
        o_bytesSent s' = o_bytesSent s + 2 * length buf \<and> o_chunksDropped s' = o_chunksDropped s \<and>
        o_bytesDropped s' = o_bytesDropped s)"

lemma chunk_run:
  assumes "socket_holds e b" and "streaming s"
    and "run_state (off_step e (Worklet (Port_pcm buf))) (s, w) = (u, s', w')"
  shows "o_back s' = hysteresis (o_back s) b \<and> streaming s' \<and>
    (\<exists>out'. sent (w_out w') = sent (w_out w) @ out' \<and> chunk_outcome b buf s s' out')"
proof -
  obtain wa where a: "run_state (can_stream e) (s, w) = (True, s, wa)" "sent (w_out wa) = sent (w_out w)"
    using asks(1) [OF assms(1,2)] by blast
  obtain d s1 w1 where d: "run_state (shouldDropPcmByBackpressure e) (s, wa) = (d, s1, w1)" by (metis prod_cases3)
  note sd = should_drop_run [OF assms(1,2) d]
  have "o_handler s" using assms(2) by (simp add: streaming_def)
  with assms(3) have run: "run_state (on_pcm e buf) (s, w) = (u, s', w')" by (simp add: on_worklet_def)
  show ?thesis
  proof (cases d)
    case True
    then show ?thesis using run a d sd by (auto simp: on_pcm_def chunk_outcome_def count_dropped_def same_counts_def streaming_def)
  next
    case False
    obtain r where r: "e_deliver e (w_out w1) (Ws ''pcm'' (pcm_val buf)) = Inr r" using assms(1) by (auto simp: socket_holds_def)
    define w2 where "w2 = w1\<lparr>w_out := w_out w1 @ [Ws ''pcm'' (pcm_val buf)]\<rparr>"
    define s2 where "s2 = count_sent (2 * length buf) s1"
    have s2: "streaming s2" "o_back s2 = o_back s1" using sd by (simp_all add: s2_def count_sent_def streaming_def)
    obtain w3 where b: "run_state (bufferedAmount e) (s2, w2) = (JFin b, s2, w3)" "sent (w_out w3) = sent (w_out w2)"
      using asks(2) [OF assms(1) s2(1)] by blast
    show ?thesis using run a d False sd r b s2
      by (simp add: on_pcm_def run_emit w2_def [symmetric] s2_def [symmetric])
        (auto simp: chunk_outcome_def s2_def w2_def count_sent_def same_counts_def streaming_def handshake_defs Let_def split: if_splits)
  qed
qed

text \<open>With the two watermarks the document drops samples exactly as a switch with two thresholds: a chunk
  is dropped, and counted with its bytes, when the switch is on, and otherwise handed to the socket
  once, whole, and counted as sent.\<close>

lemma backpressure_hysteresis:
  assumes "socket_holds e b" and "streaming s"
    and "run_state (off_step e (Worklet (Port_pcm buf))) (s, w) = (u, s', w')"
  shows "o_back s' = hysteresis (o_back s) b \<and> streaming s' \<and>
    (\<exists>out'. sent (w_out w') = sent (w_out w) @ out' \<and> chunk_outcome b buf s s' out')"
  using assms by (rule chunk_run)

text \<open>A host whose socket has taken in all but 70000 bytes, and one that keeps up.\<close>

definition socket_env :: "rat \<Rightarrow> env" where
  "socket_env b =
     (example_env (\<lambda>h q. Inl (js ''offline'')) (\<lambda>s. None))\<lparr>e_deliver := \<lambda>h x. case x of
        Browser name v \<Rightarrow> Inr (if name = ''ws.readyState'' then JInt 1 else if name = ''ws.bufferedAmount'' then JNum (JFin b) else JUndef)
      | _ \<Rightarrow> Inr JUndef\<rparr>"

lemma socket_env_holds: "0 \<le> b \<Longrightarrow> socket_holds (socket_env b) b"
  by (simp add: socket_holds_def socket_env_def)

definition streaming_off :: "bool \<Rightarrow> off" where
  "streaming_off dropping = off_init\<lparr>o_handler := True, o_ws := True, o_wsOpen := True, o_ready := True, o_back := dropping\<rparr>"

lemma streaming_off: "streaming (streaming_off d)" "o_back (streaming_off d) = d"
  by (simp_all add: streaming_def streaming_off_def)

subsection \<open>From the worklet to the socket\<close>

interpretation silent: socket_log "\<lambda>x. sent (w_out (snd x)) = l"
  by unfold_locales (auto simp: sent_passes)

lemma silent_run:
  assumes "\<And>l. holds (\<lambda>x. sent (w_out (snd x)) = l) m" and "run_state m (s, w) = (a, s', w')"
  shows "sent (w_out w') = sent (w_out w)"
  using holds_run [OF assms(1) assms(2)] by simp

fun port_chunks :: "port_msg \<Rightarrow> jsval list" where
  "port_chunks (Port_pcm buf) = [pcm_val buf]"
| "port_chunks (Port_meter r p) = []"

lemma worklet_sends:
  assumes "run_state (on_worklet e m) (s, w) = (u, s', w')"
  shows "\<exists>vs. sent (w_out w') = sent (w_out w) @ vs \<and> subseq vs (port_chunks m)"
proof (cases "o_handler s")
  case h: True
  show ?thesis
  proof (cases m)
    case (Port_meter r p)
    with assms h have "run_state (on_meter e r p) (s, w) = (u, s', w')" by (simp add: on_worklet_def)
    from silent_run [OF silent.holds_meter this] show ?thesis by auto
  next
    case (Port_pcm buf)
    with assms h have run: "run_state (on_pcm e buf) (s, w) = (u, s', w')" by (simp add: on_worklet_def)
    obtain can s1 w1 where 1: "run_state (can_stream e) (s, w) = (can, s1, w1)" by (metis prod_cases3)
    obtain d s2 w2 where 2: "run_state (shouldDropPcmByBackpressure e) (s1, w1) = (d, s2, w2)" by (metis prod_cases3)
    have q: "sent (w_out w1) = sent (w_out w)" "sent (w_out w2) = sent (w_out w1)"
      using silent_run [OF silent.holds_calls(5) 1] silent_run [OF silent.holds_shouldDrop 2] by simp_all
    obtain r w3 where 3: "run_state (emit e (Ws ''pcm'' (pcm_val buf))) w2 = (r, w3)" by fastforce
    then have q3: "sent (w_out w3) = sent (w_out w2) @ [pcm_val buf]" by (auto simp: run_emit)
    define tl' where "tl' = do {
        mods (count_sent (2 * length buf));
        b \<leftarrow> bufferedAmount e;
        mods (\<lambda>s. s\<lparr>o_buffered := b\<rparr>);
        first \<leftarrow> gets o_firstSent;
        whenA (\<not> first) (do { mods (\<lambda>s. s\<lparr>o_firstSent := True\<rparr>); mods resolveHandshakeIfAny }) }"
    have t: "holds (\<lambda>x. sent (w_out (snd x)) = l) tl'" for l
      unfolding tl'_def
      by (intro holds_intros silent.holds_calls silent.holds_socket) (simp | simp add: same_socket_def)+
    consider "\<not> can" "w' = w1" | "can" "d" "w' = w2" | "can" "\<not> d" "w' = w3"
      | x where "can" "\<not> d" "r = Inr x" "run_state tl' (s2, w3) = (u, s', w')"
      using run 1 2 3 by (cases can; cases d; cases r) (auto simp: on_pcm_def tl'_def [symmetric])
    then show ?thesis
      using q q3 silent_run [OF t] Port_pcm by cases (auto intro!: exI [of _ "[pcm_val buf]"])
  qed
qed (use assms in \<open>simp add: on_worklet_def\<close>)

lemma port_run_sends:
  assumes "run_state (off_run e (map Worklet ms)) (s, w) = (u, s', w')"
  shows "\<exists>vs. sent (w_out w') = sent (w_out w) @ vs \<and> subseq vs (concat (map port_chunks ms))"
  using assms
proof (induction ms arbitrary: s w)
  case (Cons m ms)
  obtain s1 w1 where 1: "run_state (on_worklet e m) (s, w) = ((), s1, w1)" by (rule act_runs)
  obtain vs where vs: "sent (w_out w1) = sent (w_out w) @ vs" "subseq vs (port_chunks m)" using worklet_sends [OF 1] by blast
  have "run_state (off_run e (map Worklet ms)) (s1, w1) = (u, s', w')" using Cons.prems 1 by simp
  from Cons.IH [OF this] obtain vs' where "sent (w_out w') = sent (w_out w1) @ vs'" "subseq vs' (concat (map port_chunks ms))" by blast
  with vs show ?case by (intro exI [of _ "vs @ vs'"]) (auto intro: list_emb_append_mono)
qed simp

lemma meter_keeps_streaming:
  assumes "run_state (on_meter e r p) (s, w) = (u, s', w')" and "streaming s" and "\<not> o_back s"
  shows "streaming s' \<and> \<not> o_back s'"
proof -
  have "keeps (\<lambda>s. streaming s \<and> \<not> o_back s) (on_meter e r p)"
    unfolding on_meter_def by (intro keeps_intros keeps_calls keeps_mods) (simp_all add: streaming_def)
  from keeps_run [OF this assms(1)] assms(2,3) show ?thesis by simp
qed

lemma port_run_complete:
  assumes "socket_holds e b" and "b < WS_BUFFER_HIGH_WATERMARK" and "streaming s" and "\<not> o_back s"
    and "run_state (off_run e (map Worklet ms)) (s, w) = (u, s', w')"
  shows "sent (w_out w') = sent (w_out w) @ concat (map port_chunks ms)"
  using assms(3-5)
proof (induction ms arbitrary: s w)
  case (Cons m ms)
  obtain s1 w1 where 1: "run_state (on_worklet e m) (s, w) = ((), s1, w1)" by (rule act_runs)
  have "sent (w_out w1) = sent (w_out w) @ port_chunks m \<and> streaming s1 \<and> \<not> o_back s1"
  proof (cases m)
    case (Port_meter r p)
    with 1 Cons.prems(1) have r: "run_state (on_meter e r p) (s, w) = ((), s1, w1)" by (simp add: on_worklet_def streaming_def)
    show ?thesis using silent_run [OF silent.holds_meter r] meter_keeps_streaming [OF r Cons.prems(1,2)] Port_meter by simp
  next
    case (Port_pcm buf)
    with 1 chunk_run [OF assms(1) Cons.prems(1), of buf w "()" s1 w1] assms(2) Cons.prems(2)
    show ?thesis by (auto simp: chunk_outcome_def hysteresis_def)
  qed
  then show ?case using Cons.IH [of s1 w1] Cons.prems(3) 1 by simp
qed simp

lemma chunks_of_run: "concat (map port_chunks (map (port_of dbl) ms)) = map pcm_val (map pcm_payload (filter is_pcm ms))"
  by (induction ms) (auto split: pcm_msg.splits simp: port_of.simps elim!: is_pcm.elims)

text \<open>Property C20: the chunks the worklet cuts from the samples of the tab reach the socket in their order, each whole and
  at most once, and when the socket keeps up all of them do: what was sent is then the converted
  samples up to less than one chunk.\<close>

theorem samples_forwarded:
  assumes "pcm_run (new_pcm (Some 2048) (Some 8)) inputs = (p, ms)"
    and "run_state (off_run e (map (\<lambda>m. Worklet (port_of dbl m)) ms)) (s, w) = (u, s', w')"
  shows "\<exists>vs. sent (w_out w') = sent (w_out w) @ map pcm_val vs \<and> subseq vs (map pcm_payload (filter is_pcm ms)) \<and>
    (socket_holds e b \<and> b < WS_BUFFER_HIGH_WATERMARK \<and> streaming s \<and> \<not> o_back s \<longrightarrow>
       map pcm16 (concat (map channel_of inputs)) = concat vs @ map pcm16 (buffer p) \<and> length (buffer p) < 2048)"
proof -
  have run: "run_state (off_run e (map Worklet (map (port_of dbl) ms))) (s, w) = (u, s', w')" using assms(2) by (simp add: comp_def)
  have "emits (new_pcm (Some 2048) (Some 8)) (concat (map channel_of inputs)) (p, ms)"
    using pcm_run_emits [OF new_pcm_ok, of "Some 2048" "Some 8" inputs] assms(1) by simp
  then have e: "map pcm16 (concat (map channel_of inputs)) = concat (map pcm_payload ms) @ map pcm16 (buffer p)" "length (buffer p) < 2048"
    using new_pcm_ok [of "Some 2048" "Some 8"] by (auto simp: emits_def pcm_ok_def new_pcm_def opt_default_def)
  have c: "concat (map pcm_payload ms) = concat (map pcm_payload (filter is_pcm ms))"
    by (induction ms) (auto elim!: is_pcm.elims split: pcm_msg.splits)
  show ?thesis
  proof (cases "socket_holds e b \<and> b < WS_BUFFER_HIGH_WATERMARK \<and> streaming s \<and> \<not> o_back s")
    case True
    then have "sent (w_out w') = sent (w_out w) @ map pcm_val (map pcm_payload (filter is_pcm ms))"
      using port_run_complete [OF _ _ _ _ run, of b] unfolding chunks_of_run by blast
    with e c show ?thesis by (intro exI [of _ "map pcm_payload (filter is_pcm ms)"]) simp
  next
    case False
    obtain xs where "sent (w_out w') = sent (w_out w) @ xs" "subseq xs (map pcm_val (map pcm_payload (filter is_pcm ms)))"
      using port_run_sends [OF run] by (auto simp only: chunks_of_run)
    moreover from this(2) obtain vs where "xs = map pcm_val vs" "subseq vs (map pcm_payload (filter is_pcm ms))"
      by (metis nths_map subseq_conv_nths)
    ultimately show ?thesis using False by auto
  qed
qed

theorem samples_forwarded_witness:
  "\<exists>vs. sent (w_out (snd (snd (run_state (off_run (socket_env 0) (map (\<lambda>m. Worklet (port_of (\<lambda>x. 0) m))
        (snd (pcm_run (new_pcm (Some 2048) (Some 8)) [[[replicate 3 (JFin 1)]]])))) (streaming_off False, blank_world))))) = map pcm_val vs \<and>
     [32767, 32767, 32767] = concat vs @ map pcm16 (buffer (fst (pcm_run (new_pcm (Some 2048) (Some 8)) [[[replicate 3 (JFin 1)]]])))"
proof -
  obtain p ms where p: "pcm_run (new_pcm (Some 2048) (Some 8)) [[[replicate 3 (JFin 1)]]] = (p, ms)" by fastforce
  obtain s' w' where r: "run_state (off_run (socket_env 0) (map (\<lambda>m. Worklet (port_of (\<lambda>x. 0) m)) ms)) (streaming_off False, blank_world) =
      ((), s', w')" by (rule act_runs)
  have c: "map pcm16 (concat (map channel_of [[[replicate 3 (JFin 1)]]])) = [32767, 32767, 32767]"
    by (simp add: pcm16_def rat_trunc_def numeral_3_eq_3)
  have "socket_holds (socket_env 0) 0 \<and> (0 :: rat) < WS_BUFFER_HIGH_WATERMARK \<and> streaming (streaming_off False) \<and> \<not> o_back (streaming_off False)"
    using socket_env_holds [of 0] streaming_off by (simp add: WS_BUFFER_HIGH_WATERMARK_def)
  moreover have b: "sent (w_out blank_world) = []" by (simp add: blank_world_def)
  ultimately show ?thesis using samples_forwarded [OF p r, of 0] unfolding p r c b fst_conv snd_conv append_Nil by blast
qed

end
