(* ===== verification/Offscreen_Races.thy ===== *)
theory Offscreen_Races
  imports Offscreen_Audio
begin

section \<open>Stops that overlap\<close>

text \<open>
  \<open>stopAll\<close> waits for the recorder and for the requests that store the recording, and nothing keeps a
  second stop or a new start out meanwhile.  Two runs show what comes of it.
\<close>

definition recording_host :: env where
  "recording_host =
     (example_env (\<lambda>h q. Inr \<lparr>rs_status = 201, rs_text = None\<rparr>) (\<lambda>s. None))\<lparr>e_deliver := \<lambda>h x. case x of
        Browser name v \<Rightarrow> Inr (if name = ''getUserMedia'' then JObj [(js ''audio'', JArr [JStr (js ''tab'')]), (js ''video'', JInt 1)]
          else if name = ''ws.readyState'' then JInt 1 else JUndef)
      | _ \<Rightarrow> Inr JUndef\<rparr>"

definition record_msg :: jsval where
  "record_msg = JObj [(js ''__cmd'', JStr (js ''__OFFSCREEN_START__'')),
     (js ''payload'', JObj [(js ''server'', JStr (js ''wss://s'')), (js ''streamId'', JStr (js ''id'')),
       (js ''recording'', JObj [(js ''enabled'', JBool True), (js ''userId'', JStr (js ''7''))])])]"

text \<open>A capture with a recording: the restart has nothing to stop, the socket opens, a chunk of video comes.\<close>

definition record_events :: "off_event list" where
  "record_events = [Off_message record_msg, Advance 0, Ws_opened, Recorder_data [1, 2]]"

definition insertions :: "world \<Rightarrow> nat" where
  "insertions w = length (filter (\<lambda>q. rq_url q = rest_url ''video_recordings'') (w_reqs w))"

text \<open>
  The socket closes, the document stops and tells the service worker, which answers with a stop of its
  own.  The second stop finds the recorder inactive and stores its chunks at once; when the recorder
  has stopped, the first one stores them again.
\<close>

lemma recording_stored_twice:
  "insertions (snd (snd (run_state (off_run recording_host
     (record_events @ [Off_message stop_msg, Off_message stop_msg, Advance 0])) (off_init, blank_world)))) = 2"
  by code_simp

text \<open>
  A stop is waiting for the recorder when the user starts again.  The restart stores the recording and
  the new capture runs; then the first stop goes on, clears the new recorder, stops the new stream,
  closes the new audio context and takes the socket for closed.
\<close>

definition restart_events :: "off_event list" where
  "restart_events = [Off_message stop_msg, Off_message record_msg, Advance 1, Advance 1, Advance 1, Ws_opened]"

definition late_events :: "off_event list" where
  "late_events = [Advance 0, Advance 0]"

lemma late_stop_ends_new_capture:
  "(let x = snd (run_state (off_run recording_host (record_events @ restart_events)) (off_init, blank_world));
        y = snd (run_state (off_run recording_host late_events) x)
    in (o_ws (fst x), o_ready (fst x), o_media (fst x), o_recorder (fst x)) = (True, True, True, True) \<and>
       (o_ws (fst y), o_ready (fst y), o_media (fst y), o_recorder (fst y)) = (True, False, False, False))"
  by code_simp

end
