(* ===== verification/Auth_Forms.thy ===== *)
theory Auth_Forms
  imports Actions Identity
begin

section \<open>auth/auth.js: accounts, passwords, forms\<close>

text \<open>
  The parts of the sign-in page without effects: the addresses it is configured with, the reading of
  an account (an e-mail address or a telephone number), the password policy, the stored form of a
  password, the profile made from a row of \<open>users\<close>, and the state of the buttons.  The derivation of
  bits from a password (\<open>crypto.subtle\<close>) is a parameter \<open>kdf\<close>: it gives bytes for the encoded
  password, the salt and the number of rounds, or throws.
\<close>

type_synonym kdf = "nat list \<Rightarrow> nat list \<Rightarrow> jnum \<Rightarrow> nat list option"

definition PBKDF2_ITERS :: nat where
  "PBKDF2_ITERS = 120000"

definition HASH_PREFIX :: ustr where
  "HASH_PREFIX = js ''pbkdf2_sha256''"

text \<open>The configuration: \<open>window.VT_AUTH_CONFIG || {}\<close>.\<close>

definition drop_slashes :: "ustr \<Rightarrow> ustr" where
  "drop_slashes s = rev (dropWhile (\<lambda>c. c = 47) (rev s))"

definition SUPA_URL :: "jsval \<Rightarrow> ustr" where
  "SUPA_URL cfg = replace_at_end (RLit_i (js ''/rest/v1'')) [] (drop_slashes (str_or_empty (fld cfg ''SUPABASE_URL'')))"

definition SUPA_KEY :: "jsval \<Rightarrow> ustr" where
  "SUPA_KEY cfg = trim (str_or_empty (fld cfg ''SUPABASE_KEY''))"

subsection \<open>Accounts\<close>

definition normalizedEmail :: "jsval \<Rightarrow> ustr" where
  "normalizedEmail v = toLowerCase (trim (str_or_empty v))"

definition mail_char :: "nat \<Rightarrow> bool" where
  "mail_char c \<longleftrightarrow> \<not> is_ws c \<and> c \<noteq> 64"

text \<open>\<open>/^[^\s@]+@[^\s@]+\.[^\s@]{2,}$/i\<close>.\<close>

definition mail_re :: re where
  "mail_re = RSeq (RPlus mail_char) (RSeq (RChr 64) (RSeq (RPlus mail_char) (RSeq (RChr 46)
     (RSeq (RRep 2 mail_char) (RStar mail_char)))))"

definition emailLooksOk :: "jsval \<Rightarrow> bool" where
  "emailLooksOk v \<longleftrightarrow> re_full mail_re (normalizedEmail v)"

definition normalizedPhone :: "jsval \<Rightarrow> ustr" where
  "normalizedPhone v =
     (let s = filter (\<lambda>c. \<not> is_ws c \<and> c \<notin> {45, 40, 41, 46}) (trim (str_or_empty v)) in
      if s = [] then []
      else if startsWith s [43] then 43 # filter is_digit (drop 1 s)
      else filter is_digit s)"

text \<open>\<open>/^\+?[0-9]{8,15}$/\<close>.\<close>

definition phone_re :: re where
  "phone_re = RSeq (ROpt (RChr 43)) (RRange 8 15 is_digit)"

definition phoneLooksOk :: "jsval \<Rightarrow> bool" where
  "phoneLooksOk v \<longleftrightarrow> re_full phone_re (normalizedPhone v)"

record account =
  a_type :: string
  a_value :: ustr
  a_email :: ustr
  a_phone :: ustr

definition parseAccountInput :: "jsval \<Rightarrow> account option" where
  "parseAccountInput v =
     (let raw = trim (str_or_empty v); email = normalizedEmail (JStr raw); phone = normalizedPhone (JStr raw) in
      if raw = [] then None
      else if emailLooksOk (JStr email) then Some \<lparr>a_type = ''email'', a_value = email, a_email = email, a_phone = []\<rparr>
      else if phoneLooksOk (JStr phone) then Some \<lparr>a_type = ''phone'', a_value = phone, a_email = [], a_phone = phone\<rparr>
      else None)"

definition normalizeDbUserId :: "jsval \<Rightarrow> ustr option" where
  "normalizeDbUserId v = (let s = trim (str_co_empty v) in if re_full (RPlus is_digit) s then Some s else None)"

interpretation authId: id_normalizer "\<lambda>v. case normalizeDbUserId v of None \<Rightarrow> [] | Some s \<Rightarrow> s"
  by unfold_locales (auto simp: normalizeDbUserId_def Let_def)

subsection \<open>Passwords\<close>

record policy =
  pp_ok :: bool
  pp_len :: bool
  pp_lower :: bool
  pp_upper :: bool
  pp_num :: bool
  pp_special :: bool

definition passwordPolicy :: "jsval \<Rightarrow> policy" where
  "passwordPolicy pw =
     (let s = str_or_empty pw; len = 8 \<le> length s; lower = list_ex is_lower_ascii s; upper = list_ex is_upper_ascii s;
          num = list_ex is_digit s;
          special = list_ex (\<lambda>c. \<not> is_upper_ascii c \<and> \<not> is_lower_ascii c \<and> \<not> is_digit c) s
      in \<lparr>pp_ok = len \<and> lower \<and> upper \<and> num \<and> special, pp_len = len, pp_lower = lower, pp_upper = upper,
          pp_num = num, pp_special = special\<rparr>)"

definition base64url :: "nat list \<Rightarrow> ustr" where
  "base64url bs = strip_pad (url_of_b64 (btoa bs))"

text \<open>\<open>atob\<close> throws on a character that is not of the alphabet.\<close>

definition base64urlToBytes :: "jsval \<Rightarrow> nat list option" where
  "base64urlToBytes s = (let b64 = b64_of_url (str_or_empty s) in atob (b64 @ b64_pad (length b64)))"

definition pbkdf2 :: "kdf \<Rightarrow> ustr \<Rightarrow> nat list \<Rightarrow> jnum \<Rightarrow> nat list option" where
  "pbkdf2 kdf password salt iterations = kdf (text_encode password) salt iterations"

definition makePasswordHash :: "kdf \<Rightarrow> nat list \<Rightarrow> ustr \<Rightarrow> ustr option" where
  "makePasswordHash kdf salt password =
     map_option (\<lambda>hashBytes. HASH_PREFIX @ js ''$'' @ nat_str PBKDF2_ITERS @ js ''$'' @ base64url salt @ js ''$'' @ base64url hashBytes)
       (pbkdf2 kdf password salt (JFin (of_nat PBKDF2_ITERS)))"

text \<open>\<open>Number(s) || PBKDF2_ITERS\<close>.\<close>

definition rounds_of :: "ustr \<Rightarrow> jnum" where
  "rounds_of s = (let n = str_to_num s in if truthy (JNum n) then n else JFin (of_nat PBKDF2_ITERS))"

text \<open>\<open>None\<close> when the check throws.\<close>

definition verifyPassword :: "kdf \<Rightarrow> ustr \<Rightarrow> jsval \<Rightarrow> bool option" where
  "verifyPassword kdf password stored =
     (case stored of
        JStr s \<Rightarrow>
          (let parts = split_on 36 s in
           if s = [] \<or> length parts \<noteq> 4 \<or> parts ! 0 \<noteq> HASH_PREFIX then Some False
           else case base64urlToBytes (JStr (parts ! 2)) of
                  None \<Rightarrow> None
                | Some salt \<Rightarrow> map_option (\<lambda>calc. base64url calc = parts ! 3) (pbkdf2 kdf password salt (rounds_of (parts ! 1))))
      | _ \<Rightarrow> Some False)"

subsection \<open>The profile of a row\<close>

definition opt_val :: "ustr option \<Rightarrow> jsval" where
  "opt_val x = (case x of None \<Rightarrow> JNull | Some s \<Rightarrow> JStr s)"

definition profileFromUserRow :: "jsval \<Rightarrow> jsval" where
  "profileFromUserRow u =
     (let email = normalizedEmail (js_or (fld u ''email'') (JStr [])); phone = normalizedPhone (js_or (fld u ''phone'') (JStr []));
          uid = normalizeDbUserId (fld u ''id'');
          identity = str_or email (str_or phone (str_or (case uid of None \<Rightarrow> [] | Some s \<Rightarrow> s) (js ''user'')));
          nameSeed = str_or email (str_or phone (js ''user''));
          name = (if 64 \<in> set nameSeed then hd (split_on 64 nameSeed) else nameSeed)
      in JObj [(js ''id'', JStr (case uid of None \<Rightarrow> identity | Some s \<Rightarrow> str_or s identity)), (js ''email'', JStr email),
               (js ''phone'', JStr phone), (js ''name'', JStr name), (js ''provider'', JStr (js ''local'')), (js ''picture'', JStr []),
               (js ''user_id'', opt_val uid), (js ''db_user_id'', opt_val uid)])"

subsection \<open>The forms\<close>

text \<open>The texts of the input fields.\<close>

record forms =
  f_loginAccount :: ustr
  f_loginPass :: ustr
  f_signupAccount :: ustr
  f_signupPass :: ustr
  f_signupPass2 :: ustr

text \<open>What the page shows: disabled buttons, fields marked invalid, rules marked as met, the mismatch text.\<close>

record view =
  v_loginDisabled :: bool
  v_loginAccountInvalid :: bool
  v_signupDisabled :: bool
  v_signupAccountInvalid :: bool
  v_signupPassInvalid :: bool
  v_mismatch :: bool
  v_rules :: policy

definition renderSignupRules :: "forms \<Rightarrow> bool \<times> bool" where
  "renderSignupRules f =
     (let pw = f_signupPass f; c = f_signupPass2 f; mismatch = (0 < length c \<and> pw \<noteq> c) in
      (pp_ok (passwordPolicy (JStr pw)), mismatch))"

definition refreshButtons :: "forms \<Rightarrow> view" where
  "refreshButtons f =
     (let loginOk = (parseAccountInput (JStr (f_loginAccount f)) \<noteq> None);
          signupOk = (parseAccountInput (JStr (f_signupAccount f)) \<noteq> None);
          (policyOk, mismatch) = renderSignupRules f;
          confirmOk = (0 < length (f_signupPass2 f) \<and> \<not> mismatch)
      in \<lparr>v_loginDisabled = (\<not> (loginOk \<and> 0 < length (f_loginPass f))),
          v_loginAccountInvalid = (0 < length (trim (f_loginAccount f)) \<and> \<not> loginOk),
          v_signupDisabled = (\<not> (signupOk \<and> policyOk \<and> confirmOk)),
          v_signupAccountInvalid = (0 < length (trim (f_signupAccount f)) \<and> \<not> signupOk),
          v_signupPassInvalid = (0 < length (f_signupPass f) \<and> \<not> policyOk),
          v_mismatch = mismatch, v_rules = passwordPolicy (JStr (f_signupPass f))\<rparr>)"

text \<open>The page shows the sign-up form for the fragment \<open>#signup\<close>, the log-in form otherwise.\<close>

definition syncByHash :: "ustr \<Rightarrow> string" where
  "syncByHash h = (if toLowerCase (str_or h (js ''#login'')) = js ''#signup'' then ''signup'' else ''login'')"

subsection \<open>What they promise\<close>

lemma split_on_parts:
  assumes "c \<notin> set a" and "c \<notin> set b" and "c \<notin> set d" and "c \<notin> set f"
  shows "split_on c (a @ c # b @ c # d @ c # f) = [a, b, d, f]"
proof -
  have step: "c \<notin> set w \<Longrightarrow> split_on c (w @ c # s) = w # split_on c s" for w s by (induction w) auto
  have "c \<notin> set w \<Longrightarrow> split_on c w = [w]" for w by (induction w) auto
  with step assms show ?thesis by simp
qed

lemma digits_plain: "list_all is_digit s \<Longrightarrow> 36 \<notin> set s"
  by (auto simp: list_all_iff is_digit_def)

lemma prefix_plain: "36 \<notin> set HASH_PREFIX"
  by code_simp

lemma rounds_written: "rounds_of (nat_str PBKDF2_ITERS) = JFin (of_nat PBKDF2_ITERS)"
proof -
  have "PBKDF2_ITERS \<noteq> 0" by (simp add: PBKDF2_ITERS_def)
  then show ?thesis by (simp add: rounds_of_def del: nat_str.simps)
qed

lemma base64url_read:
  assumes "bytes bs"
  shows "base64urlToBytes (JStr (base64url bs)) = Some bs"
proof -
  have "str_or_empty (JStr (base64url bs)) = base64url bs"
    by (cases "base64url bs = []") (simp_all add: str_or_empty_def)
  then show ?thesis using unpadded_read [OF assms refl]
    by (simp add: base64urlToBytes_def Let_def base64url_def)
qed

lemma base64url_inj:
  assumes "bytes as" and "bytes bs"
  shows "base64url as = base64url bs \<longleftrightarrow> as = bs"
  by (metis base64url_read [OF assms(1)] base64url_read [OF assms(2)] option.inject)

text \<open>The check of any password against a stored text that the page made.\<close>

lemma verify_made:
  assumes "bytes salt" and "bytes bits" and "pbkdf2 kdf password salt (JFin (of_nat PBKDF2_ITERS)) = Some bits"
    and "makePasswordHash kdf salt password = Some stored"
    and "pbkdf2 kdf other salt (JFin (of_nat PBKDF2_ITERS)) = Some bits'" and "bytes bits'"
  shows "verifyPassword kdf other (JStr stored) = Some (bits' = bits)"
proof -
  have stored: "stored = HASH_PREFIX @ 36 # nat_str PBKDF2_ITERS @ 36 # base64url salt @ 36 # base64url bits"
    using assms(3,4) by (auto simp: makePasswordHash_def js_def)
  have "36 \<notin> set (base64url salt)" "36 \<notin> set (base64url bits)"
    using url_of_b64_plain assms(1,2) by (simp_all add: base64url_def)
  then have "split_on 36 stored = [HASH_PREFIX, nat_str PBKDF2_ITERS, base64url salt, base64url bits]"
    unfolding stored by (intro split_on_parts prefix_plain digits_plain [OF nat_str_digits])
  moreover have "stored \<noteq> []" by (simp add: stored)
  ultimately show ?thesis
    using assms(5) by (simp add: verifyPassword_def base64url_read [OF assms(1)] rounds_written base64url_inj [OF assms(6,2)])
qed

text \<open>Property C33: the password a hash was made from verifies against it, and another one does only when the
  derivation gives the same bytes: salt, rounds and bits survive the way through the stored text.\<close>

theorem password_roundtrip:
  assumes "bytes salt" and "pbkdf2 kdf password salt (JFin 120000) = Some bits" and "bytes bits"
    and "pbkdf2 kdf other salt (JFin 120000) = Some bits'" and "bytes bits'"
    and "makePasswordHash kdf salt password = Some stored"
  shows "verifyPassword kdf password (JStr stored) = Some True \<and>
    verifyPassword kdf other (JStr stored) = Some (bits' = bits)"
proof -
  have rounds: "JFin 120000 = JFin (of_nat PBKDF2_ITERS)" by (simp add: PBKDF2_ITERS_def)
  show ?thesis
    using verify_made [OF assms(1,3) _ assms(6)] assms(2-5) unfolding rounds by auto
qed

text \<open>A derivation for examples: the bytes of the password and the salt, in order.\<close>

definition plain_kdf :: kdf where
  "plain_kdf p s n = Some (map (\<lambda>c. c mod 256) (p @ s))"

theorem password_roundtrip_witness:
  "verifyPassword plain_kdf (js ''Abc-1234'') (JStr (the (makePasswordHash plain_kdf [1, 2] (js ''Abc-1234'')))) = Some True \<and>
   verifyPassword plain_kdf (js ''abc'') (JStr (the (makePasswordHash plain_kdf [1, 2] (js ''Abc-1234'')))) = Some False"
proof -
  have "map (\<lambda>c. c mod 256) (text_encode (js ''abc'')) \<noteq> map (\<lambda>c. c mod 256) (text_encode (js ''Abc-1234''))"
    by code_simp
  moreover have "bytes (map (\<lambda>c. c mod 256) cs)" for cs :: "nat list" by (simp add: bytes_def list_all_iff)
  ultimately show ?thesis
    using password_roundtrip [of "[1, 2]" plain_kdf "js ''Abc-1234''" _ "js ''abc''" _
        "the (makePasswordHash plain_kdf [1, 2] (js ''Abc-1234''))"]
    by (simp add: pbkdf2_def plain_kdf_def makePasswordHash_def)
qed

end
