(* ===== verification/Auth_Login.thy ===== *)
theory Auth_Login
  imports Auth_Forms
begin

section \<open>auth/auth.js: signing up and logging in\<close>

text \<open>
  The requests of the sign-in page to the table \<open>users\<close> and to the log \<open>auth_logins\<close>, the stored session,
  and the two buttons.  The message texts are those of the page, as UTF-16 units.  A page has its
  configuration, may or may not have \<open>chrome.storage\<close> and the element of the toasts, derives bits by
  \<open>pg_kdf\<close>, and has the browser's texts of the errors of \<open>res.text()\<close> on a body that was read, of
  \<open>res.json()\<close>, and of \<open>atob\<close> and \<open>crypto.subtle\<close> for a password and a stored text.
\<close>

record page =
  pg_cfg :: jsval
  pg_storage :: bool
  pg_toastEl :: bool
  pg_kdf :: kdf
  pg_userAgent :: jsval
  pg_bodyError :: ustr
  pg_jsonError :: ustr
  pg_kdfError :: "ustr \<Rightarrow> jsval \<Rightarrow> ustr"

subsection \<open>Texts\<close>

definition NO_STORAGE_TOAST :: ustr where
  "NO_STORAGE_TOAST =
     js ''chrome.storage.local ch'' @ [432] @ js ''a s'' @ [7861] @ js ''n s'' @ [224] @ js ''ng. H'' @
     [227] @ js ''y ki'' @ [7875] @ js ''m tra quy'' @ [7873] @ js ''n '' @ [34] @ js ''storage'' @ [34] @
     js '' r'' @ [7891] @ js ''i t'' @ [7843] @ js ''i l'' @ [7841] @ js ''i extension.''"

definition NO_STORAGE_ERROR :: ustr where
  "NO_STORAGE_ERROR =
     js ''Kh'' @ [244] @ js ''ng th'' @ [7875] @ js '' truy c'' @ [7853] @ js ''p chrome.storage.local.''"

definition NO_CONFIG_TOAST :: ustr where
  "NO_CONFIG_TOAST =
     js ''Thi'' @ [7871] @ js ''u SUPABASE_URL ho'' @ [7863] @
     js ''c SUPABASE_KEY trong auth/config.js.''"

definition NO_CONFIG_ERROR :: ustr where
  "NO_CONFIG_ERROR =
     js ''Thi'' @ [7871] @ js ''u c'' @ [7845] @ js ''u h'' @ [236] @ js ''nh Supabase.''"

definition EMAIL_QUERY_ERROR :: ustr where
  "EMAIL_QUERY_ERROR =
     js ''Kh'' @ [244] @ js ''ng th'' @ [7875] @ js '' truy v'' @ [7845] @ js ''n t'' @ [224] @
     js ''i kho'' @ [7843] @ js ''n theo email (HTTP ''"

definition PHONE_QUERY_ERROR :: ustr where
  "PHONE_QUERY_ERROR =
     js ''Kh'' @ [244] @ js ''ng th'' @ [7875] @ js '' truy v'' @ [7845] @ js ''n t'' @ [224] @
     js ''i kho'' @ [7843] @ js ''n theo s'' @ [7889] @ js '' '' @ [273] @ js ''i'' @ [7879] @
     js ''n tho'' @ [7841] @ js ''i (HTTP ''"

definition EXISTS_ERROR :: ustr where
  "EXISTS_ERROR =
     js ''T'' @ [224] @ js ''i kho'' @ [7843] @ js ''n '' @ [273, 227] @ js '' t'' @ [7891] @ js ''n t'' @
     [7841] @ js ''i.''"

definition CREATE_ERROR :: ustr where
  "CREATE_ERROR =
     js ''Kh'' @ [244] @ js ''ng th'' @ [7875] @ js '' t'' @ [7841] @ js ''o t'' @ [224] @ js ''i kho'' @
     [7843] @ js ''n (HTTP ''"

definition BAD_ACCOUNT_TOAST :: ustr where
  "BAD_ACCOUNT_TOAST =
     js ''Email ho'' @ [7863] @ js ''c s'' @ [7889] @ js '' '' @ [273] @ js ''i'' @ [7879] @ js ''n tho'' @
     [7841] @ js ''i kh'' @ [244] @ js ''ng h'' @ [7907] @ js ''p l'' @ [7879] @ js ''.''"

definition BAD_POLICY_TOAST :: ustr where
  "BAD_POLICY_TOAST =
     js ''M'' @ [7853] @ js ''t kh'' @ [7849] @ js ''u ch'' @ [432] @ js ''a '' @ [273, 7841] @
     js ''t y'' @ [234] @ js ''u c'' @ [7847] @ js ''u.''"

definition MISMATCH_TOAST :: ustr where
  "MISMATCH_TOAST =
     js ''M'' @ [7853] @ js ''t kh'' @ [7849] @ js ''u nh'' @ [7853] @ js ''p l'' @ [7841] @ js ''i ch'' @
     [432] @ js ''a kh'' @ [7899] @ js ''p.''"

definition EXISTS_TOAST :: ustr where
  "EXISTS_TOAST =
     js ''T'' @ [224] @ js ''i kho'' @ [7843] @ js ''n '' @ [273, 227] @ js '' t'' @ [7891] @ js ''n t'' @
     [7841] @ js ''i. Vui l'' @ [242] @ js ''ng '' @ [273, 259] @ js ''ng nh'' @ [7853] @ js ''p.''"

definition SIGNED_UP_TOAST :: ustr where
  "SIGNED_UP_TOAST =
     [272, 259] @ js ''ng k'' @ [253] @ js '' th'' @ [224] @ js ''nh c'' @ [244] @ js ''ng. Vui l'' @
     [242] @ js ''ng '' @ [273, 259] @ js ''ng nh'' @ [7853] @ js ''p.''"

definition SIGNUP_FAILED_TOAST :: ustr where
  "SIGNUP_FAILED_TOAST =
     [272, 259] @ js ''ng k'' @ [253] @ js '' th'' @ [7845] @ js ''t b'' @ [7841] @ js ''i: ''"

definition ENTER_ACCOUNT_TOAST :: ustr where
  "ENTER_ACCOUNT_TOAST =
     js ''Vui l'' @ [242] @ js ''ng nh'' @ [7853] @ js ''p email ho'' @ [7863] @ js ''c s'' @ [7889] @
     js '' '' @ [273] @ js ''i'' @ [7879] @ js ''n tho'' @ [7841] @ js ''i h'' @ [7907] @ js ''p l'' @
     [7879] @ js ''.''"

definition ENTER_PASSWORD_TOAST :: ustr where
  "ENTER_PASSWORD_TOAST =
     js ''Vui l'' @ [242] @ js ''ng nh'' @ [7853] @ js ''p m'' @ [7853] @ js ''t kh'' @ [7849] @
     js ''u.''"

definition UNKNOWN_ACCOUNT_TOAST :: ustr where
  "UNKNOWN_ACCOUNT_TOAST =
     js ''Sai t'' @ [224] @ js ''i kho'' @ [7843] @ js ''n ho'' @ [7863] @ js ''c t'' @ [224] @
     js ''i kho'' @ [7843] @ js ''n ch'' @ [432] @ js ''a '' @ [273, 259] @ js ''ng k'' @ [253] @
     js ''.''"

definition LOCKED_TOAST :: ustr where
  "LOCKED_TOAST =
     js ''T'' @ [224] @ js ''i kho'' @ [7843] @ js ''n '' @ [273] @ js ''ang b'' @ [7883] @ js '' kh'' @
     [243] @ js ''a ho'' @ [7863] @ js ''c ch'' @ [432] @ js ''a k'' @ [237] @ js ''ch ho'' @ [7841] @
     js ''t.''"

definition WRONG_PASSWORD_TOAST :: ustr where
  "WRONG_PASSWORD_TOAST =
     js ''Sai m'' @ [7853] @ js ''t kh'' @ [7849] @ js ''u.''"

definition LOGGED_IN_TOAST :: ustr where
  "LOGGED_IN_TOAST =
     [272, 259] @ js ''ng nh'' @ [7853] @ js ''p th'' @ [224] @ js ''nh c'' @ [244] @ js ''ng.''"

definition LOGIN_FAILED_TOAST :: ustr where
  "LOGIN_FAILED_TOAST =
     [272, 259] @ js ''ng nh'' @ [7853] @ js ''p th'' @ [7845] @ js ''t b'' @ [7841] @ js ''i: ''"

subsection \<open>Toasts, storage\<close>

definition toast :: "page \<Rightarrow> env \<Rightarrow> ustr \<Rightarrow> nat \<Rightarrow> unit prog" where
  "toast pg e msg ms = do {
     r \<leftarrow> emit e (if pg_toastEl pg then Browser ''toast'' (JArr [JStr msg, JNum (JFin (of_nat ms))])
                  else Browser ''alert'' (JStr msg));
     ret () }"

definition mustChromeStorage :: "page \<Rightarrow> env \<Rightarrow> bool prog" where
  "mustChromeStorage pg e =
     (if pg_storage pg then ret True else do { u \<leftarrow> toast pg e NO_STORAGE_TOAST 2600; ret False })"

definition storageSet :: "page \<Rightarrow> env \<Rightarrow> string \<Rightarrow> jsval \<Rightarrow> unit throwing" where
  "storageSet pg e k v = do {
     b \<leftarrow> mustChromeStorage pg e;
     if b then do { u \<leftarrow> store_set k v; ok () } else throw (Err NO_STORAGE_ERROR) }"

definition storageGet :: "page \<Rightarrow> env \<Rightarrow> string \<Rightarrow> jsval throwing" where
  "storageGet pg e k = do {
     b \<leftarrow> mustChromeStorage pg e;
     if b then do { v \<leftarrow> store_get k; ok v } else throw (Err NO_STORAGE_ERROR) }"

subsection \<open>The database\<close>

definition supaReady :: "page \<Rightarrow> env \<Rightarrow> bool prog" where
  "supaReady pg e =
     (if SUPA_URL (pg_cfg pg) = [] \<or> SUPA_KEY (pg_cfg pg) = []
      then do { u \<leftarrow> toast pg e NO_CONFIG_TOAST 2600; ret False } else ret True)"

definition supa_req ::
  "page \<Rightarrow> verb \<Rightarrow> string \<Rightarrow> (ustr \<times> ustr) list \<Rightarrow> (ustr \<times> ustr) list \<Rightarrow> jsval option \<Rightarrow> req" where
  "supa_req pg v path query extra body =
     \<lparr>rq_verb = v, rq_url = SUPA_URL (pg_cfg pg) @ js path, rq_query = query,
      rq_headers = obj_merge [(js ''apikey'', SUPA_KEY (pg_cfg pg)), (js ''Authorization'', js ''Bearer '' @ SUPA_KEY (pg_cfg pg)),
        (js ''content-type'', js ''application/json'')] extra, rq_body = body\<rparr>"

text \<open>The body of an error answer is read for the log of the browser: a second \<open>text()\<close> on it fails.\<close>

definition body_used :: "resp \<Rightarrow> resp" where
  "body_used a = a\<lparr>rs_text := None\<rparr>"

definition supaFetch :: "page \<Rightarrow> env \<Rightarrow> req \<Rightarrow> resp throwing" where
  "supaFetch pg e r = do {
     b \<leftarrow> supaReady pg e;
     if \<not> b then throw (Err NO_CONFIG_ERROR)
     else andThen (fetch e r) (\<lambda>a. ok (if rs_ok a then a else body_used a)) }"

definition await_json :: "page \<Rightarrow> env \<Rightarrow> resp \<Rightarrow> jsval throwing" where
  "await_json pg e a = (case resp_json e a of None \<Rightarrow> throw (Err (pg_jsonError pg)) | Some j \<Rightarrow> ok j)"

text \<open>\<open>Array.isArray(arr) && arr.length ? arr[0] : d\<close>.\<close>

definition row_or :: "jsval \<Rightarrow> jsval \<Rightarrow> jsval" where
  "row_or arr d = (case arr of JArr (x # xs) \<Rightarrow> x | _ \<Rightarrow> d)"

definition USER_COLUMNS :: ustr where
  "USER_COLUMNS = js ''id,email,phone,password_hash,auth_provider,status,created_at,last_login_at''"

text \<open>\<open>encodeURIComponent\<close> throws on a lone surrogate; the server undoes it.\<close>

definition supaSelectUserByEmail :: "page \<Rightarrow> env \<Rightarrow> jsval \<Rightarrow> jsval throwing" where
  "supaSelectUserByEmail pg e email =
     (let em = normalizedEmail email in
      case encodeURIComponent em of
        None \<Rightarrow> throw (Err (js ''URI malformed''))
      | Some enc \<Rightarrow>
          andThen (supaFetch pg e (supa_req pg GET ''/rest/v1/users''
              [(js ''email'', js ''eq.'' @ em), (js ''select'', USER_COLUMNS)] [] None)) (\<lambda>res.
          if \<not> rs_ok res then throw (Err (EMAIL_QUERY_ERROR @ int_str (rs_status res) @ js '').''))
          else andThen (await_json pg e res) (\<lambda>arr. ok (row_or arr JNull))))"

definition supaSelectUserByPhone :: "page \<Rightarrow> env \<Rightarrow> jsval \<Rightarrow> jsval throwing" where
  "supaSelectUserByPhone pg e phone =
     (let ph = normalizedPhone phone in
      if ph = [] then ok JNull
      else case encodeURIComponent ph of
        None \<Rightarrow> throw (Err (js ''URI malformed''))
      | Some enc \<Rightarrow>
          andThen (supaFetch pg e (supa_req pg GET ''/rest/v1/users''
              [(js ''phone'', js ''eq.'' @ ph), (js ''select'', USER_COLUMNS), (js ''limit'', js ''1'')] [] None)) (\<lambda>res.
          if \<not> rs_ok res then throw (Err (PHONE_QUERY_ERROR @ int_str (rs_status res) @ js '').''))
          else andThen (await_json pg e res) (\<lambda>arr. ok (row_or arr JNull))))"

definition text_val :: "ustr \<Rightarrow> jsval" where
  "text_val s = (if s = [] then JNull else JStr s)"

definition user_body :: "jsval \<Rightarrow> jsval \<Rightarrow> ustr \<Rightarrow> ustr \<Rightarrow> jsval" where
  "user_body email phone passwordHash created =
     JObj [(js ''email'', text_val (normalizedEmail email)), (js ''phone'', text_val (normalizedPhone phone)),
           (js ''password_hash'', JStr passwordHash), (js ''auth_provider'', JStr (js ''local'')),
           (js ''status'', JStr (js ''active'')), (js ''created_at'', JStr created), (js ''last_login_at'', JNull)]"

definition supaInsertUser :: "page \<Rightarrow> env \<Rightarrow> jsval \<Rightarrow> jsval \<Rightarrow> ustr \<Rightarrow> jsval throwing" where
  "supaInsertUser pg e email phone passwordHash = do {
     t \<leftarrow> now_iso e;
     let body = user_body email phone passwordHash t;
     andThen (supaFetch pg e (supa_req pg POST ''/rest/v1/users'' [] [(js ''Prefer'', js ''return=representation'')] (Some body)))
       (\<lambda>res. if rs_status res = 409 then throw (Err EXISTS_ERROR)
              else if \<not> rs_ok res then
                (case rs_text res of
                   None \<Rightarrow> throw (Err (pg_bodyError pg))
                 | Some t \<Rightarrow> throw (Err (if t \<noteq> [] then t else CREATE_ERROR @ int_str (rs_status res) @ js '').'')))
              else andThen (await_json pg e res) (\<lambda>arr. ok (row_or arr body))) }"

definition supaUpdateLastLogin :: "page \<Rightarrow> env \<Rightarrow> jsval \<Rightarrow> unit throwing" where
  "supaUpdateLastLogin pg e id' =
     (if nullish id' \<or> id' = JStr [] then ok ()
      else case encodeURIComponent (to_str id') of
        None \<Rightarrow> throw (Err (js ''URI malformed''))
      | Some enc \<Rightarrow> do {
          t \<leftarrow> now_iso e;
          andThen (supaFetch pg e (supa_req pg PATCH ''/rest/v1/users'' [(js ''id'', js ''eq.'' @ to_str id')]
              [(js ''Prefer'', js ''return=representation'')] (Some (JObj [(js ''last_login_at'', JStr t)]))))
            (\<lambda>res. ok ()) })"

definition supaInsertAuthLogin :: "page \<Rightarrow> env \<Rightarrow> jsval \<Rightarrow> string \<Rightarrow> bool \<Rightarrow> jsval \<Rightarrow> unit prog" where
  "supaInsertAuthLogin pg e userId provider success reason = do {
     t \<leftarrow> now_iso e;
     r \<leftarrow> supaFetch pg e (supa_req pg POST ''/rest/v1/auth_logins'' [] []
            (Some (JObj [(js ''user_id'', userId), (js ''provider'', JStr (js provider)), (js ''success'', JBool success),
               (js ''failure_reason'', reason), (js ''created_at'', JStr t), (js ''ip'', JNull),
               (js ''user_agent'', js_or (pg_userAgent pg) (JStr []))])));
     ret () }"

subsection \<open>The session\<close>

definition rememberEmailUserId :: "page \<Rightarrow> env \<Rightarrow> jsval \<Rightarrow> jsval \<Rightarrow> unit prog" where
  "rememberEmailUserId pg e email userId =
     (let em = normalizedEmail email in
      case normalizeDbUserId userId of
        None \<Rightarrow> ret ()
      | Some uid \<Rightarrow>
          if em = [] \<or> uid = [] then ret ()
          else do {
            r \<leftarrow> andThen (storageGet pg e ''vtEmailUserIdMapV1'') (\<lambda>raw. do {
              let map0 = (if truthy raw \<and> is_object raw then props raw else []);
              t \<leftarrow> Date_now e;
              storageSet pg e ''vtEmailUserIdMapV1''
                (JObj (obj_set map0 em (JObj [(js ''user_id'', JStr uid), (js ''updated_at'', JNum (JFin t))]))) });
            ret () })"

definition setSession :: "page \<Rightarrow> env \<Rightarrow> string \<Rightarrow> jsval \<Rightarrow> jsval \<Rightarrow> jsval throwing" where
  "setSession pg e provider profile tokens = do {
     t \<leftarrow> Date_now e;
     let session = JObj [(js ''provider'', JStr (js provider)), (js ''profile'', profile),
                         (js ''tokens'', js_or tokens (JObj [])), (js ''updated_at'', JNum (JFin t))];
     andThen (storageSet pg e ''vtAuth'' session) (\<lambda>u. ok session) }"

definition post_parent :: "env \<Rightarrow> jsval \<Rightarrow> unit prog" where
  "post_parent e msg = do { r \<leftarrow> emit e (Browser ''parent.postMessage'' msg); ret () }"

definition notifySuccess :: "env \<Rightarrow> jsval \<Rightarrow> unit prog" where
  "notifySuccess e payload =
     post_parent e (JObj [(js ''type'', JStr (js ''VT_AUTH_SUCCESS'')), (js ''payload'', payload)])"

subsection \<open>The buttons\<close>

definition account_row :: "page \<Rightarrow> env \<Rightarrow> account \<Rightarrow> jsval throwing" where
  "account_row pg e a =
     (if a_type a = ''email'' then supaSelectUserByEmail pg e (JStr (a_email a)) else supaSelectUserByPhone pg e (JStr (a_phone a)))"

text \<open>What the sign-up button does with the row of the account.\<close>

definition create_account :: "page \<Rightarrow> env \<Rightarrow> nat list \<Rightarrow> ustr \<Rightarrow> account \<Rightarrow> jsval \<Rightarrow> account option throwing" where
  "create_account pg e salt pw account existed =
     (if truthy existed then do { u \<leftarrow> toast pg e EXISTS_TOAST 2600; ok None }
      else case makePasswordHash (pg_kdf pg) salt pw of
          None \<Rightarrow> throw (Err (pg_kdfError pg pw JNull))
        | Some passwordHash \<Rightarrow>
            andThen (supaInsertUser pg e
                (if a_type account = ''email'' then JStr (a_email account) else JNull)
                (if a_type account = ''phone'' then JStr (a_phone account) else JNull) passwordHash) (\<lambda>row.
            do { u \<leftarrow> toast pg e SIGNED_UP_TOAST 2600; ok (Some account) }))"

text \<open>
  The body of \<open>try\<close>; a result \<open>Some account\<close> means that the timer of 600 ms was set which fills the
  log-in form (\<open>afterSignup\<close>).  The salt is what \<open>crypto.getRandomValues\<close> writes.
\<close>

definition signup_body :: "page \<Rightarrow> env \<Rightarrow> nat list \<Rightarrow> forms \<Rightarrow> account option throwing" where
  "signup_body pg e salt f = do {
     b \<leftarrow> supaReady pg e;
     if \<not> b then ok None
     else (let pw = f_signupPass f in
       case parseAccountInput (JStr (f_signupAccount f)) of
         None \<Rightarrow> do { u \<leftarrow> toast pg e BAD_ACCOUNT_TOAST 2600; ok None }
       | Some account \<Rightarrow>
           if \<not> pp_ok (passwordPolicy (JStr pw)) then do { u \<leftarrow> toast pg e BAD_POLICY_TOAST 2600; ok None }
           else if pw \<noteq> f_signupPass2 f then do { u \<leftarrow> toast pg e MISMATCH_TOAST 2600; ok None }
           else andThen (account_row pg e account) (create_account pg e salt pw account)) }"

definition doEmailSignup :: "page \<Rightarrow> env \<Rightarrow> nat list \<Rightarrow> forms \<Rightarrow> account option prog" where
  "doEmailSignup pg e salt f = do {
     r \<leftarrow> signup_body pg e salt f;
     (case r of
        Inl x \<Rightarrow> do { u \<leftarrow> toast pg e (SIGNUP_FAILED_TOAST @ e_msg x) 2600; ret None }
      | Inr a \<Rightarrow> ret a) }"

definition afterSignup :: "account \<Rightarrow> forms \<Rightarrow> forms \<times> view" where
  "afterSignup account f =
     (let f' = f\<lparr>f_loginAccount := a_value account, f_loginPass := [], f_signupPass := [], f_signupPass2 := [], f_signupAccount := []\<rparr>
      in (f', refreshButtons f'))"

definition logged_in :: "page \<Rightarrow> env \<Rightarrow> jsval \<Rightarrow> unit throwing" where
  "logged_in pg e u =
     andThen (supaUpdateLastLogin pg e (fld u ''id'')) (\<lambda>x. do {
       y \<leftarrow> supaInsertAuthLogin pg e (fld u ''id'') ''local'' True JNull;
       let profile = profileFromUserRow u;
       z \<leftarrow> (if truthy (fld profile ''email'')
             then rememberEmailUserId pg e (fld profile ''email'') (js_or (fld profile ''user_id'') (fld profile ''db_user_id''))
             else ret ());
       andThen (setSession pg e ''local'' profile (JObj [])) (\<lambda>session. do {
         n \<leftarrow> notifySuccess e (JObj [(js ''provider'', JStr (js ''local'')), (js ''user'', profile), (js ''tokens'', JObj []),
                                    (js ''session'', session)]);
         t \<leftarrow> toast pg e LOGGED_IN_TOAST 2600;
         c \<leftarrow> post_parent e (JObj [(js ''type'', JStr (js ''VT_AUTH_CLOSE''))]);
         ok () }) })"

text \<open>The answer to a row, in the order of the code.\<close>

definition answer_row :: "page \<Rightarrow> env \<Rightarrow> ustr \<Rightarrow> jsval \<Rightarrow> unit throwing" where
  "answer_row pg e pw u =
     (if \<not> truthy u then do {
        x \<leftarrow> toast pg e UNKNOWN_ACCOUNT_TOAST 2600;
        y \<leftarrow> supaInsertAuthLogin pg e JNull ''local'' False (JStr (js ''user_not_found''));
        ok () }
      else if truthy (fld u ''status'') \<and> fld u ''status'' \<noteq> JStr (js ''active'') then do {
        x \<leftarrow> toast pg e LOCKED_TOAST 2600;
        y \<leftarrow> supaInsertAuthLogin pg e (fld u ''id'') ''local'' False (JStr (js ''status_'' @ to_str (fld u ''status'')));
        ok () }
      else case verifyPassword (pg_kdf pg) pw (fld u ''password_hash'') of
          None \<Rightarrow> throw (Err (pg_kdfError pg pw (fld u ''password_hash'')))
        | Some False \<Rightarrow> do {
            x \<leftarrow> toast pg e WRONG_PASSWORD_TOAST 2600;
            y \<leftarrow> supaInsertAuthLogin pg e (fld u ''id'') ''local'' False (JStr (js ''bad_password''));
            ok () }
        | Some True \<Rightarrow> logged_in pg e u)"

definition login_body :: "page \<Rightarrow> env \<Rightarrow> forms \<Rightarrow> unit throwing" where
  "login_body pg e f = do {
     b \<leftarrow> supaReady pg e;
     if \<not> b then ok ()
     else (let pw = f_loginPass f in
       case parseAccountInput (JStr (f_loginAccount f)) of
         None \<Rightarrow> do { u \<leftarrow> toast pg e ENTER_ACCOUNT_TOAST 2600; ok () }
       | Some account \<Rightarrow>
           if pw = [] then do { u \<leftarrow> toast pg e ENTER_PASSWORD_TOAST 2600; ok () }
           else andThen (account_row pg e account) (answer_row pg e pw)) }"

definition doEmailLogin :: "page \<Rightarrow> env \<Rightarrow> forms \<Rightarrow> unit prog" where
  "doEmailLogin pg e f = do {
     r \<leftarrow> login_body pg e f;
     (case r of Inl x \<Rightarrow> toast pg e (LOGIN_FAILED_TOAST @ e_msg x) 2600 | Inr a \<Rightarrow> ret ()) }"

end
