(* ===== verification/Auth_Contract.thy ===== *)
theory Auth_Contract
  imports Auth_Login
begin

section \<open>What the sign-in page promises\<close>

text \<open>
  The log-in button stores a session only for a row the server gave whose status is empty or active and
  whose stored password the typed one verifies against; otherwise it leaves the storage as it is and
  shows toasts only.  The sign-up button sends at most one writing request, after a query that gave no
  row, for a password within the policy; the stored text it sends verifies against that password.
\<close>

fun is_toast :: "out \<Rightarrow> bool" where
  "is_toast (Browser c v) \<longleftrightarrow> c = ''toast'' \<or> c = ''alert''"
| "is_toast _ \<longleftrightarrow> False"

text \<open>The row for which the log-in form as typed is accepted, if there is one.\<close>

definition admitted_row :: "page \<Rightarrow> env \<Rightarrow> forms \<Rightarrow> world \<Rightarrow> jsval option" where
  "admitted_row pg e f w =
     (case parseAccountInput (JStr (f_loginAccount f)) of
        None \<Rightarrow> None
      | Some a \<Rightarrow>
          (case fst (run_state (account_row pg e a) w) of
             Inl x \<Rightarrow> None
           | Inr u \<Rightarrow>
               if truthy u \<and> (truthy (fld u ''status'') \<longrightarrow> fld u ''status'' = JStr (js ''active'')) \<and>
                  verifyPassword (pg_kdf pg) (f_loginPass f) (fld u ''password_hash'') = Some True
               then Some u else None))"

definition session_of :: "jsval \<Rightarrow> rat \<Rightarrow> jsval" where
  "session_of profile t =
     JObj [(js ''provider'', JStr (js ''local'')), (js ''profile'', profile), (js ''tokens'', JObj []),
           (js ''updated_at'', JNum (JFin t))]"

subsection \<open>Steps that only read, send and show\<close>

lemma store_prims [holds_intros]:
  "holds (\<lambda>w. w_store w = st) (emit e x)" "holds (\<lambda>w. w_store w = st) (fetch e r)"
  "holds (\<lambda>w. w_store w = st) (Date_now e)" "holds (\<lambda>w. w_store w = st) (now_iso e)"
  "holds (\<lambda>w. w_store w = st) (store_get k)"
  by (simp_all add: holds_def run_emit run_fetch)

lemma toast_steps [holds_intros, adds_intros]:
  "holds (\<lambda>w. w_store w = st) (toast pg e m n)" "adds w_out is_toast (toast pg e m n)"
  unfolding toast_def by (intro holds_intros adds_intros adds_emit; simp)+

lemma ready_steps [holds_intros, adds_intros]:
  "holds (\<lambda>w. w_store w = st) (supaReady pg e)" "adds w_out is_toast (supaReady pg e)"
  unfolding supaReady_def by (intro holds_intros adds_intros)+

lemma request_steps [holds_intros, adds_intros]:
  "holds (\<lambda>w. w_store w = st) (supaFetch pg e r)" "adds w_out is_toast (supaFetch pg e r)"
  unfolding supaFetch_def by (intro holds_intros adds_intros)+

lemma json_steps [holds_intros, adds_intros]:
  "holds (\<lambda>w. w_store w = st) (await_json pg e r)" "adds w_out is_toast (await_json pg e r)"
  unfolding await_json_def by (intro holds_intros adds_intros)+

lemma row_steps [holds_intros, adds_intros]:
  "holds (\<lambda>w. w_store w = st) (account_row pg e a)" "adds w_out is_toast (account_row pg e a)"
  unfolding account_row_def supaSelectUserByEmail_def supaSelectUserByPhone_def Let_def
  by (intro holds_intros adds_intros)+

lemma log_steps [holds_intros, adds_intros]:
  "holds (\<lambda>w. w_store w = st) (supaInsertAuthLogin pg e i p b v)" "adds w_out is_toast (supaInsertAuthLogin pg e i p b v)"
  unfolding supaInsertAuthLogin_def by (intro holds_intros adds_intros)+

subsection \<open>Logging in\<close>

text \<open>The stored session is the old one or one of the profile.\<close>

definition session_ok :: "jsval \<Rightarrow> jsval \<Rightarrow> world \<Rightarrow> bool" where
  "session_ok v profile w \<longleftrightarrow>
     obj_get (w_store w) (js ''vtAuth'') = v \<or> (\<exists>t. obj_get (w_store w) (js ''vtAuth'') = session_of profile t)"

lemma ok_prims [holds_intros]:
  "holds (session_ok v p) (emit e x)" "holds (session_ok v p) (fetch e r)"
  "holds (session_ok v p) (Date_now e)" "holds (session_ok v p) (now_iso e)" "holds (session_ok v p) (store_get k)"
  by (simp_all add: holds_def run_emit run_fetch session_ok_def)

lemma ok_other_key:
  assumes "js k \<noteq> js ''vtAuth''"
  shows "holds (session_ok v p) (store_set k x)"
  using assms by (simp add: holds_def session_ok_def)

lemma ok_stored_session: "holds (session_ok v p) (store_set ''vtAuth'' (session_of p t))"
  by (auto simp: holds_def session_ok_def)

lemma ok_requests [holds_intros]:
  "holds (session_ok v p) (toast pg e m n)" "holds (session_ok v p) (supaReady pg e)"
  "holds (session_ok v p) (supaFetch pg e r)" "holds (session_ok v p) (mustChromeStorage pg e)"
  unfolding toast_def supaReady_def supaFetch_def mustChromeStorage_def by (intro holds_intros)+

lemma ok_logged_in: "holds (session_ok v (profileFromUserRow u)) (logged_in pg e u)"
proof -
  have remember: "holds (session_ok v p) (rememberEmailUserId pg e m i)" for p m i
    unfolding rememberEmailUserId_def storageGet_def storageSet_def Let_def
    by (intro holds_intros ok_other_key) (simp add: js_def)
  have session: "js_or (JObj []) (JObj []) = JObj []" by (simp add: js_or_def)
  show ?thesis
    unfolding logged_in_def supaUpdateLastLogin_def supaInsertAuthLogin_def setSession_def storageSet_def Let_def
      notifySuccess_def post_parent_def session session_of_def [symmetric]
    by (intro holds_intros remember ok_stored_session)
qed

text \<open>What the button does without a row it accepts: the storage stays, only toasts are shown.\<close>

definition quiet :: "world \<Rightarrow> world \<Rightarrow> bool" where
  "quiet w w' \<longleftrightarrow> w_store w' = w_store w \<and> (\<exists>new. w_out w' = w_out w @ new \<and> list_all is_toast new)"

lemma quiet_run:
  assumes "holds (\<lambda>w. w_store w = w_store w0) m" and "adds w_out is_toast m" and "run_state m w0 = (r, w')"
  shows "quiet w0 w'"
proof -
  have "w_store w' = w_store w0" using assms(1,3) by (rule holds_run) simp
  moreover obtain new where "w_out w' = w_out w0 @ new" "list_all is_toast new" using assms(2,3) by (rule adds_run)
  ultimately show ?thesis by (auto simp: quiet_def)
qed

lemma quiet_trans: "quiet w w1 \<Longrightarrow> quiet w1 w2 \<Longrightarrow> quiet w w2"
  by (auto simp: quiet_def)

lemma supaReady_run: "run_state (supaReady pg e) w = (True, w1) \<Longrightarrow> w1 = w"
  by (auto simp: supaReady_def split: if_splits prod.splits)

lemma answer_quiet:
  assumes "\<not> truthy u \<or> (truthy (fld u ''status'') \<and> fld u ''status'' \<noteq> JStr (js ''active'')) \<or>
      verifyPassword (pg_kdf pg) pw (fld u ''password_hash'') \<noteq> Some True"
  shows "holds (\<lambda>w. w_store w = st) (answer_row pg e pw u)" and "adds w_out is_toast (answer_row pg e pw u)"
  using assms unfolding answer_row_def
  by (cases "verifyPassword (pg_kdf pg) pw (fld u ''password_hash'')"; auto intro!: holds_intros adds_intros split: bool.splits)+

lemma login_eq:
  "login_body pg e f = do {
     b \<leftarrow> supaReady pg e;
     if \<not> b then ok ()
     else (case parseAccountInput (JStr (f_loginAccount f)) of
         None \<Rightarrow> do { u \<leftarrow> toast pg e ENTER_ACCOUNT_TOAST 2600; ok () }
       | Some account \<Rightarrow>
           if f_loginPass f = [] then do { u \<leftarrow> toast pg e ENTER_PASSWORD_TOAST 2600; ok () }
           else andThen (account_row pg e account) (answer_row pg e (f_loginPass f))) }"
  unfolding login_body_def Let_def ..

lemma login_answers:
  assumes "run_state (login_body pg e f) w = (r, w')"
  shows "quiet w w' \<or> (\<exists>a u w1. parseAccountInput (JStr (f_loginAccount f)) = Some a \<and>
    run_state (account_row pg e a) w = (Inr u, w1) \<and> quiet w w1 \<and> run_state (answer_row pg e (f_loginPass f) u) w1 = (r, w'))"
proof -
  obtain b w1 where 1: "run_state (supaReady pg e) w = (b, w1)" by fastforce
  have q1: "quiet w w1" by (rule quiet_run [OF _ _ 1]) (intro holds_intros adds_intros)+
  show ?thesis
  proof (cases "b \<and> f_loginPass f \<noteq> []")
    case True
    with 1 have [simp]: "w1 = w" by (simp add: supaReady_run)
    show ?thesis
    proof (cases "parseAccountInput (JStr (f_loginAccount f))")
      case None
      with assms 1 True have "run_state (do { u \<leftarrow> toast pg e ENTER_ACCOUNT_TOAST 2600; ok () }) w = (r, w')"
        by (simp add: login_eq)
      then have "quiet w w'" by (rule quiet_run [rotated 2]) (intro holds_intros adds_intros)+
      then show ?thesis by simp
    next
      case (Some a)
      obtain x w2 where 2: "run_state (account_row pg e a) w = (x, w2)" by fastforce
      have "quiet w w2" by (rule quiet_run [OF _ _ 2]) (intro holds_intros adds_intros)+
      with assms 1 2 True Some show ?thesis by (cases x) (auto simp: login_eq run_andThen)
    qed
  next
    case False
    have "\<not> b \<or> f_loginPass f = []" using False by simp
    with assms 1 have "(r, w') = (Inr (), w1) \<or> run_state (do { u \<leftarrow> toast pg e ENTER_ACCOUNT_TOAST 2600; ok () }) w1 = (r, w') \<or>
        run_state (do { u \<leftarrow> toast pg e ENTER_PASSWORD_TOAST 2600; ok () }) w1 = (r, w')"
      by (auto simp: login_eq split: option.splits if_splits)
    moreover have "quiet w1 w'" if "run_state (do { u \<leftarrow> toast pg e m 2600; ok () }) w1 = (r, w')" for m
      using that by (rule quiet_run [rotated 2]) (intro holds_intros adds_intros)+
    ultimately show ?thesis using q1 by (blast intro: quiet_trans)
  qed
qed

lemma login_rejected:
  assumes "admitted_row pg e f w = None" and "run_state (login_body pg e f) w = (r, w')"
  shows "quiet w w'"
proof -
  have "quiet w w'" if "parseAccountInput (JStr (f_loginAccount f)) = Some a" and "run_state (account_row pg e a) w = (Inr u, w1)"
    and "quiet w w1" and run: "run_state (answer_row pg e (f_loginPass f) u) w1 = (r, w')" for a u w1
  proof -
    have "\<not> truthy u \<or> (truthy (fld u ''status'') \<and> fld u ''status'' \<noteq> JStr (js ''active'')) \<or>
        verifyPassword (pg_kdf pg) (f_loginPass f) (fld u ''password_hash'') \<noteq> Some True"
      using assms(1) that by (auto simp: admitted_row_def split: if_splits)
    then have "quiet w1 w'" by (intro quiet_run [OF _ _ run] answer_quiet)
    with that(3) show ?thesis by (rule quiet_trans)
  qed
  with login_answers [OF assms(2)] show ?thesis by blast
qed

lemma login_accepted:
  assumes "admitted_row pg e f w = Some u" and "run_state (login_body pg e f) w = (r, w')"
  shows "session_ok (obj_get (w_store w) (js ''vtAuth'')) (profileFromUserRow u) w'"
proof -
  have kept: "session_ok (obj_get (w_store w) (js ''vtAuth'')) p w1" if "quiet w w1" for p w1
    using that by (simp add: session_ok_def quiet_def)
  have "holds (session_ok v (profileFromUserRow u)) (answer_row pg e (f_loginPass f) u)" for v
    using assms(1) ok_logged_in [of v u pg e] by (auto simp: admitted_row_def answer_row_def split: option.splits sum.splits if_splits)
  note good = holds_run [OF this]
  show ?thesis using login_answers [OF assms(2)]
  proof (elim disjE exE conjE)
    fix a u' w1
    assume "parseAccountInput (JStr (f_loginAccount f)) = Some a" and "run_state (account_row pg e a) w = (Inr u', w1)"
      and q: "quiet w w1" and run: "run_state (answer_row pg e (f_loginPass f) u') w1 = (r, w')"
    then have "u' = u" using assms(1) by (simp add: admitted_row_def split: if_splits)
    with run good kept [OF q] show ?thesis by metis
  qed (rule kept)
qed

text \<open>Property C5: the log-in button stores a session only for a row the server gave for the typed account
  whose status is empty or \<open>active\<close> and whose stored password verifies the typed one, and then that of
  the row's profile; for any other form, row or server it leaves the storage and shows toasts only.\<close>

theorem login_gate:
  "case run_state (doEmailLogin pg e f) w of (_, w') \<Rightarrow>
     (case admitted_row pg e f w of
        None \<Rightarrow> w_store w' = w_store w \<and> (\<exists>new. w_out w' = w_out w @ new \<and> list_all is_toast new)
      | Some u \<Rightarrow> obj_get (w_store w') (js ''vtAuth'') = obj_get (w_store w) (js ''vtAuth'') \<or>
          (\<exists>t. obj_get (w_store w') (js ''vtAuth'') = session_of (profileFromUserRow u) t))"
proof -
  obtain r w1 where 1: "run_state (login_body pg e f) w = (r, w1)" by fastforce
  let ?last = "case r of Inl x \<Rightarrow> toast pg e (LOGIN_FAILED_TOAST @ e_msg x) 2600 | Inr a \<Rightarrow> ret ()"
  obtain x w' where 2: "run_state ?last w1 = (x, w')" by (metis prod.exhaust)
  have last: "quiet w1 w'" by (rule quiet_run [OF _ _ 2]) (intro holds_intros adds_intros)+
  have "run_state (doEmailLogin pg e f) w = (x, w')" using 1 2 by (simp add: doEmailLogin_def)
  moreover have "quiet w w'" if "admitted_row pg e f w = None"
    using login_rejected [OF that 1] last by (rule quiet_trans)
  moreover have "session_ok (obj_get (w_store w) (js ''vtAuth'')) (profileFromUserRow u) w'" if "admitted_row pg e f w = Some u" for u
    using login_accepted [OF that 1] last by (simp add: session_ok_def quiet_def)
  ultimately show ?thesis by (auto simp: quiet_def session_ok_def split: option.split)
qed

subsection \<open>Signing up\<close>

definition reads :: "req \<Rightarrow> bool" where
  "reads r \<longleftrightarrow> rq_verb r = GET"

lemma no_requests [adds_intros]: "adds w_reqs Q (toast pg e m n)" "adds w_reqs Q (supaReady pg e)" "adds w_reqs Q (await_json pg e r)"
  unfolding toast_def supaReady_def await_json_def by (intro adds_intros)+

lemma row_reads: "adds w_reqs reads (account_row pg e a)"
  unfolding account_row_def supaSelectUserByEmail_def supaSelectUserByPhone_def Let_def supaFetch_def
  by (intro adds_intros adds_fetch) (simp_all add: reads_def supa_req_def)

text \<open>The request that creates an account.\<close>

definition creation :: "page \<Rightarrow> account \<Rightarrow> ustr \<Rightarrow> ustr \<Rightarrow> req" where
  "creation pg a hash created =
     supa_req pg POST ''/rest/v1/users'' [] [(js ''Prefer'', js ''return=representation'')]
       (Some (user_body (if a_type a = ''email'' then JStr (a_email a) else JNull)
          (if a_type a = ''phone'' then JStr (a_phone a) else JNull) hash created))"

lemma silent_requests:
  assumes "adds w_reqs (\<lambda>r. False) m" and "run_state m w = (r, w')"
  shows "w_reqs w' = w_reqs w"
proof -
  obtain new where "w_reqs w' = w_reqs w @ new" and "list_all (\<lambda>r :: req. False) new" using assms by (rule adds_run)
  then show ?thesis by (cases new) simp_all
qed

lemma insert_sends:
  assumes "run_state (supaInsertUser pg e email phone hash) w = (r, w')"
  shows "w_reqs w' = w_reqs w \<or> (\<exists>t. w_reqs w' = w_reqs w @ [supa_req pg POST ''/rest/v1/users'' []
    [(js ''Prefer'', js ''return=representation'')] (Some (user_body email phone hash t))])"
proof -
  let ?w = "w\<lparr>w_ticks := Suc (w_ticks w)\<rparr>"
  obtain b w1 where 1: "run_state (supaReady pg e) ?w = (b, w1)" by fastforce
  have "w_reqs w1 = w_reqs w" using silent_requests [OF no_requests(2) 1] by simp
  with assms 1 show ?thesis
    by (cases b) (auto simp: supaInsertUser_def supaFetch_def Let_def run_andThen run_fetch await_json_def
        split: prod.splits sum.splits option.splits if_splits)
qed

lemma create_sends:
  assumes "run_state (create_account pg e salt pw a existed) w = (r, w')"
  shows "w_reqs w' = w_reqs w \<or> (\<exists>hash t. \<not> truthy existed \<and> makePasswordHash (pg_kdf pg) salt pw = Some hash \<and>
    w_reqs w' = w_reqs w @ [creation pg a hash t])"
proof (cases "truthy existed")
  case True
  with assms have "run_state (do { u \<leftarrow> toast pg e EXISTS_TOAST 2600; ok None }) w = (r, w')" by (simp add: create_account_def)
  then have "w_reqs w' = w_reqs w" by (rule silent_requests [rotated]) (intro adds_intros)+
  then show ?thesis by simp
next
  case False
  show ?thesis
  proof (cases "makePasswordHash (pg_kdf pg) salt pw")
    case None
    with assms False show ?thesis by (simp add: create_account_def)
  next
    case (Some hash)
    let ?m = "supaInsertUser pg e (if a_type a = ''email'' then JStr (a_email a) else JNull)
      (if a_type a = ''phone'' then JStr (a_phone a) else JNull) hash"
    obtain x w1 where 1: "run_state ?m w = (x, w1)" by (metis prod.exhaust)
    have "w_reqs w' = w_reqs w1"
    proof (cases x)
      case (Inl y)
      with assms 1 Some False show ?thesis by (simp add: create_account_def run_andThen)
    next
      case (Inr y)
      with assms 1 Some False have "run_state (do { u \<leftarrow> toast pg e SIGNED_UP_TOAST 2600; ok (Some a) }) w1 = (r, w')"
        by (simp add: create_account_def run_andThen)
      then show ?thesis by (rule silent_requests [rotated]) (intro adds_intros)+
    qed
    with insert_sends [OF 1] Some False show ?thesis unfolding creation_def by metis
  qed
qed

text \<open>The sign-up form as typed may create an account, when the server gives no row for it.\<close>

definition signup_free :: "page \<Rightarrow> env \<Rightarrow> forms \<Rightarrow> world \<Rightarrow> account \<Rightarrow> bool" where
  "signup_free pg e f w a \<longleftrightarrow>
     parseAccountInput (JStr (f_signupAccount f)) = Some a \<and> pp_ok (passwordPolicy (JStr (f_signupPass f))) \<and>
     f_signupPass2 f = f_signupPass f \<and>
     (case fst (run_state (account_row pg e a) w) of Inl x \<Rightarrow> False | Inr u \<Rightarrow> \<not> truthy u)"

lemma signup_sends:
  assumes "run_state (signup_body pg e salt f) w = (r, w')"
  obtains gets where "list_all reads gets"
    and "w_reqs w' = w_reqs w @ gets \<or> (\<exists>a hash t. signup_free pg e f w a \<and>
      makePasswordHash (pg_kdf pg) salt (f_signupPass f) = Some hash \<and> w_reqs w' = w_reqs w @ gets @ [creation pg a hash t])"
proof -
  obtain b w1 where 1: "run_state (supaReady pg e) w = (b, w1)" by fastforce
  have r1: "w_reqs w1 = w_reqs w" using silent_requests [OF no_requests(2) 1] by simp
  show thesis
  proof (cases "\<exists>a. b \<and> parseAccountInput (JStr (f_signupAccount f)) = Some a \<and>
      pp_ok (passwordPolicy (JStr (f_signupPass f))) \<and> f_signupPass f = f_signupPass2 f")
    case True
    with 1 obtain a where a: "b" "parseAccountInput (JStr (f_signupAccount f)) = Some a"
      "pp_ok (passwordPolicy (JStr (f_signupPass f)))" "f_signupPass f = f_signupPass2 f" and [simp]: "w1 = w"
      by (auto simp: supaReady_run)
    obtain x w2 where 2: "run_state (account_row pg e a) w = (x, w2)" by fastforce
    obtain gets where gets: "w_reqs w2 = w_reqs w @ gets" "list_all reads gets" using row_reads 2 by (rule adds_run)
    show thesis
    proof (cases x)
      case (Inl y)
      with assms 1 2 a gets that [of gets] show thesis by (simp add: signup_body_def run_andThen)
    next
      case (Inr u)
      with assms 1 2 a have "run_state (create_account pg e salt (f_signupPass f) a u) w2 = (r, w')"
        by (simp add: signup_body_def run_andThen)
      from create_sends [OF this] gets that [of gets] a 2 Inr show thesis by (auto simp: signup_free_def)
    qed
  next
    case False
    with assms 1 have "(r, w') = (Inr None, w1) \<or> (\<exists>m. run_state (do { u \<leftarrow> toast pg e m 2600; ok None }) w1 = (r, w'))"
      by (auto simp: signup_body_def Let_def split: option.splits if_splits)
    moreover have "w_reqs w' = w_reqs w1" if "run_state (do { u \<leftarrow> toast pg e m 2600; ok None }) w1 = (r, w')" for m
      using that by (rule silent_requests [rotated]) (intro adds_intros)+
    ultimately show thesis using r1 that [of "[]"] by auto
  qed
qed

text \<open>Property C23: the sign-up button reads first and then sends at most one writing request, only for a
  password within the policy typed twice and an account for which the server gave no row; the stored
  text in that request verifies against the typed password.\<close>

theorem signup_creates_once:
  assumes "bytes salt" and "list_all bytes (case pbkdf2 (pg_kdf pg) (f_signupPass f) salt (JFin 120000) of None \<Rightarrow> [] | Some b \<Rightarrow> [b])"
  shows "case run_state (doEmailSignup pg e salt f) w of (_, w') \<Rightarrow>
    (\<exists>gets posts. w_reqs w' = w_reqs w @ gets @ posts \<and> list_all (\<lambda>r. rq_verb r = GET) gets \<and>
      (posts = [] \<or> (\<exists>a hash t. signup_free pg e f w a \<and> posts = [creation pg a hash t] \<and>
         verifyPassword (pg_kdf pg) (f_signupPass f) (JStr hash) = Some True)))"
proof -
  obtain r w1 where 1: "run_state (signup_body pg e salt f) w = (r, w1)" by fastforce
  let ?last = "case r of Inl x \<Rightarrow> do { u \<leftarrow> toast pg e (SIGNUP_FAILED_TOAST @ e_msg x) 2600; ret None } | Inr a \<Rightarrow> ret a"
  obtain x w' where 2: "run_state ?last w1 = (x, w')" by (metis prod.exhaust)
  have last: "w_reqs w' = w_reqs w1" by (rule silent_requests [OF _ 2]) (intro adds_intros)+
  have run: "run_state (doEmailSignup pg e salt f) w = (x, w')" using 1 2 by (simp add: doEmailSignup_def)
  have verifies: "verifyPassword (pg_kdf pg) (f_signupPass f) (JStr hash) = Some True"
    if "makePasswordHash (pg_kdf pg) salt (f_signupPass f) = Some hash" for hash
  proof -
    have rounds: "JFin (of_nat PBKDF2_ITERS) = JFin 120000" by (simp add: PBKDF2_ITERS_def)
    from that obtain b where b: "pbkdf2 (pg_kdf pg) (f_signupPass f) salt (JFin 120000) = Some b"
      by (auto simp: makePasswordHash_def rounds)
    with assms(2) have "bytes b" by simp
    with verify_made [OF assms(1) _ _ that _ this] b show ?thesis by (simp add: rounds)
  qed
  obtain gets where "list_all reads gets"
    and "w_reqs w1 = w_reqs w @ gets \<or> (\<exists>a hash t. signup_free pg e f w a \<and>
      makePasswordHash (pg_kdf pg) salt (f_signupPass f) = Some hash \<and> w_reqs w1 = w_reqs w @ gets @ [creation pg a hash t])"
    using 1 by (rule signup_sends)
  then show ?thesis unfolding run prod.case last reads_def [abs_def]
    by (elim disjE exE conjE) (rule exI [of _ gets]; force intro: verifies)+
qed

text \<open>A page, and a server with an empty table that accepts every row.\<close>

definition example_page :: page where
  "example_page =
     \<lparr>pg_cfg = JObj [(js ''SUPABASE_URL'', JStr (js ''https://db.example/rest/v1/'')), (js ''SUPABASE_KEY'', JStr (js ''k''))],
      pg_storage = True, pg_toastEl = True, pg_kdf = plain_kdf, pg_userAgent = JUndef, pg_bodyError = js ''body used'',
      pg_jsonError = js ''bad json'', pg_kdfError = (\<lambda>p s. js ''bad hash'')\<rparr>"

definition empty_server :: env where
  "empty_server = example_env (\<lambda>h r. Inr \<lparr>rs_status = (if rq_verb r = GET then 200 else 201), rs_text = Some (js ''[]'')\<rparr>) (\<lambda>t. Some (JArr []))"

definition example_forms :: forms where
  "example_forms = \<lparr>f_loginAccount = [], f_loginPass = [], f_signupAccount = js '' Ann@example.org'',
     f_signupPass = js ''Abc-1234'', f_signupPass2 = js ''Abc-1234''\<rparr>"

theorem signup_creates_once_witness:
  "(case run_state (doEmailSignup example_page empty_server [1, 2] example_forms) blank_world of (_, w') \<Rightarrow>
     (\<exists>gets posts. w_reqs w' = w_reqs blank_world @ gets @ posts \<and> list_all (\<lambda>r. rq_verb r = GET) gets \<and>
       (posts = [] \<or> (\<exists>a hash t. signup_free example_page empty_server example_forms blank_world a \<and>
          posts = [creation example_page a hash t] \<and>
          verifyPassword (pg_kdf example_page) (f_signupPass example_forms) (JStr hash) = Some True)))) \<and>
   map rq_verb (w_reqs (snd (run_state (doEmailSignup example_page empty_server [1, 2] example_forms) blank_world))) = [GET, POST]"
proof -
  have b: "bytes [1, 2]" by simp
  have "bytes (map (\<lambda>c. c mod 256) cs)" for cs :: "nat list" by (simp add: bytes_def list_all_iff)
  then have k: "list_all bytes (case pbkdf2 (pg_kdf example_page) (f_signupPass example_forms) [1, 2] (JFin 120000) of None \<Rightarrow> [] | Some b \<Rightarrow> [b])"
    unfolding example_page_def page.simps pbkdf2_def plain_kdf_def by simp
  have "map rq_verb (w_reqs (snd (run_state (doEmailSignup example_page empty_server [1, 2] example_forms) blank_world))) = [GET, POST]"
    by code_simp
  then show ?thesis by (intro conjI signup_creates_once [OF b k])
qed

text \<open>The server's reason for refusing a row never reaches the user: \<open>supaFetch\<close> has read the body.\<close>

lemma body_used_ok [simp]: "rs_ok (body_used a) = rs_ok a" "rs_status (body_used a) = rs_status a" "rs_text (body_used a) = None"
  by (simp_all add: rs_ok_def body_used_def)

lemma refusal_text_lost:
  assumes "\<not> rs_ok a" and "rs_status a \<noteq> 409" and "\<And>h r. e_fetch e h r = Inr a"
    and "SUPA_URL (pg_cfg pg) \<noteq> []" and "SUPA_KEY (pg_cfg pg) \<noteq> []"
  shows "fst (run_state (supaInsertUser pg e email phone hash) w) = Inl (Err (pg_bodyError pg))"
  using assms by (simp add: supaInsertUser_def supaFetch_def supaReady_def Let_def run_andThen run_fetch)

text \<open>Letters of a telephone number are dropped, so this text is taken for one.\<close>

lemma name_taken_for_number:
  "parseAccountInput (JStr (js ''john12345678'')) = Some \<lparr>a_type = ''phone'', a_value = js ''12345678'', a_email = [], a_phone = js ''12345678''\<rparr>"
  by code_simp

end
