(* ===== verification/Host_Session.thy ===== *)
theory Host_Session
  imports Actions Auth_Login Sw_Auth
begin

section \<open>auth/auth_host.js: the session of the side panel\<close>

text \<open>
  The side panel shows the sign-in page in a frame, keeps the session of the user in a variable and in
  \<open>chrome.storage.local\<close>, completes it from the database, and locks itself for guests.  The functions
  wait at requests and at the storage; there any other handler of the page may run.  \<open>hc_other\<close> is what
  the other handlers do at such a point, to the variables and to the world: an action below is the
  function with the interference of the others.
\<close>

subsection \<open>Variables\<close>

text \<open>
  \<open>h_auth\<close>, \<open>h_acc\<close>, \<open>h_prof\<close>: the three overlays are visible.  \<open>h_pic\<close>, \<open>h_prevPic\<close> are the pictures of
  the account card and the profile form, empty when the letter is shown instead.  \<open>h_userId\<close> is
  \<open>profOverlay.dataset.userId\<close>.  \<open>h_f\<dots>\<close> are the values of the inputs of the profile form.
\<close>

record host =
  h_session :: jsval
  h_rlsWarned :: bool
  h_lastLanding :: rat
  h_locked :: bool
  h_authed :: bool
  h_label :: ustr
  h_auth :: bool
  h_acc :: bool
  h_prof :: bool
  h_frame :: ustr
  h_name :: ustr
  h_email :: ustr
  h_pic :: ustr
  h_letter :: ustr
  h_prevPic :: ustr
  h_prevLetter :: ustr
  h_userId :: "ustr option"
  h_saving :: bool
  h_saveDisabled :: bool
  h_fEmail :: ustr
  h_fPhone :: ustr
  h_fName :: ustr
  h_fAvatar :: ustr

record hostcfg =
  hc_cfg :: jsval
  hc_storage :: bool
  hc_authPage :: ustr
  hc_origin :: ustr
  hc_language :: jsval
  hc_other :: "host \<times> world \<Rightarrow> host \<times> world"

type_synonym 'a hact = "(host, 'a) action"

definition others :: "hostcfg \<Rightarrow> unit hact" where
  "others hc = State (\<lambda>x. ((), hc_other hc x))"

definition say_to :: "env \<Rightarrow> string \<Rightarrow> ustr \<Rightarrow> unit hact" where
  "say_to e c m = do { r \<leftarrow> onw (emit e (Browser c (JStr m))); skip }"

definition toastProfile :: "env \<Rightarrow> ustr \<Rightarrow> unit hact" where
  "toastProfile e m = say_to e ''toastProfile'' m"

definition toastAccount :: "env \<Rightarrow> ustr \<Rightarrow> unit hact" where
  "toastAccount e m = say_to e ''toastAccount'' m"

subsection \<open>Storage\<close>

definition host_get :: "hostcfg \<Rightarrow> string \<Rightarrow> jsval hact" where
  "host_get hc k = do {
     v \<leftarrow> onw (if hc_storage hc then store_get k else ret JUndef);
     u \<leftarrow> others hc;
     State_Monad.return v }"

fun set_all :: "(string \<times> jsval) list \<Rightarrow> unit prog" where
  "set_all [] = ret ()"
| "set_all ((k, v) # r) = do { u \<leftarrow> store_set k v; set_all r }"

definition host_set :: "hostcfg \<Rightarrow> (string \<times> jsval) list \<Rightarrow> unit hact" where
  "host_set hc kvs = do { u \<leftarrow> onw (if hc_storage hc then set_all kvs else ret ()); others hc }"

definition host_remove :: "hostcfg \<Rightarrow> string \<Rightarrow> unit hact" where
  "host_remove hc k = do {
     u \<leftarrow> onw (if hc_storage hc then State (\<lambda>w. ((), w\<lparr>w_store := obj_del (w_store w) (js k)\<rparr>)) else ret ());
     others hc }"

definition normalizeSession :: "jsval \<Rightarrow> jsval" where
  "normalizeSession raw =
     (if \<not> truthy raw then JNull
      else if truthy (fld raw ''currentSession'') \<and> truthy (fld (fld raw ''currentSession'') ''profile'')
      then fld raw ''currentSession''
      else if truthy (fld raw ''profile'') then raw
      else JNull)"

subsection \<open>Tokens\<close>

definition host_jwt :: "env \<Rightarrow> jsval \<Rightarrow> jsval" where
  "host_jwt e token =
     (let parts = split_on 46 (str_or_empty token) in
      if length parts < 2 then JNull
      else (let b64 = b64_of_url (parts ! 1); pad = replicate ((4 - length b64 mod 4) mod 4) 61 in
            case atob (b64 @ pad) of
              None \<Rightarrow> JNull
            | Some json \<Rightarrow> (case e_json e json of
                None \<Rightarrow> JNull
              | Some obj \<Rightarrow> if truthy obj \<and> is_object obj then obj else JNull)))"

definition host_candidates :: "jsval \<Rightarrow> ustr list" where
  "host_candidates sess =
     filter (\<lambda>s. s \<noteq> []) (map (\<lambda>x. trim (str_or_empty x))
       [fld (fld sess ''tokens'') ''access_token'', fld (fld sess ''tokens'') ''accessToken'',
        fld (fld (fld sess ''currentSession'') ''tokens'') ''access_token'',
        fld (fld (fld sess ''currentSession'') ''tokens'') ''accessToken''])"

definition host_pickToken :: "env \<Rightarrow> jsval \<Rightarrow> ustr" where
  "host_pickToken e sess =
     (case find (\<lambda>tk. let payload = host_jwt e (JStr tk) in
          str_includes (toLowerCase (str_or_empty (fld payload ''iss''))) (js ''supabase.co/auth/v1'') \<or>
          fld payload ''aud'' = JStr (js ''authenticated'')) (host_candidates sess) of
        None \<Rightarrow> [] | Some tk \<Rightarrow> tk)"

definition host_parseNumericId :: "jsval \<Rightarrow> ustr" where
  "host_parseNumericId v = (let s = trim (str_co_empty v) in if re_full (RPlus is_digit) s then s else [])"

interpretation hostId: id_normalizer host_parseNumericId
  by unfold_locales (auto simp: host_parseNumericId_def Let_def)

subsection \<open>The database\<close>

definition host_supaReady :: "hostcfg \<Rightarrow> bool" where
  "host_supaReady hc \<longleftrightarrow> SUPA_URL (hc_cfg hc) \<noteq> [] \<and> SUPA_KEY (hc_cfg hc) \<noteq> []"

text \<open>\<open>/42501|permission denied|row-level security/i\<close>.\<close>

definition denied_re :: re where
  "denied_re = RAlt (RLit_i (js ''42501'')) (RAlt (RLit_i (js ''permission denied'')) (RLit_i (js ''row-level security'')))"

definition RLS_TOAST :: ustr where
  "RLS_TOAST =
     js ''RLS '' @ [273] @ js ''ang ch'' @ [7863] @ js ''n (authenticated). Phi'' @ [234] @ js ''n hi'' @ [7879] @ js ''n t'' @
     [7841] @ js ''i ch'' @ [432] @ js ''a c'' @ [243] @ js '' Supabase JWT h'' @ [7907] @ js ''p l'' @ [7879] @ js '' ho'' @
     [7863] @ js ''c policy ch'' @ [432] @ js ''a '' @ [273, 250] @ js ''ng.''"

definition host_req ::
  "hostcfg \<Rightarrow> ustr \<Rightarrow> verb \<Rightarrow> string \<Rightarrow> (ustr \<times> ustr) list \<Rightarrow> (ustr \<times> ustr) list \<Rightarrow> jsval option \<Rightarrow> req" where
  "host_req hc bearer v path query extra body =
     \<lparr>rq_verb = v, rq_url = SUPA_URL (hc_cfg hc) @ js path, rq_query = query,
      rq_headers = obj_merge [(js ''apikey'', SUPA_KEY (hc_cfg hc)), (js ''Authorization'', js ''Bearer '' @ bearer),
        (js ''content-type'', js ''application/json'')] extra, rq_body = body\<rparr>"

definition host_supaFetch ::
  "hostcfg \<Rightarrow> env \<Rightarrow> verb \<Rightarrow> string \<Rightarrow> (ustr \<times> ustr) list \<Rightarrow> (ustr \<times> ustr) list \<Rightarrow> jsval option \<Rightarrow> (err + resp) hact" where
  "host_supaFetch hc e v path query extra body =
     (if \<not> host_supaReady hc then throw (Err (js ''Missing SUPABASE_URL or SUPABASE_KEY''))
      else do {
        sess \<leftarrow> gets h_session;
        a \<leftarrow> onw (fetch e (host_req hc (str_or (host_pickToken e sess) (SUPA_KEY (hc_cfg hc))) v path query extra body));
        u \<leftarrow> others hc;
        (case a of
           Inl x \<Rightarrow> throw x
         | Inr res \<Rightarrow>
             if rs_ok res then ok res
             else do {
               warned \<leftarrow> gets h_rlsWarned;
               y \<leftarrow> whenA (rs_status res = 401 \<and> re_test denied_re (text_or_empty res) \<and> \<not> warned) (do {
                 z \<leftarrow> mods (\<lambda>s. s\<lparr>h_rlsWarned := True\<rparr>);
                 toastProfile e RLS_TOAST });
               ok (body_used res) }) })"

text \<open>\<open>await res.json().catch(() => [])\<close> and its first row.\<close>

definition row_of :: "env \<Rightarrow> resp \<Rightarrow> jsval \<Rightarrow> jsval" where
  "row_of e res d = row_or (case resp_json e res of None \<Rightarrow> JArr [] | Some j \<Rightarrow> j) d"

definition lower_email :: "jsval \<Rightarrow> ustr" where
  "lower_email v = toLowerCase (trim (str_or_empty v))"

definition host_select :: "hostcfg \<Rightarrow> env \<Rightarrow> string \<Rightarrow> string \<Rightarrow> ustr \<Rightarrow> ustr \<Rightarrow> (err + jsval) hact" where
  "host_select hc e path column v columns =
     (case encodeURIComponent v of
        None \<Rightarrow> throw (Err (js ''URI malformed''))
      | Some enc \<Rightarrow>
          andThen (host_supaFetch hc e GET path [(js column, js ''eq.'' @ v), (js ''select'', columns), (js ''limit'', js ''1'')] [] None)
            (\<lambda>res. ok (if rs_ok res then row_of e res JNull else JNull)))"

definition host_supaSelectUserByEmail :: "hostcfg \<Rightarrow> env \<Rightarrow> jsval \<Rightarrow> (err + jsval) hact" where
  "host_supaSelectUserByEmail hc e email = host_select hc e ''/rest/v1/users'' ''email'' (lower_email email) (js ''id,email'')"

definition host_supaSelectUserById :: "hostcfg \<Rightarrow> env \<Rightarrow> jsval \<Rightarrow> (err + jsval) hact" where
  "host_supaSelectUserById hc e id' =
     host_select hc e ''/rest/v1/users'' ''id'' (to_str id') (js ''id,email,phone,status,auth_provider'')"

definition host_supaSelectUserProfileById :: "hostcfg \<Rightarrow> env \<Rightarrow> jsval \<Rightarrow> (err + jsval) hact" where
  "host_supaSelectUserProfileById hc e id' =
     host_select hc e ''/rest/v1/user_profiles'' ''id'' (to_str id') (js ''id,full_name,avatar_url,locale,role'')"

text \<open>An answer that is no success has been read by \<open>supaFetch\<close>: its text is empty here.\<close>

definition host_supaPatchUserById :: "hostcfg \<Rightarrow> env \<Rightarrow> jsval \<Rightarrow> jsval \<Rightarrow> (err + jsval) hact" where
  "host_supaPatchUserById hc e id' patch =
     (case encodeURIComponent (to_str id') of
        None \<Rightarrow> throw (Err (js ''URI malformed''))
      | Some enc \<Rightarrow>
          andThen (host_supaFetch hc e PATCH ''/rest/v1/users'' [(js ''id'', js ''eq.'' @ to_str id')]
              [(js ''Prefer'', js ''return=representation'')] (Some (js_or patch (JObj []))))
            (\<lambda>res. if \<not> rs_ok res then throw (Err (str_or (text_or_empty res) (js ''Update users failed'')))
                   else ok (row_of e res patch)))"

definition host_supaInsertUser :: "hostcfg \<Rightarrow> env \<Rightarrow> jsval \<Rightarrow> jsval \<Rightarrow> (err + jsval) hact" where
  "host_supaInsertUser hc e email provider = do {
     nowIso \<leftarrow> onw (now_iso e);
     andThen (host_supaFetch hc e POST ''/rest/v1/users'' [] [(js ''Prefer'', js ''return=representation'')]
         (Some (JObj [(js ''email'', JStr (lower_email email)), (js ''phone'', JNull), (js ''password_hash'', JStr (js ''oauth'')),
            (js ''auth_provider'', js_or provider (JStr (js ''oauth''))), (js ''status'', JStr (js ''active'')),
            (js ''created_at'', JStr nowIso), (js ''last_login_at'', JStr nowIso)])))
       (\<lambda>res. if rs_status res = 409 then host_supaSelectUserByEmail hc e email
              else ok (if rs_ok res then row_of e res JNull else JNull)) }"

definition host_supaUpsertUserProfile :: "hostcfg \<Rightarrow> env \<Rightarrow> jsval \<Rightarrow> (err + jsval) hact" where
  "host_supaUpsertUserProfile hc e row =
     andThen (host_supaFetch hc e POST ''/rest/v1/user_profiles'' [(js ''on_conflict'', js ''id'')]
         [(js ''Prefer'', js ''resolution=merge-duplicates,return=representation'')] (Some row))
       (\<lambda>res. if \<not> rs_ok res then throw (Err (str_or (text_or_empty res) (js ''Upsert user_profiles failed'')))
              else ok (row_of e res row))"

subsection \<open>What the page shows\<close>

definition applyLockState :: "bool \<Rightarrow> host \<Rightarrow> host" where
  "applyLockState isAuthed s = s\<lparr>h_locked := \<not> isAuthed\<rparr>"

definition isGuest :: "host \<Rightarrow> bool" where
  "isGuest s \<longleftrightarrow> \<not> truthy (fld (h_session s) ''profile'')"

definition closeAuthOverlay :: "host \<Rightarrow> host" where
  "closeAuthOverlay s = s\<lparr>h_auth := False\<rparr>"

definition closeAccountOverlay :: "host \<Rightarrow> host" where
  "closeAccountOverlay s = s\<lparr>h_acc := False\<rparr>"

definition closeProfileOverlay :: "host \<Rightarrow> host" where
  "closeProfileOverlay s = s\<lparr>h_prof := False\<rparr>"

definition openAuthOverlay :: "hostcfg \<Rightarrow> ustr \<Rightarrow> host \<Rightarrow> host" where
  "openAuthOverlay hc hashOrMode s =
     (let hash = (if startsWith (str_or hashOrMode (js ''#login'')) (js ''#'') then hashOrMode else js ''#'' @ hashOrMode)
      in (closeProfileOverlay (closeAccountOverlay s))\<lparr>h_auth := True, h_frame := hc_authPage hc @ hash\<rparr>)"

definition firstLetter :: "ustr \<Rightarrow> ustr" where
  "firstLetter name = (let n = trim name in toUpperCase (if n \<noteq> [] then slice n 0 1 else js ''U''))"

definition shown_name :: "jsval \<Rightarrow> jsval" where
  "shown_name profile = js_ors [fld profile ''name'', fld profile ''full_name'', fld profile ''email'', JStr (js ''User'')]"

definition renderAccount :: "jsval \<Rightarrow> host \<Rightarrow> host" where
  "renderAccount profile s =
     (if \<not> truthy profile then s
      else (let name = shown_name profile; pic = js_ors [fld profile ''picture'', fld profile ''avatar_url'', JStr []];
                s' = s\<lparr>h_name := to_str name, h_email := to_str (js_or (fld profile ''email'') (JStr []))\<rparr>
            in if truthy pic then s'\<lparr>h_pic := to_str pic\<rparr>
               else s'\<lparr>h_pic := [], h_letter := firstLetter (str_or_empty name)\<rparr>))"

definition renderProfilePreview :: "ustr \<Rightarrow> ustr \<Rightarrow> host \<Rightarrow> host" where
  "renderProfilePreview name avatar s =
     (let n = trim (str_or name (js ''User'')); pic = trim avatar in
      if pic \<noteq> [] then s\<lparr>h_prevPic := pic\<rparr> else s\<lparr>h_prevPic := [], h_prevLetter := firstLetter n\<rparr>)"

definition updateAuthedUI :: "jsval \<Rightarrow> host \<Rightarrow> host" where
  "updateAuthedUI profile s =
     applyLockState True (s\<lparr>h_label := js ''Hi, '' @ to_str (shown_name profile), h_authed := True\<rparr>)"

definition updateLoggedOutUI :: "host \<Rightarrow> host" where
  "updateLoggedOutUI s = applyLockState False (s\<lparr>h_label := js ''Log in'', h_authed := False\<rparr>)"

subsection \<open>Completing the session\<close>

text \<open>Copies with new properties: \<open>{ ...(prof || {}), user_id, db_user_id }\<close>, \<open>{ ...(sess || {}), profile, updated_at }\<close>.\<close>

definition with_ids :: "jsval \<Rightarrow> ustr \<Rightarrow> jsval" where
  "with_ids prof uid = JObj (obj_set (obj_set (props prof) (js ''user_id'') (JStr uid)) (js ''db_user_id'') (JStr uid))"

definition with_profile :: "jsval \<Rightarrow> jsval \<Rightarrow> rat \<Rightarrow> jsval" where
  "with_profile sess prof t =
     JObj (obj_set (obj_set (props sess) (js ''profile'') prof) (js ''updated_at'') (JNum (JFin t)))"

definition with_mapping :: "jsval \<Rightarrow> ustr \<Rightarrow> ustr \<Rightarrow> rat \<Rightarrow> jsval" where
  "with_mapping raw email uid t =
     JObj (obj_set (if truthy raw \<and> is_object raw then props raw else []) email
       (JObj [(js ''user_id'', JStr uid), (js ''updated_at'', JNum (JFin t))]))"

text \<open>The assignment of a completed session, with the time of it; the result is the session to store.\<close>

definition complete_session :: "env \<Rightarrow> jsval \<Rightarrow> ustr \<Rightarrow> jsval hact" where
  "complete_session e prof uid = do {
     t \<leftarrow> onw (Date_now e);
     cs \<leftarrow> gets h_session;
     let merged = with_profile cs (with_ids prof uid) t;
     u \<leftarrow> mods (\<lambda>s. s\<lparr>h_session := merged\<rparr>);
     State_Monad.return merged }"

definition backfill_lookup :: "hostcfg \<Rightarrow> env \<Rightarrow> jsval \<Rightarrow> ustr \<Rightarrow> unit hact" where
  "backfill_lookup hc e prof email = do {
     r \<leftarrow> host_supaSelectUserByEmail hc e (JStr email);
     (case r of
        Inl x \<Rightarrow> skip
      | Inr u \<Rightarrow>
          (let uid = host_parseNumericId (fld u ''id'') in
           if uid = [] then skip
           else do {
             merged \<leftarrow> complete_session e prof uid;
             raw \<leftarrow> host_get hc ''vtEmailUserIdMapV1'';
             t \<leftarrow> onw (Date_now e);
             host_set hc [(''vtAuth'', merged), (''vtEmailUserIdMapV1'', with_mapping raw email uid t)] })) }"

definition tryBackfillSessionUserId :: "hostcfg \<Rightarrow> env \<Rightarrow> unit hact" where
  "tryBackfillSessionUserId hc e = do {
     cs \<leftarrow> gets h_session;
     (let prof = fld cs ''profile'' in
      if \<not> truthy prof \<or> host_parseNumericId (fld prof ''user_id'') \<noteq> [] \<or> host_parseNumericId (fld prof ''db_user_id'') \<noteq> []
      then skip
      else (let email = lower_email (fld prof ''email'');
                provider = toLowerCase (trim (to_str (js_ors [fld cs ''provider'', fld prof ''provider'', JStr []])));
                numericProfileId = (if provider = [] \<or> provider = js ''email'' \<or> provider = js ''local''
                                    then host_parseNumericId (fld prof ''id'') else [])
            in if numericProfileId \<noteq> [] then do {
                 merged \<leftarrow> complete_session e prof numericProfileId;
                 if email = [] then host_set hc [(''vtAuth'', merged)]
                 else do {
                   raw \<leftarrow> host_get hc ''vtEmailUserIdMapV1'';
                   t \<leftarrow> onw (Date_now e);
                   host_set hc [(''vtAuth'', merged), (''vtEmailUserIdMapV1'', with_mapping raw email numericProfileId t)] } }
               else if email = [] then skip
               else do {
                 raw \<leftarrow> host_get hc ''vtEmailUserIdMapV1'';
                 (let mapped = host_parseNumericId (fld (get raw email) ''user_id'') in
                  if mapped \<noteq> [] then do {
                    merged \<leftarrow> complete_session e prof mapped;
                    t \<leftarrow> onw (Date_now e);
                    host_set hc [(''vtAuth'', merged), (''vtEmailUserIdMapV1'', with_mapping raw email mapped t)] }
                  else backfill_lookup hc e prof email) })) }"

definition NO_EMAIL_TEXT :: ustr where
  "NO_EMAIL_TEXT =
     js ''T'' @ [224] @ js ''i kho'' @ [7843] @ js ''n n'' @ [224] @ js ''y kh'' @ [244] @ js ''ng c'' @ [243] @
     js '' email. Kh'' @ [244] @ js ''ng th'' @ [7875] @ js '' '' @ [273, 7891] @ js ''ng b'' @ [7897] @ js '' profile l'' @
     [234] @ js ''n database.''"

definition NO_ID_TEXT :: ustr where
  "NO_ID_TEXT =
     js ''Kh'' @ [244] @ js ''ng t'' @ [7841] @ js ''o/kh'' @ [244] @ js ''ng l'' @ [7845] @ js ''y '' @ [273, 432, 7907] @
     js ''c users.id t'' @ [7915] @ js '' Supabase.''"

text \<open>The id and the e-mail address of the row, \<open>Inl\<close> the text of the refusal.\<close>

definition ensureUserIdForCurrentSession :: "hostcfg \<Rightarrow> env \<Rightarrow> (err + (ustr + (jsval \<times> ustr))) hact" where
  "ensureUserIdForCurrentSession hc e = do {
     cs \<leftarrow> gets h_session;
     (let prof = fld cs ''profile''; email = lower_email (fld prof ''email'');
          provider = js_ors [fld cs ''provider'', fld prof ''provider'', JStr (js ''oauth'')]
      in if email = [] then ok (Inl NO_EMAIL_TEXT)
         else andThen (host_supaSelectUserByEmail hc e (JStr email)) (\<lambda>u0.
              andThen (if truthy u0 then ok u0 else host_supaInsertUser hc e (JStr email) provider) (\<lambda>u.
              ok (if truthy (fld u ''id'') then Inr (fld u ''id'', email) else Inl NO_ID_TEXT)))) }"

definition sync_body :: "hostcfg \<Rightarrow> env \<Rightarrow> (err + unit) hact" where
  "sync_body hc e = do {
     guest \<leftarrow> gets isGuest;
     if guest \<or> \<not> host_supaReady hc then ok ()
     else andThen (ensureUserIdForCurrentSession hc e) (\<lambda>ss. case ss of
         Inl m \<Rightarrow> ok ()
       | Inr (id', email) \<Rightarrow> andThen (host_supaSelectUserProfileById hc e id') (\<lambda>dbp.
           let full_name = trim (str_or_empty (fld dbp ''full_name'')); avatar_url = trim (str_or_empty (fld dbp ''avatar_url'')) in
           if \<not> truthy dbp \<or> (full_name = [] \<and> avatar_url = []) then ok ()
           else do {
             cs \<leftarrow> gets h_session;
             (if nullish cs then throw type_error
              else do {
                t \<leftarrow> onw (Date_now e);
                (let prof = fld cs ''profile'';
                     merged = JObj (obj_set (obj_set (props prof) (js ''name'') (if full_name \<noteq> [] then JStr full_name else fld prof ''name''))
                       (js ''picture'') (if avatar_url \<noteq> [] then JStr avatar_url else fld prof ''picture''));
                     sess2 = with_profile cs merged t
                 in do {
                   u \<leftarrow> host_set hc [(''vtAuth'', sess2)];
                   v \<leftarrow> mods (\<lambda>s. renderAccount merged (updateAuthedUI merged (s\<lparr>h_session := sess2\<rparr>)));
                   ok () }) }) })) }"

definition syncProfileFromDB :: "hostcfg \<Rightarrow> env \<Rightarrow> unit hact" where
  "syncProfileFromDB hc e = do { r \<leftarrow> sync_body hc e; skip }"

text \<open>The part of \<open>setSession\<close> after the session was completed, with the session as it is then.\<close>

definition session_shown :: "hostcfg \<Rightarrow> env \<Rightarrow> (err + unit) hact" where
  "session_shown hc e = do {
     cs \<leftarrow> gets h_session;
     if nullish cs then throw type_error
     else do {
       v \<leftarrow> mods (\<lambda>s. renderAccount (fld cs ''profile'') (updateAuthedUI (fld cs ''profile'') s));
       y \<leftarrow> whenA (host_pickToken e cs \<noteq> []) (syncProfileFromDB hc e);
       ok () } }"

definition host_setSession :: "hostcfg \<Rightarrow> env \<Rightarrow> jsval \<Rightarrow> (err + unit) hact" where
  "host_setSession hc e sess = do {
     u \<leftarrow> mods (\<lambda>s. s\<lparr>h_session := js_or sess JNull, h_rlsWarned := False\<rparr>);
     guest \<leftarrow> gets isGuest;
     if guest then do {
       v \<leftarrow> mods (\<lambda>s. closeProfileOverlay (closeAccountOverlay (updateLoggedOutUI s)));
       ok () }
     else do {
       b \<leftarrow> tryBackfillSessionUserId hc e;
       session_shown hc e } }"

end
