(* ===== verification/Host_Page.thy ===== *)
theory Host_Page
  imports Host_Session
begin

section \<open>auth/auth_host.js: the overlays and their events\<close>

text \<open>
  The guard that stops what a guest does outside the sign-in page, the three overlays, the profile
  form, and the listeners.  Every element the code looks up is in \<open>sidepanel.html\<close>, so the tests for
  missing elements are left out, as are the display times of the toasts.
\<close>

subsection \<open>The guard\<close>

text \<open>Where an event happened: nowhere, or an element with its relations the guard looks at.\<close>

record target =
  g_inAuthOverlay :: bool
  g_onAccountButton :: bool
  g_onLoginButton :: bool
  g_allowGuest :: bool

definition isAllowedGuestTarget :: "target option \<Rightarrow> bool" where
  "isAllowedGuestTarget x =
     (case x of None \<Rightarrow> False
      | Some g \<Rightarrow> g_inAuthOverlay g \<or> g_onAccountButton g \<or> g_onLoginButton g \<or> g_allowGuest g)"

definition GUEST_TEXT :: ustr where
  "GUEST_TEXT =
     js ''B'' @ [7841] @ js ''n c'' @ [7847] @ js ''n '' @ [273, 259] @ js ''ng nh'' @ [7853] @ js ''p '' @ [273, 7875] @
     js '' d'' @ [249] @ js ''ng t'' @ [237] @ js ''nh n'' @ [259] @ js ''ng n'' @ [224] @ js ''y.''"

text \<open>The result says whether the event was stopped.\<close>

definition guestGuard :: "hostcfg \<Rightarrow> env \<Rightarrow> string \<Rightarrow> ustr \<Rightarrow> target option \<Rightarrow> bool hact" where
  "guestGuard hc e type key g = do {
     guest \<leftarrow> gets isGuest;
     if \<not> guest \<or> isAllowedGuestTarget g \<or> (type = ''keydown'' \<and> key \<notin> {js ''Enter'', js '' '', js ''Spacebar''})
     then State_Monad.return False
     else do {
       u \<leftarrow> say_to e ''toastGlobal'' GUEST_TEXT;
       v \<leftarrow> mods (openAuthOverlay hc (js ''#login''));
       State_Monad.return True } }"

subsection \<open>The overlays\<close>

definition openAccountOverlay :: "hostcfg \<Rightarrow> host \<Rightarrow> host" where
  "openAccountOverlay hc s0 =
     (let s = closeProfileOverlay (closeAuthOverlay s0); profile = fld (h_session s) ''profile'' in
      if \<not> truthy profile then openAuthOverlay hc (js ''#login'') s
      else (renderAccount profile s)\<lparr>h_acc := True\<rparr>)"

definition toggleAccountOrAuth :: "hostcfg \<Rightarrow> host \<Rightarrow> host" where
  "toggleAccountOrAuth hc s =
     (if isGuest s then openAuthOverlay hc (js ''#login'') s
      else if \<not> h_acc s then openAccountOverlay hc s else closeAccountOverlay s)"

definition openAccountOrAuth :: "hostcfg \<Rightarrow> ustr \<Rightarrow> host \<Rightarrow> host" where
  "openAccountOrAuth hc mode s = (if isGuest s then openAuthOverlay hc mode s else openAccountOverlay hc s)"

definition openProfileOverlay :: "host \<Rightarrow> host" where
  "openProfileOverlay s = (closeAccountOverlay (closeAuthOverlay s))\<lparr>h_prof := True\<rparr>"

definition VT_LANDING_URL :: ustr where
  "VT_LANDING_URL = js ''https://maianhtruong.github.io/page_vtranser/''"

text \<open>A tab, else a window, else the page itself; a browser that refuses answers \<open>Inl\<close>.\<close>

definition openVtLandingPage :: "env \<Rightarrow> unit hact" where
  "openVtLandingPage e = do {
     now \<leftarrow> onw (Date_now e);
     last \<leftarrow> gets h_lastLanding;
     whenA (\<not> now - last < 700) (do {
       u \<leftarrow> mods (\<lambda>s. s\<lparr>h_lastLanding := now\<rparr>);
       (case e_url e (trim VT_LANDING_URL) of
          None \<Rightarrow> toastAccount e (js ''Khong mo duoc trang web.'')
        | Some p \<Rightarrow> do {
            a \<leftarrow> onw (emit e (Browser ''tabs.create'' (JStr (e_urlstr e p))));
            (case a of
               Inr v \<Rightarrow> skip
             | Inl x \<Rightarrow> do {
                 b \<leftarrow> onw (emit e (Browser ''window.open'' (JStr (e_urlstr e p))));
                 whenA (case b of Inl y \<Rightarrow> True | Inr v \<Rightarrow> \<not> truthy v)
                   (say_to e ''location.href'' (e_urlstr e p)) }) }) }) }"

subsection \<open>The profile form\<close>

definition host_normalizePhone :: "ustr \<Rightarrow> ustr" where
  "host_normalizePhone v = filter is_digit v"

definition phoneValueValid :: "ustr \<Rightarrow> bool" where
  "phoneValueValid v \<longleftrightarrow> (let s = trim v in s = [] \<or> re_full (RRange 8 20 is_digit) s)"

text \<open>\<open>/^https?:\/\//i\<close> and \<open>/^data:image\//i\<close>.\<close>

definition avatarUrlValid :: "ustr \<Rightarrow> bool" where
  "avatarUrlValid url \<longleftrightarrow>
     (let s = trim url in
      s = [] \<or> re_test_at_start (RSeq (RLit_i (js ''http'')) (RSeq (ROpt (RLit_i (js ''s''))) (RLit_i (js ''://'')))) s \<or>
      re_test_at_start (RLit_i (js ''data:image/'')) s)"

definition profileFormValid :: "host \<Rightarrow> bool" where
  "profileFormValid s \<longleftrightarrow> 2 \<le> length (trim (h_fName s)) \<and> phoneValueValid (host_normalizePhone (trim (h_fPhone s)))"

definition refreshProfileSaveBtn :: "host \<Rightarrow> host" where
  "refreshProfileSaveBtn s = s\<lparr>h_saveDisabled := \<not> profileFormValid s \<or> h_saving s\<rparr>"

definition setSaving :: "bool \<Rightarrow> host \<Rightarrow> host" where
  "setSaving on s = (if on then s\<lparr>h_saving := True, h_saveDisabled := True\<rparr> else refreshProfileSaveBtn (s\<lparr>h_saving := False\<rparr>))"

definition NO_CONFIG_TEXT :: ustr where
  "NO_CONFIG_TEXT =
     js ''Thi'' @ [7871] @ js ''u SUPABASE_URL / SUPABASE_KEY (auth/config.js)''"

definition LOAD_FAILED_TEXT :: ustr where
  "LOAD_FAILED_TEXT =
     js ''Kh'' @ [244] @ js ''ng th'' @ [7875] @ js '' t'' @ [7843] @ js ''i th'' @ [244] @ js ''ng tin t'' @ [224] @
     js ''i kho'' @ [7843] @ js ''n: ''"

text \<open>\<open>dbv || currentSession.profile?.k || \<dots>\<close>: the session is read only when the database gives nothing.\<close>

definition or_session :: "jsval \<Rightarrow> string list \<Rightarrow> jsval \<Rightarrow> (err + jsval) hact" where
  "or_session dbv ks d =
     (if truthy dbv then ok dbv
      else do {
        cs \<leftarrow> gets h_session;
        if nullish cs then throw type_error
        else ok (js_ors (map (fld (fld cs ''profile'')) ks @ [d])) })"

definition open_body :: "hostcfg \<Rightarrow> env \<Rightarrow> (err + unit) hact" where
  "open_body hc e =
     andThen (ensureUserIdForCurrentSession hc e) (\<lambda>ss. case ss of
       Inl m \<Rightarrow> do { u \<leftarrow> toastProfile e m; ok () }
     | Inr (id', email) \<Rightarrow>
         andThen (host_supaSelectUserById hc e id') (\<lambda>dbu.
         do { u1 \<leftarrow> mods (\<lambda>s. s\<lparr>h_fEmail := to_str (js_or (fld dbu ''email'') (JStr email))\<rparr>);
         andThen (or_session (fld dbu ''phone'') [''phone''] (JStr [])) (\<lambda>phone.
         do { u2 \<leftarrow> mods (\<lambda>s. s\<lparr>h_fPhone := to_str phone\<rparr>);
         andThen (host_supaSelectUserProfileById hc e id') (\<lambda>dbp.
         andThen (or_session (fld dbp ''full_name'') [''name'', ''email''] (JStr (js ''User''))) (\<lambda>nm.
         andThen (or_session (fld dbp ''avatar_url'') [''picture''] (JStr [])) (\<lambda>av.
         (let curName = trim (to_str nm); curAvatar = trim (to_str av) in do {
            u3 \<leftarrow> mods (\<lambda>s. refreshProfileSaveBtn ((setSaving False (renderProfilePreview curName curAvatar
                   (s\<lparr>h_fName := curName, h_fAvatar := curAvatar\<rparr>)))\<lparr>h_userId := Some (to_str id')\<rparr>));
            ok () })))) }) }))"

definition openMyAccountScreen :: "hostcfg \<Rightarrow> env \<Rightarrow> unit hact" where
  "openMyAccountScreen hc e = do {
     guest \<leftarrow> gets isGuest;
     if guest then mods (openAuthOverlay hc (js ''#login''))
     else if \<not> host_supaReady hc then toastAccount e NO_CONFIG_TEXT
     else do {
       u \<leftarrow> mods openProfileOverlay;
       r \<leftarrow> open_body hc e;
       (case r of Inl x \<Rightarrow> toastProfile e (LOAD_FAILED_TEXT @ e_msg x) | Inr v \<Rightarrow> skip) } }"

definition NO_DATASET_TEXT :: ustr where
  "NO_DATASET_TEXT =
     js ''Thi'' @ [7871] @ js ''u id. H'' @ [227] @ js ''y '' @ [273, 243] @ js ''ng v'' @ [224] @ js '' m'' @ [7903] @
     js '' l'' @ [7841] @ js ''i My account.''"

definition SHORT_NAME_TEXT :: ustr where
  "SHORT_NAME_TEXT =
     js ''T'' @ [234] @ js ''n hi'' @ [7875] @ js ''n th'' @ [7883] @ js '' ph'' @ [7843] @ js ''i c'' @ [243] @ js '' '' @
     [237] @ js ''t nh'' @ [7845] @ js ''t 2 k'' @ [253] @ js '' t'' @ [7921] @ js ''.''"

definition BAD_AVATAR_TEXT :: ustr where
  "BAD_AVATAR_TEXT =
     js ''Avatar URL kh'' @ [244] @ js ''ng h'' @ [7907] @ js ''p l'' @ [7879] @ js ''. H'' @ [227] @ js ''y d'' @ [249] @
     js ''ng https://... ho'' @ [7863] @ js ''c data:image/...''"

definition BAD_PHONE_TEXT :: ustr where
  "BAD_PHONE_TEXT =
     js ''S'' @ [7889] @ js '' '' @ [273] @ js ''i'' @ [7879] @ js ''n tho'' @ [7841] @ js ''i kh'' @ [244] @ js ''ng h'' @
     [7907] @ js ''p l'' @ [7879] @ js ''. Ch'' @ [7881] @ js '' nh'' @ [7853] @ js ''p s'' @ [7889] @ js '', '' @
     [273, 7897] @ js '' d'' @ [224] @ js ''i 8-20 k'' @ [253] @ js '' t'' @ [7921] @ js ''.''"

definition SAVED_TEXT :: ustr where
  "SAVED_TEXT =
     [272, 227] @ js '' c'' @ [7853] @ js ''p nh'' @ [7853] @ js ''t t'' @ [224] @ js ''i kho'' @ [7843] @ js ''n '' @ [9989]"

definition SAVE_FAILED_TEXT :: ustr where
  "SAVE_FAILED_TEXT =
     js ''L'' @ [432] @ js ''u th'' @ [7845] @ js ''t b'' @ [7841] @ js ''i: ''"

text \<open>The part of \<open>saveMyAccount\<close> after the checks; the timer of 450 ms is the event \<open>Saved\<close>.\<close>

definition save_rows :: "hostcfg \<Rightarrow> env \<Rightarrow> ustr \<Rightarrow> ustr \<Rightarrow> ustr \<Rightarrow> ustr \<Rightarrow> (err + unit) hact" where
  "save_rows hc e id' full_name avatar_url phone = do {
     t \<leftarrow> onw (now_iso e);
     (let locale = toLowerCase (to_str (js_or (hc_language hc) (JStr (js ''vi'')))) in
      andThen (host_supaPatchUserById hc e (JStr id') (JObj [(js ''phone'', text_val phone), (js ''last_login_at'', JStr t)])) (\<lambda>userRow.
      andThen (host_supaUpsertUserProfile hc e (JObj [(js ''id'', JStr id'), (js ''full_name'', JStr full_name),
          (js ''avatar_url'', text_val avatar_url), (js ''locale'', JStr locale), (js ''role'', JNull)])) (\<lambda>row.
      do {
        cs \<leftarrow> gets h_session;
        if nullish cs \<or> nullish row then throw type_error
        else do {
          now \<leftarrow> onw (Date_now e);
          (let prof = JObj (obj_set (obj_set (obj_set (props (fld cs ''profile'')) (js ''name'') (js_or (fld row ''full_name'') (JStr full_name)))
                 (js ''picture'') (js_ors [fld row ''avatar_url'', JStr avatar_url, JStr []]))
                 (js ''phone'') (JStr (to_str (js_ors [fld userRow ''phone'', JStr phone, JStr []]))));
               sess = with_profile cs prof now
           in do {
             u \<leftarrow> host_set hc [(''vtAuth'', sess)];
             andThen (host_setSession hc e sess) (\<lambda>v. do {
               w \<leftarrow> toastProfile e SAVED_TEXT;
               x \<leftarrow> say_to e ''setTimeout'' (js ''450'');
               ok () }) }) } }))) }"

definition saveMyAccount :: "hostcfg \<Rightarrow> env \<Rightarrow> unit hact" where
  "saveMyAccount hc e = do {
     guest \<leftarrow> gets isGuest;
     uid \<leftarrow> gets h_userId;
     full_name \<leftarrow> gets (\<lambda>s. trim (h_fName s));
     avatar_url \<leftarrow> gets (\<lambda>s. trim (h_fAvatar s));
     phone \<leftarrow> gets (\<lambda>s. host_normalizePhone (trim (h_fPhone s)));
     r \<leftarrow> (if guest then ok ()
          else case uid of
            None \<Rightarrow> do { u \<leftarrow> toastProfile e NO_DATASET_TEXT; ok () }
          | Some id' \<Rightarrow>
              if id' = [] then do { u \<leftarrow> toastProfile e NO_DATASET_TEXT; ok () }
              else if length full_name < 2 then do { u \<leftarrow> toastProfile e SHORT_NAME_TEXT; ok () }
              else if \<not> avatarUrlValid avatar_url then do { u \<leftarrow> toastProfile e BAD_AVATAR_TEXT; ok () }
              else if \<not> phoneValueValid phone then do { u \<leftarrow> toastProfile e BAD_PHONE_TEXT; ok () }
              else do {
                u \<leftarrow> mods (\<lambda>s. setSaving True (s\<lparr>h_fPhone := phone\<rparr>));
                save_rows hc e id' full_name avatar_url phone });
     v \<leftarrow> (case r of Inl x \<Rightarrow> toastProfile e (SAVE_FAILED_TEXT @ e_msg x) | Inr y \<Rightarrow> skip);
     mods (setSaving False) }"

subsection \<open>The listeners\<close>

text \<open>\<open>String(profNameInp.value || currentSession?.profile?.name || "User")\<close>.\<close>

definition preview_name :: "host \<Rightarrow> ustr" where
  "preview_name s = to_str (js_ors [JStr (h_fName s), fld (fld (h_session s) ''profile'') ''name'', JStr (js ''User'')])"

definition on_logout :: "hostcfg \<Rightarrow> env \<Rightarrow> unit hact" where
  "on_logout hc e = do {
     u \<leftarrow> host_remove hc ''vtAuth'';
     r \<leftarrow> host_setSession hc e JNull;
     mods (\<lambda>s. openAuthOverlay hc (js ''#login'') (closeAccountOverlay s)) }"

definition on_action :: "hostcfg \<Rightarrow> env \<Rightarrow> ustr \<Rightarrow> unit hact" where
  "on_action hc e act =
     (if act = [] then skip
      else if act = js ''my_account'' then openMyAccountScreen hc e
      else if act \<in> {js ''help'', js ''feedback'', js ''my_website'', js ''whats_new'', js ''rewards''}
      then do { u \<leftarrow> mods closeAccountOverlay; openVtLandingPage e }
      else toastAccount e (js ''Coming soon'' @ [8230]))"

definition BIG_IMAGE_TEXT :: ustr where
  "BIG_IMAGE_TEXT =
     [7842] @ js ''nh qu'' @ [225] @ js '' l'' @ [7899] @ js ''n (>1MB). Vui l'' @ [242] @ js ''ng ch'' @ [7885] @ js ''n '' @
     [7843] @ js ''nh nh'' @ [7887] @ js '' h'' @ [417] @ js ''n.''"

text \<open>Choosing a file: one of up to a megabyte is read, which ends in the event \<open>FileLoaded\<close>.\<close>

definition on_file :: "env \<Rightarrow> nat option \<Rightarrow> unit hact" where
  "on_file e size' =
     (case size' of
        None \<Rightarrow> skip
      | Some n \<Rightarrow> if 1024 * 1024 < n then toastProfile e BIG_IMAGE_TEXT else say_to e ''readAsDataURL'' [])"

definition on_fileLoaded :: "ustr \<Rightarrow> host \<Rightarrow> host" where
  "on_fileLoaded dataUrl s =
     (let s' = s\<lparr>h_fAvatar := dataUrl\<rparr> in refreshProfileSaveBtn (renderProfilePreview (preview_name s') dataUrl s'))"

definition on_avatarInput :: "ustr \<Rightarrow> host \<Rightarrow> host" where
  "on_avatarInput v s =
     (let s' = s\<lparr>h_fAvatar := v\<rparr> in refreshProfileSaveBtn (renderProfilePreview (preview_name s') (trim v) s'))"

definition on_nameInput :: "ustr \<Rightarrow> host \<Rightarrow> host" where
  "on_nameInput v s =
     (let s' = s\<lparr>h_fName := v\<rparr> in refreshProfileSaveBtn (renderProfilePreview (preview_name s') (trim (h_fAvatar s')) s'))"

text \<open>A message of another window; \<open>fromFrame\<close> when its source is the frame of the sign-in page.\<close>

definition on_message_event :: "hostcfg \<Rightarrow> env \<Rightarrow> ustr \<Rightarrow> bool \<Rightarrow> jsval \<Rightarrow> unit hact" where
  "on_message_event hc e origin fromFrame msg =
     (if \<not> truthy msg \<or> \<not> is_object msg then skip
      else if origin \<noteq> [] \<and> origin \<noteq> hc_origin hc then skip
      else if \<not> fromFrame then skip
      else if fld msg ''type'' = JStr (js ''VT_AUTH_CLOSE'') then mods closeAuthOverlay
      else if fld msg ''type'' = JStr (js ''VT_AUTH_SUCCESS'') then
        (let p = fld msg ''payload''; u = js_ors [fld p ''user'', fld p ''profile'', JNull];
             provider = toLowerCase (trim (to_str (js_ors [fld p ''provider'', fld u ''provider'', fld u ''auth_provider'', JStr []])))
         in do {
           r \<leftarrow> (if truthy u then do {
                  t \<leftarrow> onw (Date_now e);
                  (let sess = JObj [(js ''provider'', JStr provider), (js ''profile'', u),
                                    (js ''tokens'', js_or (fld p ''tokens'') (JObj [])), (js ''updated_at'', JNum (JFin t))]
                   in do { v \<leftarrow> host_set hc [(''vtAuth'', sess)]; host_setSession hc e sess }) }
                else do {
                  v \<leftarrow> host_get hc ''vtAuth'';
                  host_setSession hc e (normalizeSession v) });
           mods closeAuthOverlay })
      else skip)"

definition on_load :: "hostcfg \<Rightarrow> env \<Rightarrow> unit hact" where
  "on_load hc e = do {
     v \<leftarrow> host_get hc ''vtAuth'';
     r \<leftarrow> host_setSession hc e (normalizeSession v);
     skip }"

datatype hevent =
    Guarded string ustr "target option"
  | AccountClick
  | AuthBackdrop
  | AccountBackdrop
  | ProfileClose
  | ProfileCancel
  | Escape
  | Logout
  | AccAction ustr
  | FileChosen "nat option"
  | FileLoaded ustr
  | RemoveAvatar
  | AvatarInput ustr
  | PhoneInput ustr
  | NameInput ustr
  | Save
  | Saved
  | Message ustr bool jsval
  | Load
  | OpenAuth ustr
  | OpenAccount
  | OpenAccountOrAuth ustr

fun host_step :: "hostcfg \<Rightarrow> env \<Rightarrow> hevent \<Rightarrow> unit hact" where
  "host_step hc e (Guarded type key g) = do { b \<leftarrow> guestGuard hc e type key g; skip }"
| "host_step hc e AccountClick = mods (toggleAccountOrAuth hc)"
| "host_step hc e AuthBackdrop = mods closeAuthOverlay"
| "host_step hc e AccountBackdrop = mods closeAccountOverlay"
| "host_step hc e ProfileClose = mods closeProfileOverlay"
| "host_step hc e ProfileCancel = mods (\<lambda>s. openAccountOverlay hc (closeProfileOverlay s))"
| "host_step hc e Escape = mods (\<lambda>s. closeProfileOverlay (closeAccountOverlay (closeAuthOverlay s)))"
| "host_step hc e Logout = on_logout hc e"
| "host_step hc e (AccAction act) = on_action hc e act"
| "host_step hc e (FileChosen n) = on_file e n"
| "host_step hc e (FileLoaded d) = mods (on_fileLoaded d)"
| "host_step hc e RemoveAvatar = mods (on_fileLoaded [])"
| "host_step hc e (AvatarInput v) = mods (on_avatarInput v)"
| "host_step hc e (PhoneInput v) = mods (\<lambda>s. refreshProfileSaveBtn (s\<lparr>h_fPhone := v\<rparr>))"
| "host_step hc e (NameInput v) = mods (on_nameInput v)"
| "host_step hc e Save = saveMyAccount hc e"
| "host_step hc e Saved = mods (\<lambda>s. openAccountOverlay hc (closeProfileOverlay s))"
| "host_step hc e (Message origin fromFrame msg) = on_message_event hc e origin fromFrame msg"
| "host_step hc e Load = on_load hc e"
| "host_step hc e (OpenAuth mode) = mods (openAuthOverlay hc mode)"
| "host_step hc e OpenAccount = mods (openAccountOverlay hc)"
| "host_step hc e (OpenAccountOrAuth mode) = mods (openAccountOrAuth hc mode)"

text \<open>The variables when the script starts, and when it has run: the page is then locked until the stored session is read.\<close>

definition host_init :: host where
  "host_init =
     \<lparr>h_session = JNull, h_rlsWarned = False, h_lastLanding = 0, h_locked = False, h_authed = False, h_label = [272, 259] @ js ''ng nh'' @ [7853] @ js ''p'',
      h_auth = False, h_acc = False, h_prof = False, h_frame = [], h_name = js ''User'', h_email = js ''email@example.com'',
      h_pic = [], h_letter = js ''U'', h_prevPic = [], h_prevLetter = js ''U'', h_userId = None, h_saving = False,
      h_saveDisabled = True, h_fEmail = [], h_fPhone = [], h_fName = [], h_fAvatar = []\<rparr>"

definition host_script :: host where
  "host_script = applyLockState False host_init"

text \<open>A sequence of events, and the other handlers at the points where one waits: \<open>busy hc e cs\<close> lets the
  first choice in \<open>cs\<close> pick the events that run to their end at such a point, from the variables and the
  world there; at the points where those wait the second choice picks, and so on.\<close>

fun host_run :: "hostcfg \<Rightarrow> env \<Rightarrow> hevent list \<Rightarrow> unit hact" where
  "host_run hc e [] = skip"
| "host_run hc e (ev # evs) = do { u \<leftarrow> host_step hc e ev; host_run hc e evs }"

fun busy :: "hostcfg \<Rightarrow> env \<Rightarrow> (host \<times> world \<Rightarrow> hevent list) list \<Rightarrow> hostcfg" where
  "busy hc e [] = hc\<lparr>hc_other := \<lambda>x. x\<rparr>"
| "busy hc e (c # cs) = hc\<lparr>hc_other := \<lambda>x. snd (run_state (host_run (busy hc e cs) e (c x)) x)\<rparr>"

end
