(* ===== verification/Host_Contract.thy ===== *)
theory Host_Contract
  imports Host_Page
begin

section \<open>What the host of the sign-in page promises\<close>

text \<open>
  At every point where a handler waits, and between events: the session is empty or has a profile, at
  most one overlay is visible, the account card and the profile form only for a user, and for a guest
  the page is locked.  The invariant is stable under the other handlers, as the proof shows for each
  of them under the assumption that the others keep it (a rely condition).
\<close>

definition host_ok :: "host \<Rightarrow> bool" where
  "host_ok s \<longleftrightarrow>
     (h_session s = JNull \<or> \<not> isGuest s) \<and>
     \<not> (h_auth s \<and> h_acc s) \<and> \<not> (h_auth s \<and> h_prof s) \<and> \<not> (h_acc s \<and> h_prof s) \<and>
     (h_acc s \<or> h_prof s \<longrightarrow> \<not> isGuest s) \<and> (isGuest s \<longrightarrow> h_locked s)"

lemmas overlay_defs = closeAuthOverlay_def closeAccountOverlay_def closeProfileOverlay_def openAuthOverlay_def
  openProfileOverlay_def openAccountOverlay_def applyLockState_def updateAuthedUI_def updateLoggedOutUI_def

lemma render_keeps [simp]:
  "h_session (renderAccount p s) = h_session s" "h_auth (renderAccount p s) = h_auth s" "h_acc (renderAccount p s) = h_acc s"
  "h_prof (renderAccount p s) = h_prof s" "h_locked (renderAccount p s) = h_locked s"
  by (simp_all add: renderAccount_def Let_def)

lemma preview_keeps [simp]:
  "h_session (renderProfilePreview n a s) = h_session s" "h_auth (renderProfilePreview n a s) = h_auth s"
  "h_acc (renderProfilePreview n a s) = h_acc s" "h_prof (renderProfilePreview n a s) = h_prof s"
  "h_locked (renderProfilePreview n a s) = h_locked s"
  by (simp_all add: renderProfilePreview_def Let_def)

lemma saving_keeps [simp]:
  "h_session (refreshProfileSaveBtn s) = h_session s" "h_auth (refreshProfileSaveBtn s) = h_auth s"
  "h_acc (refreshProfileSaveBtn s) = h_acc s" "h_prof (refreshProfileSaveBtn s) = h_prof s"
  "h_locked (refreshProfileSaveBtn s) = h_locked s"
  "h_session (setSaving on s) = h_session s" "h_auth (setSaving on s) = h_auth s"
  "h_acc (setSaving on s) = h_acc s" "h_prof (setSaving on s) = h_prof s" "h_locked (setSaving on s) = h_locked s"
  by (simp_all add: refreshProfileSaveBtn_def setSaving_def)

lemma ok_same:
  assumes "host_ok s" and "h_session s' = h_session s" and "h_auth s' = h_auth s" and "h_acc s' = h_acc s"
    and "h_prof s' = h_prof s" and "h_locked s' = h_locked s"
  shows "host_ok s'"
  using assms by (simp add: host_ok_def isGuest_def)

lemma ok_overlays [simp, intro]:
  "host_ok s \<Longrightarrow> host_ok (closeAuthOverlay s)" "host_ok s \<Longrightarrow> host_ok (closeAccountOverlay s)"
  "host_ok s \<Longrightarrow> host_ok (closeProfileOverlay s)" "host_ok s \<Longrightarrow> host_ok (openAuthOverlay hc h s)"
  "host_ok s \<Longrightarrow> host_ok (openAccountOverlay hc s)" "host_ok s \<Longrightarrow> \<not> isGuest s \<Longrightarrow> host_ok (openProfileOverlay s)"
  "host_ok s \<Longrightarrow> host_ok (applyLockState False s)" "host_ok s \<Longrightarrow> host_ok (updateLoggedOutUI s)"
  by (auto simp: host_ok_def isGuest_def overlay_defs Let_def)

lemma ok_authed: "host_ok s \<Longrightarrow> \<not> isGuest s \<Longrightarrow> host_ok (renderAccount p (updateAuthedUI q s))"
  by (auto simp: host_ok_def isGuest_def updateAuthedUI_def applyLockState_def)

lemma ok_session: "host_ok s \<Longrightarrow> truthy (fld v ''profile'') \<Longrightarrow> host_ok (s\<lparr>h_session := v\<rparr>)"
  by (auto simp: host_ok_def isGuest_def)

lemma with_profile_profile [simp]: "fld (with_profile s p t) ''profile'' = p"
  by (simp add: with_profile_def fld_def)

lemma with_ids_truthy [simp]: "truthy (with_ids p uid)"
  by (simp add: with_ids_def)

subsection \<open>Every handler keeps it\<close>

lemma keeps_of_leads: "leads I m I \<Longrightarrow> keeps I m"
  by (simp add: leads_def keeps_def)

locale calm_others =
  fixes hc :: hostcfg
  assumes calm: "host_ok s \<Longrightarrow> host_ok (fst (hc_other hc (s, w)))"
begin

lemma keeps_others [keeps_intros]: "keeps host_ok (others hc)"
  unfolding keeps_def others_def by (simp add: calm)

lemma keeps_says [keeps_intros]: "keeps host_ok (say_to e c m)" "keeps host_ok (toastProfile e m)" "keeps host_ok (toastAccount e m)"
  unfolding toastProfile_def toastAccount_def say_to_def by (intro keeps_intros)+

lemma keeps_storage [keeps_intros]: "keeps host_ok (host_get hc k)" "keeps host_ok (host_set hc kvs)" "keeps host_ok (host_remove hc k)"
  unfolding host_get_def host_set_def host_remove_def by (intro keeps_intros)+

lemma keeps_supaFetch [keeps_intros]: "keeps host_ok (host_supaFetch hc e v p q x b)"
  unfolding host_supaFetch_def Let_def
  by (intro keeps_intros keeps_mods) (rule ok_same, simp_all)

lemma keeps_select [keeps_intros]:
  "keeps host_ok (host_supaSelectUserByEmail hc e m)" "keeps host_ok (host_supaSelectUserById hc e i)"
  "keeps host_ok (host_supaSelectUserProfileById hc e i)"
  unfolding host_supaSelectUserByEmail_def host_supaSelectUserById_def host_supaSelectUserProfileById_def host_select_def
  by (intro keeps_intros)+

lemma keeps_writes [keeps_intros]:
  "keeps host_ok (host_supaPatchUserById hc e i p)" "keeps host_ok (host_supaInsertUser hc e m pr)"
  "keeps host_ok (host_supaUpsertUserProfile hc e r)"
  unfolding host_supaPatchUserById_def host_supaInsertUser_def host_supaUpsertUserProfile_def Let_def
  by (intro keeps_intros)+

lemma keeps_complete [keeps_intros]: "keeps host_ok (complete_session e p uid)"
  unfolding complete_session_def Let_def by (intro keeps_intros keeps_mods) (simp add: ok_session)

lemma keeps_backfill [keeps_intros]: "keeps host_ok (tryBackfillSessionUserId hc e)"
  unfolding tryBackfillSessionUserId_def backfill_lookup_def Let_def by (intro keeps_intros)

lemma keeps_ensure [keeps_intros]: "keeps host_ok (ensureUserIdForCurrentSession hc e)"
  unfolding ensureUserIdForCurrentSession_def Let_def by (intro keeps_intros)

lemma keeps_sync [keeps_intros]: "keeps host_ok (syncProfileFromDB hc e)"
proof -
  have "host_ok (renderAccount p (updateAuthedUI p (s\<lparr>h_session := with_profile c p t\<rparr>)))" if "host_ok s" "truthy p" for s p c t
    using that by (intro ok_authed ok_session) (simp_all add: isGuest_def)
  then show ?thesis
    unfolding syncProfileFromDB_def sync_body_def Let_def by (intro keeps_intros keeps_mods) simp
qed

lemma keeps_shown: "keeps host_ok (session_shown hc e)"
proof (rule keeps_of_leads, unfold session_shown_def, rule leads_gets, rule leads_if)
  fix cs
  show "leads (\<lambda>s. host_ok s \<and> h_session s = cs) (throw type_error) host_ok" by (simp add: leads_def)
  assume "\<not> nullish cs"
  then have "host_ok (renderAccount p (updateAuthedUI p s))" if "host_ok s \<and> h_session s = cs" for p s
    using that by (intro ok_authed) (auto simp: host_ok_def)
  then show "leads (\<lambda>s. host_ok s \<and> h_session s = cs) (do {
       v \<leftarrow> mods (\<lambda>s. renderAccount (fld cs ''profile'') (updateAuthedUI (fld cs ''profile'') s));
       y \<leftarrow> whenA (host_pickToken e cs \<noteq> []) (syncProfileFromDB hc e);
       ok () }) host_ok"
    by (intro leads_bind [where Q = host_ok] leads_mods leads_keeps keeps_intros) auto
qed

text \<open>A session the code hands to \<open>setSession\<close> is empty or has a profile.\<close>

lemma keeps_setSession [keeps_intros]:
  assumes "sess = JNull \<or> truthy (fld sess ''profile'')"
  shows "keeps host_ok (host_setSession hc e sess)"
proof -
  have null: "keeps host_ok (host_setSession hc e JNull)"
    by (rule keepsI) (auto simp: host_setSession_def isGuest_def host_ok_def overlay_defs js_or_def)
  have "truthy sess" if "truthy (fld sess ''profile'')" using that by (cases sess) auto
  then have start: "host_ok (s\<lparr>h_session := js_or sess JNull, h_rlsWarned := False\<rparr>)"
    if "host_ok s" "truthy (fld sess ''profile'')" for s
    using that by (auto simp: js_or_def host_ok_def isGuest_def)
  have user: "keeps host_ok (host_setSession hc e sess)" if "truthy (fld sess ''profile'')"
    unfolding host_setSession_def using that start
    by (intro keeps_intros keeps_mods keeps_shown ok_overlays)
  show ?thesis using assms null user by auto
qed

lemma keeps_logout [keeps_intros]: "keeps host_ok (on_logout hc e)"
  unfolding on_logout_def by (intro keeps_intros keeps_mods ok_overlays) simp_all

lemma keeps_message [keeps_intros]: "keeps host_ok (on_message_event hc e org fr msg)"
proof -
  have normal: "normalizeSession v = JNull \<or> truthy (fld (normalizeSession v) ''profile'')" for v
    by (simp add: normalizeSession_def)
  have sess: "fld (JObj [(js ''provider'', a), (js ''profile'', u), (js ''tokens'', b), (js ''updated_at'', c)]) ''profile'' = u" for a b c u
    by simp
  show ?thesis
    unfolding on_message_event_def Let_def
    by (intro keeps_intros keeps_mods ok_overlays) (simp_all only: sess normal simp_thms)
qed

lemma keeps_load [keeps_intros]: "keeps host_ok (on_load hc e)"
  unfolding on_load_def by (intro keeps_intros) (simp add: normalizeSession_def)

lemma keeps_guard [keeps_intros]: "keeps host_ok (guestGuard hc e type key g)"
  unfolding guestGuard_def by (intro keeps_intros keeps_mods ok_overlays)

lemma keeps_or_session [keeps_intros]: "keeps host_ok (or_session v ks d)"
  unfolding or_session_def by (intro keeps_intros)

lemma keeps_open_body [keeps_intros]: "keeps host_ok (open_body hc e)"
  unfolding open_body_def Let_def by (intro keeps_intros keeps_mods) (rule ok_same, simp_all)+

lemma keeps_open [keeps_intros]: "keeps host_ok (openMyAccountScreen hc e)"
proof (rule keeps_of_leads, unfold openMyAccountScreen_def, intro leads_gets leads_if)
  fix guest assume "guest"
  show "leads (\<lambda>s. host_ok s \<and> isGuest s = guest) (mods (openAuthOverlay hc (js ''#login''))) host_ok"
    by (rule leads_mods) auto
next
  fix guest
  show "leads (\<lambda>s. host_ok s \<and> isGuest s = guest) (toastAccount e NO_CONFIG_TEXT) host_ok"
    by (rule leads_weaken [OF leads_keeps [OF keeps_says(3)]]) auto
next
  fix guest assume "\<not> guest"
  have "keeps host_ok (do { r \<leftarrow> open_body hc e;
       (case r of Inl x \<Rightarrow> toastProfile e (LOAD_FAILED_TEXT @ e_msg x) | Inr v \<Rightarrow> skip) })" by (intro keeps_intros)
  then have tail: "leads host_ok (do { r \<leftarrow> open_body hc e;
       (case r of Inl x \<Rightarrow> toastProfile e (LOAD_FAILED_TEXT @ e_msg x) | Inr v \<Rightarrow> skip) }) host_ok" by (rule leads_keeps)
  show "leads (\<lambda>s. host_ok s \<and> isGuest s = guest) (do {
       u \<leftarrow> mods openProfileOverlay;
       r \<leftarrow> open_body hc e;
       (case r of Inl x \<Rightarrow> toastProfile e (LOAD_FAILED_TEXT @ e_msg x) | Inr v \<Rightarrow> skip) }) host_ok"
    by (rule leads_bind [where Q = host_ok, OF leads_mods tail]) (use \<open>\<not> guest\<close> in auto)
qed

lemma keeps_save [keeps_intros]: "keeps host_ok (saveMyAccount hc e)"
proof -
  have p: "truthy (fld (with_profile c (JObj o') t) ''profile'')" for c o' t by simp
  show ?thesis
    unfolding saveMyAccount_def save_rows_def Let_def
    by (intro keeps_intros keeps_mods disjI2 p) (rule ok_same, simp_all)+
qed

lemma keeps_action [keeps_intros]: "keeps host_ok (on_action hc e act)" "keeps host_ok (on_file e n)"
  unfolding on_action_def on_file_def openVtLandingPage_def
  by (intro keeps_intros keeps_mods ok_overlays; (rule ok_same, simp_all)?)+

lemma keeps_step: "keeps host_ok (host_step hc e ev)"
  by (cases ev; simp only: host_step.simps)
    (intro keeps_intros keeps_mods; (auto simp: toggleAccountOrAuth_def openAccountOrAuth_def; fail | rule ok_same; simp add: on_fileLoaded_def on_avatarInput_def on_nameInput_def Let_def))+

lemma keeps_host_run: "keeps host_ok (host_run hc e evs)"
  by (induction evs) (simp_all add: keeps_ret keeps_bind keeps_step)

end

text \<open>The other handlers of the page itself satisfy the assumption, at every depth.\<close>

lemma busy_calm: "calm_others (busy hc e cs)"
proof (induction cs)
  case Nil
  show ?case by unfold_locales simp
next
  case (Cons c cs)
  show ?case
  proof unfold_locales
    fix s w assume "host_ok s"
    obtain s' w' where run: "run_state (host_run (busy hc e cs) e (c (s, w))) (s, w) = ((), s', w')" by (rule act_runs)
    have "host_ok s'" using calm_others.keeps_host_run [OF Cons.IH] run \<open>host_ok s\<close> by (rule keeps_run)
    with run show "host_ok (fst (hc_other (busy hc e (c # cs)) (s, w)))" by simp
  qed
qed

interpretation page: calm_others "busy hc e cs" for hc e cs
  by (rule busy_calm)

text \<open>Property C8: whatever the user, the server, the storage and the sign-in frame do, and whichever handlers
  run while another one waits: at most one overlay is visible, the account card and the profile form
  only for a signed-in user, and a guest's page is locked.\<close>

theorem host_invariant:
  "case run_state (host_run (busy hc e cs) e evs) (host_script, w) of (_, s', w' :: world) \<Rightarrow>
     \<not> (h_auth s' \<and> h_acc s') \<and> \<not> (h_auth s' \<and> h_prof s') \<and> \<not> (h_acc s' \<and> h_prof s') \<and>
     (if isGuest s' then h_locked s' \<and> \<not> h_acc s' \<and> \<not> h_prof s' else True)"
proof -
  obtain s' w' where run: "run_state (host_run (busy hc e cs) e evs) (host_script, w) = ((), s', w')" by (rule act_runs)
  have "host_ok host_script" by (simp add: host_ok_def host_script_def host_init_def applyLockState_def isGuest_def)
  then have "host_ok s'" by (rule keeps_run [OF page.keeps_host_run run])
  with run show ?thesis by (auto simp: host_ok_def)
qed

end
