(* ===== verification/Host_Races.thy ===== *)
theory Host_Races
  imports Host_Contract Auth_Contract
begin

section \<open>The session between the sign-in page, the side panel and the worker\<close>

subsection \<open>The tokens of the side panel and of the worker\<close>

lemma host_jwt_eq: "host_jwt e token = decodeJwtPayloadNoVerify e token"
proof -
  have "(truthy v \<and> is_object v) = is_object v" for v by (cases v) simp_all
  then show ?thesis unfolding host_jwt_def decodeJwtPayloadNoVerify_def Let_def by presburger
qed

text \<open>The candidates of one object of tokens.\<close>

definition tokens_of :: "jsval \<Rightarrow> ustr list" where
  "tokens_of t = filter (\<lambda>s. s \<noteq> []) (map (\<lambda>x. trim (str_or_empty x)) [fld t ''access_token'', fld t ''accessToken''])"

lemma tokens_of_falsy: "\<not> truthy t \<Longrightarrow> tokens_of t = []"
  by (cases t) (simp_all add: tokens_of_def str_or_empty_def)

lemma host_candidates_eq:
  "host_candidates sess = tokens_of (fld sess ''tokens'') @ tokens_of (fld (fld sess ''currentSession'') ''tokens'')"
  by (simp add: host_candidates_def tokens_of_def)

lemma worker_candidates_eq:
  "token_candidates (JObj [(js ''raw'', raw), (js ''profile'', p), (js ''tokens'', t)]) =
     tokens_of t @ tokens_of (fld raw ''tokens'') @ tokens_of (fld (fld raw ''currentSession'') ''tokens'')"
  by (simp add: token_candidates_def tokens_of_def)

text \<open>For whatever is stored as the session, the service worker and the side panel send the same
  access token to the database, or both none.\<close>

lemma tokens_agree:
  "pickSupabaseAccessToken e (fst (run_state getVtAuthSession w)) =
   host_pickToken e (js_or (obj_get (w_store w) (js ''vtAuth'')) JNull)"
proof -
  define raw where "raw = js_or (obj_get (w_store w) (js ''vtAuth'')) JNull"
  let ?T = "tokens_of (fld raw ''tokens'')" and ?C = "tokens_of (fld (fld raw ''currentSession'') ''tokens'')"
  let ?P = "is_supabase_token e"
  have "tokens_of JNull = []" by (simp add: tokens_of_falsy)
  then have "tokens_of (js_ors [fld raw ''tokens'', fld (fld raw ''currentSession'') ''tokens'', JNull]) = (if truthy (fld raw ''tokens'') then ?T else ?C)"
    by (auto simp: tokens_of_falsy)
  then have "token_candidates (fst (run_state getVtAuthSession w)) = (if truthy (fld raw ''tokens'') then ?T @ ?T @ ?C else ?C @ ?C)"
    by (simp add: getVtAuthSession_def Let_def raw_def worker_candidates_eq tokens_of_falsy)
  moreover have "?T = []" if "\<not> truthy (fld raw ''tokens'')" using that by (rule tokens_of_falsy)
  ultimately have "find ?P (token_candidates (fst (run_state getVtAuthSession w))) = find ?P (host_candidates raw)"
    by (auto simp: host_candidates_eq find_append split: option.split)
  then show ?thesis
    by (simp add: pickSupabaseAccessToken_def host_pickToken_def is_supabase_token_def [abs_def] host_jwt_eq raw_def)
qed

subsection \<open>Two races\<close>

text \<open>A server that finds the row 7 of every e-mail address, and a side panel that was just told of a log-in
  whose profile has an e-mail address but no id.\<close>

definition seven_server :: env where
  "seven_server = example_env (\<lambda>h r. Inr \<lparr>rs_status = 200, rs_text = Some (js ''row'')\<rparr>)
     (\<lambda>t. Some (JArr [JObj [(js ''id'', JInt 7), (js ''full_name'', JStr (js ''Bo''))]]))"

definition example_host :: hostcfg where
  "example_host = \<lparr>hc_cfg = pg_cfg example_page, hc_storage = True, hc_authPage = js ''auth.html'', hc_origin = js ''ext'',
     hc_language = JUndef, hc_other = (\<lambda>x. x)\<rparr>"

definition login_message :: jsval where
  "login_message = JObj [(js ''type'', JStr (js ''VT_AUTH_SUCCESS'')),
     (js ''payload'', JObj [(js ''user'', JObj [(js ''email'', JStr (js ''a@b.co''))]), (js ''provider'', JStr (js ''google''))])]"

text \<open>The user logs out while the side panel looks the row up: the look-up puts the session back, into the
  variable and into the storage, and unlocks the page.\<close>

lemma logout_undone:
  "case run_state (host_run (busy example_host seven_server
        [\<lambda>x. if length (w_reqs (snd x)) = 1 \<and> truthy (h_session (fst x)) \<and> obj_get (props (h_session (fst x))) (js ''provider'') \<noteq> JUndef
              then [Logout] else []]) seven_server
      [Message (js ''ext'') True login_message]) (host_script, blank_world) of (_, s, w) \<Rightarrow>
    \<not> isGuest s \<and> \<not> h_locked s \<and> fld (fld (obj_get (w_store w) (js ''vtAuth'')) ''profile'') ''user_id'' = JStr (js ''7'')"
  by code_simp

text \<open>The profile form keeps the id it was opened for: after a log-in of another user the button \<open>Save\<close>
  writes the form to the row of the first one.\<close>

lemma save_for_earlier_user:
  "case run_state (saveMyAccount (busy example_host seven_server []) seven_server)
      (host_script\<lparr>h_session := JObj [(js ''profile'', JObj [(js ''email'', JStr (js ''b@b.co'')), (js ''user_id'', JStr (js ''2''))])],
         h_userId := Some (js ''1''), h_fName := js ''Ann''\<rparr>, blank_world) of (_, s, w) \<Rightarrow>
    map (\<lambda>r. (rq_verb r, rq_query r)) (w_reqs w) = [(PATCH, [(js ''id'', js ''eq.1'')]), (POST, [(js ''on_conflict'', js ''id'')])] \<and>
    fld (fld (h_session s) ''profile'') ''user_id'' = JStr (js ''2'')"
  by code_simp

end
