(* ===== verification/Panel_Store.thy ===== *)
theory Panel_Store
  imports Actions Text_Windows Sw_Auth
begin

section \<open>sidepanel.js: the conversations kept in the browser\<close>

text \<open>
  The side panel keeps the messages of every chat session, a description of every session, and the
  ids of its rows in the database in \<open>localStorage\<close>, each as one JSON object.  A text that
  \<open>JSON.stringify\<close> wrote is \<open>Printed\<close> with its value, which \<open>JSON.parse\<close> gives back; any other text is \<open>Raw\<close>
  and goes through the parser of the environment.  The local time and \<open>localeCompare\<close> are parameters.
\<close>

datatype lsval = Raw ustr | Printed jsval

type_synonym lstore = "(ustr \<times> lsval) list"

text \<open>Year, month from 0, day, hours, minutes, seconds of a time, as the local clock shows them.\<close>

type_synonym local_time = "rat \<Rightarrow> nat \<times> nat \<times> nat \<times> nat \<times> nat \<times> nat"

definition CHAT_HISTORY_MAX :: nat where
  "CHAT_HISTORY_MAX = 120"

definition CHAT_CONV_LIST_MAX :: nat where
  "CHAT_CONV_LIST_MAX = 80"

definition MAX_META :: nat where
  "MAX_META = 400"

subsection \<open>Reading and writing\<close>

definition ls_item :: "lstore \<Rightarrow> string \<Rightarrow> lsval option" where
  "ls_item st k = map_of st (js k)"

definition ls_set :: "lstore \<Rightarrow> string \<Rightarrow> lsval \<Rightarrow> lstore" where
  "ls_set st k v = obj_set st (js k) v"

text \<open>The text of an item that was written as a text.\<close>

definition ls_text :: "env \<Rightarrow> lstore \<Rightarrow> string \<Rightarrow> ustr" where
  "ls_text e st k = (case ls_item st k of None \<Rightarrow> [] | Some (Raw t) \<Rightarrow> t | Some (Printed v) \<Rightarrow> e_stringify e v)"

definition readJsonObjectLS :: "env \<Rightarrow> lstore \<Rightarrow> string \<Rightarrow> jobj" where
  "readJsonObjectLS e st k =
     (let v = (case ls_item st k of
                 None \<Rightarrow> JNull
               | Some (Raw t) \<Rightarrow> (if t = [] then JNull else case e_json e t of None \<Rightarrow> JNull | Some v \<Rightarrow> v)
               | Some (Printed v) \<Rightarrow> v)
      in if truthy v \<and> is_object v then props v else [])"

definition writeJsonObjectLS :: "string \<Rightarrow> jobj \<Rightarrow> lstore \<Rightarrow> lstore" where
  "writeJsonObjectLS k m st = ls_set st k (Printed (JObj m))"

definition readChatHistoryMap :: "env \<Rightarrow> lstore \<Rightarrow> jobj" where
  "readChatHistoryMap e st = readJsonObjectLS e st ''sttChatHistoryV1''"

definition writeChatHistoryMap :: "jobj \<Rightarrow> lstore \<Rightarrow> lstore" where
  "writeChatHistoryMap m st = writeJsonObjectLS ''sttChatHistoryV1'' m st"

definition readChatSessionMetaMap :: "env \<Rightarrow> lstore \<Rightarrow> jobj" where
  "readChatSessionMetaMap e st = readJsonObjectLS e st ''sttChatSessionMetaV1''"

definition writeChatSessionMetaMap :: "jobj \<Rightarrow> lstore \<Rightarrow> lstore" where
  "writeChatSessionMetaMap m st = writeJsonObjectLS ''sttChatSessionMetaV1'' m st"

definition readBoolLS :: "env \<Rightarrow> lstore \<Rightarrow> string \<Rightarrow> bool \<Rightarrow> bool" where
  "readBoolLS e st k fallback =
     (case ls_item st k of None \<Rightarrow> fallback | Some x \<Rightarrow> ls_text e st k = js ''1'' \<or> ls_text e st k = js ''true'')"

definition writeBoolLS :: "string \<Rightarrow> bool \<Rightarrow> lstore \<Rightarrow> lstore" where
  "writeBoolLS k b st = ls_set st k (Raw (if b then js ''1'' else js ''0''))"

subsection \<open>Times and keys\<close>

definition pad :: "nat \<Rightarrow> ustr" where
  "pad n = (if n < 10 then js ''0'' @ nat_str n else nat_str n)"

definition nowTime :: "env \<Rightarrow> local_time \<Rightarrow> ustr prog" where
  "nowTime e lt = do {
     t \<leftarrow> Date_now e;
     (case lt t of (y, mo, d, h, m, s) \<Rightarrow> ret (pad h @ js '':'' @ pad m @ js '':'' @ pad s)) }"

definition panel_toIsoOrNow :: "env \<Rightarrow> jsval \<Rightarrow> ustr prog" where
  "panel_toIsoOrNow e v = (case e_dateparse e (str_or_empty v) of None \<Rightarrow> now_iso e | Some t \<Rightarrow> ret (e_iso e t))"

definition parseDateMs :: "env \<Rightarrow> jsval \<Rightarrow> rat" where
  "parseDateMs e v = (case e_dateparse e (str_or_empty v) of None \<Rightarrow> 0 | Some t \<Rightarrow> t)"

definition normalizeIdentityKey :: "jsval \<Rightarrow> ustr" where
  "normalizeIdentityKey k = toLowerCase (trim (str_or_empty k))"

definition formatConversationTime :: "env \<Rightarrow> local_time \<Rightarrow> jsval \<Rightarrow> ustr" where
  "formatConversationTime e lt v =
     (let d = parseDateMs e v in
      if d = 0 then []
      else case lt d of (y, mo, dd, h, m, s) \<Rightarrow> pad h @ js '':'' @ pad m @ js '' '' @ pad dd @ js ''/'' @ pad (mo + 1))"

text \<open>\<open>Math.max(0, Number(v) || 0)\<close>.\<close>

definition count_of :: "jsval \<Rightarrow> jnum" where
  "count_of v =
     (let n = to_num v in
      if \<not> truthy (JNum n) then JFin 0 else if jlt n (JFin 0) then JFin 0 else n)"

subsection \<open>Descriptions of sessions\<close>

definition object_or_empty :: "jsval \<Rightarrow> jsval" where
  "object_or_empty v = (if truthy v \<and> is_object v then v else JObj [])"

definition prune_meta :: "env \<Rightarrow> jobj \<Rightarrow> jobj" where
  "prune_meta e m =
     (if MAX_META < length m
      then foldl obj_del m (drop MAX_META (sort_key (\<lambda>k. - parseDateMs e (fld (obj_get m k) ''updatedAt'')) (obj_keys m)))
      else m)"

definition meta_value :: "env \<Rightarrow> jsval \<Rightarrow> jsval \<Rightarrow> jsval prog" where
  "meta_value e prev patch = do {
     createdAt \<leftarrow> panel_toIsoOrNow e (js_or (fld prev ''createdAt'') (fld patch ''createdAt''));
     let identityKey = normalizeIdentityKey (js_ors [fld patch ''identityKey'', fld prev ''identityKey'', JStr []]);
     let title = chatClipText (str_or_empty (js_ors [fld patch ''title'', fld prev ''title'', JStr []])) 72;
     let preview = chatClipText (str_or_empty (js_ors [fld patch ''preview'', fld prev ''preview'', JStr []])) 110;
     updatedAt \<leftarrow> panel_toIsoOrNow e (js_ors [fld patch ''updatedAt'', fld prev ''updatedAt'', JStr createdAt]);
     ret (JObj [(js ''identityKey'', JStr identityKey), (js ''title'', JStr title), (js ''preview'', JStr preview),
       (js ''createdAt'', JStr createdAt), (js ''updatedAt'', JStr updatedAt),
       (js ''messageCount'', JNum (count_of (js_coalesces [fld patch ''messageCount'', fld prev ''messageCount'', JInt 0])))]) }"

definition upsertChatSessionMeta :: "env \<Rightarrow> ustr \<Rightarrow> jsval \<Rightarrow> lstore \<Rightarrow> lstore prog" where
  "upsertChatSessionMeta e sessionId patch st =
     (let sid = trim sessionId; m = readChatSessionMetaMap e st in
      if sid = [] then ret st
      else do {
        v \<leftarrow> meta_value e (object_or_empty (obj_get m sid)) patch;
        ret (writeChatSessionMetaMap (prune_meta e (obj_set m sid v)) st) })"

subsection \<open>Messages\<close>

record item =
  it_who :: ustr
  it_text :: ustr
  it_meta :: ustr

definition item_of :: "jsval \<Rightarrow> item" where
  "item_of x =
     \<lparr>it_who = (if fld x ''who'' = JStr (js ''assistant'') then js ''assistant'' else js ''user''),
      it_text = str_or_empty (fld x ''text''), it_meta = str_or_empty (fld x ''meta'')\<rparr>"

definition item_val :: "item \<Rightarrow> jsval" where
  "item_val x = JObj [(js ''who'', JStr (it_who x)), (js ''text'', JStr (it_text x)), (js ''meta'', JStr (it_meta x))]"

definition getChatHistoryItems :: "env \<Rightarrow> lstore \<Rightarrow> ustr \<Rightarrow> item list" where
  "getChatHistoryItems e st sessionId =
     (let sid = trim sessionId in
      if sid = [] then []
      else case obj_get (readChatHistoryMap e st) sid of
             JArr xs \<Rightarrow> filter (\<lambda>x. trim (it_text x) \<noteq> []) (map item_of xs)
           | _ \<Rightarrow> [])"

definition saveChatHistoryItems :: "env \<Rightarrow> ustr \<Rightarrow> item list \<Rightarrow> lstore \<Rightarrow> lstore" where
  "saveChatHistoryItems e sessionId items st =
     (let sid = trim sessionId; m = readChatHistoryMap e st; next' = drop (length items - CHAT_HISTORY_MAX) items in
      if sid = [] then st
      else writeChatHistoryMap (if next' \<noteq> [] then obj_set m sid (JArr (map item_val next')) else obj_del m sid) st)"

definition NEW_CHAT :: ustr where
  "NEW_CHAT = js ''Cu'' @ [7897] @ js ''c tr'' @ [242] @ js '' chuy'' @ [7879] @ js ''n m'' @ [7899] @ js ''i''"

definition first_user :: "item list \<Rightarrow> item option" where
  "first_user items = find (\<lambda>x. it_who x = js ''user'' \<and> trim (it_text x) \<noteq> []) items"

definition text_of :: "item option \<Rightarrow> ustr" where
  "text_of x = (case x of None \<Rightarrow> [] | Some i \<Rightarrow> it_text i)"

definition last_item :: "item list \<Rightarrow> item option" where
  "last_item items = (if items = [] then None else Some (last items))"

definition touchChatSessionMetaFromItems :: "env \<Rightarrow> ustr \<Rightarrow> item list \<Rightarrow> ustr \<Rightarrow> ustr \<Rightarrow> lstore \<Rightarrow> lstore prog" where
  "touchChatSessionMetaFromItems e sessionId arr identityKey titleHint st =
     (let sid = trim sessionId in
      if sid = [] then ret st
      else do {
        let hint = chatClipText (str_or titleHint (str_or (text_of (first_user arr)) (str_or (text_of (last_item arr)) NEW_CHAT))) 72;
        let preview = chatClipText (text_of (last_item arr)) 110;
        t \<leftarrow> now_iso e;
        upsertChatSessionMeta e sid (JObj [(js ''identityKey'', JStr identityKey), (js ''title'', JStr hint),
          (js ''preview'', JStr preview), (js ''updatedAt'', JStr t), (js ''messageCount'', JInt (int (length arr)))]) st })"

text \<open>\<open>pushChatHistoryItem\<close> for a given session; the conversation panel is redrawn by the caller.\<close>

definition push_item :: "env \<Rightarrow> ustr \<Rightarrow> ustr \<Rightarrow> ustr \<Rightarrow> ustr \<Rightarrow> ustr \<Rightarrow> ustr \<Rightarrow> lstore \<Rightarrow> lstore prog" where
  "push_item e who txt meta sessionId identityKey titleHint st =
     (let msgText = trim txt; sid = trim sessionId in
      if msgText = [] \<or> sid = [] then ret st
      else (let arr = getChatHistoryItems e st sid @
                  [\<lparr>it_who = (if who = js ''assistant'' then js ''assistant'' else js ''user''), it_text = msgText, it_meta = meta\<rparr>]
            in touchChatSessionMetaFromItems e sid arr identityKey titleHint (saveChatHistoryItems e sid arr st)))"

subsection \<open>Rows of the database\<close>

definition panel_normalizeDbId :: "jsval \<Rightarrow> jsval" where
  "panel_normalizeDbId v = (let s = trim (str_co_empty v) in if s \<noteq> [] \<and> re_full (RPlus is_digit) s then JStr s else JNull)"

interpretation panelId: id_normalizer "\<lambda>v. case panel_normalizeDbId v of JStr s \<Rightarrow> s | _ \<Rightarrow> []"
  by unfold_locales (auto simp: panel_normalizeDbId_def Let_def)

definition authIdentityKeyFromProfile :: "jsval \<Rightarrow> ustr" where
  "authIdentityKeyFromProfile profile =
     (let email = toLowerCase (trim (str_or_empty (fld profile ''email''))); pid = trim (str_or_empty (fld profile ''id''));
          name = toLowerCase (trim (to_str (js_ors [fld profile ''name'', fld profile ''full_name'', JStr []])))
      in if email \<noteq> [] then js ''email:'' @ email else if pid \<noteq> [] then js ''id:'' @ pid
         else if name \<noteq> [] then js ''name:'' @ name else [])"

definition chatDbCursorKey :: "ustr \<Rightarrow> ustr \<Rightarrow> ustr" where
  "chatDbCursorKey identityKey localSessionId =
     (let a = trim identityKey; b = trim localSessionId in if a = [] \<or> b = [] then [] else a @ js ''::'' @ b)"

definition getChatDbCursorState :: "env \<Rightarrow> lstore \<Rightarrow> ustr \<Rightarrow> ustr \<Rightarrow> jsval \<times> jsval" where
  "getChatDbCursorState e st identityKey localSessionId =
     (let key = chatDbCursorKey identityKey localSessionId; row = obj_get (readJsonObjectLS e st ''sttChatDbCursorV1'') key in
      if key = [] then (JNull, JNull) else (panel_normalizeDbId (fld row ''chatSessionId''), panel_normalizeDbId (fld row ''parentMsgId'')))"

definition setChatDbCursorState :: "env \<Rightarrow> ustr \<Rightarrow> ustr \<Rightarrow> jsval \<Rightarrow> jsval \<Rightarrow> lstore \<Rightarrow> lstore prog" where
  "setChatDbCursorState e identityKey localSessionId chatSessionId parentMsgId st =
     (let key = chatDbCursorKey identityKey localSessionId; m = readJsonObjectLS e st ''sttChatDbCursorV1'' in
      if key = [] then ret st
      else do {
        t \<leftarrow> now_iso e;
        ret (writeJsonObjectLS ''sttChatDbCursorV1'' (obj_set m key (JObj [(js ''chatSessionId'', panel_normalizeDbId chatSessionId),
          (js ''parentMsgId'', panel_normalizeDbId parentMsgId), (js ''updatedAt'', JStr t)])) st) })"

definition clearChatDbCursorStateByLocalSession :: "env \<Rightarrow> ustr \<Rightarrow> lstore \<Rightarrow> bool \<times> lstore" where
  "clearChatDbCursorStateByLocalSession e sessionId st =
     (let sid = trim sessionId; m = readJsonObjectLS e st ''sttChatDbCursorV1'';
          m' = filter (\<lambda>p. \<not> endsWith (fst p) (js ''::'' @ sid)) m
      in if sid = [] \<or> list_all (\<lambda>p. \<not> endsWith (fst p) (js ''::'' @ sid)) m then (False, st)
         else (True, writeJsonObjectLS ''sttChatDbCursorV1'' m' st))"

definition deleteChatConversationData :: "env \<Rightarrow> ustr \<Rightarrow> lstore \<Rightarrow> bool \<times> lstore" where
  "deleteChatConversationData e sessionId st =
     (let sid = trim sessionId in
      if sid = [] then (False, st)
      else (let hist = readChatHistoryMap e st; inHist = (sid \<in> set (obj_keys hist));
                st1 = (if inHist then writeChatHistoryMap (obj_del hist sid) st else st);
                meta = readChatSessionMetaMap e st1; inMeta = (sid \<in> set (obj_keys meta));
                st2 = (if inMeta then writeChatSessionMetaMap (obj_del meta sid) st1 else st1);
                (inCursor, st3) = clearChatDbCursorStateByLocalSession e sid st2
            in (inHist \<or> inMeta \<or> inCursor, st3)))"

subsection \<open>The list of conversations\<close>

record conv =
  c_sid :: ustr
  c_title :: ustr
  c_preview :: ustr
  c_time :: ustr
  c_ms :: rat
  c_count :: jnum

text \<open>\<open>[...new Set(xs)]\<close>, and \<open>sort\<close> with a comparison that says when the first comes after the second.\<close>

definition set_list :: "'a list \<Rightarrow> 'a list" where
  "set_list xs = rev (remdups (rev xs))"

fun ins_by :: "('a \<Rightarrow> 'a \<Rightarrow> bool) \<Rightarrow> 'a \<Rightarrow> 'a list \<Rightarrow> 'a list" where
  "ins_by after x [] = [x]"
| "ins_by after x (y # ys) = (if after x y then y # ins_by after x ys else x # y # ys)"

definition sort_by :: "('a \<Rightarrow> 'a \<Rightarrow> bool) \<Rightarrow> 'a list \<Rightarrow> 'a list" where
  "sort_by after xs = foldr (ins_by after) xs []"

definition conv_visible :: "ustr \<Rightarrow> ustr \<Rightarrow> bool" where
  "conv_visible wanted rowIdentity \<longleftrightarrow>
     (if wanted \<noteq> js ''guest'' then rowIdentity = [] \<or> rowIdentity = wanted else rowIdentity = [] \<or> rowIdentity = js ''guest'')"

definition conv_row :: "env \<Rightarrow> local_time \<Rightarrow> lstore \<Rightarrow> ustr \<Rightarrow> ustr \<Rightarrow> conv option" where
  "conv_row e lt st wanted sid =
     (let sessionId = trim sid; items = getChatHistoryItems e st sessionId;
          meta = object_or_empty (obj_get (readChatSessionMetaMap e st) sessionId);
          rowIdentity = normalizeIdentityKey (js_or (fld meta ''identityKey'') (JStr []));
          updatedAt = str_or_empty (fld meta ''updatedAt''); createdAt = str_or_empty (fld meta ''createdAt'');
          ms = (if parseDateMs e (JStr updatedAt) \<noteq> 0 then parseDateMs e (JStr updatedAt) else parseDateMs e (JStr createdAt))
      in if sessionId = [] \<or> \<not> conv_visible wanted rowIdentity \<or>
            \<not> list_ex (\<lambda>x. it_who x = js ''assistant'' \<and> trim (it_text x) \<noteq> []) items then None
         else Some \<lparr>c_sid = sessionId,
           c_title = chatClipText (str_or_empty (js_ors [fld meta ''title'', JStr (text_of (first_user items)), JStr (text_of (last_item items)), JStr NEW_CHAT])) 72,
           c_preview = chatClipText (str_or_empty (js_ors [fld meta ''preview'', JStr (text_of (last_item items)), JStr []])) 110,
           c_time = formatConversationTime e lt (JStr (str_or updatedAt createdAt)), c_ms = ms,
           c_count = count_of (js_ors [fld meta ''messageCount'', JInt (int (length items)), JInt 0])\<rparr>)"

definition conv_after :: "(ustr \<Rightarrow> ustr \<Rightarrow> int) \<Rightarrow> conv \<Rightarrow> conv \<Rightarrow> bool" where
  "conv_after cmp a b \<longleftrightarrow> (if c_ms b \<noteq> c_ms a then c_ms a < c_ms b else 0 < cmp (c_sid b) (c_sid a))"

definition collectConversationRowsForIdentity ::
  "env \<Rightarrow> local_time \<Rightarrow> (ustr \<Rightarrow> ustr \<Rightarrow> int) \<Rightarrow> ustr \<Rightarrow> lstore \<Rightarrow> conv list" where
  "collectConversationRowsForIdentity e lt cmp identityKey st =
     (let wanted = str_or (normalizeIdentityKey (JStr (str_or identityKey (js ''guest'')))) (js ''guest'');
          ids = set_list (obj_keys (readChatHistoryMap e st) @ obj_keys (readChatSessionMetaMap e st))
      in take CHAT_CONV_LIST_MAX (sort_by (conv_after cmp) (List.map_filter (conv_row e lt st wanted) ids)))"

end
