(* ===== verification/Panel_Store_Contract.thy ===== *)
theory Panel_Store_Contract
  imports Panel_Store
begin

section \<open>What the kept conversations promise\<close>

subsection \<open>JSON objects under their keys\<close>

lemma str_or_empty_JStr [simp]: "str_or_empty (JStr s) = s"
  by (cases s) (simp_all add: str_or_empty_def js_or_def)

lemma read_write [simp]:
  "readJsonObjectLS e (writeJsonObjectLS k m st) k' = (if js k' = js k then m else readJsonObjectLS e st k')"
  by (simp add: readJsonObjectLS_def writeJsonObjectLS_def ls_item_def ls_set_def)

lemma map_reads [simp]:
  "readChatHistoryMap e (writeChatHistoryMap m st) = m"
  "readChatHistoryMap e (writeChatSessionMetaMap m st) = readChatHistoryMap e st"
  "readChatHistoryMap e (writeJsonObjectLS ''sttChatDbCursorV1'' m st) = readChatHistoryMap e st"
  "readChatSessionMetaMap e (writeChatSessionMetaMap m st) = m"
  "readChatSessionMetaMap e (writeChatHistoryMap m st) = readChatSessionMetaMap e st"
  "readChatSessionMetaMap e (writeJsonObjectLS ''sttChatDbCursorV1'' m st) = readChatSessionMetaMap e st"
  "readJsonObjectLS e (writeChatHistoryMap m st) ''sttChatDbCursorV1'' = readJsonObjectLS e st ''sttChatDbCursorV1''"
  "readJsonObjectLS e (writeChatSessionMetaMap m st) ''sttChatDbCursorV1'' = readJsonObjectLS e st ''sttChatDbCursorV1''"
  by (simp_all add: readChatHistoryMap_def writeChatHistoryMap_def readChatSessionMetaMap_def writeChatSessionMetaMap_def)

lemma obj_get_del [simp]: "obj_get (obj_del o' k) k' = (if k' = k then JUndef else obj_get o' k')"
  by (simp add: obj_get_def)

subsection \<open>Messages\<close>

definition last_n :: "nat \<Rightarrow> 'a list \<Rightarrow> 'a list" where
  "last_n n xs = drop (length xs - n) xs"

definition item_ok :: "item \<Rightarrow> bool" where
  "item_ok x \<longleftrightarrow> it_who x \<in> {js ''assistant'', js ''user''} \<and> trim (it_text x) \<noteq> []"

lemma item_back: "item_ok x \<Longrightarrow> item_of (item_val x) = x"
  by (cases x) (auto simp: item_ok_def item_of_def item_val_def)

lemma item_of_ok: "trim (it_text (item_of x)) \<noteq> [] \<Longrightarrow> item_ok (item_of x)"
  by (simp add: item_ok_def item_of_def)

lemma read_items_ok: "list_all item_ok (getChatHistoryItems e st sid)"
  by (auto simp: getChatHistoryItems_def Let_def list_all_iff item_of_ok split: jsval.split)

lemma items_after_save:
  assumes "list_all item_ok xs" and "trim sid \<noteq> []"
  shows "getChatHistoryItems e (saveChatHistoryItems e sid xs st) sid = last_n CHAT_HISTORY_MAX xs"
proof -
  let ?n = "last_n CHAT_HISTORY_MAX xs"
  have n: "list_all item_ok ?n" using assms(1) by (auto simp: last_n_def list_all_iff dest: in_set_dropD)
  then have "map item_of (map item_val ?n) = ?n" by (auto simp: list_all_iff item_back intro: map_idI)
  moreover have "filter (\<lambda>x. trim (it_text x) \<noteq> []) ?n = ?n" using n by (auto simp: list_all_iff item_ok_def)
  ultimately show ?thesis
    using assms(2) by (simp add: getChatHistoryItems_def saveChatHistoryItems_def Let_def last_n_def [symmetric] del: map_map)
qed

lemma items_of_others:
  assumes "trim sid' \<noteq> trim sid"
  shows "getChatHistoryItems e (saveChatHistoryItems e sid xs st) sid' = getChatHistoryItems e st sid'"
  using assms by (simp add: getChatHistoryItems_def saveChatHistoryItems_def Let_def)

lemma touch_keeps_history:
  assumes "run_state (touchChatSessionMetaFromItems e sid arr i t st) w = (st', w')"
  shows "readChatHistoryMap e st' = readChatHistoryMap e st"
  using assms by (auto simp: touchChatSessionMetaFromItems_def upsertChatSessionMeta_def Let_def split: if_splits prod.splits)

lemma items_eq: "readChatHistoryMap e st' = readChatHistoryMap e st \<Longrightarrow> getChatHistoryItems e st' sid = getChatHistoryItems e st sid"
  unfolding getChatHistoryItems_def by (erule ssubst) (rule refl)

definition message :: "ustr \<Rightarrow> ustr \<Rightarrow> ustr \<Rightarrow> item" where
  "message who msg meta =
     \<lparr>it_who = (if who = js ''assistant'' then js ''assistant'' else js ''user''), it_text = trim msg, it_meta = meta\<rparr>"

lemma items_trim: "getChatHistoryItems e s (trim sid) = getChatHistoryItems e s sid"
  by (simp add: getChatHistoryItems_def)

lemma push_items:
  assumes "trim msg \<noteq> []" and "trim sid \<noteq> []" and run: "run_state (push_item e who msg meta sid identity hint st) w = (st', w')"
  shows "getChatHistoryItems e st' sid' =
    (if trim sid' = trim sid then last_n CHAT_HISTORY_MAX (getChatHistoryItems e st sid @ [message who msg meta])
     else getChatHistoryItems e st sid')"
proof -
  let ?arr = "getChatHistoryItems e st (trim sid) @ [message who msg meta]"
  from run have "readChatHistoryMap e st' = readChatHistoryMap e (saveChatHistoryItems e (trim sid) ?arr st)"
    using assms by (auto simp: push_item_def Let_def message_def dest: touch_keeps_history)
  note eq = items_eq [OF this]
  have "list_all item_ok ?arr" using assms read_items_ok by (simp add: item_ok_def message_def)
  with assms have "getChatHistoryItems e st' (trim sid) = last_n CHAT_HISTORY_MAX ?arr"
    by (simp add: eq items_after_save)
  with assms show ?thesis using items_trim [of e st' sid'] items_trim [of e st' sid]
    by (cases "trim sid' = trim sid") (simp_all add: items_trim eq items_of_others)
qed

text \<open>A message that was kept is read back at the end of its session, the oldest of more than 120 are
  dropped, no other session changes; a blank message changes nothing.\<close>

lemma history_roundtrip:
  "case run_state (push_item e who msg meta sid identity hint st) w of (st', w' :: world) \<Rightarrow>
     if trim msg = [] \<or> trim sid = [] then st' = st
     else getChatHistoryItems e st' sid = last_n CHAT_HISTORY_MAX (getChatHistoryItems e st sid @ [message who msg meta]) \<and>
          (\<forall>sid'. if trim sid' = trim sid then True else getChatHistoryItems e st' sid' = getChatHistoryItems e st sid')"
proof (cases "trim msg = [] \<or> trim sid = []")
  case True
  then show ?thesis by (auto simp: push_item_def Let_def)
next
  case False
  obtain st' w' where run: "run_state (push_item e who msg meta sid identity hint st) w = (st', w')" by fastforce
  show ?thesis using False push_items [OF _ _ run] by (simp add: run)
qed

subsection \<open>Deleting a conversation\<close>

lemma cursor_clear:
  assumes "clearChatDbCursorStateByLocalSession e sid st = (b, st')"
  shows "readChatHistoryMap e st' = readChatHistoryMap e st" and "readChatSessionMetaMap e st' = readChatSessionMetaMap e st"
    and "trim sid \<noteq> [] \<Longrightarrow> readJsonObjectLS e st' ''sttChatDbCursorV1'' =
      filter (\<lambda>p. \<not> endsWith (fst p) (js ''::'' @ trim sid)) (readJsonObjectLS e st ''sttChatDbCursorV1'')"
  using assms by (auto simp: clearChatDbCursorStateByLocalSession_def Let_def list_all_iff split: if_splits)

lemma obj_del_absent: "k \<notin> set (obj_keys o') \<Longrightarrow> obj_del o' k = o'"
  by (auto simp: obj_del_def obj_keys_def intro!: filter_True)

lemma delete_maps:
  assumes "deleteChatConversationData e sid st = (b, st')" and "trim sid \<noteq> []"
  shows "readChatHistoryMap e st' = obj_del (readChatHistoryMap e st) (trim sid)"
    and "readChatSessionMetaMap e st' = obj_del (readChatSessionMetaMap e st) (trim sid)"
    and "readJsonObjectLS e st' ''sttChatDbCursorV1'' =
      filter (\<lambda>p. \<not> endsWith (fst p) (js ''::'' @ trim sid)) (readJsonObjectLS e st ''sttChatDbCursorV1'')"
  using assms
  by (auto simp: deleteChatConversationData_def Let_def obj_del_absent split: prod.splits if_splits dest: cursor_clear)

text \<open>Deleting a conversation removes its messages, its description and every cursor to its rows in the
  database, and leaves all other conversations and their cursors as they are.\<close>

lemma delete_conversation:
  "case deleteChatConversationData e sid st of (b, st') \<Rightarrow>
     if trim sid = [] then st' = st
     else getChatHistoryItems e st' sid = [] \<and> trim sid \<notin> set (obj_keys (readChatSessionMetaMap e st')) \<and>
       list_all (\<lambda>p. \<not> endsWith (fst p) (js ''::'' @ trim sid)) (readJsonObjectLS e st' ''sttChatDbCursorV1'') \<and>
       (\<forall>sid'. if trim sid' = trim sid then True
          else getChatHistoryItems e st' sid' = getChatHistoryItems e st sid' \<and>
            obj_get (readChatSessionMetaMap e st') (trim sid') = obj_get (readChatSessionMetaMap e st) (trim sid')) \<and>
       (\<forall>k. if endsWith k (js ''::'' @ trim sid) then True
          else obj_get (readJsonObjectLS e st' ''sttChatDbCursorV1'') k = obj_get (readJsonObjectLS e st ''sttChatDbCursorV1'') k)"
proof (cases "trim sid = []")
  case True
  then show ?thesis by (simp add: deleteChatConversationData_def split: prod.split)
next
  case False
  obtain b st' where run: "deleteChatConversationData e sid st = (b, st')" by fastforce
  note maps = delete_maps [OF run False]
  have "map_of (filter (\<lambda>p. \<not> endsWith (fst p) s) m) k = map_of m k" if "\<not> endsWith k s" for m :: jobj and s k
    using that by (induction m) auto
  moreover have "trim sid \<notin> set (obj_keys (obj_del m (trim sid)))" for m :: jobj by (auto simp: obj_keys_def obj_del_def)
  ultimately show ?thesis
    using False by (auto simp: run maps getChatHistoryItems_def Let_def list_all_iff obj_get_def)
qed

subsection \<open>The list of conversations\<close>

lemma sort_by_set [simp]: "set (sort_by after xs) = set xs"
proof -
  have "set (ins_by after x ys) = insert x (set ys)" for x ys by (induction ys) auto
  then show ?thesis by (induction xs) (simp_all add: sort_by_def)
qed

lemma guarded_Some: "(if c then None else Some x) = Some r \<longleftrightarrow> \<not> c \<and> x = r"
  by auto

lemma conv_row_Some:
  assumes "conv_row e lt st wanted sid = Some r"
  shows "c_sid r = trim sid"
    and "conv_visible wanted (normalizeIdentityKey (fld (obj_get (readChatSessionMetaMap e st) (c_sid r)) ''identityKey''))"
    and "list_ex (\<lambda>x. it_who x = js ''assistant'' \<and> trim (it_text x) \<noteq> []) (getChatHistoryItems e st (c_sid r))"
proof -
  have falsy: "normalizeIdentityKey (js_or v (JStr [])) = normalizeIdentityKey v" for v
    by (simp add: normalizeIdentityKey_def str_or_empty_def js_or_def)
  have obj: "fld (object_or_empty v) k = fld v k" for v k by (cases v) (simp_all add: object_or_empty_def)
  note facts = assms [unfolded conv_row_def Let_def guarded_Some obj falsy]
  show sid: "c_sid r = trim sid" using arg_cong [OF conjunct2 [OF facts], of c_sid] by (simp only: conv.select_convs)
  show "conv_visible wanted (normalizeIdentityKey (fld (obj_get (readChatSessionMetaMap e st) (c_sid r)) ''identityKey''))"
    unfolding sid using facts by blast
  show "list_ex (\<lambda>x. it_who x = js ''assistant'' \<and> trim (it_text x) \<noteq> []) (getChatHistoryItems e st (c_sid r))"
    unfolding sid using facts by blast
qed

lemma row_origin:
  assumes "r \<in> set (collectConversationRowsForIdentity e lt cmp identity st)"
  shows "\<exists>sid. conv_row e lt st (str_or (normalizeIdentityKey (JStr (str_or identity (js ''guest'')))) (js ''guest'')) sid = Some r"
  using assms unfolding collectConversationRowsForIdentity_def Let_def
  by - (drule in_set_takeD, auto simp: List.map_filter_def simp del: str_or_empty_JStr intro: exI)

text \<open>Property C30: a user sees at most 80 conversations, each with an answer of the assistant, and none that is
  described as another user's.\<close>

theorem conversations_isolated:
  "length (collectConversationRowsForIdentity e lt cmp identity st) \<le> 80 \<and>
   list_all (\<lambda>r. list_ex (\<lambda>x. it_who x = js ''assistant'') (getChatHistoryItems e st (c_sid r)) \<and>
      normalizeIdentityKey (fld (obj_get (readChatSessionMetaMap e st) (c_sid r)) ''identityKey'') \<in>
        {[], str_or (normalizeIdentityKey (JStr (str_or identity (js ''guest'')))) (js ''guest'')})
     (collectConversationRowsForIdentity e lt cmp identity st)"
proof -
  let ?w = "str_or (normalizeIdentityKey (JStr (str_or identity (js ''guest'')))) (js ''guest'')"
  have row: "list_ex (\<lambda>x. it_who x = js ''assistant'') (getChatHistoryItems e st (c_sid r)) \<and>
      normalizeIdentityKey (fld (obj_get (readChatSessionMetaMap e st) (c_sid r)) ''identityKey'') \<in> {[], ?w}"
    if "conv_row e lt st ?w sid = Some r" for sid r
    using conv_row_Some [OF that] by (auto simp: conv_visible_def list_ex_iff split: if_splits)
  have "list_all (\<lambda>r. list_ex (\<lambda>x. it_who x = js ''assistant'') (getChatHistoryItems e st (c_sid r)) \<and>
      normalizeIdentityKey (fld (obj_get (readChatSessionMetaMap e st) (c_sid r)) ''identityKey'') \<in> {[], ?w})
     (collectConversationRowsForIdentity e lt cmp identity st)"
    unfolding list_all_iff using row row_origin by blast
  then show ?thesis by (simp add: collectConversationRowsForIdentity_def CHAT_CONV_LIST_MAX_def)
qed

text \<open>A conversation whose description was pruned has no owner, and is listed for everybody.\<close>

lemma undescribed_visible:
  assumes "obj_get (readChatSessionMetaMap e st) (trim sid) = JUndef" and "trim sid \<noteq> []"
    and "list_ex (\<lambda>x. it_who x = js ''assistant'' \<and> trim (it_text x) \<noteq> []) (getChatHistoryItems e st (trim sid))"
  shows "conv_row e lt st wanted sid \<noteq> None"
  using assms by (simp add: conv_row_def Let_def object_or_empty_def normalizeIdentityKey_def str_or_empty_def conv_visible_def js_or_def toLowerCase_def)

lemma length_filter_neq: "distinct xs \<Longrightarrow> k \<in> set xs \<Longrightarrow> length (filter (\<lambda>x. x \<noteq> k) xs) + 1 = length xs"
  by (induction xs) (auto intro!: arg_cong [where f = length] filter_True)

lemma del_keys: "obj_keys (obj_del m k) = filter (\<lambda>x. x \<noteq> k) (obj_keys m)"
  by (induction m) (auto simp: obj_del_def)

lemma length_keys: "length (obj_keys m) = length m"
  by (simp add: obj_keys_def)

lemma foldl_del_length:
  "distinct ks \<Longrightarrow> set ks \<subseteq> set (obj_keys m) \<Longrightarrow> distinct (obj_keys m) \<Longrightarrow>
   length (foldl obj_del m ks) + length ks = length (m :: jobj)"
proof (induction ks arbitrary: m)
  case (Cons k ks)
  have "length (obj_del m k) + 1 = length m"
    using length_filter_neq [OF Cons.prems(3), of k] Cons.prems(2) by (simp add: del_keys flip: length_keys)
  moreover have "length (foldl obj_del (obj_del m k) ks) + length ks = length (obj_del m k)"
    using Cons.prems by (intro Cons.IH) (auto simp: del_keys)
  ultimately show ?case by simp
qed simp

lemma prune_bound:
  assumes "distinct (obj_keys m)"
  shows "length (prune_meta e m) \<le> MAX_META"
proof (cases "MAX_META < length m")
  case True
  define ks where "ks = sort_key (\<lambda>k. - parseDateMs e (fld (obj_get m k) ''updatedAt'')) (obj_keys m)"
  have "set (drop MAX_META ks) \<subseteq> set (obj_keys m)" using set_drop_subset [of MAX_META ks] by (simp add: ks_def)
  moreover have "length ks = length m" "distinct ks" using assms by (simp_all add: ks_def length_keys)
  ultimately show ?thesis
    using foldl_del_length [of "drop MAX_META ks" m] assms True by (simp add: prune_meta_def flip: ks_def)
qed (simp add: prune_meta_def)

end
