(* ===== verification/Panel_Address.thy ===== *)
theory Panel_Address
  imports Panel_Store_Contract
begin

section \<open>sidepanel.js: the addresses of the servers\<close>

text \<open>
  The side panel takes the addresses of its servers from \<open>localStorage\<close> and repairs them as the service
  worker does.  The parts of a URL a text and its copy \<open>new URL(u.toString())\<close> have are the same.
\<close>

definition DEFAULT_WS :: ustr where
  "DEFAULT_WS = js ''ws://localhost:8765''"

definition DEFAULT_TRANS_WS :: ustr where
  "DEFAULT_TRANS_WS = js ''ws://localhost:8766''"

definition DEFAULT_API :: ustr where
  "DEFAULT_API = js ''http://127.0.0.1:8000''"

definition getServer :: "env \<Rightarrow> lstore \<Rightarrow> ustr" where
  "getServer e st = str_or (trim (ls_text e st ''sttServerWs'')) DEFAULT_WS"

definition deriveTranslatorServerFromStt :: "env \<Rightarrow> ustr \<Rightarrow> ustr" where
  "deriveTranslatorServerFromStt e sttServer =
     (case e_url e (trim sttServer) of
        None \<Rightarrow> []
      | Some u0 \<Rightarrow>
          (case e_url e (e_urlstr e u0) of
             None \<Rightarrow> []
           | Some u \<Rightarrow>
               (let p = str_or (u_pathname u) (js ''/'') in
                if isLocalHost (u_hostname u) \<and> u_port u = js ''8765''
                then e_urlstr e (u\<lparr>u_port := js ''8766'', u_pathname := (if stt_path p then to_tr_path p else u_pathname u),
                                  u_search := [], u_hash := []\<rparr>)
                else e_urlstr e (u\<lparr>u_pathname := (if stt_path p then to_tr_path p else if p = js ''/'' then js ''/tr'' else u_pathname u),
                                  u_search := [], u_hash := []\<rparr>))))"

definition getTranslatorServer :: "env \<Rightarrow> lstore \<Rightarrow> ustr" where
  "getTranslatorServer e st =
     (let v = trim (ls_text e st ''sttTranslatorWs'') in
      if v \<noteq> [] then v else str_or (deriveTranslatorServerFromStt e (getServer e st)) DEFAULT_TRANS_WS)"

definition normalizeHttpBaseUrl :: "env \<Rightarrow> ustr \<Rightarrow> ustr" where
  "normalizeHttpBaseUrl e raw =
     (let input = trim raw in
      if input = [] then []
      else if parseOne e input \<noteq> [] then parseOne e input
      else if \<not> has_scheme input \<and> parseOne e (js ''https://'' @ input) \<noteq> [] then parseOne e (js ''https://'' @ input)
      else normalizePath input)"

definition getApiBase :: "env \<Rightarrow> lstore \<Rightarrow> ustr" where
  "getApiBase e st =
     (let rawStored = trim (ls_text e st ''sttChatApiBase'') in
      if rawStored = [] then DEFAULT_API
      else str_or (normalizeHttpBaseUrl e rawStored) (strip_slashes rawStored))"

subsection \<open>The addresses of the panel and of the worker\<close>

text \<open>A text that parses is repaired in the same way; of one that does not, the panel also cuts the paths of the documentation.\<close>

lemma bases_agree:
  "normalizeHttpBaseUrl e s = (let w = normalizeHttpApiBase e (JStr s) in
     if trim s = [] \<or> parseOne e (trim s) \<noteq> [] \<or> (\<not> has_scheme (trim s) \<and> parseOne e (js ''https://'' @ trim s) \<noteq> []) then w
     else normalizePath (trim s))"
  by (simp add: normalizeHttpBaseUrl_def normalizeHttpApiBase_def Let_def)

text \<open>Browsers print a URL so that parsing gives it back.\<close>

lemma derived_agree:
  assumes "\<And>s u. e_url e s = Some u \<Longrightarrow> e_url e (e_urlstr e u) = Some u"
  shows "deriveTranslatorServerFromStt e s = deriveTranslatorUrlFromServer e (trim s)"
  using assms [of "trim s"]
  by (cases "e_url e (trim s)") (simp_all add: deriveTranslatorServerFromStt_def deriveTranslatorUrlFromServer_def)

end
