(* ===== verification/Panel_Rag.thy ===== *)
theory Panel_Rag
  imports Panel_Store_Contract
begin

section \<open>sidepanel.js: transcripts as the context of a question\<close>

text \<open>
  The user picks transcripts of the history as sources of the chat.  The picker keeps the listed
  sessions, the selected and the pinned ids, and the details read so far; the pinned ones give the
  block of text that goes with a question.  \<open>rg_open\<close>: the picker has the class \<open>is-open\<close>.  \<open>rg_inflight\<close>
  holds the details that are on their way: a promise is the value it will have.  Ids are numbers; a \<open>Set\<close> is a list without duplicates in the
  order of insertion.
\<close>

definition RAG_CONTEXT_PER_ITEM_MAX :: nat where
  "RAG_CONTEXT_PER_ITEM_MAX = 2400"

definition RAG_CONTEXT_TOTAL_MAX :: nat where
  "RAG_CONTEXT_TOTAL_MAX = 9000"

subsection \<open>Rows as texts\<close>

definition item_id :: "jsval \<Rightarrow> jnum" where
  "item_id it = to_num (js_or (fld it ''id'') (JInt 0))"

definition ragToDateOrNull :: "env \<Rightarrow> jsval \<Rightarrow> rat option" where
  "ragToDateOrNull e v = e_dateparse e (str_or_empty v)"

definition ragFormatDateTime :: "env \<Rightarrow> local_time \<Rightarrow> jsval \<Rightarrow> ustr" where
  "ragFormatDateTime e lt v =
     (case ragToDateOrNull e v of
        None \<Rightarrow> js ''N/A''
      | Some t \<Rightarrow> (case lt t of (y, mo, d, h, m, s) \<Rightarrow>
          pad h @ js '':'' @ pad m @ js '' '' @ pad d @ js ''/'' @ pad (mo + 1) @ js ''/'' @ nat_str y))"

definition ragCalcDurationMs :: "env \<Rightarrow> jsval \<Rightarrow> rat prog" where
  "ragCalcDurationMs e it =
     (case e_dateparse e (str_or_empty (fld it ''started_at'')) of
        None \<Rightarrow> ret 0
      | Some startMs \<Rightarrow> do {
          endRaw \<leftarrow> (if truthy (fld it ''ended_at'') then ret (fld it ''ended_at'')
                    else if truthy (fld it ''last_updated_at'') then ret (fld it ''last_updated_at'')
                    else do { t \<leftarrow> now_iso e; ret (JStr t) });
          ret (case e_dateparse e (str_or_empty endRaw) of None \<Rightarrow> 0 | Some endMs \<Rightarrow> max 0 (endMs - startMs)) })"

definition ragFormatDurationMs :: "rat \<Rightarrow> ustr" where
  "ragFormatDurationMs ms =
     (let secs = nat \<lfloor>ms / 1000\<rfloor>; h = secs div 3600; m = secs mod 3600 div 60; s = secs mod 60
      in pad h @ js '':'' @ pad m @ js '':'' @ pad s)"

definition ragDomainFrom :: "env \<Rightarrow> jsval \<Rightarrow> ustr" where
  "ragDomainFrom e it =
     (let domain = trim (str_or_empty (fld it ''tab_domain'')) in
      if domain \<noteq> [] then domain
      else case e_url e (str_or_empty (fld it ''tab_url'')) of
             None \<Rightarrow> js ''Unknown website''
           | Some u \<Rightarrow> str_or (u_hostname u) (js ''Unknown website''))"

definition ragStatusLabel :: "jsval \<Rightarrow> ustr" where
  "ragStatusLabel raw =
     (let s = toLowerCase (str_or_empty raw) in
      if s = js ''running'' then [272] @ js ''ang ch'' @ [7841] @ js ''y''
      else if s = js ''stopped'' then [272, 227] @ js '' d'' @ [7915] @ js ''ng''
      else str_or s (js ''N/A''))"

definition hasTextValue :: "jsval \<Rightarrow> bool" where
  "hasTextValue v \<longleftrightarrow> (case v of JStr s \<Rightarrow> trim s \<noteq> [] | _ \<Rightarrow> False)"

definition pickTranscriptText :: "jsval \<Rightarrow> ustr \<Rightarrow> ustr" where
  "pickTranscriptText it detailText =
     (case find hasTextValue (JStr detailText # map (fld it) [''preview_text'', ''latest_text_en'', ''latest_text_vi'',
         ''latest_text'', ''text_en'', ''text_vi'', ''text'']) of
        None \<Rightarrow> [] | Some v \<Rightarrow> to_str v)"

definition UPDATING_TEXT :: ustr where
  "UPDATING_TEXT = [272] @ js ''ang c'' @ [7853] @ js ''p nh'' @ [7853] @ js ''t transcript...''"

definition ragNormalizePreview :: "ustr \<Rightarrow> nat \<Rightarrow> ustr" where
  "ragNormalizePreview s maxLen =
     (let clean = collapse_ws s in
      if clean = [] then UPDATING_TEXT
      else if length clean \<le> maxLen then clean
      else take (maxLen - 3) clean @ js ''...'')"

text \<open>\<open>slice(0, maxLen - 3)\<close> with the lengths the code gives it, none below 3.\<close>

definition rag_time :: "env \<Rightarrow> jsval \<Rightarrow> rat" where
  "rag_time e r = (case e_dateparse e (to_str (js_ors [fld r ''started_at'', fld r ''last_updated_at'', JStr []])) of None \<Rightarrow> 0 | Some t \<Rightarrow> t)"

definition rag_after :: "env \<Rightarrow> jsval \<Rightarrow> jsval \<Rightarrow> bool" where
  "rag_after e a b \<longleftrightarrow>
     (if rag_time e b \<noteq> rag_time e a then rag_time e a < rag_time e b
      else jlt (item_id a) (item_id b))"

definition ragSortSessionsDesc :: "env \<Rightarrow> jsval list \<Rightarrow> jsval list" where
  "ragSortSessionsDesc e rows = sort_by (rag_after e) rows"

definition rag_clipText :: "ustr \<Rightarrow> nat \<Rightarrow> ustr" where
  "rag_clipText s maxLen = (if length s \<le> maxLen then s else take (maxLen - 3) s @ js ''...'')"

subsection \<open>The picker\<close>

record detail =
  d_ok :: bool
  d_code :: string
  d_item :: jsval
  d_full :: ustr

record rag =
  rg_loaded :: bool
  rg_loading :: bool
  rg_open :: bool
  rg_items :: "jsval list"
  rg_filtered :: "jsval list"
  rg_selected :: "jnum list"
  rg_pinned :: "jnum list"
  rg_details :: "(jnum \<times> detail) list"
  rg_inflight :: "(jnum \<times> detail) list"
  rg_search :: ustr

definition set_add :: "'a list \<Rightarrow> 'a \<Rightarrow> 'a list" where
  "set_add xs x = (if x \<in> set xs then xs else xs @ [x])"

definition syncRagSelectionSets :: "rag \<Rightarrow> rag" where
  "syncRagSelectionSets g =
     (let ids = map item_id (rg_items g) in
      g\<lparr>rg_selected := filter (\<lambda>i. i \<in> set ids) (rg_selected g), rg_pinned := filter (\<lambda>i. i \<in> set ids) (rg_pinned g)\<rparr>)"

definition rag_detail_text :: "rag \<Rightarrow> jnum \<Rightarrow> ustr" where
  "rag_detail_text g i = (case map_of (rg_details g) i of None \<Rightarrow> [] | Some d \<Rightarrow> d_full d)"

definition rag_matches :: "rag \<Rightarrow> ustr \<Rightarrow> jsval \<Rightarrow> bool" where
  "rag_matches g q it \<longleftrightarrow>
     str_includes (toLowerCase (join (js '' '') [str_or_empty (fld it ''tab_domain''), str_or_empty (fld it ''tab_url''),
        pickTranscriptText it (rag_detail_text g (item_id it)), str_or_empty (fld it ''status'')])) q"

definition applyRagFilter :: "rag \<Rightarrow> rag" where
  "applyRagFilter g =
     (let q = toLowerCase (trim (rg_search g)) in
      g\<lparr>rg_filtered := (if q = [] then rg_items g else filter (rag_matches g q) (rg_items g))\<rparr>)"

definition findRagItem :: "rag \<Rightarrow> jnum \<Rightarrow> jsval option" where
  "findRagItem g sid = (if \<not> truthy (JNum sid) then None else find (\<lambda>x. item_id x = sid) (rg_items g))"

definition base_item :: "rag \<Rightarrow> jnum \<Rightarrow> jsval" where
  "base_item g sid = (case findRagItem g sid of None \<Rightarrow> JObj [(js ''id'', JNum sid)] | Some it \<Rightarrow> it)"

definition resetRagPickerState :: "rag \<Rightarrow> rag" where
  "resetRagPickerState g =
     \<lparr>rg_loaded = False, rg_loading = False, rg_open = False, rg_items = [], rg_filtered = [], rg_selected = [], rg_pinned = [],
      rg_details = [], rg_inflight = [], rg_search = []\<rparr>"

definition toggleRagSelected :: "jnum \<Rightarrow> bool \<Rightarrow> rag \<Rightarrow> rag" where
  "toggleRagSelected sid checked g =
     (if \<not> truthy (JNum sid) then g
      else if checked then g\<lparr>rg_selected := set_add (rg_selected g) sid\<rparr>
      else g\<lparr>rg_selected := filter (\<lambda>i. i \<noteq> sid) (rg_selected g)\<rparr>)"

text \<open>Pinning and removing also set the switch of the chat: the second part of the result.\<close>

definition pinSelectedRagSources :: "rag \<Rightarrow> rag \<times> bool" where
  "pinSelectedRagSources g = (let g' = g\<lparr>rg_pinned := rg_selected g, rg_open := False\<rparr> in (g', rg_pinned g' \<noteq> []))"

definition removeRagSource :: "jnum \<Rightarrow> rag \<Rightarrow> rag \<times> bool option" where
  "removeRagSource sid g =
     (if \<not> truthy (JNum sid) then (g, None)
      else (let g' = g\<lparr>rg_selected := filter (\<lambda>i. i \<noteq> sid) (rg_selected g), rg_pinned := filter (\<lambda>i. i \<noteq> sid) (rg_pinned g)\<rparr>
            in (g', Some (rg_pinned g' \<noteq> []))))"

subsection \<open>The block of pinned transcripts\<close>

text \<open>\<open>replace(/\r/g, '\n').replace(/\n{3,}/g, '\n\n').trim()\<close>.\<close>

definition tidy_full :: "ustr \<Rightarrow> ustr" where
  "tidy_full s =
     trim (replace_all (RSeq (RRep 3 (\<lambda>c. c = 10)) (RStar (\<lambda>c. c = 10))) (\<lambda>_. [10, 10]) (map (\<lambda>c. if c = 13 then 10 else c) s))"

definition source_text :: "detail option \<Rightarrow> jsval \<Rightarrow> ustr" where
  "source_text d it =
     tidy_full (str_or (case d of None \<Rightarrow> [] | Some d \<Rightarrow> if d_ok d then d_full d else []) (pickTranscriptText it []))"

text \<open>The loop: the texts so far, their used length, and the sources left.\<close>

fun context_parts :: "env \<Rightarrow> local_time \<Rightarrow> nat \<Rightarrow> nat \<Rightarrow> (detail option \<times> jsval) list \<Rightarrow> (ustr \<times> ustr) list" where
  "context_parts e lt n used [] = []"
| "context_parts e lt n used ((d, it) # r) =
     (if RAG_CONTEXT_TOTAL_MAX \<le> used then []
      else (let full = source_text d it; clipped = rag_clipText full RAG_CONTEXT_PER_ITEM_MAX;
                remain = RAG_CONTEXT_TOTAL_MAX - used;
                usable = (if remain < length clipped then rag_clipText clipped remain else clipped)
            in if full = [] \<or> usable = [] then context_parts e lt n used r
               else (js ''[Transcript '' @ nat_str (n + 1) @ js ''] '' @ ragDomainFrom e it @ js '' | '' @
                       ragFormatDateTime e lt (fld it ''started_at''), usable)
                    # context_parts e lt (n + 1) (used + length usable) r))"

definition context_block :: "(ustr \<times> ustr) list \<Rightarrow> ustr" where
  "context_block parts = join [10, 10] (map (\<lambda>(h, t). h @ [10] @ t) parts)"

subsection \<open>Bounds\<close>

lemma rag_clip_length: "length (rag_clipText s n) \<le> max n 3"
  by (auto simp: rag_clipText_def)

lemma context_parts_bound:
  "used \<le> RAG_CONTEXT_TOTAL_MAX + 2 \<Longrightarrow>
   list_all (\<lambda>p. snd p \<noteq> [] \<and> length (snd p) \<le> RAG_CONTEXT_PER_ITEM_MAX) (context_parts e lt n used ds) \<and>
   used + length (concat (map snd (context_parts e lt n used ds))) \<le> RAG_CONTEXT_TOTAL_MAX + 2"
proof (induction e lt n used ds rule: context_parts.induct)
  case (2 e lt n used d it r)
  let ?full = "source_text d it" and ?remain = "RAG_CONTEXT_TOTAL_MAX - used"
  let ?c = "rag_clipText ?full RAG_CONTEXT_PER_ITEM_MAX"
  let ?u = "if ?remain < length ?c then rag_clipText ?c ?remain else ?c"
  show ?case
  proof (cases "RAG_CONTEXT_TOTAL_MAX \<le> used \<or> ?full = [] \<or> ?u = []")
    case True
    with 2 show ?thesis by (auto simp: Let_def)
  next
    case False
    have c: "length ?c \<le> RAG_CONTEXT_PER_ITEM_MAX"
      using rag_clip_length [of ?full RAG_CONTEXT_PER_ITEM_MAX] by (simp add: RAG_CONTEXT_PER_ITEM_MAX_def)
    have u: "length ?u \<le> max ?remain 3" using rag_clip_length [of ?c ?remain] by auto
    then have tot: "used + length ?u \<le> RAG_CONTEXT_TOTAL_MAX + 2" using False by (auto simp: max_def split: if_splits)
    have len: "length ?u \<le> RAG_CONTEXT_PER_ITEM_MAX"
      using c rag_clip_length [of ?c ?remain] by (auto simp: RAG_CONTEXT_PER_ITEM_MAX_def max_def split: if_splits)
    have IH: "list_all (\<lambda>p. snd p \<noteq> [] \<and> length (snd p) \<le> RAG_CONTEXT_PER_ITEM_MAX) (context_parts e lt (n + 1) (used + length ?u) r) \<and>
      used + length ?u + length (concat (map snd (context_parts e lt (n + 1) (used + length ?u) r))) \<le> RAG_CONTEXT_TOTAL_MAX + 2"
      using 2(2) [OF _ refl refl refl refl _ tot] False by simp
    show ?thesis using False IH len by (simp add: Let_def)
  qed
qed simp

text \<open>Property C40: the transcripts that go with a question are at most as many as the pinned ones, none of them empty or
  longer than 2400 characters, all together at most 9002 (a last one that has to be cut keeps at least
  three dots).\<close>

theorem context_bounded:
  "let parts = context_parts e lt 0 0 ds in
   length parts \<le> length ds \<and> list_all (\<lambda>p. snd p \<noteq> [] \<and> length (snd p) \<le> 2400) parts \<and> length (concat (map snd parts)) \<le> 9002"
proof -
  have "length (context_parts e lt n used ds) \<le> length ds" for n used
    by (induction e lt n used ds rule: context_parts.induct) (auto simp: Let_def le_SucI)
  with context_parts_bound [of 0 e lt 0 ds] show ?thesis
    by (simp add: RAG_CONTEXT_PER_ITEM_MAX_def RAG_CONTEXT_TOTAL_MAX_def Let_def)
qed

end
