(* ===== verification/Panel_Prompt.thy ===== *)
theory Panel_Prompt
  imports Panel_Rag
begin

section \<open>sidepanel.js: what is asked of the chat server\<close>

text \<open>
  The question as it goes to the server, the test for an answer that answers nothing, and the
  snapshot of the transcript in progress that goes with a question.
\<close>

subsection \<open>The question\<close>

definition ABOUT_PATTERNS :: "ustr list" where
  "ABOUT_PATTERNS =
     [js ''n'' @ [7897] @ js ''i dung n'' @ [243] @ js ''i v'' @ [7873] @ js '' c'' @ [225] @ js ''i g'' @ [236],
      js ''trong b'' @ [224] @ js ''i n'' @ [243] @ js ''i v'' @ [7873] @ js '' c'' @ [225] @ js ''i g'' @ [236],
      js ''b'' @ [224] @ js ''i n'' @ [243] @ js ''i v'' @ [7873] @ js '' c'' @ [225] @ js ''i g'' @ [236],
      [273] @ js ''ang n'' @ [243] @ js ''i v'' @ [7873] @ js '' c'' @ [225] @ js ''i g'' @ [236],
      js ''n'' @ [7897] @ js ''i dung l'' @ [224] @ js '' g'' @ [236],
      js ''b'' @ [224] @ js ''i n'' @ [224] @ js ''y n'' @ [243] @ js ''i v'' @ [7873] @ js '' g'' @ [236],
      js ''talk about what'',
      js ''what is it about'',
      js ''what is the lecture about'']"

definition buildRagQuestionV1 :: ustr where
  "buildRagQuestionV1 =
     join [10]
      [js ''H'' @ [227] @ js ''y tr'' @ [7843] @ js '' l'' @ [7901] @ js ''i tr'' @ [7921] @ js ''c ti'' @
        [7871] @ js ''p d'' @ [7921] @ js ''a tr'' @ [234] @ js ''n c'' @ [225] @ js ''c '' @ [273] @ js ''o'' @
        [7841] @ js ''n transcript '' @ [273, 227] @ js '' '' @ [273, 432, 7907] @ js ''c truy xu'' @ [7845] @
        js ''t (RAG).'',
       js ''C'' @ [226] @ js ''u h'' @ [7887] @ js ''i: B'' @ [224] @ js ''i n'' @ [243] @ js ''i '' @ [273] @
        js ''ang n'' @ [243] @ js ''i v'' @ [7873] @ js '' ch'' @ [7911] @ js '' '' @ [273, 7873] @ js '' g'' @
        [236] @ js ''?'',
       js ''Y'' @ [234] @ js ''u c'' @ [7847] @ js ''u: 1 c'' @ [226] @ js ''u m'' @ [244] @ js '' t'' @ [7843] @
        js '' ch'' @ [7911] @ js '' '' @ [273, 7873] @ js '' + 3-6 g'' @ [7841] @ js ''ch '' @ [273, 7847] @
        js ''u d'' @ [242] @ js ''ng '' @ [253] @ js '' ch'' @ [237] @ js ''nh.'',
       js ''Kh'' @ [244] @ js ''ng h'' @ [7887] @ js ''i l'' @ [7841] @ js ''i ng'' @ [432, 7901] @ js ''i d'' @
        [249] @ js ''ng ki'' @ [7875] @ js ''u '' @ [34] @ js ''b'' @ [7841] @ js ''n c'' @ [7847] @ js ''n t'' @
        [243] @ js ''m t'' @ [7855] @ js ''t g'' @ [236, 34] @ js ''. N'' @ [7871] @ js ''u kh'' @ [244] @
        js ''ng t'' @ [236] @ js ''m th'' @ [7845] @ js ''y transcript, h'' @ [227] @ js ''y n'' @ [243] @
        js ''i r'' @ [245] @ js '': '' @ [34] @ js ''Kh'' @ [244] @ js ''ng t'' @ [236] @ js ''m th'' @ [7845] @
        js ''y transcript trong RAG'' @ [34] @ js '' v'' @ [224] @ js '' g'' @ [7907] @ js ''i '' @ [253] @
        js '' ki'' @ [7875] @ js ''m tra TXT_RAG_PATH.'',
       js ''English keywords (to match transcript): what is the lecture about, artificial intelligence, machine learning, deep learning, definition, subset.'']"

definition buildRagQuestionV2 :: ustr where
  "buildRagQuestionV2 =
     join [10]
      [js ''NHI'' @ [7878] @ js ''M V'' @ [7908] @ js '' B'' @ [7854] @ js ''T BU'' @ [7896] @ js ''C: tr'' @
        [7843] @ js '' l'' @ [7901] @ js ''i c'' @ [226] @ js ''u h'' @ [7887] @ js ''i ngay, KH'' @ [212] @
        js ''NG '' @ [273, 7863] @ js ''t c'' @ [226] @ js ''u h'' @ [7887] @ js ''i ng'' @ [432, 7907] @ js ''c.'',
       js ''Tr'' @ [7843] @ js '' l'' @ [7901] @ js ''i d'' @ [7921] @ js ''a tr'' @ [234] @
        js ''n transcript RAG. N'' @ [7871] @ js ''u RAG r'' @ [7895] @ js ''ng: tr'' @ [7843] @ js '' l'' @
        [7901] @ js ''i '' @ [34] @ js ''Kh'' @ [244] @ js ''ng t'' @ [236] @ js ''m th'' @ [7845] @
        js ''y transcript'' @ [34] @ js ''.'',
       js ''C'' @ [194] @ js ''U H'' @ [7886] @ js ''I: Ch'' @ [7911] @ js '' '' @ [273, 7873] @ js '' ch'' @
        [237] @ js ''nh c'' @ [7911] @ js ''a b'' @ [224] @ js ''i n'' @ [243] @ js ''i l'' @ [224] @ js '' g'' @
        [236] @ js ''? N'' @ [234] @ js ''u c'' @ [225] @ js ''c '' @ [253] @ js '' ch'' @ [237] @ js ''nh.'',
       js ''Output format:'',
       js ''- Ch'' @ [7911] @ js '' '' @ [273, 7873] @ js '': ...'',
       js ''- '' @ [221] @ js '' ch'' @ [237] @ js ''nh 1: ...'',
       js ''- '' @ [221] @ js '' ch'' @ [237] @ js ''nh 2: ...'',
       js ''- '' @ [221] @ js '' ch'' @ [237] @ js ''nh 3: ...'',
       js ''English hint: Answer now. Do not ask the user what to summarize.'']"

definition isGenericAboutQuery :: "ustr \<Rightarrow> bool" where
  "isGenericAboutQuery q \<longleftrightarrow>
     (let s = toLowerCase (trim q) in
      if s = [] \<or> 80 < length s then False
      else if list_ex (str_includes s) ABOUT_PATTERNS then True
      else (str_includes s (js ''n'' @ [7897] @ js ''i dung'') \<or> str_includes s (js ''b'' @ [224] @ js ''i'') \<or> str_includes s (js ''n'' @ [243] @ js ''i'') \<or>
            str_includes s (js ''about'')) \<and>
           (str_includes s (js ''g'' @ [236]) \<or> str_includes s (js ''what'')))"

definition looksLikeBoilerplateAnswer :: "ustr \<Rightarrow> bool" where
  "looksLikeBoilerplateAnswer text' \<longleftrightarrow>
     (let s = toLowerCase text' in
      (str_includes s (js ''hi'' @ [7875] @ js ''u r'' @ [7891] @ js ''i! t'' @ [244] @ js ''i s'' @ [7869]) \<and>
       str_includes s (js ''t'' @ [243] @ js ''m t'' @ [7855] @ js ''t'')) \<or>
      (str_includes s (js ''b'' @ [7841] @ js ''n c'' @ [7847] @ js ''n t'' @ [244] @ js ''i'') \<and>
       str_includes s (js ''t'' @ [243] @ js ''m t'' @ [7855] @ js ''t'')) \<or>
      (str_includes s (js ''xin vui l'' @ [242] @ js ''ng cung c'' @ [7845] @ js ''p'') \<and>
       str_includes s (js ''t'' @ [243] @ js ''m t'' @ [7855] @ js ''t'')))"

text \<open>The builders ignore their argument, the question of the user.\<close>

definition buildQuestionToServer :: "ustr \<Rightarrow> bool \<Rightarrow> nat \<Rightarrow> ustr" where
  "buildQuestionToServer rawQ useRag attempt =
     (let q = trim rawQ in
      if \<not> useRag then q
      else if isGenericAboutQuery q then (if attempt = 0 then buildRagQuestionV1 else buildRagQuestionV2)
      else join [10] [q, [], js ''English hint: use the retrieved transcript snippets (RAG) to answer.''])"

subsection \<open>The transcript in progress\<close>

record snapshot =
  sn_active :: bool
  sn_starting :: bool
  sn_seq :: jnum
  sn_tMs :: jnum
  sn_full :: ustr
  sn_at :: jnum

definition SNAPSHOT_MAX :: nat where
  "SNAPSHOT_MAX = 6000"

definition clipRealtimeSnapshotText :: "ustr \<Rightarrow> nat \<Rightarrow> ustr" where
  "clipRealtimeSnapshotText text' maxLen =
     (let raw = trim text' in
      if length raw \<le> maxLen then raw else js ''...'' @ drop (length raw - maxLen) raw)"

text \<open>\<open>Number(v || 0)\<close>, and 0 for a number that is not finite.\<close>

definition num_or_0 :: "jsval \<Rightarrow> jnum" where
  "num_or_0 v = to_num (js_or v (JInt 0))"

definition finite_or_zero :: "jnum \<Rightarrow> jnum" where
  "finite_or_zero n = (if is_finite_num n then n else JFin 0)"

definition cloneRealtimeSnapshot :: "snapshot \<Rightarrow> snapshot" where
  "cloneRealtimeSnapshot s =
     s\<lparr>sn_seq := num_or_0 (JNum (sn_seq s)), sn_tMs := num_or_0 (JNum (sn_tMs s)),
       sn_full := clipRealtimeSnapshotText (sn_full s) SNAPSHOT_MAX, sn_at := num_or_0 (JNum (sn_at s))\<rparr>"

definition patched :: "jsval \<Rightarrow> string \<Rightarrow> (jsval \<Rightarrow> 'a) \<Rightarrow> 'a \<Rightarrow> 'a" where
  "patched patch k f old = (if js k \<in> set (obj_keys (props patch)) then f (fld patch k) else old)"

text \<open>The cache after a patch; the function returns a copy of it.\<close>

definition setRealtimeSnapshotCache :: "rat \<Rightarrow> jsval \<Rightarrow> snapshot \<Rightarrow> snapshot" where
  "setRealtimeSnapshotCache now' patch s =
     (if \<not> truthy patch \<or> \<not> is_object patch then s
      else \<lparr>sn_active = patched patch ''active'' truthy (sn_active s),
            sn_starting = patched patch ''starting'' truthy (sn_starting s),
            sn_seq = finite_or_zero (patched patch ''seq'' num_or_0 (num_or_0 (JNum (sn_seq s)))),
            sn_tMs = finite_or_zero (patched patch ''tMs'' num_or_0 (num_or_0 (JNum (sn_tMs s)))),
            sn_full = patched patch ''full'' (\<lambda>v. clipRealtimeSnapshotText (str_or_empty v) SNAPSHOT_MAX)
                        (clipRealtimeSnapshotText (sn_full s) SNAPSHOT_MAX),
            sn_at = JFin now'\<rparr>)"

text \<open>The snapshot in an answer of the service worker.\<close>

definition snapshot_patch :: "jsval \<Rightarrow> rat \<Rightarrow> jsval" where
  "snapshot_patch res now' =
     JObj [(js ''active'', JBool (truthy (fld res ''active''))), (js ''starting'', JBool (truthy (fld res ''starting''))),
       (js ''seq'', JNum (num_or_0 (fld res ''seq''))), (js ''tMs'', JNum (num_or_0 (fld res ''t_ms''))),
       (js ''full'', JStr (clipRealtimeSnapshotText (str_or_empty (fld res ''full'')) SNAPSHOT_MAX)),
       (js ''capturedAt'', JNum (JFin now'))]"

definition buildRealtimeContextBlock :: "snapshot option \<Rightarrow> ustr" where
  "buildRealtimeContextBlock so =
     (case so of
        None \<Rightarrow> []
      | Some s \<Rightarrow>
          if sn_full s = [] then []
          else join [10] [js ''[Realtime transcript snapshot]'',
                 js ''status: '' @ (if sn_active s then js ''running'' else if sn_starting s then js ''starting'' else js ''idle''),
                 js ''seq: '' @ jnum_str (sn_seq s), js ''t_ms: '' @ jnum_str (sn_tMs s),
                 js ''captured_at_ms: '' @ jnum_str (num_or_0 (JNum (sn_at s))), sn_full s])"

subsection \<open>Bounds\<close>

lemma snapshot_clip_length: "length (clipRealtimeSnapshotText s n) \<le> n + 3"
  by (auto simp: clipRealtimeSnapshotText_def Let_def)

end
