(* ===== verification/Panel_Sse.thy ===== *)
theory Panel_Sse
  imports Panel_Store_Contract
begin

section \<open>sidepanel.js: reading the answer as a stream of events\<close>

text \<open>
  The chat server answers with a stream of events.  The side panel collects the decoded text, cuts it
  at empty lines, reads the fields of every event and takes the new text out of its data.  The pieces
  in which the text arrives (\<open>reader.read\<close> and \<open>TextDecoder\<close>) are the input of the model.
\<close>

subsection \<open>The data of an event\<close>

datatype delta = Delta ustr | Done | StreamError ustr | Meta

definition first_text :: "jsval \<Rightarrow> ustr" where
  "first_text obj =
     (case find (\<lambda>v. v \<noteq> []) (map (\<lambda>k. case fld obj k of JStr s \<Rightarrow> s | _ \<Rightarrow> [])
         [''text'', ''delta'', ''token'', ''content'', ''answer'']) of None \<Rightarrow> [] | Some t \<Rightarrow> t)"

definition delta_of_json :: "env \<Rightarrow> ustr \<Rightarrow> ustr \<Rightarrow> delta" where
  "delta_of_json e dataStr s =
     (case e_json e s of
        None \<Rightarrow> if s \<noteq> [] then Delta dataStr else Meta
      | Some obj \<Rightarrow> if truthy obj \<and> is_object obj \<and> first_text obj \<noteq> [] then Delta (first_text obj) else Meta)"

definition extractDeltaText :: "env \<Rightarrow> ustr \<Rightarrow> ustr \<Rightarrow> delta" where
  "extractDeltaText e eventName dataStr =
     (let ev = toLowerCase (str_or eventName (js ''message'')); s = trim dataStr in
      if ev = js ''done'' \<or> ev = js ''end'' then Done
      else if ev = js ''error'' then StreamError dataStr
      else if startsWith s (js ''{'') \<and> str_includes s (34 # js ''session_id'' @ [34])
      then (case index_of 125 s of
              None \<Rightarrow> delta_of_json e dataStr s
            | Some close \<Rightarrow>
                if 0 < close \<and> close < length s - 1
                then (let rest = trim (slice_from s (close + 1)) in if rest \<noteq> [] then Delta rest else Meta)
                else delta_of_json e dataStr s)
      else delta_of_json e dataStr s)"

subsection \<open>Cutting the text into events\<close>

text \<open>The text before and after the first occurrence of a separator.\<close>

fun cut_at :: "ustr \<Rightarrow> ustr \<Rightarrow> (ustr \<times> ustr) option" where
  "cut_at sep [] = (if sep = [] then Some ([], []) else None)"
| "cut_at sep (c # s) =
     (if startsWith (c # s) sep then Some ([], drop (length sep) (c # s))
      else map_option (\<lambda>(a, b). (c # a, b)) (cut_at sep s))"

definition next_event :: "ustr \<Rightarrow> (ustr \<times> ustr) option" where
  "next_event buf = (case cut_at [10, 10] buf of Some x \<Rightarrow> Some x | None \<Rightarrow> cut_at [13, 10, 13, 10] buf)"

lemma cut_at_split: "cut_at sep s = Some (a, b) \<Longrightarrow> s = a @ sep @ b"
proof (induction s arbitrary: a)
  case (Cons c s)
  show ?case
  proof (cases "startsWith (c # s) sep")
    case True
    then have "take (length sep) (c # s) = sep" by (simp add: startsWith_def)
    with append_take_drop_id [of "length sep" "c # s"] True Cons.prems show ?thesis by auto
  qed (use Cons in auto)
qed (simp split: if_splits)

lemma next_event_shorter: "next_event buf = Some (a, b) \<Longrightarrow> length b < length buf"
  by (auto simp: next_event_def dest!: cut_at_split split: option.splits)

function (sequential) sse_events :: "ustr \<Rightarrow> ustr list \<times> ustr" where
  "sse_events buf =
     (case next_event buf of
        None \<Rightarrow> ([], buf)
      | Some (raw, rest) \<Rightarrow> (case sse_events rest of (evs, r) \<Rightarrow> (raw # evs, r)))"
  by pat_completeness auto
termination
  by (relation "measure length") (auto dest: next_event_shorter)

declare sse_events.simps [simp del]

text \<open>\<open>raw.split(/\r?\n/)\<close>: the carriage return before a line feed belongs to the separator.\<close>

definition chop_cr :: "ustr \<Rightarrow> ustr" where
  "chop_cr s = (if s \<noteq> [] \<and> last s = 13 then butlast s else s)"

definition split_lines :: "ustr \<Rightarrow> ustr list" where
  "split_lines raw = (let ps = split_on 10 raw in map chop_cr (butlast ps) @ [last ps])"

text \<open>The fields of an event: its name and its data, the lines of which are joined.\<close>

definition field_line :: "ustr \<times> ustr \<Rightarrow> ustr \<Rightarrow> ustr \<times> ustr" where
  "field_line ed line =
     (case ed of (event, dataStr) \<Rightarrow>
       if line = [] \<or> startsWith line (js '':'') then (event, dataStr)
       else if startsWith line (js ''event:'') then (trim (slice_from line 6), dataStr)
       else if startsWith line (js ''data:'')
       then (event, dataStr @ (if dataStr \<noteq> [] then [10] else []) @ trim (slice_from line 5))
       else (event, dataStr))"

definition event_fields :: "ustr \<Rightarrow> ustr \<times> ustr" where
  "event_fields raw = foldl field_line (js ''message'', []) (split_lines raw)"

text \<open>What the stream hands on: \<open>onDelta\<close> with a text, \<open>onDone\<close>.\<close>

datatype stream_out = OnDelta ustr | OnDone

definition handed :: "delta \<Rightarrow> stream_out list" where
  "handed d = (case d of Delta t \<Rightarrow> if t \<noteq> [] then [OnDelta t] else [] | Done \<Rightarrow> [OnDone] | _ \<Rightarrow> [])"

definition event_out :: "env \<Rightarrow> ustr \<Rightarrow> stream_out list" where
  "event_out e raw =
     (case event_fields raw of (event, dataStr) \<Rightarrow>
       if dataStr = [] then [] else handed (extractDeltaText e event dataStr))"

text \<open>A long rest without any field is taken as text; only a delta of it is handed on.\<close>

definition overlong :: "ustr \<Rightarrow> bool" where
  "overlong buf \<longleftrightarrow> 4096 < length buf \<and> \<not> str_includes buf (js ''data:'') \<and> \<not> str_includes buf (js ''event:'')"

definition flush_out :: "env \<Rightarrow> ustr \<Rightarrow> stream_out list" where
  "flush_out e buf = (case extractDeltaText e (js ''delta'') (trim buf) of Delta t \<Rightarrow> handed (Delta t) | _ \<Rightarrow> [])"

definition sse_chunk :: "env \<Rightarrow> ustr \<Rightarrow> ustr \<Rightarrow> ustr \<times> stream_out list" where
  "sse_chunk e buf chunk =
     (case sse_events (buf @ chunk) of (evs, rest) \<Rightarrow>
       if overlong rest then ([], concat (map (event_out e) evs) @ flush_out e rest)
       else (rest, concat (map (event_out e) evs)))"

fun sse_chunks :: "env \<Rightarrow> ustr \<Rightarrow> ustr list \<Rightarrow> stream_out list" where
  "sse_chunks e buf [] = []"
| "sse_chunks e buf (c # cs) = (case sse_chunk e buf c of (buf', outs) \<Rightarrow> outs @ sse_chunks e buf' cs)"

fun is_delta :: "stream_out \<Rightarrow> bool" where
  "is_delta (OnDelta t) \<longleftrightarrow> True"
| "is_delta OnDone \<longleftrightarrow> False"

fun delta_text :: "stream_out \<Rightarrow> ustr" where
  "delta_text (OnDelta t) = t"
| "delta_text OnDone = []"

text \<open>
  The answer to the request: an error of the network, or the status with the pieces of the body and
  whether reading them ended well; no body is \<open>None\<close>.  The result is what was handed on, and the error.
\<close>

datatype sse_answer = Refused ustr | Answered int "(ustr list \<times> ustr option) option"

definition streamSSE :: "env \<Rightarrow> sse_answer \<Rightarrow> stream_out list \<times> ustr option" where
  "streamSSE e a =
     (case a of
        Refused m \<Rightarrow> ([], Some m)
      | Answered status body \<Rightarrow>
          (case body of
             None \<Rightarrow> ([], Some (js ''SSE HTTP '' @ int_str status))
           | Some (chunks, broken) \<Rightarrow>
               if status < 200 \<or> 299 < status then ([], Some (js ''SSE HTTP '' @ int_str status))
               else (let outs = sse_chunks e [] chunks in
                     (outs, case broken of
                              Some m \<Rightarrow> Some m
                            | None \<Rightarrow> if list_ex is_delta outs then None else Some (js ''SSE connected but no data'')))))"

subsection \<open>The answer does not depend on how it arrives\<close>

lemma cut_at_append:
  assumes "sep \<noteq> []" and "cut_at sep s = Some (a, b)"
  shows "cut_at sep (s @ t) = Some (a, b @ t)"
  using assms(2)
proof (induction s arbitrary: a)
  case (Cons c s)
  have len: "length sep \<le> length (c # s)" using cut_at_split [OF Cons.prems] by simp
  then have same: "startsWith (c # s @ t) sep = startsWith (c # s) sep"
    by (cases sep) (simp_all add: startsWith_def)
  show ?case
  proof (cases "startsWith (c # s) sep")
    case True
    have "drop (length sep) (c # s @ t) = drop (length sep) (c # s) @ t" using len drop_append [of "length sep" "c # s" t] by simp
    with True same Cons.prems show ?thesis by auto
  next
    case False
    with Cons same show ?thesis by auto
  qed
qed (use assms(1) in simp)

lemma cut_at_None: "sep \<noteq> [] \<Longrightarrow> \<not> set sep \<subseteq> set s \<Longrightarrow> cut_at sep s = None"
proof (rule ccontr)
  assume "sep \<noteq> []" "\<not> set sep \<subseteq> set s" "cut_at sep s \<noteq> None"
  then obtain a b where "cut_at sep s = Some (a, b)" by auto
  from cut_at_split [OF this] \<open>\<not> set sep \<subseteq> set s\<close> show False by auto
qed

lemma next_event_plain: "13 \<notin> set buf \<Longrightarrow> next_event buf = cut_at [10, 10] buf"
  using cut_at_None [of "[13, 10, 13, 10]" buf] by (auto simp: next_event_def split: option.split)

lemma rest_of_events: "sse_events s = (evs, r) \<Longrightarrow> set r \<subseteq> set s"
proof (induction s arbitrary: evs rule: sse_events.induct)
  case (1 buf)
  show ?case
  proof (cases "next_event buf")
    case (Some x)
    obtain raw rest where x: "x = (raw, rest)" by fastforce
    obtain evs' r' where rec: "sse_events rest = (evs', r')" by fastforce
    have "set rest \<subseteq> set buf"
      using Some x by (auto simp: next_event_def dest!: cut_at_split split: option.splits)
    moreover have "r = r'" using "1.prems" Some x rec by (simp add: sse_events.simps [of buf])
    then have "sse_events rest = (evs', r)" using rec by simp
    then have "set r \<subseteq> set rest" by (rule "1.IH" [OF Some x [symmetric]])
    ultimately show ?thesis by blast
  qed (use 1 in \<open>simp add: sse_events.simps [of buf]\<close>)
qed

lemma sse_events_append:
  assumes "13 \<notin> set s" and "13 \<notin> set t" and "sse_events s = (evs, r)"
  shows "sse_events (s @ t) = (case sse_events (r @ t) of (evs', r') \<Rightarrow> (evs @ evs', r'))"
  using assms(1,3)
proof (induction s arbitrary: evs rule: sse_events.induct)
  case (1 buf)
  show ?case
  proof (cases "next_event buf")
    case None
    with 1 show ?thesis by (auto simp: sse_events.simps [of buf])
  next
    case (Some x)
    obtain raw rest where x: "x = (raw, rest)" by fastforce
    obtain evs' r' where rec: "sse_events rest = (evs', r')" by fastforce
    have cut: "cut_at [10, 10] buf = Some (raw, rest)" using Some x 1 by (simp add: next_event_plain)
    then have "next_event (buf @ t) = Some (raw, rest @ t)"
      using 1 assms(2) by (simp add: next_event_plain cut_at_append)
    moreover have "evs = raw # evs'" "r = r'" using 1 Some x rec by (auto simp: sse_events.simps [of buf])
    moreover have "13 \<notin> set rest" using 1 cut_at_split [OF cut] by auto
    ultimately show ?thesis using 1 Some x rec by (simp add: sse_events.simps [of "buf @ t"] split: prod.split)
  qed
qed

lemma sse_chunks_eq:
  assumes "13 \<notin> set buf" and "list_all (\<lambda>c. 13 \<notin> set c) cs"
    and "\<And>k. k < length cs \<Longrightarrow> \<not> overlong (snd (sse_events (buf @ concat (take (Suc k) cs))))"
    and "fst (sse_events buf) = []"
  shows "sse_chunks e buf cs = concat (map (event_out e) (fst (sse_events (buf @ concat cs))))"
  using assms
proof (induction cs arbitrary: buf)
  case (Cons c cs)
  obtain evs r where er: "sse_events (buf @ c) = (evs, r)" by fastforce
  have plain: "13 \<notin> set (buf @ c)" "list_all (\<lambda>c. 13 \<notin> set c) cs" "13 \<notin> set (concat xs)" if "set xs \<subseteq> set cs" for xs
    using Cons.prems(1,2) that by (auto simp: list_all_iff)
  note plain = plain(1) [OF subset_refl] plain(2) [OF subset_refl] plain(3)
  have r: "13 \<notin> set r" using rest_of_events [OF er] plain(1) by auto
  have step: "sse_events (buf @ c @ t) = (case sse_events (r @ t) of (evs', r') \<Rightarrow> (evs @ evs', r'))" if "13 \<notin> set t" for t
    using sse_events_append [OF plain(1) that er] by simp
  have none: "fst (sse_events r) = []" using step [of "[]"] er by (simp split: prod.splits)
  have calm: "\<not> overlong r" using Cons.prems(3) [of 0] er by simp
  have "\<not> overlong (snd (sse_events (r @ concat (take (Suc k) cs))))" if "k < length cs" for k
    using Cons.prems(3) [of "Suc k"] that step [of "concat (take (Suc k) cs)"] plain(3) [of "take (Suc k) cs"] set_take_subset [of "Suc k" cs]
    by (simp split: prod.splits)
  from Cons.IH [OF r plain(2) this none] have IH: "sse_chunks e r cs = concat (map (event_out e) (fst (sse_events (r @ concat cs))))" .
  have "sse_chunks e buf (c # cs) = concat (map (event_out e) evs) @ sse_chunks e r cs"
    using er calm by (simp add: sse_chunk_def)
  also have "\<dots> = concat (map (event_out e) (fst (sse_events (buf @ concat (c # cs)))))"
    using IH step [of "concat cs"] plain(3) [of cs] by (simp split: prod.split)
  finally show ?case .
qed simp

text \<open>Property C27: what the stream hands on does not depend on the pieces in which the text arrives: it is that of the
  events of the whole text in their order, as long as the text has no carriage return and no rest
  without a field grows over 4096 characters.\<close>

theorem stream_pieces:
  assumes "list_all (\<lambda>c. 13 \<notin> set c) pieces"
    and "list_all (\<lambda>k. \<not> overlong (snd (sse_events (concat (take k pieces))))) [1..<Suc (length pieces)]"
  shows "sse_chunks e [] pieces = concat (map (event_out e) (fst (sse_events (concat pieces))))"
proof (rule sse_chunks_eq [of "[]" pieces e, simplified])
  fix k assume "k < length pieces"
  then show "\<not> overlong (snd (sse_events (concat (take (Suc k) pieces))))"
    using assms(2) by (auto simp: list_all_iff simp del: upt_Suc)
next
  show "fst (sse_events []) = []" by (simp add: sse_events.simps [of "[]"] next_event_def)
qed (rule assms(1))

definition two_pieces :: "ustr list" where
  "two_pieces = [js ''data: Hel'', js ''lo'' @ [10, 10] @ js ''data: done'' @ [10], [10]]"

theorem stream_pieces_witness:
  "sse_chunks (example_env (\<lambda>h r. Inl []) (\<lambda>t. None)) [] two_pieces = [OnDelta (js ''Hello''), OnDelta (js ''done'')]"
proof -
  have a: "list_all (\<lambda>c. 13 \<notin> set c) two_pieces" by code_simp
  have b: "list_all (\<lambda>k. \<not> overlong (snd (sse_events (concat (take k two_pieces))))) [1..<Suc (length two_pieces)]" by code_simp
  have "concat (map (event_out (example_env (\<lambda>h r. Inl []) (\<lambda>t. None))) (fst (sse_events (concat two_pieces)))) =
      [OnDelta (js ''Hello''), OnDelta (js ''done'')]" by code_simp
  then show ?thesis using stream_pieces [OF a b] by simp
qed

text \<open>Two losses: the white space at the start of a piece of text, and a piece that is a JSON text of its own.\<close>

lemma leading_space_lost:
  "sse_chunks (example_env (\<lambda>h r. Inl []) (\<lambda>t. None)) [] [js ''data: Hello'' @ [10, 10] @ js ''data:  world'' @ [10, 10]] =
     [OnDelta (js ''Hello''), OnDelta (js ''world'')]"
  by code_simp

lemma json_token_dropped:
  assumes "e_json e (trim s) = Some v" and "\<not> (truthy v \<and> is_object v)" and "\<not> startsWith (trim s) (js ''{'')"
  shows "handed (extractDeltaText e (js ''message'') s) = []"
proof -
  have "toLowerCase (js ''message'') = js ''message''" by code_simp
  with assms show ?thesis by (auto simp: extractDeltaText_def Let_def delta_of_json_def handed_def)
qed

end
