(* ===== verification/Panel_Chat.thy ===== *)
theory Panel_Chat
  imports Panel_Address Panel_Prompt Panel_Sse
begin

section \<open>sidepanel.js: variables, messages and the panel of conversations\<close>

text \<open>
  The chat of the side panel keeps \<open>localStorage\<close>, the picker of transcripts, three switches, the
  snapshot of the transcript in progress, the panel of conversations, the dialog that confirms a
  deletion, and the bubbles it shows.  A bubble is an element of the page: a function that holds one
  may change its text when the page no longer shows it, so bubbles have ids and a change of an
  id that is gone shows nothing.  \<open>pc_other\<close> is what the other handlers of the page do while a
  function pauses.
\<close>

record bubble =
  b_id :: nat
  b_who :: ustr
  b_text :: ustr
  b_meta :: ustr

record panel =
  p_ls :: lstore
  p_run :: jobj
  p_rag :: rag
  p_useRag :: bool
  p_useRealtime :: bool
  p_useR1 :: bool
  p_snap :: snapshot
  p_bubbles :: "bubble list"
  p_made :: nat
  p_convOpen :: bool
  p_convKey :: ustr
  p_rows :: "conv list"
  p_active :: ustr
  p_delOpen :: bool
  p_delSid :: ustr
  p_delLabel :: ustr
  p_delBusy :: bool
  p_busy :: bool

text \<open>
  \<open>pc_stream\<close> answers a request for a stream, \<open>pc_uid\<close> is the random text, \<open>pc_pretty\<close> is \<open>JSON.stringify\<close> with
  indentation, \<open>pc_cmp\<close> is \<open>localeCompare\<close>.
\<close>

record panelcfg =
  pc_other :: "panel \<times> world \<Rightarrow> panel \<times> world"
  pc_runtime :: bool
  pc_storage :: bool
  pc_stream :: "req list \<Rightarrow> req \<Rightarrow> sse_answer"
  pc_uid :: "nat \<Rightarrow> ustr"
  pc_pretty :: "jsval \<Rightarrow> ustr"
  pc_local :: local_time
  pc_cmp :: "ustr \<Rightarrow> ustr \<Rightarrow> int"

type_synonym 'a pact = "(panel, 'a) action"

definition pauses :: "panelcfg \<Rightarrow> unit pact" where
  "pauses pc = State (\<lambda>x. ((), pc_other pc x))"

definition on_ls :: "(lstore \<Rightarrow> lstore prog) \<Rightarrow> unit pact" where
  "on_ls f = do { st \<leftarrow> gets p_ls; st' \<leftarrow> onw (f st); mods (\<lambda>s. s\<lparr>p_ls := st'\<rparr>) }"

definition setItem :: "string \<Rightarrow> ustr \<Rightarrow> unit pact" where
  "setItem k v = mods (\<lambda>s. s\<lparr>p_ls := ls_set (p_ls s) k (Raw v)\<rparr>)"

definition uid :: "panelcfg \<Rightarrow> ustr pact" where
  "uid pc = onw (State (\<lambda>w. (pc_uid pc (w_ticks w), w\<lparr>w_ticks := Suc (w_ticks w)\<rparr>)))"

definition fresh_session :: "panelcfg \<Rightarrow> ustr pact" where
  "fresh_session pc = do { r \<leftarrow> uid pc; State_Monad.return (js ''sess_'' @ r) }"

definition getSessionId :: "panelcfg \<Rightarrow> env \<Rightarrow> ustr pact" where
  "getSessionId pc e = do {
     sid \<leftarrow> gets (\<lambda>s. ls_text e (p_ls s) ''sttChatSessionId'');
     if sid \<noteq> [] then State_Monad.return sid
     else do { n \<leftarrow> fresh_session pc; u \<leftarrow> setItem ''sttChatSessionId'' n; State_Monad.return n } }"

definition isDebug :: "env \<Rightarrow> panel \<Rightarrow> bool" where
  "isDebug e s \<longleftrightarrow> ls_text e (p_ls s) ''sttChatDebug'' = js ''1''"

definition showBusyModal :: "panel \<Rightarrow> panel" where
  "showBusyModal s = s\<lparr>p_busy := True\<rparr>"

subsection \<open>The browser and the worker\<close>

definition openAuthOverlayFromPanel :: "env \<Rightarrow> unit pact" where
  "openAuthOverlayFromPanel e = do { r \<leftarrow> onw (emit e (Browser ''__vtOpenAccountOrAuth'' (JStr (js ''login'')))); skip }"

definition sendRuntime :: "panelcfg \<Rightarrow> env \<Rightarrow> jsval \<Rightarrow> jsval pact" where
  "sendRuntime pc e msg =
     (if \<not> pc_runtime pc then do { u \<leftarrow> pauses pc; State_Monad.return JNull }
      else do {
        r \<leftarrow> onw (emit e (ToRuntime msg));
        u \<leftarrow> pauses pc;
        State_Monad.return (case r of Inl x \<Rightarrow> JNull | Inr v \<Rightarrow> js_or v JNull) })"

definition p_storeGet :: "panelcfg \<Rightarrow> string \<Rightarrow> jsval pact" where
  "p_storeGet pc k = do { v \<leftarrow> onw (if pc_storage pc then store_get k else ret JUndef); u \<leftarrow> pauses pc; State_Monad.return v }"

definition getVtAuthProfile :: "panelcfg \<Rightarrow> jsval pact" where
  "getVtAuthProfile pc = do {
     v \<leftarrow> p_storeGet pc ''vtAuth'';
     (let raw = js_or v JNull in
      State_Monad.return (js_ors [fld raw ''profile'', fld (fld raw ''currentSession'') ''profile'', JNull])) }"

definition profile_ok :: "jsval \<Rightarrow> bool" where
  "profile_ok p \<longleftrightarrow> truthy p \<and> list_ex (\<lambda>k. truthy (fld p k)) [''email'', ''id'', ''name'', ''full_name'']"

definition getCurrentChatIdentityKey :: "panelcfg \<Rightarrow> ustr pact" where
  "getCurrentChatIdentityKey pc = do {
     profile \<leftarrow> getVtAuthProfile pc;
     State_Monad.return (str_or (normalizeIdentityKey (JStr (str_or (authIdentityKeyFromProfile profile) (js ''guest'')))) (js ''guest'')) }"

subsection \<open>Bubbles\<close>

definition appendBubble :: "ustr \<Rightarrow> ustr \<Rightarrow> ustr \<Rightarrow> nat pact" where
  "appendBubble who text' meta = do {
     i \<leftarrow> gets p_made;
     u \<leftarrow> mods (\<lambda>s. s\<lparr>p_bubbles := p_bubbles s @ [\<lparr>b_id = i, b_who = who, b_text = text', b_meta = meta\<rparr>], p_made := Suc i\<rparr>);
     State_Monad.return i }"

definition edit_bubble :: "nat \<Rightarrow> (bubble \<Rightarrow> bubble) \<Rightarrow> panel \<Rightarrow> panel" where
  "edit_bubble i f s = s\<lparr>p_bubbles := map (\<lambda>b. if b_id b = i then f b else b) (p_bubbles s)\<rparr>"

definition set_text :: "nat \<Rightarrow> ustr \<Rightarrow> panel \<Rightarrow> panel" where
  "set_text i t = edit_bubble i (\<lambda>b. b\<lparr>b_text := t, b_meta := []\<rparr>)"

fun append_items :: "item list \<Rightarrow> unit pact" where
  "append_items [] = skip"
| "append_items (it # r) = do { i \<leftarrow> appendBubble (it_who it) (it_text it) (it_meta it); append_items r }"

definition restoreChatHistory :: "panelcfg \<Rightarrow> env \<Rightarrow> unit pact" where
  "restoreChatHistory pc e = do {
     sid \<leftarrow> getSessionId pc e;
     items \<leftarrow> gets (\<lambda>s. getChatHistoryItems e (p_ls s) sid);
     u \<leftarrow> mods (\<lambda>s. s\<lparr>p_bubbles := []\<rparr>);
     append_items items }"

subsection \<open>The panel of conversations\<close>

definition rows_for :: "panelcfg \<Rightarrow> env \<Rightarrow> ustr \<Rightarrow> panel \<Rightarrow> conv list" where
  "rows_for pc e key s = collectConversationRowsForIdentity e (pc_local pc) (pc_cmp pc) key (p_ls s)"

definition renderChatConversations :: "panelcfg \<Rightarrow> env \<Rightarrow> ustr \<Rightarrow> unit pact" where
  "renderChatConversations pc e key = do {
     key' \<leftarrow> gets (\<lambda>s. str_or key (str_or (p_convKey s) (js ''guest'')));
     rows \<leftarrow> gets (rows_for pc e key');
     sid \<leftarrow> getSessionId pc e;
     mods (\<lambda>s. s\<lparr>p_rows := rows, p_active := sid\<rparr>) }"

definition render_shown :: "panelcfg \<Rightarrow> env \<Rightarrow> unit pact" where
  "render_shown pc e = do { key \<leftarrow> gets p_convKey; renderChatConversations pc e (str_or key (js ''guest'')) }"

definition syncConversationPanelAfterHistoryChange :: "panelcfg \<Rightarrow> env \<Rightarrow> unit pact" where
  "syncConversationPanelAfterHistoryChange pc e = do {
     shown \<leftarrow> gets p_convOpen;
     whenA shown (render_shown pc e) }"

definition closeChatConversationsPanel :: "panel \<Rightarrow> panel" where
  "closeChatConversationsPanel s = s\<lparr>p_convOpen := False\<rparr>"

definition openChatConversationsPanel :: "panelcfg \<Rightarrow> env \<Rightarrow> unit pact" where
  "openChatConversationsPanel pc e = do {
     key \<leftarrow> getCurrentChatIdentityKey pc;
     u \<leftarrow> mods (\<lambda>s. s\<lparr>p_convKey := key\<rparr>);
     v \<leftarrow> renderChatConversations pc e key;
     mods (\<lambda>s. s\<lparr>p_convOpen := True\<rparr>) }"

definition toggleChatConversationsPanel :: "panelcfg \<Rightarrow> env \<Rightarrow> unit pact" where
  "toggleChatConversationsPanel pc e = do {
     shown \<leftarrow> gets p_convOpen;
     if shown then mods closeChatConversationsPanel else openChatConversationsPanel pc e }"

definition switchChatSession :: "panelcfg \<Rightarrow> env \<Rightarrow> ustr \<Rightarrow> bool \<Rightarrow> unit pact" where
  "switchChatSession pc e sessionId closePanel =
     (let sid = trim sessionId in
      if sid = [] then skip
      else do {
        u \<leftarrow> setItem ''sttChatSessionId'' sid;
        v \<leftarrow> restoreChatHistory pc e;
        y \<leftarrow> render_shown pc e;
        whenA closePanel (mods closeChatConversationsPanel) })"

text \<open>\<open>chatConversationsState.identityKey || await getCurrentChatIdentityKey()\<close>, kept.\<close>

definition known_identity :: "panelcfg \<Rightarrow> ustr pact" where
  "known_identity pc = do {
     key \<leftarrow> gets p_convKey;
     key' \<leftarrow> (if key \<noteq> [] then State_Monad.return key else getCurrentChatIdentityKey pc);
     u \<leftarrow> mods (\<lambda>s. s\<lparr>p_convKey := key'\<rparr>);
     State_Monad.return key' }"

definition delete_data :: "env \<Rightarrow> ustr \<Rightarrow> unit pact" where
  "delete_data e sid = mods (\<lambda>s. s\<lparr>p_ls := snd (deleteChatConversationData e sid (p_ls s))\<rparr>)"

definition deleteChatConversation :: "panelcfg \<Rightarrow> env \<Rightarrow> ustr \<Rightarrow> bool pact" where
  "deleteChatConversation pc e sessionId =
     (let sid = trim sessionId in
      if sid = [] then State_Monad.return False
      else do {
        key \<leftarrow> known_identity pc;
        u \<leftarrow> delete_data e sid;
        cur \<leftarrow> getSessionId pc e;
        v \<leftarrow> whenA (cur = sid) (do {
          rows \<leftarrow> gets (rows_for pc e key);
          next' \<leftarrow> (case rows of [] \<Rightarrow> fresh_session pc | r # rs \<Rightarrow> if c_sid r \<noteq> [] then State_Monad.return (c_sid r) else fresh_session pc);
          y \<leftarrow> setItem ''sttChatSessionId'' next';
          restoreChatHistory pc e });
        y \<leftarrow> renderChatConversations pc e key;
        State_Monad.return True })"

definition createNewChatConversation :: "panelcfg \<Rightarrow> env \<Rightarrow> unit pact" where
  "createNewChatConversation pc e = do {
     sid \<leftarrow> fresh_session pc;
     u \<leftarrow> setItem ''sttChatSessionId'' sid;
     key \<leftarrow> known_identity pc;
     v \<leftarrow> restoreChatHistory pc e;
     y \<leftarrow> renderChatConversations pc e key;
     mods closeChatConversationsPanel }"

subsection \<open>The dialog of a deletion\<close>

definition closeChatDeleteModal :: "bool \<Rightarrow> panel \<Rightarrow> panel" where
  "closeChatDeleteModal force s =
     (if p_delBusy s \<and> \<not> force then s
      else s\<lparr>p_delBusy := False, p_delOpen := False, p_delSid := [], p_delLabel := []\<rparr>)"

definition CONVERSATION :: ustr where
  "CONVERSATION =
     js ''Cu'' @ [7897] @ js ''c tr'' @ [242] @ js '' chuy'' @ [7879] @ js ''n''"

definition openChatDeleteModal :: "panelcfg \<Rightarrow> env \<Rightarrow> ustr \<Rightarrow> ustr \<Rightarrow> unit pact" where
  "openChatDeleteModal pc e sessionId label =
     (let sid = trim sessionId in
      if sid = [] then skip
      else do {
        key \<leftarrow> known_identity pc;
        rows \<leftarrow> gets (rows_for pc e key);
        (let title = (case find (\<lambda>x. c_sid x = sid) rows of None \<Rightarrow> [] | Some r \<Rightarrow> c_title r);
             finalLabel = trim (str_or label (str_or title CONVERSATION))
         in mods (\<lambda>s. s\<lparr>p_delSid := sid, p_delLabel := finalLabel, p_delBusy := False, p_delOpen := True\<rparr>)) })"

definition submitChatDeleteModal :: "panelcfg \<Rightarrow> env \<Rightarrow> unit pact" where
  "submitChatDeleteModal pc e = do {
     sid \<leftarrow> gets (\<lambda>s. trim (p_delSid s));
     busy' \<leftarrow> gets p_delBusy;
     if sid = [] \<or> busy' then skip
     else do {
       u \<leftarrow> mods (\<lambda>s. s\<lparr>p_delBusy := True\<rparr>);
       deleted \<leftarrow> deleteChatConversation pc e sid;
       if deleted then mods (closeChatDeleteModal True) else mods (\<lambda>s. s\<lparr>p_delBusy := False\<rparr>) } }"

subsection \<open>Switches, sign-in and start\<close>

text \<open>\<open>CHAT_LOCKED_TOGGLES.r1\<close> is true: the third switch stays off.\<close>

definition applyChatTogglesUI :: "panel \<Rightarrow> panel" where
  "applyChatTogglesUI s =
     s\<lparr>p_useR1 := False,
       p_ls := writeBoolLS ''sttChatUseR1'' False (writeBoolLS ''sttChatUseRealtime'' (p_useRealtime s)
         (writeBoolLS ''sttChatUseRag'' (p_useRag s) (p_ls s)))\<rparr>"

definition getRealtimeTranscriptSnapshot :: "panelcfg \<Rightarrow> env \<Rightarrow> jsval pact" where
  "getRealtimeTranscriptSnapshot pc e = do {
     res \<leftarrow> sendRuntime pc e (cmd_msg ''__CHAT_REALTIME_SNAPSHOT__'' []);
     if \<not> truthy (fld res ''ok'') then State_Monad.return JNull
     else do { t \<leftarrow> onw (Date_now e); State_Monad.return (snapshot_patch res t) } }"

definition refreshRealtimeSnapshotCache :: "panelcfg \<Rightarrow> env \<Rightarrow> unit pact" where
  "refreshRealtimeSnapshotCache pc e = do {
     snap \<leftarrow> getRealtimeTranscriptSnapshot pc e;
     whenA (truthy snap) (do {
       t \<leftarrow> onw (Date_now e);
       mods (\<lambda>s. s\<lparr>p_snap := setRealtimeSnapshotCache t snap (p_snap s)\<rparr>) }) }"

definition on_realtime :: "panelcfg \<Rightarrow> env \<Rightarrow> unit pact" where
  "on_realtime pc e = do {
     u \<leftarrow> mods (\<lambda>s. applyChatTogglesUI (s\<lparr>p_useRealtime := \<not> p_useRealtime s\<rparr>));
     b \<leftarrow> gets p_useRealtime;
     whenA b (refreshRealtimeSnapshotCache pc e) }"

text \<open>The stored session changed.\<close>

definition on_authChanged :: "panelcfg \<Rightarrow> env \<Rightarrow> unit pact" where
  "on_authChanged pc e = do {
     u \<leftarrow> mods (\<lambda>s. s\<lparr>p_rag := resetRagPickerState (p_rag s), p_convKey := []\<rparr>);
     shown \<leftarrow> gets p_convOpen;
     whenA shown (do {
       key \<leftarrow> getCurrentChatIdentityKey pc;
       v \<leftarrow> mods (\<lambda>s. s\<lparr>p_convKey := key\<rparr>);
       renderChatConversations pc e key }) }"

text \<open>\<open>toString(36)\<close> of the clock.\<close>

definition digit36 :: "nat \<Rightarrow> nat" where
  "digit36 d = (if d < 10 then 48 + d else 87 + d)"

fun base36 :: "nat \<Rightarrow> ustr" where
  "base36 n = (if n < 36 then [digit36 n] else base36 (n div 36) @ [digit36 (n mod 36)])"

declare base36.simps [simp del]

definition getOrCreateRuntimeRunId :: "panelcfg \<Rightarrow> env \<Rightarrow> ustr pact" where
  "getOrCreateRuntimeRunId pc e = do {
     rid \<leftarrow> gets (\<lambda>s. trim (str_or_empty (obj_get (p_run s) (js ''vtRuntimeRunIdV1''))));
     u \<leftarrow> pauses pc;
     if rid \<noteq> [] then State_Monad.return rid
     else do {
       t \<leftarrow> onw (Date_now e);
       r \<leftarrow> uid pc;
       (let new = js ''run_'' @ base36 (nat \<lfloor>t\<rfloor>) @ js ''_'' @ r in do {
         v \<leftarrow> mods (\<lambda>s. s\<lparr>p_run := obj_set (p_run s) (js ''vtRuntimeRunIdV1'') (JStr new)\<rparr>);
         y \<leftarrow> pauses pc;
         State_Monad.return new }) } }"

definition rotateChatSessionIfRuntimeChanged :: "panelcfg \<Rightarrow> env \<Rightarrow> bool pact" where
  "rotateChatSessionIfRuntimeChanged pc e = do {
     rid \<leftarrow> getOrCreateRuntimeRunId pc e;
     prev \<leftarrow> gets (\<lambda>s. trim (ls_text e (p_ls s) ''sttChatRuntimeMarkV1''));
     if rid = [] \<or> (prev \<noteq> [] \<and> prev = rid) then State_Monad.return False
     else do {
       n \<leftarrow> fresh_session pc;
       u \<leftarrow> setItem ''sttChatSessionId'' n;
       v \<leftarrow> setItem ''sttChatRuntimeMarkV1'' rid;
       State_Monad.return True } }"

definition on_start :: "panelcfg \<Rightarrow> env \<Rightarrow> unit pact" where
  "on_start pc e = do { b \<leftarrow> rotateChatSessionIfRuntimeChanged pc e; restoreChatHistory pc e }"

end
