(* ===== verification/Panel_Ask.thy ===== *)
theory Panel_Ask
  imports Panel_Chat
begin

section \<open>sidepanel.js: asking a question\<close>

text \<open>
  \<open>sendChat\<close>: the question of a signed-in user goes to the chat server with the pinned transcripts and
  the transcript in progress, the answer is shown as it arrives, and question and answer are kept
  in the browser and handed to the worker for the database.  The function pauses at every request and
  message; \<open>pauses\<close> is what the other handlers of the page do there.
\<close>

subsection \<open>Details of transcripts\<close>

definition failed_detail :: "string \<Rightarrow> jsval \<Rightarrow> ustr \<Rightarrow> detail" where
  "failed_detail code base t = \<lparr>d_ok = False, d_code = code, d_item = base, d_full = t\<rparr>"

definition rag_detail_of :: "jsval \<Rightarrow> jsval \<Rightarrow> detail" where
  "rag_detail_of res base =
     (if fld res ''code'' = JStr (js ''AUTH_REQUIRED'') then failed_detail ''AUTH_REQUIRED'' base []
      else if fld res ''code'' = JStr (js ''USER_ID_INVALID'') then failed_detail ''USER_ID_INVALID'' base SYSTEM_BUSY_TEXT
      else if \<not> truthy (fld res ''ok'') then failed_detail ''DETAIL_FAILED'' base SYSTEM_BUSY_TEXT
      else (let it = js_or (fld res ''item'') base in
            \<lparr>d_ok = True, d_code = [], d_item = it,
             d_full = to_str (js_ors [fld res ''fullText'', JStr (pickTranscriptText it []), JStr []])\<rparr>))"

text \<open>A detail that is known or on its way, or one whose request this call has sent.\<close>

datatype asked = Known detail | Asked jnum detail

definition begin_detail :: "panelcfg \<Rightarrow> env \<Rightarrow> jnum \<Rightarrow> asked option pact" where
  "begin_detail pc e sid =
     (if \<not> truthy (JNum sid) then State_Monad.return None
      else do {
        g \<leftarrow> gets p_rag;
        (case map_of (rg_details g) sid of
           Some d \<Rightarrow> State_Monad.return (Some (Known d))
         | None \<Rightarrow> (case map_of (rg_inflight g) sid of
             Some d \<Rightarrow> State_Monad.return (Some (Known d))
           | None \<Rightarrow> do {
               r \<leftarrow> onw (if pc_runtime pc
                 then emit e (ToRuntime (cmd_msg ''__HISTORY_DETAIL__'' [(js ''payload'', JObj [(js ''sessionId'', JNum sid)])]))
                 else ok JNull);
               (let d = rag_detail_of (case r of Inl x \<Rightarrow> JNull | Inr v \<Rightarrow> js_or v JNull) (base_item g sid) in do {
                 u \<leftarrow> mods (\<lambda>s. s\<lparr>p_rag := (p_rag s)\<lparr>rg_inflight := (sid, d) # rg_inflight (p_rag s)\<rparr>\<rparr>);
                 State_Monad.return (Some (Asked sid d)) }) })) })"

definition finish_detail :: "env \<Rightarrow> asked option \<Rightarrow> detail option pact" where
  "finish_detail e a =
     (case a of
        None \<Rightarrow> State_Monad.return None
      | Some (Known d) \<Rightarrow> State_Monad.return (Some d)
      | Some (Asked sid d) \<Rightarrow> do {
          u \<leftarrow> (if d_code d = ''AUTH_REQUIRED'' then openAuthOverlayFromPanel e
               else if \<not> d_ok d then mods showBusyModal else skip);
          v \<leftarrow> mods (\<lambda>s. s\<lparr>p_rag := (p_rag s)\<lparr>
                  rg_details := (if d_ok d then (sid, d) # rg_details (p_rag s) else rg_details (p_rag s)),
                  rg_inflight := filter (\<lambda>p. fst p \<noteq> sid) (rg_inflight (p_rag s))\<rparr>\<rparr>);
          State_Monad.return (Some d) })"

definition ensureRagDetail :: "panelcfg \<Rightarrow> env \<Rightarrow> jnum \<Rightarrow> detail option pact" where
  "ensureRagDetail pc e sid = do { a \<leftarrow> begin_detail pc e sid; u \<leftarrow> pauses pc; finish_detail e a }"

text \<open>\<open>Promise.all\<close>: all requests are sent before the first answer is handled.\<close>

fun begin_all :: "panelcfg \<Rightarrow> env \<Rightarrow> jnum list \<Rightarrow> asked option list pact" where
  "begin_all pc e [] = State_Monad.return []"
| "begin_all pc e (i # is) = do { a \<leftarrow> begin_detail pc e i; as \<leftarrow> begin_all pc e is; State_Monad.return (a # as) }"

fun finish_all :: "panelcfg \<Rightarrow> env \<Rightarrow> asked option list \<Rightarrow> detail option list pact" where
  "finish_all pc e [] = State_Monad.return []"
| "finish_all pc e (a # as) = do {
     u \<leftarrow> pauses pc;
     d \<leftarrow> finish_detail e a;
     ds \<leftarrow> finish_all pc e as;
     State_Monad.return (d # ds) }"

definition detail_item :: "rag \<Rightarrow> jnum \<times> detail option \<Rightarrow> detail option \<times> jsval" where
  "detail_item g p = (case p of (sid, d) \<Rightarrow>
     (d, js_or (case d of None \<Rightarrow> JUndef | Some x \<Rightarrow> d_item x) (base_item g sid)))"

definition buildPinnedRagContextBlock :: "panelcfg \<Rightarrow> env \<Rightarrow> ustr pact" where
  "buildPinnedRagContextBlock pc e = do {
     pins \<leftarrow> gets (\<lambda>s. rg_pinned (p_rag s));
     if pins = [] then State_Monad.return []
     else do {
       as \<leftarrow> begin_all pc e pins;
       ds \<leftarrow> finish_all pc e as;
       u \<leftarrow> pauses pc;
       g \<leftarrow> gets p_rag;
       State_Monad.return (context_block (context_parts e (pc_local pc) 0 0 (map (detail_item g) (zip pins ds)))) } }"

text \<open>The list of the picker; the previews fetched after it are left out.\<close>

definition list_failed :: "bool \<Rightarrow> panel \<Rightarrow> panel" where
  "list_failed loaded s = s\<lparr>p_rag := (p_rag s)\<lparr>rg_items := [], rg_filtered := [], rg_loaded := loaded\<rparr>\<rparr>"

definition list_answer :: "env \<Rightarrow> jsval \<Rightarrow> unit pact" where
  "list_answer e res =
     (if fld res ''code'' = JStr (js ''AUTH_REQUIRED'') then do { u \<leftarrow> mods (list_failed True); openAuthOverlayFromPanel e }
      else if fld res ''code'' = JStr (js ''USER_ID_INVALID'') then mods (\<lambda>s. showBusyModal (list_failed True s))
      else if \<not> truthy (fld res ''ok'') then mods (\<lambda>s. showBusyModal (list_failed False s))
      else mods (\<lambda>s. s\<lparr>p_rag := applyRagFilter (syncRagSelectionSets ((p_rag s)\<lparr>
             rg_items := ragSortSessionsDesc e (case fld res ''items'' of JArr xs \<Rightarrow> xs | _ \<Rightarrow> []), rg_loaded := True\<rparr>))\<rparr>))"

definition loadRagPickerList :: "panelcfg \<Rightarrow> env \<Rightarrow> bool \<Rightarrow> unit pact" where
  "loadRagPickerList pc e force = do {
     g \<leftarrow> gets p_rag;
     if \<not> pc_runtime pc \<or> rg_loading g then skip
     else if rg_loaded g \<and> \<not> force then mods (\<lambda>s. s\<lparr>p_rag := applyRagFilter (p_rag s)\<rparr>)
     else do {
       u \<leftarrow> mods (\<lambda>s. s\<lparr>p_rag := (p_rag s)\<lparr>rg_details := (if force then [] else rg_details (p_rag s)),
              rg_inflight := (if force then [] else rg_inflight (p_rag s)), rg_loading := True\<rparr>\<rparr>);
       res \<leftarrow> sendRuntime pc e (cmd_msg ''__HISTORY_LIST__'' [(js ''payload'', JObj [(js ''limit'', JInt 300), (js ''offset'', JInt 0)])]);
       v \<leftarrow> list_answer e res;
       mods (\<lambda>s. s\<lparr>p_rag := (p_rag s)\<lparr>rg_loading := False\<rparr>\<rparr>) } }"

definition openRagPicker :: "panelcfg \<Rightarrow> env \<Rightarrow> bool \<Rightarrow> unit pact" where
  "openRagPicker pc e forceReload = do {
     u \<leftarrow> mods (\<lambda>s. s\<lparr>p_rag := (p_rag s)\<lparr>rg_open := True\<rparr>\<rparr>);
     loadRagPickerList pc e forceReload }"

subsection \<open>The chat server\<close>

definition chat_req :: "verb \<Rightarrow> ustr \<Rightarrow> (ustr \<times> ustr) list \<Rightarrow> jsval option \<Rightarrow> req" where
  "chat_req v url headers body = \<lparr>rq_verb = v, rq_url = url, rq_query = [], rq_headers = headers, rq_body = body\<rparr>"

definition p_fetch :: "panelcfg \<Rightarrow> env \<Rightarrow> req \<Rightarrow> (err + resp) pact" where
  "p_fetch pc e r = do { a \<leftarrow> onw (fetch e r); u \<leftarrow> pauses pc; State_Monad.return a }"

definition probeApiBase :: "panelcfg \<Rightarrow> env \<Rightarrow> ustr \<Rightarrow> bool pact" where
  "probeApiBase pc e apiBase = do {
     a \<leftarrow> p_fetch pc e (chat_req GET (apiBase @ js ''/openapi.json'') [] None);
     State_Monad.return (case a of Inl x \<Rightarrow> False | Inr r \<Rightarrow> rs_ok r) }"

definition sse_headers :: "(ustr \<times> ustr) list" where
  "sse_headers = [(js ''accept'', js ''text/event-stream''), (js ''content-type'', js ''application/json''), (js ''x-user-id'', js ''sidepanel'')]"

definition rest_headers :: "(ustr \<times> ustr) list" where
  "rest_headers = [(js ''content-type'', js ''application/json''), (js ''x-user-id'', js ''sidepanel'')]"

definition post_stream :: "panelcfg \<Rightarrow> req \<Rightarrow> sse_answer pact" where
  "post_stream pc r = do {
     a \<leftarrow> onw (State (\<lambda>w. (pc_stream pc (w_reqs w) r, w\<lparr>w_reqs := w_reqs w @ [r]\<rparr>)));
     u \<leftarrow> pauses pc;
     State_Monad.return a }"

text \<open>The pieces of the body that are read.\<close>

definition pieces_of :: "sse_answer \<Rightarrow> ustr list" where
  "pieces_of a = (case a of Answered status (Some (chunks, broken)) \<Rightarrow> if status < 200 \<or> 299 < status then [] else chunks | _ \<Rightarrow> [])"

definition show_token :: "nat \<Rightarrow> ustr \<Rightarrow> panel \<Rightarrow> panel" where
  "show_token i tok = edit_bubble i (\<lambda>b. b\<lparr>b_text :=
     (if trim (b_text b) = js ''...'' \<or> trim (b_text b) = [8230] then [] else b_text b) @ tok\<rparr>)"

fun show_outs :: "nat \<Rightarrow> stream_out list \<Rightarrow> panel \<Rightarrow> panel" where
  "show_outs i [] s = s"
| "show_outs i (OnDelta t # r) s = show_outs i r (show_token i t s)"
| "show_outs i (OnDone # r) s = show_outs i r s"

fun read_stream :: "panelcfg \<Rightarrow> env \<Rightarrow> nat \<Rightarrow> ustr \<Rightarrow> ustr \<Rightarrow> ustr list \<Rightarrow> ustr pact" where
  "read_stream pc e i acc buf [] = State_Monad.return acc"
| "read_stream pc e i acc buf (c # cs) =
     (case sse_chunk e buf c of (buf', outs) \<Rightarrow> do {
        u \<leftarrow> mods (show_outs i outs);
        v \<leftarrow> pauses pc;
        read_stream pc e i (acc @ concat (map delta_text outs)) buf' cs })"

definition callChatOnce :: "panelcfg \<Rightarrow> env \<Rightarrow> ustr \<Rightarrow> jsval \<Rightarrow> nat \<Rightarrow> (err + ustr) pact" where
  "callChatOnce pc e apiBase body i = do {
     a \<leftarrow> post_stream pc (chat_req POST (apiBase @ js ''/v1/sse-retrieve/'') sse_headers (Some body));
     acc \<leftarrow> read_stream pc e i [] [] (pieces_of a);
     (case snd (streamSSE e a) of
        None \<Rightarrow> ok acc
      | Some m \<Rightarrow> andThen (p_fetch pc e (chat_req POST (apiBase @ js ''/v1/rest-retrieve/'') rest_headers (Some body))) (\<lambda>r.
          if \<not> rs_ok r then throw (Err (js ''REST HTTP '' @ int_str (rs_status r)))
          else do {
            u \<leftarrow> pauses pc;
            (case resp_json e r of
               None \<Rightarrow> throw (Err (js ''SyntaxError''))
             | Some j \<Rightarrow>
                 (let t = to_str (js_ors [fld j ''text'', fld j ''answer'', fld j ''output'', JStr (pc_pretty pc j)]) in do {
                    v \<leftarrow> mods (set_text i t);
                    ok t })) })) }"

subsection \<open>The database\<close>

text \<open>The numbers of tokens and the times are never among the arguments.\<close>

definition save_msg :: "jsval \<times> jsval \<Rightarrow> ustr \<Rightarrow> ustr \<Rightarrow> ustr \<Rightarrow> ustr \<Rightarrow> ustr \<Rightarrow> ustr \<Rightarrow> jsval" where
  "save_msg cursor role content titleHint model createdAt startedAt =
     cmd_msg ''__CHAT_DB_SAVE__'' [(js ''payload'', JObj
       [(js ''chatSessionId'', fst cursor), (js ''parentMsgId'', snd cursor), (js ''role'', JStr role), (js ''content'', JStr content),
        (js ''titleHint'', JStr (trim (str_or titleHint content))), (js ''source'', JStr (js ''sidepanel'')), (js ''model'', JStr model),
        (js ''language'', JStr (js ''vi'')), (js ''createdAt'', JStr createdAt), (js ''startedAt'', JStr startedAt)])]"

definition persistChatMessageToDb ::
  "panelcfg \<Rightarrow> env \<Rightarrow> ustr \<Rightarrow> ustr \<Rightarrow> ustr \<Rightarrow> ustr \<Rightarrow> ustr \<Rightarrow> ustr \<Rightarrow> unit pact" where
  "persistChatMessageToDb pc e identity local roleRaw text' titleHint model =
     (let identityKey = trim identity; localSessionId = trim local; role0 = toLowerCase (trim roleRaw);
          role = (if role0 = js ''assistant'' \<or> role0 = js ''system'' then role0 else js ''user''); content = trim text'
      in if identityKey = [] \<or> localSessionId = [] \<or> content = [] then skip
         else do {
           cursor \<leftarrow> gets (\<lambda>s. getChatDbCursorState e (p_ls s) identityKey localSessionId);
           createdAt \<leftarrow> onw (now_iso e);
           startedAt \<leftarrow> onw (now_iso e);
           res \<leftarrow> sendRuntime pc e (save_msg cursor role content titleHint model createdAt startedAt);
           if \<not> truthy (fld res ''ok'') then skip
           else on_ls (setChatDbCursorState e identityKey localSessionId (fld res ''chatSessionId'') (fld res ''messageId'')) })"

subsection \<open>sendChat\<close>

definition pushChatHistoryItem ::
  "panelcfg \<Rightarrow> env \<Rightarrow> ustr \<Rightarrow> ustr \<Rightarrow> ustr \<Rightarrow> ustr \<Rightarrow> ustr \<Rightarrow> ustr \<Rightarrow> unit pact" where
  "pushChatHistoryItem pc e who text' meta sessionId identityKey titleHint =
     (if trim text' = [] then skip
      else do {
        sid \<leftarrow> (if sessionId \<noteq> [] then State_Monad.return sessionId else getSessionId pc e);
        if trim sid = [] then skip
        else do {
          u \<leftarrow> on_ls (push_item e who text' meta sid identityKey titleHint);
          syncConversationPanelAfterHistoryChange pc e } })"

definition CHAT_GUEST_TEXT :: ustr where
  "CHAT_GUEST_TEXT =
     js ''B'' @ [7841] @ js ''n c'' @ [7847] @ js ''n '' @ [273, 259] @ js ''ng nh'' @ [7853] @ js ''p '' @ [273, 7875] @ js '' d'' @ [249] @ js ''ng Chat.''"

record question =
  q_text :: ustr
  q_sid :: ustr
  q_key :: ustr
  q_meta :: ustr
  q_model :: ustr
  q_bubble :: nat
  q_api :: ustr

definition chat_body :: "question \<Rightarrow> ustr \<Rightarrow> bool \<Rightarrow> ustr \<Rightarrow> jnum list \<Rightarrow> jsval" where
  "chat_body q asked' useRag ctx pins =
     JObj ([(js ''question'', JStr asked'), (js ''session_id'', JStr (q_sid q)), (js ''user_id'', JStr (js ''sidepanel'')), (js ''use_rag'', JBool useRag)]
       @ (if ctx \<noteq> [] then [(js ''selected_context'', JStr ctx)] else [])
       @ (if pins \<noteq> [] then [(js ''selected_source_ids'', JArr (map JNum pins))] else []))"

definition ask_server :: "panelcfg \<Rightarrow> env \<Rightarrow> question \<Rightarrow> bool \<Rightarrow> ustr \<Rightarrow> jnum list \<Rightarrow> (err + ustr) pact" where
  "ask_server pc e q useRag ctx pins =
     (let body = (\<lambda>n. chat_body q (buildQuestionToServer (q_text q) useRag n) useRag ctx pins) in
      andThen (callChatOnce pc e (q_api q) (body 0) (q_bubble q)) (\<lambda>out0.
      andThen (if useRag \<and> looksLikeBoilerplateAnswer out0
               then do { u \<leftarrow> mods (set_text (q_bubble q) (js ''... (retry)'')); callChatOnce pc e (q_api q) (body 1) (q_bubble q) }
               else ok out0) (\<lambda>out.
      if trim out = [] then throw (Err (js ''EMPTY_ASSISTANT_RESPONSE'')) else ok (trim out))))"

definition debug_extra :: "bool \<Rightarrow> bool \<Rightarrow> ustr \<Rightarrow> ustr" where
  "debug_extra debug useRag out =
     (if \<not> debug then []
      else [10, 10] @ js ''[sent]'' @ [10] @
        (if \<not> useRag then js ''no-rag'' else if looksLikeBoilerplateAnswer out then js ''retry'' else js ''ok''))"

definition keep_answer :: "panelcfg \<Rightarrow> env \<Rightarrow> question \<Rightarrow> bool \<Rightarrow> ustr \<Rightarrow> ustr \<Rightarrow> unit pact" where
  "keep_answer pc e q useRag metaLine out = do {
     debug \<leftarrow> gets (isDebug e);
     u \<leftarrow> mods (edit_bubble (q_bubble q) (\<lambda>b. b\<lparr>b_text := out @ debug_extra debug useRag out, b_meta := metaLine\<rparr>));
     u1 \<leftarrow> pushChatHistoryItem pc e (js ''user'') (q_text q) (q_meta q) (q_sid q) (q_key q) (q_text q);
     u2 \<leftarrow> pushChatHistoryItem pc e (js ''assistant'') out metaLine (q_sid q) (q_key q) (q_text q);
     u3 \<leftarrow> persistChatMessageToDb pc e (q_key q) (q_sid q) (js ''user'') (q_text q) (q_text q) (q_model q);
     persistChatMessageToDb pc e (q_key q) (q_sid q) (js ''assistant'') out (q_text q) (q_model q) }"

definition meta_line :: "ustr \<Rightarrow> bool \<Rightarrow> nat \<Rightarrow> bool \<Rightarrow> ustr \<Rightarrow> ustr" where
  "meta_line t useRag pinned useRealtime realtimeContext =
     t @ (if useRag then js '' | RAG: ON'' else js '' | RAG: OFF'') @ (if pinned \<noteq> 0 then js '' | PIN: '' @ nat_str pinned else [])
     @ (if useRealtime then (if realtimeContext \<noteq> [] then js '' | RT: ON'' else js '' | RT: EMPTY'') else [])"

definition chat_failed :: "nat \<Rightarrow> panel \<Rightarrow> panel" where
  "chat_failed i s = showBusyModal (set_text i SYSTEM_BUSY_TEXT s)"

text \<open>From the pinned transcripts on: \<open>useRag\<close> was read before, the snapshot when the question was sent.\<close>

definition send_question :: "panelcfg \<Rightarrow> env \<Rightarrow> question \<Rightarrow> bool \<Rightarrow> snapshot option \<Rightarrow> unit pact" where
  "send_question pc e q useRag0 frozen = do {
     pinnedContext \<leftarrow> buildPinnedRagContextBlock pc e;
     rt \<leftarrow> gets p_useRealtime;
     (let realtimeContext = (if rt then buildRealtimeContextBlock frozen else []);
          useRag = (useRag0 \<or> pinnedContext \<noteq> [] \<or> realtimeContext \<noteq> []);
          ctx = join [10, 10] (filter (\<lambda>x. x \<noteq> []) [pinnedContext, realtimeContext])
      in do {
        pins \<leftarrow> gets (\<lambda>s. rg_pinned (p_rag s));
        t \<leftarrow> onw (nowTime e (pc_local pc));
        out \<leftarrow> ask_server pc e q useRag ctx pins;
        (case out of
           Inl x \<Rightarrow> mods (chat_failed (q_bubble q))
         | Inr a \<Rightarrow> keep_answer pc e q useRag (meta_line t useRag (length pins) rt realtimeContext) a) }) }"

text \<open>From the session of the question on; then the whole function.\<close>

definition chat_in :: "panelcfg \<Rightarrow> env \<Rightarrow> ustr \<Rightarrow> ustr \<Rightarrow> unit pact" where
  "chat_in pc e rawUserQ sid = do {
     frozen \<leftarrow> gets (\<lambda>s. if p_useRealtime s then Some (cloneRealtimeSnapshot (p_snap s)) else None);
     profile \<leftarrow> getVtAuthProfile pc;
     if \<not> profile_ok profile then do {
       u \<leftarrow> openAuthOverlayFromPanel e;
       t \<leftarrow> onw (nowTime e (pc_local pc));
       i \<leftarrow> appendBubble (js ''assistant'') CHAT_GUEST_TEXT t;
       skip }
     else do {
       r1 \<leftarrow> gets p_useR1;
       userMeta \<leftarrow> onw (nowTime e (pc_local pc));
       i0 \<leftarrow> appendBubble (js ''user'') rawUserQ userMeta;
       i \<leftarrow> appendBubble (js ''assistant'') (js ''...'') [];
       api \<leftarrow> gets (\<lambda>s. getApiBase e (p_ls s));
       useRag \<leftarrow> gets p_useRag;
       okBase \<leftarrow> probeApiBase pc e api;
       if \<not> okBase then mods (chat_failed i)
       else send_question pc e
         \<lparr>q_text = rawUserQ, q_sid = sid, q_key = authIdentityKeyFromProfile profile, q_meta = userMeta,
          q_model = (if r1 then js ''r1'' else js ''default''), q_bubble = i, q_api = api\<rparr> useRag frozen } }"

definition sendChat :: "panelcfg \<Rightarrow> env \<Rightarrow> ustr \<Rightarrow> unit pact" where
  "sendChat pc e txt' =
     (if trim txt' = [] then skip else do { sid \<leftarrow> getSessionId pc e; chat_in pc e (trim txt') sid })"

end
