(* ===== verification/Panel_Events.thy ===== *)
theory Panel_Events
  imports Panel_Ask
begin

section \<open>sidepanel.js: the handlers of the chat\<close>

text \<open>
  What the user, the worker and the browser can make the chat do, one event per handler.  A handler
  runs until it pauses; then any other may run.  \<open>panel_busy\<close> builds such a schedule of bounded depth.
\<close>

datatype pevent =
    Ask ustr
  | Switch ustr
  | ToggleConversations
  | CloseConversations
  | NewConversation
  | OpenDelete ustr ustr
  | CancelDelete
  | ConfirmDelete
  | RealtimeChip
  | R1Chip
  | RagOpen
  | RagClose
  | RagSearch ustr
  | RagCheck jnum bool
  | RagConfirm
  | RagRemove jnum
  | RagDetail jnum
  | Patch jsval
  | AuthChanged
  | HideBusy
  | Opened

text \<open>A click on the chip of the realtime transcript, and the one that confirms the pinned transcripts.\<close>

definition on_r1 :: "panel \<Rightarrow> panel" where
  "on_r1 s = applyChatTogglesUI s"

definition on_confirm :: "panel \<Rightarrow> panel" where
  "on_confirm s = (case pinSelectedRagSources (p_rag s) of (g, b) \<Rightarrow> applyChatTogglesUI (s\<lparr>p_rag := g, p_useRag := b\<rparr>))"

definition on_remove :: "jnum \<Rightarrow> panel \<Rightarrow> panel" where
  "on_remove sid s =
     (case removeRagSource sid (p_rag s) of
        (g, None) \<Rightarrow> s
      | (g, Some b) \<Rightarrow> applyChatTogglesUI (s\<lparr>p_rag := g, p_useRag := b\<rparr>))"

definition on_rag :: "(rag \<Rightarrow> rag) \<Rightarrow> panel \<Rightarrow> panel" where
  "on_rag f s = s\<lparr>p_rag := f (p_rag s)\<rparr>"

definition openChatRagDetail :: "panelcfg \<Rightarrow> env \<Rightarrow> jnum \<Rightarrow> unit pact" where
  "openChatRagDetail pc e sid =
     (if \<not> truthy (JNum sid) then skip
      else do {
        u \<leftarrow> mods (on_rag (\<lambda>g. g\<lparr>rg_open := False\<rparr>));
        d \<leftarrow> ensureRagDetail pc e sid;
        skip })"

definition on_patch :: "env \<Rightarrow> jsval \<Rightarrow> unit pact" where
  "on_patch e patch = do { t \<leftarrow> onw (Date_now e); mods (\<lambda>s. s\<lparr>p_snap := setRealtimeSnapshotCache t patch (p_snap s)\<rparr>) }"

fun panel_step :: "panelcfg \<Rightarrow> env \<Rightarrow> pevent \<Rightarrow> unit pact" where
  "panel_step pc e (Ask t) = sendChat pc e t"
| "panel_step pc e (Switch sid) = switchChatSession pc e sid True"
| "panel_step pc e ToggleConversations = toggleChatConversationsPanel pc e"
| "panel_step pc e CloseConversations = mods closeChatConversationsPanel"
| "panel_step pc e NewConversation = createNewChatConversation pc e"
| "panel_step pc e (OpenDelete sid label) = openChatDeleteModal pc e sid label"
| "panel_step pc e CancelDelete = mods (closeChatDeleteModal False)"
| "panel_step pc e ConfirmDelete = submitChatDeleteModal pc e"
| "panel_step pc e RealtimeChip = on_realtime pc e"
| "panel_step pc e R1Chip = mods on_r1"
| "panel_step pc e RagOpen = openRagPicker pc e False"
| "panel_step pc e RagClose = mods (on_rag (\<lambda>g. g\<lparr>rg_open := False\<rparr>))"
| "panel_step pc e (RagSearch q) = mods (on_rag (\<lambda>g. applyRagFilter (g\<lparr>rg_search := q\<rparr>)))"
| "panel_step pc e (RagCheck sid checked) = mods (on_rag (toggleRagSelected sid checked))"
| "panel_step pc e RagConfirm = mods on_confirm"
| "panel_step pc e (RagRemove sid) = mods (on_remove sid)"
| "panel_step pc e (RagDetail sid) = openChatRagDetail pc e sid"
| "panel_step pc e (Patch v) = on_patch e v"
| "panel_step pc e AuthChanged = on_authChanged pc e"
| "panel_step pc e HideBusy = mods (\<lambda>s. s\<lparr>p_busy := False\<rparr>)"
| "panel_step pc e Opened = on_start pc e"

fun panel_run :: "panelcfg \<Rightarrow> env \<Rightarrow> pevent list \<Rightarrow> unit pact" where
  "panel_run pc e [] = skip"
| "panel_run pc e (ev # evs) = do { u \<leftarrow> panel_step pc e ev; panel_run pc e evs }"

text \<open>
  \<open>panel_busy pc e ok' cs\<close>: at a point where a function pauses, the first choice of \<open>cs\<close> picks the events,
  of those with \<open>ok'\<close>, that run to their end; where those wait the second choice picks, and so on.
\<close>

fun panel_busy :: "panelcfg \<Rightarrow> env \<Rightarrow> (pevent \<Rightarrow> bool) \<Rightarrow> (panel \<times> world \<Rightarrow> pevent list) list \<Rightarrow> panelcfg" where
  "panel_busy pc e ok' [] = pc\<lparr>pc_other := \<lambda>x. x\<rparr>"
| "panel_busy pc e ok' (c # cs) =
     pc\<lparr>pc_other := \<lambda>x. snd (run_state (panel_run (panel_busy pc e ok' cs) e (filter ok' (c x))) x)\<rparr>"

text \<open>The events that neither ask nor delete.\<close>

fun browses :: "pevent \<Rightarrow> bool" where
  "browses (Ask t) \<longleftrightarrow> False"
| "browses ConfirmDelete \<longleftrightarrow> False"
| "browses _ \<longleftrightarrow> True"

definition blank_panel :: panel where
  "blank_panel =
     \<lparr>p_ls = [], p_run = [], p_rag = \<lparr>rg_loaded = False, rg_loading = False, rg_open = False, rg_items = [], rg_filtered = [],
        rg_selected = [], rg_pinned = [], rg_details = [], rg_inflight = [], rg_search = []\<rparr>,
      p_useRag = False, p_useRealtime = False, p_useR1 = False,
      p_snap = \<lparr>sn_active = False, sn_starting = False, sn_seq = JFin 0, sn_tMs = JFin 0, sn_full = [], sn_at = JFin 0\<rparr>,
      p_bubbles = [], p_made = 0, p_convOpen = False, p_convKey = [], p_rows = [], p_active = [],
      p_delOpen = False, p_delSid = [], p_delLabel = [], p_delBusy = False, p_busy = False\<rparr>"

end
