(* ===== verification/Panel_Chat_Contract.thy ===== *)
theory Panel_Chat_Contract
  imports Panel_Events
begin

section \<open>What the chat promises\<close>

text \<open>
  The messages of all conversations and the cursors to the rows of the database are two objects of
  \<open>localStorage\<close>.  The handlers that only browse (neither ask nor delete) leave both as they are and send
  no request; \<open>quiet_others\<close> assumes that of whatever runs while a function pauses, and the schedules
  of browsing handlers satisfy it.
\<close>

definition hist :: "env \<Rightarrow> panel \<Rightarrow> jobj" where
  "hist e s = readChatHistoryMap e (p_ls s)"

definition curs :: "env \<Rightarrow> panel \<Rightarrow> jobj" where
  "curs e s = readJsonObjectLS e (p_ls s) ''sttChatDbCursorV1''"

text \<open>A property of the variables that looks at these two objects only.\<close>

definition sees :: "env \<Rightarrow> (jobj \<Rightarrow> jobj \<Rightarrow> bool) \<Rightarrow> panel \<Rightarrow> bool" where
  "sees e P s \<longleftrightarrow> P (hist e s) (curs e s)"

lemma read_after_set:
  "readJsonObjectLS e (ls_set st k v) k' =
     (if js k' = js k then (let x = (case v of Raw t \<Rightarrow> if t = [] then JNull else case e_json e t of None \<Rightarrow> JNull | Some y \<Rightarrow> y | Printed y \<Rightarrow> y)
        in if truthy x \<and> is_object x then props x else []) else readJsonObjectLS e st k')"
  by (simp add: readJsonObjectLS_def ls_item_def ls_set_def split: lsval.split)

lemma sees_same: "hist e s' = hist e s \<Longrightarrow> curs e s' = curs e s \<Longrightarrow> sees e P s \<Longrightarrow> sees e P s'"
  by (simp add: sees_def)

lemma hist_curs_set [simp]:
  assumes "k \<in> {''sttChatSessionId'', ''sttChatRuntimeMarkV1''}"
  shows "hist e (s\<lparr>p_ls := ls_set (p_ls s) k v\<rparr>) = hist e s" "curs e (s\<lparr>p_ls := ls_set (p_ls s) k v\<rparr>) = curs e s"
  using assms by (auto simp: hist_def curs_def readChatHistoryMap_def read_after_set)

lemma same_ls: "p_ls s' = p_ls s \<Longrightarrow> hist e s' = hist e s" "p_ls s' = p_ls s \<Longrightarrow> curs e s' = curs e s"
  by (simp_all add: hist_def curs_def)

lemma toggles_same [simp]: "hist e (applyChatTogglesUI s) = hist e s" "curs e (applyChatTogglesUI s) = curs e s"
  by (simp_all add: hist_def curs_def applyChatTogglesUI_def writeBoolLS_def readChatHistoryMap_def read_after_set)

lemma keeps_mods_ls: "(\<And>s. p_ls (f s) = p_ls s) \<Longrightarrow> keeps (sees e P) (mods f)"
  by (rule keeps_mods) (metis sees_same same_ls)

lemma keeps_setItem [keeps_intros]:
  "k \<in> {''sttChatSessionId'', ''sttChatRuntimeMarkV1''} \<Longrightarrow> keeps (sees e P) (setItem k v)"
  unfolding setItem_def by (rule keeps_mods, erule sees_same [rotated 2]) simp_all

lemma keeps_pure [keeps_intros]:
  "keeps (sees e P) (uid pc)" "keeps (sees e P) (openAuthOverlayFromPanel e)" "keeps (sees e P) (appendBubble a b c)"
  unfolding uid_def openAuthOverlayFromPanel_def appendBubble_def by (intro keeps_intros keeps_mods_ls; simp)+

lemma keeps_fresh [keeps_intros]: "keeps (sees e P) (fresh_session pc)" "keeps (sees e P) (getSessionId pc e)"
  unfolding getSessionId_def fresh_session_def by (intro keeps_intros; simp)+

lemma keeps_items [keeps_intros]: "keeps (sees e P) (append_items xs)"
  by (induction xs) (simp_all only: append_items.simps, (intro keeps_intros | assumption)+)

lemma keeps_restore [keeps_intros]: "keeps (sees e P) (restoreChatHistory pc e)"
  unfolding restoreChatHistory_def by (intro keeps_intros keeps_mods_ls) simp

lemma keeps_render [keeps_intros]: "keeps (sees e P) (renderChatConversations pc e key)" "keeps (sees e P) (render_shown pc e)"
  "keeps (sees e P) (syncConversationPanelAfterHistoryChange pc e)"
  unfolding syncConversationPanelAfterHistoryChange_def render_shown_def renderChatConversations_def
  by (intro keeps_intros keeps_mods_ls; simp)+

text \<open>Requests: an action that sends at most \<open>n\<close>.\<close>

definition asks :: "nat \<Rightarrow> 'a pact \<Rightarrow> bool" where
  "asks n m \<longleftrightarrow> (\<forall>x. \<exists>new. w_reqs (snd (snd (run_state m x))) = w_reqs (snd x) @ new \<and> length new \<le> n)"

named_theorems asks_intros

lemma asksI: "(\<And>s w a s' w'. run_state m (s, w) = (a, s', w') \<Longrightarrow> \<exists>new. w_reqs w' = w_reqs w @ new \<and> length new \<le> n) \<Longrightarrow> asks n m"
  unfolding asks_def by (metis prod.collapse)

lemma asks_run:
  assumes "asks n m" and "run_state m (s, w) = (a, s', w')"
  obtains new where "w_reqs w' = w_reqs w @ new" and "length new \<le> n"
  using assms unfolding asks_def by (metis snd_conv)

lemma asks_more: "asks m a \<Longrightarrow> m \<le> n \<Longrightarrow> asks n a"
  unfolding asks_def by (meson le_trans)

lemma asks_bind:
  assumes "asks k m" and "\<And>a. asks l (f a)"
  shows "asks (k + l) (State_Monad.bind m f)"
proof (rule asksI)
  fix s w b s' w' assume run: "run_state (State_Monad.bind m f) (s, w) = (b, s', w')"
  obtain a s1 w1 where 1: "run_state m (s, w) = (a, s1, w1)" by (metis prod_cases3)
  obtain n1 where n1: "w_reqs w1 = w_reqs w @ n1" "length n1 \<le> k" using assms(1) 1 by (rule asks_run)
  from run 1 have "run_state (f a) (s1, w1) = (b, s', w')" by simp
  with assms(2) obtain n2 where n2: "w_reqs w' = w_reqs w1 @ n2" "length n2 \<le> l" by (rule asks_run)
  show "\<exists>new. w_reqs w' = w_reqs w @ new \<and> length new \<le> k + l"
    using n1 n2 by (intro exI [of _ "n1 @ n2"]) simp
qed

lemma asks0_bind [asks_intros]: "asks 0 m \<Longrightarrow> (\<And>a. asks l (f a)) \<Longrightarrow> asks l (State_Monad.bind m f)"
  using asks_bind [of 0 m l f] by simp

lemma asks_ret [asks_intros]: "asks n (State_Monad.return a)"
  by (simp add: asks_def)

lemma asks_acts [asks_intros]: "asks n (gets f)" "asks n (mods g)"
  by (simp_all add: asks_def)

lemma asks_onw: "sends P m \<Longrightarrow> (\<And>r. \<not> P r) \<Longrightarrow> asks n (onw m)"
proof (rule asksI)
  fix s w a s' w' assume s: "sends P m" and np: "\<And>r. \<not> P r" and run: "run_state (onw m) (s, w) = (a, s', w')"
  then have "run_state m w = (a, w')" by (simp split: prod.splits)
  with s obtain new where "w_reqs w' = w_reqs w @ new" "list_all P new" by (rule sends_run)
  moreover from this np have "new = []" by (cases new) auto
  ultimately show "\<exists>new. w_reqs w' = w_reqs w @ new \<and> length new \<le> n" by simp
qed

lemma asks_if [asks_intros]: "(b \<Longrightarrow> asks n m) \<Longrightarrow> (\<not> b \<Longrightarrow> asks n k) \<Longrightarrow> asks n (if b then m else k)"
  by simp

lemma asks_whenA [asks_intros]: "asks n m \<Longrightarrow> asks n (whenA b m)"
  by (simp add: whenA_def asks_ret)

lemma asks_option [asks_intros]:
  "asks n m \<Longrightarrow> (\<And>a. asks n (f a)) \<Longrightarrow> asks n (case x of None \<Rightarrow> m | Some a \<Rightarrow> f a)"
  by (simp split: option.split)

lemma asks_list [asks_intros]:
  "asks n m \<Longrightarrow> (\<And>a as. asks n (f a as)) \<Longrightarrow> asks n (case x of [] \<Rightarrow> m | a # as \<Rightarrow> f a as)"
  by (simp split: list.split)

lemma asks_prod [asks_intros]: "(\<And>a b. asks n (f a b)) \<Longrightarrow> asks n (case x of (a, b) \<Rightarrow> f a b)"
  by (simp split: prod.split)

lemma asks_prims [asks_intros]:
  "asks n (onw (Date_now e))" "asks n (onw (now_iso e))" "asks n (onw (store_get k))" "asks n (onw (emit e x))" "asks n (uid pc)"
  "asks n (onw (nowTime e lt))" "asks n (onw (ret a))"
  by (simp_all add: asks_def uid_def nowTime_def run_emit split: prod.splits)

lemma asks_clock: "(\<And>st. sends (\<lambda>r. False) (f st)) \<Longrightarrow> asks n (on_ls f)"
  unfolding on_ls_def by (intro asks_intros asks_onw) auto

lemma sends_iso: "sends P (panel_toIsoOrNow e v)"
  by (simp add: panel_toIsoOrNow_def split: option.split)

lemma sends_upsert: "sends P (upsertChatSessionMeta e sid patch st)"
  unfolding upsertChatSessionMeta_def meta_value_def Let_def
  by (rule sends_if, rule sends_ret, rule sends_bind, (rule sends_bind, rule sends_iso)+, rule sends_ret, rule sends_ret)

lemma sends_touch: "sends P (touchChatSessionMetaFromItems e sid arr key hint st)"
  unfolding touchChatSessionMetaFromItems_def Let_def
  by (rule sends_if, rule sends_ret, rule sends_bind, simp, rule sends_upsert)

lemma asks_ls [asks_intros]:
  "asks n (on_ls (push_item e who t meta sid key hint))" "asks n (on_ls (setChatDbCursorState e key sid a b))"
  unfolding push_item_def setChatDbCursorState_def Let_def
  by (rule asks_clock, rule sends_if, rule sends_ret, rule sends_touch,
      rule asks_clock, rule sends_if, rule sends_ret, rule sends_bind, simp, rule sends_ret)

lemma asks_onw_if [asks_intros]: "asks n (onw m) \<Longrightarrow> asks n (onw k) \<Longrightarrow> asks n (onw (if b then m else k))"
  by simp

lemma asks_page [asks_intros]:
  "asks n (setItem k v)" "asks n (fresh_session pc)" "asks n (getSessionId pc e)" "asks n (openAuthOverlayFromPanel e)"
  "asks n (appendBubble a b c)"
  unfolding setItem_def fresh_session_def getSessionId_def openAuthOverlayFromPanel_def appendBubble_def
  by (intro asks_intros)+

lemma asks_items [asks_intros]: "asks n (append_items xs)"
  by (induction xs) (simp_all only: append_items.simps, (intro asks_intros | assumption)+)

lemma asks_render [asks_intros]: "asks n (restoreChatHistory pc e)" "asks n (renderChatConversations pc e key)" "asks n (render_shown pc e)"
  "asks n (syncConversationPanelAfterHistoryChange pc e)"
  unfolding syncConversationPanelAfterHistoryChange_def render_shown_def renderChatConversations_def restoreChatHistory_def
  by (intro asks_intros)+

lemma keeps_asked: "keeps I m \<Longrightarrow> (\<And>d. keeps I (f d)) \<Longrightarrow> (\<And>k d. keeps I (g k d)) \<Longrightarrow>
  keeps I (case a of None \<Rightarrow> m | Some (Known d) \<Rightarrow> f d | Some (Asked k d) \<Rightarrow> g k d)"
  by (cases a; simp only: option.case; rename_tac x; case_tac x; simp only: asked.case)

lemma asks_asked: "asks n m \<Longrightarrow> (\<And>d. asks n (f d)) \<Longrightarrow> (\<And>k d. asks n (g k d)) \<Longrightarrow>
  asks n (case a of None \<Rightarrow> m | Some (Known d) \<Rightarrow> f d | Some (Asked k d) \<Rightarrow> g k d)"
  by (cases a; simp only: option.case; rename_tac x; case_tac x; simp only: asked.case)

lemma hist_curs_upd [simp]:
  "hist e (s\<lparr>p_rag := g\<rparr>) = hist e s" "curs e (s\<lparr>p_rag := g\<rparr>) = curs e s"
  "hist e (s\<lparr>p_useRag := b\<rparr>) = hist e s" "curs e (s\<lparr>p_useRag := b\<rparr>) = curs e s"
  by (simp_all add: hist_def curs_def)

lemma keeps_toggles: "(\<And>s. p_ls (f s) = p_ls s) \<Longrightarrow> keeps (sees e P) (mods (\<lambda>s. applyChatTogglesUI (f s)))"
  by (rule keeps_mods, erule sees_same [rotated 2]) (simp only: toggles_same, rule same_ls, simp)+

lemma keeps_mods_toggles [keeps_intros]: "keeps (sees e P) (mods on_r1)" "keeps (sees e P) (mods on_confirm)" "keeps (sees e P) (mods (on_remove sid))"
  unfolding on_r1_def on_confirm_def on_remove_def pinSelectedRagSources_def removeRagSource_def Let_def
  by (rule keeps_mods, erule sees_same [rotated 2]; simp)+

subsection \<open>Browsing\<close>

locale quiet_others =
  fixes pc :: panelcfg and e :: env
  assumes same_hist: "hist e (fst (pc_other pc x)) = hist e (fst x)"
    and same_curs: "curs e (fst (pc_other pc x)) = curs e (fst x)"
    and same_reqs: "w_reqs (snd (pc_other pc x)) = w_reqs (snd x)"
begin

lemma keeps_waits [keeps_intros]: "keeps (sees e P) (pauses pc)"
  by (simp add: keeps_def pauses_def sees_def same_hist same_curs)

lemma asks_waits [asks_intros]: "asks n (pauses pc)"
  by (simp add: asks_def pauses_def same_reqs)

lemma keeps_profile [keeps_intros]: "keeps (sees e P) (sendRuntime pc e msg)" "keeps (sees e P) (getVtAuthProfile pc)"
  "keeps (sees e P) (getCurrentChatIdentityKey pc)"
  unfolding getCurrentChatIdentityKey_def getVtAuthProfile_def p_storeGet_def sendRuntime_def Let_def
  by (intro keeps_intros)+

lemma asks_profile [asks_intros]: "asks n (sendRuntime pc e msg)" "asks n (getVtAuthProfile pc)" "asks n (getCurrentChatIdentityKey pc)"
  unfolding getCurrentChatIdentityKey_def getVtAuthProfile_def p_storeGet_def sendRuntime_def Let_def
  by (intro asks_intros | simp)+

lemma keeps_conversations [keeps_intros]:
  "keeps (sees e P) (known_identity pc)" "keeps (sees e P) (openChatConversationsPanel pc e)"
  "keeps (sees e P) (toggleChatConversationsPanel pc e)" "keeps (sees e P) (switchChatSession pc e sid b)"
  "keeps (sees e P) (createNewChatConversation pc e)" "keeps (sees e P) (openChatDeleteModal pc e sid label)"
  unfolding known_identity_def openChatConversationsPanel_def toggleChatConversationsPanel_def switchChatSession_def
    createNewChatConversation_def openChatDeleteModal_def Let_def closeChatConversationsPanel_def
  by (intro keeps_intros keeps_mods_ls; simp)+

lemma asks_conversations [asks_intros]:
  "asks n (known_identity pc)" "asks n (openChatConversationsPanel pc e)" "asks n (toggleChatConversationsPanel pc e)"
  "asks n (switchChatSession pc e sid b)" "asks n (createNewChatConversation pc e)" "asks n (openChatDeleteModal pc e sid label)"
  unfolding known_identity_def openChatConversationsPanel_def toggleChatConversationsPanel_def switchChatSession_def
    createNewChatConversation_def openChatDeleteModal_def Let_def
  by (intro asks_intros)+

lemma keeps_rag [keeps_intros]:
  "keeps (sees e P) (begin_detail pc e sid)" "keeps (sees e P) (finish_detail e a)" "keeps (sees e P) (ensureRagDetail pc e sid)"
  "keeps (sees e P) (openChatRagDetail pc e sid)"
  unfolding openChatRagDetail_def ensureRagDetail_def begin_detail_def finish_detail_def Let_def
  by (intro keeps_intros keeps_asked keeps_mods_ls; simp add: on_rag_def showBusyModal_def)+

lemma asks_rag [asks_intros]:
  "asks n (begin_detail pc e sid)" "asks n (finish_detail e a)" "asks n (ensureRagDetail pc e sid)" "asks n (openChatRagDetail pc e sid)"
  unfolding openChatRagDetail_def ensureRagDetail_def begin_detail_def finish_detail_def Let_def
  by (intro asks_intros asks_asked)+

lemma keeps_picker [keeps_intros]:
  "keeps (sees e P) (list_answer e res)" "keeps (sees e P) (loadRagPickerList pc e b)" "keeps (sees e P) (openRagPicker pc e b)"
  unfolding openRagPicker_def loadRagPickerList_def list_answer_def
  by (intro keeps_intros keeps_mods_ls; simp add: list_failed_def showBusyModal_def)+

lemma asks_picker [asks_intros]:
  "asks n (list_answer e res)" "asks n (loadRagPickerList pc e b)" "asks n (openRagPicker pc e b)"
  unfolding openRagPicker_def loadRagPickerList_def list_answer_def
  by (intro asks_intros)+

lemma keeps_switches [keeps_intros]:
  "keeps (sees e P) (on_realtime pc e)" "keeps (sees e P) (on_patch e v)" "keeps (sees e P) (on_authChanged pc e)" "keeps (sees e P) (on_start pc e)"
  unfolding on_start_def rotateChatSessionIfRuntimeChanged_def getOrCreateRuntimeRunId_def on_authChanged_def on_patch_def on_realtime_def
    refreshRealtimeSnapshotCache_def getRealtimeTranscriptSnapshot_def Let_def
  by (intro keeps_intros keeps_mods_ls keeps_toggles; simp)+

lemma asks_switches [asks_intros]:
  "asks n (on_realtime pc e)" "asks n (on_patch e v)" "asks n (on_authChanged pc e)" "asks n (on_start pc e)"
  unfolding on_start_def rotateChatSessionIfRuntimeChanged_def getOrCreateRuntimeRunId_def on_authChanged_def on_patch_def on_realtime_def
    refreshRealtimeSnapshotCache_def getRealtimeTranscriptSnapshot_def Let_def
  by (intro asks_intros)+

lemma keeps_browse: "browses ev \<Longrightarrow> keeps (sees e P) (panel_step pc e ev)"
  by (cases ev; simp only: panel_step.simps browses.simps)
    (intro keeps_intros keeps_mods_ls keeps_mods_toggles; simp add: closeChatConversationsPanel_def closeChatDeleteModal_def on_rag_def)+

lemma asks_browse: "browses ev \<Longrightarrow> asks n (panel_step pc e ev)"
  by (cases ev; simp only: panel_step.simps browses.simps) (intro asks_intros)+

lemma keeps_browsing: "list_all browses evs \<Longrightarrow> keeps (sees e P) (panel_run pc e evs)"
  by (induction evs) (simp_all add: keeps_ret keeps_bind keeps_browse)

lemma asks_browsing: "list_all browses evs \<Longrightarrow> asks 0 (panel_run pc e evs)"
  by (induction evs) (simp_all add: asks_ret asks0_bind asks_browse)

end

text \<open>The schedules of browsing handlers, at every depth.\<close>

lemma browsing_quiet: "quiet_others (panel_busy pc e browses cs) e"
proof (induction cs)
  case Nil
  show ?case by unfold_locales simp_all
next
  case (Cons c cs)
  show ?case
  proof unfold_locales
    fix x :: "panel \<times> world"
    obtain s w where x: "x = (s, w)" by fastforce
    let ?m = "panel_run (panel_busy pc e browses cs) e (filter browses (c x))"
    obtain s' w' where run: "run_state ?m (s, w) = ((), s', w')" by (rule act_runs)
    have all: "list_all browses (filter browses (c x))" by (simp add: list_all_iff)
    have "sees e (\<lambda>h k. h = hist e s \<and> k = curs e s) s'"
      using quiet_others.keeps_browsing [OF Cons.IH all] run by (rule keeps_run) (simp add: sees_def)
    then show "hist e (fst (pc_other (panel_busy pc e browses (c # cs)) x)) = hist e (fst x)"
      and "curs e (fst (pc_other (panel_busy pc e browses (c # cs)) x)) = curs e (fst x)"
      using run x by (simp_all add: sees_def)
    obtain new where "w_reqs w' = w_reqs w @ new" "length new \<le> 0"
      using quiet_others.asks_browsing [OF Cons.IH all] run by (rule asks_run)
    then show "w_reqs (snd (pc_other (panel_busy pc e browses (c # cs)) x)) = w_reqs (snd x)"
      using run x by simp
  qed
qed

interpretation browsing: quiet_others "panel_busy pc e browses cs" e for pc e cs
  by (rule browsing_quiet)

end
