(* ===== verification/Panel_Chat_Props.thy ===== *)
theory Panel_Chat_Props
  imports Panel_Chat_Contract
begin

section \<open>Questions, answers and conversations\<close>

subsection \<open>What a question sends and keeps\<close>

definition items_at :: "jobj \<Rightarrow> ustr \<Rightarrow> item list" where
  "items_at h sid =
     (if trim sid = [] then []
      else case obj_get h (trim sid) of JArr xs \<Rightarrow> filter (\<lambda>x. trim (it_text x) \<noteq> []) (map item_of xs) | _ \<Rightarrow> [])"

lemma items_at_trim [simp]: "items_at h (trim sid) = items_at h sid"
  by (simp add: items_at_def)

lemma items_hist: "getChatHistoryItems e (p_ls s) sid = items_at (hist e s) sid"
  by (simp add: getChatHistoryItems_def items_at_def hist_def)

definition has_items :: "env \<Rightarrow> (ustr \<Rightarrow> item list) \<Rightarrow> panel \<Rightarrow> bool" where
  "has_items e F s \<longleftrightarrow> (\<forall>sid. getChatHistoryItems e (p_ls s) sid = F sid)"

lemma has_items_sees: "has_items e F = sees e (\<lambda>h k. items_at h = F)"
  by (auto simp: fun_eq_iff has_items_def sees_def items_hist)

lemma message_trim [simp]: "message who (trim t) m = message who t m"
  by (simp add: message_def)

lemma last_n_again: "0 < n \<Longrightarrow> last_n n (last_n n ys @ [b]) = last_n n (ys @ [b])"
  by (cases "length ys \<le> n") (auto simp: last_n_def not_le Suc_diff_le)

lemma last_n_twice: "0 < n \<Longrightarrow> last_n n (last_n n (xs @ [a]) @ [b]) = last_n n (xs @ [a, b])"
  using last_n_again [of n "xs @ [a]" b] by simp

definition added :: "ustr \<Rightarrow> item \<Rightarrow> (ustr \<Rightarrow> item list) \<Rightarrow> ustr \<Rightarrow> item list" where
  "added sid x F = (\<lambda>sid'. if trim sid' = trim sid then last_n CHAT_HISTORY_MAX (F sid @ [x]) else F sid')"

lemma leads_push:
  assumes "trim t \<noteq> []" and "trim sid \<noteq> []"
  shows "leads (has_items e F) (on_ls (push_item e who t meta sid key hint)) (has_items e (added sid (message who t meta) F))"
proof (rule leadsI)
  fix s w a s' w'
  assume run: "run_state (on_ls (push_item e who t meta sid key hint)) (s, w) = (a, s', w')" and F: "has_items e F s"
  obtain st' w1 where 1: "run_state (push_item e who t meta sid key hint (p_ls s)) w = (st', w1)" by fastforce
  with run have "p_ls s' = st'" by (auto simp: on_ls_def)
  with push_items [OF assms 1] F show "has_items e (added sid (message who t meta) F) s'"
    by (simp add: has_items_def added_def)
qed

lemma leads_pushed:
  "leads (has_items e F) (pushChatHistoryItem pc e who t meta sid key hint)
     (has_items e (if trim t = [] \<or> trim sid = [] then F else added sid (message who t meta) F))"
  if "sid \<noteq> []"
proof (cases "trim t = [] \<or> trim sid = []")
  case True
  with that show ?thesis by (auto simp: pushChatHistoryItem_def leads_def)
next
  case False
  have "leads (has_items e F) (do { u \<leftarrow> on_ls (push_item e who t meta sid key hint); syncConversationPanelAfterHistoryChange pc e })
     (has_items e (added sid (message who t meta) F))"
    using False by (intro leads_bind [OF leads_push] leads_keeps) (auto simp: has_items_sees intro: keeps_intros)
  with that False show ?thesis by (auto simp: pushChatHistoryItem_def)
qed

lemma asks_andThen: "asks k m \<Longrightarrow> (\<And>a. asks l (f a)) \<Longrightarrow> asks (k + l) (andThen m f)"
  unfolding andThen_def by (rule asks_bind) (auto intro: asks_ret split: sum.split)

lemma asks_bind0: "asks k m \<Longrightarrow> (\<And>a. asks 0 (f a)) \<Longrightarrow> asks k (State_Monad.bind m f)"
  using asks_bind [of k m 0 f] by simp

lemma asks_andThen0: "asks k m \<Longrightarrow> (\<And>a. asks 0 (f a)) \<Longrightarrow> asks k (andThen m f)"
  using asks_andThen [of k m 0 f] by simp

lemma asks_one: "asks 1 (onw (fetch e r))" "asks 1 (onw (State (\<lambda>w. (f w, w\<lparr>w_reqs := w_reqs w @ [r]\<rparr>))))"
  by (simp_all add: asks_def run_fetch)

lemma sends_now [simp]: "w_reqs (snd (run_state (nowTime e lt) w)) = w_reqs w"
  by (simp add: nowTime_def split: prod.split)

lemma failed_items [simp]: "has_items e F (chat_failed i s) = has_items e F s"
  by (simp add: has_items_def chat_failed_def set_text_def edit_bubble_def showBusyModal_def)

text \<open>An answer that is kept is no blank.\<close>

lemma answer_nonempty:
  assumes "run_state (ask_server pc e q b ctx srcs) x = (Inr a, x')"
  shows "trim a \<noteq> []"
  using assms by (auto simp: ask_server_def Let_def run_andThen split: prod.splits sum.splits if_splits)

text \<open>The question and the answer at the end of the session, or nothing new.\<close>

definition answered :: "env \<Rightarrow> ustr \<Rightarrow> ustr \<Rightarrow> (ustr \<Rightarrow> item list) \<Rightarrow> panel \<Rightarrow> bool" where
  "answered e sid t F s \<longleftrightarrow>
     has_items e F s \<or>
     (\<exists>out um am. trim out \<noteq> [] \<and> has_items e (added sid (message (js ''assistant'') out am) (added sid (message (js ''user'') t um) F)) s)"

context quiet_others
begin

lemma keeps_server [keeps_intros]:
  "keeps (sees e P) (post_stream pc r)" "keeps (sees e P) (p_fetch pc e r)" "keeps (sees e P) (probeApiBase pc e api)"
  unfolding probeApiBase_def p_fetch_def post_stream_def by (intro keeps_intros)+

lemma asks_server: "asks 1 (post_stream pc r)" "asks 1 (p_fetch pc e r)"
  unfolding p_fetch_def post_stream_def by (rule asks_bind0, rule asks_one, intro asks_intros)+

lemma asks_probe: "asks 1 (probeApiBase pc e api)"
  unfolding probeApiBase_def by (rule asks_bind0, rule asks_server, intro asks_intros)

lemma show_outs_ls: "p_ls (show_outs i outs s) = p_ls s"
  by (induction i outs s rule: show_outs.induct) (simp_all add: show_token_def edit_bubble_def)

lemma keeps_stream [keeps_intros]: "keeps (sees e P) (read_stream pc e i acc buf cs)"
  by (induction cs arbitrary: acc buf)
    (simp_all only: read_stream.simps, (intro keeps_intros keeps_mods_ls show_outs_ls | assumption)+)

lemma asks_stream [asks_intros]: "asks n (read_stream pc e i acc buf cs)"
  by (induction cs arbitrary: acc buf) (simp_all only: read_stream.simps, (intro asks_intros | assumption)+)

lemma keeps_call [keeps_intros]: "keeps (sees e P) (callChatOnce pc e api body i)"
  unfolding callChatOnce_def Let_def by (intro keeps_intros keeps_mods_ls) (simp add: set_text_def edit_bubble_def)

lemma asks_call: "asks 2 (callChatOnce pc e api body i)"
proof -
  have rest: "asks 1 (andThen (p_fetch pc e r) (\<lambda>r. if b r then throw (x r) else do { u \<leftarrow> pauses pc; k r u }))"
    if "\<And>r u. asks 0 (k r u)" for b x r and k :: "resp \<Rightarrow> unit \<Rightarrow> (err + ustr) pact"
    using that by (intro asks_andThen0 asks_server asks_intros)
  have "asks 1 (read_stream pc e i [] [] ps \<bind> (\<lambda>acc. case z of None \<Rightarrow> ok acc | Some m \<Rightarrow> k m))"
    if "\<And>m. asks 1 (k m)" for ps z and k :: "ustr \<Rightarrow> (err + ustr) pact"
    using that by (intro asks_intros)
  then have "asks (1 + 1) (callChatOnce pc e api body i)"
    unfolding callChatOnce_def Let_def by (intro asks_bind asks_server rest asks_intros)
  then show ?thesis by (simp add: numeral_2_eq_2)
qed

lemma keeps_ask [keeps_intros]: "keeps (sees e P) (ask_server pc e q b ctx srcs)"
  unfolding ask_server_def Let_def by (intro keeps_intros keeps_mods_ls) (simp add: set_text_def edit_bubble_def)

lemma asks_ask: "asks 4 (ask_server pc e q b ctx srcs)"
proof -
  have "asks (2 + (2 + 0)) (ask_server pc e q b ctx srcs)"
    unfolding ask_server_def Let_def
    by (intro asks_andThen asks_call asks_if asks0_bind asks_acts asks_ret)
  then show ?thesis by simp
qed

lemma keeps_pinned [keeps_intros]: "keeps (sees e P) (buildPinnedRagContextBlock pc e)"
proof -
  have 1: "keeps (sees e P) (begin_all pc e xs)" for xs
    by (induction xs) (simp_all only: begin_all.simps, (intro keeps_intros | assumption)+)
  have "keeps (sees e P) (finish_all pc e xs)" for xs
    by (induction xs) (simp_all only: finish_all.simps, (intro keeps_intros | assumption)+)
  with 1 show ?thesis unfolding buildPinnedRagContextBlock_def by (intro keeps_intros)
qed

lemma asks_pinned [asks_intros]: "asks n (buildPinnedRagContextBlock pc e)"
proof -
  have 1: "asks 0 (begin_all pc e xs)" for xs
    by (induction xs) (simp_all only: begin_all.simps, (intro asks_intros | assumption)+)
  have "asks 0 (finish_all pc e xs)" for xs
    by (induction xs) (simp_all only: finish_all.simps, (intro asks_intros | assumption)+)
  with 1 show ?thesis unfolding buildPinnedRagContextBlock_def by (intro asks_intros)
qed

lemma keeps_persist [keeps_intros]: "keeps (has_items e F) (persistChatMessageToDb pc e key sid role t hint model)"
proof -
  have "keeps (has_items e F) (on_ls (setChatDbCursorState e a b c d))" for a b c d
  proof (rule keepsI)
    fix s w r s' w' assume run: "run_state (on_ls (setChatDbCursorState e a b c d)) (s, w) = (r, s', w')" and F: "has_items e F s"
    then have "hist e s' = hist e s"
      by (auto simp: on_ls_def setChatDbCursorState_def hist_def Let_def split: if_splits prod.splits)
    with F show "has_items e F s'" by (simp add: has_items_def items_hist)
  qed
  then show ?thesis unfolding persistChatMessageToDb_def Let_def has_items_sees
    by (intro keeps_intros) (simp only: has_items_sees)
qed

lemma asks_keep: "asks 0 (keep_answer pc e q b m out)"
  unfolding keep_answer_def persistChatMessageToDb_def pushChatHistoryItem_def Let_def by (intro asks_intros)

lemma asks_send: "asks 4 (send_question pc e q b fr)"
proof -
  have end': "asks 4 (ask_server pc e q b' ctx srcs \<bind> (\<lambda>out. case out of Inl x \<Rightarrow> mods f | Inr a \<Rightarrow> keep_answer pc e q b' m a))"
    for b' ctx srcs f m
    by (rule asks_bind0 [OF asks_ask]) (simp add: asks_intros asks_keep split: sum.split)
  show ?thesis
    unfolding send_question_def Let_def
    by (rule asks0_bind [OF asks_pinned], (rule asks0_bind, rule asks_acts asks_prims)+, rule end')
qed

lemma asks_chat: "asks 5 (chat_in pc e t sid)"
proof -
  have end': "asks 5 (probeApiBase pc e api \<bind> (\<lambda>b. if \<not> b then mods f else send_question pc e q b' fr))" for api f q b' fr
  proof -
    have "asks (1 + 4) (probeApiBase pc e api \<bind> (\<lambda>b. if \<not> b then mods f else send_question pc e q b' fr))"
      by (rule asks_bind [OF asks_probe]) (intro asks_if asks_acts asks_send)
    then show ?thesis by simp
  qed
  show ?thesis
    unfolding chat_in_def
    by (rule asks0_bind [OF asks_acts(1)], rule asks0_bind [OF asks_profile(2)], rule asks_if, intro asks_intros,
        (rule asks0_bind, rule asks_acts asks_prims asks_page)+, rule end')
qed

lemma leads_keep:
  assumes "q_sid q \<noteq> []" and "trim (q_text q) \<noteq> []" and "trim out \<noteq> []"
  shows "leads (has_items e F) (keep_answer pc e q b m out)
    (has_items e (if trim (q_sid q) = [] then F
       else added (q_sid q) (message (js ''assistant'') out m) (added (q_sid q) (message (js ''user'') (q_text q) (q_meta q)) F)))"
proof -
  have b: "leads (has_items e F) (mods (edit_bubble i f)) (has_items e F)" for i f F
    by (rule leads_mods) (simp add: has_items_def edit_bubble_def)
  note p = leads_pushed [OF assms(1)]
  show ?thesis
    unfolding keep_answer_def
    by (rule leads_gets, rule leads_weaken, rule leads_bind [OF b], rule leads_bind [OF p], rule leads_bind [OF p],
        rule leads_first [OF keeps_persist], rule leads_keeps [OF keeps_persist])
      (use assms in \<open>auto split: if_splits\<close>)
qed

lemma keeps_has: "(\<And>P. keeps (sees e P) m) \<Longrightarrow> keeps (has_items e F) m"
  by (simp add: has_items_sees)

lemma leads_stays: "keeps (has_items e F) m \<Longrightarrow> leads (has_items e F) m (answered e sid t F)"
  unfolding leads_def keeps_def answered_def by blast

lemma leads_send:
  assumes "q_sid q \<noteq> []" and "trim (q_text q) \<noteq> []"
  shows "leads (has_items e F) (send_question pc e q b fr) (answered e (q_sid q) (q_text q) F)"
proof -
  have end': "leads (has_items e F) (ask_server pc e q b' ctx srcs \<bind> (\<lambda>out. case out of Inl x \<Rightarrow> mods (chat_failed i) | Inr a \<Rightarrow> keep_answer pc e q b' m a))
    (answered e (q_sid q) (q_text q) F)" for b' ctx srcs i m
  proof (rule leadsI)
    fix s w r s' w'
    assume run: "run_state (ask_server pc e q b' ctx srcs \<bind> (\<lambda>out. case out of Inl x \<Rightarrow> mods (chat_failed i) | Inr a \<Rightarrow> keep_answer pc e q b' m a)) (s, w) = (r, s', w')"
      and F: "has_items e F s"
    obtain out s1 w1 where 1: "run_state (ask_server pc e q b' ctx srcs) (s, w) = (out, s1, w1)" by (metis prod_cases3)
    have F1: "has_items e F s1" using keeps_ask 1 F unfolding has_items_sees by (rule keeps_run)
    show "answered e (q_sid q) (q_text q) F s'"
    proof (cases out)
      case (Inl x)
      with run 1 have "s' = chat_failed i s1" by simp
      with F1 show ?thesis by (simp add: answered_def)
    next
      case (Inr a)
      have a: "trim a \<noteq> []" using answer_nonempty [OF 1 [unfolded Inr]] .
      from Inr run 1 have "run_state (keep_answer pc e q b' m a) (s1, w1) = (r, s', w')" by simp
      from leads_run [OF leads_keep [OF assms a] this F1] show ?thesis
        unfolding answered_def using a by (auto split: if_splits)
    qed
  qed
  show ?thesis
    unfolding send_question_def Let_def
    by (rule leads_first, rule keeps_has, rule keeps_pinned,
        (rule leads_first, rule keeps_acts)+, rule end')
qed

lemma leads_chat:
  assumes "sid \<noteq> []" and "trim t \<noteq> []"
  shows "leads (has_items e F) (chat_in pc e t sid) (answered e sid t F)"
proof -
  have end': "leads (has_items e F) (if \<not> b then mods (chat_failed i) else send_question pc e q b' fr) (answered e sid t F)"
    if "q_sid q = sid" "q_text q = t" for b i b' fr q
    using that assms leads_send [of q F b' fr]
    by (auto intro!: leads_stays keeps_mods)
  show ?thesis
    unfolding chat_in_def
    by (rule leads_first, rule keeps_acts, rule leads_first, rule keeps_has, rule keeps_profile, rule leads_if,
        rule leads_stays, simp only: has_items_sees, intro keeps_intros,
        (rule leads_first, (rule keeps_acts | rule keeps_has, rule keeps_pure keeps_server))+, rule end', simp_all)
qed

end

subsection \<open>Questions\<close>

text \<open>The profile the storage gives.\<close>

definition stored_profile :: "panelcfg \<Rightarrow> world \<Rightarrow> jsval" where
  "stored_profile pc w =
     (let raw = js_or (if pc_storage pc then obj_get (w_store w) (js ''vtAuth'') else JUndef) JNull in
      js_ors [fld raw ''profile'', fld (fld raw ''currentSession'') ''profile'', JNull])"

lemma profile_read:
  "run_state (getVtAuthProfile pc) (s, w) = (stored_profile pc w, pc_other pc (s, w))"
  by (simp add: getVtAuthProfile_def p_storeGet_def pauses_def stored_profile_def Let_def)

lemma session_read:
  assumes "run_state (getSessionId pc e) (s, w) = (sid, s1, w1)"
  shows "sid \<noteq> []" and "w_store w1 = w_store w" and "w_reqs w1 = w_reqs w" and "hist e s1 = hist e s"
    and "ls_text e (p_ls s1) ''sttChatSessionId'' = sid"
proof -
  show "hist e s1 = hist e s"
    using keeps_run [OF keeps_fresh(2) [of e "\<lambda>h k. h = hist e s"] assms] by (simp add: sees_def)
qed (use assms in \<open>auto simp: getSessionId_def fresh_session_def uid_def setItem_def ls_text_def ls_item_def ls_set_def js_def split: if_splits\<close>)

lemma busy_fields [simp]: "pc_storage (panel_busy pc e ok' cs) = pc_storage pc" "pc_uid (panel_busy pc e ok' cs) = pc_uid pc"
  by (cases cs; simp)+

context quiet_others
begin

text \<open>The part of \<open>chat_in\<close> for a guest.\<close>

lemma asks_guest:
  assumes "\<not> profile_ok (stored_profile pc w)"
    and run: "run_state (chat_in pc e t sid) (s, w) = (r, s', w')"
  shows "w_reqs w' = w_reqs w" and "hist e s' = hist e s"
proof -
  let ?m = "do { u \<leftarrow> openAuthOverlayFromPanel e; t \<leftarrow> onw (nowTime e (pc_local pc)); i \<leftarrow> appendBubble (js ''assistant'') CHAT_GUEST_TEXT t; skip }"
  obtain s1 w1 where 1: "pc_other pc (s, w) = (s1, w1)" by fastforce
  with run assms(1) have run1: "run_state ?m (s1, w1) = (r, s', w')" by (simp add: chat_in_def profile_read)
  have "asks 0 ?m" by (intro asks_intros)
  then obtain new where "w_reqs w' = w_reqs w1 @ new" "length new \<le> 0" using run1 by (rule asks_run)
  then show "w_reqs w' = w_reqs w" using same_reqs [of "(s, w)"] 1 by simp
  have "keeps (sees e (\<lambda>h k. h = hist e s1)) ?m" by (intro keeps_intros)
  from keeps_run [OF this run1] show "hist e s' = hist e s" using same_hist [of "(s, w)"] 1 by (simp add: sees_def)
qed

end



subsection \<open>Deleting a conversation\<close>

definition current :: "env \<Rightarrow> panel \<Rightarrow> ustr" where
  "current e s = ls_text e (p_ls s) ''sttChatSessionId''"

lemma current_set: "current e (s\<lparr>p_ls := ls_set (p_ls s) ''sttChatSessionId'' (Raw v)\<rparr>) = v"
  by (simp add: current_def ls_text_def ls_item_def ls_set_def)

lemma current_same: "p_ls s' = p_ls s \<Longrightarrow> current e s' = current e s"
  by (simp add: current_def)

text \<open>Once there is a session, reading it changes nothing.\<close>

lemma session_known: "current e s \<noteq> [] \<Longrightarrow> run_state (getSessionId pc e) (s, w) = (current e s, s, w)"
  by (simp add: getSessionId_def current_def)

lemma append_items_runs:
  "\<exists>b n. run_state (append_items xs) (s, w) = ((), s\<lparr>p_bubbles := b, p_made := n\<rparr>, w)"
proof (induction xs arbitrary: s)
  case Nil
  show ?case by (auto intro!: exI [of _ "p_bubbles s"] exI [of _ "p_made s"])
next
  case (Cons x xs)
  let ?s = "s\<lparr>p_bubbles := p_bubbles s @ [\<lparr>b_id = p_made s, b_who = it_who x, b_text = it_text x, b_meta = it_meta x\<rparr>], p_made := Suc (p_made s)\<rparr>"
  from Cons [of ?s] obtain b n where "run_state (append_items xs) (?s, w) = ((), ?s\<lparr>p_bubbles := b, p_made := n\<rparr>, w)" by blast
  then show ?case by (auto simp: appendBubble_def)
qed

lemma restore_runs:
  assumes "current e s \<noteq> []"
  shows "\<exists>b n. run_state (restoreChatHistory pc e) (s, w) = ((), s\<lparr>p_bubbles := b, p_made := n\<rparr>, w)"
proof -
  let ?xs = "getChatHistoryItems e (p_ls s) (current e s)"
  obtain b n where "run_state (append_items ?xs) (s\<lparr>p_bubbles := []\<rparr>, w) = ((), s\<lparr>p_bubbles := []\<rparr>\<lparr>p_bubbles := b, p_made := n\<rparr>, w)"
    using append_items_runs by blast
  then show ?thesis using assms by (auto simp: restoreChatHistory_def session_known)
qed

lemma render_runs:
  assumes "current e s \<noteq> []"
  shows "\<exists>r. run_state (renderChatConversations pc e key) (s, w) = ((), s\<lparr>p_rows := r, p_active := current e s\<rparr>, w)"
  using assms by (auto simp: renderChatConversations_def session_known)

lemma rows_have_items: "r \<in> set (rows_for pc e key s) \<Longrightarrow> items_at (hist e s) (c_sid r) \<noteq> []"
  by (auto simp: rows_for_def simp flip: items_hist dest!: row_origin conv_row_Some(3))

lemma deleted_items:
  assumes "trim sid \<noteq> []"
  shows "items_at (hist e (s\<lparr>p_ls := snd (deleteChatConversationData e (trim sid) (p_ls s))\<rparr>)) sid = []"
proof -
  obtain b st' where d: "deleteChatConversationData e (trim sid) (p_ls s) = (b, st')" by fastforce
  then have "readChatHistoryMap e st' = obj_del (readChatHistoryMap e (p_ls s)) (trim sid)" using delete_maps(1) [OF d] assms by simp
  with d assms show ?thesis by (simp add: items_at_def hist_def)
qed

text \<open>The session after the deletion of the open one.\<close>

definition next_session :: "panelcfg \<Rightarrow> env \<Rightarrow> ustr \<Rightarrow> ustr pact" where
  "next_session pc e key = do {
     rows \<leftarrow> gets (rows_for pc e key);
     (case rows of [] \<Rightarrow> fresh_session pc | r # rs \<Rightarrow> if c_sid r \<noteq> [] then State_Monad.return (c_sid r) else fresh_session pc) }"

lemma next_session_runs:
  assumes "run_state (next_session pc e key) (s, w) = (n, s', w')" and "items_at (hist e s) sid = []"
  shows "s' = s" and "n \<noteq> []" and "n = sid \<Longrightarrow> n = js ''sess_'' @ pc_uid pc (w_ticks w' - 1)"
proof -
  have fresh: "run_state (fresh_session pc) (s, w) = (js ''sess_'' @ pc_uid pc (w_ticks w), s, w\<lparr>w_ticks := Suc (w_ticks w)\<rparr>)"
    by (simp add: fresh_session_def uid_def)
  have "s' = s \<and> n \<noteq> [] \<and> (n = sid \<longrightarrow> n = js ''sess_'' @ pc_uid pc (w_ticks w' - 1))"
  proof (cases "rows_for pc e key s")
    case Nil
    with assms(1) fresh show ?thesis by (auto simp: next_session_def js_def)
  next
    case (Cons r rs)
    then have "c_sid r \<noteq> sid" using rows_have_items [of r pc e key s] assms(2) by auto
    with Cons assms(1) fresh show ?thesis by (auto simp: next_session_def js_def split: if_splits)
  qed
  then show "s' = s" "n \<noteq> []" "n = sid \<Longrightarrow> n = js ''sess_'' @ pc_uid pc (w_ticks w' - 1)" by auto
qed

lemma deletion_eq:
  "trim sid \<noteq> [] \<Longrightarrow> deleteChatConversation pc e sid = do {
     key \<leftarrow> known_identity pc;
     u \<leftarrow> delete_data e (trim sid);
     cur \<leftarrow> getSessionId pc e;
     v \<leftarrow> whenA (cur = trim sid) (do { n \<leftarrow> next_session pc e key; y \<leftarrow> setItem ''sttChatSessionId'' n; restoreChatHistory pc e });
     y \<leftarrow> renderChatConversations pc e key;
     State_Monad.return True }"
  by (simp add: deleteChatConversation_def next_session_def Let_def)


end
