(* ===== verification/Panel_Chat_Db.thy ===== *)
theory Panel_Chat_Db
  imports Panel_Chat_Props
begin

section \<open>The answer follows the question in the database\<close>

text \<open>
  The worker answers the message that saves a row with the ids of its session and of the row.  The
  panel keeps both, and the next row of the conversation names them.
\<close>

lemma normalizeDbId_again [simp]: "panel_normalizeDbId (panel_normalizeDbId v) = panel_normalizeDbId v"
  by (auto simp: panel_normalizeDbId_def Let_def str_co_empty_def js_coalesce_def)

lemma normalizeDbId_undef [simp]: "panel_normalizeDbId JUndef = JNull"
  by (simp add: panel_normalizeDbId_def str_co_empty_def js_coalesce_def)

lemma cursor_roundtrip:
  assumes "trim key \<noteq> []" "trim sid \<noteq> []" and "run_state (setChatDbCursorState e key sid a b st) w = (st', w')"
  shows "getChatDbCursorState e st' key sid = (panel_normalizeDbId a, panel_normalizeDbId b)"
proof -
  from assms(3) have "readJsonObjectLS e st' ''sttChatDbCursorV1'' = obj_set (readJsonObjectLS e st ''sttChatDbCursorV1'')
      (chatDbCursorKey key sid) (JObj [(js ''chatSessionId'', panel_normalizeDbId a), (js ''parentMsgId'', panel_normalizeDbId b),
        (js ''updatedAt'', JStr (e_iso e (e_now e (w_ticks w))))])"
    using assms(1,2) by (auto simp: setChatDbCursorState_def chatDbCursorKey_def Let_def)
  then show ?thesis
    using assms(1,2) by (simp add: getChatDbCursorState_def chatDbCursorKey_def Let_def fld_def obj_get_def js_def)
qed

lemma role_words:
  "toLowerCase (trim (js ''user'')) = js ''user''" "toLowerCase (trim (js ''assistant'')) = js ''assistant''"
  "(js ''user'' = js ''assistant'') = False" "(js ''user'' = js ''system'') = False" "(js ''assistant'' = js ''assistant'') = True"
  by code_simp+

lemma fld_truthy: "truthy (fld v k) \<Longrightarrow> js_or v JNull = v"
  by (cases v) (auto simp: fld_def js_or_def)

lemma fld_falsy: "\<not> truthy (fld v k) \<Longrightarrow> \<not> truthy (fld (js_or v JNull) k)"
  by (auto simp: js_or_def fld_def)

definition undisturbed :: "panelcfg \<Rightarrow> panelcfg" where
  "undisturbed pc = pc\<lparr>pc_other := \<lambda>x. x\<rparr>"

lemma undisturbed_fields [simp]: "pc_runtime (undisturbed pc) = pc_runtime pc" "pc_other (undisturbed pc) x = x"
  by (simp_all add: undisturbed_def)

definition cursor_after :: "ustr + jsval \<Rightarrow> jsval \<times> jsval \<Rightarrow> jsval \<times> jsval" where
  "cursor_after a old =
     (case a of Inl m \<Rightarrow> old
      | Inr v \<Rightarrow> if truthy (fld v ''ok'') then (panel_normalizeDbId (fld v ''chatSessionId''), panel_normalizeDbId (fld v ''messageId'')) else old)"

lemma persist_run:
  assumes "pc_runtime pc" "trim key \<noteq> []" "trim sid \<noteq> []" "trim t \<noteq> []"
    and run: "run_state (persistChatMessageToDb (undisturbed pc) e key sid role t hint model) (s, w) = ((), s', w')"
    and role: "role \<in> {js ''user'', js ''assistant''}"
  obtains m c1 c2 where "m = save_msg (getChatDbCursorState e (p_ls s) (trim key) (trim sid)) role (trim t) hint model c1 c2"
    and "w_out w' = w_out w @ [ToRuntime m]"
    and "getChatDbCursorState e (p_ls s') (trim key) (trim sid) =
      cursor_after (e_deliver e (w_out w) (ToRuntime m)) (getChatDbCursorState e (p_ls s) (trim key) (trim sid))"
proof -
  let ?cur = "getChatDbCursorState e (p_ls s) (trim key) (trim sid)"
  let ?c1 = "e_iso e (e_now e (w_ticks w))" and ?c2 = "e_iso e (e_now e (Suc (w_ticks w)))"
  let ?w2 = "w\<lparr>w_ticks := Suc (Suc (w_ticks w))\<rparr>"
  let ?m = "save_msg ?cur role (trim t) hint model ?c1 ?c2"
  let ?w3 = "?w2\<lparr>w_out := w_out w @ [ToRuntime ?m]\<rparr>"
  let ?a = "e_deliver e (w_out w) (ToRuntime ?m)"
  let ?res = "case ?a of Inl x \<Rightarrow> JNull | Inr v \<Rightarrow> js_or v JNull"
  have r: "(if toLowerCase (trim role) = js ''assistant'' \<or> toLowerCase (trim role) = js ''system'' then toLowerCase (trim role) else js ''user'') = role"
    using role by (elim insertE emptyE; simp only: role_words) simp_all
  obtain w3 where w3: "w3 = ?w3" by blast
  have send: "run_state (sendRuntime (undisturbed pc) e ?m) (s, ?w2) = (?res, s, w3)"
    using assms(1) by (simp add: w3 sendRuntime_def pauses_def run_emit split: sum.split)
  have rest: "run_state (if \<not> truthy (fld ?res ''ok'') then skip
      else on_ls (setChatDbCursorState e (trim key) (trim sid) (fld ?res ''chatSessionId'') (fld ?res ''messageId''))) (s, w3) = ((), s', w')"
    using run assms(2-4) r send by (simp add: persistChatMessageToDb_def Let_def)
  have "w_out w' = w_out w3 \<and> getChatDbCursorState e (p_ls s') (trim key) (trim sid) = cursor_after ?a ?cur"
  proof (cases "truthy (fld ?res ''ok'')")
    case True
    then obtain v where v: "?a = Inr v" "truthy (fld (js_or v JNull) ''ok'')" by (auto simp: fld_def split: sum.splits)
    then have ok: "truthy (fld v ''ok'')" using fld_falsy by blast
    then have same: "js_or v JNull = v" by (rule fld_truthy)
    obtain st' w4 where set': "run_state (setChatDbCursorState e (trim key) (trim sid) (fld v ''chatSessionId'') (fld v ''messageId'') (p_ls s)) w3 = (st', w4)"
      by fastforce
    then have "w_out w4 = w_out w3" by (auto simp: setChatDbCursorState_def Let_def split: if_splits)
    moreover have "getChatDbCursorState e st' (trim key) (trim sid) = (panel_normalizeDbId (fld v ''chatSessionId''), panel_normalizeDbId (fld v ''messageId''))"
      using cursor_roundtrip [OF _ _ set'] assms(2,3) by simp
    ultimately show ?thesis using rest True v(1) same ok set' by (auto simp: on_ls_def cursor_after_def)
  next
    case False
    with rest have "s' = s" "w' = w3" by simp_all
    moreover have "cursor_after ?a ?cur = ?cur"
      using False fld_truthy by (auto simp: cursor_after_def split: sum.splits)
    ultimately show ?thesis by simp
  qed
  then show thesis using that [of ?m ?c1 ?c2] by (simp add: w3)
qed

lemma curs_cursor: "curs e s' = curs e s \<Longrightarrow> getChatDbCursorState e (p_ls s') key sid = getChatDbCursorState e (p_ls s) key sid"
  by (simp add: curs_def getChatDbCursorState_def)

text \<open>Keeping a message in the browser sends nothing and changes no cursor.\<close>

lemma ls_of_push:
  assumes "run_state (push_item e who t meta sid key hint st) w = (st', w')"
  shows "readJsonObjectLS e st' ''sttChatDbCursorV1'' = readJsonObjectLS e st ''sttChatDbCursorV1''" and "w_out w' = w_out w"
proof -
  have 1: "adds w_out (\<lambda>x. False) (push_item e who t meta sid key hint st)"
    unfolding push_item_def touchChatSessionMetaFromItems_def upsertChatSessionMeta_def meta_value_def panel_toIsoOrNow_def Let_def
    by (intro adds_intros)
  from assms obtain new where "w_out w' = w_out w @ new" "list_all (\<lambda>x. False) new" using 1 by (elim adds_run)
  then show "w_out w' = w_out w" by (cases new) auto
  show "readJsonObjectLS e st' ''sttChatDbCursorV1'' = readJsonObjectLS e st ''sttChatDbCursorV1''"
    using assms by (auto simp: push_item_def touchChatSessionMetaFromItems_def upsertChatSessionMeta_def saveChatHistoryItems_def Let_def
        split: if_splits prod.splits)
qed

lemma render_silent:
  assumes "run_state (syncConversationPanelAfterHistoryChange pc e) (s, w) = (r, s', w')"
  shows "curs e s' = curs e s" and "w_out w' = w_out w"
proof -
  show "curs e s' = curs e s"
    using keeps_run [OF keeps_render(3) [of e "\<lambda>h k. k = curs e s"] assms] by (simp add: sees_def)
  show "w_out w' = w_out w"
    using assms by (auto simp: syncConversationPanelAfterHistoryChange_def render_shown_def renderChatConversations_def getSessionId_def
        fresh_session_def uid_def setItem_def split: if_splits)
qed

lemma push_silent:
  assumes "run_state (pushChatHistoryItem pc e who t meta sid key hint) (s, w) = ((), s', w')" and "sid \<noteq> []"
  shows "curs e s' = curs e s" and "w_out w' = w_out w"
proof -
  have "curs e s' = curs e s \<and> w_out w' = w_out w"
  proof (cases "trim t = [] \<or> trim sid = []")
    case True
    with assms show ?thesis by (cases "trim t = []") (auto simp: pushChatHistoryItem_def)
  next
    case False
    obtain st' w1 where 1: "run_state (push_item e who t meta sid key hint (p_ls s)) w = (st', w1)" by fastforce
    with assms False have "run_state (syncConversationPanelAfterHistoryChange pc e) (s\<lparr>p_ls := st'\<rparr>, w1) = ((), s', w')"
      by (simp add: pushChatHistoryItem_def on_ls_def)
    from render_silent [OF this] ls_of_push [OF 1] show ?thesis by (simp add: curs_def)
  qed
  then show "curs e s' = curs e s" "w_out w' = w_out w" by auto
qed


subsection \<open>The answer is the stream\<close>

lemma read_stream_text:
  "\<exists>s' w'. run_state (read_stream pc e i acc buf cs) (s, w) = (acc @ concat (map delta_text (sse_chunks e buf cs)), s', w')"
proof (induction cs arbitrary: acc buf s w)
  case (Cons c cs)
  obtain buf' outs where c: "sse_chunk e buf c = (buf', outs)" by fastforce
  obtain s1 w1 where 1: "pc_other pc (show_outs i outs s, w) = (s1, w1)" by fastforce
  from Cons [of "acc @ concat (map delta_text outs)" buf' s1 w1] obtain s' w' where
    "run_state (read_stream pc e i (acc @ concat (map delta_text outs)) buf' cs) (s1, w1) =
      (acc @ concat (map delta_text outs) @ concat (map delta_text (sse_chunks e buf' cs)), s', w')" by auto
  with c 1 show ?case by (simp add: pauses_def)
qed simp

definition carries :: "stream_out \<Rightarrow> bool" where
  "carries x \<longleftrightarrow> (is_delta x \<longrightarrow> delta_text x \<noteq> [])"

lemma handed_text: "list_all carries (handed d)"
  by (simp add: handed_def carries_def split: delta.split)

lemma out_text: "list_all carries (sse_chunks e buf cs)"
proof -
  have ev: "list_all carries (event_out e raw)" for raw
    by (simp add: event_out_def handed_text split: prod.split)
  have fl: "list_all carries (flush_out e b)" for b
    by (simp add: flush_out_def handed_text split: delta.split)
  have evs: "list_all carries (concat (map (event_out e) raws))" for raws
    using ev by (induction raws) simp_all
  show ?thesis
    by (induction cs arbitrary: buf) (auto simp: sse_chunk_def evs fl split: prod.split if_splits)
qed


subsection \<open>What goes wrong\<close>

text \<open>A question with the words for \<open>speak\<close> and \<open>what\<close> is replaced by one about the topic of the talk: here
  \<open>what does he say about the oil price\<close>.\<close>

definition oil_question :: ustr where
  "oil_question =
     [244] @ js ''ng '' @ [7845] @ js ''y n'' @ [243] @ js ''i g'' @ [236] @ js '' v'' @ [7873] @ js '' gi'' @ [225] @ js '' d'' @ [7847] @ js ''u?''"

lemma question_replaced: "buildQuestionToServer oil_question True 0 = buildRagQuestionV1"
  by code_simp

text \<open>When the user changes, the pinned transcripts go but the switch stays on.\<close>

lemma switch_stays_on:
  "case run_state (on_authChanged (undisturbed pc) e) (s, w) of (_, s', w' :: world) \<Rightarrow>
     if p_convOpen s then True else rg_pinned (p_rag s') = [] \<and> p_useRag s' = p_useRag s"
  by (simp add: on_authChanged_def resetRagPickerState_def)

text \<open>A conversation that is deleted while its answer is on its way is there again when the answer arrives.\<close>

lemma deleted_comes_back:
  assumes "trim sid \<noteq> []" "trim t \<noteq> []"
    and "run_state (push_item e who t meta sid key hint (snd (deleteChatConversationData e sid st))) w = (st', w')"
  shows "getChatHistoryItems e st' sid = [message who t meta]"
proof -
  obtain b st1 where d: "deleteChatConversationData e sid st = (b, st1)" by fastforce
  have "getChatHistoryItems e st1 sid = []" using delete_maps(1) [OF d assms(1)] assms(1) by (simp add: getChatHistoryItems_def Let_def)
  with push_items [OF assms(2,1)] assms(3) d show ?thesis by (simp add: last_n_def CHAT_HISTORY_MAX_def)
qed

text \<open>The first messages of two questions asked at the same time in a new conversation both ask for a new session.\<close>

lemma two_sessions:
  assumes "pc_runtime pc" "trim key \<noteq> []" "trim sid \<noteq> []" "trim t1 \<noteq> []" "trim t2 \<noteq> []"
    and new: "getChatDbCursorState e (p_ls s) (trim key) (trim sid) = (JNull, JNull)"
    and other: "pc_other pc' = (\<lambda>x. snd (run_state (persistChatMessageToDb (undisturbed pc) e key sid (js ''user'') t2 h2 m2) x))"
    and "pc_runtime pc'"
  shows "\<exists>a b c d. w_out (snd (snd (run_state (persistChatMessageToDb pc' e key sid (js ''user'') t1 h1 m1) (s, w)))) =
    w_out w @ [ToRuntime (save_msg (JNull, JNull) (js ''user'') (trim t1) h1 m1 a b), ToRuntime (save_msg (JNull, JNull) (js ''user'') (trim t2) h2 m2 c d)]"
proof -
  let ?c1 = "e_iso e (e_now e (w_ticks w))" and ?c2 = "e_iso e (e_now e (Suc (w_ticks w)))"
  let ?m = "save_msg (JNull, JNull) (js ''user'') (trim t1) h1 m1 ?c1 ?c2"
  obtain w3 where w3: "w3 = w\<lparr>w_ticks := Suc (Suc (w_ticks w)), w_out := w_out w @ [ToRuntime ?m]\<rparr>" by blast
  obtain s4 w4 where 4: "run_state (persistChatMessageToDb (undisturbed pc) e key sid (js ''user'') t2 h2 m2) (s, w3) = ((), s4, w4)"
    by (rule act_runs)
  obtain c d where out: "w_out w4 = w_out w3 @ [ToRuntime (save_msg (JNull, JNull) (js ''user'') (trim t2) h2 m2 c d)]"
    using persist_run [OF assms(1,2,3,5) 4] new by (metis insertI1)
  have silent: "w_out (snd (snd (run_state (on_ls (setChatDbCursorState e a b x y)) (s4, w4)))) = w_out w4" for a b x y
    by (simp add: on_ls_def setChatDbCursorState_def Let_def split: prod.split)
  have r: "(if toLowerCase (trim (js ''user'')) = js ''assistant'' \<or> toLowerCase (trim (js ''user'')) = js ''system''
      then toLowerCase (trim (js ''user'')) else js ''user'') = js ''user''" by (simp only: role_words) simp
  have send: "run_state (sendRuntime pc' e ?m) (s, w\<lparr>w_ticks := Suc (Suc (w_ticks w))\<rparr>) =
      (case e_deliver e (w_out w) (ToRuntime ?m) of Inl x \<Rightarrow> JNull | Inr v \<Rightarrow> js_or v JNull, s4, w4)"
    using assms(8) 4 by (simp add: sendRuntime_def pauses_def run_emit other w3 split: sum.split)
  have "w_out (snd (snd (run_state (persistChatMessageToDb pc' e key sid (js ''user'') t1 h1 m1) (s, w)))) = w_out w4"
    using assms(2-4) r new send silent by (simp add: persistChatMessageToDb_def Let_def)
  with out w3 show ?thesis by auto
qed

end
