(* ===== verification/Panel_Live.thy ===== *)
theory Panel_Live
  imports Panel_Chat Sentences
begin

section \<open>sidepanel.js: the transcript in progress and the settings\<close>

text \<open>
  The transcript view starts and stops the capture, shows its state and the sentences that are
  complete, and keeps the subtitle modes and the addresses of the servers.  \<open>lc_other\<close> is what other
  handlers of the view do while one waits.  The address in the header comes from a query of its own,
  an event here.
\<close>

record view_modes =
  m_en :: bool
  m_vi :: bool
  m_voice :: bool
  m_record :: bool

record live =
  l_ls :: lstore
  l_snap :: snapshot
  l_busy :: bool
  l_active :: bool
  l_loading :: bool
  l_playing :: bool
  l_inFlight :: bool
  l_logged :: nat
  l_rows :: "(ustr \<times> ustr) list"
  l_footer :: ustr
  l_header :: ustr
  l_modes :: view_modes
  l_status :: ustr

record livecfg =
  lc_other :: "live \<times> world \<Rightarrow> live \<times> world"
  lc_runtime :: bool
  lc_storage :: bool

type_synonym 'a lact = "(live, 'a) action"

definition l_waits :: "livecfg \<Rightarrow> unit lact" where
  "l_waits lc = State (\<lambda>x. ((), lc_other lc x))"

definition l_auth :: "env \<Rightarrow> unit lact" where
  "l_auth e = do { r \<leftarrow> onw (emit e (Browser ''__vtOpenAccountOrAuth'' (JStr (js ''login'')))); skip }"

definition isAuthed :: "livecfg \<Rightarrow> bool lact" where
  "isAuthed lc = do {
     v \<leftarrow> onw (if lc_storage lc then store_get ''vtAuth'' else ret JUndef);
     u \<leftarrow> l_waits lc;
     (let raw = js_or v JNull in
      State_Monad.return (profile_ok (js_ors [fld raw ''profile'', fld (fld raw ''currentSession'') ''profile'', JNull]))) }"

subsection \<open>State of the view\<close>

definition LIVE :: ustr where
  "LIVE = js ''Live''"

definition LIVE_RUNNING :: ustr where
  "LIVE_RUNNING = js ''Live '' @ [8226] @ js '' '' @ [272] @ js ''ang ghi''"

definition LIVE_CONNECTING :: ustr where
  "LIVE_CONNECTING = js ''Live '' @ [8226] @ js '' '' @ [272] @ js ''ang k'' @ [7871] @ js ''t n'' @ [7889] @ js ''i...''"

definition flags :: "bool \<Rightarrow> bool \<Rightarrow> jsval" where
  "flags active starting = JObj [(js ''active'', JBool active), (js ''starting'', JBool starting)]"

definition set_snap :: "rat \<Rightarrow> jsval \<Rightarrow> live \<Rightarrow> live" where
  "set_snap t patch s = s\<lparr>l_snap := setRealtimeSnapshotCache t patch (l_snap s)\<rparr>"

definition resetRealtimeUiAfterError :: "rat \<Rightarrow> live \<Rightarrow> live" where
  "resetRealtimeUiAfterError t s =
     (set_snap t (flags False False) s)\<lparr>l_active := False, l_inFlight := False, l_loading := False, l_playing := False, l_footer := LIVE\<rparr>"

definition live_busy :: "live \<Rightarrow> live" where
  "live_busy s = s\<lparr>l_busy := True\<rparr>"

definition with_clock :: "env \<Rightarrow> (rat \<Rightarrow> live \<Rightarrow> live) \<Rightarrow> unit lact" where
  "with_clock e f = do { t \<leftarrow> onw (Date_now e); mods (f t) }"

text \<open>An answer or a notice that says whether the capture runs.\<close>

definition show_state :: "bool \<Rightarrow> bool \<Rightarrow> rat \<Rightarrow> live \<Rightarrow> live" where
  "show_state active starting t s =
     (set_snap t (flags active starting) s)\<lparr>
        l_footer := (if active then LIVE_RUNNING else if starting then LIVE_CONNECTING else LIVE),
        l_active := active \<or> starting, l_loading := starting \<and> \<not> active, l_playing := active, l_inFlight := starting \<and> \<not> active\<rparr>"

definition show_starting :: "rat \<Rightarrow> live \<Rightarrow> live" where
  "show_starting t s =
     (set_snap t (flags False True) s)\<lparr>l_active := True, l_inFlight := True, l_loading := True, l_playing := False\<rparr>"

definition addTranscriptRow :: "ustr \<Rightarrow> ustr \<Rightarrow> live \<Rightarrow> live" where
  "addTranscriptRow t meta s = s\<lparr>l_rows := (t, meta) # l_rows s\<rparr>"

subsection \<open>Modes\<close>

definition enforceLockedTranscriptModes :: "view_modes \<Rightarrow> view_modes" where
  "enforceLockedTranscriptModes m = m\<lparr>m_voice := False, m_record := False\<rparr>"

definition applyModesToUI :: "live \<Rightarrow> live" where
  "applyModesToUI s =
     (let m = enforceLockedTranscriptModes (l_modes s) in
      s\<lparr>l_modes := m, l_ls := writeBoolLS ''sttModeRecord'' (m_record m) (writeBoolLS ''sttModeVoice'' (m_voice m)
          (writeBoolLS ''sttModeVi'' (m_vi m) (writeBoolLS ''sttModeEn'' (m_en m) (l_ls s))))\<rparr>)"

definition modes_msg :: "view_modes \<Rightarrow> jsval" where
  "modes_msg m = cmd_msg ''__TRANSCRIPT_MODES__'' [(js ''payload'', JObj [(js ''en'', JBool (m_en m)), (js ''vi'', JBool (m_vi m)),
     (js ''voice'', JBool (m_voice m)), (js ''record'', JBool (m_record m))])]"

definition sendTranscriptModes :: "livecfg \<Rightarrow> env \<Rightarrow> unit lact" where
  "sendTranscriptModes lc e =
     (if \<not> lc_runtime lc then skip
      else do {
        u \<leftarrow> mods applyModesToUI;
        m \<leftarrow> gets l_modes;
        r \<leftarrow> onw (emit e (ToRuntime (modes_msg m)));
        skip })"

text \<open>The buttons of the two locked modes do nothing.\<close>

definition on_en :: "livecfg \<Rightarrow> env \<Rightarrow> unit lact" where
  "on_en lc e = do { u \<leftarrow> mods (\<lambda>s. s\<lparr>l_modes := (l_modes s)\<lparr>m_en := \<not> m_en (l_modes s)\<rparr>\<rparr>); sendTranscriptModes lc e }"

definition on_vi :: "livecfg \<Rightarrow> env \<Rightarrow> unit lact" where
  "on_vi lc e = do { u \<leftarrow> mods (\<lambda>s. s\<lparr>l_modes := (l_modes s)\<lparr>m_vi := \<not> m_vi (l_modes s)\<rparr>\<rparr>); sendTranscriptModes lc e }"

subsection \<open>Start and stop\<close>

definition start_answer :: "env \<Rightarrow> ustr + jsval \<Rightarrow> unit lact" where
  "start_answer e r =
     (case r of
        Inl m \<Rightarrow> with_clock e (\<lambda>t s. live_busy (resetRealtimeUiAfterError t s))
      | Inr res \<Rightarrow>
          if truthy (fld res ''ok'') then skip
          else do {
            u \<leftarrow> with_clock e resetRealtimeUiAfterError;
            if fld res ''code'' = JStr (js ''AUTH_REQUIRED'') then l_auth e else mods live_busy })"

definition begin_capture :: "livecfg \<Rightarrow> env \<Rightarrow> unit lact" where
  "begin_capture lc e =
     (if \<not> lc_runtime lc then mods (\<lambda>s. s\<lparr>l_footer := LIVE_CONNECTING\<rparr>)
      else do {
        u \<leftarrow> with_clock e show_starting;
        server \<leftarrow> gets (\<lambda>s. getServer e (l_ls s));
        r \<leftarrow> onw (emit e (ToRuntime (cmd_msg ''__PANEL_START__'' [(js ''payload'', JObj [(js ''server'', JStr server)])])));
        v \<leftarrow> mods (\<lambda>s. s\<lparr>l_rows := [], l_logged := 0\<rparr>);
        y \<leftarrow> sendTranscriptModes lc e;
        z \<leftarrow> mods (\<lambda>s. s\<lparr>l_footer := LIVE_CONNECTING\<rparr>);
        x \<leftarrow> l_waits lc;
        start_answer e (case r of Inl m \<Rightarrow> Inl (e_msg m) | Inr v' \<Rightarrow> Inr v') })"

definition stop_capture :: "livecfg \<Rightarrow> env \<Rightarrow> unit lact" where
  "stop_capture lc e = do {
     u \<leftarrow> (if lc_runtime lc then do {
            v \<leftarrow> with_clock e resetRealtimeUiAfterError;
            r \<leftarrow> onw (emit e (ToRuntime (cmd_msg ''__PANEL_STOP__'' [])));
            skip } else skip);
     mods (\<lambda>s. s\<lparr>l_footer := LIVE\<rparr>) }"

definition on_startClick :: "livecfg \<Rightarrow> env \<Rightarrow> unit lact" where
  "on_startClick lc e = do {
     active \<leftarrow> gets l_active;
     inFlight \<leftarrow> gets l_inFlight;
     if inFlight \<and> \<not> active then skip
     else if active then stop_capture lc e
     else do {
       authed \<leftarrow> isAuthed lc;
       if \<not> authed then do { u \<leftarrow> l_auth e; mods (\<lambda>s. s\<lparr>l_footer := LIVE\<rparr>) }
       else begin_capture lc e } }"

subsection \<open>Messages of the worker\<close>

text \<open>An exception of a handler reaches the handler of errors of the page.\<close>

definition page_error :: "env \<Rightarrow> unit lact" where
  "page_error e = with_clock e (\<lambda>t s. live_busy (resetRealtimeUiAfterError t s))"

definition opened_server :: "env \<Rightarrow> ustr \<Rightarrow> unit lact" where
  "opened_server e server =
     (if server = [] then skip
      else do {
        u \<leftarrow> mods (\<lambda>s. s\<lparr>l_ls := ls_set (l_ls s) ''sttServerWs'' (Raw server)\<rparr>);
        cur \<leftarrow> gets (\<lambda>s. trim (ls_text e (l_ls s) ''sttTranslatorWs''));
        (let derived = deriveTranslatorServerFromStt e server in
         whenA (cur = [] \<and> derived \<noteq> []) (do {
           v \<leftarrow> mods (\<lambda>s. s\<lparr>l_ls := ls_set (l_ls s) ''sttTranslatorWs'' (Raw derived)\<rparr>);
           onw (store_set ''sttTranslatorWs'' (JStr derived)) })) })"

definition on_opened :: "env \<Rightarrow> jsval \<Rightarrow> unit lact" where
  "on_opened e p =
     (case (if truthy (fld p ''server'') then fld p ''server'' else JStr []) of
        JStr server \<Rightarrow> do {
          u \<leftarrow> opened_server e (trim server);
          v \<leftarrow> (case fld p ''active'' of JBool b \<Rightarrow> with_clock e (show_state b (truthy (fld p ''starting''))) | _ \<Rightarrow> skip);
          whenA (truthy (fld p ''url'')) (mods (\<lambda>s. s\<lparr>l_header := js ''Website: '' @ to_str (fld p ''url'')\<rparr>)) }
      | _ \<Rightarrow> page_error e)"

definition auth_text_re :: re where
  "auth_text_re = RAlt (RLit_i ([273, 259] @ js ''ng nh'' @ [7853] @ js ''p'')) (RLit_i (js ''auth_required''))"

definition on_notify :: "env \<Rightarrow> jsval \<Rightarrow> unit lact" where
  "on_notify e p =
     (let level = fld p ''level''; t = js_or (fld p ''text'') (JStr []) in do {
        u \<leftarrow> whenA (level = JStr (js ''info'') \<and> truthy t) (mods (addTranscriptRow (to_str t) (js ''System '' @ [8226] @ js '' info'')));
        whenA (level = JStr (js ''error'') \<and> \<not> re_test auth_text_re (str_or_empty t))
          (with_clock e (\<lambda>t s. resetRealtimeUiAfterError t (live_busy s))) })"

definition starting_states :: "string list" where
  "starting_states = [''starting'', ''picker'', ''ws-connecting'', ''media-ok'', ''audio-graph-ok'', ''ws-open'', ''ws-auth-sent'']"

definition on_status :: "env \<Rightarrow> jsval \<Rightarrow> unit lact" where
  "on_status e p =
     (let st = fld p ''state''; is = (\<lambda>xs. st \<in> set (map (\<lambda>x. JStr (js x)) xs)) in
      if is starting_states
      then with_clock e (\<lambda>t s. if l_playing s then set_snap t (flags False True) s else (show_starting t s)\<lparr>l_footer := LIVE_CONNECTING\<rparr>)
      else if is [''server-hello'', ''server-status'', ''server-auth-ok'']
      then mods (\<lambda>s. if \<not> l_playing s \<and> l_inFlight s then s\<lparr>l_footer := LIVE_CONNECTING\<rparr> else s)
      else if is [''running'']
      then with_clock e (\<lambda>t s. (set_snap t (flags True False) s)\<lparr>l_active := True, l_playing := True, l_inFlight := False,
             l_loading := False, l_footer := LIVE_RUNNING\<rparr>)
      else if is [''stopped'', ''server-busy'', ''server-error'', ''error'']
      then with_clock e (\<lambda>t s. resetRealtimeUiAfterError t (if is [''stopped''] then s else live_busy s))
      else skip)"

text \<open>The sentences that are shown: all but the last, each once.\<close>

definition SPEAKER :: ustr where
  "SPEAKER = js ''Speaker '' @ [8226] @ js '' en '' @ [8226] @ js '' live''"

definition show_sentence :: "ustr \<Rightarrow> live \<Rightarrow> live" where
  "show_sentence x s = (let t = trim x in if t \<noteq> [] then addTranscriptRow t SPEAKER s else s)"

definition show_stable :: "ustr \<Rightarrow> live \<Rightarrow> live" where
  "show_stable full s =
     (if full = [] then s
      else (let sents = fst (sidepanel_splitSentencesAndTail full); target = length sents - 1 in
            if l_logged s < target
            then (fold show_sentence (drop (l_logged s) (take target sents)) s)\<lparr>l_logged := target, l_footer := LIVE_RUNNING\<rparr>
            else s))"

definition on_stable :: "env \<Rightarrow> jsval \<Rightarrow> unit lact" where
  "on_stable e msg =
     (let p = fld msg ''payload''; full = to_str (js_coalesces [fld p ''full'', fld msg ''full'', JStr []]);
          seq = to_num (js_coalesces [fld p ''seq'', fld msg ''seq'', JInt 0]);
          tMs = to_num (js_coalesces [fld p ''t_ms'', fld msg ''t_ms'', JInt 0]);
          patch = JObj [(js ''active'', JBool True), (js ''starting'', JBool False), (js ''seq'', JNum (finite_or_zero seq)),
            (js ''tMs'', JNum (finite_or_zero tMs)), (js ''full'', JStr full)]
      in with_clock e (\<lambda>t s. show_stable full (set_snap t patch s)))"

definition on_runtime :: "env \<Rightarrow> jsval \<Rightarrow> unit lact" where
  "on_runtime e msg =
     (let cmd = fld msg ''__cmd''; is = (\<lambda>c. cmd = JStr (js c)); p = fld msg ''payload'' in
      if \<not> truthy cmd then skip
      else if is ''__AUTH_REQUIRED__'' then l_auth e
      else if is ''__PANEL_OPENED__'' then on_opened e p
      else if is ''__PANEL_NOTIFY__'' then on_notify e p
      else if is ''__OFFSCREEN_STATUS__'' then on_status e p
      else if is ''__TRANSCRIPT_STABLE__'' then on_stable e msg
      else skip)"

text \<open>The answer to \<open>__OVERLAY_PING__\<close> when the page starts.\<close>

definition on_pong :: "env \<Rightarrow> jsval \<Rightarrow> unit lact" where
  "on_pong e res =
     (case fld res ''active'' of JBool b \<Rightarrow> with_clock e (show_state b (truthy (fld res ''starting''))) | _ \<Rightarrow> skip)"

subsection \<open>Settings\<close>

record form =
  f_api :: ustr
  f_ws :: ustr
  f_trans :: ustr
  f_en :: bool
  f_vi :: bool
  f_voice :: bool
  f_record :: bool
  f_debug :: bool

text \<open>\<open>String(v || '').trim().replace(/\s+/g, '')\<close>.\<close>

definition normalizeWsServerInput :: "ustr \<Rightarrow> ustr" where
  "normalizeWsServerInput v = filter (\<lambda>c. \<not> is_ws c) (trim v)"

definition isValidHttpUrl :: "env \<Rightarrow> ustr \<Rightarrow> bool" where
  "isValidHttpUrl e v \<longleftrightarrow> (case e_url e v of None \<Rightarrow> False | Some u \<Rightarrow> u_protocol u = js ''http:'' \<or> u_protocol u = js ''https:'')"

definition isValidWsUrl :: "env \<Rightarrow> ustr \<Rightarrow> bool" where
  "isValidWsUrl e v \<longleftrightarrow> (case e_url e v of None \<Rightarrow> False | Some u \<Rightarrow> u_protocol u = js ''ws:'' \<or> u_protocol u = js ''wss:'')"

definition fillSettingsFormFromStorage :: "livecfg \<Rightarrow> env \<Rightarrow> form lact" where
  "fillSettingsFormFromStorage lc e = do {
     wsVal \<leftarrow> gets (\<lambda>s. getServer e (l_ls s));
     api \<leftarrow> gets (\<lambda>s. getApiBase e (l_ls s));
     stored \<leftarrow> gets (\<lambda>s. trim (ls_text e (l_ls s) ''sttTranslatorWs''));
     transVal \<leftarrow> (if stored \<noteq> [] then State_Monad.return stored
       else do {
         v \<leftarrow> onw (if lc_storage lc then store_get ''sttTranslatorWs'' else ret JUndef);
         u \<leftarrow> l_waits lc;
         (let t = trim (str_or_empty v) in do {
            y \<leftarrow> whenA (t \<noteq> []) (mods (\<lambda>s. s\<lparr>l_ls := ls_set (l_ls s) ''sttTranslatorWs'' (Raw t)\<rparr>));
            if t \<noteq> [] then State_Monad.return t else gets (\<lambda>s. getTranslatorServer e (l_ls s)) }) });
     f \<leftarrow> gets (\<lambda>s. \<lparr>f_api = api, f_ws = wsVal, f_trans = transVal, f_en = readBoolLS e (l_ls s) ''sttModeEn'' False,
        f_vi = readBoolLS e (l_ls s) ''sttModeVi'' False, f_voice = False, f_record = False,
        f_debug = (ls_text e (l_ls s) ''sttChatDebug'' = js ''1'')\<rparr>);
     u \<leftarrow> mods (\<lambda>s. s\<lparr>l_status := []\<rparr>);
     State_Monad.return f }"

definition DEFAULT_FORM :: form where
  "DEFAULT_FORM =
     \<lparr>f_api = DEFAULT_API, f_ws = DEFAULT_WS, f_trans = DEFAULT_TRANS_WS, f_en = False, f_vi = False, f_voice = False,
      f_record = False, f_debug = False\<rparr>"

definition API_INVALID :: ustr where
  "API_INVALID =
     js ''Chat API Base ph'' @ [7843] @ js ''i l'' @ [224] @ js '' URL http/https h'' @ [7907] @ js ''p l'' @
     [7879] @ js ''.''"

definition WS_INVALID :: ustr where
  "WS_INVALID =
     js ''STT WebSocket Server ph'' @ [7843] @ js ''i l'' @ [224] @ js '' URL ws/wss h'' @ [7907] @ js ''p l'' @
     [7879] @ js ''.''"

definition TRANS_INVALID :: ustr where
  "TRANS_INVALID = js ''Translator WebSocket (VI) must be a valid ws/wss URL.''"

definition SAVED :: ustr where
  "SAVED =
     [272, 227] @ js '' l'' @ [432] @ js ''u c'' @ [224] @ js ''i '' @ [273, 7863] @ js ''t.''"

definition SAVED_FIXED :: ustr where
  "SAVED_FIXED =
     [272, 227] @ js '' l'' @ [432] @ js ''u c'' @ [224] @ js ''i '' @ [273, 7863] @ js ''t. Chat API Base '' @
     [273, 432, 7907] @ js ''c chu'' @ [7849] @ js ''n h'' @ [243] @ js ''a th'' @ [224] @ js ''nh: ''"

definition trans_of_form :: "env \<Rightarrow> form \<Rightarrow> ustr" where
  "trans_of_form e f =
     str_or (normalizeWsServerInput (f_trans f)) (str_or (deriveTranslatorServerFromStt e (normalizeWsServerInput (f_ws f))) DEFAULT_TRANS_WS)"

definition save_addresses :: "form \<Rightarrow> ustr \<Rightarrow> ustr \<Rightarrow> ustr \<Rightarrow> lstore \<Rightarrow> lstore" where
  "save_addresses f apiVal wsVal transVal st =
     (let s1 = ls_set st ''sttChatApiBase'' (Raw apiVal); s2 = ls_set s1 ''sttServerWs'' (Raw wsVal);
          s3 = ls_set s2 ''sttTranslatorWs'' (Raw transVal); s4 = ls_set s3 ''sttChatDebug'' (Raw (if f_debug f then js ''1'' else js ''0''))
      in ls_set s4 ''sttSourceLang'' (Raw (js ''en'')))"

text \<open>The checked modes are enforced to the unlocked ones at once.\<close>

definition applySettingsFromForm :: "livecfg \<Rightarrow> env \<Rightarrow> form \<Rightarrow> bool lact" where
  "applySettingsFromForm lc e f =
     (let apiVal = normalizeHttpBaseUrl e (f_api f); wsVal = normalizeWsServerInput (f_ws f); transVal = trans_of_form e f;
          fixed = (apiVal \<noteq> [] \<and> apiVal \<noteq> strip_slashes (trim (f_api f)))
      in if \<not> isValidWsUrl e transVal then do { u \<leftarrow> mods (\<lambda>s. s\<lparr>l_status := TRANS_INVALID\<rparr>); State_Monad.return False }
         else if \<not> isValidHttpUrl e apiVal then do { u \<leftarrow> mods (\<lambda>s. s\<lparr>l_status := API_INVALID\<rparr>); State_Monad.return False }
         else if \<not> isValidWsUrl e wsVal then do { u \<leftarrow> mods (\<lambda>s. s\<lparr>l_status := WS_INVALID\<rparr>); State_Monad.return False }
         else do {
           u \<leftarrow> mods (\<lambda>s. s\<lparr>l_ls := save_addresses f apiVal wsVal transVal (l_ls s)\<rparr>);
           v \<leftarrow> (if lc_runtime lc then do { y \<leftarrow> onw (if lc_storage lc then store_set ''sttTranslatorWs'' (JStr transVal) else ret ()); l_waits lc } else skip);
           y \<leftarrow> mods (\<lambda>s. s\<lparr>l_modes := \<lparr>m_en = f_en f, m_vi = f_vi f, m_voice = False, m_record = False\<rparr>\<rparr>);
           z \<leftarrow> sendTranscriptModes lc e;
           x \<leftarrow> mods (\<lambda>s. s\<lparr>l_status := (if fixed then SAVED_FIXED @ apiVal else SAVED)\<rparr>);
           State_Monad.return True })"

subsection \<open>The handlers of the view\<close>

datatype levent =
    StartClick
  | EnClick
  | ViClick
  | Runtime jsval
  | Pong jsval
  | PageError
  | HeaderUrl ustr
  | SettingsOpened
  | SettingsSaved form
  | SettingsReset

definition RESET_TEXT :: ustr where
  "RESET_TEXT =
     [272, 227] @ js '' '' @ [273, 432] @ js ''a v'' @ [7873] @ js '' b'' @ [7897] @ js '' m'' @ [7863] @
     js ''c '' @ [273, 7883] @ js ''nh. Nh'' @ [7845] @ js ''n '' @ [34] @ js ''L'' @ [432] @ js ''u c'' @ [224] @
     js ''i '' @ [273, 7863] @ js ''t'' @ [34] @ js '' '' @ [273, 7875] @ js '' '' @ [225] @ js ''p d'' @ [7909] @
     js ''ng.''"

fun live_step :: "livecfg \<Rightarrow> env \<Rightarrow> levent \<Rightarrow> unit lact" where
  "live_step lc e StartClick = on_startClick lc e"
| "live_step lc e EnClick = on_en lc e"
| "live_step lc e ViClick = on_vi lc e"
| "live_step lc e (Runtime msg) = on_runtime e msg"
| "live_step lc e (Pong res) = on_pong e res"
| "live_step lc e PageError = page_error e"
| "live_step lc e (HeaderUrl t) = mods (\<lambda>s. s\<lparr>l_header := t\<rparr>)"
| "live_step lc e SettingsOpened = do { f \<leftarrow> fillSettingsFormFromStorage lc e; skip }"
| "live_step lc e (SettingsSaved f) = do { b \<leftarrow> applySettingsFromForm lc e f; skip }"
| "live_step lc e SettingsReset = mods (\<lambda>s. s\<lparr>l_status := RESET_TEXT\<rparr>)"

fun live_run :: "livecfg \<Rightarrow> env \<Rightarrow> levent list \<Rightarrow> unit lact" where
  "live_run lc e [] = skip"
| "live_run lc e (ev # evs) = do { u \<leftarrow> live_step lc e ev; live_run lc e evs }"

fun live_busy_with :: "livecfg \<Rightarrow> env \<Rightarrow> (live \<times> world \<Rightarrow> levent list) list \<Rightarrow> livecfg" where
  "live_busy_with lc e [] = lc\<lparr>lc_other := \<lambda>x. x\<rparr>"
| "live_busy_with lc e (c # cs) = lc\<lparr>lc_other := \<lambda>x. snd (run_state (live_run (live_busy_with lc e cs) e (c x)) x)\<rparr>"

text \<open>When the page starts.\<close>

definition live_init :: live where
  "live_init =
     \<lparr>l_ls = [], l_snap = \<lparr>sn_active = False, sn_starting = False, sn_seq = JFin 0, sn_tMs = JFin 0, sn_full = [], sn_at = JFin 0\<rparr>,
      l_busy = False, l_active = False, l_loading = False, l_playing = False, l_inFlight = False, l_logged = 0, l_rows = [],
      l_footer = LIVE, l_header = [], l_modes = \<lparr>m_en = False, m_vi = False, m_voice = False, m_record = False\<rparr>, l_status = []\<rparr>"

end
