(* ===== verification/Sentence_Log.thy ===== *)
theory Sentence_Log
  imports Sentences
begin

section \<open>Sentences of a growing text\<close>

text \<open>
  The side panel and the panel in the page show the sentences of the transcript once each, while its text
  grows and all but the last sentence count as complete.  Text that is added after the end of a match does not change the match: all sentences of a text but
  the last are sentences of every longer text.
\<close>

context sentence_classes
begin

lemma greedy_append: "greedy_sentence T Q s = Some t \<Longrightarrow> t \<noteq> [] \<Longrightarrow> greedy_sentence T Q (s @ x) = Some (t @ x)"
proof -
  assume g: "greedy_sentence T Q s = Some t" and t: "t \<noteq> []"
  let ?u = "dropWhile (\<lambda>c. \<not> T c) s"
  from g have u: "?u \<noteq> []" and e: "ends_sentence Q (dropWhile T ?u)" and tt: "t = dropWhile is_ws (dropWhile Q (dropWhile T ?u))"
    by (auto simp: greedy_sentence_def Let_def split: if_splits)
  from tt t have ne: "dropWhile Q (dropWhile T ?u) \<noteq> []" "dropWhile T ?u \<noteq> []" by (metis dropWhile.simps(1))+
  have app: "dropWhile P (a @ x) = dropWhile P a @ x" if "dropWhile P a \<noteq> []" for P and a :: ustr
    using that by (auto simp: dropWhile_append)
  have "dropWhile is_ws (dropWhile Q (dropWhile T (dropWhile (\<lambda>c. \<not> T c) (s @ x)))) = t @ x"
    using u ne t tt by (simp add: app)
  moreover obtain a v where av: "dropWhile Q (dropWhile T ?u) = a # v" using ne(1) by (meson neq_Nil_conv)
  with e have "is_ws a" by (simp add: ends_sentence_def Let_def)
  with av have "ends_sentence Q (dropWhile T (dropWhile (\<lambda>c. \<not> T c) (s @ x)))"
    using u ne by (simp add: app [OF ne(1)] app [OF ne(2)] app [OF u] ends_sentence_def Let_def)
  ultimately show ?thesis using u by (simp add: greedy_sentence_def Let_def app)
qed

lemma greedy_none_append: "greedy_sentence T Q s = None \<Longrightarrow> \<exists>c \<in> set s. T c \<Longrightarrow> greedy_sentence T Q (s @ x) = None"
proof -
  assume g: "greedy_sentence T Q s = None" and "\<exists>c \<in> set s. T c"
  let ?u = "dropWhile (\<lambda>c. \<not> T c) s"
  have u: "?u \<noteq> []" using \<open>\<exists>c \<in> set s. T c\<close> by (simp add: dropWhile_eq_Nil_conv)
  with g have e: "\<not> ends_sentence Q (dropWhile T ?u)" by (auto simp: greedy_sentence_def Let_def split: if_splits)
  then have ne: "dropWhile Q (dropWhile T ?u) \<noteq> []" "dropWhile T ?u \<noteq> []"
    unfolding ends_sentence_def Let_def by (metis dropWhile.simps(1))+
  have app: "dropWhile P (a @ x) = dropWhile P a @ x" if "dropWhile P a \<noteq> []" for P and a :: ustr
    using that by (auto simp: dropWhile_append)
  have "\<not> ends_sentence Q (dropWhile T (dropWhile (\<lambda>c. \<not> T c) (s @ x)))"
    using u ne e by (simp add: app ends_sentence_def Let_def)
  then show ?thesis by (simp add: greedy_sentence_def Let_def)
qed

lemma exec_append:
  "re_exec (sent_re T Q) s = Some (p, m, t) \<Longrightarrow> t \<noteq> [] \<Longrightarrow> re_exec (sent_re T Q) (s @ x) = Some (p, m, t @ x)"
proof (induction s arbitrary: p)
  case Nil
  then show ?case using re_exec_split by fastforce
next
  case (Cons c s)
  show ?case
  proof (cases "greedy_sentence T Q (c # s)")
    case (Some t')
    with Cons.prems have t: "p = []" "t' = t" "m = take (length (c # s) - length t) (c # s)"
      by (auto simp: re_exec.simps [of _ "c # s"] re_match_sent)
    have g: "greedy_sentence T Q ((c # s) @ x) = Some (t @ x)" using greedy_append [OF Some] Cons.prems(2) t by simp
    have "length t < length (c # s)" using greedy_shorter [OF Some] t by simp
    then show ?thesis using g t by (simp add: re_exec.simps [of _ "c # s @ x"] re_match_sent Suc_diff_le)
  next
    case None
    with Cons.prems obtain p' where p': "p = c # p'" "re_exec (sent_re T Q) s = Some (p', m, t)"
      by (auto simp: re_exec.simps [of _ "c # s"] re_match_sent)
    have "\<exists>c \<in> set (m @ t). T c"
      using re_exec_match [OF p'(2)] by (intro greedy_has_ender) (simp add: re_match_sent)
    then have "\<exists>c' \<in> set (c # s). T c'" using re_exec_split [OF p'(2)] by auto
    from greedy_none_append [OF None this, of x] Cons.IH [OF p'(2) Cons.prems(2)] p'(1)
    show ?thesis by (simp add: re_exec.simps [of _ "c # s @ x"] re_match_sent)
  qed
qed

lemma exec_nil: "exec_all (sent_re T Q) [] = ([], [])"
  using re_exec_split [of "sent_re T Q" "[]"] re_exec_nonempty [of "[]"]
  by (subst exec_all.simps) (auto split: option.split)

lemma exec_all_append:
  "exec_all (sent_re T Q) s = (ms, tail) \<Longrightarrow> exec_all (sent_re T Q) (s @ x) = (ms', tail') \<Longrightarrow> prefix (butlast ms) ms'"
proof (induction "sent_re T Q" s arbitrary: ms tail ms' tail' rule: exec_all.induct)
  case (1 s)
  show ?case
  proof (cases "re_exec (sent_re T Q) s")
    case None
    with 1(2) show ?thesis by (simp add: exec_all.simps [of _ s])
  next
    case (Some y)
    obtain p m t where "y = (p, m, t)" by (cases y)
    with Some have e: "re_exec (sent_re T Q) s = Some (p, m, t)" by simp
    have ne: "m \<noteq> []" using e by (rule re_exec_nonempty)
    obtain ms1 where ms1: "exec_all (sent_re T Q) t = (ms1, tail)" and ms: "ms = (p, m) # ms1"
      using 1(2) e ne by (subst (asm) exec_all.simps) (auto split: prod.splits)
    show ?thesis
    proof (cases "t = []")
      case True
      with ms1 ms show ?thesis by (simp add: exec_nil)
    next
      case False
      obtain ms2 where ms2: "exec_all (sent_re T Q) (t @ x) = (ms2, tail')" and ms': "ms' = (p, m) # ms2"
        using 1(3) exec_append [OF e False, of x] ne by (subst (asm) exec_all.simps) (auto split: prod.splits)
      have "prefix (butlast ms1) ms2" using 1(1) [OF e refl refl ne ms1 ms2] .
      with ms ms' show ?thesis by simp
    qed
  qed
qed

lemma sentences_append: "prefix (butlast (fst (sentences_and_tail T Q s))) (fst (sentences_and_tail T Q (s @ x)))"
proof -
  obtain ms tail where a: "exec_all (sent_re T Q) s = (ms, tail)" by fastforce
  obtain ms' tail' where b: "exec_all (sent_re T Q) (s @ x) = (ms', tail')" by fastforce
  from exec_all_append [OF a b] show ?thesis
    by (auto simp: sentences_and_tail_def a b map_butlast [symmetric] intro: map_mono_prefix)
qed

end

subsection \<open>Showing each sentence once\<close>

text \<open>
  The number of sentences shown before, and a text: the number after it, and the sentences that are new.
\<close>

definition log_step :: "(ustr \<Rightarrow> ustr list) \<Rightarrow> ustr \<Rightarrow> nat \<Rightarrow> nat \<times> ustr list" where
  "log_step split' f n = (let k = length (split' f) - 1 in if n < k then (k, drop n (take k (split' f))) else (n, []))"

fun log_run :: "(ustr \<Rightarrow> ustr list) \<Rightarrow> nat \<Rightarrow> ustr list \<Rightarrow> nat \<times> ustr list" where
  "log_run split' n [] = (n, [])"
| "log_run split' n (f # fs) =
     (case log_step split' f n of (n1, xs) \<Rightarrow> (case log_run split' n1 fs of (n2, ys) \<Rightarrow> (n2, xs @ ys)))"

locale growing_sentences =
  fixes split' :: "ustr \<Rightarrow> ustr list"
  assumes grows: "prefix (butlast (split' f)) (split' (f @ x))"
begin

lemma sentences_stay: "prefix f g \<Longrightarrow> n \<le> length (split' f) - 1 \<Longrightarrow> take n (split' g) = take n (split' f)"
proof -
  assume "prefix f g" and n: "n \<le> length (split' f) - 1"
  then obtain x where "g = f @ x" by (auto simp: prefix_def)
  then have "prefix (butlast (split' f)) (split' g)" using grows [of f x] by simp
  then obtain r where r: "split' g = butlast (split' f) @ r" by (auto simp: prefix_def)
  have "take n (split' f) = take n (butlast (split' f))" using n by (simp add: butlast_conv_take min_def)
  with r n show ?thesis by simp
qed

lemma log_step_new:
  assumes "n \<le> length (split' f0) - 1" and "prefix f0 f" and "log_step split' f n = (n', xs)"
  shows "length (split' f) - 1 \<le> n'" and "n' \<le> length (split' f) - 1 \<or> n' = n"
    and "take n (split' f0) @ xs = take n' (split' f)"
proof -
  have "take n (split' f) = take n (split' f0)" by (rule sentences_stay [OF assms(2,1)])
  moreover have "take n (split' f) @ drop n (take (length (split' f) - 1) (split' f)) = take (length (split' f) - 1) (split' f)"
    if "n < length (split' f) - 1" using that by (metis append_take_drop_id less_or_eq_imp_le min.absorb1 take_take)
  ultimately show "length (split' f) - 1 \<le> n'" "n' \<le> length (split' f) - 1 \<or> n' = n" "take n (split' f0) @ xs = take n' (split' f)"
    using assms(3) by (auto simp: log_step_def Let_def split: if_splits)
qed

text \<open>What was shown is the beginning of the newest text.\<close>

lemma log_run_new:
  assumes "sorted_wrt prefix (f0 # fs)" and "n \<le> length (split' f0) - 1" and "log_run split' n fs = (n', xs)"
  shows "take n (split' f0) @ xs = take n' (split' (last (f0 # fs)))" and "fs \<noteq> [] \<Longrightarrow> length (split' (last fs)) - 1 \<le> n'"
proof -
  have "take n (split' f0) @ xs = take n' (split' (last (f0 # fs))) \<and> (fs \<noteq> [] \<longrightarrow> length (split' (last fs)) - 1 \<le> n')"
    using assms
  proof (induction fs arbitrary: f0 n xs)
    case Nil
    then show ?case by simp
  next
    case (Cons f fs)
    obtain n1 ys where 1: "log_step split' f n = (n1, ys)" by fastforce
    obtain zs where 2: "log_run split' n1 fs = (n', zs)" "xs = ys @ zs" using Cons.prems(3) 1 by (auto split: prod.splits)
    have pre: "prefix f0 f" and sorted: "sorted_wrt prefix (f # fs)" using Cons.prems(1) by auto
    note new = log_step_new [OF Cons.prems(2) pre 1]
    show ?case
    proof (cases "n1 \<le> length (split' f) - 1")
      case True
      have "take n (split' f0) @ xs = take n1 (split' f) @ zs" using new(3) 2(2) by (metis append.assoc)
      with Cons.IH [OF sorted True 2(1)] new(1) 2(1) show ?thesis by (cases fs) auto
    next
      case False
      then have "n1 = n" using new(2) by simp
      then have xs: "ys = []" using 1 False by (auto simp: log_step_def Let_def split: if_splits)
      have "sorted_wrt prefix (f0 # fs)" using Cons.prems(1) by simp
      moreover have "log_run split' n fs = (n', xs)" using 2 xs \<open>n1 = n\<close> by simp
      ultimately have ih: "take n (split' f0) @ xs = take n' (split' (last (f0 # fs))) \<and> (fs \<noteq> [] \<longrightarrow> length (split' (last fs)) - 1 \<le> n')"
        using Cons.IH [OF _ Cons.prems(2)] by blast
      show ?thesis
      proof (cases fs)
        case Nil
        with 2 xs new(1) \<open>n1 = n\<close> sentences_stay [OF pre Cons.prems(2)] show ?thesis by auto
      qed (use ih in auto)
    qed
  qed
  then show "take n (split' f0) @ xs = take n' (split' (last (f0 # fs)))" and "fs \<noteq> [] \<Longrightarrow> length (split' (last fs)) - 1 \<le> n'"
    by simp_all
qed

end

text \<open>All copies of the splitter.\<close>

interpretation wide_log: growing_sentences "\<lambda>f. fst (panel_splitSentencesAndTail f)"
  by unfold_locales (simp add: panel_splitSentencesAndTail_def std.sentences_append)

interpretation ascii_log: growing_sentences "\<lambda>f. fst (sidepanel_splitSentencesAndTail f)"
  by unfold_locales (simp add: sidepanel_splitSentencesAndTail_def ascii.sentences_append)

end
