(* ===== verification/Panel_Live_Contract.thy ===== *)
theory Panel_Live_Contract
  imports Panel_Live Sentence_Log
begin

section \<open>What the transcript view promises\<close>

subsection \<open>Sentences of a growing text\<close>

abbreviation sents :: "ustr \<Rightarrow> ustr list" where
  "sents f \<equiv> fst (sidepanel_splitSentencesAndTail f)"

lemma sents_nil [simp]: "sents [] = []"
  by (simp add: sidepanel_splitSentencesAndTail_def sentences_and_tail_def ascii.exec_nil)

definition shown :: "ustr list \<Rightarrow> (ustr \<times> ustr) list" where
  "shown xs = rev (map (\<lambda>t. (t, SPEAKER)) (filter (\<lambda>t. t \<noteq> []) (map trim xs)))"

lemma fold_show: "l_rows (fold show_sentence xs s) = shown xs @ l_rows s \<and> l_logged (fold show_sentence xs s) = l_logged s"
  by (induction xs arbitrary: s) (simp_all add: shown_def show_sentence_def addTranscriptRow_def Let_def)

lemma show_stable_log:
  "log_step sents f (l_logged s) = (n, xs) \<Longrightarrow> l_logged (show_stable f s) = n \<and> l_rows (show_stable f s) = shown xs @ l_rows s"
  using fold_show by (auto simp: show_stable_def log_step_def Let_def shown_def split: if_splits)

definition transcript_msg :: "ustr \<Rightarrow> jsval" where
  "transcript_msg full = cmd_msg ''__TRANSCRIPT_STABLE__'' [(js ''payload'', JObj [(js ''full'', JStr full)])]"

lemma stable_runs: "\<exists>t patch w'. run_state (on_runtime e (transcript_msg f)) (s, w) = ((), show_stable f (set_snap t patch s), w')"
  by (simp add: on_runtime_def transcript_msg_def cmd_msg_def fld_def obj_get_def on_stable_def with_clock_def Let_def js_def)
    (blast intro: refl)

lemma stable_log_run:
  assumes "log_run sents (l_logged s) fs = (n, xs)"
    and "run_state (live_run lc e (map (\<lambda>f. Runtime (transcript_msg f)) fs)) (s, w) = ((), s', w')"
  shows "l_logged s' = n \<and> l_rows s' = shown xs @ l_rows s"
  using assms
proof (induction fs arbitrary: s w xs)
  case Nil
  then show ?case by (simp add: shown_def)
next
  case (Cons f fs)
  obtain t p w1 where 1: "run_state (on_runtime e (transcript_msg f)) (s, w) = ((), show_stable f (set_snap t p s), w1)"
    using stable_runs by blast
  let ?s1 = "show_stable f (set_snap t p s)"
  obtain n1 ys zs where 2: "log_step sents f (l_logged s) = (n1, ys)" "log_run sents n1 fs = (n, zs)" "xs = ys @ zs"
    using Cons.prems(1) by (auto split: prod.splits)
  have s1: "l_logged ?s1 = n1" "l_rows ?s1 = shown ys @ l_rows s"
    using show_stable_log [of f "set_snap t p s" n1 ys] 2(1) by (simp_all add: set_snap_def)
  have "run_state (live_run lc e (map (\<lambda>f. Runtime (transcript_msg f)) fs)) (?s1, w1) = ((), s', w')" using Cons.prems(2) 1 by simp
  from Cons.IH [OF _ this] s1 2 show ?case by (simp add: shown_def)
qed

text \<open>Property C24: from a start on, while the text of the transcript grows, every complete sentence but the last is shown
  once, in the order of the text (the newest first on the page), and no sentence is shown that the text
  does not have.\<close>

theorem sentences_once:
  assumes "sorted_wrt prefix fs" and "fs \<noteq> []" and "l_logged s = 0" and "l_rows s = []"
  shows "case run_state (live_run lc e (map (\<lambda>f. Runtime (transcript_msg f)) fs)) (s, w) of (_, s', w' :: world) \<Rightarrow>
    length (sents (last fs)) - 1 \<le> l_logged s' \<and> l_rows s' = shown (take (l_logged s') (sents (last fs)))"
proof -
  obtain s' w' where run: "run_state (live_run lc e (map (\<lambda>f. Runtime (transcript_msg f)) fs)) (s, w) = ((), s', w')" by (rule act_runs)
  obtain n xs where log: "log_run sents 0 fs = (n, xs)" by fastforce
  have "sorted_wrt prefix ([] # fs)" using assms(1) by simp
  from ascii_log.log_run_new [OF this _ log] assms(2) have "xs = take n (sents (last fs))" "length (sents (last fs)) - 1 \<le> n" by simp_all
  with run stable_log_run [OF _ run] log assms(3,4) show ?thesis by simp
qed

definition two_texts :: "ustr list" where
  "two_texts = [js ''One. Tw'', js ''One. Two. Thr'']"

lemma two_texts_facts:
  "sorted_wrt prefix two_texts" "two_texts \<noteq> []" "last two_texts = js ''One. Two. Thr''"
  "sents (js ''One. Two. Thr'') = [js ''One. '', js ''Two. '']"
  by code_simp+

definition example_live :: livecfg where
  "example_live = \<lparr>lc_other = (\<lambda>x. x), lc_runtime = True, lc_storage = True\<rparr>"

theorem sentences_once_witness:
  "case run_state (live_run example_live (example_env (\<lambda>h r. Inl []) (\<lambda>s. None)) (map (\<lambda>f. Runtime (transcript_msg f)) two_texts)) (live_init, blank_world) of
     (_, s', w' :: world) \<Rightarrow> 1 \<le> l_logged s' \<and> l_rows s' = shown (take (l_logged s') [js ''One. '', js ''Two. ''])"
  using sentences_once [OF two_texts_facts(1,2), of live_init example_live "example_env (\<lambda>h r. Inl []) (\<lambda>s. None)" blank_world]
  by (simp add: two_texts_facts(3,4) live_init_def split: prod.splits)

subsection \<open>The state of the view\<close>

text \<open>
  A capture that plays is active and not loading, one that loads is active; \<open>startInFlight\<close> says no more
  than the class \<open>is-loading\<close>, and the locked modes are off.
\<close>

definition live_ok :: "live \<Rightarrow> bool" where
  "live_ok s \<longleftrightarrow>
     l_active s = (l_playing s \<or> l_loading s) \<and> \<not> (l_playing s \<and> l_loading s) \<and> l_loading s = l_inFlight s \<and>
     \<not> m_voice (l_modes s) \<and> \<not> m_record (l_modes s)"

lemmas live_defs = resetRealtimeUiAfterError_def live_busy_def show_state_def show_starting_def set_snap_def
  applyModesToUI_def enforceLockedTranscriptModes_def addTranscriptRow_def Let_def

lemma live_ok_same:
  "l_playing s' = l_playing s \<Longrightarrow> l_active s' = l_active s \<Longrightarrow> l_loading s' = l_loading s \<Longrightarrow> l_inFlight s' = l_inFlight s \<Longrightarrow>
   l_modes s' = l_modes s \<Longrightarrow> live_ok s \<Longrightarrow> live_ok s'"
  by (auto simp: live_ok_def)

lemma fold_show_flags: "live_ok (fold show_sentence xs s) = live_ok s"
  by (induction xs arbitrary: s) (simp_all add: show_sentence_def addTranscriptRow_def live_ok_def Let_def)

lemma keeps_clock [keeps_intros]: "(\<And>t s. live_ok s \<Longrightarrow> live_ok (f t s)) \<Longrightarrow> keeps live_ok (with_clock e f)"
  unfolding with_clock_def by (intro keeps_intros keeps_mods)

lemma keeps_l_auth [keeps_intros]: "keeps live_ok (l_auth e)"
  unfolding l_auth_def by (intro keeps_intros)

lemma keeps_modes [keeps_intros]: "keeps live_ok (sendTranscriptModes lc e)" "keeps live_ok (on_en lc e)" "keeps live_ok (on_vi lc e)"
  unfolding on_en_def on_vi_def sendTranscriptModes_def by (intro keeps_intros keeps_mods; auto simp: live_ok_def live_defs)+

lemma keeps_answer [keeps_intros]: "keeps live_ok (start_answer e r)" "keeps live_ok (stop_capture lc e)" "keeps live_ok (page_error e)"
  unfolding start_answer_def stop_capture_def page_error_def
  by (intro keeps_intros keeps_mods; auto simp: live_ok_def live_defs)+

lemma show_stable_ok: "live_ok s \<Longrightarrow> live_ok (show_stable f s)"
proof -
  assume s: "live_ok s"
  let ?xs = "drop (l_logged s) (take (length (sents f) - 1) (sents f))"
  have "live_ok (fold show_sentence ?xs s)" using s by (simp add: fold_show_flags)
  then have "live_ok ((fold show_sentence ?xs s)\<lparr>l_logged := length (sents f) - 1, l_footer := LIVE_RUNNING\<rparr>)"
    by (rule live_ok_same [rotated 5]) simp_all
  with s show ?thesis by (simp add: show_stable_def Let_def)
qed

lemma keeps_opened [keeps_intros]: "keeps live_ok (opened_server e sv)"
  unfolding opened_server_def Let_def by (intro keeps_intros keeps_mods; auto simp: live_ok_def)

lemma keeps_bool: "(\<And>b. keeps I (f b)) \<Longrightarrow> keeps I g \<Longrightarrow> keeps I (case v of JBool b \<Rightarrow> f b | _ \<Rightarrow> g)"
  by (cases v) simp_all

lemma keeps_str: "(\<And>b. keeps I (f b)) \<Longrightarrow> keeps I g \<Longrightarrow> keeps I (case v of JStr b \<Rightarrow> f b | _ \<Rightarrow> g)"
  by (cases v) simp_all

lemma keeps_messages [keeps_intros]:
  "keeps live_ok (on_opened e p)" "keeps live_ok (on_notify e p)" "keeps live_ok (on_stable e msg)" "keeps live_ok (on_pong e v)"
  unfolding on_opened_def on_notify_def on_stable_def on_pong_def Let_def
  by (intro keeps_bool keeps_str keeps_intros keeps_mods show_stable_ok; auto simp: live_ok_def live_defs)+

lemma keeps_status [keeps_intros]: "keeps live_ok (on_status e p)"
  unfolding on_status_def Let_def by (intro keeps_intros keeps_mods; auto simp: live_ok_def live_defs)

lemma keeps_runtime [keeps_intros]: "keeps live_ok (on_runtime e msg)"
  unfolding on_runtime_def Let_def by (intro keeps_intros)

locale live_calm =
  fixes lc :: livecfg
  assumes calm: "live_ok s \<Longrightarrow> live_ok (fst (lc_other lc (s, w)))"
begin

lemma keeps_waits [keeps_intros]: "keeps live_ok (l_waits lc)"
  unfolding keeps_def l_waits_def by (simp add: calm)

lemma keeps_start [keeps_intros]: "keeps live_ok (begin_capture lc e)" "keeps live_ok (on_startClick lc e)"
  unfolding on_startClick_def isAuthed_def begin_capture_def Let_def
  by (intro keeps_intros keeps_mods; auto simp: live_ok_def live_defs)+

lemma keeps_settings [keeps_intros]: "keeps live_ok (fillSettingsFormFromStorage lc e)" "keeps live_ok (applySettingsFromForm lc e f)"
  unfolding fillSettingsFormFromStorage_def applySettingsFromForm_def Let_def
  by (intro keeps_intros keeps_mods; auto simp: live_ok_def)+

lemma keeps_live_step: "keeps live_ok (live_step lc e ev)"
  by (cases ev; simp only: live_step.simps) (intro keeps_intros keeps_mods; auto simp: live_ok_def)+

lemma keeps_live_run: "keeps live_ok (live_run lc e evs)"
  by (induction evs) (simp_all add: keeps_ret keeps_bind keeps_live_step)

end

lemma live_busy_calm: "live_calm (live_busy_with lc e cs)"
proof (induction cs)
  case Nil
  show ?case by unfold_locales simp
next
  case (Cons c cs)
  show ?case
  proof unfold_locales
    fix s w assume ok: "live_ok s"
    obtain s' w' where run: "run_state (live_run (live_busy_with lc e cs) e (c (s, w))) (s, w) = ((), s', w')" by (rule act_runs)
    from keeps_run [OF live_calm.keeps_live_run [OF Cons.IH] run ok] run
    show "live_ok (fst (lc_other (live_busy_with lc e (c # cs)) (s, w)))" by simp
  qed
qed

interpretation view: live_calm "live_busy_with lc e cs" for lc e cs
  by (rule live_busy_calm)

text \<open>Property C25: whatever the user, the worker and the storage do and whichever handlers run while one waits, the
  view is in one of three states: nothing is shown; a start is in flight (the button is active and loading);
  or the button is active and plays.  So \<open>startInFlight\<close> is never set without the active
  button (the test against a second click never holds), and the locked modes stay off.\<close>

theorem live_invariant:
  "case run_state (live_run (live_busy_with lc e cs) e evs) (live_init, w) of (_, s', w' :: world) \<Rightarrow>
     (l_active s', l_playing s', l_loading s', l_inFlight s') \<in>
       {(False, False, False, False), (True, False, True, True), (True, True, False, False)} \<and>
     \<not> m_voice (l_modes s') \<and> \<not> m_record (l_modes s')"
proof -
  obtain s' w' where run: "run_state (live_run (live_busy_with lc e cs) e evs) (live_init, w) = ((), s', w')" by (rule act_runs)
  have "live_ok live_init" by (simp add: live_ok_def live_init_def)
  from keeps_run [OF view.keeps_live_run run this] run show ?thesis by (auto simp: live_ok_def)
qed

subsection \<open>Two clicks\<close>

text \<open>A second click while the first waits for the profile also starts the capture.\<close>

definition start_sent :: "out \<Rightarrow> bool" where
  "start_sent x \<longleftrightarrow> (case x of ToRuntime m \<Rightarrow> fld m ''__cmd'' = JStr (js ''__PANEL_START__'') | _ \<Rightarrow> False)"

definition signed_in_world :: world where
  "signed_in_world = blank_world\<lparr>w_store := [(js ''vtAuth'', JObj [(js ''profile'', JObj [(js ''email'', JStr (js ''a@b.c''))])])]\<rparr>"

definition agreeing_env :: env where
  "agreeing_env = (example_env (\<lambda>h r. Inl []) (\<lambda>s. None))\<lparr>e_deliver := \<lambda>h x. Inr (JObj [(js ''ok'', JBool True)])\<rparr>"

definition second_click :: "live \<times> world \<Rightarrow> levent list" where
  "second_click x = (if l_active (fst x) then [] else [StartClick])"

lemma double_start:
  "length (filter start_sent (w_out (snd (snd (run_state (on_startClick (live_busy_with example_live agreeing_env [second_click]) agreeing_env)
     (live_init, signed_in_world)))))) = 2"
  by code_simp

subsection \<open>Settings\<close>

lemma text_after_set: "ls_text e (ls_set st k (Raw v)) k' = (if js k' = js k then v else ls_text e st k')"
  by (simp add: ls_text_def ls_item_def ls_set_def)

lemma ws_trim [simp]: "trim (normalizeWsServerInput v) = normalizeWsServerInput v"
  by (rule trim_no_ws) (simp add: normalizeWsServerInput_def)

lemma modes_keep_text:
  assumes "k \<in> {''sttChatApiBase'', ''sttServerWs'', ''sttTranslatorWs''}"
  shows "ls_text e (l_ls (applyModesToUI s)) k = ls_text e (l_ls s) k"
  using assms by (auto simp: applyModesToUI_def Let_def writeBoolLS_def text_after_set)

definition address_keys :: "string set" where
  "address_keys = {''sttChatApiBase'', ''sttServerWs'', ''sttTranslatorWs''}"

lemma send_keeps_text:
  assumes "run_state (sendTranscriptModes lc e) (s, w) = ((), s', w')" and "k \<in> address_keys"
  shows "ls_text e (l_ls s') k = ls_text e (l_ls s) k"
proof -
  have "l_ls s' = l_ls (applyModesToUI s) \<or> l_ls s' = l_ls s"
    using assms(1) by (auto simp: sendTranscriptModes_def split: if_splits prod.splits)
  then show ?thesis using modes_keep_text assms(2) by (auto simp: address_keys_def)
qed

lemma saved_texts:
  "ls_text e (save_addresses f api ws tr st) ''sttChatApiBase'' = api" "ls_text e (save_addresses f api ws tr st) ''sttServerWs'' = ws"
  "ls_text e (save_addresses f api ws tr st) ''sttTranslatorWs'' = tr"
  by (simp_all add: save_addresses_def text_after_set)

lemma saved_run:
  assumes "isValidWsUrl e (trans_of_form e f)" "isValidHttpUrl e (normalizeHttpBaseUrl e (f_api f))" "isValidWsUrl e (normalizeWsServerInput (f_ws f))"
  obtains s' w' where "run_state (applySettingsFromForm (live_busy_with lc e []) e f) (s, w) = (True, s', w')"
    and "\<And>k. k \<in> address_keys \<Longrightarrow> ls_text e (l_ls s') k =
      ls_text e (save_addresses f (normalizeHttpBaseUrl e (f_api f)) (normalizeWsServerInput (f_ws f)) (trans_of_form e f) (l_ls s)) k"
proof -
  let ?lc = "live_busy_with lc e []"
  let ?st = "save_addresses f (normalizeHttpBaseUrl e (f_api f)) (normalizeWsServerInput (f_ws f)) (trans_of_form e f) (l_ls s)"
  let ?store = "if lc_runtime ?lc then do { y \<leftarrow> onw (if lc_storage ?lc then store_set ''sttTranslatorWs'' (JStr (trans_of_form e f)) else ret ()); l_waits ?lc } else skip"
  obtain w1 where 1: "run_state ?store (s\<lparr>l_ls := ?st\<rparr>, w) = ((), s\<lparr>l_ls := ?st\<rparr>, w1)"
    by (cases "lc_runtime lc"; cases "lc_storage lc") (simp_all add: l_waits_def)
  let ?s2 = "s\<lparr>l_ls := ?st, l_modes := \<lparr>m_en = f_en f, m_vi = f_vi f, m_voice = False, m_record = False\<rparr>\<rparr>"
  obtain s3 w3 where 3: "run_state (sendTranscriptModes ?lc e) (?s2, w1) = ((), s3, w3)" by (rule act_runs)
  have "\<exists>t. run_state (applySettingsFromForm ?lc e f) (s, w) = (True, s3\<lparr>l_status := t\<rparr>, w3)"
    using assms 1 3 by (auto simp: applySettingsFromForm_def Let_def)
  then obtain t where run: "run_state (applySettingsFromForm ?lc e f) (s, w) = (True, s3\<lparr>l_status := t\<rparr>, w3)" ..
  have "ls_text e (l_ls (s3\<lparr>l_status := t\<rparr>)) k = ls_text e ?st k" if "k \<in> address_keys" for k
    using send_keeps_text [OF 3 that] by simp
  with run show thesis by (rule that)
qed

lemma refused_run:
  assumes "\<not> (isValidWsUrl e (trans_of_form e f) \<and> isValidHttpUrl e (normalizeHttpBaseUrl e (f_api f)) \<and> isValidWsUrl e (normalizeWsServerInput (f_ws f)))"
  obtains t where "run_state (applySettingsFromForm lc e f) (s, w) = (False, s\<lparr>l_status := t\<rparr>, w)"
proof (cases "isValidWsUrl e (trans_of_form e f)")
  case False
  then show thesis by (intro that [of TRANS_INVALID]) (simp add: applySettingsFromForm_def Let_def)
next
  case tr: True
  show thesis
  proof (cases "isValidHttpUrl e (normalizeHttpBaseUrl e (f_api f))")
    case False
    with tr show thesis by (intro that [of API_INVALID]) (simp add: applySettingsFromForm_def Let_def)
  next
    case True
    with tr assms show thesis by (intro that [of WS_INVALID]) (simp add: applySettingsFromForm_def Let_def)
  qed
qed


end
