(* ===== verification/History_Format.thy ===== *)
theory History_Format
  imports Panel_Rag Actions
begin

section \<open>sidepanel_history.js: rows as texts\<close>

text \<open>
  How the history view writes the rows of a list: dates, durations, sites, previews, the names and the
  contents of downloaded files.  The side panel has copies of most of these functions; they agree.
\<close>

definition toDateOrNull :: "env \<Rightarrow> jsval \<Rightarrow> rat option" where
  "toDateOrNull e v = e_dateparse e (str_or_empty v)"

definition formatDateTime :: "env \<Rightarrow> local_time \<Rightarrow> jsval \<Rightarrow> ustr" where
  "formatDateTime e lt v =
     (case toDateOrNull e v of
        None \<Rightarrow> js ''N/A''
      | Some t \<Rightarrow> (case lt t of (y, mo, d, h, m, s) \<Rightarrow>
          pad h @ js '':'' @ pad m @ js '' '' @ pad d @ js ''/'' @ pad (mo + 1) @ js ''/'' @ nat_str y))"

definition formatDurationMs :: "rat \<Rightarrow> ustr" where
  "formatDurationMs ms =
     (let total' = nat \<lfloor>ms / 1000\<rfloor>; h = total' div 3600; m = total' mod 3600 div 60; s = total' mod 60
      in pad h @ js '':'' @ pad m @ js '':'' @ pad s)"

definition UNKNOWN_SITE :: ustr where
  "UNKNOWN_SITE = js ''Trang web kh'' @ [244] @ js ''ng x'' @ [225] @ js ''c '' @ [273, 7883] @ js ''nh''"

definition domainFrom :: "env \<Rightarrow> jsval \<Rightarrow> ustr" where
  "domainFrom e it =
     (let d = trim (str_or_empty (fld it ''tab_domain'')) in
      if d \<noteq> [] then d
      else case e_url e (str_or_empty (fld it ''tab_url'')) of
             None \<Rightarrow> UNKNOWN_SITE
           | Some u \<Rightarrow> str_or (u_hostname u) UNKNOWN_SITE)"

definition statusLabel :: "jsval \<Rightarrow> ustr" where
  "statusLabel raw =
     (let s = toLowerCase (str_or_empty raw) in
      if s = js ''running'' then [272] @ js ''ang ch'' @ [7841] @ js ''y''
      else if s = js ''stopped'' then [272, 227] @ js '' d'' @ [7915] @ js ''ng''
      else if s = [] then js ''N/A''
      else s)"

definition is_text :: "jsval \<Rightarrow> bool" where
  "is_text v \<longleftrightarrow> (case v of JStr s \<Rightarrow> trim s \<noteq> [] | _ \<Rightarrow> False)"

definition row_text :: "jsval \<Rightarrow> ustr \<Rightarrow> ustr" where
  "row_text it detailText =
     (case find is_text [JStr detailText, fld it ''preview_text'', fld it ''latest_text_en'', fld it ''latest_text_vi'',
         fld it ''latest_text'', fld it ''text_en'', fld it ''text_vi'', fld it ''text''] of
        None \<Rightarrow> [] | Some v \<Rightarrow> to_str v)"

definition normalizeTextPreview :: "ustr \<Rightarrow> ustr" where
  "normalizeTextPreview s =
     (let clean = trim (replace_all (RPlus is_ws) (\<lambda>_. [32]) s) in
      if clean = [] then UPDATING_TEXT
      else if length clean \<le> 180 then clean
      else take 177 clean @ js ''...'')"

definition start_time :: "env \<Rightarrow> jsval \<Rightarrow> rat" where
  "start_time e r =
     (case e_dateparse e (to_str (js_ors [fld r ''started_at'', fld r ''last_updated_at'', JStr []])) of None \<Rightarrow> 0 | Some t \<Rightarrow> t)"

definition row_after :: "env \<Rightarrow> jsval \<Rightarrow> jsval \<Rightarrow> bool" where
  "row_after e a b \<longleftrightarrow>
     (if start_time e b \<noteq> start_time e a then start_time e a < start_time e b else jlt (item_id a) (item_id b))"

definition view_sortSessionsDesc :: "env \<Rightarrow> jsval list \<Rightarrow> jsval list" where
  "view_sortSessionsDesc e rows = sort_by (row_after e) rows"

definition calcDurationMs :: "env \<Rightarrow> jsval \<Rightarrow> rat prog" where
  "calcDurationMs e it =
     (case e_dateparse e (str_or_empty (fld it ''started_at'')) of
        None \<Rightarrow> ret 0
      | Some startMs \<Rightarrow> do {
          endRaw \<leftarrow> (if truthy (fld it ''ended_at'') then ret (fld it ''ended_at'')
                    else if truthy (fld it ''last_updated_at'') then ret (fld it ''last_updated_at'')
                    else do { t \<leftarrow> now_iso e; ret (JStr t) });
          ret (case e_dateparse e (str_or_empty endRaw) of None \<Rightarrow> 0 | Some endMs \<Rightarrow> max 0 (endMs - startMs)) })"

definition file_illegal :: "nat \<Rightarrow> bool" where
  "file_illegal c \<longleftrightarrow> c < 32 \<or> c \<in> set [60, 62, 58, 34, 47, 92, 124, 63, 42]"

definition sanitizeFilenamePart :: "ustr \<Rightarrow> ustr" where
  "sanitizeFilenamePart s =
     str_or (take 60 (replace_all (RPlus is_ws) (\<lambda>_. js ''_'') (map (\<lambda>c. if file_illegal c then 95 else c) (trim s)))) (js ''transcript'')"

definition STARTED :: ustr where
  "STARTED = js ''B'' @ [7855] @ js ''t '' @ [273, 7847] @ js ''u: ''"

definition TOTAL_TIME :: ustr where
  "TOTAL_TIME = js ''T'' @ [7893] @ js ''ng th'' @ [7901] @ js ''i gian: ''"

definition DOT :: ustr where
  "DOT = js '' '' @ [8226] @ js '' ''"

definition buildDownloadText :: "env \<Rightarrow> local_time \<Rightarrow> jsval \<Rightarrow> ustr \<Rightarrow> ustr prog" where
  "buildDownloadText e lt it fullText = do {
     durationMs \<leftarrow> calcDurationMs e it;
     ret (join [10]
       [js ''Website: '' @ to_str (js_or (fld it ''tab_url'') (JStr (domainFrom e it))),
        STARTED @ formatDateTime e lt (fld it ''started_at''),
        js ''K'' @ [7871] @ js ''t th'' @ [250] @ js ''c: '' @
          formatDateTime e lt (js_ors [fld it ''ended_at'', fld it ''last_updated_at'', JStr []]),
        TOTAL_TIME @ formatDurationMs durationMs,
        [],
        js ''===== Transcript ====='',
        trim fullText,
        []]) }"

text \<open>The date in the name of a file.\<close>

definition file_stamp :: "local_time \<Rightarrow> rat \<Rightarrow> ustr" where
  "file_stamp lt t =
     (case lt t of (y, mo, d, h, m, s) \<Rightarrow>
        nat_str y @ js ''-'' @ pad (mo + 1) @ js ''-'' @ pad d @ js ''_'' @ pad h @ js ''-'' @ pad m @ js ''-'' @ pad s)"

text \<open>The side panel has its own copies of these functions for the picker of the chat.\<close>

lemma copies_agree:
  "formatDateTime e lt v = ragFormatDateTime e lt v" "formatDurationMs ms = ragFormatDurationMs ms"
  "statusLabel raw = ragStatusLabel raw" "row_text it d = pickTranscriptText it d" "is_text v = hasTextValue v"
  "normalizeTextPreview s = ragNormalizePreview s 180" "calcDurationMs e it = ragCalcDurationMs e it"
  "view_sortSessionsDesc e rows = ragSortSessionsDesc e rows"
proof -
  have t: "is_text = hasTextValue" by (rule ext) (simp add: is_text_def hasTextValue_def)
  then show "is_text v = hasTextValue v" by simp
  show "row_text it d = pickTranscriptText it d" by (simp add: row_text_def pickTranscriptText_def t)
  show "formatDateTime e lt v = ragFormatDateTime e lt v"
    by (simp add: formatDateTime_def ragFormatDateTime_def toDateOrNull_def ragToDateOrNull_def)
  show "formatDurationMs ms = ragFormatDurationMs ms" by (simp add: formatDurationMs_def ragFormatDurationMs_def)
  show "statusLabel raw = ragStatusLabel raw" by (auto simp: statusLabel_def ragStatusLabel_def str_or_def Let_def)
  show "normalizeTextPreview s = ragNormalizePreview s 180"
    by (auto simp: normalizeTextPreview_def ragNormalizePreview_def collapse_ws_def Let_def)
  show "calcDurationMs e it = ragCalcDurationMs e it" by (simp add: calcDurationMs_def ragCalcDurationMs_def)
  have "row_after e = rag_after e" by (intro ext) (simp add: row_after_def rag_after_def start_time_def rag_time_def)
  then show "view_sortSessionsDesc e rows = ragSortSessionsDesc e rows" by (simp add: view_sortSessionsDesc_def ragSortSessionsDesc_def)
qed

subsection \<open>Names of files\<close>

lemma match_Plus: "re_match (RPlus P) s = None \<longleftrightarrow> (case s of [] \<Rightarrow> True | c # t \<Rightarrow> \<not> P c)"
proof -
  have "star_rems P t \<noteq> []" for t by (induction t) auto
  then show ?thesis by (auto simp: re_match_def RPlus_def split: list.splits)
qed

lemma match_Plus_shorter: "re_match (RPlus P) s = Some t \<Longrightarrow> length t < length s"
proof -
  have shorter: "set (star_rems P u) \<subseteq> {v. length v \<le> length u}" for u by (induction u) auto
  assume "re_match (RPlus P) s = Some t"
  then obtain c u where s: "s = c # u" "t \<in> set (star_rems P u)"
    by (auto simp: re_match_def RPlus_def split: list.splits if_splits)
  with shorter [of u] show ?thesis by auto
qed

lemma exec_Plus_None: "re_exec (RPlus P) s = None \<Longrightarrow> c \<in> set s \<Longrightarrow> \<not> P c"
proof (induction s)
  case (Cons d s)
  then have "re_match (RPlus P) (d # s) = None" by (auto dest: re_exec_None)
  moreover have "re_exec (RPlus P) s = None"
    using Cons.prems(1) calculation by (subst (asm) re_exec.simps) simp
  ultimately show ?case using Cons by (auto simp: match_Plus)
qed simp

lemma exec_Plus_before: "re_exec (RPlus P) s = Some (p, m, t) \<Longrightarrow> c \<in> set p \<Longrightarrow> \<not> P c"
proof (induction s arbitrary: p)
  case (Cons d s)
  show ?case
  proof (cases "re_match (RPlus P) (d # s)")
    case None
    then obtain p' where p': "p = d # p'" "re_exec (RPlus P) s = Some (p', m, t)"
      using Cons.prems(1) by (subst (asm) re_exec.simps) auto
    with Cons None show ?thesis by (auto simp: match_Plus)
  qed (use Cons.prems in \<open>auto simp: re_exec.simps [of _ "d # s"]\<close>)
qed (simp add: re_exec.simps re_match_def RPlus_def)

lemma replace_ws_set: "set (replace_all (RPlus P) (\<lambda>_. [95]) s) \<subseteq> insert 95 {c \<in> set s. \<not> P c}"
proof (induction "RPlus P" "\<lambda>_::ustr. [95::nat]" s rule: replace_all.induct)
  case (1 s)
  show ?case
  proof (cases "re_exec (RPlus P) s")
    case None
    then show ?thesis using exec_Plus_None [of P s] by (auto simp: replace_all.simps [of _ _ s])
  next
    case (Some x)
    obtain p m t where x: "x = (p, m, t)" by (metis prod_cases3)
    have s: "s = p @ m @ t" using re_exec_split Some x by blast
    have "m \<noteq> []" using re_exec_match [of "RPlus P" s p m t] Some x match_Plus_shorter [of P t t] by auto
    then have eq: "replace_all (RPlus P) (\<lambda>_. [95]) s = p @ [95] @ replace_all (RPlus P) (\<lambda>_. [95]) t"
      using Some x by (simp add: replace_all.simps [of _ _ s])
    have "set (replace_all (RPlus P) (\<lambda>_. [95]) t) \<subseteq> insert 95 {c \<in> set t. \<not> P c}"
      by (rule 1(2) [OF Some x [symmetric] refl \<open>m \<noteq> []\<close>])
    then show ?thesis unfolding eq using s exec_Plus_before [of P s p m t] Some x by auto
  qed
qed

lemma file_part:
  "let t = sanitizeFilenamePart s in t \<noteq> [] \<and> length t \<le> 60 \<and> list_all (\<lambda>c. \<not> file_illegal c \<and> \<not> is_ws c) t"
proof -
  let ?m = "map (\<lambda>c. if file_illegal c then 95 else c) (trim s)"
  let ?r = "replace_all (RPlus is_ws) (\<lambda>_. js ''_'') ?m"
  have ok95: "\<not> file_illegal 95" "\<not> is_ws 95" by (simp_all add: file_illegal_def is_ws_def)
  have "js ''_'' = [95]" by code_simp
  then have "set ?r \<subseteq> insert 95 {c \<in> set ?m. \<not> is_ws c}" by (metis replace_ws_set)
  then have "list_all (\<lambda>c. \<not> file_illegal c \<and> \<not> is_ws c) (take 60 ?r)"
    using ok95 by (fastforce simp: list_all_iff dest: in_set_takeD split: if_splits)
  moreover have "js ''transcript'' \<noteq> [] \<and> length (js ''transcript'') \<le> 60 \<and>
      list_all (\<lambda>c. \<not> file_illegal c \<and> \<not> is_ws c) (js ''transcript'')" by code_simp
  ultimately show ?thesis by (simp add: sanitizeFilenamePart_def str_or_def Let_def)
qed

end
