(* ===== verification/History_View.thy ===== *)
theory History_View
  imports History_Format Actions
begin

section \<open>sidepanel_history.js: the list of recorded transcripts\<close>

text \<open>
  The history view lists, searches, shows, downloads and deletes the transcripts of the user.  The rows
  of an answer are objects that the list, the filtered list and the details share and that are changed
  in place, so the model keeps them in a store, \<open>hv_heap\<close>, and the lists hold positions in it.  \<open>vc_other\<close>
  is what other handlers do while one waits for the worker.
\<close>

text \<open>A row as it is shown, the window of the details, and the window that confirms a deletion.\<close>

record card =
  cd_id :: jnum
  cd_domain :: ustr
  cd_started :: ustr
  cd_duration :: ustr
  cd_status :: ustr
  cd_preview :: ustr
  cd_deleting :: bool

record detail_modal =
  mo_open :: bool
  mo_title :: ustr
  mo_meta :: ustr
  mo_text :: ustr
  mo_download :: bool

record delete_modal =
  dg_open :: bool
  dg_meta :: ustr
  dg_text :: ustr
  dg_disabled :: bool
  dg_button :: ustr

record hview =
  hv_heap :: "jsval list"
  hv_shown :: bool
  hv_loading :: bool
  hv_prefetching :: bool
  hv_loaded :: bool
  hv_items :: "nat list"
  hv_filtered :: "nat list"
  hv_details :: "(jnum \<times> nat \<times> ustr) list"
  hv_hydrated :: "jnum list"
  hv_active :: "jnum option"
  hv_pending :: "jnum option"
  hv_deleting :: "jnum list"
  hv_search :: ustr
  hv_cards :: "card list"
  hv_empty :: "ustr option"
  hv_modal :: detail_modal
  hv_dialog :: delete_modal

record viewcfg =
  vc_other :: "hview \<times> world \<Rightarrow> hview \<times> world"
  vc_runtime :: bool
  vc_local :: local_time

type_synonym 'a vact = "(hview, 'a) action"

definition v_waits :: "viewcfg \<Rightarrow> unit vact" where
  "v_waits vc = State (\<lambda>x. ((), vc_other vc x))"

subsection \<open>The store of rows\<close>

definition row_at :: "hview \<Rightarrow> nat \<Rightarrow> jsval" where
  "row_at s r = (if r < length (hv_heap s) then hv_heap s ! r else JUndef)"

definition id_at :: "hview \<Rightarrow> nat \<Rightarrow> jnum" where
  "id_at s r = item_id (row_at s r)"

text \<open>\<open>item.latest_text_en = t\<close>.\<close>

definition set_latest :: "nat \<Rightarrow> ustr \<Rightarrow> hview \<Rightarrow> hview" where
  "set_latest r t s =
     s\<lparr>hv_heap := (hv_heap s)[r := (case row_at s r of JObj o' \<Rightarrow> JObj (obj_set o' (js ''latest_text_en'') (JStr t)) | v \<Rightarrow> v)]\<rparr>"

text \<open>New objects; the first gets the position \<open>length (hv_heap s)\<close>.\<close>

definition add_rows :: "jsval list \<Rightarrow> hview \<Rightarrow> hview" where
  "add_rows rows s = s\<lparr>hv_heap := hv_heap s @ rows\<rparr>"

definition find_row :: "hview \<Rightarrow> jnum \<Rightarrow> nat option" where
  "find_row s sid = find (\<lambda>r. id_at s r = sid) (hv_items s)"

definition known_text :: "hview \<Rightarrow> jnum \<Rightarrow> ustr" where
  "known_text s i = (case map_of (hv_details s) i of None \<Rightarrow> [] | Some (r, t) \<Rightarrow> t)"

subsection \<open>The worker and the page\<close>

definition busy_answer :: jsval where
  "busy_answer = JObj [(js ''ok'', JBool False), (js ''code'', JStr (js ''SYSTEM_BUSY'')), (js ''error'', JStr SYSTEM_BUSY_TEXT)]"

definition v_sendRuntime :: "viewcfg \<Rightarrow> env \<Rightarrow> jsval \<Rightarrow> jsval vact" where
  "v_sendRuntime vc e msg =
     (if \<not> vc_runtime vc then do { u \<leftarrow> v_waits vc; State_Monad.return JNull }
      else do {
        r \<leftarrow> onw (emit e (ToRuntime msg));
        u \<leftarrow> v_waits vc;
        State_Monad.return (case r of Inl x \<Rightarrow> busy_answer | Inr v \<Rightarrow> js_or v JNull) })"

definition showBusyPopup :: "env \<Rightarrow> unit vact" where
  "showBusyPopup e = do { r \<leftarrow> onw (emit e (Browser ''__vtShowBusyModal'' (JStr SYSTEM_BUSY_TEXT))); skip }"

definition v_openAuth :: "env \<Rightarrow> unit vact" where
  "v_openAuth e = do { r \<leftarrow> onw (emit e (Browser ''__vtOpenAccountOrAuth'' (JStr (js ''login'')))); skip }"

definition setEmpty :: "ustr \<Rightarrow> hview \<Rightarrow> hview" where
  "setEmpty t s = s\<lparr>hv_empty := Some t\<rparr>"

subsection \<open>Filtering and drawing\<close>

definition row_matches :: "hview \<Rightarrow> ustr \<Rightarrow> nat \<Rightarrow> bool" where
  "row_matches s q r \<longleftrightarrow>
     (let it = row_at s r in
      str_includes (toLowerCase (join (js '' '') [str_or_empty (fld it ''tab_domain''), str_or_empty (fld it ''tab_url''),
        row_text it (known_text s (item_id it)), str_or_empty (fld it ''status'')])) q)"

definition applyFilter :: "hview \<Rightarrow> hview" where
  "applyFilter s =
     (let q = toLowerCase (trim (hv_search s)) in
      s\<lparr>hv_filtered := (if q = [] then hv_items s else filter (row_matches s q) (hv_items s))\<rparr>)"

definition NO_HISTORY :: ustr where
  "NO_HISTORY =
     js ''Ch'' @ [432] @ js ''a c'' @ [243] @ js '' d'' @ [7919] @ js '' li'' @ [7879] @ js ''u l'' @ [7883] @ js ''ch s'' @ [7917] @ js ''.''"

definition NO_MATCH :: ustr where
  "NO_MATCH =
     js ''Kh'' @ [244] @ js ''ng t'' @ [236] @ js ''m th'' @ [7845] @ js ''y l'' @ [7883] @ js ''ch s'' @ [7917] @
     js '' ph'' @ [249] @ js '' h'' @ [7907] @ js ''p.''"

definition card_of :: "viewcfg \<Rightarrow> env \<Rightarrow> hview \<Rightarrow> jsval \<Rightarrow> rat \<Rightarrow> card" where
  "card_of vc e s it ms =
     (let i = item_id it in
      \<lparr>cd_id = i, cd_domain = domainFrom e it, cd_started = formatDateTime e (vc_local vc) (fld it ''started_at''),
       cd_duration = formatDurationMs ms, cd_status = statusLabel (fld it ''status''),
       cd_preview = normalizeTextPreview (row_text it (known_text s i)), cd_deleting = (i \<in> set (hv_deleting s))\<rparr>)"

fun draw_cards :: "viewcfg \<Rightarrow> env \<Rightarrow> hview \<Rightarrow> nat list \<Rightarrow> card list prog" where
  "draw_cards vc e s [] = ret []"
| "draw_cards vc e s (r # rs) =
     (let it = row_at s r in
      if \<not> truthy (JNum (item_id it)) then draw_cards vc e s rs
      else do {
        ms \<leftarrow> calcDurationMs e it;
        cs \<leftarrow> draw_cards vc e s rs;
        ret (card_of vc e s it ms # cs) })"

definition renderList :: "viewcfg \<Rightarrow> env \<Rightarrow> unit vact" where
  "renderList vc e = do {
     s \<leftarrow> gets (\<lambda>s. s);
     cs \<leftarrow> onw (draw_cards vc e s (hv_filtered s));
     mods (\<lambda>s. s\<lparr>hv_cards := cs,
       hv_empty := (if hv_filtered s = []
                    then Some (if hv_items s = [] \<and> trim (hv_search s) = [] then NO_HISTORY else NO_MATCH) else None)\<rparr>) }"

definition redraw :: "viewcfg \<Rightarrow> env \<Rightarrow> unit vact" where
  "redraw vc e = do { u \<leftarrow> mods applyFilter; renderList vc e }"

subsection \<open>The two windows\<close>

definition DETAIL_LOADING :: ustr where
  "DETAIL_LOADING = [272] @ js ''ang t'' @ [7843] @ js ''i n'' @ [7897] @ js ''i dung transcript...''"

definition openModalSkeleton :: "viewcfg \<Rightarrow> env \<Rightarrow> jsval \<Rightarrow> unit vact" where
  "openModalSkeleton vc e it = do {
     ms \<leftarrow> onw (calcDurationMs e it);
     mods (\<lambda>s. s\<lparr>hv_modal := \<lparr>mo_open = True, mo_title = domainFrom e it,
         mo_meta = STARTED @ formatDateTime e (vc_local vc) (fld it ''started_at'') @ DOT @ TOTAL_TIME @ formatDurationMs ms,
         mo_text = DETAIL_LOADING, mo_download = False\<rparr>,
       hv_active := (if truthy (JNum (item_id it)) then Some (item_id it) else None)\<rparr>) }"

definition fillModalText :: "viewcfg \<Rightarrow> env \<Rightarrow> jsval \<Rightarrow> ustr \<Rightarrow> unit vact" where
  "fillModalText vc e it fullText = do {
     ms \<leftarrow> onw (calcDurationMs e it);
     mods (\<lambda>s. s\<lparr>hv_modal := \<lparr>mo_open = mo_open (hv_modal s), mo_title = domainFrom e it,
         mo_meta = js ''Website: '' @ to_str (js_or (fld it ''tab_url'') (JStr (domainFrom e it))) @ DOT @ STARTED @
           formatDateTime e (vc_local vc) (fld it ''started_at'') @ DOT @ TOTAL_TIME @ formatDurationMs ms,
         mo_text = str_or fullText UPDATING_TEXT, mo_download = True\<rparr>\<rparr>) }"

definition closeModal :: "hview \<Rightarrow> hview" where
  "closeModal s = s\<lparr>hv_modal := (hv_modal s)\<lparr>mo_open := False\<rparr>, hv_active := None\<rparr>"

definition DELETE_LABEL :: ustr where
  "DELETE_LABEL = js ''X'' @ [243] @ js ''a''"

definition DELETING_LABEL :: ustr where
  "DELETING_LABEL = [272] @ js ''ang x'' @ [243] @ js ''a...''"

definition DELETE_AGAIN :: ustr where
  "DELETE_AGAIN = js ''Th'' @ [7917] @ js '' x'' @ [243] @ js ''a l'' @ [7841] @ js ''i''"

definition DELETE_FAILED :: ustr where
  "DELETE_FAILED = js ''X'' @ [243] @ js ''a th'' @ [7845] @ js ''t b'' @ [7841] @ js ''i: '' @ SYSTEM_BUSY_TEXT"

definition DELETE_QUESTION :: ustr where
  "DELETE_QUESTION =
     js ''B'' @ [7841] @ js ''n c'' @ [243] @ js '' ch'' @ [7855] @ js ''c ch'' @ [7855] @ js ''n mu'' @ [7889] @ js ''n x'' @
     [243] @ js ''a b'' @ [7843] @ js ''n ghi n'' @ [224] @ js ''y kh'' @ [244] @ js ''ng? H'' @ [224] @ js ''nh '' @
     [273, 7897] @ js ''ng n'' @ [224] @ js ''y kh'' @ [244] @ js ''ng th'' @ [7875] @ js '' ho'' @ [224] @ js ''n t'' @
     [225] @ js ''c.''"

definition view_openDeleteModal :: "viewcfg \<Rightarrow> env \<Rightarrow> jnum \<Rightarrow> hview \<Rightarrow> hview" where
  "view_openDeleteModal vc e sid s =
     (if \<not> truthy (JNum sid) then s
      else case find_row s sid of
        None \<Rightarrow> s
      | Some r \<Rightarrow> s\<lparr>hv_pending := Some sid, hv_dialog := \<lparr>dg_open = True,
          dg_meta = domainFrom e (row_at s r) @ DOT @ STARTED @ formatDateTime e (vc_local vc) (fld (row_at s r) ''started_at''),
          dg_text = DELETE_QUESTION, dg_disabled = False, dg_button = DELETE_LABEL\<rparr>\<rparr>)"

definition view_closeDeleteModal :: "hview \<Rightarrow> hview" where
  "view_closeDeleteModal s =
     s\<lparr>hv_pending := None, hv_dialog := (hv_dialog s)\<lparr>dg_open := False, dg_disabled := False, dg_button := DELETE_LABEL\<rparr>\<rparr>"

definition removeSessionLocal :: "jnum \<Rightarrow> hview \<Rightarrow> hview" where
  "removeSessionLocal sid s =
     (if \<not> truthy (JNum sid) then s
      else (let s1 = s\<lparr>hv_items := filter (\<lambda>r. id_at s r \<noteq> sid) (hv_items s),
                hv_filtered := filter (\<lambda>r. id_at s r \<noteq> sid) (hv_filtered s),
                hv_details := filter (\<lambda>p. fst p \<noteq> sid) (hv_details s),
                hv_hydrated := filter (\<lambda>i. i \<noteq> sid) (hv_hydrated s),
                hv_deleting := filter (\<lambda>i. i \<noteq> sid) (hv_deleting s)\<rparr>;
                s2 = (if hv_active s1 = Some sid then closeModal s1 else s1)
            in if hv_pending s2 = Some sid then view_closeDeleteModal s2 else s2))"

subsection \<open>Texts fetched ahead\<close>

text \<open>
  A row without text whose details are not known: the request, with the answer it will get.  The
  others are changed at once.
\<close>

definition detail_msg :: "jnum \<Rightarrow> jsval" where
  "detail_msg sid = cmd_msg ''__HISTORY_DETAIL__'' [(js ''payload'', JObj [(js ''sessionId'', JNum sid)])]"

definition prefetch_targets :: "hview \<Rightarrow> nat list" where
  "prefetch_targets s =
     take 48 (filter (\<lambda>r. let sid = id_at s r in
       truthy (JNum sid) \<and> sid \<notin> set (hv_hydrated s) \<and> \<not> is_text (JStr (row_text (row_at s r) []))) (hv_items s))"

definition hydrated :: "jnum \<Rightarrow> hview \<Rightarrow> hview" where
  "hydrated sid s = s\<lparr>hv_hydrated := (if sid \<in> set (hv_hydrated s) then hv_hydrated s else hv_hydrated s @ [sid])\<rparr>"

fun begin_prefetch :: "viewcfg \<Rightarrow> env \<Rightarrow> nat list \<Rightarrow> (nat \<times> jnum \<times> jsval) list vact" where
  "begin_prefetch vc e [] = State_Monad.return []"
| "begin_prefetch vc e (r # rs) = do {
     sid \<leftarrow> gets (\<lambda>s. id_at s r);
     cached \<leftarrow> gets (\<lambda>s. known_text s sid);
     if cached \<noteq> [] then do { u \<leftarrow> mods (\<lambda>s. hydrated sid (set_latest r cached s)); begin_prefetch vc e rs }
     else do {
       a \<leftarrow> onw (emit e (ToRuntime (detail_msg sid)));
       as \<leftarrow> begin_prefetch vc e rs;
       State_Monad.return ((r, sid, case a of Inl x \<Rightarrow> busy_answer | Inr v \<Rightarrow> js_or v JNull) # as) } }"

text \<open>
  An answer with details: the item of the answer is a new object, or the row itself; \<open>keep_detail\<close>
  keeps it with its text.
\<close>

definition answer_text :: "jsval \<Rightarrow> jsval \<Rightarrow> ustr" where
  "answer_text res it = to_str (js_ors [fld res ''fullText'', JStr (row_text it []), JStr []])"

definition detail_row :: "nat \<Rightarrow> jsval \<Rightarrow> hview \<Rightarrow> nat" where
  "detail_row r res s = (if truthy (fld res ''item'') then length (hv_heap s) else r)"

definition keep_detail :: "nat \<Rightarrow> jnum \<Rightarrow> jsval \<Rightarrow> ustr \<Rightarrow> hview \<Rightarrow> hview" where
  "keep_detail r sid res t s =
     (if truthy (fld res ''item'') then add_rows [fld res ''item''] s else s)\<lparr>hv_details := (sid, detail_row r res s, t) # hv_details s\<rparr>"

definition finish_prefetch :: "nat \<times> jnum \<times> jsval \<Rightarrow> hview \<Rightarrow> hview" where
  "finish_prefetch a s =
     (case a of (r, sid, res) \<Rightarrow>
       hydrated sid
         (if truthy (fld res ''ok'')
          then (let t = answer_text res (js_or (fld res ''item'') (row_at s r)); s1 = keep_detail r sid res t s
                in if is_text (JStr t) then set_latest r t s1 else s1)
          else s))"

fun finish_prefetches :: "viewcfg \<Rightarrow> (nat \<times> jnum \<times> jsval) list \<Rightarrow> unit vact" where
  "finish_prefetches vc [] = skip"
| "finish_prefetches vc (a # as) = do { u \<leftarrow> v_waits vc; v \<leftarrow> mods (finish_prefetch a); finish_prefetches vc as }"

text \<open>The part of \<open>prefetchMissingPreviews\<close> before its first \<open>await\<close>, and the part after it.\<close>

definition prefetch_start :: "viewcfg \<Rightarrow> env \<Rightarrow> (nat \<times> jnum \<times> jsval) list option vact" where
  "prefetch_start vc e = do {
     busy' \<leftarrow> gets hv_prefetching;
     targets \<leftarrow> gets prefetch_targets;
     if \<not> vc_runtime vc \<or> busy' \<or> targets = [] then State_Monad.return None
     else do {
       u \<leftarrow> mods (\<lambda>s. s\<lparr>hv_prefetching := True\<rparr>);
       as \<leftarrow> begin_prefetch vc e targets;
       State_Monad.return (Some as) } }"

definition prefetch_end :: "viewcfg \<Rightarrow> env \<Rightarrow> (nat \<times> jnum \<times> jsval) list option \<Rightarrow> unit vact" where
  "prefetch_end vc e p =
     (case p of
        None \<Rightarrow> skip
      | Some as \<Rightarrow> do {
          u \<leftarrow> finish_prefetches vc as;
          v \<leftarrow> v_waits vc;
          y \<leftarrow> mods (\<lambda>s. s\<lparr>hv_prefetching := False\<rparr>);
          redraw vc e })"

subsection \<open>The list\<close>

definition LOGIN_FOR_HISTORY :: ustr where
  "LOGIN_FOR_HISTORY =
     js ''B'' @ [7841] @ js ''n c'' @ [7847] @ js ''n '' @ [273, 259] @ js ''ng nh'' @ [7853] @ js ''p '' @ [273, 7875] @
     js '' xem l'' @ [7883] @ js ''ch s'' @ [7917] @ js ''.''"

definition list_msg :: jsval where
  "list_msg = cmd_msg ''__HISTORY_LIST__'' [(js ''payload'', JObj [(js ''limit'', JInt 300), (js ''offset'', JInt 0)])]"

definition clear_rows :: "hview \<Rightarrow> hview" where
  "clear_rows s = s\<lparr>hv_items := [], hv_filtered := []\<rparr>"

definition no_list :: "viewcfg \<Rightarrow> env \<Rightarrow> ustr \<Rightarrow> unit vact" where
  "no_list vc e t = do { u \<leftarrow> mods clear_rows; v \<leftarrow> renderList vc e; mods (setEmpty t) }"

definition take_rows :: "env \<Rightarrow> jsval list \<Rightarrow> hview \<Rightarrow> hview" where
  "take_rows e rows s =
     (add_rows (view_sortSessionsDesc e rows) s)\<lparr>hv_items := [length (hv_heap s) ..< length (hv_heap s) + length rows], hv_loaded := True\<rparr>"

definition loaded_list :: "viewcfg \<Rightarrow> env \<Rightarrow> jsval \<Rightarrow> (nat \<times> jnum \<times> jsval) list option vact" where
  "loaded_list vc e res =
     (if fld res ''code'' = JStr (js ''AUTH_REQUIRED'') then do {
        u \<leftarrow> no_list vc e LOGIN_FOR_HISTORY;
        v \<leftarrow> v_openAuth e;
        y \<leftarrow> mods (\<lambda>s. s\<lparr>hv_loaded := True\<rparr>);
        State_Monad.return None }
      else if fld res ''code'' = JStr (js ''USER_ID_INVALID'') then do {
        u \<leftarrow> no_list vc e SYSTEM_BUSY_TEXT;
        v \<leftarrow> showBusyPopup e;
        y \<leftarrow> mods (\<lambda>s. s\<lparr>hv_loaded := True\<rparr>);
        State_Monad.return None }
      else if \<not> truthy (fld res ''ok'') then do {
        u \<leftarrow> no_list vc e SYSTEM_BUSY_TEXT;
        v \<leftarrow> showBusyPopup e;
        State_Monad.return None }
      else do {
        u \<leftarrow> mods (take_rows e (case fld res ''items'' of JArr xs \<Rightarrow> xs | _ \<Rightarrow> []));
        v \<leftarrow> redraw vc e;
        prefetch_start vc e })"

definition loadList :: "viewcfg \<Rightarrow> env \<Rightarrow> bool \<Rightarrow> unit vact" where
  "loadList vc e force = do {
     s \<leftarrow> gets (\<lambda>s. s);
     if \<not> vc_runtime vc \<or> hv_loading s \<or> (hv_loaded s \<and> \<not> force) then skip
     else do {
       u \<leftarrow> mods (\<lambda>s. if force then s\<lparr>hv_details := [], hv_hydrated := []\<rparr> else s);
       v \<leftarrow> mods (\<lambda>s. s\<lparr>hv_loading := True, hv_empty := None\<rparr>);
       res \<leftarrow> v_sendRuntime vc e list_msg;
       p \<leftarrow> loaded_list vc e res;
       y \<leftarrow> mods (\<lambda>s. s\<lparr>hv_loading := False\<rparr>);
       prefetch_end vc e p } }"

subsection \<open>Deleting a row\<close>

definition delete_msg :: "jnum \<Rightarrow> jsval" where
  "delete_msg sid = cmd_msg ''__HISTORY_DELETE__'' [(js ''payload'', JObj [(js ''sessionId'', JNum sid)])]"

text \<open>The answers after which the row counts as deleted.\<close>

definition deleted_answer :: "jsval \<Rightarrow> bool" where
  "deleted_answer res \<longleftrightarrow>
     (if fld res ''code'' = JStr (js ''AUTH_REQUIRED'') then False
      else if fld res ''code'' = JStr (js ''USER_ID_INVALID'') then False
      else if fld res ''code'' = JStr (js ''NOT_FOUND'') then True
      else truthy (fld res ''ok''))"

definition deleteSessionOnServer :: "viewcfg \<Rightarrow> env \<Rightarrow> jnum \<Rightarrow> bool vact" where
  "deleteSessionOnServer vc e sid = do {
     res \<leftarrow> v_sendRuntime vc e (delete_msg sid);
     u \<leftarrow> whenA (fld res ''code'' = JStr (js ''AUTH_REQUIRED'')) (v_openAuth e);
     State_Monad.return (deleted_answer res) }"

definition delete_begins :: "jnum \<Rightarrow> hview \<Rightarrow> hview" where
  "delete_begins sid s =
     s\<lparr>hv_deleting := hv_deleting s @ [sid], hv_dialog := (hv_dialog s)\<lparr>dg_disabled := True, dg_button := DELETING_LABEL\<rparr>\<rparr>"

definition delete_failed :: "hview \<Rightarrow> hview" where
  "delete_failed s = s\<lparr>hv_dialog := (hv_dialog s)\<lparr>dg_text := DELETE_FAILED, dg_disabled := False, dg_button := DELETE_AGAIN\<rparr>\<rparr>"

definition confirmDeletePending :: "viewcfg \<Rightarrow> env \<Rightarrow> unit vact" where
  "confirmDeletePending vc e = do {
     pending \<leftarrow> gets hv_pending;
     (case pending of
        None \<Rightarrow> skip
      | Some sid \<Rightarrow> do {
          busy' \<leftarrow> gets (\<lambda>s. sid \<in> set (hv_deleting s));
          if \<not> truthy (JNum sid) \<or> busy' then skip
          else do {
            u \<leftarrow> mods (delete_begins sid);
            v \<leftarrow> renderList vc e;
            deleted \<leftarrow> deleteSessionOnServer vc e sid;
            if deleted then do {
              y \<leftarrow> mods (removeSessionLocal sid);
              z \<leftarrow> redraw vc e;
              mods view_closeDeleteModal }
            else do {
              y \<leftarrow> mods (\<lambda>s. s\<lparr>hv_deleting := filter (\<lambda>i. i \<noteq> sid) (hv_deleting s)\<rparr>);
              z \<leftarrow> renderList vc e;
              x \<leftarrow> mods delete_failed;
              showBusyPopup e } } }) }"

subsection \<open>Details and downloads\<close>

definition fill_row :: "viewcfg \<Rightarrow> env \<Rightarrow> nat \<Rightarrow> ustr \<Rightarrow> unit vact" where
  "fill_row vc e r t = do { it \<leftarrow> gets (\<lambda>s. row_at s r); fillModalText vc e it t }"

definition detail_failed :: "viewcfg \<Rightarrow> env \<Rightarrow> nat \<Rightarrow> unit vact" where
  "detail_failed vc e r = do {
     u \<leftarrow> fill_row vc e r SYSTEM_BUSY_TEXT;
     v \<leftarrow> mods (\<lambda>s. s\<lparr>hv_modal := (hv_modal s)\<lparr>mo_download := False\<rparr>\<rparr>);
     showBusyPopup e }"

text \<open>The text and the item are taken from the answer before the row gets its text.\<close>

definition detail_arrived :: "viewcfg \<Rightarrow> env \<Rightarrow> nat \<Rightarrow> jnum \<Rightarrow> jsval \<Rightarrow> unit vact" where
  "detail_arrived vc e r sid res =
     (if fld res ''code'' = JStr (js ''AUTH_REQUIRED'') then do { u \<leftarrow> mods closeModal; v_openAuth e }
      else if fld res ''code'' = JStr (js ''USER_ID_INVALID'') \<or> \<not> truthy (fld res ''ok'') then detail_failed vc e r
      else do {
        t \<leftarrow> gets (\<lambda>s. answer_text res (js_or (fld res ''item'') (row_at s r)));
        d \<leftarrow> gets (detail_row r res);
        u \<leftarrow> mods (\<lambda>s. keep_detail r sid res t (if is_text (JStr t) then set_latest r t s else s));
        fill_row vc e d t })"

definition openSessionDetail :: "viewcfg \<Rightarrow> env \<Rightarrow> jnum \<Rightarrow> unit vact" where
  "openSessionDetail vc e sid = do {
     s \<leftarrow> gets (\<lambda>s. s);
     (case find_row s sid of
        None \<Rightarrow> skip
      | Some r \<Rightarrow>
          if \<not> truthy (JNum sid) \<or> sid \<in> set (hv_deleting s) then skip
          else do {
            u \<leftarrow> openModalSkeleton vc e (row_at s r);
            (case map_of (hv_details s) sid of
               Some (q, t) \<Rightarrow> do {
                 v \<leftarrow> mods (\<lambda>s. if is_text (JStr t) then set_latest r t s else s);
                 fill_row vc e q t }
             | None \<Rightarrow> do {
                 res \<leftarrow> v_sendRuntime vc e (detail_msg sid);
                 detail_arrived vc e r sid res }) }) }"

text \<open>The file is handed to the browser: its name and its text.\<close>

definition on_download :: "viewcfg \<Rightarrow> env \<Rightarrow> unit vact" where
  "on_download vc e = do {
     s \<leftarrow> gets (\<lambda>s. s);
     (case hv_active s of
        None \<Rightarrow> skip
      | Some sid \<Rightarrow> (case map_of (hv_details s) sid of
          None \<Rightarrow> skip
        | Some (r, t) \<Rightarrow> (let it = row_at s r in do {
            t0 \<leftarrow> (case toDateOrNull e (fld it ''started_at'') of Some t' \<Rightarrow> State_Monad.return t' | None \<Rightarrow> onw (Date_now e));
            content \<leftarrow> onw (buildDownloadText e (vc_local vc) it t);
            a \<leftarrow> onw (emit e (Browser ''download'' (JObj
              [(js ''name'', JStr (sanitizeFilenamePart (domainFrom e it) @ js ''_'' @ file_stamp (vc_local vc) t0 @ js ''.txt'')),
               (js ''content'', JStr content)])));
            skip }))) }"

subsection \<open>The handlers of the view\<close>

definition forget_rows :: "hview \<Rightarrow> hview" where
  "forget_rows s =
     closeModal (view_closeDeleteModal (s\<lparr>hv_loaded := False, hv_items := [], hv_filtered := [], hv_details := [], hv_hydrated := [],
       hv_pending := None, hv_deleting := []\<rparr>))"

definition view_onAuthChanged :: "viewcfg \<Rightarrow> env \<Rightarrow> unit vact" where
  "view_onAuthChanged vc e = do {
     u \<leftarrow> mods forget_rows;
     v \<leftarrow> redraw vc e;
     b \<leftarrow> gets hv_shown;
     whenA b (loadList vc e True) }"

definition on_escape :: "hview \<Rightarrow> hview" where
  "on_escape s = (if dg_open (hv_dialog s) then view_closeDeleteModal s else if mo_open (hv_modal s) then closeModal s else s)"

datatype vevent =
    ViewShown
  | ViewHidden
  | Refresh
  | Search ustr
  | RowClick jnum
  | DeleteClick jnum
  | DeleteConfirm
  | DeleteCancel
  | DetailClose
  | Download
  | EscapeKey
  | SessionChanged

fun view_step :: "viewcfg \<Rightarrow> env \<Rightarrow> vevent \<Rightarrow> unit vact" where
  "view_step vc e ViewShown = do { u \<leftarrow> mods (\<lambda>s. s\<lparr>hv_shown := True\<rparr>); loadList vc e False }"
| "view_step vc e ViewHidden = mods (\<lambda>s. s\<lparr>hv_shown := False\<rparr>)"
| "view_step vc e Refresh = loadList vc e True"
| "view_step vc e (Search q) = do { u \<leftarrow> mods (\<lambda>s. s\<lparr>hv_search := q\<rparr>); redraw vc e }"
| "view_step vc e (RowClick sid) = openSessionDetail vc e sid"
| "view_step vc e (DeleteClick sid) = mods (view_openDeleteModal vc e sid)"
| "view_step vc e DeleteConfirm = confirmDeletePending vc e"
| "view_step vc e DeleteCancel = mods view_closeDeleteModal"
| "view_step vc e DetailClose = mods closeModal"
| "view_step vc e Download = on_download vc e"
| "view_step vc e EscapeKey = mods on_escape"
| "view_step vc e SessionChanged = view_onAuthChanged vc e"

fun view_run :: "viewcfg \<Rightarrow> env \<Rightarrow> vevent list \<Rightarrow> unit vact" where
  "view_run vc e [] = skip"
| "view_run vc e (ev # evs) = do { u \<leftarrow> view_step vc e ev; view_run vc e evs }"

text \<open>
  Where a handler waits, the first choice picks the events, of those with \<open>ok'\<close>, that run to their end;
  where those wait the second choice picks, and so on.
\<close>

fun view_busy :: "viewcfg \<Rightarrow> env \<Rightarrow> (vevent \<Rightarrow> bool) \<Rightarrow> (hview \<times> world \<Rightarrow> vevent list) list \<Rightarrow> viewcfg" where
  "view_busy vc e ok' [] = vc\<lparr>vc_other := \<lambda>x. x\<rparr>"
| "view_busy vc e ok' (c # cs) =
     vc\<lparr>vc_other := \<lambda>x. snd (run_state (view_run (view_busy vc e ok' cs) e (filter ok' (c x))) x)\<rparr>"

text \<open>The page when the view is made.\<close>

definition view_init :: hview where
  "view_init =
     \<lparr>hv_heap = [], hv_shown = False, hv_loading = False, hv_prefetching = False, hv_loaded = False, hv_items = [], hv_filtered = [],
      hv_details = [], hv_hydrated = [], hv_active = None, hv_pending = None, hv_deleting = [], hv_search = [], hv_cards = [],
      hv_empty = None, hv_modal = \<lparr>mo_open = False, mo_title = [], mo_meta = [], mo_text = [], mo_download = False\<rparr>,
      hv_dialog = \<lparr>dg_open = False, dg_meta = [], dg_text = [], dg_disabled = False, dg_button = DELETE_LABEL\<rparr>\<rparr>"

end
