(* ===== verification/History_View_Contract.thy ===== *)
theory History_View_Contract
  imports History_View
begin

section \<open>What the history view keeps\<close>

text \<open>
  What is on the page is what the variables say, in every interleaving of the handlers: the cards are
  the rows of the filtered list, which are rows of the list, and each window is open exactly when its
  variable holds an id.
\<close>

subsection \<open>The store\<close>

lemma id_at_latest [simp]: "id_at (set_latest r t s) = id_at s"
proof
  fix q
  have "fld (JObj (obj_set o' (js ''latest_text_en'') v)) ''id'' = fld (JObj o') ''id''" for o' v
    by (simp add: fld_obj_set)
  then show "id_at (set_latest r t s) q = id_at s q"
    by (auto simp: id_at_def row_at_def set_latest_def item_id_def nth_list_update split: jsval.splits)
qed

lemma id_at_add: "r < length (hv_heap s) \<Longrightarrow> id_at (add_rows rows s) r = id_at s r"
  by (simp add: id_at_def row_at_def add_rows_def nth_append)

lemma id_at_same: "hv_heap s' = hv_heap s \<Longrightarrow> id_at s' = id_at s"
  by (rule ext) (simp add: id_at_def row_at_def)

lemma add_same [simp]:
  "hv_heap (add_rows rows s) = hv_heap s @ rows" "hv_items (add_rows rows s) = hv_items s"
  "hv_filtered (add_rows rows s) = hv_filtered s" "hv_modal (add_rows rows s) = hv_modal s"
  "hv_active (add_rows rows s) = hv_active s" "hv_dialog (add_rows rows s) = hv_dialog s"
  "hv_pending (add_rows rows s) = hv_pending s" "hv_cards (add_rows rows s) = hv_cards s"
  "hv_deleting (add_rows rows s) = hv_deleting s"
  by (simp_all add: add_rows_def)

lemma latest_same [simp]:
  "length (hv_heap (set_latest r t s)) = length (hv_heap s)" "hv_items (set_latest r t s) = hv_items s"
  "hv_filtered (set_latest r t s) = hv_filtered s" "hv_modal (set_latest r t s) = hv_modal s"
  "hv_active (set_latest r t s) = hv_active s" "hv_dialog (set_latest r t s) = hv_dialog s"
  "hv_pending (set_latest r t s) = hv_pending s" "hv_cards (set_latest r t s) = hv_cards s"
  "hv_deleting (set_latest r t s) = hv_deleting s"
  by (simp_all add: set_latest_def)

subsection \<open>The invariant\<close>

definition rows_ok :: "hview \<Rightarrow> bool" where
  "rows_ok s \<longleftrightarrow>
     list_all (\<lambda>r. r < length (hv_heap s)) (hv_items s) \<and> set (hv_filtered s) \<subseteq> set (hv_items s) \<and>
     mo_open (hv_modal s) = (hv_active s \<noteq> None) \<and> dg_open (hv_dialog s) = (hv_pending s \<noteq> None)"

definition cards_ok :: "hview \<Rightarrow> bool" where
  "cards_ok s \<longleftrightarrow>
     map cd_id (hv_cards s) = filter (\<lambda>i. truthy (JNum i)) (map (id_at s) (hv_filtered s)) \<and>
     list_all (\<lambda>c. cd_deleting c = (cd_id c \<in> set (hv_deleting s))) (hv_cards s)"

definition view_ok :: "hview \<Rightarrow> bool" where
  "view_ok s \<longleftrightarrow> rows_ok s \<and> cards_ok s"

lemma view_ok_same:
  assumes "hv_heap s' = hv_heap s" "hv_items s' = hv_items s" "hv_filtered s' = hv_filtered s" "hv_cards s' = hv_cards s"
    "hv_deleting s' = hv_deleting s" "mo_open (hv_modal s') = (hv_active s' \<noteq> None)" "dg_open (hv_dialog s') = (hv_pending s' \<noteq> None)"
  shows "view_ok s \<Longrightarrow> view_ok s'"
  using assms id_at_same [OF assms(1)] by (simp add: view_ok_def rows_ok_def cards_ok_def)

lemma ok_windows: "view_ok s \<Longrightarrow> mo_open (hv_modal s) = (hv_active s \<noteq> None)" "view_ok s \<Longrightarrow> dg_open (hv_dialog s) = (hv_pending s \<noteq> None)"
  by (simp_all add: view_ok_def rows_ok_def)

lemma rows_below: "rows_ok s \<Longrightarrow> r \<in> set (hv_filtered s) \<Longrightarrow> r < length (hv_heap s)"
  by (auto simp: rows_ok_def list_all_iff)

lemma rows_add: "rows_ok s \<Longrightarrow> rows_ok (add_rows rows s)"
  by (fastforce simp: rows_ok_def list_all_iff)

lemma ok_add: "view_ok s \<Longrightarrow> view_ok (add_rows rows s)"
proof -
  assume ok: "view_ok s"
  then have "map (id_at (add_rows rows s)) (hv_filtered s) = map (id_at s) (hv_filtered s)"
    by (intro map_cong refl) (simp add: view_ok_def id_at_add rows_below)
  then have "cards_ok (add_rows rows s) = cards_ok s" unfolding cards_ok_def add_same by (simp only:)
  with ok show ?thesis by (simp add: view_ok_def rows_add)
qed

lemma ok_latest: "view_ok (set_latest r t s) = view_ok s"
  by (simp add: view_ok_def rows_ok_def cards_ok_def)

lemma ok_detail:
  assumes "view_ok s"
  shows "view_ok (keep_detail r sid res t s)"
proof -
  let ?s = "if truthy (fld res ''item'') then add_rows [fld res ''item''] s else s"
  have "view_ok ?s" using assms by (simp add: ok_add)
  then show ?thesis unfolding keep_detail_def by (rule view_ok_same [rotated 7]) (simp_all add: ok_windows [OF assms])
qed

lemma draw_ids:
  "run_state (draw_cards vc e s rs) w = (cs, w') \<Longrightarrow>
   map cd_id cs = filter (\<lambda>i. truthy (JNum i)) (map (id_at s) rs) \<and> list_all (\<lambda>c. cd_deleting c = (cd_id c \<in> set (hv_deleting s))) cs"
proof (induction rs arbitrary: w cs w')
  case (Cons r rs)
  show ?case
  proof (cases "truthy (JNum (id_at s r))")
    case True
    obtain ms w1 where 1: "run_state (calcDurationMs e (row_at s r)) w = (ms, w1)" by fastforce
    obtain ds w2 where 2: "run_state (draw_cards vc e s rs) w1 = (ds, w2)" by fastforce
    have "cs = card_of vc e s (row_at s r) ms # ds" using Cons.prems True 1 2 by (auto simp: id_at_def Let_def)
    with Cons.IH [OF 2] True show ?thesis by (simp add: card_of_def id_at_def Let_def)
  next
    case False
    then have "run_state (draw_cards vc e s rs) w = (cs, w')" using Cons.prems by (simp add: id_at_def Let_def)
    with Cons.IH [OF this] False show ?thesis by simp
  qed
qed simp

lemma leads_render: "leads rows_ok (renderList vc e) view_ok"
proof (rule leadsI)
  fix s w a s' w' assume run: "run_state (renderList vc e) (s, w) = (a, s', w')" and ok: "rows_ok s"
  obtain cs w1 where d: "run_state (draw_cards vc e s (hv_filtered s)) w = (cs, w1)" by fastforce
  with run obtain t where s': "s' = s\<lparr>hv_cards := cs, hv_empty := t\<rparr>" by (auto simp: renderList_def split: prod.splits)
  have same: "hv_cards s' = cs" "hv_filtered s' = hv_filtered s" "hv_deleting s' = hv_deleting s" "id_at s' = id_at s"
    by (simp_all add: s' id_at_same [of "s\<lparr>hv_cards := cs, hv_empty := t\<rparr>" s])
  have "cards_ok s'" unfolding cards_ok_def same by (rule draw_ids [OF d])
  moreover have "rows_ok s'" using ok by (simp add: s' rows_ok_def)
  ultimately show "view_ok s'" by (simp add: view_ok_def)
qed

text \<open>Filtering needs nothing of the filtered list of before.\<close>

definition rows_in :: "hview \<Rightarrow> bool" where
  "rows_in s \<longleftrightarrow> rows_ok (s\<lparr>hv_filtered := []\<rparr>)"

lemma rows_filter: "rows_in s \<Longrightarrow> rows_ok (applyFilter s)"
  by (auto simp: applyFilter_def rows_in_def rows_ok_def Let_def)

lemma rows_in_ok: "rows_ok s \<Longrightarrow> rows_in s"
  by (simp add: rows_ok_def rows_in_def)

lemma leads_redraw: "leads rows_in (redraw vc e) view_ok"
  unfolding redraw_def by (rule leads_bind [OF leads_mods leads_render]) (rule rows_filter)

lemma ok_rows: "view_ok s \<Longrightarrow> rows_ok s"
  by (simp add: view_ok_def)

subsection \<open>Every handler\<close>

lemma view_keeps_same:
  assumes "\<And>s. hv_heap (f s) = hv_heap s \<and> hv_items (f s) = hv_items s \<and> hv_filtered (f s) = hv_filtered s \<and> hv_cards (f s) = hv_cards s \<and>
    hv_deleting (f s) = hv_deleting s"
    and "\<And>s. view_ok s \<Longrightarrow> mo_open (hv_modal (f s)) = (hv_active (f s) \<noteq> None) \<and> dg_open (hv_dialog (f s)) = (hv_pending (f s) \<noteq> None)"
  shows "keeps view_ok (mods f)"
proof (rule keeps_mods)
  fix s assume ok: "view_ok s"
  show "view_ok (f s)" by (rule view_ok_same [of "f s" s]) (simp_all add: assms(1) assms(2) [OF ok] ok)
qed

text \<open>A change of the lists that is drawn at once.\<close>

lemma keeps_drawn:
  assumes "\<And>s. view_ok s \<Longrightarrow> rows_ok (f s)"
  shows "keeps view_ok (do { u \<leftarrow> mods f; renderList vc e })"
proof -
  have "leads view_ok (mods f) rows_ok" by (rule leads_mods) (rule assms)
  from leads_bind [OF this leads_render] show ?thesis by (simp add: keeps_def leads_def)
qed

lemma keeps_redrawn:
  assumes "\<And>s. view_ok s \<Longrightarrow> rows_in (f s)"
  shows "keeps view_ok (do { u \<leftarrow> mods f; redraw vc e })"
proof -
  have "leads view_ok (mods f) rows_in" by (rule leads_mods) (rule assms)
  from leads_bind [OF this leads_redraw] show ?thesis by (simp add: keeps_def leads_def)
qed

lemma keeps_then: "keeps I (do { u \<leftarrow> m; n }) \<Longrightarrow> (\<And>a. keeps I (k a)) \<Longrightarrow> keeps I (do { u \<leftarrow> m; v \<leftarrow> n; k v })"
  using keeps_bind [of I "do { u \<leftarrow> m; n }" k] by simp

lemmas keeps_drawn_then = keeps_then [OF keeps_drawn] keeps_then [OF keeps_redrawn]

lemma rows_local: "rows_ok s \<Longrightarrow> rows_ok (removeSessionLocal sid s)"
  by (auto simp: rows_ok_def removeSessionLocal_def Let_def closeModal_def view_closeDeleteModal_def list_all_iff)

lemma keeps_plain [keeps_intros]:
  "keeps view_ok (mods closeModal)" "keeps view_ok (mods view_closeDeleteModal)" "keeps view_ok (mods delete_failed)"
  "keeps view_ok (mods on_escape)" "keeps view_ok (mods (setEmpty t))" "keeps view_ok (mods (hydrated sid))"
  "keeps view_ok (mods (view_openDeleteModal vc e sid))"
  by (rule view_keeps_same; auto simp: closeModal_def view_closeDeleteModal_def delete_failed_def on_escape_def setEmpty_def hydrated_def
      view_openDeleteModal_def ok_windows split: option.splits)+

lemma view_keeps_calls [keeps_intros]: "keeps view_ok (showBusyPopup e)" "keeps view_ok (v_openAuth e)"
  unfolding showBusyPopup_def v_openAuth_def by (intro keeps_intros)+

lemma keeps_fill [keeps_intros]: "keeps view_ok (fillModalText vc e it t)" "keeps view_ok (fill_row vc e r t)" "keeps view_ok (detail_failed vc e r)"
  unfolding detail_failed_def fill_row_def fillModalText_def by (intro keeps_intros view_keeps_same; simp add: ok_windows)+

lemma keeps_skeleton: "truthy (JNum (item_id it)) \<Longrightarrow> keeps view_ok (openModalSkeleton vc e it)"
  unfolding openModalSkeleton_def by (intro keeps_intros view_keeps_same) (simp_all add: ok_windows)

lemma keeps_arrived [keeps_intros]: "keeps view_ok (detail_arrived vc e r sid res)"
  unfolding detail_arrived_def by (intro keeps_intros keeps_mods) (auto intro!: ok_detail simp: ok_latest)

lemma keeps_no_list [keeps_intros]: "keeps view_ok (no_list vc e t)"
  unfolding no_list_def by (intro keeps_drawn_then keeps_intros) (auto simp: clear_rows_def view_ok_def rows_ok_def)

lemma ok_hydrated: "view_ok s \<Longrightarrow> view_ok (hydrated sid s)"
  by (rule view_ok_same [of _ s]) (simp_all add: hydrated_def ok_windows)

lemma ok_finish: "view_ok s \<Longrightarrow> view_ok (finish_prefetch a s)"
  by (cases a) (simp add: finish_prefetch_def Let_def ok_hydrated ok_latest ok_detail)

lemma keeps_begin_prefetch [keeps_intros]: "keeps view_ok (begin_prefetch vc e rs)"
  by (induction rs) (simp_all only: begin_prefetch.simps, (intro keeps_intros keeps_mods; simp add: ok_hydrated ok_latest)+)

lemma keeps_prefetch_start [keeps_intros]: "keeps view_ok (prefetch_start vc e)"
  unfolding prefetch_start_def by (intro keeps_intros view_keeps_same) (simp_all add: ok_windows)

lemma length_sort_by: "length (sort_by after xs) = length xs"
proof -
  have "length (ins_by after x ys) = Suc (length ys)" for x ys by (induction ys) auto
  then show ?thesis by (induction xs) (simp_all add: sort_by_def)
qed

lemma rows_taken: "view_ok s \<Longrightarrow> rows_in (take_rows e rows s)"
  by (simp add: rows_in_def rows_ok_def take_rows_def list_all_iff view_sortSessionsDesc_def length_sort_by ok_windows)

lemma keeps_flag [keeps_intros]: "keeps view_ok (mods (\<lambda>s. s\<lparr>hv_loaded := b\<rparr>))"
  by (rule view_keeps_same) (simp_all add: ok_windows)

lemma keeps_loaded [keeps_intros]: "keeps view_ok (loaded_list vc e res)"
  unfolding loaded_list_def by (intro keeps_drawn_then keeps_intros rows_taken)

locale calm_view =
  fixes vc :: viewcfg
  assumes calm: "view_ok s \<Longrightarrow> view_ok (fst (vc_other vc (s, w)))"
begin

lemma view_keeps_waits [keeps_intros]: "keeps view_ok (v_waits vc)"
  by (simp add: keeps_def v_waits_def calm)

lemma keeps_send [keeps_intros]: "keeps view_ok (v_sendRuntime vc e msg)"
  unfolding v_sendRuntime_def by (intro keeps_intros)

lemma keeps_finishes [keeps_intros]: "keeps view_ok (finish_prefetches vc as)"
  by (induction as) (simp_all only: finish_prefetches.simps, (intro keeps_intros keeps_mods ok_finish; assumption)+)

lemma keeps_prefetch_end [keeps_intros]: "keeps view_ok (prefetch_end vc e p)"
  unfolding prefetch_end_def by (intro keeps_intros keeps_redrawn) (simp add: view_ok_def rows_ok_def rows_in_def)

lemma keeps_loadList [keeps_intros]: "keeps view_ok (loadList vc e force)"
  unfolding loadList_def by (intro keeps_intros view_keeps_same) (auto simp: ok_windows)

lemma view_keeps_server [keeps_intros]: "keeps view_ok (deleteSessionOnServer vc e sid)"
  unfolding deleteSessionOnServer_def by (intro keeps_intros)

lemma keeps_confirm [keeps_intros]: "keeps view_ok (confirmDeletePending vc e)"
  unfolding confirmDeletePending_def
  by (intro keeps_drawn_then keeps_intros;
      (rule rows_in_ok, rule rows_local, erule ok_rows | simp add: view_ok_def rows_ok_def delete_begins_def))

lemma keeps_open_detail [keeps_intros]: "keeps view_ok (openSessionDetail vc e sid)"
proof (rule keepsI)
  fix s w a s' w' assume run: "run_state (openSessionDetail vc e sid) (s, w) = (a, s', w')" and ok: "view_ok s"
  show "view_ok s'"
  proof (cases "find_row s sid")
    case (Some r)
    then have id: "item_id (row_at s r) = sid" by (auto simp: find_row_def id_at_def dest: find_Some_mem)
    show ?thesis
    proof (cases "\<not> truthy (JNum sid) \<or> sid \<in> set (hv_deleting s)")
      case False
      then have "truthy (JNum (item_id (row_at s r)))" using id by simp
      then have "keeps view_ok (do {
          u \<leftarrow> openModalSkeleton vc e (row_at s r);
          (case map_of (hv_details s) sid of
             Some (q, t) \<Rightarrow> do { v \<leftarrow> mods (\<lambda>s. if is_text (JStr t) then set_latest r t s else s); fill_row vc e q t }
           | None \<Rightarrow> do { res \<leftarrow> v_sendRuntime vc e (detail_msg sid); detail_arrived vc e r sid res }) })"
        by (intro keeps_bind [OF keeps_skeleton] keeps_intros keeps_mods; simp add: ok_latest)
      moreover note run
      ultimately show ?thesis using ok False Some by (auto simp: openSessionDetail_def elim: keeps_run)
    qed (use run ok Some in \<open>simp add: openSessionDetail_def\<close>)
  qed (use run ok in \<open>simp add: openSessionDetail_def\<close>)
qed

lemma keeps_download [keeps_intros]: "keeps view_ok (on_download vc e)"
  unfolding on_download_def Let_def by (intro keeps_intros)

lemma keeps_session [keeps_intros]: "keeps view_ok (view_onAuthChanged vc e)"
  unfolding view_onAuthChanged_def
  by (intro keeps_drawn_then keeps_intros)
    (simp add: forget_rows_def closeModal_def view_closeDeleteModal_def rows_ok_def rows_in_def)

lemma keeps_search [keeps_intros]: "keeps view_ok (do { u \<leftarrow> mods (\<lambda>s. s\<lparr>hv_search := q\<rparr>); redraw vc e })"
  by (rule keeps_redrawn) (simp add: view_ok_def rows_ok_def rows_in_def)

lemma view_keeps_shown [keeps_intros]: "keeps view_ok (mods (\<lambda>s. s\<lparr>hv_shown := b\<rparr>))"
  by (rule view_keeps_same) (simp_all add: ok_windows)

lemma keeps_view_step: "keeps view_ok (view_step vc e ev)"
  by (cases ev; simp only: view_step.simps; intro keeps_search keeps_intros)

lemma keeps_view_run: "keeps view_ok (view_run vc e evs)"
  by (induction evs) (auto intro: keeps_intros keeps_view_step)

end

lemma view_busy_calm: "calm_view (view_busy vc e ok' cs)"
proof (induction cs)
  case Nil
  show ?case by unfold_locales simp
next
  case (Cons c cs)
  show ?case
  proof
    fix s w assume ok: "view_ok s"
    obtain a s' w' where run: "run_state (view_run (view_busy vc e ok' cs) e (filter ok' (c (s, w)))) (s, w) = (a, s', w')"
      by (metis prod_cases3)
    from keeps_run [OF calm_view.keeps_view_run [OF Cons.IH] run ok] run
    show "view_ok (fst (vc_other (view_busy vc e ok' (c # cs)) (s, w)))" by simp
  qed
qed

interpretation page_view: calm_view "view_busy vc e ok' cs" for vc e ok' cs
  by (rule view_busy_calm)

lemma view_starts: "view_ok view_init"
  by (simp add: view_ok_def rows_ok_def cards_ok_def view_init_def)

lemma view_reached: "run_state (view_run (view_busy vc e ok' cs) e evs) (view_init, w) = (a, s', w') \<Longrightarrow> view_ok s'"
  using keeps_run [OF page_view.keeps_view_run] view_starts by blast

text \<open>Property C26: whatever the user and the worker do and whichever handlers run while one waits, the cards on the
  page are the rows of the filtered list that have an id, in its order, those being deleted marked, the
  filtered rows are rows of the list, the window of the details is open exactly when a row is active, and the window
  that confirms a deletion exactly when one is to be confirmed.\<close>

theorem history_view_invariant:
  "case run_state (view_run (view_busy vc e (\<lambda>_. True) cs) e evs) (view_init, w) of (_, s', w' :: world) \<Rightarrow>
     map cd_id (hv_cards s') = filter (\<lambda>i. truthy (JNum i)) (map (id_at s') (hv_filtered s')) \<and>
     list_all (\<lambda>c. cd_deleting c = (cd_id c \<in> set (hv_deleting s'))) (hv_cards s') \<and>
     set (hv_filtered s') \<subseteq> set (hv_items s') \<and>
     mo_open (hv_modal s') = (hv_active s' \<noteq> None) \<and> dg_open (hv_dialog s') = (hv_pending s' \<noteq> None)"
proof -
  obtain s' w' where run: "run_state (view_run (view_busy vc e (\<lambda>_. True) cs) e evs) (view_init, w) = ((), s', w')" by (rule act_runs)
  from view_reached [OF this] show ?thesis unfolding run view_ok_def rows_ok_def cards_ok_def by simp
qed

end
