(* ===== verification/History_View_Races.thy ===== *)
theory History_View_Races
  imports History_View_Contract
begin

section \<open>Deletions in the history view, and what overlapping handlers do\<close>

text \<open>
  A row disappears only after the worker has confirmed its deletion, whatever else happens meanwhile.
  Three handlers do not look again after they waited: the runs at the end show what follows.
\<close>

subsection \<open>Confirmed deletions\<close>

text \<open>
  Among the messages from position \<open>k\<close> on is the command to delete the row, and the answer to it counts as
  a deletion.  \<open>stays\<close>: the events that do not replace the list.
\<close>

definition confirmed :: "env \<Rightarrow> nat \<Rightarrow> out list \<Rightarrow> jnum \<Rightarrow> bool" where
  "confirmed e k xs sid \<longleftrightarrow>
     list_ex (\<lambda>i. k \<le> i \<and> xs ! i = ToRuntime (delete_msg sid) \<and>
       (case e_deliver e (take i xs) (xs ! i) of Inl m \<Rightarrow> False | Inr v \<Rightarrow> deleted_answer (js_or v JNull))) [0..<length xs]"

fun stays :: "vevent \<Rightarrow> bool" where
  "stays ViewShown \<longleftrightarrow> False"
| "stays Refresh \<longleftrightarrow> False"
| "stays SessionChanged \<longleftrightarrow> False"
| "stays _ \<longleftrightarrow> True"

definition row_ids :: "hview \<Rightarrow> jnum list" where
  "row_ids s = map (id_at s) (hv_items s)"

text \<open>Every row of \<open>is\<close> is in the list or confirmed as deleted, and so are those of \<open>cs\<close>.\<close>

definition tracked :: "env \<Rightarrow> nat \<Rightarrow> jnum list \<Rightarrow> jnum list \<Rightarrow> hview \<times> world \<Rightarrow> bool" where
  "tracked e k is cs x \<longleftrightarrow>
     (case x of (s, w) \<Rightarrow> k \<le> length (w_out w) \<and> list_all (\<lambda>r. r < length (hv_heap s)) (hv_items s) \<and>
       list_all (\<lambda>i. i \<in> set (row_ids s) \<or> confirmed e k (w_out w) i) is \<and> list_all (confirmed e k (w_out w)) cs)"

lemma confirmed_append: "confirmed e k xs i \<Longrightarrow> confirmed e k (xs @ ys) i"
  unfolding confirmed_def by (fastforce simp: list_ex_iff nth_append)

lemma confirmed_now:
  assumes "e_deliver e xs (ToRuntime (delete_msg i)) = Inr v" and "deleted_answer (js_or v JNull)" and "k \<le> length xs"
  shows "confirmed e k (xs @ [ToRuntime (delete_msg i)]) i"
  using assms by (auto simp: confirmed_def list_ex_iff intro!: bexI [of _ "length xs"])

lemma tracked_more: "tracked e k is cs (s, w) \<Longrightarrow> w_out w' = w_out w @ new \<Longrightarrow> tracked e k is cs (s, w')"
  by (auto simp: tracked_def list_all_iff dest: confirmed_append)

lemma tracked_same:
  assumes "hv_heap s' = hv_heap s" and "hv_items s' = hv_items s"
  shows "tracked e k is cs (s, w) \<Longrightarrow> tracked e k is cs (s', w)"
  using assms id_at_same [OF assms(1)] by (simp add: tracked_def row_ids_def)

lemma tracked_latest: "tracked e k is cs (set_latest r t s, w) = tracked e k is cs (s, w)"
  by (simp add: tracked_def row_ids_def)

lemma tracked_add: "tracked e k is cs (s, w) \<Longrightarrow> tracked e k is cs (add_rows rows s, w)"
proof -
  assume t: "tracked e k is cs (s, w)"
  then have below: "r < length (hv_heap s)" if "r \<in> set (hv_items s)" for r using that by (simp add: tracked_def list_all_iff)
  then have "row_ids (add_rows rows s) = row_ids s" by (simp add: row_ids_def id_at_add)
  moreover have "list_all (\<lambda>r. r < length (hv_heap (add_rows rows s))) (hv_items (add_rows rows s))"
    using below by (fastforce simp: list_all_iff)
  ultimately show ?thesis using t unfolding tracked_def by simp
qed

lemma tracked_keep:
  assumes "tracked e k is cs (s, w)"
  shows "tracked e k is cs (keep_detail r sid res t s, w)"
proof -
  have "tracked e k is cs (if truthy (fld res ''item'') then add_rows [fld res ''item''] s else s, w)"
    using assms by (simp add: tracked_add)
  then show ?thesis unfolding keep_detail_def by (rule tracked_same [rotated 2]) simp_all
qed

lemma tracked_remove:
  assumes "tracked e k is cs (s, w)" and "sid \<in> set cs"
  shows "tracked e k is cs (removeSessionLocal sid s, w)"
proof (cases "truthy (JNum sid)")
  case True
  have heap: "hv_heap (removeSessionLocal sid s) = hv_heap s"
    by (simp add: removeSessionLocal_def Let_def closeModal_def view_closeDeleteModal_def)
  have items: "hv_items (removeSessionLocal sid s) = filter (\<lambda>r. id_at s r \<noteq> sid) (hv_items s)"
    using True by (simp add: removeSessionLocal_def Let_def closeModal_def view_closeDeleteModal_def)
  have "row_ids (removeSessionLocal sid s) = filter (\<lambda>i. i \<noteq> sid) (row_ids s)"
    unfolding row_ids_def items id_at_same [OF heap] by (simp add: filter_map comp_def)
  with assms heap items show ?thesis by (auto simp: tracked_def list_all_iff)
qed (use assms in \<open>simp add: removeSessionLocal_def\<close>)

subsection \<open>Handlers\<close>

lemma holds_world:
  assumes "adds w_out (\<lambda>x. True) m"
  shows "holds (tracked e k is cs) (onw m)"
proof (rule holdsI)
  fix x a x' assume run: "run_state (onw m) x = (a, x')" and t: "tracked e k is cs x"
  obtain s w where x: "x = (s, w)" by fastforce
  obtain w' where w': "run_state m w = (a, w')" "x' = (s, w')" using run x by (auto split: prod.splits)
  obtain new where "w_out w' = w_out w @ new" using assms w'(1) by (rule adds_run)
  with t w'(2) x show "tracked e k is cs x'" by (simp add: tracked_more)
qed

lemma holds_vars: "(\<And>s. hv_heap (f s) = hv_heap s \<and> hv_items (f s) = hv_items s) \<Longrightarrow> holds (tracked e k is cs) (mods f)"
  by (rule holds_mods) (auto intro: tracked_same [rotated 2])

lemma adds_draws: "adds w_out (\<lambda>x. True) (calcDurationMs e it)" "adds w_out (\<lambda>x. True) (buildDownloadText e lt it t)"
  "adds w_out (\<lambda>x. True) (draw_cards vc e s rs)"
proof -
  show d: "adds w_out (\<lambda>x. True) (calcDurationMs e it)" for it
    unfolding calcDurationMs_def by (intro adds_intros)
  show "adds w_out (\<lambda>x. True) (buildDownloadText e lt it t)" unfolding buildDownloadText_def by (intro adds_intros d)
  show "adds w_out (\<lambda>x. True) (draw_cards vc e s rs)"
  proof (induction rs)
    case (Cons r rs)
    show ?case unfolding draw_cards.simps Let_def by (intro adds_intros d Cons.IH)
  qed (simp add: adds_ret)
qed

lemma holds_plain [holds_intros]:
  "holds (tracked e k is cs) (mods closeModal)" "holds (tracked e k is cs) (mods view_closeDeleteModal)"
  "holds (tracked e k is cs) (mods delete_failed)" "holds (tracked e k is cs) (mods on_escape)"
  "holds (tracked e k is cs) (mods applyFilter)" "holds (tracked e k is cs) (mods (delete_begins sid))"
  "holds (tracked e k is cs) (mods (view_openDeleteModal vc e sid))"
  by (rule holds_vars; auto simp: closeModal_def view_closeDeleteModal_def delete_failed_def on_escape_def applyFilter_def
      delete_begins_def view_openDeleteModal_def Let_def split: option.splits)+

lemma holds_shows [holds_intros]:
  "holds (tracked e k is cs) (renderList vc e)" "holds (tracked e k is cs) (redraw vc e)"
  "holds (tracked e k is cs) (showBusyPopup e)" "holds (tracked e k is cs) (v_openAuth e)"
  "holds (tracked e k is cs) (openModalSkeleton vc e it)" "holds (tracked e k is cs) (fillModalText vc e it t)"
  "holds (tracked e k is cs) (fill_row vc e r t)"
  unfolding renderList_def redraw_def showBusyPopup_def v_openAuth_def openModalSkeleton_def fillModalText_def fill_row_def
  by (intro holds_intros holds_world adds_draws adds_emit holds_vars TrueI; simp)+

lemma holds_arrived [holds_intros]: "holds (tracked e k is cs) (detail_arrived vc e r sid res)"
  unfolding detail_arrived_def detail_failed_def
  by (intro holds_intros holds_mods holds_vars) (auto simp: tracked_latest intro: tracked_keep)

lemma holds_download [holds_intros]: "holds (tracked e k is cs) (on_download vc e)"
  unfolding on_download_def Let_def
  by (intro holds_intros) (auto split: option.splits intro!: holds_intros holds_world adds_draws adds_emit adds_prims)

text \<open>What the other handlers do where one waits keeps the rows, too.\<close>

locale tracking_others =
  fixes vc :: viewcfg and e :: env and k :: nat and "is" :: "jnum list"
  assumes others: "tracked e k is cs (s, w) \<Longrightarrow> tracked e k is cs (vc_other vc (s, w))"
begin

lemma holds_waits [holds_intros]: "holds (tracked e k is cs) (v_waits vc)"
  by (auto simp: holds_def v_waits_def others)

lemma holds_send [holds_intros]: "holds (tracked e k is cs) (v_sendRuntime vc e msg)"
  unfolding v_sendRuntime_def by (intro holds_intros holds_world adds_emit TrueI)

lemma server_confirms:
  assumes run: "run_state (deleteSessionOnServer vc e sid) (s, w) = (b, x')" and t: "tracked e k is cs (s, w)"
  shows "tracked e k is (if b then sid # cs else cs) x'"
proof (cases "vc_runtime vc")
  case True
  let ?m = "ToRuntime (delete_msg sid)"
  let ?w = "w\<lparr>w_out := w_out w @ [?m]\<rparr>"
  obtain res where res: "res = (case e_deliver e (w_out w) ?m of Inl m \<Rightarrow> busy_answer | Inr v \<Rightarrow> js_or v JNull)" by simp
  obtain x1 where x1: "vc_other vc (s, ?w) = x1" by simp
  have run1: "run_state (v_sendRuntime vc e (delete_msg sid)) (s, w) = (res, x1)"
    using True x1 by (auto simp: v_sendRuntime_def v_waits_def run_emit res split: sum.split)
  let ?cs = "if deleted_answer res then sid # cs else cs"
  have "\<not> deleted_answer busy_answer" by code_simp
  then have "tracked e k is ?cs (s, ?w)"
    using tracked_more [OF t, of ?w "[?m]"] t
    by (auto simp: tracked_def res split: sum.splits intro: confirmed_now)
  then have "tracked e k is ?cs x1" using others x1 by blast
  moreover have "b = deleted_answer res \<and> (\<exists>a. run_state (whenA (fld res ''code'' = JStr (js ''AUTH_REQUIRED'')) (v_openAuth e)) x1 = (a, x'))"
    using run run1 by (auto simp: deleteSessionOnServer_def split: prod.splits)
  moreover have "holds (tracked e k is ?cs) (whenA (fld res ''code'' = JStr (js ''AUTH_REQUIRED'')) (v_openAuth e))"
    by (intro holds_intros)
  ultimately show ?thesis by (auto dest: holds_run)
next
  case False
  have "\<not> deleted_answer JNull" by code_simp
  with run False have "x' = vc_other vc (s, w) \<and> \<not> b"
    by (auto simp: deleteSessionOnServer_def v_sendRuntime_def v_waits_def)
  then show ?thesis using others [OF t] by simp
qed

lemma holds_after_server:
  assumes "holds (tracked e k is (sid # cs)) m" and "holds (tracked e k is cs) n"
  shows "holds (tracked e k is cs) (do { b \<leftarrow> deleteSessionOnServer vc e sid; if b then m else n })"
proof (rule holdsI)
  fix x a x' assume run: "run_state (do { b \<leftarrow> deleteSessionOnServer vc e sid; if b then m else n }) x = (a, x')" and t: "tracked e k is cs x"
  obtain s w where x: "x = (s, w)" by fastforce
  obtain b x1 where 1: "run_state (deleteSessionOnServer vc e sid) (s, w) = (b, x1)" by (metis prod.collapse)
  have t1: "tracked e k is (if b then sid # cs else cs) x1" using 1 t x by (intro server_confirms) simp_all
  have run2: "run_state (if b then m else n) x1 = (a, x')" using run 1 x by simp
  show "tracked e k is cs x'"
  proof (cases b)
    case True
    with t1 run2 have "tracked e k is (sid # cs) x'" by (auto intro: holds_run [OF assms(1)])
    then show ?thesis by (auto simp: tracked_def split: prod.splits)
  next
    case False
    with t1 run2 show ?thesis by (auto intro: holds_run [OF assms(2)])
  qed
qed

lemma holds_remove: "sid \<in> set cs \<Longrightarrow> holds (tracked e k is cs) (mods (removeSessionLocal sid))"
  by (rule holds_mods) (rule tracked_remove)

lemma holds_confirm [holds_intros]: "holds (tracked e k is cs) (confirmDeletePending vc e)"
  unfolding confirmDeletePending_def
  by (intro holds_after_server holds_intros holds_remove; (rule holds_vars)?; simp)

lemma holds_open_detail [holds_intros]: "holds (tracked e k is cs) (openSessionDetail vc e sid)"
  unfolding openSessionDetail_def
  by (intro holds_intros; (rule holds_mods; simp add: tracked_latest)?)
    (auto split: option.splits intro!: holds_intros holds_mods simp: tracked_latest)

lemma holds_view_step: "stays ev \<Longrightarrow> holds (tracked e k is cs) (view_step vc e ev)"
  by (cases ev; simp only: view_step.simps stays.simps; intro holds_intros holds_vars; simp)

lemma holds_view_run: "list_all stays evs \<Longrightarrow> holds (tracked e k is cs) (view_run vc e evs)"
  by (induction evs) (auto intro!: holds_intros holds_view_step)

end

lemma busy_tracks: "tracking_others (view_busy vc e stays cs') e k is"
proof (induction cs')
  case Nil
  show ?case by unfold_locales simp
next
  case (Cons c cs')
  show ?case
  proof
    fix cs s w assume t: "tracked e k is cs (s, w)"
    have "list_all stays (filter stays (c (s, w)))" by (simp add: list_all_iff)
    from tracking_others.holds_view_run [OF Cons.IH this] t
    show "tracked e k is cs (vc_other (view_busy vc e stays (c # cs')) (s, w))" by (simp add: holds_def)
  qed
qed

interpretation page_rows: tracking_others "view_busy vc e stays cs" e k "is" for vc e cs k "is"
  by (rule busy_tracks)

text \<open>From any state the view can reach, whatever the user and the worker do after that, short of loading the
  list again, a row of the list is still in it unless the worker was asked to delete it and its answer counts
  as a deletion; a deletion that is refused, fails or stays unanswered removes nothing.\<close>

lemma rows_leave_confirmed:
  "case run_state (view_run (view_busy vc e (\<lambda>_. True) cs) e evs) (view_init, w) of (_, s1, w1 :: world) \<Rightarrow>
     (case run_state (view_run (view_busy vc e stays cs') e (filter stays evs')) (s1, w1) of (_, s2, w2) \<Rightarrow>
       list_all (\<lambda>i. i \<in> set (row_ids s2) \<or> confirmed e (length (w_out w1)) (w_out w2) i) (row_ids s1))"
proof -
  obtain s1 w1 where 1: "run_state (view_run (view_busy vc e (\<lambda>_. True) cs) e evs) (view_init, w) = ((), s1, w1)" by (rule act_runs)
  obtain s2 w2 where 2: "run_state (view_run (view_busy vc e stays cs') e (filter stays evs')) (s1, w1) = ((), s2, w2)" by (rule act_runs)
  have "rows_ok s1" using view_reached [OF 1] by (simp add: view_ok_def)
  then have "tracked e (length (w_out w1)) (row_ids s1) [] (s1, w1)" by (auto simp: tracked_def rows_ok_def list_all_iff)
  moreover have "list_all stays (filter stays evs')" by (simp add: list_all_iff)
  ultimately have "tracked e (length (w_out w1)) (row_ids s1) [] (s2, w2)"
    using holds_run [OF page_rows.holds_view_run 2] by blast
  with 1 2 show ?thesis by (simp add: tracked_def)
qed

subsection \<open>Handlers that do not look again\<close>

text \<open>A worker with two transcripts, whose texts say which they are, that deletes what it is asked to.\<close>

definition two_rows_env :: env where
  "two_rows_env = (example_env (\<lambda>h r. Inl []) (\<lambda>s. None))\<lparr>e_deliver := \<lambda>h x.
     (case x of
        ToRuntime m \<Rightarrow>
          (if m = list_msg then Inr (JObj [(js ''ok'', JBool True), (js ''items'', JArr
             [JObj [(js ''id'', JInt 7), (js ''text'', JStr (js ''a''))], JObj [(js ''id'', JInt 8), (js ''text'', JStr (js ''b''))]])])
           else if m = detail_msg (JFin 7) then Inr (JObj [(js ''ok'', JBool True), (js ''fullText'', JStr (js ''seven''))])
           else if m = detail_msg (JFin 8) then Inr (JObj [(js ''ok'', JBool True), (js ''fullText'', JStr (js ''eight''))])
           else Inr (JObj [(js ''ok'', JBool True)]))
      | _ \<Rightarrow> Inr JUndef)\<rparr>"

definition plain_view :: viewcfg where
  "plain_view = \<lparr>vc_other = (\<lambda>x. x), vc_runtime = True, vc_local = (\<lambda>t. (0, 0, 0, 0, 0, 0))\<rparr>"

definition after_events :: "vevent list \<Rightarrow> (hview \<times> world \<Rightarrow> vevent list) list \<Rightarrow> hview \<times> world \<Rightarrow> hview \<times> world" where
  "after_events evs cs x = snd (run_state (view_run (view_busy plain_view two_rows_env (\<lambda>_. True) cs) two_rows_env evs) x)"

definition listed_view :: "hview \<times> world" where
  "listed_view = after_events [ViewShown] [] (view_init, blank_world)"

text \<open>
  The session changes while a list is on its way: the second load returns at once, because the first is still
  loading, and the answer for the session before is shown as loaded, after a single request.
\<close>

lemma late_list_shown:
  "case after_events [ViewShown] [\<lambda>_. [SessionChanged]] (view_init, blank_world) of (s, w) \<Rightarrow>
     row_ids s = [JFin 8, JFin 7] \<and> hv_loaded s \<and> w_out w = [ToRuntime list_msg]"
  by code_simp

text \<open>Details of the second row are open when those of the first arrive: its text is shown under the second.\<close>

lemma late_detail_shown:
  "case after_events [RowClick (JFin 7)] [\<lambda>_. [DetailClose, RowClick (JFin 8)]] listed_view of (s, w) \<Rightarrow>
     hv_active s = Some (JFin 8) \<and> mo_text (hv_modal s) = js ''seven''"
  by code_simp

text \<open>The window for another deletion is closed by the end of the first.\<close>

lemma late_delete_closes:
  "case after_events [DeleteClick (JFin 7), DeleteConfirm] [\<lambda>_. [DeleteCancel, DeleteClick (JFin 8)]] listed_view of (s, w) \<Rightarrow>
     row_ids s = [JFin 8] \<and> hv_pending s = None"
  by code_simp

end
