(* ===== verification/Delete_Path.thy ===== *)
theory Delete_Path
  imports History_View_Races Sw_Contract History_Contract
begin

section \<open>A deletion, from the row in the side panel to the database\<close>

text \<open>
  The history view, the bus of the worker and the repository put together: what receives the messages of
  the view is the worker, in whatever state it is in at that moment.
\<close>

subsection \<open>What a handler answers\<close>

text \<open>\<open>gives out' Q m\<close>: \<open>m\<close> answers once, with a value that satisfies \<open>Q\<close>.\<close>

definition gives :: "('s \<Rightarrow> out list) \<Rightarrow> (jsval \<Rightarrow> bool) \<Rightarrow> ('s, 'a) state \<Rightarrow> bool" where
  "gives out' Q m \<longleftrightarrow>
     (\<forall>x. \<exists>new v. out' (snd (run_state m x)) = out' x @ new \<and> filter is_reply new = [Reply v] \<and> Q v)"

lemma no_replies: "answers xs = 0 \<Longrightarrow> filter is_reply xs = []"
  by (simp add: answers_def)

lemma says_silent: "says out' none m \<Longrightarrow> \<exists>new. out' (snd (run_state m x)) = out' x @ new \<and> filter is_reply new = []"
  unfolding says_def none_def using no_replies by metis

lemma gives_bind:
  assumes "says out' none m" and "\<And>a. gives out' Q (f a)"
  shows "gives out' Q (State_Monad.bind m f)"
  unfolding gives_def
proof
  fix x
  obtain a x1 where 1: "run_state m x = (a, x1)" by fastforce
  obtain n1 where n1: "out' x1 = out' x @ n1" "filter is_reply n1 = []" using says_silent [OF assms(1), of x] 1 by auto
  obtain n2 v where "out' (snd (run_state (f a) x1)) = out' x1 @ n2" "filter is_reply n2 = [Reply v]" "Q v"
    using assms(2) [of a] unfolding gives_def by blast
  with n1 1 show "\<exists>new v. out' (snd (run_state (State_Monad.bind m f) x)) = out' x @ new \<and> filter is_reply new = [Reply v] \<and> Q v"
    by (intro exI [of _ "n1 @ n2"] exI [of _ v]) simp
qed

lemma gives_reply: "Q v \<Longrightarrow> gives w_out Q (reply v)"
  by (simp add: gives_def)

lemma gives_then_ret: "gives out' Q m \<Longrightarrow> gives out' Q (State_Monad.bind m (\<lambda>_. State_Monad.return b))"
  by (simp add: gives_def split: prod.split) (metis snd_conv)

lemma gives_onw: "gives w_out Q m \<Longrightarrow> gives act_out Q (onw m)"
  unfolding gives_def by (auto split: prod.split) (metis snd_conv)

lemma gives_if: "gives out' Q m \<Longrightarrow> gives out' Q n \<Longrightarrow> gives out' Q (if b then m else n)"
  by simp

text \<open>What \<open>sendResponse\<close> was called with while the worker handled a message.\<close>

definition worker_answer :: "env \<Rightarrow> jsval \<Rightarrow> jsval \<Rightarrow> sw \<times> world \<Rightarrow> ustr + jsval" where
  "worker_answer e msg sender x =
     (case filter is_reply (drop (length (act_out x)) (act_out (snd (run_state (on_message e msg sender) x)))) of
        Reply v # xs \<Rightarrow> Inr v
      | xs \<Rightarrow> Inl (js ''The message port closed before a response was received.''))"

lemma worker_answers:
  "act_out (snd (run_state (on_message e msg sender) x)) = act_out x @ new \<Longrightarrow> filter is_reply new = [Reply v] \<Longrightarrow>
   worker_answer e msg sender x = Inr v"
  by (simp add: worker_answer_def)

text \<open>Errors and refusals never count as a deletion.\<close>

abbreviation no_deletion :: "jsval \<Rightarrow> bool" where
  "no_deletion v \<equiv> \<not> deleted_answer (js_or v JNull)"

lemma plain_no_deletion: "no_deletion auth_required_reply" "no_deletion buildSystemBusyResponse" "no_deletion bad_session"
  by code_simp+

lemma db_failure_no_deletion: "gives act_out no_deletion (db_failure e tabId sess x)"
proof -
  have "no_deletion (JObj [(js ''ok'', JBool False), (js ''code'', JStr (js ''USER_ID_INVALID'')), (js ''error'', JStr (js ''USER_ID_INVALID'')), (js ''debug'', d)])" for d
    by (simp add: deleted_answer_def fld_def obj_get_def js_def js_or_def)
  then show ?thesis unfolding db_failure_def answer_def
    by (intro gives_if gives_bind gives_onw gives_reply says_intros plain_no_deletion)
qed

lemma refusal_no_deletion: "gives w_out no_deletion (notifyAuthRequired e action tabId)"
  unfolding notifyAuthRequired_def by (intro gives_bind gives_reply says_intros plain_no_deletion)

subsection \<open>The command at the worker\<close>

lemma dispatch_delete: "dispatch e (delete_msg i) sender = do { r \<leftarrow> gated e ''history_delete'' (history_delete e (delete_msg i)); ok r }"
proof -
  have "fld (delete_msg i) ''__cmd'' = JStr (js ''__HISTORY_DELETE__'')" "truthy (delete_msg i)"
    by (simp_all add: delete_msg_def cmd_msg_def fld_def obj_get_def js_def)
  then show ?thesis by (simp add: dispatch_def Let_def js_def)
qed

lemma run_delete_command:
  "snd (run_state (on_message e (delete_msg i) sender) (s, w)) =
     (if isAuthedSession (stored_session w)
      then (case run_state (history_delete e (delete_msg i) (stored_session w)) w of
              (Inr v, w1) \<Rightarrow> (s, w1\<lparr>w_out := w_out w1 @ [Reply v]\<rparr>)
            | (Inl x, w1) \<Rightarrow> snd (run_state (db_failure e (js_or (cur_tab s) JNull) (stored_session w) x) (s, w1)))
      else (s, snd (run_state (notifyAuthRequired e ''history_delete'' (js_or (cur_tab s) JNull)) w)))"
  by (simp add: on_message_def dispatch_delete gated_def requireAuthOrFail_def run_session Let_def split: prod.split sum.split)

text \<open>An answer that counts as a deletion is the one the body of the handler returned.\<close>

lemma deletion_answered:
  assumes "worker_answer e (delete_msg i) sender (s, w) = Inr v" and "deleted_answer (js_or v JNull)"
  obtains w1 where "isAuthedSession (stored_session w)" and "run_state (history_delete e (delete_msg i) (stored_session w)) w = (Inr v, w1)"
proof (cases "isAuthedSession (stored_session w)")
  case False
  obtain new u where "w_out (snd (run_state (notifyAuthRequired e ''history_delete'' (js_or (cur_tab s) JNull)) w)) = w_out w @ new"
    "filter is_reply new = [Reply u]" "no_deletion u"
    using refusal_no_deletion unfolding gives_def by blast
  with False assms worker_answers [of e "delete_msg i" sender "(s, w)"] show ?thesis by (simp add: run_delete_command)
next
  case True
  obtain r w1 where body: "run_state (history_delete e (delete_msg i) (stored_session w)) w = (r, w1)" by fastforce
  obtain n1 where n1: "w_out w1 = w_out w @ n1" "filter is_reply n1 = []"
    using says_silent [OF says_bodies(3) [of e "delete_msg i" "stored_session w"], of w] body by auto
  show ?thesis
  proof (cases r)
    case (Inr u)
    with True body n1 assms(1) worker_answers [of e "delete_msg i" sender "(s, w)" "n1 @ [Reply u]" u] have "u = v"
      by (simp add: run_delete_command)
    with that True body Inr show ?thesis by simp
  next
    case (Inl x)
    obtain n2 u where "act_out (snd (run_state (db_failure e (js_or (cur_tab s) JNull) (stored_session w) x) (s, w1))) = w_out w1 @ n2"
      "filter is_reply n2 = [Reply u]" "no_deletion u"
      using db_failure_no_deletion unfolding gives_def by (metis snd_conv)
    with True body Inl n1 assms worker_answers [of e "delete_msg i" sender "(s, w)" "n1 @ n2" u] show ?thesis
      by (simp add: run_delete_command)
  qed
qed

subsection \<open>What the database did\<close>

text \<open>The database accepted a deletion of exactly this row of this user.\<close>

definition deleted_in :: "env \<Rightarrow> req list \<Rightarrow> int \<Rightarrow> ustr \<Rightarrow> bool" where
  "deleted_in e reqs sid uid \<longleftrightarrow>
     list_ex (\<lambda>k. rq_verb (reqs ! k) = DELETE \<and> rq_url (reqs ! k) = rest_url ''transcript_sessions'' \<and>
        rq_query (reqs ! k) = own_session_query sid uid \<and>
        (case e_fetch e (take k reqs) (reqs ! k) of Inl m \<Rightarrow> False | Inr a \<Rightarrow> rs_ok a)) [0..<length reqs]"

lemma delete_once_done:
  assumes "run_state (delete_once e ''transcript_sessions'' (own_session_query sid uid) t) w = (Inr b, w')"
  shows "deleted_in e (w_reqs w') sid uid"
proof -
  let ?q = "delete_req ''transcript_sessions'' (own_session_query sid uid) t"
  obtain a where "e_fetch e (w_reqs w) ?q = Inr a" "rs_ok a" and w': "w_reqs w' = w_reqs w @ [?q]"
    using assms by (auto simp: delete_once_def run_andThen run_fetch run_if split: sum.splits if_splits)
  then show ?thesis by (auto simp: deleted_in_def list_ex_iff delete_req_def intro!: bexI [of _ "length (w_reqs w)"])
qed

lemma fetchDelete_done:
  "run_state (fetchDelete e ''transcript_sessions'' (own_session_query sid uid) t) w = (Inr b, w') \<Longrightarrow> deleted_in e (w_reqs w') sid uid"
  by (auto simp: fetchDelete_def run_try run_if Let_def split: prod.splits sum.splits if_splits intro: delete_once_done)

lemma delete_session_done:
  "run_state (delete_session e sid uid t) w = (Inr b, w') \<Longrightarrow> deleted_in e (w_reqs w') sid uid"
  by (auto simp: delete_session_def run_try run_andThen run_if split: prod.splits sum.splits if_splits intro: fetchDelete_done)

text \<open>
  What the worker did when it was asked to delete row \<open>i\<close>: it read the session of a signed-in user, found the
  user's id, asked the database for the row, and had it deleted when the database had it.
\<close>

definition worker_deletes :: "env \<Rightarrow> jnum \<Rightarrow> world \<Rightarrow> bool" where
  "worker_deletes e i w \<longleftrightarrow>
     isAuthedSession (stored_session w) \<and>
     (case session_arg (delete_msg i) of None \<Rightarrow> False
      | Some q \<Rightarrow>
          (case run_state (session_user e (stored_session w)) w of (Inl x, w1) \<Rightarrow> False
           | (Inr user, w1) \<Rightarrow>
               (let uid = parseDbId (JStr user); sid = toInt (JNum (JFin q)) 0; tok = trim (pickSupabaseAccessToken e (stored_session w)) in
                case run_state (fetchJsonWithAuthFallback e ''transcript_sessions'' (session_query ''id'' sid uid) tok) w1 of
                  (Inl x, w2) \<Rightarrow> False
                | (Inr rows, w2) \<Rightarrow>
                    decimal uid \<and> sid \<noteq> 0 \<and>
                    (if is_arr rows \<and> truthy (idx rows 0)
                     then deleted_in e (w_reqs (snd (run_state (delete_session e sid uid tok) w2))) sid uid else True))))"

lemma answer_deletes:
  assumes "worker_answer e (delete_msg i) sender x = Inr v" and "deleted_answer (js_or v JNull)"
  shows "worker_deletes e i (snd x)"
proof -
  obtain s w where x: "x = (s, w)" by fastforce
  obtain w1 where a: "isAuthedSession (stored_session w)" and body: "run_state (history_delete e (delete_msg i) (stored_session w)) w = (Inr v, w1)"
    using assms unfolding x by (rule deletion_answered)
  obtain q where q: "session_arg (delete_msg i) = Some q"
    using body assms(2) plain_no_deletion(3) by (auto simp: history_delete_def split: option.splits)
  obtain user w2 where u: "run_state (session_user e (stored_session w)) w = (Inr user, w2)"
    using body q by (auto simp: history_delete_def run_andThen split: prod.splits sum.splits)
  obtain d w3 where d: "run_state (deleteTranscriptSessionForUser e (JStr user) (JNum (JFin q)) (pickSupabaseAccessToken e (stored_session w))) w2 = (Inr d, w3)"
    using body q u by (auto simp: history_delete_def run_andThen split: prod.splits sum.splits)
  let ?uid = "parseDbId (JStr user)" and ?sid = "toInt (JNum (JFin q)) 0" and ?tok = "trim (pickSupabaseAccessToken e (stored_session w))"
  have ne: "?uid \<noteq> []" "?sid \<noteq> 0"
    using d by (auto simp: deleteTranscriptSessionForUser_def run_andThen run_normalizeUser Let_def split: if_splits)
  obtain rl wl where l: "run_state (fetchJsonWithAuthFallback e ''transcript_sessions'' (session_query ''id'' ?sid ?uid) ?tok) w2 = (rl, wl)"
    and run: "run_state (deleteTranscriptSessionForUser e (JStr user) (JNum (JFin q)) (pickSupabaseAccessToken e (stored_session w))) w2 =
       (case rl of Inl x \<Rightarrow> (Inl x, wl)
        | Inr rows \<Rightarrow>
            if owned e w2 ?uid ?sid ?tok
            then (case run_state (delete_session e ?sid ?uid ?tok) wl of
                    (Inl x, w') \<Rightarrow> (Inl x, w')
                  | (Inr b, w') \<Rightarrow> (Inr \<lparr>dr_deleted = True, dr_notFound = False, dr_sessionId = ?sid\<rparr>, w'))
            else (Inr \<lparr>dr_deleted = False, dr_notFound = True, dr_sessionId = ?sid\<rparr>, wl))"
    by (rule delete_run [OF ne])
  obtain rows where rows: "rl = Inr rows" using d run by (cases rl) auto
  have "deleted_in e (w_reqs (snd (run_state (delete_session e ?sid ?uid ?tok) wl))) ?sid ?uid" if "is_arr rows \<and> truthy (idx rows 0)"
  proof -
    have "owned e w2 ?uid ?sid ?tok" using that l rows by (simp add: owned_def)
    then obtain b w' where "run_state (delete_session e ?sid ?uid ?tok) wl = (Inr b, w')"
      using d run rows by (auto split: prod.splits sum.splits)
    then show ?thesis by (simp add: delete_session_done)
  qed
  moreover have "decimal ?uid" using ne(1) by (rule historyDb.norm_decimal)
  ultimately show ?thesis using a q u l rows ne by (simp add: worker_deletes_def x Let_def)
qed

subsection \<open>From the row to the database\<close>

text \<open>The environment of a view whose messages the worker answers, \<open>st\<close> being its state when one arrives.\<close>

definition with_worker :: "env \<Rightarrow> jsval \<Rightarrow> (out list \<Rightarrow> sw \<times> world) \<Rightarrow> env \<Rightarrow> env" where
  "with_worker ew sender st e =
     e\<lparr>e_deliver := \<lambda>h x. (case x of ToRuntime m \<Rightarrow> worker_answer ew m sender (st h) | _ \<Rightarrow> e_deliver e h x)\<rparr>"

definition deleted_by_worker :: "env \<Rightarrow> (out list \<Rightarrow> sw \<times> world) \<Rightarrow> nat \<Rightarrow> out list \<Rightarrow> jnum \<Rightarrow> bool" where
  "deleted_by_worker ew st n xs i \<longleftrightarrow>
     list_ex (\<lambda>k. n \<le> k \<and> xs ! k = ToRuntime (delete_msg i) \<and> worker_deletes ew i (snd (st (take k xs)))) [0..<length xs]"

lemma confirmed_deleted: "confirmed (with_worker ew sender st e) n xs i \<Longrightarrow> deleted_by_worker ew st n xs i"
proof -
  assume "confirmed (with_worker ew sender st e) n xs i"
  then obtain k where k: "k < length xs" "n \<le> k" "xs ! k = ToRuntime (delete_msg i)"
    and c: "case e_deliver (with_worker ew sender st e) (take k xs) (xs ! k) of Inl m \<Rightarrow> False | Inr v \<Rightarrow> deleted_answer (js_or v JNull)"
    unfolding confirmed_def list_ex_iff by auto
  from c k(3) obtain v where v: "worker_answer ew (delete_msg i) sender (st (take k xs)) = Inr v" "deleted_answer (js_or v JNull)"
    by (cases "worker_answer ew (delete_msg i) sender (st (take k xs))") (auto simp: with_worker_def)
  from answer_deletes [OF v] k show ?thesis by (auto simp: deleted_by_worker_def list_ex_iff)
qed



text \<open>A signed-in user whose row the database deletes: the row leaves the list; and of a guest, whose row stays.\<close>

definition signed_in_worker :: "sw \<times> world" where
  "signed_in_worker = (sw_init, blank_world\<lparr>w_store := [(js ''vtAuth'', JObj [(js ''profile'', JObj [(js ''id'', JInt 5)])])]\<rparr>)"

definition rows_after :: "sw \<times> world \<Rightarrow> vevent list \<Rightarrow> jnum list" where
  "rows_after x evs =
     (let e = with_worker history_env JUndef (\<lambda>h. x) two_rows_env in
      row_ids (fst (snd (run_state (view_run (view_busy plain_view e (\<lambda>_. True) []) e evs) listed_view))))"

lemma deletion_end_to_end:
  "rows_after signed_in_worker [DeleteClick (JFin 7), DeleteConfirm] = [JFin 8]"
  "rows_after (sw_init, blank_world) [DeleteClick (JFin 7), DeleteConfirm] = [JFin 8, JFin 7]"
  by code_simp+

end
