(* ===== verification/Page_Panel.thy ===== *)
theory Page_Panel
  imports Sw_Auth Actions Sentence_Log
begin

section \<open>panel.js: the panel in the page\<close>

text \<open>
  The panel the worker can put into a page starts and stops a capture and logs the complete sentences.
  Its variables outlive the element: what a handler does after the element is gone changes
  \<open>ip_active\<close>, \<open>ip_starting\<close> and \<open>ip_logged\<close> but shows nothing.  \<open>ic_other\<close> is what other handlers do while
  one waits, \<open>ic_time\<close> is \<open>toLocaleTimeString\<close>.
\<close>

record page_row =
  pr_time :: ustr
  pr_text :: ustr
  pr_meta :: ustr

record page_panel =
  ip_mounted :: bool
  ip_server :: ustr
  ip_token :: ustr
  ip_sub :: ustr
  ip_rows :: "page_row list"
  ip_canStart :: bool
  ip_canStop :: bool
  ip_logged :: nat
  ip_active :: bool
  ip_starting :: bool

record pagecfg =
  ic_other :: "page_panel \<times> world \<Rightarrow> page_panel \<times> world"
  ic_time :: "rat \<Rightarrow> ustr"

type_synonym 'a iact = "(page_panel, 'a) action"

definition i_waits :: "pagecfg \<Rightarrow> unit iact" where
  "i_waits ic = State (\<lambda>x. ((), ic_other ic x))"

definition PAGE_DEFAULT_SERVER :: ustr where
  "PAGE_DEFAULT_SERVER = js ''wss://api.example.com/stt''"

subsection \<open>The browser and the worker\<close>

definition page_storeGet :: "pagecfg \<Rightarrow> string \<Rightarrow> jsval iact" where
  "page_storeGet ic k = do { v \<leftarrow> onw (store_get k); u \<leftarrow> i_waits ic; State_Monad.return v }"

definition page_storeSet :: "pagecfg \<Rightarrow> (string \<times> jsval) list \<Rightarrow> unit iact" where
  "page_storeSet ic kvs = do {
     u \<leftarrow> onw (State (\<lambda>w. ((), w\<lparr>w_store := foldl (\<lambda>o' (k, v). obj_set o' (js k) v) (w_store w) kvs\<rparr>)));
     i_waits ic }"

definition system_busy :: jsval where
  "system_busy = JObj [(js ''ok'', JBool False), (js ''code'', JStr (js ''SYSTEM_BUSY'')), (js ''error'', JStr SYSTEM_BUSY_TEXT)]"

definition sendMessageAsync :: "pagecfg \<Rightarrow> env \<Rightarrow> jsval \<Rightarrow> jsval iact" where
  "sendMessageAsync ic e msg = do {
     r \<leftarrow> onw (emit e (ToRuntime msg));
     u \<leftarrow> i_waits ic;
     State_Monad.return (case r of Inl x \<Rightarrow> system_busy | Inr v \<Rightarrow> js_or v JNull) }"

definition alert :: "env \<Rightarrow> ustr \<Rightarrow> unit iact" where
  "alert e t = do { r \<leftarrow> onw (emit e (Browser ''alert'' (JStr t))); skip }"

definition page_isAuthed :: "pagecfg \<Rightarrow> bool iact" where
  "page_isAuthed ic = do {
     v \<leftarrow> page_storeGet ic ''vtAuth'';
     (let raw = js_or v JNull; p = js_ors [fld raw ''profile'', fld (fld raw ''currentSession'') ''profile'', JNull] in
      State_Monad.return (truthy p \<and> (truthy (fld p ''email'') \<or> truthy (fld p ''id'') \<or> truthy (fld p ''name'')))) }"

definition page_markNeedAuth :: "pagecfg \<Rightarrow> env \<Rightarrow> unit iact" where
  "page_markNeedAuth ic e = do {
     t \<leftarrow> onw (Date_now e);
     page_storeSet ic [(''vtNeedAuth'', JObj [(js ''at'', JNum (JFin t)), (js ''action'', JStr (js ''start''))])] }"

subsection \<open>What the panel shows\<close>

definition NOTE_CONNECTING :: ustr where
  "NOTE_CONNECTING = [8226] @ js '' '' @ [272] @ js ''ang k'' @ [7871] @ js ''t n'' @ [7889] @ js ''i...''"

definition NOTE_RUNNING :: ustr where
  "NOTE_RUNNING = [8226] @ js '' '' @ [272] @ js ''ang ghi''"

definition setSub :: "ustr \<Rightarrow> page_panel \<Rightarrow> page_panel" where
  "setSub t s = (if ip_mounted s then s\<lparr>ip_sub := t\<rparr> else s)"

definition setButtons :: "page_panel \<Rightarrow> page_panel" where
  "setButtons s =
     (if ip_mounted s
      then s\<lparr>ip_canStart := \<not> (ip_active s \<or> ip_starting s), ip_canStop := ip_active s \<or> ip_starting s\<rparr> else s)"

definition setActive :: "bool \<Rightarrow> bool \<Rightarrow> page_panel \<Rightarrow> page_panel" where
  "setActive on starting s =
     (let s1 = s\<lparr>ip_active := on, ip_starting := starting\<rparr>
      in setButtons (setSub (if starting then NOTE_CONNECTING else if on then NOTE_RUNNING else []) s1))"

definition addRow :: "ustr \<Rightarrow> ustr \<Rightarrow> ustr \<Rightarrow> page_panel \<Rightarrow> page_panel" where
  "addRow t x meta s =
     (if ip_mounted s then s\<lparr>ip_rows := ip_rows s @ [\<lparr>pr_time = t, pr_text = x, pr_meta = meta\<rparr>]\<rparr> else s)"

definition addSystem :: "pagecfg \<Rightarrow> env \<Rightarrow> ustr \<Rightarrow> unit iact" where
  "addSystem ic e x = do { t \<leftarrow> onw (Date_now e); mods (addRow (ic_time ic t) x (js ''system'')) }"

subsection \<open>Start and stop\<close>

definition LOGIN_ROW :: ustr where
  "LOGIN_ROW =
     [55357, 56594] @ js '' B'' @ [7841] @ js ''n c'' @ [7847] @ js ''n '' @ [273, 259] @ js ''ng nh'' @ [7853] @ js ''p '' @
     [273, 7875] @ js '' s'' @ [7917] @ js '' d'' @ [7909] @ js ''ng. H'' @ [227] @ js ''y m'' @ [7903] @
     js '' Side Panel (icon extension) v'' @ [224] @ js '' '' @ [273, 259] @ js ''ng nh'' @ [7853] @ js ''p.''"

definition LOGIN_ALERT :: ustr where
  "LOGIN_ALERT =
     js ''B'' @ [7841] @ js ''n c'' @ [7847] @ js ''n '' @ [273, 259] @ js ''ng nh'' @ [7853] @ js ''p '' @ [273, 7875] @
     js '' s'' @ [7917] @ js '' d'' @ [7909] @ js ''ng.'' @ [10] @ js ''H'' @ [227] @ js ''y m'' @ [7903] @
     js '' V-Transer Side Panel v'' @ [224] @ js '' '' @ [273, 259] @ js ''ng nh'' @ [7853] @ js ''p.''"

definition BAD_URL :: ustr where
  "BAD_URL = js ''Server URL kh'' @ [244] @ js ''ng h'' @ [7907] @ js ''p l'' @ [7879]"

definition BAD_PROTO :: ustr where
  "BAD_PROTO = js ''Server ph'' @ [7843] @ js ''i l'' @ [224] @ js '' wss:// (ho'' @ [7863] @ js ''c ws://localhost cho dev)''"

definition CONNECTING_ROW :: ustr where
  "CONNECTING_ROW = [272] @ js ''ang k'' @ [7871] @ js ''t n'' @ [7889] @ js ''i...''"

definition CROSS :: ustr where
  "CROSS = [10060] @ js '' ''"

definition OPEN_PANEL :: ustr where
  "OPEN_PANEL =
     [10] @ js ''H'' @ [227] @ js ''y m'' @ [7903] @ js '' Side Panel v'' @ [224] @ js '' '' @ [273, 259] @ js ''ng nh'' @ [7853] @ js ''p.''"

definition STARTED_ROW :: ustr where
  "STARTED_ROW = [9989] @ js '' Start requested''"

definition STOPPING_ROW :: ustr where
  "STOPPING_ROW = [272] @ js ''ang d'' @ [7915] @ js ''ng...''"

definition STOPPED_ROW :: ustr where
  "STOPPED_ROW = [9209] @ js '' '' @ [272, 227] @ js '' d'' @ [7915] @ js ''ng''"

definition WARN :: ustr where
  "WARN = [9888, 65039] @ js '' ''"

text \<open>\<open>wss\<close>, or \<open>ws\<close> on this machine.\<close>

definition server_allowed :: "url \<Rightarrow> bool" where
  "server_allowed u \<longleftrightarrow>
     u_protocol u = js ''wss:'' \<or> (isLocalHost (u_hostname u) \<and> u_protocol u = js ''ws:'')"

definition panel_start_msg :: "ustr \<Rightarrow> ustr \<Rightarrow> jsval" where
  "panel_start_msg server token =
     cmd_msg ''__PANEL_START__'' [(js ''payload'', JObj ((js ''server'', JStr server) # (if token \<noteq> [] then [(js ''token'', JStr token)] else [])))]"

definition start_refused :: "pagecfg \<Rightarrow> env \<Rightarrow> jsval \<Rightarrow> unit iact" where
  "start_refused ic e res = do {
     u \<leftarrow> mods (setActive False False);
     if fld res ''code'' = JStr (js ''AUTH_REQUIRED'') then do {
       v \<leftarrow> page_markNeedAuth ic e;
       (let msg = to_str (js_or (fld res ''error'') (JStr (js ''AUTH_REQUIRED''))) in do {
          y \<leftarrow> addSystem ic e (CROSS @ msg);
          alert e (msg @ OPEN_PANEL) }) }
     else do { v \<leftarrow> addSystem ic e (CROSS @ SYSTEM_BUSY_TEXT); alert e SYSTEM_BUSY_TEXT } }"

definition connect_page :: "pagecfg \<Rightarrow> env \<Rightarrow> ustr \<Rightarrow> ustr \<Rightarrow> unit iact" where
  "connect_page ic e server token = do {
     u \<leftarrow> page_storeSet ic [(''sttServerWs'', JStr server), (''sttApiToken'', JStr token)];
     v \<leftarrow> mods (setActive False True);
     y \<leftarrow> addSystem ic e CONNECTING_ROW;
     res \<leftarrow> sendMessageAsync ic e (panel_start_msg server token);
     if \<not> truthy (fld res ''ok'') then start_refused ic e res else addSystem ic e STARTED_ROW }"

definition page_start :: "pagecfg \<Rightarrow> env \<Rightarrow> unit iact" where
  "page_start ic e = do {
     busy' \<leftarrow> gets (\<lambda>s. ip_active s \<or> ip_starting s);
     if busy' then skip
     else do {
       authed \<leftarrow> page_isAuthed ic;
       if \<not> authed then do { u \<leftarrow> page_markNeedAuth ic e; v \<leftarrow> addSystem ic e LOGIN_ROW; alert e LOGIN_ALERT }
       else do {
         server \<leftarrow> gets (\<lambda>s. trim (ip_server s));
         token \<leftarrow> gets (\<lambda>s. trim (ip_token s));
         (case e_url e server of
            None \<Rightarrow> alert e BAD_URL
          | Some u \<Rightarrow> if \<not> server_allowed u then alert e BAD_PROTO else connect_page ic e server token) } } }"

definition page_stop :: "pagecfg \<Rightarrow> env \<Rightarrow> unit iact" where
  "page_stop ic e = do {
     busy' \<leftarrow> gets (\<lambda>s. ip_active s \<or> ip_starting s);
     if \<not> busy' then skip
     else do {
       u \<leftarrow> addSystem ic e STOPPING_ROW;
       r \<leftarrow> sendMessageAsync ic e (cmd_msg ''__PANEL_STOP__'' []);
       skip } }"

subsection \<open>The element\<close>

text \<open>The settings and the answer to the ping come later, as events.\<close>

definition page_mount :: "env \<Rightarrow> unit iact" where
  "page_mount e = do {
     there \<leftarrow> gets ip_mounted;
     if there then skip
     else do {
       u \<leftarrow> mods (\<lambda>s. s\<lparr>ip_mounted := True, ip_server := [], ip_token := [], ip_sub := [], ip_rows := [], ip_canStart := True, ip_canStop := True\<rparr>);
       r \<leftarrow> onw (emit e (ToRuntime (cmd_msg ''__OVERLAY_PING__'' [])));
       mods setButtons } }"

definition page_teardown :: "page_panel \<Rightarrow> page_panel" where
  "page_teardown s =
     \<lparr>ip_mounted = False, ip_server = [], ip_token = [], ip_sub = [], ip_rows = [], ip_canStart = False, ip_canStop = False,
      ip_logged = 0, ip_active = False, ip_starting = False\<rparr>"

definition settings_read :: "jsval \<Rightarrow> page_panel \<Rightarrow> page_panel" where
  "settings_read st s =
     (if ip_mounted s
      then s\<lparr>ip_server := to_str (js_or (fld st ''sttServerWs'') (JStr PAGE_DEFAULT_SERVER)), ip_token := str_or_empty (fld st ''sttApiToken'')\<rparr>
      else s)"

text \<open>The answer to the ping; \<open>None\<close> when there was none.\<close>

definition page_pong :: "jsval option \<Rightarrow> page_panel \<Rightarrow> page_panel" where
  "page_pong r s =
     (case r of None \<Rightarrow> setActive False False s | Some v \<Rightarrow> setActive (truthy (fld v ''active'')) (truthy (fld v ''starting'')) s)"

subsection \<open>Messages of the worker\<close>

definition page_opened :: "jsval \<Rightarrow> page_panel \<Rightarrow> page_panel" where
  "page_opened p s =
     (let s1 = setActive (truthy (fld p ''active'')) (truthy (fld p ''starting'')) s
      in if ip_mounted s1 \<and> truthy (fld p ''server'') then s1\<lparr>ip_server := to_str (fld p ''server'')\<rparr> else s1)"

definition page_notify :: "pagecfg \<Rightarrow> env \<Rightarrow> jsval \<Rightarrow> unit iact" where
  "page_notify ic e p =
     (let t = (if fld p ''level'' = JStr (js ''error'') then SYSTEM_BUSY_TEXT else str_or_empty (fld p ''text'')) in
      if t \<noteq> [] then addSystem ic e (CROSS @ t) else skip)"

definition page_status :: "pagecfg \<Rightarrow> env \<Rightarrow> jsval \<Rightarrow> unit iact" where
  "page_status ic e p =
     (let is = (\<lambda>x. fld p ''state'' = JStr (js x)) in
      if is ''starting'' \<or> is ''ws-connecting'' then mods (setActive False True)
      else if is ''running'' then mods (setActive True False)
      else if is ''stopped'' then do { u \<leftarrow> mods (setActive False False); addSystem ic e STOPPED_ROW }
      else if is ''server-busy'' \<or> is ''server-error'' \<or> is ''error''
      then do { u \<leftarrow> mods (setActive False False); addSystem ic e (WARN @ SYSTEM_BUSY_TEXT) }
      else skip)"

definition PAGE_SPEAKER :: ustr where
  "PAGE_SPEAKER = js ''Speaker '' @ [8226] @ js '' en '' @ [8226] @ js '' live''"

definition page_sentence :: "ustr \<Rightarrow> ustr \<Rightarrow> page_panel \<Rightarrow> page_panel" where
  "page_sentence t x s = (if trim x \<noteq> [] then addRow t (trim x) PAGE_SPEAKER s else s)"

definition page_sentences :: "ustr \<Rightarrow> ustr \<Rightarrow> page_panel \<Rightarrow> page_panel" where
  "page_sentences t full s =
     (let ss = fst (panel_splitSentencesAndTail full); target = length ss - 1 in
      (fold (page_sentence t) (drop (ip_logged s) (take target ss)) s)\<lparr>ip_logged := target\<rparr>)"

definition page_stable :: "pagecfg \<Rightarrow> env \<Rightarrow> jsval \<Rightarrow> unit iact" where
  "page_stable ic e m =
     (let full = to_str (js_coalesces [fld (fld m ''payload'') ''full'', fld m ''full'', JStr []]) in do {
        s \<leftarrow> gets (\<lambda>s. s);
        whenA (full \<noteq> [] \<and> ip_mounted s \<and> ip_logged s < length (fst (panel_splitSentencesAndTail full)) - 1) (do {
          t \<leftarrow> onw (Date_now e);
          mods (page_sentences (ic_time ic t) full) }) })"

definition page_onMessage :: "pagecfg \<Rightarrow> env \<Rightarrow> jsval \<Rightarrow> unit iact" where
  "page_onMessage ic e m =
     (let is = (\<lambda>c. fld m ''__cmd'' = JStr (js c)); p = fld m ''payload'' in
      if is ''__PANEL_MOUNT__'' then page_mount e
      else if is ''__PANEL_TEARDOWN__'' then mods page_teardown
      else if is ''__PANEL_OPENED__'' then mods (page_opened p)
      else if is ''__PANEL_NOTIFY__'' then page_notify ic e p
      else if is ''__OFFSCREEN_STATUS__'' then page_status ic e p
      else if is ''__TRANSCRIPT_STABLE__'' then page_stable ic e m
      else skip)"

subsection \<open>The handlers of the panel\<close>

datatype ievent =
    PageStart
  | PageStop
  | PageClose
  | PageInput ustr ustr
  | PageSettings jsval
  | PagePong "jsval option"
  | PageMessage jsval

fun page_step :: "pagecfg \<Rightarrow> env \<Rightarrow> ievent \<Rightarrow> unit iact" where
  "page_step ic e PageStart = page_start ic e"
| "page_step ic e PageStop = page_stop ic e"
| "page_step ic e PageClose = mods page_teardown"
| "page_step ic e (PageInput server token) = mods (\<lambda>s. if ip_mounted s then s\<lparr>ip_server := server, ip_token := token\<rparr> else s)"
| "page_step ic e (PageSettings st) = mods (settings_read st)"
| "page_step ic e (PagePong r) = mods (page_pong r)"
| "page_step ic e (PageMessage m) = page_onMessage ic e m"

fun page_run :: "pagecfg \<Rightarrow> env \<Rightarrow> ievent list \<Rightarrow> unit iact" where
  "page_run ic e [] = skip"
| "page_run ic e (ev # evs) = do { u \<leftarrow> page_step ic e ev; page_run ic e evs }"

fun page_busy :: "pagecfg \<Rightarrow> env \<Rightarrow> (page_panel \<times> world \<Rightarrow> ievent list) list \<Rightarrow> pagecfg" where
  "page_busy ic e [] = ic\<lparr>ic_other := \<lambda>x. x\<rparr>"
| "page_busy ic e (c # cs) = ic\<lparr>ic_other := \<lambda>x. snd (run_state (page_run (page_busy ic e cs) e (c x)) x)\<rparr>"

text \<open>The script mounts the panel when it is injected.\<close>

definition page_init :: page_panel where
  "page_init = \<lparr>ip_mounted = False, ip_server = [], ip_token = [], ip_sub = [], ip_rows = [], ip_canStart = False, ip_canStop = False,
      ip_logged = 0, ip_active = False, ip_starting = False\<rparr>"

end
