(* ===== verification/Page_Contract.thy ===== *)
theory Page_Contract
  imports Page_Panel
begin

section \<open>What the panel in the page promises\<close>

subsection \<open>Buttons\<close>

definition page_ok :: "page_panel \<Rightarrow> bool" where
  "page_ok s \<longleftrightarrow> (ip_mounted s \<longrightarrow> ip_canStart s = (\<not> (ip_active s \<or> ip_starting s)) \<and> ip_canStop s = (ip_active s \<or> ip_starting s))"

lemma ok_setActive: "page_ok (setActive a b s)"
  by (simp add: page_ok_def setActive_def setSub_def setButtons_def Let_def)

lemma ok_addRow [simp]: "page_ok (addRow t x m s) = page_ok s"
  by (simp add: page_ok_def addRow_def)

lemma ok_sentences: "page_ok s \<Longrightarrow> page_ok (page_sentences t f s)"
proof -
  assume ok: "page_ok s"
  have "page_ok (fold (page_sentence t) xs s)" for xs
    using ok by (induction xs arbitrary: s) (simp_all add: page_sentence_def)
  then show ?thesis by (simp add: page_sentences_def Let_def page_ok_def)
qed

lemma page_keeps_set: "keeps page_ok (mods (setActive a b))" "keeps page_ok (mods page_teardown)" "keeps page_ok (mods (settings_read st))"
  "keeps page_ok (mods (page_pong r))" "keeps page_ok (mods (page_opened p))" "keeps page_ok (mods (page_sentences t f))"
  "keeps page_ok (mods (addRow t x m))"
proof -
  have server: "page_ok (s\<lparr>ip_server := x, ip_token := y\<rparr>) = page_ok s" "page_ok (s\<lparr>ip_server := x\<rparr>) = page_ok s" for s x y
    by (simp_all add: page_ok_def)
  show "keeps page_ok (mods (settings_read st))" "keeps page_ok (mods (page_pong r))" "keeps page_ok (mods (page_opened p))"
    by (rule keeps_mods, simp add: settings_read_def page_pong_def page_opened_def Let_def server ok_setActive split: option.split)+
  show "keeps page_ok (mods (setActive a b))" "keeps page_ok (mods (page_sentences t f))" "keeps page_ok (mods (addRow t x m))"
    by (rule keeps_mods, simp add: ok_setActive ok_sentences)+
  show "keeps page_ok (mods page_teardown)" by (rule keeps_mods) (simp add: page_teardown_def page_ok_def)
qed

lemma page_keeps_calls: "keeps page_ok (alert e t)" "keeps page_ok (addSystem ic e x)"
  unfolding alert_def addSystem_def by (intro keeps_intros page_keeps_set)+

lemma page_keeps_mount: "keeps page_ok (page_mount e)"
  by (rule keepsI) (auto simp: page_mount_def run_emit setButtons_def page_ok_def split: if_splits sum.splits)

lemma page_keeps_messages: "keeps page_ok (page_notify ic e p)" "keeps page_ok (page_status ic e p)" "keeps page_ok (page_stable ic e m)"
  "keeps page_ok (page_onMessage ic e m)"
proof -
  show a: "keeps page_ok (page_notify ic e p)" "keeps page_ok (page_status ic e p)" "keeps page_ok (page_stable ic e m)" for p m
    unfolding page_notify_def page_status_def page_stable_def Let_def by (intro keeps_intros page_keeps_set page_keeps_calls)+
  show "keeps page_ok (page_onMessage ic e m)"
    unfolding page_onMessage_def Let_def by (intro keeps_intros page_keeps_set page_keeps_mount a)
qed

text \<open>The handlers that run while one waits keep the buttons, too.\<close>

locale calm_page =
  fixes ic :: pagecfg
  assumes calm: "page_ok s \<Longrightarrow> page_ok (fst (ic_other ic (s, w)))"
begin

lemma keeps_pause [keeps_intros]: "keeps page_ok (i_waits ic)"
  by (simp add: keeps_def i_waits_def calm)

lemma keeps_async [keeps_intros]: "keeps page_ok (page_storeGet ic k)" "keeps page_ok (page_storeSet ic kvs)"
  "keeps page_ok (sendMessageAsync ic e msg)" "keeps page_ok (page_isAuthed ic)" "keeps page_ok (page_markNeedAuth ic e)"
  unfolding page_isAuthed_def page_markNeedAuth_def page_storeGet_def page_storeSet_def sendMessageAsync_def Let_def
  by (intro keeps_intros)+

lemma keeps_start_page [keeps_intros]: "keeps page_ok (page_start ic e)" "keeps page_ok (page_stop ic e)"
  unfolding page_start_def page_stop_def connect_page_def start_refused_def Let_def
  by (intro keeps_intros page_keeps_set page_keeps_calls)+

lemma keeps_input: "keeps page_ok (mods (\<lambda>s. if ip_mounted s then s\<lparr>ip_server := x, ip_token := y\<rparr> else s))"
  by (rule keeps_mods) (simp add: page_ok_def)

lemma keeps_page_step: "keeps page_ok (page_step ic e ev)"
  by (cases ev; simp only: page_step.simps; intro keeps_input keeps_intros page_keeps_set page_keeps_messages)

lemma keeps_page_run: "keeps page_ok (page_run ic e evs)"
  by (induction evs) (auto intro: keeps_intros keeps_page_step)

end

lemma page_busy_calm: "calm_page (page_busy ic e cs)"
proof (induction cs)
  case Nil
  show ?case by unfold_locales simp
next
  case (Cons c cs)
  show ?case
  proof
    fix s w assume ok: "page_ok s"
    obtain a s' w' where run: "run_state (page_run (page_busy ic e cs) e (c (s, w))) (s, w) = (a, s', w')" by (metis prod_cases3)
    from keeps_run [OF calm_page.keeps_page_run [OF Cons.IH] run ok] run
    show "page_ok (fst (ic_other (page_busy ic e (c # cs)) (s, w)))" by simp
  qed
qed

interpretation in_page: calm_page "page_busy ic e cs" for ic e cs
  by (rule page_busy_calm)

lemma buttons_agree:
  "case run_state (page_run (page_busy ic e cs) e evs) (page_init, w) of (_, s', w' :: world) \<Rightarrow>
     if ip_mounted s' then ip_canStart s' = (\<not> (ip_active s' \<or> ip_starting s')) \<and> ip_canStop s' = (ip_active s' \<or> ip_starting s')
     else True"
proof -
  obtain s' w' where run: "run_state (page_run (page_busy ic e cs) e evs) (page_init, w) = ((), s', w')" by (rule act_runs)
  have "page_ok page_init" by (simp add: page_ok_def page_init_def)
  from keeps_run [OF in_page.keeps_page_run run this] run show ?thesis by (simp add: page_ok_def)
qed

subsection \<open>Servers\<close>

text \<open>A start message names a server that parses, over \<open>wss\<close>, or over \<open>ws\<close> on this machine.\<close>

definition start_allowed :: "env \<Rightarrow> out \<Rightarrow> bool" where
  "start_allowed e x \<longleftrightarrow>
     (case x of
        ToRuntime m \<Rightarrow>
          (if fld m ''__cmd'' = JStr (js ''__PANEL_START__'')
           then (case fld (fld m ''payload'') ''server'' of
                   JStr s \<Rightarrow> (case e_url e s of None \<Rightarrow> False | Some u \<Rightarrow> server_allowed u) | _ \<Rightarrow> False)
           else True)
      | _ \<Rightarrow> True)"

lemma allowed_onw: "adds w_out P m \<Longrightarrow> adds act_out P (onw m)"
  unfolding adds_def by (auto split: prod.split) (metis snd_conv)

lemma allowed_acts: "adds act_out P (gets f)" "adds act_out P (mods g)"
  by (auto simp: adds_def)

lemma allowed_when: "adds act_out P m \<Longrightarrow> adds act_out P (whenA b m)"
  by (auto simp: adds_def)

lemma allowed_store: "adds w_out P (State (\<lambda>w. ((), w\<lparr>w_store := f w\<rparr>)))"
  by (simp add: adds_def)

lemmas allowed_rules = adds_bind adds_ret adds_if adds_option allowed_acts allowed_when

lemma other_allowed: "start_allowed e (Browser c v)" "js c \<noteq> js ''__PANEL_START__'' \<Longrightarrow> start_allowed e (ToRuntime (cmd_msg c fs))"
  by (simp_all add: start_allowed_def cmd_msg_def fld_def obj_get_def)

lemma start_msg_allowed: "e_url e server = Some u \<Longrightarrow> server_allowed u \<Longrightarrow> start_allowed e (ToRuntime (panel_start_msg server token))"
  by (simp add: start_allowed_def panel_start_msg_def cmd_msg_def fld_def obj_get_def js_def)

lemma allowed_plain: "adds act_out (start_allowed e) (alert e t)" "adds act_out (start_allowed e) (addSystem ic e x)"
  "adds act_out (start_allowed e) (page_mount e)"
  unfolding alert_def addSystem_def page_mount_def
  by (intro allowed_rules allowed_onw adds_emit adds_prims other_allowed; simp)+

lemma allowed_messages: "adds act_out (start_allowed e) (page_onMessage ic e m)"
  unfolding page_onMessage_def page_notify_def page_status_def page_stable_def Let_def
  by (intro allowed_rules allowed_plain allowed_onw adds_prims)

locale allowed_page =
  fixes ic :: pagecfg and e :: env
  assumes allowed: "adds act_out (start_allowed e) (i_waits ic)"
begin

lemma allowed_async: "adds act_out (start_allowed e) (page_storeGet ic k)" "adds act_out (start_allowed e) (page_storeSet ic kvs)"
  "adds act_out (start_allowed e) (page_isAuthed ic)" "adds act_out (start_allowed e) (page_markNeedAuth ic e)"
  unfolding page_isAuthed_def page_markNeedAuth_def page_storeGet_def page_storeSet_def Let_def
  by (intro allowed_rules allowed allowed_onw allowed_store adds_prims)+

lemma allowed_send: "start_allowed e (ToRuntime msg) \<Longrightarrow> adds act_out (start_allowed e) (sendMessageAsync ic e msg)"
  unfolding sendMessageAsync_def by (intro allowed_rules allowed allowed_onw adds_emit)

lemma allowed_connect: "e_url e server = Some u \<Longrightarrow> server_allowed u \<Longrightarrow> adds act_out (start_allowed e) (connect_page ic e server token)"
  unfolding connect_page_def start_refused_def Let_def
  by (intro allowed_rules allowed_async allowed_plain allowed_send start_msg_allowed)

lemma allowed_start: "adds act_out (start_allowed e) (page_start ic e)"
  unfolding page_start_def by (intro allowed_rules allowed_async allowed_plain allowed_connect) simp_all

lemma allowed_stop: "adds act_out (start_allowed e) (page_stop ic e)"
  unfolding page_stop_def by (intro allowed_rules allowed_plain allowed_send other_allowed) simp

lemma allowed_step: "adds act_out (start_allowed e) (page_step ic e ev)"
  by (cases ev; simp only: page_step.simps; intro allowed_start allowed_stop allowed_messages allowed_acts)

lemma allowed_run: "adds act_out (start_allowed e) (page_run ic e evs)"
  by (induction evs) (auto intro: adds_bind adds_ret allowed_step)

end

lemma page_busy_allowed: "allowed_page (page_busy ic e cs) e"
proof (induction cs)
  case Nil
  show ?case by unfold_locales (simp add: adds_def i_waits_def)
next
  case (Cons c cs)
  show ?case
  proof (unfold_locales, rule addsI)
    fix x :: "page_panel \<times> world"
    have "adds act_out (start_allowed e) (page_run (page_busy ic e cs) e (c x))" by (rule allowed_page.allowed_run [OF Cons.IH])
    then have "\<exists>new. act_out (snd (run_state (page_run (page_busy ic e cs) e (c x)) x)) = act_out x @ new \<and> list_all (start_allowed e) new"
      unfolding adds_def by blast
    then show "\<exists>new. act_out (snd (run_state (i_waits (page_busy ic e (c # cs))) x)) = act_out x @ new \<and> list_all (start_allowed e) new"
      by (simp add: i_waits_def)
  qed
qed

interpretation page_servers: allowed_page "page_busy ic e cs" e for ic e cs
  by (rule page_busy_allowed)

text \<open>Property C36: in every interleaving of its handlers the panel asks the worker for a capture only for an address that
  parses, over \<open>wss\<close>, or over \<open>ws\<close> on this machine; other texts typed or stored as the server are refused.\<close>

theorem page_start_secure:
  "case run_state (page_run (page_busy ic e cs) e evs) (s, w) of (_, s', w') \<Rightarrow>
     \<exists>new. w_out w' = w_out w @ new \<and> list_all (start_allowed e) new"
  using page_servers.allowed_run [of e ic cs evs] by (auto simp: adds_def split: prod.split) (metis snd_conv)

subsection \<open>Sentences\<close>

abbreviation page_sents :: "ustr \<Rightarrow> ustr list" where
  "page_sents f \<equiv> fst (panel_splitSentencesAndTail f)"

definition row_texts :: "page_panel \<Rightarrow> ustr list" where
  "row_texts s = map pr_text (filter (\<lambda>r. pr_meta r = PAGE_SPEAKER) (ip_rows s))"

lemma fold_sentences:
  "ip_mounted s \<Longrightarrow> row_texts (fold (page_sentence t) xs s) = row_texts s @ filter (\<lambda>t. t \<noteq> []) (map trim xs) \<and>
     ip_mounted (fold (page_sentence t) xs s) \<and> ip_logged (fold (page_sentence t) xs s) = ip_logged s"
  by (induction xs arbitrary: s) (simp_all add: page_sentence_def addRow_def row_texts_def)

lemma page_stable_log:
  assumes "ip_mounted s" and "log_step page_sents f (ip_logged s) = (n, xs)"
    and "run_state (page_onMessage ic e (cmd_msg ''__TRANSCRIPT_STABLE__'' [(js ''full'', JStr f)])) (s, w) = ((), s', w')"
  shows "ip_mounted s' \<and> ip_logged s' = n \<and> row_texts s' = row_texts s @ filter (\<lambda>t. t \<noteq> []) (map trim xs)"
proof -
  let ?m = "cmd_msg ''__TRANSCRIPT_STABLE__'' [(js ''full'', JStr f)]"
  have "page_onMessage ic e ?m = page_stable ic e ?m"
    by (simp add: page_onMessage_def cmd_msg_def fld_def obj_get_def js_def)
  moreover have "to_str (js_coalesces [fld (fld ?m ''payload'') ''full'', fld ?m ''full'', JStr []]) = f"
    by (simp add: cmd_msg_def fld_def obj_get_def js_def)
  moreover have "page_sents [] = []" by (simp add: panel_splitSentencesAndTail_def sentences_and_tail_def std.exec_nil)
  ultimately show ?thesis using assms fold_sentences [OF assms(1)]
    by (auto simp: page_stable_def page_sentences_def log_step_def Let_def row_texts_def split: if_splits)
qed

lemma page_log_run:
  assumes "log_run page_sents (ip_logged s) fs = (n, xs)" and "ip_mounted s"
    and "run_state (page_run ic e (map (\<lambda>f. PageMessage (cmd_msg ''__TRANSCRIPT_STABLE__'' [(js ''full'', JStr f)])) fs)) (s, w) = ((), s', w')"
  shows "ip_logged s' = n \<and> row_texts s' = row_texts s @ filter (\<lambda>t. t \<noteq> []) (map trim xs)"
  using assms
proof (induction fs arbitrary: s w xs)
  case (Cons f fs)
  let ?m = "cmd_msg ''__TRANSCRIPT_STABLE__'' [(js ''full'', JStr f)]"
  obtain s1 w1 where 1: "run_state (page_onMessage ic e ?m) (s, w) = ((), s1, w1)" by (rule act_runs)
  obtain n1 ys zs where 2: "log_step page_sents f (ip_logged s) = (n1, ys)" "log_run page_sents n1 fs = (n, zs)" "xs = ys @ zs"
    using Cons.prems(1) by (auto split: prod.splits)
  note now = page_stable_log [OF Cons.prems(2) 2(1) 1]
  have "run_state (page_run ic e (map (\<lambda>f. PageMessage (cmd_msg ''__TRANSCRIPT_STABLE__'' [(js ''full'', JStr f)])) fs)) (s1, w1) = ((), s', w')"
    using Cons.prems(3) 1 by simp
  from Cons.IH [OF _ _ this] now 2 show ?case by simp
qed simp

text \<open>In a panel that was just mounted, a growing text is logged as in the side panel: every sentence but the last once, in order.\<close>

lemma page_sentences_once:
  assumes "sorted_wrt prefix fs" and "fs \<noteq> []" and "ip_mounted s" and "ip_logged s = 0" and "row_texts s = []"
    and run: "run_state (page_run ic e (map (\<lambda>f. PageMessage (cmd_msg ''__TRANSCRIPT_STABLE__'' [(js ''full'', JStr f)])) fs)) (s, w) = ((), s', w')"
  shows "length (page_sents (last fs)) - 1 \<le> ip_logged s'"
    and "row_texts s' = filter (\<lambda>t. t \<noteq> []) (map trim (take (ip_logged s') (page_sents (last fs))))"
proof -
  obtain n xs where log: "log_run page_sents 0 fs = (n, xs)" by fastforce
  have "sorted_wrt prefix ([] # fs)" using assms(1) by simp
  from wide_log.log_run_new [OF this _ log] assms(2) have "xs = take n (page_sents (last fs))" "length (page_sents (last fs)) - 1 \<le> n" by simp_all
  with page_log_run [OF _ assms(3) run] log assms(4,5) show "length (page_sents (last fs)) - 1 \<le> ip_logged s'"
    and "row_texts s' = filter (\<lambda>t. t \<noteq> []) (map trim (take (ip_logged s') (page_sents (last fs))))" by simp_all
qed

subsection \<open>What the panel does not prevent\<close>

definition page_env :: env where
  "page_env = (example_env (\<lambda>h r. Inl []) (\<lambda>s. None))\<lparr>e_deliver := \<lambda>h x. Inr (JObj [(js ''ok'', JBool True)]),
     e_url := \<lambda>s. Some \<lparr>u_origin = [], u_protocol = js ''wss:'', u_hostname = js ''h'', u_port = [], u_pathname = [], u_search = [], u_hash = []\<rparr>\<rparr>"

definition plain_page :: pagecfg where
  "plain_page = \<lparr>ic_other = (\<lambda>x. x), ic_time = (\<lambda>t. [])\<rparr>"

definition page_world :: world where
  "page_world = blank_world\<lparr>w_store := [(js ''vtAuth'', JObj [(js ''profile'', JObj [(js ''email'', JStr (js ''a@b.c''))])])]\<rparr>"

definition page_after :: "ievent list \<Rightarrow> (page_panel \<times> world \<Rightarrow> ievent list) list \<Rightarrow> page_panel \<times> world" where
  "page_after evs cs = snd (run_state (page_run (page_busy plain_page page_env cs) page_env evs) (page_init, page_world))"

definition stable_event :: "string \<Rightarrow> ievent" where
  "stable_event t = PageMessage (cmd_msg ''__TRANSCRIPT_STABLE__'' [(js ''full'', JStr (js t))])"

definition status_event :: "string \<Rightarrow> ievent" where
  "status_event t = PageMessage (cmd_msg ''__OFFSCREEN_STATUS__'' [(js ''payload'', JObj [(js ''state'', JStr (js t))])])"

text \<open>
  The number of sentences shown outlives a capture: the text of the next one begins again, and its first
  sentences are not logged (here a sentence of the first capture is shown, the one of the second is not).
\<close>

lemma second_capture_skipped:
  "row_texts (fst (page_after [PageMessage (cmd_msg ''__PANEL_MOUNT__'' []), PageStart, status_event ''running'', stable_event ''One. Two. '',
     status_event ''stopped'', PageStart, status_event ''running'', stable_event ''Three. Four. ''] [])) = [js ''One.'']"
  by code_simp

text \<open>A panel that is closed while a start waits for the storage still starts the capture, and counts as starting when it is mounted again.\<close>

definition starts_sent :: "out list \<Rightarrow> nat" where
  "starts_sent xs = length (filter (\<lambda>x. case x of ToRuntime m \<Rightarrow> fld m ''__cmd'' = JStr (js ''__PANEL_START__'') | _ \<Rightarrow> False) xs)"

definition once_stored :: "page_panel \<times> world \<Rightarrow> ievent list" where
  "once_stored x = (if truthy (obj_get (w_store (snd x)) (js ''sttServerWs'')) \<and> starts_sent (w_out (snd x)) = 0 then [PageClose] else [])"

lemma closed_still_starts:
  "case page_after [PageMessage (cmd_msg ''__PANEL_MOUNT__'' []), PageInput (js ''wss://h'') [], PageStart] [once_stored] of (s, w) \<Rightarrow>
     \<not> ip_mounted s \<and> ip_starting s \<and> starts_sent (w_out w) = 1"
  by code_simp

end
