(* ===== verification/Panel_Shell.thy ===== *)
theory Panel_Shell
  imports Panel_Events
begin

section \<open>sidepanel.js: the page around the views\<close>

text \<open>
  The side panel shows one of three views, windows over them, the greeting of the user, and controls that are
  locked.  \<open>sh_panel\<close> are the variables of the chat; what the user does there are events of \<open>Panel_Events\<close>.
  An answer that is waited for (the address of the tab, the stored profile, a transcript) comes as an event of
  its own, so that anything may happen before it.  A transition of the picker that hides it after 150
  milliseconds is left out: it is closed when its class \<open>is-open\<close> goes.
\<close>

datatype side_view = ChatView | TranscriptView | HistoryView

record shell =
  sh_panel :: panel
  sh_views :: "side_view list"
  sh_nav :: "side_view list"
  sh_focus :: bool
  sh_hint :: bool
  sh_scrollbar :: bool
  sh_detail :: "(ustr \<times> ustr \<times> ustr) option"
  sh_restore :: bool
  sh_frame :: bool
  sh_collapsed :: bool
  sh_fullscreen :: bool
  sh_header :: ustr
  sh_greeting :: ustr
  sh_plan :: ustr
  sh_loginHidden :: bool
  sh_landing :: rat
  sh_error :: "ustr option"
  sh_settings :: bool
  sh_playing :: bool
  sh_timer :: bool
  sh_flip :: nat
  sh_image :: ustr

type_synonym 'a sact = "(shell, 'a) action"

subsection \<open>The chat view\<close>

definition syncChatFocusMode :: "shell \<Rightarrow> shell" where
  "syncChatFocusMode s = s\<lparr>sh_focus := p_bubbles (sh_panel s) \<noteq> [], sh_hint := p_bubbles (sh_panel s) = []\<rparr>"

text \<open>A handler of the chat; the functions that add or clear bubbles end with \<open>syncChatFocusMode\<close>.\<close>

definition on_panel :: "'a pact \<Rightarrow> 'a sact" where
  "on_panel m = State (\<lambda>(s, w).
     (case run_state m (sh_panel s, w) of
        (a, p, w') \<Rightarrow>
          (let s' = s\<lparr>sh_panel := p\<rparr> in (a, if p_bubbles p \<noteq> p_bubbles (sh_panel s) then syncChatFocusMode s' else s', w'))))"

definition showChatScrollbarTemporarily :: "bool \<Rightarrow> shell \<Rightarrow> shell" where
  "showChatScrollbarTemporarily overflows s = s\<lparr>sh_scrollbar := overflows\<rparr>"

subsection \<open>The window of a source\<close>

definition SOURCE_LOADING :: ustr where
  "SOURCE_LOADING = [272] @ js ''ang t'' @ [7843] @ js ''i n'' @ [7897] @ js ''i dung transcript...''"

definition SOURCE_FAILED :: ustr where
  "SOURCE_FAILED = js ''Kh'' @ [244] @ js ''ng t'' @ [7843] @ js ''i '' @ [273, 432, 7907] @ js ''c n'' @ [7897] @ js ''i dung transcript.''"

definition detail_meta :: "env \<Rightarrow> local_time \<Rightarrow> jsval \<Rightarrow> rat \<Rightarrow> ustr" where
  "detail_meta e lt it ms =
     js ''Website: '' @ to_str (js_or (fld it ''tab_url'') (JStr (ragDomainFrom e it))) @ js '' - B'' @ [7855] @ js ''t '' @ [273, 7847] @ js ''u: '' @
     ragFormatDateTime e lt (fld it ''started_at'') @ js '' - T'' @ [7893] @ js ''ng th'' @ [7901] @ js ''i gian: '' @ ragFormatDurationMs ms"

definition openChatRagDetailSkeleton :: "env \<Rightarrow> local_time \<Rightarrow> jsval \<Rightarrow> unit sact" where
  "openChatRagDetailSkeleton e lt it = do {
     ms \<leftarrow> onw (ragCalcDurationMs e it);
     mods (\<lambda>s. s\<lparr>sh_detail := Some (ragDomainFrom e it, detail_meta e lt it ms, SOURCE_LOADING)\<rparr>) }"

text \<open>The texts are written whether the window is still open or not; a closed one shows nothing.\<close>

definition fillChatRagDetail :: "env \<Rightarrow> local_time \<Rightarrow> jsval \<Rightarrow> ustr \<Rightarrow> unit sact" where
  "fillChatRagDetail e lt it full = do {
     ms \<leftarrow> onw (ragCalcDurationMs e it);
     mods (\<lambda>s. case sh_detail s of None \<Rightarrow> s
               | Some x \<Rightarrow> s\<lparr>sh_detail := Some (ragDomainFrom e it, detail_meta e lt it ms, str_or full UPDATING_TEXT)\<rparr>) }"

text \<open>\<open>sh_frame\<close>: the picker is opened again at the next frame.\<close>

definition closeChatRagDetailModal :: "bool \<Rightarrow> shell \<Rightarrow> shell" where
  "closeChatRagDetailModal reopenPicker s =
     s\<lparr>sh_detail := None, sh_restore := False, sh_frame := sh_frame s \<or> (reopenPicker \<and> sh_restore s)\<rparr>"

definition rag_detail_begin :: "env \<Rightarrow> local_time \<Rightarrow> jnum \<Rightarrow> unit sact" where
  "rag_detail_begin e lt sid =
     (if \<not> truthy (JNum sid) then skip
      else do {
        base \<leftarrow> gets (\<lambda>s. base_item (p_rag (sh_panel s)) sid);
        u \<leftarrow> mods (\<lambda>s. s\<lparr>sh_restore := rg_open (p_rag (sh_panel s)), sh_panel := on_rag (\<lambda>g. g\<lparr>rg_open := False\<rparr>) (sh_panel s)\<rparr>);
        openChatRagDetailSkeleton e lt base })"

text \<open>What follows the answer; \<open>None\<close> when there is no detail.\<close>

definition rag_detail_end :: "env \<Rightarrow> local_time \<Rightarrow> jsval \<Rightarrow> detail option \<Rightarrow> unit sact" where
  "rag_detail_end e lt base d =
     (case d of
        None \<Rightarrow> fillChatRagDetail e lt base SOURCE_FAILED
      | Some x \<Rightarrow>
          if d_code x = ''AUTH_REQUIRED'' then mods (closeChatRagDetailModal False)
          else fillChatRagDetail e lt (js_or (d_item x) base) (d_full x))"

subsection \<open>Views\<close>

definition leave_chat :: "shell \<Rightarrow> shell" where
  "leave_chat s =
     closeChatRagDetailModal False
       (s\<lparr>sh_focus := False, sh_scrollbar := False,
          sh_panel := on_rag (\<lambda>g. g\<lparr>rg_open := False\<rparr>) (closeChatConversationsPanel (sh_panel s))\<rparr>)"

definition updateTranscriptHeaderUrl :: "env \<Rightarrow> unit sact" where
  "updateTranscriptHeaderUrl e = do { r \<leftarrow> onw (emit e (Browser ''tabs.query'' JUndef)); skip }"

definition HEADER_UNKNOWN :: ustr where
  "HEADER_UNKNOWN = js ''Website: (kh'' @ [244] @ js ''ng x'' @ [225] @ js ''c '' @ [273, 7883] @ js ''nh)''"

definition header_read :: "jsval \<Rightarrow> shell \<Rightarrow> shell" where
  "header_read tab s =
     (let url = fld tab ''url'' in s\<lparr>sh_header := if truthy url then js ''Website: '' @ to_str url else HEADER_UNKNOWN\<rparr>)"

definition showView :: "env \<Rightarrow> side_view \<Rightarrow> unit sact" where
  "showView e v = do {
     u \<leftarrow> mods (\<lambda>s. s\<lparr>sh_views := [v], sh_nav := [v]\<rparr>);
     y \<leftarrow> mods (if v \<noteq> ChatView then leave_chat else syncChatFocusMode);
     z \<leftarrow> whenA (v = TranscriptView) (updateTranscriptHeaderUrl e);
     whenA (v = HistoryView) (do { r \<leftarrow> onw (emit e (Browser ''historyController.onViewShown'' JUndef)); skip }) }"

definition setCollapsed :: "shell \<Rightarrow> shell" where
  "setCollapsed s = s\<lparr>sh_fullscreen := False, sh_collapsed := True\<rparr>"

definition setFullscreen :: "shell \<Rightarrow> shell" where
  "setFullscreen s = s\<lparr>sh_collapsed := False, sh_fullscreen := True\<rparr>"

subsection \<open>The user\<close>

definition HELLO :: ustr where
  "HELLO = js ''Xin ch'' @ [224] @ js ''o''"

text \<open>The bar below, from the stored profile.\<close>

definition greeting_read :: "jsval \<Rightarrow> shell \<Rightarrow> shell" where
  "greeting_read p s =
     (let name = trim (to_str (js_ors [fld p ''full_name'', fld p ''name'', fld p ''email'', JStr []]));
          plan = str_or (trim (to_str (js_ors [fld p ''plan'', fld p ''subscription_plan'', fld p ''tier'', JStr (js ''Free'')]))) (js ''Free'')
      in s\<lparr>sh_greeting := if name \<noteq> [] then HELLO @ js '', '' @ name else HELLO, sh_plan := plan, sh_loginHidden := profile_ok p\<rparr>)"

text \<open>The note of the worker that a sign-in is needed: it counts for five minutes and is removed.\<close>

definition need_recent :: "rat \<Rightarrow> jsval \<Rightarrow> bool" where
  "need_recent t v \<longleftrightarrow>
     (case to_num v of JFin q \<Rightarrow> t - q < 5 * 60 * 1000 | JPosInf \<Rightarrow> True | _ \<Rightarrow> False)"

definition check_need_auth :: "env \<Rightarrow> unit sact" where
  "check_need_auth e = do {
     need \<leftarrow> onw (store_get ''vtNeedAuth'');
     whenA (truthy need) (do {
       whenA (truthy (fld need ''at'')) (do {
         t \<leftarrow> onw (Date_now e);
         whenA (need_recent t (fld need ''at'')) (on_panel (openAuthOverlayFromPanel e)) });
       onw (State (\<lambda>w. ((), w\<lparr>w_store := obj_del (w_store w) (js ''vtNeedAuth'')\<rparr>))) }) }"

definition LANDING_URL :: ustr where
  "LANDING_URL = js ''https://maianhtruong.github.io/page_vtranser/''"

text \<open>The page of the product, at most once in 700 milliseconds; when the browser refuses a tab, a window, and the own page last.\<close>

definition open_url :: "env \<Rightarrow> ustr \<Rightarrow> unit sact" where
  "open_url e url = do {
     r \<leftarrow> onw (emit e (Browser ''tabs.create'' (JObj [(js ''url'', JStr url)])));
     (case r of
        Inr v \<Rightarrow> skip
      | Inl x \<Rightarrow> do {
          q \<leftarrow> onw (emit e (Browser ''window.open'' (JStr url)));
          (case q of
             Inr v \<Rightarrow> if truthy v then skip else do { y \<leftarrow> onw (emit e (Browser ''location.href'' (JStr url))); skip }
           | Inl z \<Rightarrow> do { y \<leftarrow> onw (emit e (Browser ''location.href'' (JStr url))); skip }) }) }"

definition openLandingPage :: "env \<Rightarrow> unit sact" where
  "openLandingPage e = do {
     t \<leftarrow> onw (Date_now e);
     last \<leftarrow> gets sh_landing;
     whenA (\<not> t - last < 700) (do {
       u \<leftarrow> mods (\<lambda>s. s\<lparr>sh_landing := t\<rparr>);
       (case e_url e LANDING_URL of None \<Rightarrow> skip | Some x \<Rightarrow> open_url e (e_urlstr e x)) }) }"

subsection \<open>The picture of a running capture\<close>

definition refreshPlayGifOnce :: "shell \<Rightarrow> shell" where
  "refreshPlayGifOnce s =
     (if sh_playing s
      then (let f = (sh_flip s + 1) mod 2 in s\<lparr>sh_flip := f, sh_image := js ''icons/play.gif?v='' @ nat_str f\<rparr>) else s)"

definition stopPlayGifLoop :: "shell \<Rightarrow> shell" where
  "stopPlayGifLoop s = s\<lparr>sh_timer := False, sh_image := []\<rparr>"

definition startPlayGifLoop :: "shell \<Rightarrow> shell" where
  "startPlayGifLoop s = (refreshPlayGifOnce (stopPlayGifLoop s))\<lparr>sh_timer := True\<rparr>"

definition setPlayVisual :: "bool \<Rightarrow> shell \<Rightarrow> shell" where
  "setPlayVisual on s = (if on then startPlayGifLoop (s\<lparr>sh_playing := True\<rparr>) else stopPlayGifLoop (s\<lparr>sh_playing := False\<rparr>))"

subsection \<open>Locked controls\<close>

record control =
  ct_title :: "ustr option"
  ct_default :: "ustr option"
  ct_locked :: bool
  ct_disabled :: ustr
  ct_tooltip :: "ustr option"

definition LOCK_TEXT :: ustr where
  "LOCK_TEXT = js ''Vui l'' @ [242] @ js ''ng n'' @ [226] @ js ''ng c'' @ [7845] @ js ''p g'' @ [243] @ js ''i '' @ [273, 7875] @ js '' s'' @ [7917] @ js '' d'' @ [7909] @ js ''ng c'' @ [225] @ js ''c t'' @ [237] @ js ''nh n'' @ [259] @ js ''ng n'' @ [226] @ js ''ng cao''"

definition getDefaultTitleAttr :: "control \<Rightarrow> ustr \<times> control" where
  "getDefaultTitleAttr c =
     (case ct_default c of
        Some t \<Rightarrow> (t, c)
      | None \<Rightarrow> (let t = (case ct_title c of None \<Rightarrow> [] | Some t \<Rightarrow> t) in (t, c\<lparr>ct_default := Some t\<rparr>)))"

definition setLockedControlUi :: "bool \<Rightarrow> control \<Rightarrow> control" where
  "setLockedControlUi locked c =
     (case getDefaultTitleAttr c of
        (t, c1) \<Rightarrow>
          (let c2 = c1\<lparr>ct_locked := locked, ct_disabled := if locked then js ''true'' else js ''false''\<rparr>
           in if locked then c2\<lparr>ct_title := Some LOCK_TEXT, ct_tooltip := Some LOCK_TEXT\<rparr>
              else c2\<lparr>ct_title := if t \<noteq> [] then Some t else None, ct_tooltip := None\<rparr>))"

text \<open>A control that was locked and unlocked, however often, has its title again.\<close>

lemma locked_title_back:
  "ct_default c = None \<Longrightarrow> ct_title (setLockedControlUi False (fold setLockedControlUi bs c)) = (if ct_title c = Some [] then None else ct_title c)"
proof -
  assume "ct_default c = None"
  have kept: "ct_default c' = Some t \<Longrightarrow> ct_default (fold setLockedControlUi bs c') = Some t" for c' t bs
    by (induction bs arbitrary: c') (simp_all add: setLockedControlUi_def getDefaultTitleAttr_def Let_def)
  show ?thesis
  proof (cases bs)
    case Nil
    with \<open>ct_default c = None\<close> show ?thesis
      by (auto simp: setLockedControlUi_def getDefaultTitleAttr_def Let_def split: option.split)
  next
    case (Cons b bs')
    let ?t = "case ct_title c of None \<Rightarrow> [] | Some t \<Rightarrow> t"
    have "ct_default (setLockedControlUi b c) = Some ?t"
      using \<open>ct_default c = None\<close> by (simp add: setLockedControlUi_def getDefaultTitleAttr_def Let_def)
    then have "ct_default (fold setLockedControlUi bs c) = Some ?t" using kept Cons by simp
    then show ?thesis by (auto simp: setLockedControlUi_def getDefaultTitleAttr_def Let_def split: option.split)
  qed
qed

subsection \<open>The handlers of the page\<close>

definition isRagPickerOpen :: "shell \<Rightarrow> bool" where
  "isRagPickerOpen s = rg_open (p_rag (sh_panel s))"

definition closeRagPicker :: "shell \<Rightarrow> shell" where
  "closeRagPicker s = s\<lparr>sh_panel := on_rag (\<lambda>g. g\<lparr>rg_open := False\<rparr>) (sh_panel s)\<rparr>"

text \<open>The three listeners of the escape key, in the order in which they were added.\<close>

definition escape_settings :: "shell \<Rightarrow> shell" where
  "escape_settings s = (if sh_settings s then s\<lparr>sh_settings := False\<rparr> else s)"

definition escape_sources :: "shell \<Rightarrow> shell" where
  "escape_sources s =
     (if sh_detail s \<noteq> None then closeChatRagDetailModal True s else if isRagPickerOpen s then closeRagPicker s else s)"

definition escape_conversations :: "shell \<Rightarrow> shell" where
  "escape_conversations s =
     (let p = sh_panel s in
      if p_delOpen p then s\<lparr>sh_panel := closeChatDeleteModal False p\<rparr>
      else if p_convOpen p then s\<lparr>sh_panel := closeChatConversationsPanel p\<rparr> else s)"

text \<open>A press of the mouse outside of the open windows: \<open>picker\<close> and \<open>convs\<close> say whether it hit them or what opens them.\<close>

definition outside_sources :: "bool \<Rightarrow> shell \<Rightarrow> shell" where
  "outside_sources picker s = (if isRagPickerOpen s \<and> \<not> picker then closeRagPicker s else s)"

definition outside_conversations :: "bool \<Rightarrow> shell \<Rightarrow> shell" where
  "outside_conversations convs s =
     (let p = sh_panel s in
      if p_convOpen p \<and> \<not> p_delOpen p \<and> \<not> convs then s\<lparr>sh_panel := closeChatConversationsPanel p\<rparr> else s)"

text \<open>The key in the text field of the chat, and the button.\<close>

definition chat_key :: "panelcfg \<Rightarrow> env \<Rightarrow> bool \<Rightarrow> bool \<Rightarrow> ustr \<Rightarrow> unit sact" where
  "chat_key pc e enter shift value = whenA (enter \<and> \<not> shift) (on_panel (sendChat pc e value))"

definition chat_button :: "panelcfg \<Rightarrow> env \<Rightarrow> ustr \<Rightarrow> unit sact" where
  "chat_button pc e value = whenA (trim value \<noteq> []) (on_panel (sendChat pc e value))"

datatype sevent =
    Show side_view
  | Chat pevent
  | Key bool bool ustr
  | Button ustr
  | DetailOpen jnum
  | DetailRead jsval "detail option"
  | DetailLeave
  | Frame
  | Escape
  | MouseDown bool bool
  | Scroll bool
  | ScrollEnd
  | HeaderRead jsval
  | ProfileRead jsval
  | NeedAuthCheck
  | Landing
  | Login
  | Collapse
  | Fullscreen
  | SettingsShown bool
  | ErrorShown ustr
  | ErrorHidden
  | Play bool
  | PlayTick

fun shell_step :: "panelcfg \<Rightarrow> env \<Rightarrow> sevent \<Rightarrow> unit sact" where
  "shell_step pc e (Show v) = showView e v"
| "shell_step pc e (Chat ev) = on_panel (panel_step pc e ev)"
| "shell_step pc e (Key enter shift value) = chat_key pc e enter shift value"
| "shell_step pc e (Button value) = chat_button pc e value"
| "shell_step pc e (DetailOpen sid) = rag_detail_begin e (pc_local pc) sid"
| "shell_step pc e (DetailRead base d) = rag_detail_end e (pc_local pc) base d"
| "shell_step pc e DetailLeave = mods (closeChatRagDetailModal True)"
| "shell_step pc e Frame = do {
     due \<leftarrow> gets sh_frame;
     whenA due (do { u \<leftarrow> mods (\<lambda>s. s\<lparr>sh_frame := False\<rparr>); on_panel (openRagPicker pc e False) }) }"
| "shell_step pc e Escape = mods (\<lambda>s. escape_conversations (escape_sources (escape_settings s)))"
| "shell_step pc e (MouseDown picker convs) = mods (\<lambda>s. outside_conversations convs (outside_sources picker s))"
| "shell_step pc e (Scroll overflows) = mods (showChatScrollbarTemporarily overflows)"
| "shell_step pc e ScrollEnd = mods (\<lambda>s. s\<lparr>sh_scrollbar := False\<rparr>)"
| "shell_step pc e (HeaderRead tab) = mods (header_read tab)"
| "shell_step pc e (ProfileRead p) = mods (greeting_read p)"
| "shell_step pc e NeedAuthCheck = check_need_auth e"
| "shell_step pc e Landing = openLandingPage e"
| "shell_step pc e Login = on_panel (openAuthOverlayFromPanel e)"
| "shell_step pc e Collapse = mods setCollapsed"
| "shell_step pc e Fullscreen = mods setFullscreen"
| "shell_step pc e (SettingsShown b) = mods (\<lambda>s. s\<lparr>sh_settings := b\<rparr>)"
| "shell_step pc e (ErrorShown t) = mods (\<lambda>s. s\<lparr>sh_error := Some t\<rparr>)"
| "shell_step pc e ErrorHidden = mods (\<lambda>s. s\<lparr>sh_error := None\<rparr>)"
| "shell_step pc e (Play on) = mods (setPlayVisual on)"
| "shell_step pc e PlayTick = mods (\<lambda>s. if sh_timer s then refreshPlayGifOnce s else s)"

fun shell_run :: "panelcfg \<Rightarrow> env \<Rightarrow> sevent list \<Rightarrow> unit sact" where
  "shell_run pc e [] = skip"
| "shell_run pc e (ev # evs) = do { u \<leftarrow> shell_step pc e ev; shell_run pc e evs }"

definition blank_shell :: shell where
  "blank_shell =
     \<lparr>sh_panel = blank_panel, sh_views = [], sh_nav = [], sh_focus = False, sh_hint = False, sh_scrollbar = False, sh_detail = None,
      sh_restore = False, sh_frame = False, sh_collapsed = False, sh_fullscreen = False, sh_header = [], sh_greeting = [],
      sh_plan = [], sh_loginHidden = False, sh_landing = 0, sh_error = None, sh_settings = False, sh_playing = False,
      sh_timer = False, sh_flip = 0, sh_image = []\<rparr>"

text \<open>The page opens with the transcript.\<close>

definition shell_init :: "env \<Rightarrow> world \<Rightarrow> shell \<times> world" where
  "shell_init e w = snd (run_state (showView e TranscriptView) (blank_shell, w))"


subsection \<open>What the page promises\<close>

definition shell_ok :: "shell \<Rightarrow> bool" where
  "shell_ok s \<longleftrightarrow>
     (\<exists>v. sh_views s = [v] \<and> sh_nav s = [v]) \<and> \<not> (sh_collapsed s \<and> sh_fullscreen s) \<and>
     sh_timer s = sh_playing s \<and> (sh_image s \<noteq> []) = sh_playing s"

lemma ok_parts:
  "shell_ok (syncChatFocusMode s) = shell_ok s" "shell_ok (s\<lparr>sh_panel := p\<rparr>) = shell_ok s" "shell_ok (closeChatRagDetailModal b s) = shell_ok s"
  "shell_ok (s\<lparr>sh_detail := d\<rparr>) = shell_ok s" "shell_ok (s\<lparr>sh_frame := b\<rparr>) = shell_ok s" "shell_ok (closeRagPicker s) = shell_ok s"
  "shell_ok (leave_chat s) = shell_ok s" "shell_ok (s\<lparr>sh_restore := b, sh_panel := p\<rparr>) = shell_ok s" "shell_ok (s\<lparr>sh_landing := t\<rparr>) = shell_ok s"
  "shell_ok (s\<lparr>sh_restore := b\<rparr>) = shell_ok s" "shell_ok (header_read v s) = shell_ok s" "shell_ok (greeting_read v s) = shell_ok s" "shell_ok (s\<lparr>sh_settings := b\<rparr>) = shell_ok s"
  "shell_ok (s\<lparr>sh_error := x\<rparr>) = shell_ok s" "shell_ok (s\<lparr>sh_scrollbar := b\<rparr>) = shell_ok s" "shell_ok (showChatScrollbarTemporarily b s) = shell_ok s"
  by (simp_all add: shell_ok_def syncChatFocusMode_def closeChatRagDetailModal_def closeRagPicker_def leave_chat_def header_read_def
      greeting_read_def showChatScrollbarTemporarily_def Let_def)

lemma ok_moves:
  "shell_ok s \<Longrightarrow> shell_ok (setCollapsed s)" "shell_ok s \<Longrightarrow> shell_ok (setFullscreen s)" "shell_ok s \<Longrightarrow> shell_ok (setPlayVisual b s)"
  "shell_ok s \<Longrightarrow> shell_ok (refreshPlayGifOnce s)" "shell_ok s \<Longrightarrow> shell_ok (escape_conversations (escape_sources (escape_settings s)))"
  "shell_ok s \<Longrightarrow> shell_ok (outside_conversations b (outside_sources c s))"
  by (auto simp: setPlayVisual_def startPlayGifLoop_def stopPlayGifLoop_def refreshPlayGifOnce_def setCollapsed_def setFullscreen_def
      escape_conversations_def escape_sources_def escape_settings_def outside_conversations_def outside_sources_def ok_parts Let_def)
    (auto simp: shell_ok_def js_def)

lemma keeps_on_panel [keeps_intros]: "keeps shell_ok (on_panel m)"
  by (auto simp: keeps_def on_panel_def ok_parts Let_def split: prod.split)

lemma keeps_details [keeps_intros]: "keeps shell_ok (openChatRagDetailSkeleton e lt it)" "keeps shell_ok (fillChatRagDetail e lt it t)"
  unfolding openChatRagDetailSkeleton_def fillChatRagDetail_def
  by (intro keeps_intros keeps_mods; simp add: ok_parts split: option.split)+

lemma keeps_detail_steps [keeps_intros]: "keeps shell_ok (rag_detail_begin e lt sid)" "keeps shell_ok (rag_detail_end e lt base d)"
  unfolding rag_detail_begin_def rag_detail_end_def
  by (auto intro!: keeps_intros keeps_mods simp: ok_parts split: option.split)

lemma leads_showView: "leads (\<lambda>s. \<not> (sh_collapsed s \<and> sh_fullscreen s) \<and> sh_timer s = sh_playing s \<and> (sh_image s \<noteq> []) = sh_playing s)
    (showView e v) shell_ok"
proof -
  have tail: "keeps shell_ok (do {
      y \<leftarrow> mods (if v \<noteq> ChatView then leave_chat else syncChatFocusMode);
      z \<leftarrow> whenA (v = TranscriptView) (updateTranscriptHeaderUrl e);
      whenA (v = HistoryView) (do { r \<leftarrow> onw (emit e (Browser ''historyController.onViewShown'' JUndef)); skip }) })"
    unfolding updateTranscriptHeaderUrl_def by (intro keeps_intros keeps_mods) (simp add: ok_parts)
  show ?thesis
    unfolding showView_def
    by (rule leads_bind [OF leads_mods leads_keeps [OF tail]]) (simp add: shell_ok_def)
qed

lemma keeps_showView [keeps_intros]: "keeps shell_ok (showView e v)"
  using leads_showView [of e v] by (auto simp: keeps_def leads_def shell_ok_def)

lemma keeps_landing [keeps_intros]: "keeps shell_ok (openLandingPage e)" "keeps shell_ok (check_need_auth e)"
  unfolding openLandingPage_def open_url_def check_need_auth_def by (auto intro!: keeps_intros keeps_mods simp: ok_parts split: option.split sum.split)

lemma keeps_shell_step: "keeps shell_ok (shell_step pc e ev)"
  by (cases ev; simp only: shell_step.simps chat_key_def chat_button_def; intro keeps_intros keeps_mods; simp add: ok_parts ok_moves)

lemma keeps_shell_run: "keeps shell_ok (shell_run pc e evs)"
  by (induction evs) (auto intro: keeps_intros keeps_shell_step)

text \<open>After any events one view is shown, its button is the active one, and the picture of a running capture moves exactly while it is shown.\<close>

lemma page_invariant:
  "case run_state (shell_run pc e evs) (shell_init e w) of (_, s, w' :: world) \<Rightarrow> shell_ok s"
proof -
  have "shell_ok (fst (shell_init e w))"
    using leads_showView [of e TranscriptView] by (simp add: leads_def shell_init_def blank_shell_def)
  then show ?thesis using keeps_shell_run [of pc e evs] by (auto simp: keeps_def split: prod.split) (metis fst_conv snd_conv surjective_pairing)
qed

text \<open>The page of the product is opened only 700 milliseconds after the last time, and the time is kept.\<close>

lemma landing_spaced:
  assumes "run_state (openLandingPage e) (s, w) = ((), s', w')"
  shows "(w_out w' = w_out w \<and> s' = s) \<or> (sh_landing s + 700 \<le> e_now e (w_ticks w) \<and> sh_landing s' = e_now e (w_ticks w))"
  using assms by (auto simp: openLandingPage_def open_url_def run_emit split: if_splits option.splits sum.splits prod.splits)

text \<open>The note of the worker opens the log-in at most once.\<close>

lemma need_auth_once:
  assumes "run_state (check_need_auth e) (s, w) = ((), s1, w1)" and "run_state (check_need_auth e) (s1, w1) = ((), s2, w2)"
  shows "w_out w2 = w_out w1"
proof -
  have none: "\<not> truthy (obj_get (w_store w1) (js ''vtNeedAuth''))"
  proof (cases "truthy (obj_get (w_store w) (js ''vtNeedAuth''))")
    case True
    then show ?thesis using assms(1) by (auto simp: check_need_auth_def obj_get_def split: prod.splits if_splits)
  qed (use assms(1) in \<open>simp add: check_need_auth_def\<close>)
  then show ?thesis using assms(2) by (simp add: check_need_auth_def)
qed

text \<open>
  The answers for two sources may come in the other order: the window that was opened for the second then shows the
  first.
\<close>

definition source_at :: "string \<Rightarrow> jsval" where
  "source_at d = JObj [(js ''tab_domain'', JStr (js d)), (js ''ended_at'', JStr (js ''x''))]"

definition source_detail :: "string \<Rightarrow> detail option" where
  "source_detail d = Some \<lparr>d_ok = True, d_code = [], d_item = source_at d, d_full = js d\<rparr>"

definition plain_panel :: panelcfg where
  "plain_panel = \<lparr>pc_other = (\<lambda>x. x), pc_runtime = True, pc_storage = True, pc_stream = (\<lambda>h r. Refused []), pc_uid = (\<lambda>n. []),
     pc_pretty = (\<lambda>v. []), pc_local = (\<lambda>t. (0, 0, 0, 0, 0, 0)), pc_cmp = (\<lambda>a b. 0)\<rparr>"

lemma late_source_shown:
  "map_option (\<lambda>(title, meta, text). (title, text))
     (sh_detail (fst (snd (run_state (shell_run plain_panel (example_env (\<lambda>h r. Inl []) (\<lambda>s. None))
       [DetailOpen (JFin 7), DetailLeave, DetailOpen (JFin 8), DetailRead (source_at ''b'') (source_detail ''b''),
        DetailRead (source_at ''a'') (source_detail ''a'')]) (blank_shell, blank_world))))) = Some (js ''a'', js ''a'')"
  by code_simp

end
