(* ===== verification/Panel_Html.thy ===== *)
theory Panel_Html
  imports Panel_Chat Panel_Rag History_View
begin

section \<open>Texts inside markup\<close>

text \<open>
  The side panel writes most of what it shows as HTML text into \<open>innerHTML\<close>: bubbles, lines of the transcript,
  conversations, sources, recorded transcripts.  Their texts come from pages, from the speech server and from
  the chat server.  A template literal is the list of its pieces: those of the program, texts that go
  through \<open>escapeHtml\<close>, and numbers.  White space between the tags of a template is left out.
\<close>

subsection \<open>Escaping\<close>

definition esc_char :: "nat \<Rightarrow> ustr" where
  "esc_char c =
     (if c = 38 then js ''&amp;'' else if c = 60 then js ''&lt;'' else if c = 62 then js ''&gt;''
      else if c = 34 then js ''&quot;'' else if c = 39 then js ''&#39;'' else [c])"

definition escapeHtml :: "ustr \<Rightarrow> ustr" where
  "escapeHtml s = concat (map esc_char s)"

text \<open>The browser's reading of the five references.\<close>

fun unescape :: "ustr \<Rightarrow> ustr" where
  "unescape [] = []"
| "unescape (c # s) =
     (if c \<noteq> 38 then c # unescape s
      else if prefix (js ''amp;'') s then 38 # unescape (drop 4 s)
      else if prefix (js ''lt;'') s then 60 # unescape (drop 3 s)
      else if prefix (js ''gt;'') s then 62 # unescape (drop 3 s)
      else if prefix (js ''quot;'') s then 34 # unescape (drop 5 s)
      else if prefix (js ''#39;'') s then 39 # unescape (drop 4 s)
      else c # unescape s)"

lemma unescape_char: "unescape (esc_char c @ s) = c # unescape s"
  by (simp add: esc_char_def js_def)

lemma unescape_escape: "unescape (escapeHtml s @ r) = s @ unescape r"
  by (induction s) (simp_all add: escapeHtml_def unescape_char)

subsection \<open>Templates\<close>

datatype part =
    Raw ustr
  | Txt ustr
  | Num jnum

text \<open>A piece of a template, with a grave accent for a double quote.\<close>

definition raw :: "string \<Rightarrow> ustr" where
  "raw s = map (\<lambda>c. if c = 96 then 34 else c) (js s)"

fun part_html :: "part \<Rightarrow> ustr" where
  "part_html (Raw r) = r"
| "part_html (Txt t) = escapeHtml t"
| "part_html (Num n) = jnum_str n"

definition html :: "part list \<Rightarrow> ustr" where
  "html ps = concat (map part_html ps)"

lemma html_simps [simp]: "html [] = []" "html (p # ps) = part_html p @ html ps" "html (ps @ qs) = html ps @ html qs"
  by (simp_all add: html_def)

text \<open>A template with its texts and numbers taken out.\<close>

fun blank_part :: "part \<Rightarrow> part" where
  "blank_part (Raw r) = Raw r"
| "blank_part (Txt t) = Txt []"
| "blank_part (Num n) = Txt []"

subsection \<open>What a browser takes for markup\<close>

text \<open>
  The states of the tokenizer in which text can stand: between tags, in a tag, in a quoted attribute.
  \<open>html_scan\<close> gives what it reads as markup: the marks, and all that stands in a tag outside of quotes.
\<close>

datatype mode = Data | Tag | Quoted

fun html_scan :: "mode \<Rightarrow> ustr \<Rightarrow> ustr \<times> mode" where
  "html_scan m [] = ([], m)"
| "html_scan Data (c # cs) = (if c = 60 then (case html_scan Tag cs of (x, m) \<Rightarrow> (c # x, m)) else html_scan Data cs)"
| "html_scan Tag (c # cs) = (case html_scan (if c = 62 then Data else if c = 34 then Quoted else Tag) cs of (x, m) \<Rightarrow> (c # x, m))"
| "html_scan Quoted (c # cs) = (if c = 34 then (case html_scan Tag cs of (x, m) \<Rightarrow> (c # x, m)) else html_scan Quoted cs)"

lemma html_scan_append: "html_scan m (a @ b) = (case html_scan m a of (x, m1) \<Rightarrow> case html_scan m1 b of (y, m2) \<Rightarrow> (x @ y, m2))"
  by (induction m a rule: html_scan.induct) (auto split: prod.splits if_splits)

lemma html_scan_plain: "m \<noteq> Tag \<Longrightarrow> list_all (\<lambda>c. c \<noteq> 60 \<and> c \<noteq> 34) s \<Longrightarrow> html_scan m s = ([], m)"
  by (induction m s rule: html_scan.induct) auto

lemma escape_plain: "list_all (\<lambda>c. c \<noteq> 60 \<and> c \<noteq> 34) (escapeHtml s)"
  by (induction s) (simp_all add: escapeHtml_def esc_char_def js_def)

lemma number_plain: "list_all (\<lambda>c. c \<noteq> 60 \<and> c \<noteq> 34) (jnum_str n)"
proof -
  let ?P = "\<lambda>c :: nat. c \<noteq> 60 \<and> c \<noteq> 34"
  have d: "list_all ?P (nat_str k)" for k
    using nat_str_digits [of k] by (auto simp: list_all_iff is_digit_def)
  have w: "x \<in> set (dropWhile (\<lambda>c. c = 48) (rev (nat_str k))) \<Longrightarrow> ?P x" for x k
    using d [of k] set_dropWhileD [of x _ "rev (nat_str k)"] by (auto simp: list_all_iff)
  have s: "list_all ?P (strip_zeros (nat_str k))" for k
    using w [of _ k] by (auto simp: strip_zeros_def list_all_iff)
  have l: "list_all ?P ds \<Longrightarrow> list_all ?P (layout_digits ds i)" for ds i
    using d by (auto simp: layout_digits_def Let_def zeros_def list_all_iff dest: in_set_takeD in_set_dropD)
  show ?thesis
    using d s l by (cases n) (simp_all add: rat_str_def int_str_def Let_def js_def)
qed

text \<open>The state behind a template whose texts stand between tags or in quoted attributes.\<close>

fun mode_after :: "mode \<Rightarrow> ustr \<Rightarrow> mode" where
  "mode_after m [] = m"
| "mode_after Data (c # cs) = mode_after (if c = 60 then Tag else Data) cs"
| "mode_after Tag (c # cs) = mode_after (if c = 62 then Data else if c = 34 then Quoted else Tag) cs"
| "mode_after Quoted (c # cs) = mode_after (if c = 34 then Tag else Quoted) cs"

fun mode_end :: "mode \<Rightarrow> part list \<Rightarrow> mode option" where
  "mode_end m [] = Some m"
| "mode_end m (Raw r # ps) = mode_end (mode_after m r) ps"
| "mode_end m (Txt t # ps) = (if m = Tag then None else mode_end m ps)"
| "mode_end m (Num n # ps) = (if m = Tag then None else mode_end m ps)"

lemma mode_after_scan: "mode_after m s = snd (html_scan m s)"
  by (induction m s rule: mode_after.induct) (auto split: prod.split)

lemma escape_nil [simp]: "escapeHtml [] = []"
  by (simp add: escapeHtml_def)

lemma mode_end_blank: "mode_end m (map blank_part ps) = mode_end m ps"
  by (induction m ps rule: mode_end.induct) simp_all

lemma mode_end_append: "mode_end m (ps @ qs) = Option.bind (mode_end m ps) (\<lambda>k. mode_end k qs)"
  by (induction m ps rule: mode_end.induct) simp_all

lemma mode_end_scan: "mode_end m ps = Some k \<Longrightarrow> html_scan m (html ps) = (fst (html_scan m (html (map blank_part ps))), k)"
  by (induction m ps rule: mode_end.induct)
    (auto simp: html_scan_append html_scan_plain escape_plain number_plain mode_after_scan split: prod.splits if_splits)

text \<open>Templates that lead from one place between tags to another.\<close>

definition well_formed :: "part list \<Rightarrow> bool" where
  "well_formed ps \<longleftrightarrow> mode_end Data ps = Some Data"

lemma well_formed_blank: "mode_end Data (map blank_part ps) = Some Data \<Longrightarrow> well_formed ps"
  by (simp add: well_formed_def mode_end_blank)

lemma well_formed_append: "well_formed ps \<Longrightarrow> well_formed qs \<Longrightarrow> well_formed (ps @ qs)"
  by (simp add: well_formed_def mode_end_append)

lemma well_formed_nil: "well_formed []"
  by (simp add: well_formed_def)

lemma well_formed_if: "well_formed ps \<Longrightarrow> well_formed qs \<Longrightarrow> well_formed (if b then ps else qs)"
  by simp

lemma well_formed_concat: "list_all well_formed pss \<Longrightarrow> well_formed (concat pss)"
  by (induction pss) (simp_all add: well_formed_nil well_formed_append)

text \<open>What the browser reads as markup does not depend on the texts.\<close>

definition inert :: "part list \<Rightarrow> bool" where
  "inert ps \<longleftrightarrow> html_scan Data (html ps) = (fst (html_scan Data (html (map blank_part ps))), Data)"

lemma well_formed_inert: "well_formed ps \<Longrightarrow> inert ps"
  by (simp add: well_formed_def inert_def mode_end_scan)

subsection \<open>The templates of the panel\<close>

definition bubble_parts :: "ustr \<Rightarrow> ustr \<Rightarrow> part list" where
  "bubble_parts t meta =
     Txt t # (if meta \<noteq> [] then [Raw (raw ''<span class=`meta`>''), Txt meta, Raw (raw ''</span>'')] else [])"

definition answer_parts :: "ustr \<Rightarrow> ustr \<Rightarrow> part list" where
  "answer_parts t meta = [Txt t, Raw (raw ''<span class=`meta`>''), Txt meta, Raw (raw ''</span>'')]"

definition transcript_parts :: "ustr \<Rightarrow> ustr \<Rightarrow> part list" where
  "transcript_parts t meta =
     [Raw (raw ''<div class=`text-block`><p>''), Txt t, Raw (raw ''</p><span class=`speaker-info`>''), Txt meta, Raw (raw ''</span></div>'')]"

definition conv_parts :: "ustr \<Rightarrow> conv \<Rightarrow> part list" where
  "conv_parts current c =
     (let active = Raw (if c_sid c = current then raw '' active'' else []) in
      [Raw (raw ''<div class=`chat-conv-row''), active, Raw (raw ''` data-chat-conv-row=`''), Txt (c_sid c),
       Raw (raw ''`><button class=`chat-conv-item''), active, Raw (raw ''` type=`button` data-chat-session-id=`''), Txt (c_sid c),
       Raw (raw ''`><p class=`chat-conv-item-title`>''), Txt (str_or (c_title c) CONVERSATION), Raw (raw ''</p>'')] @
      (if c_preview c \<noteq> [] then [Raw (raw ''<p class=`chat-conv-item-preview`>''), Txt (c_preview c), Raw (raw ''</p>'')] else []) @
      (if c_time c \<noteq> []
       then [Raw (raw ''<div class=`chat-conv-item-time`>''), Txt (c_time c)] @
            (if truthy (JNum (c_count c)) then [Raw (js '' '' @ [8226] @ js '' ''), Num (c_count c)] else []) @ [Raw (raw ''</div>'')]
       else []) @
      [Raw (raw ''</button><button class=`chat-conv-delete-btn` type=`button` data-chat-delete-session-id=`''), Txt (c_sid c),
       Raw (raw ''` aria-label=`X'' @ [243] @ raw ''a cu'' @ [7897] @ raw ''c tr'' @ [242] @ raw '' chuy'' @ [7879] @ raw ''n` title=`X'' @ [243] @ raw ''a cu'' @ [7897] @ raw ''c tr'' @ [242] @ raw '' chuy'' @ [7879] @ raw ''n`>&times;</button></div>'')])"

definition conv_list :: "ustr \<Rightarrow> conv list \<Rightarrow> part list" where
  "conv_list current rows = concat (map (conv_parts current) rows)"

definition card_parts :: "card \<Rightarrow> part list" where
  "card_parts c =
     [Raw (raw ''<div class=`history-item-top`><span class=`history-item-domain`>''), Txt (cd_domain c),
      Raw (raw ''</span><div class=`history-item-right`><span class=`history-item-time`>''), Txt (cd_started c),
      Raw (raw ''</span><button type=`button` class=`history-item-delete-btn` data-history-delete=`1` data-session-id=`''), Num (cd_id c),
      Raw (raw ''` aria-label=`X'' @ [243] @ raw ''a b'' @ [7843] @ raw ''n ghi n'' @ [224] @ raw ''y` ''), Raw (if cd_deleting c then raw ''disabled'' else []), Raw (raw ''>''),
      Raw (if cd_deleting c then [272] @ js ''ang x'' @ [243] @ js ''a...'' else js ''X'' @ [243] @ js ''a''),
      Raw (raw ''</button></div></div><div class=`history-item-meta`><span>T'' @ [7893] @ raw ''ng th'' @ [7901] @ raw ''i gian: ''), Txt (cd_duration c),
      Raw (raw ''</span><span>Tr'' @ [7841] @ raw ''ng th'' @ [225] @ raw ''i: ''), Txt (cd_status c), Raw (raw ''</span></div><p class=`history-item-preview`>''), Txt (cd_preview c), Raw (raw ''</p>'')]"

subsection \<open>The sources of the chat\<close>

definition rag_label :: "env \<Rightarrow> local_time \<Rightarrow> jsval \<Rightarrow> ustr" where
  "rag_label e lt it = ragDomainFrom e it @ js '' '' @ [8226] @ js '' '' @ ragFormatDateTime e lt (fld it ''started_at'')"

definition bar_ids :: "rag \<Rightarrow> jnum list" where
  "bar_ids g = (if rg_selected g \<noteq> [] then rg_selected g else rg_pinned g)"

definition found_item :: "rag \<Rightarrow> jnum \<Rightarrow> jsval" where
  "found_item g sid = (case findRagItem g sid of None \<Rightarrow> JObj [] | Some it \<Rightarrow> it)"

definition chip_parts :: "env \<Rightarrow> local_time \<Rightarrow> rag \<Rightarrow> jnum \<Rightarrow> part list" where
  "chip_parts e lt g sid =
     (let label = rag_label e lt (found_item g sid) in
      [Raw (raw ''<span class=`chat-rag-selection-chip''), Raw (if sid \<in> set (rg_pinned g) then raw '' pinned'' else []),
       Raw (raw ''` data-rag-open-id=`''), Num sid, Raw (raw ''` title=`''), Txt label, Raw (raw ''`><span class=`chat-rag-selection-chip-text`>''), Txt label,
       Raw (raw ''</span><button class=`chat-rag-selection-remove` type=`button` data-rag-remove-id=`''), Num sid,
       Raw (raw ''` aria-label=`X'' @ [243] @ raw ''a ngu'' @ [7891] @ raw ''n n'' @ [224] @ raw ''y` title=`X'' @ [243] @ raw ''a ngu'' @ [7891] @ raw ''n`>x</button></span>'')])"

text \<open>The bar of the sources; without any it is hidden and empty.\<close>

definition renderChatRagSelectionBar :: "env \<Rightarrow> local_time \<Rightarrow> rag \<Rightarrow> part list option" where
  "renderChatRagSelectionBar e lt g =
     (let ids = bar_ids g in
      if ids = [] then None
      else Some (Raw (raw ''<span class=`chat-rag-selection-label`></span>'') # concat (map (chip_parts e lt g) (take 4 ids)) @
        (if 4 < length ids
         then [Raw (raw ''<span class=`chat-rag-selection-more`>+''), Num (JFin (of_nat (length ids - 4))), Raw (raw ''</span>'')] else [])))"

definition updateRagPickerPinUi :: "bool \<Rightarrow> rag \<Rightarrow> bool" where
  "updateRagPickerPinUi useRag g \<longleftrightarrow> (rg_pinned g \<noteq> [] \<and> useRag) \<or> rg_selected g \<noteq> []"

definition rag_preview :: "rag \<Rightarrow> jsval \<Rightarrow> ustr" where
  "rag_preview g it =
     ragNormalizePreview (pickTranscriptText it
       (case map_of (rg_details g) (item_id it) of None \<Rightarrow> [] | Some d \<Rightarrow> if d_ok d then d_full d else [])) 180"

definition rag_meta :: "rag \<Rightarrow> jsval \<Rightarrow> rat \<Rightarrow> ustr" where
  "rag_meta g it ms =
     js ''T'' @ [7893] @ js ''ng th'' @ [7901] @ js ''i gian: '' @ ragFormatDurationMs ms @ js '' - Tr'' @ [7841] @ js ''ng th'' @ [225] @ js ''i: '' @ ragStatusLabel (fld it ''status'') @
     (if item_id it \<in> set (rg_pinned g) then js '' - '' @ [272, 227] @ js '' ch'' @ [7889] @ js ''t'' else [])"

definition rag_row_parts :: "env \<Rightarrow> local_time \<Rightarrow> rag \<Rightarrow> jsval \<Rightarrow> rat \<Rightarrow> part list" where
  "rag_row_parts e lt g it ms =
     [Raw (raw ''<label class=`rag-item-check-wrap`><input class=`rag-item-check` type=`checkbox` ''),
      Raw (if item_id it \<in> set (rg_selected g) then raw ''checked'' else []),
      Raw (raw '' /></label><div class=`rag-item-main` data-rag-open=`1`><div class=`rag-item-top`><span class=`rag-item-domain`>''),
      Txt (ragDomainFrom e it), Raw (raw ''</span><span class=`rag-item-time`>''), Txt (ragFormatDateTime e lt (fld it ''started_at'')),
      Raw (raw ''</span></div><p class=`rag-item-preview`>''), Txt (rag_preview g it), Raw (raw ''</p><div class=`rag-item-meta`>''), Txt (rag_meta g it ms),
      Raw (raw ''</div></div><button class=`rag-item-open` type=`button` data-rag-open-btn=`1`>Chi ti'' @ [7871] @ raw ''t</button>'')]"

text \<open>The rows of the picker with their ids; a row whose time has no end reads the clock.\<close>

fun rag_rows :: "env \<Rightarrow> local_time \<Rightarrow> rag \<Rightarrow> jsval list \<Rightarrow> (jnum \<times> part list) list prog" where
  "rag_rows e lt g [] = ret []"
| "rag_rows e lt g (it # its) =
     (if \<not> truthy (JNum (item_id it)) then rag_rows e lt g its
      else do {
        ms \<leftarrow> ragCalcDurationMs e it;
        rows \<leftarrow> rag_rows e lt g its;
        ret ((item_id it, rag_row_parts e lt g it ms) # rows) })"

definition NO_SOURCE :: ustr where
  "NO_SOURCE = js ''Kh'' @ [244] @ js ''ng t'' @ [236] @ js ''m th'' @ [7845] @ js ''y transcript ph'' @ [249] @ js '' h'' @ [7907] @ js ''p.''"

definition renderRagPickerList :: "env \<Rightarrow> local_time \<Rightarrow> rag \<Rightarrow> ((jnum \<times> part list) list \<times> ustr option) prog" where
  "renderRagPickerList e lt g =
     (if rg_filtered g = [] then ret ([], Some NO_SOURCE)
      else do { rows \<leftarrow> rag_rows e lt g (rg_filtered g); ret (rows, None) })"


subsection \<open>No text becomes markup\<close>

lemma bubble_formed: "well_formed (bubble_parts t meta)" "well_formed (answer_parts t meta)" "well_formed (transcript_parts t meta)"
proof -
  show "well_formed (bubble_parts t meta)"
    by (rule well_formed_blank, cases "meta = []")
      (simp_all only: bubble_parts_def if_True if_False list.map blank_part.simps simp_thms, code_simp+)
  show "well_formed (answer_parts t meta)"
    by (rule well_formed_blank) (simp only: answer_parts_def list.map blank_part.simps, code_simp)
  show "well_formed (transcript_parts t meta)"
    by (rule well_formed_blank) (simp only: transcript_parts_def list.map blank_part.simps, code_simp)
qed

lemma conv_formed: "well_formed (conv_parts current c)"
proof -
  have time: "well_formed ([Raw (raw ''<div class=`chat-conv-item-time`>''), Txt (c_time c)] @
      (if truthy (JNum (c_count c)) then [Raw (js '' '' @ [8226] @ js '' ''), Num (c_count c)] else []) @ [Raw (raw ''</div>'')])"
    by (rule well_formed_blank, cases "truthy (JNum (c_count c))")
      (simp_all only: if_True if_False list.map blank_part.simps simp_thms append.simps, code_simp+)
  show ?thesis
    unfolding conv_parts_def Let_def
    by (intro well_formed_append well_formed_if well_formed_nil time; rule well_formed_blank, cases "c_sid c = current")
      (simp_all only: if_True if_False list.map blank_part.simps simp_thms, code_simp+)
qed

lemma card_formed: "well_formed (card_parts c)"
  by (rule well_formed_blank, cases "cd_deleting c") (simp_all only: card_parts_def if_True if_False list.map blank_part.simps simp_thms, code_simp+)

lemma chip_formed: "well_formed (chip_parts e lt g sid)"
  by (rule well_formed_blank, cases "sid \<in> set (rg_pinned g)")
    (simp_all only: chip_parts_def Let_def if_True if_False list.map blank_part.simps simp_thms, code_simp+)

lemma rag_row_formed: "well_formed (rag_row_parts e lt g it ms)"
  by (rule well_formed_blank, cases "item_id it \<in> set (rg_selected g)")
    (simp_all only: rag_row_parts_def if_True if_False list.map blank_part.simps simp_thms, code_simp+)

lemma conv_list_formed: "well_formed (conv_list current rows)"
  unfolding conv_list_def by (intro well_formed_concat) (simp add: list_all_iff conv_formed)

lemma bar_formed: "renderChatRagSelectionBar e lt g = Some ps \<Longrightarrow> well_formed ps"
proof -
  assume "renderChatRagSelectionBar e lt g = Some ps"
  then have ps: "ps = [Raw (raw ''<span class=`chat-rag-selection-label`></span>'')] @ concat (map (chip_parts e lt g) (take 4 (bar_ids g))) @
      (if 4 < length (bar_ids g)
       then [Raw (raw ''<span class=`chat-rag-selection-more`>+''), Num (JFin (of_nat (length (bar_ids g) - 4))), Raw (raw ''</span>'')] else [])"
    by (auto simp: renderChatRagSelectionBar_def Let_def split: if_splits)
  have chips: "well_formed (concat (map (chip_parts e lt g) (take 4 (bar_ids g))))"
    by (rule well_formed_concat) (simp add: list_all_iff chip_formed)
  show "well_formed ps" unfolding ps
    by (intro well_formed_append well_formed_if well_formed_nil chips; rule well_formed_blank)
      (simp_all only: list.map blank_part.simps, code_simp+)
qed

lemma rag_rows_formed: "run_state (rag_rows e lt g its) w = (rows, w') \<Longrightarrow> list_all (\<lambda>r. well_formed (snd r)) rows"
  by (induction its arbitrary: w rows w') (auto simp: rag_row_formed split: prod.splits if_splits)

text \<open>Property C31: what the side panel writes into its page as markup is that of its templates, whatever texts come from
  pages, speakers, servers and the browser's store: in each template what the browser reads as markup is
  what it reads with all texts and numbers taken out, it ends between tags, and the text shown for an
  escaped text is this text.\<close>

theorem texts_add_no_markup:
  "list_all inert [bubble_parts t meta, answer_parts t meta, transcript_parts t meta, conv_list current rows, card_parts c] \<and>
   (case renderChatRagSelectionBar e lt g of None \<Rightarrow> True | Some ps \<Rightarrow> inert ps) \<and>
   (case run_state (renderRagPickerList e lt g) w of ((sources, note), w') \<Rightarrow> list_all (\<lambda>r. inert (snd r)) sources) \<and>
   unescape (escapeHtml s) = s"
proof (intro conjI)
  show "list_all inert [bubble_parts t meta, answer_parts t meta, transcript_parts t meta, conv_list current rows, card_parts c]"
    by (simp add: well_formed_inert bubble_formed conv_list_formed card_formed)
  show "case renderChatRagSelectionBar e lt g of None \<Rightarrow> True | Some ps \<Rightarrow> inert ps"
    by (auto split: option.split intro: well_formed_inert bar_formed)
  show "case run_state (renderRagPickerList e lt g) w of ((sources, note), w') \<Rightarrow> list_all (\<lambda>r. inert (snd r)) sources"
    by (auto simp: renderRagPickerList_def split: prod.splits dest!: rag_rows_formed elim!: list.pred_mono_strong intro: well_formed_inert)
  show "unescape (escapeHtml s) = s" using unescape_escape [of s "[]"] by simp
qed

end
