(* ===== verification/Panel_Place.thy ===== *)
theory Panel_Place
  imports Complex_Main
begin

section \<open>sidepanel.js: where the windows of the chat are put\<close>

text \<open>
  The picker of the sources is placed above the chip it belongs to, inside the chat, and the list of the
  conversations at the corner of the history.  Lengths are rationals, the factors 0.66 and 0.78 exact;
  \<open>height\<close> is the height the browser reports for the picker after its width and maximal height are set.
\<close>

record rect =
  r_left :: rat
  r_right :: rat
  r_top :: rat
  r_bottom :: rat
  r_width :: rat
  r_height :: rat

definition isElementVisible :: "rect \<Rightarrow> bool" where
  "isElementVisible r \<longleftrightarrow> 0 < r_width r \<and> 0 < r_height r"

text \<open>\<open>Math.round\<close>.\<close>

definition math_round :: "rat \<Rightarrow> int" where
  "math_round x = \<lfloor>x + 1 / 2\<rfloor>"

lemma math_round_bounds: "of_int (math_round x) \<le> x + 1 / 2" "x - 1 / 2 < of_int (math_round x)"
  unfolding math_round_def by linarith+

subsection \<open>The picker\<close>

text \<open>The first of the chip, the element that was used, and the two buttons that is visible, the second in any case.\<close>

definition pick_anchor :: "rect \<Rightarrow> rect option \<Rightarrow> rect \<Rightarrow> rect \<Rightarrow> rect option" where
  "pick_anchor chip used retrieve store =
     (if isElementVisible chip then Some chip
      else case used of Some r \<Rightarrow> Some r
      | None \<Rightarrow> if isElementVisible retrieve then Some retrieve else if isElementVisible store then Some store else None)"

definition pick_host :: "rect \<Rightarrow> rect \<Rightarrow> rect option" where
  "pick_host chat panel = (if isElementVisible chat then Some chat else if isElementVisible panel then Some panel else None)"

record place =
  pl_width :: int
  pl_maxHeight :: int
  pl_height :: rat
  pl_left :: int
  pl_top :: int
  pl_tail :: int

definition host_left :: "rect option \<Rightarrow> int" where
  "host_left h = (case h of None \<Rightarrow> 8 | Some r \<Rightarrow> math_round (r_left r))"

definition host_right :: "int \<Rightarrow> rect option \<Rightarrow> int" where
  "host_right vw h = (case h of None \<Rightarrow> math_round (of_int vw - 8) | Some r \<Rightarrow> math_round (r_right r))"

definition host_top :: "rect option \<Rightarrow> int" where
  "host_top h = (case h of None \<Rightarrow> 8 | Some r \<Rightarrow> math_round (r_top r))"

definition host_bottom :: "int \<Rightarrow> rect option \<Rightarrow> int" where
  "host_bottom vh h = (case h of None \<Rightarrow> math_round (of_int vh - 8) | Some r \<Rightarrow> math_round (r_bottom r))"

definition picker_width :: "int \<Rightarrow> rect option \<Rightarrow> int" where
  "picker_width vw h =
     (let hostWidth = max 260 (host_right vw h - host_left h); desired = math_round (of_int hostWidth * (66 / 100))
      in min (max 360 desired) (min 780 (min (vw - 20) (max 260 (hostWidth - 8)))))"

definition room_above :: "rect \<Rightarrow> rect option \<Rightarrow> int" where
  "room_above a h = max 0 \<lfloor>r_top a - of_int (host_top h) - 12 - 8 - 8\<rfloor>"

definition picker_maxHeight :: "int \<Rightarrow> rect \<Rightarrow> rect option \<Rightarrow> int" where
  "picker_maxHeight vh a h =
     (let desired = min 680 (max 300 (math_round (of_int (host_bottom vh h - host_top h) * (78 / 100))));
          m = min desired (room_above a h)
      in if m \<le> 0 then 24 else m)"

definition left_bound :: "rect option \<Rightarrow> int" where
  "left_bound h = (case h of None \<Rightarrow> 10 | Some r \<Rightarrow> max 8 (math_round (r_left r + 4)))"

definition right_bound :: "int \<Rightarrow> rect option \<Rightarrow> int \<Rightarrow> int" where
  "right_bound vw h width =
     (case h of None \<Rightarrow> math_round (of_int vw - of_int width - 10) | Some r \<Rightarrow> math_round (r_right r - of_int width - 4))"

definition positionRagPicker :: "int \<Rightarrow> int \<Rightarrow> rect \<Rightarrow> rect option \<Rightarrow> rat \<Rightarrow> place" where
  "positionRagPicker vw vh a h height =
     (let width = picker_width vw h;
          maxH = picker_maxHeight vh a h;
          ph = min (if height = 0 then of_int maxH else height) (of_int maxH);
          left0 = math_round (r_left a - of_int width * (2 / 10));
          left1 = (if right_bound vw h width < left0 then right_bound vw h width else left0);
          left = (if left1 < left_bound h then left_bound h else left1);
          top0 = math_round (r_top a - ph - 12 - 8);
          minTop = math_round (of_int (host_top h) + 8);
          top' = (if top0 < minTop then minTop else top0);
          tail = max 24 (min (width - 24) (math_round (r_left a + r_width a / 2 - of_int left)))
      in \<lparr>pl_width = width, pl_maxHeight = maxH, pl_height = ph, pl_left = left, pl_top = top', pl_tail = tail\<rparr>)"

subsection \<open>The list of the conversations\<close>

definition positionChatConversationAnchor :: "rect \<Rightarrow> rect \<Rightarrow> (int \<times> int \<times> int) option" where
  "positionChatConversationAnchor view history =
     (if r_width view \<le> 0 \<or> r_height view \<le> 0 \<or> r_width history \<le> 0 \<or> r_height history \<le> 0 then None
      else Some (max 8 (math_round (r_left history - r_left view + 8)), max 8 (math_round (r_top history - r_top view + 8)),
             min 360 (max 220 (math_round (r_width history - 12)))))"

subsection \<open>What the places promise\<close>

lemma math_round_int: "math_round (of_int k) = k"
  unfolding math_round_def by linarith

text \<open>
  The picker stays below the upper edge of the chat and right of its left edge; it does not go over its right edge
  when it fits between both, its arrow stays on it; and when there is any room above the chip it ends, arrow
  included, above the chip, up to the rounding by half a pixel.
\<close>

lemma picker_inside:
  assumes p_def: "p = positionRagPicker vw vh a h height"
  shows "host_top h + 8 \<le> pl_top p" and "left_bound h \<le> pl_left p" and "24 \<le> pl_tail p"
    and "48 \<le> pl_width p \<Longrightarrow> pl_tail p \<le> pl_width p - 24"
    and "left_bound h \<le> right_bound vw h (pl_width p) \<Longrightarrow> pl_left p \<le> right_bound vw h (pl_width p)"
    and "0 < room_above a h \<Longrightarrow> of_int (pl_top p) + pl_height p + 20 \<le> r_top a + 1 / 2"
proof -
  have m: "math_round (of_int (host_top h) + 8) = host_top h + 8"
    using math_round_int [of "host_top h + 8"] by simp
  show "host_top h + 8 \<le> pl_top p" "left_bound h \<le> pl_left p" "24 \<le> pl_tail p" "48 \<le> pl_width p \<Longrightarrow> pl_tail p \<le> pl_width p - 24"
    "left_bound h \<le> right_bound vw h (pl_width p) \<Longrightarrow> pl_left p \<le> right_bound vw h (pl_width p)"
    by (auto simp: p_def positionRagPicker_def Let_def m)
  assume room: "0 < room_above a h"
  have high: "of_int (picker_maxHeight vh a h) \<le> r_top a - of_int (host_top h) - 28"
  proof -
    have "picker_maxHeight vh a h \<le> room_above a h"
      using room by (auto simp: picker_maxHeight_def Let_def)
    moreover have "of_int (room_above a h) \<le> r_top a - of_int (host_top h) - 28"
      using room by (auto simp: room_above_def max_def split: if_splits)
    ultimately show ?thesis by linarith
  qed
  define ph where "ph = min (if height = 0 then of_int (picker_maxHeight vh a h) else height) (of_int (picker_maxHeight vh a h))"
  have hp: "pl_height p = ph" by (simp add: p_def positionRagPicker_def Let_def ph_def)
  have top: "pl_top p = max (host_top h + 8) (math_round (r_top a - ph - 12 - 8))"
    by (simp add: p_def positionRagPicker_def Let_def m ph_def)
  have "ph \<le> of_int (picker_maxHeight vh a h)" by (simp add: ph_def)
  with high have low: "of_int (host_top h + 8) + ph + 20 \<le> r_top a" by (simp add: algebra_simps)
  have "of_int (math_round (r_top a - ph - 12 - 8)) + ph + 20 \<le> r_top a + 1 / 2"
    using math_round_bounds(1) [of "r_top a - ph - 12 - 8"] by linarith
  then show "of_int (pl_top p) + pl_height p + 20 \<le> r_top a + 1 / 2"
    unfolding top hp max_def using low by (split if_split) linarith
qed

text \<open>Without room above the chip the picker is given 24 pixels all the same, and covers it.\<close>

definition tight_host :: rect where
  "tight_host = \<lparr>r_left = 0, r_right = 400, r_top = 0, r_bottom = 120, r_width = 400, r_height = 120\<rparr>"

definition tight_chip :: rect where
  "tight_chip = \<lparr>r_left = 20, r_right = 90, r_top = 25, r_bottom = 50, r_width = 70, r_height = 25\<rparr>"

lemma tight_picker_overlaps:
  "case positionRagPicker 400 120 tight_chip (Some tight_host) 24 of p \<Rightarrow>
     pl_top p = 8 \<and> pl_height p = 24 \<and> r_top tight_chip < of_int (pl_top p) + pl_height p"
  by code_simp

end
